(* ===== verification/Prelude.thy ===== *)
theory Prelude
  imports Main "HOL-Library.Word"
begin

text \<open>
  Shared vocabulary of the development: the machine integers of the Rust code, results that may
  fail, byte buffers, slices and the little-endian codecs (\<open>u64::from_le_bytes\<close> and
  its kin) with both of their round-trip laws.  Nothing here is specific to a component.
\<close>

section \<open>Types\<close>

type_synonym u8 = "8 word"
type_synonym u16 = "16 word"
type_synonym u32 = "32 word"
type_synonym u64 = "64 word"
type_synonym u128 = "128 word"
type_synonym bytes = "8 word list"

text \<open>
  A \<open>Pubkey\<close> is an array of 32 bytes.  It is kept as the 256-bit word whose little-endian
  bytes are that array, so every value of the type is a key and no length has to be carried around;
  \<open>Pubkey::default()\<close>, the all-zero array, is \<open>0\<close>.
\<close>

type_synonym pubkey = "256 word"

section \<open>Results that may fail\<close>

text \<open>\<open>Inl\<close> is \<open>Err\<close>, \<open>Inr\<close> is \<open>Ok\<close>; \<open>bindE\<close> is the \<open>?\<close> operator.\<close>

definition bindE :: "'e + 'a \<Rightarrow> ('a \<Rightarrow> 'e + 'b) \<Rightarrow> 'e + 'b" where
  "bindE m f = (case m of Inl e \<Rightarrow> Inl e | Inr x \<Rightarrow> f x)"

definition ok_or :: "'e \<Rightarrow> 'a option \<Rightarrow> 'e + 'a" where
  "ok_or e m = (case m of None \<Rightarrow> Inl e | Some x \<Rightarrow> Inr x)"

definition map_err :: "('e \<Rightarrow> 'f) \<Rightarrow> 'e + 'a \<Rightarrow> 'f + 'a" where
  "map_err f m = (case m of Inl e \<Rightarrow> Inl (f e) | Inr x \<Rightarrow> Inr x)"

fun mapE :: "('a \<Rightarrow> 'e + 'b) \<Rightarrow> 'a list \<Rightarrow> 'e + 'b list" where
  "mapE f [] = Inr []"
| "mapE f (x # xs) = bindE (f x) (\<lambda>y. bindE (mapE f xs) (\<lambda>ys. Inr (y # ys)))"

fun isOk :: "'e + 'a \<Rightarrow> bool" where
  "isOk (Inl _) = False"
| "isOk (Inr _) = True"

lemma bindE_cong [fundef_cong]:
  "m = m' \<Longrightarrow> (\<And>x. m' = Inr x \<Longrightarrow> f x = g x) \<Longrightarrow> bindE m f = bindE m' g"
  by (cases m') (auto simp: bindE_def)

lemma bindE_simps [simp]: "bindE (Inl e) f = Inl e" "bindE (Inr x) f = f x"
  by (simp_all add: bindE_def)

lemma map_err_simps [simp]: "map_err h (Inl e) = Inl (h e)" "map_err h (Inr x) = Inr x"
  by (simp_all add: map_err_def)

lemma ok_or_simps [simp]: "ok_or e None = Inl e" "ok_or e (Some x) = Inr x"
  by (simp_all add: ok_or_def)

text \<open>
  A successful run takes the non-failing branch everywhere.  These equations turn a hypothesis
  \<open>handler \<dots> = Inr w\<close> into the conjunction of the checks that were passed, without a
  case split per check.
\<close>

named_theorems success_simps \<open>what a successful result says about each step\<close>

lemma bindE_Inr [success_simps]: "bindE m f = Inr y \<longleftrightarrow> (\<exists>x. m = Inr x \<and> f x = Inr y)"
  by (cases m) auto

lemma map_err_Inr [success_simps]: "map_err h m = Inr y \<longleftrightarrow> m = Inr y"
  by (cases m) auto

lemma ok_or_Inr [success_simps]: "ok_or e m = Inr y \<longleftrightarrow> m = Some y"
  by (cases m) auto

lemma if_Inl_Inr [success_simps]:
  "((if b then Inl e else k) = Inr y) = (\<not> b \<and> k = Inr y)"
  "((if b then k else Inl e) = Inr y) = (b \<and> k = Inr y)"
  by auto

lemma isOk_iff: "isOk m \<longleftrightarrow> (\<exists>x. m = Inr x)"
  by (cases m) auto

lemma not_isOk_iff: "\<not> isOk m \<longleftrightarrow> (\<exists>e. m = Inl e)"
  by (cases m) auto

section \<open>Checked arithmetic\<close>

lemma unat_less_2p: "unat (w :: 'a::len word) < 2 ^ LENGTH('a)"
  by (rule unsigned_less)

definition checked_add :: "'a::len word \<Rightarrow> 'a word \<Rightarrow> 'a word option" where
  "checked_add a b = (if unat a + unat b < 2 ^ LENGTH('a) then Some (a + b) else None)"

definition checked_sub :: "'a::len word \<Rightarrow> 'a word \<Rightarrow> 'a word option" where
  "checked_sub a b = (if b \<le> a then Some (a - b) else None)"

definition checked_mul :: "'a::len word \<Rightarrow> 'a word \<Rightarrow> 'a word option" where
  "checked_mul a b = (if unat a * unat b < 2 ^ LENGTH('a) then Some (a * b) else None)"

definition checked_div :: "'a::len word \<Rightarrow> 'a word \<Rightarrow> 'a word option" where
  "checked_div a b = (if b = 0 then None else Some (a div b))"

definition saturating_add :: "'a::len word \<Rightarrow> 'a word \<Rightarrow> 'a word" where
  "saturating_add a b = (if unat a + unat b < 2 ^ LENGTH('a) then a + b else -1)"

definition saturating_sub :: "'a::len word \<Rightarrow> 'a word \<Rightarrow> 'a word" where
  "saturating_sub a b = (if b \<le> a then a - b else 0)"

lemma checked_add_Some:
  "checked_add a b = Some (c :: 'a::len word) \<longleftrightarrow> unat c = unat a + unat b"
proof
  assume "checked_add a b = Some c"
  then show "unat c = unat a + unat b"
    by (auto simp: checked_add_def unat_word_ariths split: if_splits)
next
  assume c: "unat c = unat a + unat b"
  then have "unat a + unat b < 2 ^ LENGTH('a)"
    using unat_less_2p [of c] by simp
  moreover from this c have "c = a + b"
    by (intro word_unat_eq_iff [THEN iffD2]) (simp add: unat_word_ariths)
  ultimately show "checked_add a b = Some c" by (simp add: checked_add_def)
qed

lemma checked_add_None: "checked_add a (b :: 'a::len word) = None \<longleftrightarrow> 2 ^ LENGTH('a) \<le> unat a + unat b"
  by (auto simp: checked_add_def)

lemma checked_sub_Some:
  "checked_sub a b = Some (c :: 'a::len word) \<longleftrightarrow> unat a = unat b + unat c"
proof
  assume "checked_sub a b = Some c"
  then show "unat a = unat b + unat c"
    by (auto simp: checked_sub_def unat_sub word_le_nat_alt split: if_splits)
next
  assume c: "unat a = unat b + unat c"
  then have "b \<le> a" by (simp add: word_le_nat_alt)
  moreover from this c have "c = a - b"
    by (intro word_unat_eq_iff [THEN iffD2]) (simp add: unat_sub)
  ultimately show "checked_sub a b = Some c" by (simp add: checked_sub_def)
qed

lemma checked_mul_Some:
  "checked_mul a b = Some (c :: 'a::len word) \<longleftrightarrow> unat c = unat a * unat b"
proof
  assume "checked_mul a b = Some c"
  then show "unat c = unat a * unat b"
    by (auto simp: checked_mul_def unat_word_ariths split: if_splits)
next
  assume c: "unat c = unat a * unat b"
  then have "unat a * unat b < 2 ^ LENGTH('a)"
    using unat_less_2p [of c] by simp
  moreover from this c have "c = a * b"
    by (intro word_unat_eq_iff [THEN iffD2]) (simp add: unat_word_ariths)
  ultimately show "checked_mul a b = Some c" by (simp add: checked_mul_def)
qed

lemma checked_div_Some:
  "checked_div a b = Some (c :: 'a::len word) \<longleftrightarrow> b \<noteq> 0 \<and> unat c = unat a div unat b"
  by (auto simp: checked_div_def unat_div word_unat_eq_iff)

lemma checked_add_ok:
  fixes a b :: "'a::len word"
  assumes "unat a + unat b < 2 ^ LENGTH('a)"
  obtains c where "checked_add a b = Some c" "unat c = unat a + unat b"
  using assms that checked_add_Some [of a b "a + b"] by (simp add: checked_add_def)

lemma checked_sub_ok:
  fixes a b :: "'a::len word"
  assumes "unat b \<le> unat a"
  obtains c where "checked_sub a b = Some c" "unat c = unat a - unat b"
  using assms that checked_sub_Some [of a b "a - b"] by (simp add: checked_sub_def word_le_nat_alt)

lemma checked_mul_ok:
  fixes a b :: "'a::len word"
  assumes "unat a * unat b < 2 ^ LENGTH('a)"
  obtains c where "checked_mul a b = Some c" "unat c = unat a * unat b"
  using assms that checked_mul_Some [of a b "a * b"] by (simp add: checked_mul_def)

section \<open>Slices\<close>

text \<open>\<open>slice_of b i j\<close> is \<open>&b[i..j]\<close> for \<open>i \<le> j \<le> b.len()\<close>; the
  callers check the bounds first, as the code does.  \<open>splice b i v\<close> overwrites the bytes from
  index \<open>i\<close> with \<open>v\<close>.\<close>

definition slice_of :: "'a list \<Rightarrow> nat \<Rightarrow> nat \<Rightarrow> 'a list" where
  "slice_of b i j = take (j - i) (drop i b)"

definition splice :: "'a list \<Rightarrow> nat \<Rightarrow> 'a list \<Rightarrow> 'a list" where
  "splice b i v = take i b @ v @ drop (i + length v) b"

lemma length_slice_of [simp]: "i \<le> j \<Longrightarrow> j \<le> length b \<Longrightarrow> length (slice_of b i j) = j - i"
  by (simp add: slice_of_def)

lemma slice_of_append_slice_of:
  assumes "i \<le> j" "j \<le> k"
  shows "slice_of b i j @ slice_of b j k = slice_of b i k"
proof -
  have "take (j - i) (drop i b) @ take (k - j) (drop (j - i) (drop i b)) = take ((j - i) + (k - j)) (drop i b)"
    by (rule take_add [symmetric])
  with assms show ?thesis by (simp add: slice_of_def)
qed

lemma slice_of_all: "slice_of b 0 (length b) = b"
  by (simp add: slice_of_def)

lemma length_splice [simp]: "i + length v \<le> length b \<Longrightarrow> length (splice b i v) = length b"
  by (simp add: splice_def)

lemma splice_id:
  assumes "i \<le> j" "j \<le> length b"
  shows "splice b i (slice_of b i j) = b"
proof -
  have "take (j - i) (drop i b) @ drop j b = drop i b"
    using assms append_take_drop_id [of "j - i" "drop i b"] by simp
  with assms show ?thesis by (simp add: splice_def slice_of_def append_take_drop_id)
qed

text \<open>Reading a field of a buffer that was built by concatenation.\<close>

lemma slice_of_skip [simp]:
  "length a \<le> i \<Longrightarrow> slice_of (a @ b) i j = slice_of b (i - length a) (j - length a)"
  by (simp add: slice_of_def)

lemma slice_of_here [simp]: "length a = j \<Longrightarrow> slice_of (a @ b) 0 j = a"
  by (simp add: slice_of_def)

lemma slice_of_whole [simp]: "length a = j \<Longrightarrow> slice_of a 0 j = a"
  by (simp add: slice_of_def)

lemma slice_of_slice_of:
  "i \<le> j \<Longrightarrow> k + j \<le> l \<Longrightarrow> slice_of (slice_of b k l) i j = slice_of b (k + i) (k + j)"
  by (simp add: slice_of_def drop_take take_take add.commute min_def)

section \<open>Little-endian integers\<close>

fun le_nat :: "bytes \<Rightarrow> nat" where
  "le_nat [] = 0"
| "le_nat (b # bs) = unat b + 256 * le_nat bs"

fun nat_le :: "nat \<Rightarrow> nat \<Rightarrow> bytes" where
  "nat_le 0 n = []"
| "nat_le (Suc k) n = of_nat (n mod 256) # nat_le k (n div 256)"

definition le_word :: "bytes \<Rightarrow> 'a::len word" where
  "le_word bs = of_nat (le_nat bs)"

definition word_le :: "'a::len word \<Rightarrow> bytes" where
  "word_le w = nat_le (LENGTH('a) div 8) (unat w)"

lemma length_nat_le [simp]: "length (nat_le k n) = k"
  by (induction k arbitrary: n) auto

lemma le_nat_bound: "le_nat bs < 256 ^ length bs"
proof (induction bs)
  case (Cons b bs)
  have "unat b < 256" using unat_less_2p [of b] by simp
  with Cons show ?case by simp
qed simp

lemma le_nat_nat_le: "n < 256 ^ k \<Longrightarrow> le_nat (nat_le k n) = n"
proof (induction k arbitrary: n)
  case (Suc k)
  then have "n div 256 < 256 ^ k" by (simp add: less_mult_imp_div_less mult.commute)
  with Suc.IH show ?case by (simp add: unat_of_nat take_bit_nat_def)
qed simp

lemma nat_le_le_nat: "nat_le (length bs) (le_nat bs) = bs"
proof (induction bs)
  case (Cons b bs)
  have "unat b < 256" using unat_less_2p [of b] by simp
  with Cons show ?case by simp
qed simp

lemma length_word_le [simp]: "length (word_le (w :: 'a::len word)) = LENGTH('a) div 8"
  by (simp add: word_le_def)

lemma le_word_word_le:
  "LENGTH('a) = 8 * k \<Longrightarrow> le_word (word_le (w :: 'a::len word)) = w"
  using unat_less_2p [of w]
  by (simp add: le_word_def word_le_def le_nat_nat_le power_mult)

lemma word_le_le_word:
  "LENGTH('a) = 8 * length bs \<Longrightarrow> word_le (le_word bs :: 'a::len word) = bs"
  using le_nat_bound [of bs] nat_le_le_nat [of bs]
  by (simp add: le_word_def word_le_def unat_of_nat take_bit_nat_def power_mult)

lemma le_word_word_le_simps [simp]:
  "le_word (word_le (a :: u8)) = a" "le_word (word_le (b :: u16)) = b"
  "le_word (word_le (c :: u32)) = c" "le_word (word_le (d :: u64)) = d"
  "le_word (word_le (p :: pubkey)) = p"
  by (rule le_word_word_le [of 1] le_word_word_le [of 2] le_word_word_le [of 4]
      le_word_word_le [of 8] le_word_word_le [of 32], simp)+

lemma word_le_u8: "word_le (b :: u8) = [b]"
  using unat_less_2p [of b] by (simp add: word_le_def)

lemma le_word_u8: "le_word [b] = (b :: u8)"
  by (simp add: le_word_def)

end
