(* ===== verification/Errors.thy ===== *)
theory Errors
  imports Prelude
begin

text \<open>
  The error values of the program (\<open>src/programs/src/error.rs\<close>).  \<open>token_error\<close>
  is \<open>TokenError\<close>, constructor for constructor; \<open>program_error\<close> holds the
  constructors of the SDK's \<open>ProgramError\<close> that the source raises.  A run that panics
  (a failed \<open>RefCell\<close> borrow, an index out of range, \<open>unreachable!\<close>) is the value
  \<open>Panic\<close>: like an error it makes the runtime discard the transaction.
\<close>

datatype program_error =
    Custom u32
  | InvalidArgument
  | InvalidInstructionData
  | InvalidAccountData
  | AccountDataTooSmall
  | IncorrectProgramId
  | MissingRequiredSignature
  | UninitializedAccount
  | NotEnoughAccountKeys
  | AccountBorrowFailed
  | IllegalOwner
  | InvalidSeeds

datatype (plugins only: code size) token_error =
    NotRentExempt | InsufficientFunds | InvalidMint | MintMismatch | OwnerMismatch
  | FixedSupply | AlreadyInUse | InvalidNumberOfProvidedSigners
  | InvalidNumberOfRequiredSigners | UninitializedState
  | NativeNotSupported | NonNativeHasBalance | InvalidInstruction | InvalidState | Overflow
  | AuthorityTypeNotSupported | MintCannotFreeze | AccountFrozen | MintDecimalsMismatch
  | NonNativeNotSupported
  | ExtensionTypeMismatch | ExtensionBaseMismatch | ExtensionAlreadyInitialized
  | ConfidentialTransferAccountHasBalance | ConfidentialTransferAccountNotApproved
  | ConfidentialTransferDepositsAndTransfersDisabled
  | ConfidentialTransferElGamalPubkeyMismatch | ConfidentialTransferBalanceMismatch
  | MintHasSupply | NoAuthorityExists
  | TransferFeeExceedsMaximum | MintRequiredForTransfer | FeeMismatch | FeeParametersMismatch
  | ImmutableOwner
  | AccountHasWithheldTransferFees | NoMemo | NonTransferable
  | NonTransferableNeedsImmutableOwnership | MaximumPendingBalanceCreditCounterExceeded
  | MaximumDepositAmountExceeded | CpiGuardSettingsLocked | CpiGuardTransferBlocked
  | CpiGuardBurnBlocked | CpiGuardCloseAccountBlocked
  | CpiGuardApproveBlocked | CpiGuardSetAuthorityBlocked | CpiGuardOwnerChangeBlocked
  | ExtensionNotFound | NonConfidentialTransfersDisabled
  | ConfidentialTransferFeeAccountHasWithheldFee | InvalidExtensionCombination
  | InvalidLengthForAlloc | AccountDecryption | ProofGeneration
  | InvalidProofInstructionOffset | HarvestToMintDisabled
  | SplitProofContextStateAccountsNotSupported | NotEnoughProofContextStateAccounts
  | MalformedCiphertext
  | CiphertextArithmeticFailed

text \<open>
  The discriminants (\<open>e as u32\<close>): the position in the declaration.  \<open>token_errors\<close>
  lists the constructors in that order.
\<close>

definition token_errors :: "token_error list" where
  "token_errors =
    [NotRentExempt, InsufficientFunds, InvalidMint, MintMismatch, OwnerMismatch,
     FixedSupply, AlreadyInUse, InvalidNumberOfProvidedSigners,
     InvalidNumberOfRequiredSigners, UninitializedState,
     NativeNotSupported, NonNativeHasBalance, InvalidInstruction, InvalidState, Overflow,
     AuthorityTypeNotSupported, MintCannotFreeze, AccountFrozen, MintDecimalsMismatch,
     NonNativeNotSupported,
     ExtensionTypeMismatch, ExtensionBaseMismatch, ExtensionAlreadyInitialized,
     ConfidentialTransferAccountHasBalance, ConfidentialTransferAccountNotApproved,
     ConfidentialTransferDepositsAndTransfersDisabled,
     ConfidentialTransferElGamalPubkeyMismatch, ConfidentialTransferBalanceMismatch,
     MintHasSupply, NoAuthorityExists,
     TransferFeeExceedsMaximum, MintRequiredForTransfer, FeeMismatch, FeeParametersMismatch,
     ImmutableOwner,
     AccountHasWithheldTransferFees, NoMemo, NonTransferable,
     NonTransferableNeedsImmutableOwnership, MaximumPendingBalanceCreditCounterExceeded,
     MaximumDepositAmountExceeded, CpiGuardSettingsLocked, CpiGuardTransferBlocked,
     CpiGuardBurnBlocked, CpiGuardCloseAccountBlocked,
     CpiGuardApproveBlocked, CpiGuardSetAuthorityBlocked, CpiGuardOwnerChangeBlocked,
     ExtensionNotFound, NonConfidentialTransfersDisabled,
     ConfidentialTransferFeeAccountHasWithheldFee, InvalidExtensionCombination,
     InvalidLengthForAlloc, AccountDecryption, ProofGeneration,
     InvalidProofInstructionOffset, HarvestToMintDisabled,
     SplitProofContextStateAccountsNotSupported, NotEnoughProofContextStateAccounts,
     MalformedCiphertext,
     CiphertextArithmeticFailed]"

fun index_of :: "'a \<Rightarrow> 'a list \<Rightarrow> nat" where
  "index_of x [] = 0"
| "index_of x (y # ys) = (if x = y then 0 else Suc (index_of x ys))"

lemma index_of_nth: "x \<in> set xs \<Longrightarrow> index_of x xs < length xs \<and> xs ! index_of x xs = x"
  by (induction xs) auto

lemma index_of_distinct: "distinct xs \<Longrightarrow> i < length xs \<Longrightarrow> index_of (xs ! i) xs = i"
  by (induction xs arbitrary: i) (auto simp: nth_Cons' )

definition token_error_code :: "token_error \<Rightarrow> u32" where
  "token_error_code e = of_nat (index_of e token_errors)"

definition program_error_of :: "token_error \<Rightarrow> program_error" where
  "program_error_of e = Custom (token_error_code e)"

text \<open>
  The errors a run ends with.  \<open>Token e\<close> stands for the converted
  \<open>ProgramError::Custom(e as u32)\<close>; \<open>returned_error\<close> is the value the entry point
  returns, \<open>None\<close> for a panic, which returns nothing.
\<close>

datatype error = Prog program_error | Token token_error | Panic

type_synonym 'a result = "error + 'a"

fun returned_error :: "error \<Rightarrow> program_error option" where
  "returned_error (Prog e) = Some e"
| "returned_error (Token e) = Some (program_error_of e)"
| "returned_error Panic = None"

lemma all_token_errors: "e \<in> set token_errors"
  by (cases e) (simp_all add: token_errors_def)

lemma length_token_errors: "length token_errors = 61"
  by (simp add: token_errors_def)

lemma unat_token_error_code: "unat (token_error_code e) = index_of e token_errors"
proof -
  have "index_of e token_errors < 61"
    using index_of_nth [OF all_token_errors, of e] by (simp add: length_token_errors)
  then show ?thesis by (simp add: token_error_code_def unat_of_nat take_bit_nat_def)
qed

lemma token_error_code_inj: "token_error_code e = token_error_code f \<Longrightarrow> e = f"
proof -
  assume eq: "token_error_code e = token_error_code f"
  then have "index_of e token_errors = index_of f token_errors"
    by (simp flip: unat_token_error_code)
  then show "e = f"
    using index_of_nth [OF all_token_errors, of e] index_of_nth [OF all_token_errors, of f] by metis
qed

end
