(* ===== verification/Runtime.thy ===== *)
theory Runtime
  imports Errors
begin

text \<open>
  What surrounds the program: the accounts of a transaction, the \<open>AccountInfo\<close>s an instruction
  receives, and the services of the Solana SDK and of third-party crates, which are not part of the
  repository.  The latter are the fields of the record \<open>env\<close>, an argument of every
  definition that uses them.
\<close>

section \<open>Accounts\<close>

text \<open>
  An account of the ledger.  The runtime hands out one shared cell per key, so two
  \<open>AccountInfo\<close>s with equal keys alias the same lamports and data: the model keeps the cells
  in a map from keys and an \<open>account_info\<close> refers to its cell by key.
\<close>

record acct =
  lamports :: u64
  acct_owner :: pubkey
  acct_data :: bytes

record world =
  cells :: "pubkey \<Rightarrow> acct"
  return_data :: bytes

record account_info =
  key :: pubkey
  is_signer :: bool

definition data_of :: "world \<Rightarrow> account_info \<Rightarrow> bytes" where
  "data_of w a = acct_data (cells w (key a))"

definition owner_of :: "world \<Rightarrow> account_info \<Rightarrow> pubkey" where
  "owner_of w a = acct_owner (cells w (key a))"

definition lamports_of :: "world \<Rightarrow> account_info \<Rightarrow> u64" where
  "lamports_of w a = lamports (cells w (key a))"

definition set_data :: "account_info \<Rightarrow> bytes \<Rightarrow> world \<Rightarrow> world" where
  "set_data a d w = w\<lparr>cells := (cells w)(key a := (cells w (key a))\<lparr>acct_data := d\<rparr>)\<rparr>"

definition set_lamports :: "account_info \<Rightarrow> u64 \<Rightarrow> world \<Rightarrow> world" where
  "set_lamports a n w = w\<lparr>cells := (cells w)(key a := (cells w (key a))\<lparr>lamports := n\<rparr>)\<rparr>"

definition set_owner :: "account_info \<Rightarrow> pubkey \<Rightarrow> world \<Rightarrow> world" where
  "set_owner a p w = w\<lparr>cells := (cells w)(key a := (cells w (key a))\<lparr>acct_owner := p\<rparr>)\<rparr>"

section \<open>Services outside the repository\<close>

record rent =
  is_exempt :: "u64 \<Rightarrow> nat \<Rightarrow> bool"
  minimum_balance :: "nat \<Rightarrow> u64"

record clock =
  epoch :: u64
  unix_timestamp :: "64 word"

text \<open>The instructions of the system program that the program invokes.\<close>

datatype system_instruction =
    system_transfer pubkey pubkey u64
  | system_allocate pubkey u64
  | system_assign pubkey pubkey

text \<open>
  In the order of the fields: \<open>bool::from(PodBool)\<close> and \<open>PodBool::from_bool\<close>; the
  error of \<open>spl_pod::bytemuck::pod_from_bytes\<close> on a slice of the wrong length; the error of
  converting \<open>Some(Pubkey::default())\<close> to \<open>OptionalNonZeroPubkey\<close>; the ids of
  foreign programs and accounts; \<open>Clock::get\<close>, \<open>Rent::get\<close> and
  \<open>Rent::from_account_info\<close>; \<open>get_stack_height\<close> and the constant it is compared
  with; the program of \<open>get_processed_sibling_instruction(i)\<close>; the CPI of
  \<open>spl_transfer_hook_interface::onchain::invoke_execute\<close>; a CPI of the system program;
  \<open>AccountInfo::realloc(new_len, false)\<close>; the packed sizes of the structs
  of \<open>solana_zk_token_sdk\<close> and \<open>spl_token_group_interface\<close>.
\<close>

record env =
  pod_bool :: "u8 \<Rightarrow> bool"
  pod_of_bool :: "bool \<Rightarrow> u8"
  pod_size_error :: error
  zero_key_error :: error
  system_program_id :: pubkey
  incinerator_id :: pubkey
  spl_token_id :: pubkey
  zk_token_proof_program_id :: pubkey
  memo_id :: pubkey
  memo_v1_id :: pubkey
  clock_get :: "clock result"
  rent_get :: "rent result"
  rent_from_account_info :: "account_info \<Rightarrow> world \<Rightarrow> rent result"
  stack_height :: nat
  transaction_level_stack_height :: nat
  sibling_program :: "nat \<Rightarrow> pubkey option"
  invoke_execute :: "pubkey \<Rightarrow> account_info list \<Rightarrow> account_info list \<Rightarrow> u64 \<Rightarrow> world \<Rightarrow> world result"
  invoke_system :: "system_instruction \<Rightarrow> account_info list \<Rightarrow> world \<Rightarrow> world result"
  realloc_account :: "account_info \<Rightarrow> nat \<Rightarrow> world \<Rightarrow> world result"
  elgamal_pubkey_len :: nat
  elgamal_ciphertext_len :: nat
  ae_ciphertext_len :: nat
  token_group_len :: nat
  token_group_member_len :: nat

text \<open>The documented contract of \<open>PodBool\<close>: a byte, 0 for false and 1 for true.\<close>

definition pod_bool_ok :: "env \<Rightarrow> bool" where
  "pod_bool_ok E \<longleftrightarrow> \<not> pod_bool E 0 \<and> pod_bool E 1 \<and> pod_of_bool E False = 0 \<and> pod_of_bool E True = 1"

text \<open>The documented contract of \<open>AccountInfo::realloc\<close> within one instruction: the data is cut or
  extended, and the memory it grows into was zeroed at the entry of the program.\<close>

definition resized :: "nat \<Rightarrow> bytes \<Rightarrow> bytes" where
  "resized n d = take n d @ replicate (n - length d) 0"

definition realloc_ok :: "env \<Rightarrow> bool" where
  "realloc_ok E \<longleftrightarrow> (\<forall>a n w w'. realloc_account E a n w = Inr w' \<longrightarrow> w' = set_data a (resized n (data_of w a)) w)"

text \<open>An environment for concrete runs: no foreign program, one lamport per byte of rent, epoch 5,
  the top level of a transaction.\<close>

fun sample_system :: "system_instruction \<Rightarrow> world \<Rightarrow> world" where
  "sample_system (system_transfer a b n) w =
     set_lamports \<lparr>key = b, is_signer = False\<rparr> (lamports (cells w b) + n)
       (set_lamports \<lparr>key = a, is_signer = False\<rparr> (lamports (cells w a) - n) w)"
| "sample_system (system_allocate a n) w = set_data \<lparr>key = a, is_signer = False\<rparr> (replicate (unat n) 0) w"
| "sample_system (system_assign a p) w = set_owner \<lparr>key = a, is_signer = False\<rparr> p w"

definition sample_refuses :: "system_instruction \<Rightarrow> world \<Rightarrow> bool" where
  "sample_refuses i w \<longleftrightarrow> (case i of system_allocate a n \<Rightarrow> acct_data (cells w a) \<noteq> [] | _ \<Rightarrow> False)"

definition sample_env :: env where
  "sample_env =
     \<lparr>pod_bool = (\<lambda>b. b \<noteq> 0), pod_of_bool = (\<lambda>b. if b then 1 else 0),
      pod_size_error = Prog InvalidArgument, zero_key_error = Prog InvalidArgument,
      system_program_id = 0, incinerator_id = 1, spl_token_id = 2, zk_token_proof_program_id = 3,
      memo_id = 4, memo_v1_id = 5,
      clock_get = Inr \<lparr>epoch = 5, unix_timestamp = 1000\<rparr>,
      rent_get = Inr \<lparr>is_exempt = (\<lambda>l n. of_nat n \<le> l), minimum_balance = of_nat\<rparr>,
      rent_from_account_info = (\<lambda>_ _. Inr \<lparr>is_exempt = (\<lambda>l n. of_nat n \<le> l), minimum_balance = of_nat\<rparr>),
      stack_height = 1, transaction_level_stack_height = 1, sibling_program = (\<lambda>_. None),
      invoke_execute = (\<lambda>_ _ _ _ w. Inr w), 
      invoke_system = (\<lambda>i _ w. if sample_refuses i w then Inl (Prog InvalidArgument) else Inr (sample_system i w)),
      realloc_account = (\<lambda>a n w. Inr (set_data a (resized n (data_of w a)) w)),
      elgamal_pubkey_len = 32, elgamal_ciphertext_len = 64, ae_ciphertext_len = 36,
      token_group_len = 80, token_group_member_len = 72\<rparr>"

lemma sample_env_simps [simp]:
  "pod_bool sample_env b = (b \<noteq> 0)" "pod_of_bool sample_env c = (if c then 1 else 0)"
  "system_program_id sample_env = 0" "incinerator_id sample_env = 1" "spl_token_id sample_env = 2"
  "clock_get sample_env = Inr \<lparr>epoch = 5, unix_timestamp = 1000\<rparr>"
  "stack_height sample_env = 1" "transaction_level_stack_height sample_env = 1"
  "sibling_program sample_env n = None"
  "realloc_account sample_env a n w = Inr (set_data a (resized n (data_of w a)) w)"
  "invoke_system sample_env i as w =
     (if sample_refuses i w then Inl (Prog InvalidArgument) else Inr (sample_system i w))"
  by (simp_all add: sample_env_def)

lemma sample_refuses_simps [simp]:
  "sample_refuses (system_transfer a b n) w = False" "sample_refuses (system_assign a p) w = False"
  "sample_refuses (system_allocate a n) w = (acct_data (cells w a) \<noteq> [])"
  by (simp_all add: sample_refuses_def)

lemma sample_env_ok [simp]: "pod_bool_ok sample_env"
  by (simp add: pod_bool_ok_def)

lemma sample_env_realloc [simp]: "realloc_ok sample_env"
  by (simp add: realloc_ok_def)

section \<open>Reading the list of accounts\<close>

text \<open>\<open>next_account_info(iter)?\<close>: the next account and the rest of the iterator.\<close>

fun next_account_info :: "account_info list \<Rightarrow> (account_info \<times> account_info list) result" where
  "next_account_info [] = Inl (Prog NotEnoughAccountKeys)"
| "next_account_info (a # as) = Inr (a, as)"

lemma next_account_info_Inr [success_simps]:
  "next_account_info as = Inr (a, rest) \<longleftrightarrow> as = a # rest"
  by (cases as) auto

section \<open>Frame rules of the cells\<close>

named_theorems frame \<open>what a write to one cell leaves alone\<close>

lemma cells_set_data [frame]:
  "cells (set_data a d w) k = (if k = key a then (cells w k)\<lparr>acct_data := d\<rparr> else cells w k)"
  by (simp add: set_data_def)

lemma cells_set_lamports [frame]:
  "cells (set_lamports a n w) k = (if k = key a then (cells w k)\<lparr>lamports := n\<rparr> else cells w k)"
  by (simp add: set_lamports_def)

lemma cells_set_owner [frame]:
  "cells (set_owner a p w) k = (if k = key a then (cells w k)\<lparr>acct_owner := p\<rparr> else cells w k)"
  by (simp add: set_owner_def)

lemma data_of_set [frame]:
  "data_of (set_data a d w) b = (if key b = key a then d else data_of w b)"
  "data_of (set_lamports a n w) b = data_of w b"
  "data_of (set_owner a p w) b = data_of w b"
  by (simp_all add: data_of_def frame)

lemma owner_of_set [frame]:
  "owner_of (set_data a d w) b = owner_of w b"
  "owner_of (set_lamports a n w) b = owner_of w b"
  "owner_of (set_owner a p w) b = (if key b = key a then p else owner_of w b)"
  by (simp_all add: owner_of_def frame)

lemma lamports_of_set [frame]:
  "lamports_of (set_data a d w) b = lamports_of w b"
  "lamports_of (set_lamports a n w) b = (if key b = key a then n else lamports_of w b)"
  "lamports_of (set_owner a p w) b = lamports_of w b"
  by (simp_all add: lamports_of_def frame)

end
