(* ===== verification/Pod.thy ===== *)
theory Pod
  imports Runtime
begin

text \<open>
  The base states as plain-old-data (\<open>src/programs/src/pod.rs\<close>): \<open>PodCOption\<close>,
  \<open>PodMint\<close>, \<open>PodAccount\<close>, \<open>PodMultisig\<close> and the conversion of
  \<open>PodCOption<Pubkey>\<close> to \<open>OptionalNonZeroPubkey\<close>.  A \<open>repr(C)\<close> struct of
  byte arrays is its fields one after the other; \<open>\<dots>_of_bytes\<close> and \<open>\<dots>_bytes\<close>
  are the two directions of the zero-copy cast, inverse to each other on buffers of the right length.
\<close>

section \<open>PodCOption\<close>

text \<open>The four tag bytes are kept as the 32-bit word they spell in little-endian order.\<close>

record 'a pod_coption =
  option_tag :: u32
  option_value :: 'a

definition NONE_tag :: u32 where "NONE_tag = 0"
definition SOME_tag :: u32 where "SOME_tag = 1"

definition pod_none :: "'a::zero pod_coption" where
  "pod_none = \<lparr>option_tag = NONE_tag, option_value = 0\<rparr>"

definition pod_some :: "'a \<Rightarrow> 'a pod_coption" where
  "pod_some v = \<lparr>option_tag = SOME_tag, option_value = v\<rparr>"

definition pod_unwrap_or :: "'a pod_coption \<Rightarrow> 'a \<Rightarrow> 'a" where
  "pod_unwrap_or o1 d = (if option_tag o1 = NONE_tag then d else option_value o1)"

definition pod_is_some :: "'a pod_coption \<Rightarrow> bool" where
  "pod_is_some o1 \<longleftrightarrow> option_tag o1 = SOME_tag"

definition pod_is_none :: "'a pod_coption \<Rightarrow> bool" where
  "pod_is_none o1 \<longleftrightarrow> option_tag o1 = NONE_tag"

definition pod_ok_or :: "'a pod_coption \<Rightarrow> 'e \<Rightarrow> 'e + 'a" where
  "pod_ok_or o1 e = (if option_tag o1 = SOME_tag then Inr (option_value o1) else Inl e)"

text \<open>\<open>From<COption<T>>\<close>.\<close>

definition pod_of_option :: "'a::zero option \<Rightarrow> 'a pod_coption" where
  "pod_of_option o1 = (case o1 of None \<Rightarrow> pod_none | Some v \<Rightarrow> pod_some v)"

text \<open>
  The pattern \<open>PodCOption { option: SOME, value }\<close> of the handlers, as an option.  Any tag
  but the exact \<open>SOME\<close> falls into the other branch.
\<close>

definition pod_match_some :: "'a pod_coption \<Rightarrow> 'a option" where
  "pod_match_some o1 = (if option_tag o1 = SOME_tag then Some (option_value o1) else None)"

text \<open>
  \<open>OptionalNonZeroPubkey\<close> wraps a key, the zero key meaning \<open>None\<close>.  The conversion
  ends in \<open>unreachable!\<close> for a tag that is neither \<open>SOME\<close> nor \<open>NONE\<close>.
\<close>

definition optional_non_zero_pubkey_of_pod :: "pubkey pod_coption \<Rightarrow> pubkey result" where
  "optional_non_zero_pubkey_of_pod p =
     (if option_tag p = SOME_tag \<and> option_value p = 0 then Inl (Prog InvalidArgument)
      else if option_tag p = SOME_tag then Inr (option_value p)
      else if option_tag p = NONE_tag then Inr 0
      else Inl Panic)"

text \<open>\<open>Option::<Pubkey>::from(OptionalNonZeroPubkey)\<close>.\<close>

definition option_of_non_zero :: "pubkey \<Rightarrow> pubkey option" where
  "option_of_non_zero k = (if k = 0 then None else Some k)"

lemma pod_option_simps [simp]:
  "pod_is_some (pod_some v)" "\<not> pod_is_none (pod_some v)"
  "\<not> pod_is_some (pod_none :: 'a::zero pod_coption)" "pod_is_none (pod_none :: 'a::zero pod_coption)"
  "pod_unwrap_or (pod_some v) d = v" "pod_unwrap_or (pod_none :: 'a pod_coption) d = d"
  "pod_match_some (pod_some v) = Some v" "pod_match_some (pod_none :: 'a pod_coption) = None"
  "option_value (pod_some v) = v" "option_tag (pod_some v) = SOME_tag"
  "option_tag (pod_none :: 'a pod_coption) = NONE_tag"
  by (simp_all add: pod_some_def pod_none_def pod_is_some_def pod_is_none_def pod_unwrap_or_def
      pod_match_some_def SOME_tag_def NONE_tag_def)

section \<open>Field codecs\<close>

definition coption_key_bytes :: "pubkey pod_coption \<Rightarrow> bytes" where
  "coption_key_bytes o1 = word_le (option_tag o1) @ word_le (option_value o1)"

definition coption_key_of_bytes :: "bytes \<Rightarrow> pubkey pod_coption" where
  "coption_key_of_bytes b =
     \<lparr>option_tag = le_word (slice_of b 0 4), option_value = le_word (slice_of b 4 36)\<rparr>"

definition coption_u64_bytes :: "u64 pod_coption \<Rightarrow> bytes" where
  "coption_u64_bytes o1 = word_le (option_tag o1) @ word_le (option_value o1)"

definition coption_u64_of_bytes :: "bytes \<Rightarrow> u64 pod_coption" where
  "coption_u64_of_bytes b =
     \<lparr>option_tag = le_word (slice_of b 0 4), option_value = le_word (slice_of b 4 12)\<rparr>"

lemma length_coption_bytes [simp]:
  "length (coption_key_bytes o1) = 36" "length (coption_u64_bytes o2) = 12"
  by (simp_all add: coption_key_bytes_def coption_u64_bytes_def)

lemma coption_key_roundtrip [simp]: "coption_key_of_bytes (coption_key_bytes o1) = o1"
  by (simp add: coption_key_of_bytes_def coption_key_bytes_def)

lemma coption_u64_roundtrip [simp]: "coption_u64_of_bytes (coption_u64_bytes o1) = o1"
  by (simp add: coption_u64_of_bytes_def coption_u64_bytes_def)

lemma word_le_slice [simp]:
  "j = i + 8 \<Longrightarrow> j \<le> length b \<Longrightarrow> word_le (le_word (slice_of b i j) :: u64) = slice_of b i j"
  "j = i + 4 \<Longrightarrow> j \<le> length b \<Longrightarrow> word_le (le_word (slice_of b i j) :: u32) = slice_of b i j"
  "j = i + 2 \<Longrightarrow> j \<le> length b \<Longrightarrow> word_le (le_word (slice_of b i j) :: u16) = slice_of b i j"
  "j = i + 1 \<Longrightarrow> j \<le> length b \<Longrightarrow> word_le (le_word (slice_of b i j) :: u8) = slice_of b i j"
  "j = i + 32 \<Longrightarrow> j \<le> length b \<Longrightarrow> word_le (le_word (slice_of b i j) :: pubkey) = slice_of b i j"
  by (rule word_le_le_word, simp)+

lemma coption_key_bytes_of_bytes:
  "length b = 36 \<Longrightarrow> coption_key_bytes (coption_key_of_bytes b) = b"
  using slice_of_append_slice_of [of 0 4 36 b] slice_of_all [of b]
  by (simp add: coption_key_of_bytes_def coption_key_bytes_def)

lemma coption_u64_bytes_of_bytes:
  "length b = 12 \<Longrightarrow> coption_u64_bytes (coption_u64_of_bytes b) = b"
  using slice_of_append_slice_of [of 0 4 12 b] slice_of_all [of b]
  by (simp add: coption_u64_of_bytes_def coption_u64_bytes_def)

lemma coption_slice [simp]:
  "j = i + 36 \<Longrightarrow> j \<le> length b \<Longrightarrow> coption_key_bytes (coption_key_of_bytes (slice_of b i j)) = slice_of b i j"
  "j = i + 12 \<Longrightarrow> j \<le> length b \<Longrightarrow> coption_u64_bytes (coption_u64_of_bytes (slice_of b i j)) = slice_of b i j"
  by (simp_all add: coption_key_bytes_of_bytes coption_u64_bytes_of_bytes)

section \<open>PodMint\<close>

record pod_mint =
  mint_authority :: "pubkey pod_coption"
  mint_supply :: u64
  decimals :: u8
  is_initialized :: u8
  freeze_authority :: "pubkey pod_coption"

definition pod_mint_bytes :: "pod_mint \<Rightarrow> bytes" where
  "pod_mint_bytes m =
     coption_key_bytes (mint_authority m) @ word_le (mint_supply m) @ word_le (decimals m) @
     word_le (is_initialized m) @ coption_key_bytes (freeze_authority m)"

definition pod_mint_of_bytes :: "bytes \<Rightarrow> pod_mint" where
  "pod_mint_of_bytes b =
     \<lparr>mint_authority = coption_key_of_bytes (slice_of b 0 36),
      mint_supply = le_word (slice_of b 36 44),
      decimals = le_word (slice_of b 44 45),
      is_initialized = le_word (slice_of b 45 46),
      freeze_authority = coption_key_of_bytes (slice_of b 46 82)\<rparr>"

definition PodMint_SIZE_OF :: nat where "PodMint_SIZE_OF = 82"

definition pod_mint_is_initialized :: "env \<Rightarrow> pod_mint \<Rightarrow> bool" where
  "pod_mint_is_initialized E m = pod_bool E (is_initialized m)"

lemma length_pod_mint_bytes [simp]: "length (pod_mint_bytes m) = 82"
  by (simp add: pod_mint_bytes_def)

lemma pod_mint_of_bytes_bytes [simp]: "pod_mint_of_bytes (pod_mint_bytes m) = m"
  by (simp add: pod_mint_of_bytes_def pod_mint_bytes_def)

lemma pod_mint_bytes_of_bytes: "length b = 82 \<Longrightarrow> pod_mint_bytes (pod_mint_of_bytes b) = b"
  using slice_of_all [of b]
  by (simp add: pod_mint_of_bytes_def pod_mint_bytes_def slice_of_append_slice_of)

section \<open>PodAccount\<close>

record pod_account =
  mint :: pubkey
  owner :: pubkey
  amount :: u64
  delegate :: "pubkey pod_coption"
  state :: u8
  is_native :: "u64 pod_coption"
  delegated_amount :: u64
  close_authority :: "pubkey pod_coption"

definition pod_account_bytes :: "pod_account \<Rightarrow> bytes" where
  "pod_account_bytes a =
     word_le (mint a) @ word_le (owner a) @ word_le (amount a) @ coption_key_bytes (delegate a) @
     word_le (state a) @ coption_u64_bytes (is_native a) @ word_le (delegated_amount a) @
     coption_key_bytes (close_authority a)"

definition pod_account_of_bytes :: "bytes \<Rightarrow> pod_account" where
  "pod_account_of_bytes b =
     \<lparr>mint = le_word (slice_of b 0 32),
      owner = le_word (slice_of b 32 64),
      amount = le_word (slice_of b 64 72),
      delegate = coption_key_of_bytes (slice_of b 72 108),
      state = le_word (slice_of b 108 109),
      is_native = coption_u64_of_bytes (slice_of b 109 121),
      delegated_amount = le_word (slice_of b 121 129),
      close_authority = coption_key_of_bytes (slice_of b 129 165)\<rparr>"

definition PodAccount_SIZE_OF :: nat where "PodAccount_SIZE_OF = 165"

text \<open>The discriminants of \<open>AccountState\<close> as the pod code compares them.\<close>

definition pod_account_is_initialized :: "pod_account \<Rightarrow> bool" where
  "pod_account_is_initialized a \<longleftrightarrow> state a \<noteq> 0"

definition pod_account_is_frozen :: "pod_account \<Rightarrow> bool" where
  "pod_account_is_frozen a \<longleftrightarrow> state a = 2"

definition pod_account_is_native :: "pod_account \<Rightarrow> bool" where
  "pod_account_is_native a = pod_is_some (is_native a)"

definition is_owned_by_system_program_or_incinerator :: "env \<Rightarrow> pod_account \<Rightarrow> bool" where
  "is_owned_by_system_program_or_incinerator E a \<longleftrightarrow>
     owner a = system_program_id E \<or> owner a = incinerator_id E"

lemma length_pod_account_bytes [simp]: "length (pod_account_bytes a) = 165"
  by (simp add: pod_account_bytes_def)

lemma pod_account_of_bytes_bytes [simp]: "pod_account_of_bytes (pod_account_bytes a) = a"
  by (simp add: pod_account_of_bytes_def pod_account_bytes_def)

lemma pod_account_bytes_of_bytes:
  "length b = 165 \<Longrightarrow> pod_account_bytes (pod_account_of_bytes b) = b"
  using slice_of_all [of b]
  by (simp add: pod_account_of_bytes_def pod_account_bytes_def slice_of_append_slice_of)

section \<open>PodMultisig\<close>

definition MAX_SIGNERS :: nat where "MAX_SIGNERS = 11"

record pod_multisig =
  multisig_m :: u8
  multisig_n :: u8
  multisig_is_initialized :: u8
  signers :: "pubkey list"

definition pod_multisig_bytes :: "pod_multisig \<Rightarrow> bytes" where
  "pod_multisig_bytes m =
     word_le (multisig_m m) @ word_le (multisig_n m) @ word_le (multisig_is_initialized m) @
     concat (map word_le (signers m))"

definition pod_multisig_of_bytes :: "bytes \<Rightarrow> pod_multisig" where
  "pod_multisig_of_bytes b =
     \<lparr>multisig_m = le_word (slice_of b 0 1),
      multisig_n = le_word (slice_of b 1 2),
      multisig_is_initialized = le_word (slice_of b 2 3),
      signers = map (\<lambda>i. le_word (slice_of b (3 + 32 * i) (3 + 32 * i + 32))) [0..<MAX_SIGNERS]\<rparr>"

definition PodMultisig_SIZE_OF :: nat where "PodMultisig_SIZE_OF = 355"

text \<open>\<open>pod_from_bytes::<PodMultisig>\<close>: the slice must have the size of the struct.\<close>

definition pod_multisig_from_bytes :: "env \<Rightarrow> bytes \<Rightarrow> pod_multisig result" where
  "pod_multisig_from_bytes E b =
     (if length b = PodMultisig_SIZE_OF then Inr (pod_multisig_of_bytes b)
      else Inl (pod_size_error E))"

lemma length_concat_keys: "length (concat (map word_le (ks :: pubkey list))) = 32 * length ks"
  by (induction ks) auto

lemma slice_concat_keys:
  "i < length ks \<Longrightarrow>
   slice_of (concat (map word_le (ks :: pubkey list))) (32 * i) (32 * i + 32) = word_le (ks ! i)"
proof (induction ks arbitrary: i)
  case (Cons k ks)
  then show ?case
    by (cases i) (auto simp: slice_of_def)
qed simp

lemma pod_multisig_of_bytes_bytes:
  assumes "length (signers m) = MAX_SIGNERS"
  shows "pod_multisig_of_bytes (pod_multisig_bytes m) = m"
proof -
  let ?h = "word_le (multisig_m m) @ word_le (multisig_n m) @ word_le (multisig_is_initialized m)"
  have sl: "slice_of (?h @ b) (3 + i) (3 + j) = slice_of b i j" for b i j
    by (simp add: slice_of_def numeral_3_eq_3)
  have "map (\<lambda>i. le_word (slice_of (pod_multisig_bytes m) (3 + 32 * i) (3 + 32 * i + 32))) [0..<MAX_SIGNERS]
      = map (\<lambda>i. signers m ! i) [0..<MAX_SIGNERS]"
  proof (rule map_cong [OF refl])
    fix i assume "i \<in> set [0..<MAX_SIGNERS]"
    with assms have i: "i < length (signers m)" by simp
    have "slice_of (pod_multisig_bytes m) (3 + 32 * i) (3 + 32 * i + 32) = word_le (signers m ! i)"
      using sl [of "concat (map word_le (signers m))" "32 * i" "32 * i + 32"] slice_concat_keys [OF i]
      by (simp add: pod_multisig_bytes_def add.assoc)
    then show "le_word (slice_of (pod_multisig_bytes m) (3 + 32 * i) (3 + 32 * i + 32)) = signers m ! i"
      by simp
  qed
  also have "\<dots> = signers m"
    using assms map_nth [of "signers m"] by simp
  finally show ?thesis
    by (simp add: pod_multisig_of_bytes_def) (simp add: pod_multisig_bytes_def slice_of_def)
qed

end
