(* ===== verification/State.thy ===== *)
theory State
  imports Pod
begin

text \<open>
  The base states with the \<open>Pack\<close> codec (\<open>src/programs/src/state.rs\<close>) and the generic
  token account (\<open>src/programs/src/generic_token_account.rs\<close>).  A \<open>COption\<close> is an
  \<open>option\<close>.  \<open>pack_into_slice\<close> writes into an existing buffer: a \<open>None\<close> only
  clears the tag and leaves the body bytes as they were, so packing is a function of the old buffer.
  The lemmas: unpacking what was packed gives the value back, repacking what was unpacked leaves the
  buffer unchanged, and a buffer that unpacks reads the same through the zero-copy layer of
  theory Pod.
\<close>

section \<open>Data\<close>

datatype account_state = Uninitialized | Initialized | Frozen

fun account_state_u8 :: "account_state \<Rightarrow> u8" where
  "account_state_u8 Uninitialized = 0"
| "account_state_u8 Initialized = 1"
| "account_state_u8 Frozen = 2"

text \<open>\<open>AccountState::try_from_primitive\<close>.\<close>

definition account_state_try_from :: "u8 \<Rightarrow> account_state option" where
  "account_state_try_from n =
     (if n = 0 then Some Uninitialized else if n = 1 then Some Initialized
      else if n = 2 then Some Frozen else None)"

lemma account_state_roundtrip [simp]: "account_state_try_from (account_state_u8 s) = Some s"
  by (cases s) (simp_all add: account_state_try_from_def)

lemma account_state_try_from_Some:
  "account_state_try_from n = Some s \<longleftrightarrow> account_state_u8 s = n"
  by (cases s) (auto simp: account_state_try_from_def split: if_splits)

record packed_mint =
  m_mint_authority :: "pubkey option"
  m_supply :: u64
  m_decimals :: u8
  m_is_initialized :: bool
  m_freeze_authority :: "pubkey option"

record packed_account =
  a_mint :: pubkey
  a_owner :: pubkey
  a_amount :: u64
  a_delegate :: "pubkey option"
  a_state :: account_state
  a_is_native :: "u64 option"
  a_delegated_amount :: u64
  a_close_authority :: "pubkey option"

record packed_multisig =
  ms_m :: u8
  ms_n :: u8
  ms_is_initialized :: bool
  ms_signers :: "pubkey list"

definition Mint_LEN :: nat where "Mint_LEN = 82"
definition Account_LEN :: nat where "Account_LEN = 165"
definition Multisig_LEN :: nat where "Multisig_LEN = 355"

definition account_is_frozen :: "packed_account \<Rightarrow> bool" where
  "account_is_frozen a \<longleftrightarrow> a_state a = Frozen"

definition account_is_native :: "packed_account \<Rightarrow> bool" where
  "account_is_native a \<longleftrightarrow> a_is_native a \<noteq> None"

definition account_is_initialized :: "packed_account \<Rightarrow> bool" where
  "account_is_initialized a \<longleftrightarrow> a_state a \<noteq> Uninitialized"

section \<open>Optional fields\<close>

definition pack_coption_key :: "pubkey option \<Rightarrow> bytes \<Rightarrow> bytes" where
  "pack_coption_key src dst = (case src of
     Some k \<Rightarrow> [1, 0, 0, 0] @ word_le k
   | None \<Rightarrow> [0, 0, 0, 0] @ drop 4 dst)"

definition unpack_coption_key :: "bytes \<Rightarrow> pubkey option result" where
  "unpack_coption_key src =
     (let tag = slice_of src 0 4; body = slice_of src 4 36
      in if tag = [0, 0, 0, 0] then Inr None
         else if tag = [1, 0, 0, 0] then Inr (Some (le_word body))
         else Inl (Prog InvalidAccountData))"

definition pack_coption_u64 :: "u64 option \<Rightarrow> bytes \<Rightarrow> bytes" where
  "pack_coption_u64 src dst = (case src of
     Some n \<Rightarrow> [1, 0, 0, 0] @ word_le n
   | None \<Rightarrow> [0, 0, 0, 0] @ drop 4 dst)"

definition unpack_coption_u64 :: "bytes \<Rightarrow> u64 option result" where
  "unpack_coption_u64 src =
     (let tag = slice_of src 0 4; body = slice_of src 4 12
      in if tag = [0, 0, 0, 0] then Inr None
         else if tag = [1, 0, 0, 0] then Inr (Some (le_word body))
         else Inl (Prog InvalidAccountData))"

definition unpack_bool :: "bytes \<Rightarrow> bool result" where
  "unpack_bool b = (if b = [0] then Inr False else if b = [1] then Inr True
     else Inl (Prog InvalidAccountData))"

definition bool_u8 :: "bool \<Rightarrow> u8" where
  "bool_u8 b = (if b then 1 else 0)"

section \<open>Mint\<close>

text \<open>\<open>array_ref![src, 0, 82]\<close> panics on a shorter slice.\<close>

definition mint_unpack_from_slice :: "bytes \<Rightarrow> packed_mint result" where
  "mint_unpack_from_slice src =
     (if length src < Mint_LEN then Inl Panic
      else bindE (unpack_coption_key (slice_of src 0 36)) (\<lambda>ma.
        bindE (unpack_bool (slice_of src 45 46)) (\<lambda>init.
        bindE (unpack_coption_key (slice_of src 46 82)) (\<lambda>fa.
          Inr \<lparr>m_mint_authority = ma, m_supply = le_word (slice_of src 36 44),
               m_decimals = le_word (slice_of src 44 45), m_is_initialized = init,
               m_freeze_authority = fa\<rparr>))))"

definition mint_pack_into_slice :: "packed_mint \<Rightarrow> bytes \<Rightarrow> bytes result" where
  "mint_pack_into_slice m dst =
     (if length dst < Mint_LEN then Inl Panic
      else Inr (pack_coption_key (m_mint_authority m) (slice_of dst 0 36) @ word_le (m_supply m) @
        word_le (m_decimals m) @ word_le (bool_u8 (m_is_initialized m)) @
        pack_coption_key (m_freeze_authority m) (slice_of dst 46 82) @ drop 82 dst))"

section \<open>Account\<close>

definition account_unpack_from_slice :: "bytes \<Rightarrow> packed_account result" where
  "account_unpack_from_slice src =
     (if length src < Account_LEN then Inl Panic
      else bindE (unpack_coption_key (slice_of src 72 108)) (\<lambda>dl.
        bindE (ok_or (Prog InvalidAccountData) (account_state_try_from (le_word (slice_of src 108 109)))) (\<lambda>st.
        bindE (unpack_coption_u64 (slice_of src 109 121)) (\<lambda>nat1.
        bindE (unpack_coption_key (slice_of src 129 165)) (\<lambda>ca.
          Inr \<lparr>a_mint = le_word (slice_of src 0 32), a_owner = le_word (slice_of src 32 64),
               a_amount = le_word (slice_of src 64 72), a_delegate = dl, a_state = st,
               a_is_native = nat1, a_delegated_amount = le_word (slice_of src 121 129),
               a_close_authority = ca\<rparr>)))))"

definition account_pack_into_slice :: "packed_account \<Rightarrow> bytes \<Rightarrow> bytes result" where
  "account_pack_into_slice a dst =
     (if length dst < Account_LEN then Inl Panic
      else Inr (word_le (a_mint a) @ word_le (a_owner a) @ word_le (a_amount a) @
        pack_coption_key (a_delegate a) (slice_of dst 72 108) @ word_le (account_state_u8 (a_state a)) @
        pack_coption_u64 (a_is_native a) (slice_of dst 109 121) @ word_le (a_delegated_amount a) @
        pack_coption_key (a_close_authority a) (slice_of dst 129 165) @ drop 165 dst))"

section \<open>Multisig\<close>

definition multisig_unpack_from_slice :: "bytes \<Rightarrow> packed_multisig result" where
  "multisig_unpack_from_slice src =
     (if length src < Multisig_LEN then Inl Panic
      else bindE (unpack_bool (slice_of src 2 3)) (\<lambda>init.
        Inr \<lparr>ms_m = le_word (slice_of src 0 1), ms_n = le_word (slice_of src 1 2),
             ms_is_initialized = init,
             ms_signers = map (\<lambda>i. le_word (slice_of src (3 + 32 * i) (3 + 32 * i + 32))) [0..<MAX_SIGNERS]\<rparr>))"

definition multisig_pack_into_slice :: "packed_multisig \<Rightarrow> bytes \<Rightarrow> bytes result" where
  "multisig_pack_into_slice m dst =
     (if length dst < Multisig_LEN then Inl Panic
      else Inr (word_le (ms_m m) @ word_le (ms_n m) @ word_le (bool_u8 (ms_is_initialized m)) @
        concat (map word_le (ms_signers m)) @ drop 355 dst))"

section \<open>Generic token account\<close>

definition ACCOUNT_INITIALIZED_INDEX :: nat where "ACCOUNT_INITIALIZED_INDEX = 108"
definition ACCOUNTTYPE_ACCOUNT :: u8 where "ACCOUNTTYPE_ACCOUNT = 2"

definition generic_is_initialized_account :: "bytes \<Rightarrow> bool" where
  "generic_is_initialized_account d \<longleftrightarrow>
     (if ACCOUNT_INITIALIZED_INDEX < length d then d ! ACCOUNT_INITIALIZED_INDEX
      else account_state_u8 Uninitialized) \<noteq> account_state_u8 Uninitialized"

definition valid_account_data :: "bytes \<Rightarrow> bool" where
  "valid_account_data d \<longleftrightarrow>
     length d = Account_LEN \<and> generic_is_initialized_account d
   \<or> length d > Account_LEN \<and> length d \<noteq> Multisig_LEN \<and> ACCOUNTTYPE_ACCOUNT = d ! Account_LEN
       \<and> generic_is_initialized_account d"

definition unpack_account_owner :: "bytes \<Rightarrow> pubkey option" where
  "unpack_account_owner d = (if valid_account_data d then Some (le_word (slice_of d 32 (32 + 32))) else None)"

definition unpack_account_mint :: "bytes \<Rightarrow> pubkey option" where
  "unpack_account_mint d = (if valid_account_data d then Some (le_word (slice_of d 0 (0 + 32))) else None)"

section \<open>Round trips\<close>

lemma length_pack_coption [simp]:
  "length dst = 36 \<Longrightarrow> length (pack_coption_key k dst) = 36"
  "length dst' = 12 \<Longrightarrow> length (pack_coption_u64 n dst') = 12"
  by (simp_all add: pack_coption_key_def pack_coption_u64_def split: option.splits)

lemma unpack_pack_coption [simp]:
  "unpack_coption_key (pack_coption_key k dst) = Inr k"
  "unpack_coption_u64 (pack_coption_u64 n dst') = Inr n"
  by (simp_all add: unpack_coption_key_def pack_coption_key_def unpack_coption_u64_def
      pack_coption_u64_def del: append_Cons split: option.splits)

lemma tag_body: "4 \<le> length src \<Longrightarrow> slice_of src 0 4 @ drop 4 src = src"
  by (simp add: slice_of_def)

lemma drop_4: "length src = n \<Longrightarrow> slice_of src 4 n = drop 4 src"
  by (simp add: slice_of_def)

lemma pack_unpack_coption_key:
  assumes "length src = 36" "unpack_coption_key src = Inr k"
  shows "pack_coption_key k src = src"
  using assms tag_body [of src] word_le_le_word [of "drop 4 src", where 'a = 256] drop_4 [of src]
  by (auto simp: unpack_coption_key_def pack_coption_key_def Let_def success_simps
      simp del: append_Cons split: if_splits)

lemma pack_unpack_coption_u64:
  assumes "length src = 12" "unpack_coption_u64 src = Inr k"
  shows "pack_coption_u64 k src = src"
  using assms tag_body [of src] word_le_le_word [of "drop 4 src", where 'a = 64] drop_4 [of src]
  by (auto simp: unpack_coption_u64_def pack_coption_u64_def Let_def success_simps
      simp del: append_Cons split: if_splits)

lemma unpack_bool_u8 [simp]: "unpack_bool (word_le (bool_u8 b)) = Inr b"
  by (simp add: unpack_bool_def bool_u8_def word_le_u8)

text \<open>Unpacking what was packed, whatever the buffer held before.\<close>

lemma account_unpack_pack:
  assumes "account_pack_into_slice a dst = Inr d"
  shows "account_unpack_from_slice d = Inr a"
proof -
  from assms have "165 \<le> length dst" by (auto simp: account_pack_into_slice_def Account_LEN_def success_simps)
  with assms show ?thesis
    by (auto simp: account_pack_into_slice_def account_unpack_from_slice_def Account_LEN_def success_simps)
qed

lemma mint_unpack_pack:
  assumes "mint_pack_into_slice m dst = Inr d"
  shows "mint_unpack_from_slice d = Inr m"
proof -
  from assms have "82 \<le> length dst" by (auto simp: mint_pack_into_slice_def Mint_LEN_def success_simps)
  with assms show ?thesis
    by (auto simp: mint_pack_into_slice_def mint_unpack_from_slice_def Mint_LEN_def success_simps)
qed

lemma keys_of_concat:
  assumes "length ks = MAX_SIGNERS" "length h = 3"
  shows "map (\<lambda>i. le_word (slice_of (h @ concat (map word_le ks) @ t) (3 + 32 * i) (3 + 32 * i + 32))) [0..<MAX_SIGNERS]
    = (ks :: pubkey list)"
proof -
  have "slice_of (concat (map word_le ks) @ t) (32 * i) (32 * i + 32) = word_le (ks ! i)"
    if "i < length ks" for i
    using slice_concat_keys [OF that] length_concat_keys [of ks] that
    by (auto simp: slice_of_def)
  then have "map (\<lambda>i. le_word (slice_of (h @ concat (map word_le ks) @ t) (3 + 32 * i) (3 + 32 * i + 32))) [0..<MAX_SIGNERS]
    = map (\<lambda>i. ks ! i) [0..<MAX_SIGNERS]"
    using assms by (intro map_cong [OF refl]) (simp add: add.commute [of 32])
  also have "\<dots> = ks" using assms map_nth [of ks] by simp
  finally show ?thesis .
qed

lemma multisig_unpack_pack:
  assumes "multisig_pack_into_slice m dst = Inr d" "length (ms_signers m) = MAX_SIGNERS"
  shows "multisig_unpack_from_slice d = Inr m"
proof -
  let ?h = "word_le (ms_m m) @ word_le (ms_n m) @ word_le (bool_u8 (ms_is_initialized m))"
  from assms have len: "355 \<le> length dst" and
    d: "d = ?h @ concat (map word_le (ms_signers m)) @ drop 355 dst"
    by (auto simp: multisig_pack_into_slice_def Multisig_LEN_def success_simps)
  have "length ?h = 3" by simp
  from keys_of_concat [OF assms(2) this, of "drop 355 dst"] len assms(2) show ?thesis
    by (simp add: d multisig_unpack_from_slice_def Multisig_LEN_def length_concat_keys MAX_SIGNERS_def)
qed

text \<open>Packing what was unpacked restores the buffer.\<close>

lemma unpack_bool_u8_slice:
  "unpack_bool b = Inr x \<Longrightarrow> word_le (bool_u8 x) = b"
  by (auto simp: unpack_bool_def bool_u8_def word_le_u8 split: if_splits)

lemma account_pack_unpack:
  assumes "account_unpack_from_slice d = Inr a"
  shows "account_pack_into_slice a d = Inr d"
proof -
  from assms have "165 \<le> length d" by (auto simp: account_unpack_from_slice_def Account_LEN_def success_simps)
  moreover have "slice_of d 0 165 @ drop 165 d = d" by (simp add: slice_of_def)
  ultimately show ?thesis
    using assms
    by (auto simp: account_pack_into_slice_def account_unpack_from_slice_def Account_LEN_def success_simps
        pack_unpack_coption_key pack_unpack_coption_u64 account_state_try_from_Some
        slice_of_append_slice_of simp flip: append_assoc)
qed

lemma mint_pack_unpack:
  assumes "mint_unpack_from_slice d = Inr m"
  shows "mint_pack_into_slice m d = Inr d"
proof -
  from assms have "82 \<le> length d" by (auto simp: mint_unpack_from_slice_def Mint_LEN_def success_simps)
  moreover have "slice_of d 0 82 @ drop 82 d = d" by (simp add: slice_of_def)
  ultimately show ?thesis
    using assms
    by (auto simp: mint_pack_into_slice_def mint_unpack_from_slice_def Mint_LEN_def success_simps
        pack_unpack_coption_key unpack_bool_u8_slice slice_of_append_slice_of simp flip: append_assoc)
qed

section \<open>Agreement with the zero-copy layer\<close>

lemma coption_key_agrees:
  "unpack_coption_key src = Inr k \<Longrightarrow> length src = 36 \<Longrightarrow>
   pod_match_some (coption_key_of_bytes src) = k \<and>
   (pod_is_none (coption_key_of_bytes src) \<longleftrightarrow> k = None)"
  by (auto simp: unpack_coption_key_def coption_key_of_bytes_def pod_match_some_def pod_is_none_def
      NONE_tag_def SOME_tag_def le_word_def Let_def split: if_splits)

lemma coption_u64_agrees:
  "unpack_coption_u64 src = Inr k \<Longrightarrow> length src = 12 \<Longrightarrow>
   pod_match_some (coption_u64_of_bytes src) = k"
  by (auto simp: unpack_coption_u64_def coption_u64_of_bytes_def pod_match_some_def
      NONE_tag_def SOME_tag_def le_word_def Let_def split: if_splits)

lemma account_agrees:
  assumes "account_unpack_from_slice d = Inr a"
  defines "p \<equiv> pod_account_of_bytes d"
  shows "mint p = a_mint a \<and> owner p = a_owner a \<and> amount p = a_amount a \<and>
    pod_match_some (delegate p) = a_delegate a \<and> pod_match_some (is_native p) = a_is_native a \<and>
    delegated_amount p = a_delegated_amount a \<and> pod_match_some (close_authority p) = a_close_authority a \<and>
    state p = account_state_u8 (a_state a)"
  using assms(1)
  by (auto simp: p_def account_unpack_from_slice_def pod_account_of_bytes_def Account_LEN_def
      success_simps coption_key_agrees coption_u64_agrees account_state_try_from_Some)

end
