(* ===== verification/Extension_Types.thy ===== *)
theory Extension_Types
  imports State
begin

text \<open>
  The enumerations of \<open>src/programs/src/extension/mod.rs\<close>: \<open>AccountType\<close>,
  \<open>ExtensionType\<close> with its codecs, lengths and account types, the account extensions a mint
  requires and the forbidden combinations.
\<close>

section \<open>Account types\<close>

datatype account_type = Uninitialized | Mint | Account

fun account_type_u8 :: "account_type \<Rightarrow> u8" where
  "account_type_u8 Uninitialized = 0"
| "account_type_u8 Mint = 1"
| "account_type_u8 Account = 2"

definition account_type_try_from :: "u8 \<Rightarrow> account_type option" where
  "account_type_try_from n =
     (if n = 0 then Some Uninitialized else if n = 1 then Some Mint
      else if n = 2 then Some Account else None)"

lemma account_type_roundtrip [simp]: "account_type_try_from (account_type_u8 t) = Some t"
  by (cases t) (simp_all add: account_type_try_from_def)

section \<open>Extension types\<close>

datatype (plugins only: code size) extension_type =
    Uninitialized | TransferFeeConfig | TransferFeeAmount | MintCloseAuthority
  | ConfidentialTransferMint | ConfidentialTransferAccount | DefaultAccountState
  | ImmutableOwner | MemoTransfer | NonTransferable | InterestBearingConfig | CpiGuard
  | PermanentDelegate | NonTransferableAccount | TransferHook | TransferHookAccount
  | ConfidentialTransferFeeConfig | ConfidentialTransferFeeAmount | MetadataPointer
  | TokenMetadata | GroupPointer | TokenGroup | GroupMemberPointer | TokenGroupMember

text \<open>The declaration order gives the discriminants.\<close>

definition extension_types :: "extension_type list" where
  "extension_types =
    [Uninitialized, TransferFeeConfig, TransferFeeAmount, MintCloseAuthority,
     ConfidentialTransferMint, ConfidentialTransferAccount, DefaultAccountState,
     ImmutableOwner, MemoTransfer, NonTransferable, InterestBearingConfig, CpiGuard,
     PermanentDelegate, NonTransferableAccount, TransferHook, TransferHookAccount,
     ConfidentialTransferFeeConfig, ConfidentialTransferFeeAmount, MetadataPointer,
     TokenMetadata, GroupPointer, TokenGroup, GroupMemberPointer, TokenGroupMember]"

definition extension_type_u16 :: "extension_type \<Rightarrow> u16" where
  "extension_type_u16 t = of_nat (index_of t extension_types)"

definition extension_type_of_u16 :: "u16 \<Rightarrow> extension_type option" where
  "extension_type_of_u16 n =
     (if unat n < length extension_types then Some (extension_types ! unat n) else None)"

text \<open>\<open>TryFrom<&[u8]> for ExtensionType\<close>: exactly two bytes and a known discriminant.\<close>

definition extension_type_of_bytes :: "bytes \<Rightarrow> extension_type result" where
  "extension_type_of_bytes b =
     (if length b \<noteq> 2 then Inl (Prog InvalidAccountData)
      else ok_or (Prog InvalidAccountData) (extension_type_of_u16 (le_word b)))"

definition extension_type_bytes :: "extension_type \<Rightarrow> bytes" where
  "extension_type_bytes t = word_le (extension_type_u16 t)"

fun sized :: "extension_type \<Rightarrow> bool" where
  "sized TokenMetadata = False"
| "sized _ = True"

fun get_account_type :: "extension_type \<Rightarrow> account_type" where
  "get_account_type Uninitialized = account_type.Uninitialized"
| "get_account_type TransferFeeConfig = Mint"
| "get_account_type MintCloseAuthority = Mint"
| "get_account_type ConfidentialTransferMint = Mint"
| "get_account_type DefaultAccountState = Mint"
| "get_account_type NonTransferable = Mint"
| "get_account_type InterestBearingConfig = Mint"
| "get_account_type PermanentDelegate = Mint"
| "get_account_type TransferHook = Mint"
| "get_account_type ConfidentialTransferFeeConfig = Mint"
| "get_account_type MetadataPointer = Mint"
| "get_account_type TokenMetadata = Mint"
| "get_account_type GroupPointer = Mint"
| "get_account_type TokenGroup = Mint"
| "get_account_type GroupMemberPointer = Mint"
| "get_account_type TokenGroupMember = Mint"
| "get_account_type ImmutableOwner = Account"
| "get_account_type TransferFeeAmount = Account"
| "get_account_type ConfidentialTransferAccount = Account"
| "get_account_type MemoTransfer = Account"
| "get_account_type NonTransferableAccount = Account"
| "get_account_type TransferHookAccount = Account"
| "get_account_type CpiGuard = Account"
| "get_account_type ConfidentialTransferFeeAmount = Account"

text \<open>
  The packed sizes of the extension structs.  Keys take 32 bytes, \<open>PodU64\<close> 8, \<open>PodU16\<close>
  and \<open>PodI16\<close> 2, \<open>PodBool\<close> 1; a \<open>TransferFee\<close> is two \<open>PodU64\<close>
  and a \<open>PodU16\<close>.
\<close>

definition TransferFee_len :: nat where "TransferFee_len = 8 + 8 + 2"

fun type_len :: "env \<Rightarrow> extension_type \<Rightarrow> nat" where
  "type_len E Uninitialized = 0"
| "type_len E TransferFeeConfig = 32 + 32 + 8 + TransferFee_len + TransferFee_len"
| "type_len E TransferFeeAmount = 8"
| "type_len E MintCloseAuthority = 32"
| "type_len E ImmutableOwner = 0"
| "type_len E ConfidentialTransferMint = 32 + 1 + elgamal_pubkey_len E"
| "type_len E ConfidentialTransferAccount =
     1 + elgamal_pubkey_len E + elgamal_ciphertext_len E + elgamal_ciphertext_len E +
     elgamal_ciphertext_len E + ae_ciphertext_len E + 1 + 1 + 8 + 8 + 8 + 8"
| "type_len E DefaultAccountState = 1"
| "type_len E MemoTransfer = 1"
| "type_len E NonTransferable = 0"
| "type_len E InterestBearingConfig = 32 + 8 + 2 + 8 + 2"
| "type_len E CpiGuard = 1"
| "type_len E PermanentDelegate = 32"
| "type_len E NonTransferableAccount = 0"
| "type_len E TransferHook = 32 + 32"
| "type_len E TransferHookAccount = 1"
| "type_len E ConfidentialTransferFeeConfig =
     32 + elgamal_pubkey_len E + 1 + elgamal_ciphertext_len E"
| "type_len E ConfidentialTransferFeeAmount = elgamal_ciphertext_len E"
| "type_len E MetadataPointer = 32 + 32"
| "type_len E TokenMetadata = 0"
| "type_len E GroupPointer = 32 + 32"
| "type_len E TokenGroup = token_group_len E"
| "type_len E GroupMemberPointer = 32 + 32"
| "type_len E TokenGroupMember = token_group_member_len E"

definition try_get_type_len :: "env \<Rightarrow> extension_type \<Rightarrow> nat result" where
  "try_get_type_len E t =
     (if \<not> sized t then Inl (Prog InvalidArgument) else Inr (type_len E t))"

section \<open>Account lengths\<close>

definition BASE_ACCOUNT_LENGTH :: nat where "BASE_ACCOUNT_LENGTH = Account_LEN"
definition BASE_ACCOUNT_AND_TYPE_LENGTH :: nat where
  "BASE_ACCOUNT_AND_TYPE_LENGTH = BASE_ACCOUNT_LENGTH + 1"

definition adjust_len_for_multisig :: "nat \<Rightarrow> nat" where
  "adjust_len_for_multisig n = (if n = Multisig_LEN then n + 2 else n)"

definition add_type_and_length_to_len :: "nat \<Rightarrow> nat" where
  "add_type_and_length_to_len n = n + 2 + 2"

definition try_get_tlv_len :: "env \<Rightarrow> extension_type \<Rightarrow> nat result" where
  "try_get_tlv_len E t = bindE (try_get_type_len E t) (\<lambda>n. Inr (add_type_and_length_to_len n))"

text \<open>The deduplicating loop keeps the first occurrence of every type.\<close>

fun dedupe_onto :: "extension_type list \<Rightarrow> extension_type list \<Rightarrow> extension_type list" where
  "dedupe_onto acc [] = acc"
| "dedupe_onto acc (t # ts) = (if t \<in> set acc then dedupe_onto acc ts else dedupe_onto (acc @ [t]) ts)"

definition try_get_total_tlv_len :: "env \<Rightarrow> extension_type list \<Rightarrow> nat result" where
  "try_get_total_tlv_len E ts =
     bindE (mapE (try_get_tlv_len E) (dedupe_onto [] ts)) (\<lambda>ns. Inr (sum_list ns))"

definition try_calculate_account_len :: "env \<Rightarrow> nat \<Rightarrow> extension_type list \<Rightarrow> nat result" where
  "try_calculate_account_len E size_of ts =
     (if ts = [] then Inr size_of
      else bindE (try_get_total_tlv_len E ts) (\<lambda>n.
        Inr (adjust_len_for_multisig (n + BASE_ACCOUNT_AND_TYPE_LENGTH))))"

section \<open>What a mint's extensions require\<close>

fun required_for :: "extension_type \<Rightarrow> extension_type list" where
  "required_for TransferFeeConfig = [TransferFeeAmount]"
| "required_for NonTransferable = [NonTransferableAccount, ImmutableOwner]"
| "required_for TransferHook = [TransferHookAccount]"
| "required_for _ = []"

definition get_required_init_account_extensions :: "extension_type list \<Rightarrow> extension_type list" where
  "get_required_init_account_extensions ts = concat (map required_for ts)"

text \<open>The three flags the loop sets, then the two tests.\<close>

definition check_for_invalid_mint_extension_combinations :: "extension_type list \<Rightarrow> unit result" where
  "check_for_invalid_mint_extension_combinations ts =
     (let transfer_fee_config = (TransferFeeConfig \<in> set ts);
          confidential_transfer_mint = (ConfidentialTransferMint \<in> set ts);
          confidential_transfer_fee_config = (ConfidentialTransferFeeConfig \<in> set ts)
      in if confidential_transfer_fee_config \<and> \<not> (transfer_fee_config \<and> confidential_transfer_mint)
         then Inl (Token InvalidExtensionCombination)
         else if transfer_fee_config \<and> confidential_transfer_mint \<and> \<not> confidential_transfer_fee_config
         then Inl (Token InvalidExtensionCombination)
         else Inr ())"

section \<open>Lemmas\<close>

lemma all_extension_types: "t \<in> set extension_types"
  by (cases t) (simp_all add: extension_types_def)

lemma distinct_extension_types: "distinct extension_types"
  by (simp add: extension_types_def)

lemma length_extension_types: "length extension_types = 24"
  by (simp add: extension_types_def)

lemma extension_type_of_u16_u16 [simp]: "extension_type_of_u16 (extension_type_u16 t) = Some t"
  using index_of_nth [OF all_extension_types, of t]
  by (simp add: extension_type_of_u16_def extension_type_u16_def unat_of_nat take_bit_nat_def
      length_extension_types)

lemma extension_type_u16_of_u16:
  assumes "extension_type_of_u16 n = Some t"
  shows "extension_type_u16 t = n"
proof -
  from assms have n: "unat n < length extension_types" "t = extension_types ! unat n"
    by (auto simp: extension_type_of_u16_def split: if_splits)
  then show ?thesis
    using index_of_distinct [OF distinct_extension_types n(1)] by (simp add: extension_type_u16_def)
qed

lemma length_extension_type_bytes [simp]: "length (extension_type_bytes t) = 2"
  by (simp add: extension_type_bytes_def)

lemma extension_type_of_bytes_bytes [simp]: "extension_type_of_bytes (extension_type_bytes t) = Inr t"
  by (simp add: extension_type_of_bytes_def) (simp add: extension_type_bytes_def)

lemma extension_type_bytes_of_bytes:
  assumes "extension_type_of_bytes b = Inr t"
  shows "extension_type_bytes t = b"
proof -
  from assms have "length b = 2" "extension_type_of_u16 (le_word b) = Some t"
    by (auto simp: extension_type_of_bytes_def success_simps)
  then show ?thesis
    using extension_type_u16_of_u16 word_le_le_word [of b, where 'a = 16]
    by (simp add: extension_type_bytes_def)
qed

lemma set_dedupe_onto: "set (dedupe_onto acc ts) = set acc \<union> set ts"
  by (induction acc ts rule: dedupe_onto.induct) auto

lemma distinct_dedupe_onto: "distinct acc \<Longrightarrow> distinct (dedupe_onto acc ts)"
  by (induction acc ts rule: dedupe_onto.induct) auto

lemma required_for_account: "t \<in> set (required_for u) \<Longrightarrow> get_account_type t = Account"
  by (cases u) auto

lemma required_init_account:
  "t \<in> set (get_required_init_account_extensions ts) \<Longrightarrow> get_account_type t = Account"
  by (auto simp: get_required_init_account_extensions_def required_for_account)

end
