(* ===== verification/Tlv.thy ===== *)
theory Tlv
  imports Extension_Types
begin

text \<open>
  The type-length-value buffer that holds the extensions of a mint or an account
  (\<open>src/programs/src/extension/mod.rs\<close>): the walks over its entries, the lookup of one
  entry, allocation and reallocation.  Indices are \<open>nat\<close>: a slice is never longer than
  \<open>isize::MAX\<close>, so \<open>saturating_add\<close> on indices into it does not saturate, and
  \<open>saturating_sub\<close> is subtraction of natural numbers.

  The abstract view of a buffer is a list of entries \<open>(type, value)\<close>; \<open>tlv_encode\<close>
  lays them out.  The lemmas relate every walk to that list.
\<close>

section \<open>Indices\<close>

record tlv_indices =
  type_start :: nat
  length_start :: nat
  value_start :: nat

definition get_tlv_indices :: "nat \<Rightarrow> tlv_indices" where
  "get_tlv_indices i = \<lparr>type_start = i, length_start = i + 2, value_start = i + 2 + 2\<rparr>"

text \<open>\<open>usize::from(*pod_from_bytes::<Length>(&tlv_data[length_start..value_start])?)\<close> on a
  buffer that is long enough: the slice has exactly the two bytes of a \<open>Length\<close>.\<close>

definition length_at :: "bytes \<Rightarrow> tlv_indices \<Rightarrow> nat" where
  "length_at d ix = unat (le_word (slice_of d (length_start ix) (value_start ix)) :: u16)"

definition type_at :: "bytes \<Rightarrow> tlv_indices \<Rightarrow> extension_type result" where
  "type_at d ix = extension_type_of_bytes (slice_of d (type_start ix) (length_start ix))"

text \<open>\<open>Length::try_from(usize)\<close>.\<close>

definition length_try_from :: "nat \<Rightarrow> u16 result" where
  "length_try_from n = (if n < 2 ^ 16 then Inr (of_nat n) else Inl (Prog AccountDataTooSmall))"

section \<open>The walks\<close>

text \<open>\<open>get_extension_indices::<V>\<close>, the body of the loop from a given start index.\<close>

function get_extension_indices_from ::
    "extension_type \<Rightarrow> bool \<Rightarrow> bytes \<Rightarrow> nat \<Rightarrow> tlv_indices result" where
  "get_extension_indices_from v init d start_index =
     (if start_index < length d then
        (let ix = get_tlv_indices start_index in
         if length d < value_start ix then Inl (Prog InvalidAccountData)
         else bindE (type_at d ix) (\<lambda>t.
           if t = v then Inr ix
           else if t = Uninitialized then
             (if init then Inr ix else Inl (Token ExtensionNotFound))
           else if get_account_type v \<noteq> get_account_type t then
             Inl (Token ExtensionTypeMismatch)
           else get_extension_indices_from v init d (value_start ix + length_at d ix)))
      else Inl (Prog InvalidAccountData))"
  by pat_completeness auto
termination
  by (relation "measure (\<lambda>(v, init, d, i). length d - i)") (auto simp: get_tlv_indices_def)

declare get_extension_indices_from.simps [simp del]

definition get_extension_indices :: "extension_type \<Rightarrow> bytes \<Rightarrow> bool \<Rightarrow> tlv_indices result" where
  "get_extension_indices v d init = get_extension_indices_from v init d 0"

record tlv_data_info =
  info_types :: "extension_type list"
  used_len :: nat

function get_tlv_data_info_from :: "bytes \<Rightarrow> extension_type list \<Rightarrow> nat \<Rightarrow> tlv_data_info result" where
  "get_tlv_data_info_from d types start_index =
     (if start_index < length d then
        (let ix = get_tlv_indices start_index in
         if length d < length_start ix then Inr \<lparr>info_types = types, used_len = type_start ix\<rparr>
         else bindE (type_at d ix) (\<lambda>t.
           if t = Uninitialized then Inr \<lparr>info_types = types, used_len = type_start ix\<rparr>
           else if length d < value_start ix then Inl (Prog InvalidAccountData)
           else (let value_end = value_start ix + length_at d ix in
                 if value_end > length d then Inl (Prog InvalidAccountData)
                 else get_tlv_data_info_from d (types @ [t]) value_end)))
      else Inr \<lparr>info_types = types, used_len = start_index\<rparr>)"
  by pat_completeness auto
termination
  by (relation "measure (\<lambda>(d, ts, i). length d - i)") (auto simp: get_tlv_indices_def)

declare get_tlv_data_info_from.simps [simp del]

definition get_tlv_data_info :: "bytes \<Rightarrow> tlv_data_info result" where
  "get_tlv_data_info d = get_tlv_data_info_from d [] 0"

definition get_first_extension_type :: "bytes \<Rightarrow> extension_type option result" where
  "get_first_extension_type d =
     (if d = [] then Inr None
      else (let ix = get_tlv_indices 0 in
        if length d \<le> length_start ix then Inr None
        else bindE (type_at d ix) (\<lambda>t. Inr (if t = Uninitialized then None else Some t))))"

section \<open>Reading and writing one entry\<close>

text \<open>\<open>get_extension_bytes\<close> and \<open>get_extension_bytes_mut\<close>: where the value of an
  entry starts and ends.  \<open>S\<close> is the account type of the base state.\<close>

definition extension_range :: "account_type \<Rightarrow> extension_type \<Rightarrow> bytes \<Rightarrow> (nat \<times> nat) result" where
  "extension_range S v d =
     (if get_account_type v \<noteq> S then Inl (Prog InvalidAccountData)
      else bindE (get_extension_indices v d False) (\<lambda>ix.
        let value_end = value_start ix + length_at d ix in
        if length d < value_end then Inl (Prog InvalidAccountData)
        else Inr (value_start ix, value_end)))"

definition get_extension_bytes :: "account_type \<Rightarrow> extension_type \<Rightarrow> bytes \<Rightarrow> bytes result" where
  "get_extension_bytes S v d = bindE (extension_range S v d) (\<lambda>(i, j). Inr (slice_of d i j))"

text \<open>Writing through the slice that \<open>get_extension_bytes_mut\<close> returned: the value has the
  length of the slice.\<close>

definition put_extension_bytes :: "account_type \<Rightarrow> extension_type \<Rightarrow> bytes \<Rightarrow> bytes \<Rightarrow> bytes" where
  "put_extension_bytes S v val d =
     (case extension_range S v d of Inl e \<Rightarrow> d
      | Inr (i, j) \<Rightarrow> if length val = j - i then splice d i val else d)"

text \<open>\<open>alloc\<close>: the buffer with the type and the length written, and the range of the value.\<close>

definition alloc :: "account_type \<Rightarrow> extension_type \<Rightarrow> nat \<Rightarrow> bool \<Rightarrow> bytes \<Rightarrow> (bytes \<times> nat \<times> nat) result" where
  "alloc S v len overwrite d =
     (if get_account_type v \<noteq> S then Inl (Prog InvalidAccountData)
      else bindE (get_extension_indices v d True) (\<lambda>ix.
        if length (drop (type_start ix) d) < add_type_and_length_to_len len
        then Inl (Prog InvalidAccountData)
        else bindE (type_at d ix) (\<lambda>t.
          if t = Uninitialized \<or> overwrite then
            (let d1 = splice d (type_start ix) (extension_type_bytes v) in
             if overwrite \<and> t = v \<and> length_at d1 ix \<noteq> len
             then Inl (Token InvalidLengthForAlloc)
             else bindE (length_try_from len) (\<lambda>n.
               Inr (splice d1 (length_start ix) (word_le n), value_start ix, value_start ix + len)))
          else Inl (Token ExtensionAlreadyInitialized))))"

text \<open>\<open>realloc\<close>: move the tail of the used part and clear what is left over or newly opened.\<close>

text \<open>\<open>copy_within\<close> panics on a source range that is not one and on a destination that
  does not fit, \<open>[i..j].fill(0)\<close> on a range that does not fit.\<close>

definition copy_within :: "bytes \<Rightarrow> nat \<Rightarrow> nat \<Rightarrow> nat \<Rightarrow> bytes result" where
  "copy_within d from_start from_end dest =
     (if from_start \<le> from_end \<and> from_end \<le> length d \<and> dest \<le> length d - (from_end - from_start)
      then Inr (splice d dest (slice_of d from_start from_end)) else Inl Panic)"

definition fill_zero :: "bytes \<Rightarrow> nat \<Rightarrow> nat \<Rightarrow> bytes result" where
  "fill_zero d i j =
     (if i \<le> j \<and> j \<le> length d then Inr (splice d i (replicate (j - i) 0)) else Inl Panic)"

definition realloc :: "extension_type \<Rightarrow> nat \<Rightarrow> bytes \<Rightarrow> (bytes \<times> nat \<times> nat) result" where
  "realloc v len d =
     bindE (get_extension_indices v d False) (\<lambda>ix.
     bindE (get_tlv_data_info d) (\<lambda>info.
       let tlv_len = used_len info; old_length = length_at d ix in
       if old_length < len \<and> tlv_len + (len - old_length) > length d
       then Inl (Prog InvalidAccountData)
       else bindE (length_try_from len) (\<lambda>n.
         let d1 = splice d (length_start ix) (word_le n);
             old_value_end = value_start ix + old_length;
             new_value_end = value_start ix + len
         in bindE (copy_within d1 old_value_end tlv_len new_value_end) (\<lambda>d2.
            bindE (if len < old_length then fill_zero d2 (tlv_len - (old_length - len)) tlv_len
                   else if old_length < len then fill_zero d2 old_value_end new_value_end
                   else Inr d2) (\<lambda>d3.
              Inr (d3, value_start ix, new_value_end))))))"

text \<open>\<open>try_get_new_account_len_for_extension_len\<close>.\<close>

definition try_get_new_account_len :: "account_type \<Rightarrow> extension_type \<Rightarrow> nat \<Rightarrow> bytes \<Rightarrow> nat result" where
  "try_get_new_account_len S v new_len d =
     bindE (get_tlv_data_info d) (\<lambda>info.
       let current_len = used_len info + BASE_ACCOUNT_AND_TYPE_LENGTH;
           current_extension_len =
             (case get_extension_bytes S v d of Inl e \<Rightarrow> 0
              | Inr x \<Rightarrow> add_type_and_length_to_len (length x))
       in Inr (adjust_len_for_multisig
                 (current_len - current_extension_len + add_type_and_length_to_len new_len)))"

text \<open>\<open>try_get_account_len\<close>.\<close>

definition try_get_account_len :: "nat \<Rightarrow> bytes \<Rightarrow> nat result" where
  "try_get_account_len size_of d =
     bindE (get_tlv_data_info d) (\<lambda>info.
       if info_types info = [] then Inr size_of
       else Inr (adjust_len_for_multisig (used_len info + BASE_ACCOUNT_AND_TYPE_LENGTH)))"

section \<open>The abstract view\<close>

type_synonym entry = "extension_type \<times> bytes"

definition tlv_entry :: "extension_type \<Rightarrow> bytes \<Rightarrow> bytes" where
  "tlv_entry t x = extension_type_bytes t @ word_le (of_nat (length x) :: u16) @ x"

fun tlv_encode :: "entry list \<Rightarrow> bytes" where
  "tlv_encode [] = []"
| "tlv_encode ((t, x) # es) = tlv_entry t x @ tlv_encode es"

fun entry_ok :: "account_type \<Rightarrow> entry \<Rightarrow> bool" where
  "entry_ok A (t, x) \<longleftrightarrow> t \<noteq> Uninitialized \<and> get_account_type t = A \<and> length x < 2 ^ 16"

definition entries_ok :: "account_type \<Rightarrow> entry list \<Rightarrow> bool" where
  "entries_ok A es \<longleftrightarrow> list_all (entry_ok A) es"

definition shift_indices :: "nat \<Rightarrow> tlv_indices \<Rightarrow> tlv_indices" where
  "shift_indices n ix =
     \<lparr>type_start = n + type_start ix, length_start = n + length_start ix, value_start = n + value_start ix\<rparr>"

lemma entries_ok_simps [simp]:
  "entries_ok A []"
  "entries_ok A (e # es) \<longleftrightarrow> entry_ok A e \<and> entries_ok A es"
  "entries_ok A (es @ fs) \<longleftrightarrow> entries_ok A es \<and> entries_ok A fs"
  by (simp_all add: entries_ok_def)

lemma tlv_indices_sel [simp]:
  "type_start (get_tlv_indices i) = i" "length_start (get_tlv_indices i) = i + 2"
  "value_start (get_tlv_indices i) = i + 4"
  by (simp_all add: get_tlv_indices_def)

lemma length_tlv_entry [simp]: "length (tlv_entry t x) = 4 + length x"
  by (simp add: tlv_entry_def)

lemma tlv_encode_append [simp]: "tlv_encode (es @ fs) = tlv_encode es @ tlv_encode fs"
  by (induction es rule: tlv_encode.induct) auto

lemma shift_get_tlv_indices [simp]: "shift_indices n (get_tlv_indices i) = get_tlv_indices (n + i)"
  by (simp add: shift_indices_def get_tlv_indices_def)

lemma at_shift [simp]:
  "type_at (p @ d) (get_tlv_indices (length p + i)) = type_at d (get_tlv_indices i)"
  "length_at (p @ d) (get_tlv_indices (length p + i)) = length_at d (get_tlv_indices i)"
  by (simp_all add: type_at_def length_at_def)

lemma at_entry [simp]:
  "type_at (tlv_entry t x @ d) (get_tlv_indices 0) = Inr t"
  "length x < 2 ^ 16 \<Longrightarrow> length_at (tlv_entry t x @ d) (get_tlv_indices 0) = length x"
  by (simp_all add: type_at_def length_at_def tlv_entry_def unat_of_nat take_bit_nat_def)

lemma indices_from_shift:
  "get_extension_indices_from v init (p @ d) (length p + i) =
   bindE (get_extension_indices_from v init d i) (\<lambda>ix. Inr (shift_indices (length p) ix))"
proof (induction v init d i rule: get_extension_indices_from.induct)
  case (1 v init d i)
  note unf = get_extension_indices_from.simps [of v init "p @ d" "length p + i"]
    get_extension_indices_from.simps [of v init d i]
  show ?case
  proof (cases "i < length d \<and> \<not> length d < i + 4")
    case False
    then show ?thesis by (auto simp: unf Let_def)
  next
    case True
    show ?thesis
    proof (cases "type_at d (get_tlv_indices i)")
      case (Inl e)
      with True show ?thesis by (simp add: unf Let_def)
    next
      case (Inr t)
      have "t \<noteq> v \<Longrightarrow> t \<noteq> Uninitialized \<Longrightarrow> get_account_type v = get_account_type t \<Longrightarrow>
        get_extension_indices_from v init (p @ d) (length p + (i + 4 + length_at d (get_tlv_indices i))) =
        bindE (get_extension_indices_from v init d (i + 4 + length_at d (get_tlv_indices i)))
          (\<lambda>ix. Inr (shift_indices (length p) ix))"
        using "1.IH" [of "get_tlv_indices i" t] True Inr by simp
      with True Inr show ?thesis by (simp add: unf Let_def add.assoc)
    qed
  qed
qed

lemma indices_here:
  "get_extension_indices v (tlv_entry v x @ d) init = Inr (get_tlv_indices 0)"
  by (simp add: get_extension_indices_def get_extension_indices_from.simps)

lemma indices_skip:
  assumes "entry_ok (get_account_type v) (t, x)" "t \<noteq> v"
  shows "get_extension_indices v (tlv_entry t x @ d) init =
    bindE (get_extension_indices v d init) (\<lambda>ix. Inr (shift_indices (4 + length x) ix))"
proof -
  have "get_extension_indices_from v init (tlv_entry t x @ d) (length (tlv_entry t x) + 0) =
    bindE (get_extension_indices_from v init d 0) (\<lambda>ix. Inr (shift_indices (length (tlv_entry t x)) ix))"
    by (rule indices_from_shift)
  with assms show ?thesis
    by (simp add: get_extension_indices_def get_extension_indices_from.simps [of v init "tlv_entry t x @ d"])
qed

lemma range_here:
  assumes "get_account_type v = S" "length x < 2 ^ 16"
  shows "extension_range S v (tlv_entry v x @ d) = Inr (4, 4 + length x)"
  using assms by (simp add: extension_range_def indices_here)

lemma length_at_shift:
  "length_at (p @ d) (shift_indices (length p) ix) = length_at d ix"
  by (simp add: length_at_def shift_indices_def)

lemma range_skip:
  assumes "entry_ok S (t, x)" "t \<noteq> v"
  shows "extension_range S v (tlv_entry t x @ d) =
    bindE (extension_range S v d) (\<lambda>(i, j). Inr (4 + length x + i, 4 + length x + j))"
proof (cases "get_account_type v = S")
  case True
  with assms have idx: "get_extension_indices v (tlv_entry t x @ d) False =
    bindE (get_extension_indices v d False) (\<lambda>ix. Inr (shift_indices (4 + length x) ix))"
    by (intro indices_skip) simp_all
  have la: "length_at (tlv_entry t x @ d) (shift_indices (4 + length x) ix) = length_at d ix" for ix
    using length_at_shift [of "tlv_entry t x" d ix] by simp
  show ?thesis
    by (cases "get_extension_indices v d False")
       (simp_all add: extension_range_def True idx la Let_def, simp add: shift_indices_def)
qed (simp add: extension_range_def)

lemma slice_entry: "slice_of (tlv_entry t x @ d) 4 (4 + length x) = x"
  by (simp add: tlv_entry_def)

lemma get_bytes_here [simp]:
  assumes "get_account_type v = S" "length x < 2 ^ 16"
  shows "get_extension_bytes S v (tlv_entry v x @ d) = Inr x"
  using assms by (simp add: get_extension_bytes_def range_here slice_entry)

lemma get_bytes_skip [simp]:
  assumes "entry_ok S (t, x)" "t \<noteq> v"
  shows "get_extension_bytes S v (tlv_entry t x @ d) = get_extension_bytes S v d"
proof -
  have "slice_of (tlv_entry t x @ d) (4 + length x + i) (4 + length x + j) = slice_of d i j" for i j
    by simp
  with assms show ?thesis
    by (cases "extension_range S v d") (auto simp: get_extension_bytes_def range_skip)
qed

lemma get_bytes_encode_skip:
  "entries_ok S es \<Longrightarrow> v \<notin> fst ` set es \<Longrightarrow>
   get_extension_bytes S v (tlv_encode es @ d) = get_extension_bytes S v d"
  by (induction es rule: tlv_encode.induct) auto

lemma get_bytes_encode:
  "entries_ok S es \<Longrightarrow> map_of es v = Some x \<Longrightarrow>
   get_extension_bytes S v (tlv_encode es @ d) = Inr x"
  by (induction es rule: tlv_encode.induct) (auto split: if_splits)

lemma range_encode_skip:
  "entries_ok S es \<Longrightarrow> v \<notin> fst ` set es \<Longrightarrow> extension_range S v (tlv_encode es @ d) =
    bindE (extension_range S v d) (\<lambda>(i, j). Inr (length (tlv_encode es) + i, length (tlv_encode es) + j))"
proof (induction es rule: tlv_encode.induct)
  case 1
  show ?case by (cases "extension_range S v d") auto
next
  case (2 t x es)
  then show ?case
    by (cases "extension_range S v d") (auto simp: range_skip simp del: entry_ok.simps)
qed

text \<open>
  Conversely, a lookup that succeeds decomposes the buffer: the entries before the one found, all of
  the same account type and none of the type looked for, then the entry itself.
\<close>

lemma indices_from_Inr:
  "get_extension_indices_from v init d i = Inr ix \<Longrightarrow> i \<le> length d \<Longrightarrow>
   \<exists>es rest t. drop i d = tlv_encode es @ rest \<and> entries_ok (get_account_type v) es \<and>
     v \<notin> fst ` set es \<and> ix = get_tlv_indices (i + length (tlv_encode es)) \<and> 4 \<le> length rest \<and>
     extension_type_of_bytes (take 2 rest) = Inr t \<and> (t = v \<or> t = Uninitialized \<and> init)"
proof (induction v init d i rule: get_extension_indices_from.induct)
  case (1 v init d i)
  let ?ix = "get_tlv_indices i"
  let ?x = "slice_of d (i + 4) (i + 4 + length_at d ?ix)"
  from "1.prems" have b: "i < length d" "\<not> length d < i + 4"
    by (auto simp: get_extension_indices_from.simps [of v init d i] Let_def split: if_splits)
  with "1.prems" obtain t where t: "type_at d ?ix = Inr t"
    by (auto simp: get_extension_indices_from.simps [of v init d i] Let_def success_simps)
  have tb: "extension_type_of_bytes (take 2 (drop i d)) = Inr t"
    using t by (simp add: type_at_def slice_of_def)
  show ?case
  proof (cases "t = v \<or> t = Uninitialized")
    case True
    with "1.prems" b t have "ix = ?ix" "t = v \<or> t = Uninitialized \<and> init"
      by (auto simp: get_extension_indices_from.simps [of v init d i] Let_def split: if_splits)
    with b tb show ?thesis
      by (intro exI [of _ "[]"] exI [of _ "drop i d"] exI [of _ t]) auto
  next
    case False
    with "1.prems" b t have acct: "get_account_type v = get_account_type t" and
      rec: "get_extension_indices_from v init d (i + 4 + length_at d ?ix) = Inr ix"
      by (auto simp: get_extension_indices_from.simps [of v init d i] Let_def split: if_splits)
    from rec have le: "i + 4 + length_at d ?ix \<le> length d"
      by (subst (asm) get_extension_indices_from.simps) (auto split: if_splits)
    from "1.IH" [of ?ix t] b t False acct rec le obtain es rest u where
      IH: "drop (i + 4 + length_at d ?ix) d = tlv_encode es @ rest" "entries_ok (get_account_type v) es"
        "v \<notin> fst ` set es" "ix = get_tlv_indices (i + 4 + length_at d ?ix + length (tlv_encode es))"
        "4 \<le> length rest" "extension_type_of_bytes (take 2 rest) = Inr u" "u = v \<or> u = Uninitialized \<and> init"
      by auto
    have len: "length ?x = length_at d ?ix" using le by simp
    have small: "length_at d ?ix < 2 ^ 16"
      using unat_less_2p [of "le_word (slice_of d (i + 2) (i + 4)) :: u16"] by (simp add: length_at_def)
    have "tlv_entry t ?x = slice_of d i (i + 2) @ slice_of d (i + 2) (i + 4) @ ?x"
      using extension_type_bytes_of_bytes [OF tb] le
      by (simp add: tlv_entry_def len) (simp add: length_at_def slice_of_def word_le_le_word)
    also have "\<dots> = slice_of d i (i + 4 + length_at d ?ix)"
      by (simp add: slice_of_append_slice_of)
    finally have "tlv_entry t ?x @ drop (i + 4 + length_at d ?ix) d = drop i d"
      using le by (simp add: slice_of_def) (metis add.assoc add.commute append_take_drop_id drop_drop)
    with IH have "drop i d = tlv_encode ((t, ?x) # es) @ rest" by simp
    with IH acct False len small show ?thesis
      by (intro exI [of _ "(t, ?x) # es"] exI [of _ rest] exI [of _ u]) (auto simp: add.assoc)
  qed
qed

lemma take_2: "take 2 rest = slice_of rest 0 2"
  by (simp add: slice_of_def)

lemma range_decomp:
  assumes "extension_range S v d = Inr (i, j)"
  obtains es x rest where "d = tlv_encode es @ tlv_entry v x @ rest" "entries_ok S es"
    "v \<notin> fst ` set es" "length x < 2 ^ 16" "get_account_type v = S"
    "i = length (tlv_encode es) + 4" "j = length (tlv_encode es) + 4 + length x"
proof -
  from assms obtain ix where S: "get_account_type v = S" and ix: "get_extension_indices v d False = Inr ix"
    and le: "value_start ix + length_at d ix \<le> length d"
    and ij: "i = value_start ix" "j = value_start ix + length_at d ix"
    by (auto simp: extension_range_def Let_def success_simps split: if_splits)
  from indices_from_Inr [of v False d 0 ix] ix obtain es rest where
    d: "d = tlv_encode es @ rest" and es: "entries_ok (get_account_type v) es" "v \<notin> fst ` set es"
    and ixd: "ix = get_tlv_indices (length (tlv_encode es))" and r4: "4 \<le> length rest"
    and tv: "extension_type_of_bytes (take 2 rest) = Inr v"
    by (auto simp: get_extension_indices_def)
  let ?n = "length_at d ix"
  let ?x = "slice_of rest 4 (4 + ?n)"
  have n: "?n = unat (le_word (slice_of rest 2 4) :: u16)"
    by (simp add: d ixd length_at_def)
  have small: "?n < 2 ^ 16" using unat_less_2p [of "le_word (slice_of rest 2 4) :: u16"] by (simp add: n)
  have le': "4 + ?n \<le> length rest" using le by (simp add: ixd d)
  have "tlv_entry v ?x = take 2 rest @ slice_of rest 2 4 @ ?x"
    using extension_type_bytes_of_bytes [OF tv] le' by (simp add: tlv_entry_def) (simp add: n)
  also have "\<dots> = slice_of rest 0 (4 + ?n)"
    by (simp add: slice_of_append_slice_of take_2)
  finally have "rest = tlv_entry v ?x @ drop (4 + ?n) rest" by (simp add: slice_of_def)
  with d have "d = tlv_encode es @ tlv_entry v ?x @ drop (4 + ?n) rest" by simp
  moreover have "length ?x = ?n" using le' by simp
  ultimately show ?thesis
    using that [of es ?x "drop (4 + ?n) rest"] es S small ij by (simp add: ixd)
qed

lemma range_of_decomp:
  assumes "d = tlv_encode es @ tlv_entry v x @ rest" "entries_ok S es" "v \<notin> fst ` set es"
    "length x < 2 ^ 16" "get_account_type v = S"
  shows "extension_range S v d = Inr (length (tlv_encode es) + 4, length (tlv_encode es) + 4 + length x)"
  using assms by (simp add: range_encode_skip range_here)

lemma get_bytes_decomp:
  assumes "get_extension_bytes S v d = Inr x"
  obtains es rest where "d = tlv_encode es @ tlv_entry v x @ rest" "entries_ok S es"
    "v \<notin> fst ` set es" "length x < 2 ^ 16" "get_account_type v = S"
proof -
  from assms obtain i j where "extension_range S v d = Inr (i, j)" "x = slice_of d i j"
    by (auto simp: get_extension_bytes_def success_simps)
  then obtain es y rest where d: "d = tlv_encode es @ tlv_entry v y @ rest" "entries_ok S es"
    "v \<notin> fst ` set es" "length y < 2 ^ 16" "get_account_type v = S"
    by (elim range_decomp) auto
  then have "get_extension_bytes S v d = Inr y" by (simp add: get_bytes_encode_skip)
  with assms d that show ?thesis by simp
qed

lemma put_decomp:
  assumes "d = tlv_encode es @ tlv_entry v x @ rest" "entries_ok S es" "v \<notin> fst ` set es"
    "length x < 2 ^ 16" "get_account_type v = S" "length y = length x"
  shows "put_extension_bytes S v y d = tlv_encode es @ tlv_entry v y @ rest"
proof -
  have "put_extension_bytes S v y d = splice d (length (tlv_encode es) + 4) y"
    using assms(6) by (simp add: put_extension_bytes_def range_of_decomp [OF assms(1-5)])
  with assms(1,6) show ?thesis by (simp add: splice_def tlv_entry_def)
qed

lemma put_cases:
  obtains "put_extension_bytes S v y d = d"
  | es x rest where "d = tlv_encode es @ tlv_entry v x @ rest" "entries_ok S es"
    "v \<notin> fst ` set es" "length x < 2 ^ 16" "get_account_type v = S" "length y = length x"
    "put_extension_bytes S v y d = tlv_encode es @ tlv_entry v y @ rest"
proof (cases "extension_range S v d")
  case (Inl e)
  then show ?thesis using that(1) by (simp add: put_extension_bytes_def)
next
  case (Inr p)
  then obtain i j where ij: "extension_range S v d = Inr (i, j)" by (cases p) auto
  then obtain es x rest where *: "d = tlv_encode es @ tlv_entry v x @ rest" "entries_ok S es"
    "v \<notin> fst ` set es" "length x < 2 ^ 16" "get_account_type v = S" "j - i = length x"
    by (elim range_decomp) auto
  show ?thesis
  proof (cases "length y = length x")
    case True
    with * put_decomp show ?thesis using that(2) by blast
  next
    case False
    with ij * that(1) show ?thesis by (simp add: put_extension_bytes_def)
  qed
qed

lemma length_put [simp]: "length (put_extension_bytes S v y d) = length d"
  by (rule put_cases [of S v y d]) auto

lemma get_put_same:
  assumes "get_extension_bytes S v d = Inr x" "length y = length x"
  shows "get_extension_bytes S v (put_extension_bytes S v y d) = Inr y"
  using assms(1)
proof (rule get_bytes_decomp)
  fix es rest
  assume *: "d = tlv_encode es @ tlv_entry v x @ rest" "entries_ok S es" "v \<notin> fst ` set es"
    "length x < 2 ^ 16" "get_account_type v = S"
  from put_decomp [OF * assms(2)] * assms(2) show ?thesis by (simp add: get_bytes_encode_skip)
qed

lemma get_bytes_Nil [simp]: "\<not> isOk (get_extension_bytes S v [])"
  by (auto simp: get_extension_bytes_def extension_range_def get_extension_indices_def get_extension_indices_from.simps
      isOk_iff success_simps split: if_splits)

lemma get_bytes_other_type:
  "get_account_type u \<noteq> S \<Longrightarrow> get_extension_bytes S u d = Inl (Prog InvalidAccountData)"
  by (simp add: get_extension_bytes_def extension_range_def)

lemma get_replace_other:
  assumes "entries_ok S es" "entry_ok S (v, x)" "entry_ok S (v, y)" "u \<noteq> v"
  shows "get_extension_bytes S u (tlv_encode es @ tlv_entry v x @ rest) =
    get_extension_bytes S u (tlv_encode es @ tlv_entry v y @ rest)"
proof (cases "map_of es u")
  case None
  then have "u \<notin> fst ` set es" by (simp add: map_of_eq_None_iff)
  with assms assms(4) [symmetric] show ?thesis by (simp add: get_bytes_encode_skip del: entry_ok.simps)
next
  case (Some z)
  with assms show ?thesis by (simp add: get_bytes_encode del: entry_ok.simps)
qed

lemma account_type_uninitialized: "get_account_type t = account_type.Uninitialized \<longleftrightarrow> t = Uninitialized"
  by (cases t) auto

lemma get_put_other:
  assumes "u \<noteq> v" "S \<noteq> account_type.Uninitialized"
  shows "get_extension_bytes S u (put_extension_bytes S v y d) = get_extension_bytes S u d"
proof (rule put_cases [of S v y d])
  fix es x rest
  assume d: "d = tlv_encode es @ tlv_entry v x @ rest" "entries_ok S es" "length x < 2 ^ 16"
    "get_account_type v = S" "length y = length x"
    "put_extension_bytes S v y d = tlv_encode es @ tlv_entry v y @ rest"
  with assms(2) have "entry_ok S (v, x)" "entry_ok S (v, y)" by auto
  from get_replace_other [OF d(2) this assms(1)] d(1,6) show ?thesis by simp
qed simp

section \<open>Allocation\<close>

text \<open>
  A successful allocation: the entries before the slot are kept, the slot becomes an entry of the
  requested type and length over the bytes that were there, and what follows is kept.  The slot was
  either an entry of that type and, when overwritten, of that length, or the first unused position.
\<close>

lemma alloc_decomp:
  assumes "alloc S v len overwrite d = Inr (d', i, j)"
  obtains es rest where "d = tlv_encode es @ rest" "entries_ok S es" "v \<notin> fst ` set es"
    "4 + len \<le> length rest" "len < 2 ^ 16" "get_account_type v = S"
    "d' = tlv_encode es @ tlv_entry v (slice_of rest 4 (4 + len)) @ drop (4 + len) rest"
    "i = length (tlv_encode es) + 4" "j = length (tlv_encode es) + 4 + len"
    "take 2 rest = extension_type_bytes Uninitialized \<or>
     overwrite \<and> rest = tlv_entry v (slice_of rest 4 (4 + len)) @ drop (4 + len) rest"
proof -
  from assms obtain ix t n where S: "get_account_type v = S"
    and ix: "get_extension_indices v d True = Inr ix"
    and room: "4 + len \<le> length (drop (type_start ix) d)"
    and t: "type_at d ix = Inr t" and ow: "t = Uninitialized \<or> overwrite"
    and lat: "overwrite \<and> t = v \<longrightarrow> length_at (splice d (type_start ix) (extension_type_bytes v)) ix = len"
    and n: "length_try_from len = Inr n"
    and d': "d' = splice (splice d (type_start ix) (extension_type_bytes v)) (length_start ix) (word_le n)"
    and ij: "i = value_start ix" "j = value_start ix + len"
    by (auto simp: alloc_def add_type_and_length_to_len_def Let_def success_simps not_less)
  from indices_from_Inr [of v True d 0 ix] ix obtain es rest u where
    d: "d = tlv_encode es @ rest" and es: "entries_ok (get_account_type v) es" "v \<notin> fst ` set es"
    and ixd: "ix = get_tlv_indices (length (tlv_encode es))" and r4: "4 \<le> length rest"
    and u: "extension_type_of_bytes (take 2 rest) = Inr u" "u = v \<or> u = Uninitialized"
    by (auto simp: get_extension_indices_def)
  have ut: "u = t" using t u(1) by (simp add: type_at_def ixd d take_2)
  have len: "len < 2 ^ 16" "n = of_nat len"
    using n by (auto simp: length_try_from_def split: if_splits)
  have le: "4 + len \<le> length rest" using room by (simp add: ixd d)
  let ?x = "slice_of rest 4 (4 + len)"
  have lx: "length ?x = len" using le by simp
  have "d' = tlv_encode es @ extension_type_bytes v @ word_le n @ drop 4 rest"
    using r4 by (simp add: d' ixd d splice_def)
  also have "drop 4 rest = ?x @ drop (4 + len) rest"
    by (simp add: slice_of_def) (metis add.commute append_take_drop_id drop_drop)
  finally have d'': "d' = tlv_encode es @ tlv_entry v ?x @ drop (4 + len) rest"
    by (simp add: tlv_entry_def lx len(2))
  have slot: "take 2 rest = extension_type_bytes Uninitialized \<or>
     overwrite \<and> rest = tlv_entry v ?x @ drop (4 + len) rest"
  proof (cases "t = Uninitialized")
    case True
    then show ?thesis using extension_type_bytes_of_bytes [OF u(1)] ut by simp
  next
    case False
    with ow lat u ut have ov: overwrite and tv: "t = v"
      and la: "length_at (splice d (type_start ix) (extension_type_bytes v)) ix = len" by auto
    have tb: "extension_type_bytes v = slice_of rest 0 2"
      using extension_type_bytes_of_bytes [OF u(1)] ut tv by (simp add: take_2)
    have "splice d (type_start ix) (extension_type_bytes v) = d"
      using r4 by (simp add: d ixd tb splice_def) (simp add: slice_of_def)
    with la have "unat (le_word (slice_of rest 2 4) :: u16) = len"
      by (simp add: length_at_def d ixd)
    then have "tlv_entry v ?x = slice_of rest 0 2 @ slice_of rest 2 4 @ ?x"
      using r4 by (simp add: tlv_entry_def lx tb) auto
    also have "\<dots> = slice_of rest 0 (4 + len)" by (simp add: slice_of_append_slice_of)
    finally have "rest = tlv_entry v ?x @ drop (4 + len) rest" by (simp add: slice_of_def)
    with ov show ?thesis by blast
  qed
  from that [of es rest] d es le len S d'' slot ij show ?thesis by (simp add: ixd)
qed

text \<open>\<open>init_extension\<close> on bytes: allocate, then write the value into the slot.\<close>

definition init_extension_bytes ::
    "account_type \<Rightarrow> extension_type \<Rightarrow> bytes \<Rightarrow> bool \<Rightarrow> bytes \<Rightarrow> bytes result" where
  "init_extension_bytes S v val overwrite d =
     bindE (alloc S v (length val) overwrite d) (\<lambda>(d', i, j). Inr (splice d' i val))"

lemma init_decomp:
  assumes "init_extension_bytes S v val overwrite d = Inr d'"
  obtains es rest where "d = tlv_encode es @ rest" "entries_ok S es" "v \<notin> fst ` set es"
    "4 + length val \<le> length rest" "length val < 2 ^ 16" "get_account_type v = S"
    "d' = tlv_encode es @ tlv_entry v val @ drop (4 + length val) rest"
    "take 2 rest = extension_type_bytes Uninitialized \<or>
     overwrite \<and> rest = tlv_entry v (slice_of rest 4 (4 + length val)) @ drop (4 + length val) rest"
proof -
  from assms obtain d1 i j where a: "alloc S v (length val) overwrite d = Inr (d1, i, j)"
    and d': "d' = splice d1 i val"
    by (auto simp: init_extension_bytes_def success_simps)
  from a show ?thesis
  proof (rule alloc_decomp)
    fix es rest
    assume *: "d = tlv_encode es @ rest" "entries_ok S es" "v \<notin> fst ` set es"
      "4 + length val \<le> length rest" "length val < 2 ^ 16" "get_account_type v = S"
      "d1 = tlv_encode es @ tlv_entry v (slice_of rest 4 (4 + length val)) @ drop (4 + length val) rest"
      "i = length (tlv_encode es) + 4" "j = length (tlv_encode es) + 4 + length val"
      "take 2 rest = extension_type_bytes Uninitialized \<or>
       overwrite \<and> rest = tlv_entry v (slice_of rest 4 (4 + length val)) @ drop (4 + length val) rest"
    then have "d' = tlv_encode es @ tlv_entry v val @ drop (4 + length val) rest"
      by (simp add: d' splice_def tlv_entry_def)
    with * show ?thesis using that by blast
  qed
qed

lemma length_init:
  "init_extension_bytes S v val overwrite d = Inr d' \<Longrightarrow> length d' = length d"
  by (erule init_decomp) simp

lemma get_init_same:
  assumes "init_extension_bytes S v val overwrite d = Inr d'"
  shows "get_extension_bytes S v d' = Inr val"
  using assms by (rule init_decomp) (simp add: get_bytes_encode_skip)

text \<open>
  Extensions found before an allocation are found unchanged after it: an entry that is present lies
  before the slot, or the slot itself was already an entry of the allocated type.
\<close>

lemma get_bytes_uninitialized:
  assumes "get_account_type v = S" "S \<noteq> account_type.Uninitialized" "4 \<le> length rest"
    "take 2 rest = extension_type_bytes Uninitialized"
  shows "get_extension_bytes S v rest = Inl (Token ExtensionNotFound)"
proof -
  have "v \<noteq> Uninitialized" using assms by auto
  moreover have "type_at rest (get_tlv_indices 0) = Inr Uninitialized"
    using assms(4) by (simp add: type_at_def slice_of_def numeral_2_eq_2)
  moreover have "rest \<noteq> []" using assms(3) by auto
  ultimately show ?thesis using assms
    by (simp add: get_extension_bytes_def extension_range_def get_extension_indices_def
        get_extension_indices_from.simps [of v False rest] Let_def)
qed

lemma get_init_other:
  assumes "init_extension_bytes S v val overwrite d = Inr d'" "u \<noteq> v"
    "S \<noteq> account_type.Uninitialized" "get_extension_bytes S u d = Inr x"
  shows "get_extension_bytes S u d' = Inr x"
  using assms(1)
proof (rule init_decomp)
  fix es rest
  assume *: "d = tlv_encode es @ rest" "entries_ok S es" "v \<notin> fst ` set es"
    "4 + length val \<le> length rest" "length val < 2 ^ 16" "get_account_type v = S"
    "d' = tlv_encode es @ tlv_entry v val @ drop (4 + length val) rest"
    "take 2 rest = extension_type_bytes Uninitialized \<or>
     overwrite \<and> rest = tlv_entry v (slice_of rest 4 (4 + length val)) @ drop (4 + length val) rest"
  have S: "get_account_type u = S" using assms(4) get_bytes_other_type by fastforce
  show ?thesis
  proof (cases "map_of es u")
    case (Some z)
    with * assms(4) show ?thesis by (simp add: get_bytes_encode)
  next
    case None
    then have u: "u \<notin> fst ` set es" by (simp add: map_of_eq_None_iff)
    with * assms(4) have r: "get_extension_bytes S u rest = Inr x" by (simp add: get_bytes_encode_skip)
    then have "take 2 rest \<noteq> extension_type_bytes Uninitialized"
      using get_bytes_uninitialized [OF S assms(3)] *(4) by auto
    with *(8) have rest: "rest = tlv_entry v (slice_of rest 4 (4 + length val)) @ drop (4 + length val) rest"
      by blast
    have "entry_ok S (v, val)" "entry_ok S (v, slice_of rest 4 (4 + length val))"
      using * assms(3) by (auto simp: account_type_uninitialized [symmetric])
    from get_replace_other [OF *(2) this assms(2), of "drop (4 + length val) rest"] *(1,7) rest assms(4)
    show ?thesis by metis
  qed
qed

end
