(* ===== verification/Extension_State.thy ===== *)
theory Extension_State
  imports Tlv
begin

text \<open>
  Base states with extensions (\<open>src/programs/src/extension/mod.rs\<close>):
  \<open>PodStateWithExtensions\<close> and \<open>PodStateWithExtensionsMut\<close> over \<open>PodMint\<close> and
  \<open>PodAccount\<close>, the \<open>BaseState\<close> and \<open>Extension\<close> traits, and the operations of
  \<open>BaseStateWithExtensions(Mut)\<close>.

  The Rust struct borrows three parts of the account buffer: the base, the account-type byte and the
  TLV data.  \<open>ext_state\<close> holds these parts, and the padding between base and account type,
  by value; \<open>state_bytes\<close> puts the buffer together again.  A handler that unpacks, changes
  the parts through its references and returns is: unpack, change the record, store
  \<open>state_bytes\<close>.  The traits are records of their operations with a locale for the laws;
  the laws are discharged for the base states here and for every extension in theory Extensions.
\<close>

section \<open>The BaseState trait\<close>

record 's base_state =
  size_of :: nat
  ACCOUNT_TYPE :: account_type
  base_of_bytes :: "bytes \<Rightarrow> 's"
  base_bytes :: "'s \<Rightarrow> bytes"
  base_is_initialized :: "'s \<Rightarrow> bool"

definition PodMint :: "env \<Rightarrow> pod_mint base_state" where
  "PodMint E =
     \<lparr>size_of = PodMint_SIZE_OF, ACCOUNT_TYPE = account_type.Mint, base_of_bytes = pod_mint_of_bytes,
      base_bytes = pod_mint_bytes, base_is_initialized = pod_mint_is_initialized E\<rparr>"

definition PodAccount :: "pod_account base_state" where
  "PodAccount =
     \<lparr>size_of = PodAccount_SIZE_OF, ACCOUNT_TYPE = account_type.Account,
      base_of_bytes = pod_account_of_bytes, base_bytes = pod_account_bytes,
      base_is_initialized = pod_account_is_initialized\<rparr>"

locale base_state_laws =
  fixes S :: "'s base_state"
  assumes size_bound: "size_of S \<le> BASE_ACCOUNT_LENGTH"
    and length_base_bytes: "length (base_bytes S b) = size_of S"
    and base_of_bytes_bytes: "base_of_bytes S (base_bytes S b) = b"
    and base_bytes_of_bytes: "length d = size_of S \<Longrightarrow> base_bytes S (base_of_bytes S d) = d"
    and type_initialized: "ACCOUNT_TYPE S \<noteq> account_type.Uninitialized"

section \<open>Unpacking\<close>

record 's ext_state =
  base :: 's
  padding :: bytes
  account_type :: bytes
  tlv_data :: bytes

definition check_min_len_and_not_multisig :: "bytes \<Rightarrow> nat \<Rightarrow> unit result" where
  "check_min_len_and_not_multisig input minimum_len =
     (if length input = Multisig_LEN \<or> length input < minimum_len
      then Inl (Prog InvalidAccountData) else Inr ())"

definition check_account_type :: "'s base_state \<Rightarrow> account_type \<Rightarrow> unit result" where
  "check_account_type S t =
     (if t \<noteq> ACCOUNT_TYPE S then Inl (Prog InvalidAccountData) else Inr ())"

definition check_uninitialized_type :: "account_type \<Rightarrow> unit result" where
  "check_uninitialized_type t =
     (if t \<noteq> account_type.Uninitialized then Inl (Prog InvalidAccountData) else Inr ())"

definition type_and_tlv_indices :: "'s base_state \<Rightarrow> bytes \<Rightarrow> (nat \<times> nat) option result" where
  "type_and_tlv_indices S rest =
     (if rest = [] then Inr None
      else (let account_type_index = BASE_ACCOUNT_LENGTH - size_of S;
                tlv_start_index = account_type_index + 1
            in if length rest \<le> tlv_start_index then Inl (Prog InvalidAccountData)
               else if take account_type_index rest \<noteq> replicate account_type_index 0
               then Inl (Prog InvalidAccountData)
               else Inr (Some (account_type_index, tlv_start_index))))"

text \<open>\<open>unpack_type_and_tlv_data_with_check_mut\<close>; \<open>unpack_tlv_data\<close> is the same with
  \<open>check_account_type\<close> and only the TLV slice returned.\<close>

definition unpack_type_and_tlv_data_with_check ::
    "'s base_state \<Rightarrow> bytes \<Rightarrow> (account_type \<Rightarrow> unit result) \<Rightarrow> (bytes \<times> bytes \<times> bytes) result" where
  "unpack_type_and_tlv_data_with_check S rest check_fn =
     bindE (type_and_tlv_indices S rest) (\<lambda>ix. case ix of
       None \<Rightarrow> Inr ([], [], [])
     | Some (account_type_index, tlv_start_index) \<Rightarrow>
         bindE (ok_or (Prog InvalidAccountData) (account_type_try_from (rest ! account_type_index))) (\<lambda>t.
         bindE (check_fn t) (\<lambda>_.
           Inr (take account_type_index rest, slice_of rest account_type_index tlv_start_index,
                drop tlv_start_index rest))))"

text \<open>\<open>PodStateWithExtensions::unpack\<close> and \<open>PodStateWithExtensionsMut::unpack\<close>.  The
  base slice has exactly the size of the struct, so the cast of \<open>pod_from_bytes\<close> succeeds.\<close>

definition unpack :: "'s base_state \<Rightarrow> bytes \<Rightarrow> 's ext_state result" where
  "unpack S input =
     bindE (check_min_len_and_not_multisig input (size_of S)) (\<lambda>_.
       let base_data = take (size_of S) input; rest = drop (size_of S) input;
           b = base_of_bytes S base_data
       in if \<not> base_is_initialized S b then Inl (Prog UninitializedAccount)
          else bindE (unpack_type_and_tlv_data_with_check S rest (check_account_type S))
            (\<lambda>(pad, ty, tlv). Inr \<lparr>base = b, padding = pad, account_type = ty, tlv_data = tlv\<rparr>))"

text \<open>\<open>check_account_type_matches_extension_type\<close>.\<close>

definition check_account_type_matches_extension_type :: "'s base_state \<Rightarrow> 's ext_state \<Rightarrow> unit result" where
  "check_account_type_matches_extension_type S st =
     bindE (get_first_extension_type (tlv_data st)) (\<lambda>first. case first of
       None \<Rightarrow> Inr ()
     | Some t \<Rightarrow> if get_account_type t \<noteq> ACCOUNT_TYPE S then Inl (Token ExtensionBaseMismatch) else Inr ())"

definition unpack_uninitialized :: "'s base_state \<Rightarrow> bytes \<Rightarrow> 's ext_state result" where
  "unpack_uninitialized S input =
     bindE (check_min_len_and_not_multisig input (size_of S)) (\<lambda>_.
       let base_data = take (size_of S) input; rest = drop (size_of S) input;
           b = base_of_bytes S base_data
       in if base_is_initialized S b then Inl (Token AlreadyInUse)
          else bindE (unpack_type_and_tlv_data_with_check S rest check_uninitialized_type)
            (\<lambda>(pad, ty, tlv).
              let st = \<lparr>base = b, padding = pad, account_type = ty, tlv_data = tlv\<rparr>
              in bindE (check_account_type_matches_extension_type S st) (\<lambda>_. Inr st)))"

text \<open>The buffer the parts of a state are borrowed from.\<close>

definition state_bytes :: "'s base_state \<Rightarrow> 's ext_state \<Rightarrow> bytes" where
  "state_bytes S st = base_bytes S (base st) @ padding st @ account_type st @ tlv_data st"

section \<open>The Extension trait\<close>

record 'v extension =
  ext_type :: extension_type
  ext_len :: nat
  ext_of_bytes :: "bytes \<Rightarrow> 'v"
  ext_bytes :: "'v \<Rightarrow> bytes"
  ext_default :: 'v

text \<open>A value that fits the struct: it has the size of the struct and reads back as itself.  The
  structs that hold ciphertexts keep them as byte lists, so not every record value fits.\<close>

definition ext_valid :: "'v extension \<Rightarrow> 'v \<Rightarrow> bool" where
  "ext_valid V v \<longleftrightarrow> length (ext_bytes V v) = ext_len V \<and> ext_of_bytes V (ext_bytes V v) = v"

locale extension_laws =
  fixes V :: "'v extension"
  assumes ext_bytes_of_bytes: "length d = ext_len V \<Longrightarrow> ext_bytes V (ext_of_bytes V d) = d"
    and default_valid: "ext_valid V (ext_default V)"

locale total_extension = extension_laws V for V :: "'v extension" +
  assumes all_valid: "ext_valid V v"

text \<open>\<open>get_extension::<V>\<close> and \<open>get_extension_mut::<V>\<close>: the bytes of the entry, cast
  to the struct.  The cast fails on a value of another length.\<close>

definition get_extension :: "env \<Rightarrow> 's base_state \<Rightarrow> 'v extension \<Rightarrow> 's ext_state \<Rightarrow> 'v result" where
  "get_extension E S V st =
     bindE (get_extension_bytes (ACCOUNT_TYPE S) (ext_type V) (tlv_data st)) (\<lambda>b.
       if length b = ext_len V then Inr (ext_of_bytes V b) else Inl (pod_size_error E))"

text \<open>Assigning to the struct behind the reference that \<open>get_extension_mut\<close> returned.\<close>

definition put_extension :: "'s base_state \<Rightarrow> 'v extension \<Rightarrow> 'v \<Rightarrow> 's ext_state \<Rightarrow> 's ext_state" where
  "put_extension S V v st =
     st\<lparr>tlv_data := put_extension_bytes (ACCOUNT_TYPE S) (ext_type V) (ext_bytes V v) (tlv_data st)\<rparr>"

text \<open>\<open>init_extension::<V>(overwrite)\<close> followed by an assignment of \<open>v\<close> through the
  reference it returns; \<open>init_extension\<close> itself is the case \<open>v = ext_default V\<close>.\<close>

definition init_extension_with ::
    "'s base_state \<Rightarrow> 'v extension \<Rightarrow> 'v \<Rightarrow> bool \<Rightarrow> 's ext_state \<Rightarrow> 's ext_state result" where
  "init_extension_with S V v overwrite st =
     bindE (init_extension_bytes (ACCOUNT_TYPE S) (ext_type V) (ext_bytes V v) overwrite (tlv_data st))
       (\<lambda>d. Inr (st\<lparr>tlv_data := d\<rparr>))"

definition init_extension ::
    "'s base_state \<Rightarrow> 'v extension \<Rightarrow> bool \<Rightarrow> 's ext_state \<Rightarrow> 's ext_state result" where
  "init_extension S V overwrite st = init_extension_with S V (ext_default V) overwrite st"

definition get_extension_types :: "'s ext_state \<Rightarrow> extension_type list result" where
  "get_extension_types st = bindE (get_tlv_data_info (tlv_data st)) (\<lambda>i. Inr (info_types i))"

text \<open>\<open>init_account_type\<close>.\<close>

definition init_account_type :: "'s base_state \<Rightarrow> 's ext_state \<Rightarrow> 's ext_state result" where
  "init_account_type S st =
     bindE (get_first_extension_type (tlv_data st)) (\<lambda>first.
       if account_type st = [] then Inr st
       else if (case first of None \<Rightarrow> False | Some t \<Rightarrow> get_account_type t \<noteq> ACCOUNT_TYPE S)
       then Inl (Token ExtensionBaseMismatch)
       else Inr (st\<lparr>account_type := (account_type st)[0 := account_type_u8 (ACCOUNT_TYPE S)]\<rparr>))"

section \<open>Laws of unpacking\<close>

text \<open>The shape of an unpacked state: either the bare base, or zero padding up to the length of a
  token account, the byte of the account type and a TLV buffer that is not empty.\<close>

definition shape_ok :: "'s base_state \<Rightarrow> 's ext_state \<Rightarrow> bool" where
  "shape_ok S st \<longleftrightarrow>
     (padding st = [] \<and> account_type st = [] \<and> tlv_data st = []
      \<or> padding st = replicate (BASE_ACCOUNT_LENGTH - size_of S) 0 \<and>
        account_type st = [account_type_u8 (ACCOUNT_TYPE S)] \<and> tlv_data st \<noteq> [])
     \<and> length (state_bytes S st) \<noteq> Multisig_LEN"

lemma account_type_try_from_Some:
  "account_type_try_from n = Some t \<longleftrightarrow> account_type_u8 t = n"
  by (cases t) (auto simp: account_type_try_from_def split: if_splits)

lemma unpack_rest_Inr:
  assumes "unpack_type_and_tlv_data_with_check S rest chk = Inr (pad, ty, tlv)"
  shows "rest = pad @ ty @ tlv \<and>
    (pad = [] \<and> ty = [] \<and> tlv = []
     \<or> (\<exists>t. pad = replicate (BASE_ACCOUNT_LENGTH - size_of S) 0 \<and> ty = [account_type_u8 t] \<and>
          chk t = Inr () \<and> tlv \<noteq> []))"
proof -
  let ?k = "BASE_ACCOUNT_LENGTH - size_of S"
  from assms obtain ix where ix: "type_and_tlv_indices S rest = Inr ix"
    by (auto simp: unpack_type_and_tlv_data_with_check_def success_simps)
  show ?thesis
  proof (cases ix)
    case None
    with assms ix show ?thesis
      by (auto simp: unpack_type_and_tlv_data_with_check_def type_and_tlv_indices_def Let_def split: if_splits)
  next
    case (Some p)
    with ix have p: "p = (?k, ?k + 1)" "?k + 1 < length rest" "take ?k rest = replicate ?k 0"
      by (auto simp: type_and_tlv_indices_def Let_def split: if_splits)
    with assms ix Some obtain t where t: "account_type_u8 t = rest ! ?k" "chk t = Inr ()"
      and eq: "pad = take ?k rest" "ty = slice_of rest ?k (?k + 1)" "tlv = drop (?k + 1) rest"
      by (auto simp: unpack_type_and_tlv_data_with_check_def account_type_try_from_Some success_simps)
    have "slice_of rest ?k (?k + 1) = [rest ! ?k]"
      using p(2) by (simp add: slice_of_def take_Suc_conv_app_nth Cons_nth_drop_Suc [symmetric])
    moreover have "take ?k rest @ [rest ! ?k] @ drop (?k + 1) rest = rest"
      using p(2) by (simp add: id_take_nth_drop [symmetric])
    ultimately show ?thesis using p eq t(2) by (auto simp: t(1) [symmetric])
  qed
qed

lemma unpack_rest_intro:
  assumes "chk t = Inr ()" "tlv \<noteq> []"
  shows "unpack_type_and_tlv_data_with_check S
      (replicate (BASE_ACCOUNT_LENGTH - size_of S) 0 @ [account_type_u8 t] @ tlv) chk
    = Inr (replicate (BASE_ACCOUNT_LENGTH - size_of S) 0, [account_type_u8 t], tlv)"
  using assms
  by (auto simp: unpack_type_and_tlv_data_with_check_def type_and_tlv_indices_def Let_def slice_of_def
      nth_append)

lemma unpack_rest_nil: "unpack_type_and_tlv_data_with_check S [] chk = Inr ([], [], [])"
  by (simp add: unpack_type_and_tlv_data_with_check_def type_and_tlv_indices_def)

lemma check_account_type_Inr [simp]: "check_account_type S t = Inr () \<longleftrightarrow> t = ACCOUNT_TYPE S"
  by (simp add: check_account_type_def)

context base_state_laws
begin

lemma state_bytes_split:
  "take (size_of S) (state_bytes S st) = base_bytes S (base st)"
  "drop (size_of S) (state_bytes S st) = padding st @ account_type st @ tlv_data st"
  by (simp_all add: state_bytes_def length_base_bytes)

lemma unpack_iff:
  "unpack S d = Inr st \<longleftrightarrow> d = state_bytes S st \<and> base_is_initialized S (base st) \<and> shape_ok S st"
proof
  assume u: "unpack S d = Inr st"
  let ?r = "drop (size_of S) d"
  from u have len: "length d \<noteq> Multisig_LEN" "size_of S \<le> length d"
    by (auto simp: unpack_def check_min_len_and_not_multisig_def Let_def split: if_splits)
  with u have b: "base st = base_of_bytes S (take (size_of S) d)" "base_is_initialized S (base st)"
    and r: "unpack_type_and_tlv_data_with_check S ?r (check_account_type S) = Inr (padding st, account_type st, tlv_data st)"
    by (auto simp: unpack_def Let_def success_simps)
  from unpack_rest_Inr [OF r] have "?r = padding st @ account_type st @ tlv_data st"
    and sh: "padding st = [] \<and> account_type st = [] \<and> tlv_data st = []
      \<or> padding st = replicate (BASE_ACCOUNT_LENGTH - size_of S) 0 \<and>
        account_type st = [account_type_u8 (ACCOUNT_TYPE S)] \<and> tlv_data st \<noteq> []"
    by auto
  moreover have "base_bytes S (base st) = take (size_of S) d"
    using b len base_bytes_of_bytes [of "take (size_of S) d"] by simp
  ultimately have "d = state_bytes S st"
    by (simp add: state_bytes_def) (metis append_take_drop_id)
  with b len sh show "d = state_bytes S st \<and> base_is_initialized S (base st) \<and> shape_ok S st"
    by (simp add: shape_ok_def)
next
  assume a: "d = state_bytes S st \<and> base_is_initialized S (base st) \<and> shape_ok S st"
  then have d: "d = state_bytes S st" and i: "base_is_initialized S (base st)" and sh: "shape_ok S st"
    by auto
  from sh have rest: "unpack_type_and_tlv_data_with_check S (padding st @ account_type st @ tlv_data st)
      (check_account_type S) = Inr (padding st, account_type st, tlv_data st)"
    using unpack_rest_intro [of "check_account_type S" "ACCOUNT_TYPE S" "tlv_data st" S]
    by (auto simp: shape_ok_def unpack_rest_nil)
  have "size_of S \<le> length d" by (simp add: d state_bytes_def length_base_bytes)
  moreover have "length d \<noteq> Multisig_LEN" using sh by (simp add: d shape_ok_def)
  ultimately show "unpack S d = Inr st"
    by (simp add: unpack_def check_min_len_and_not_multisig_def d state_bytes_split
        base_of_bytes_bytes i rest)
qed

lemma length_state_bytes:
  "length (state_bytes S st) = size_of S + length (padding st) + length (account_type st) + length (tlv_data st)"
  by (simp add: state_bytes_def length_base_bytes)

text \<open>What a handler stores unpacks to what it held.\<close>

lemma unpack_state_bytes [simp]:
  "base_is_initialized S (base st) \<Longrightarrow> shape_ok S st \<Longrightarrow> unpack S (state_bytes S st) = Inr st"
  by (simp add: unpack_iff)

lemma shape_ok_base [simp]: "shape_ok S (st\<lparr>base := b\<rparr>) = shape_ok S st"
  by (simp add: shape_ok_def length_state_bytes)

lemma shape_ok_tlv:
  "length d = length (tlv_data st) \<Longrightarrow> shape_ok S (st\<lparr>tlv_data := d\<rparr>) = shape_ok S st"
  by (auto simp: shape_ok_def length_state_bytes)

lemma shape_ok_put [simp]: "shape_ok S (put_extension S V v st) = shape_ok S st"
  by (simp add: put_extension_def shape_ok_tlv)

lemma shape_ok_init:
  "init_extension_with S V v overwrite st = Inr st' \<Longrightarrow> shape_ok S st' = shape_ok S st"
  by (auto simp: init_extension_with_def success_simps shape_ok_tlv dest: length_init)

end

interpretation pod_mint: base_state_laws "PodMint E" for E
  by unfold_locales
     (auto simp: PodMint_def PodMint_SIZE_OF_def BASE_ACCOUNT_LENGTH_def Account_LEN_def pod_mint_bytes_of_bytes)

interpretation pod_account: base_state_laws PodAccount
  by unfold_locales
     (auto simp: PodAccount_def PodAccount_SIZE_OF_def BASE_ACCOUNT_LENGTH_def Account_LEN_def
        pod_account_bytes_of_bytes)

section \<open>Laws of the extension accessors\<close>

lemma extension_frame [simp]:
  "get_extension E S V (st\<lparr>base := b\<rparr>) = get_extension E S V st"
  "base (put_extension S V v st) = base st"
  "padding (put_extension S V v st) = padding st"
  "account_type (put_extension S V v st) = account_type st"
  by (simp_all add: get_extension_def put_extension_def)

lemma init_extension_base:
  "init_extension_with S V v overwrite st = Inr st' \<Longrightarrow>
   base st' = base st \<and> padding st' = padding st \<and> account_type st' = account_type st"
  by (auto simp: init_extension_with_def success_simps)

context base_state_laws
begin

lemma get_put_extension_other:
  "ext_type U \<noteq> ext_type V \<Longrightarrow>
   get_extension E S U (put_extension S V v st) = get_extension E S U st"
  by (simp add: get_extension_def put_extension_def get_put_other type_initialized)

lemma get_init_extension_other:
  "init_extension_with S V v overwrite st = Inr st' \<Longrightarrow> ext_type U \<noteq> ext_type V \<Longrightarrow>
   get_extension E S U st = Inr x \<Longrightarrow> get_extension E S U st' = Inr x"
  by (auto simp: init_extension_with_def get_extension_def success_simps type_initialized
      dest!: get_init_other)

end

locale extension_of_state = base_state_laws S + extension_laws V
  for S :: "'s base_state" and V :: "'v extension"
begin

lemma get_put_extension:
  "get_extension E S V st = Inr x \<Longrightarrow> ext_valid V v \<Longrightarrow>
   get_extension E S V (put_extension S V v st) = Inr v"
  by (auto simp: get_extension_def put_extension_def ext_valid_def success_simps get_put_same)

lemma get_init_extension_with:
  "init_extension_with S V v overwrite st = Inr st' \<Longrightarrow> ext_valid V v \<Longrightarrow>
   get_extension E S V st' = Inr v"
  by (auto simp: init_extension_with_def get_extension_def ext_valid_def success_simps dest!: get_init_same)

lemma get_init_extension:
  "init_extension S V overwrite st = Inr st' \<Longrightarrow> get_extension E S V st' = Inr (ext_default V)"
  by (auto simp: init_extension_def intro: get_init_extension_with default_valid)

lemma valid_of_bytes: "length d = ext_len V \<Longrightarrow> ext_valid V (ext_of_bytes V d)"
  by (simp add: ext_valid_def ext_bytes_of_bytes)

lemma get_extension_valid: "get_extension E S V st = Inr x \<Longrightarrow> ext_valid V x"
  by (auto simp: get_extension_def success_simps valid_of_bytes)

text \<open>Writing back the value that was read changes nothing.\<close>

lemma put_get_extension:
  assumes "get_extension E S V st = Inr x"
  shows "put_extension S V x st = st"
proof -
  from assms obtain b where b: "get_extension_bytes (ACCOUNT_TYPE S) (ext_type V) (tlv_data st) = Inr b"
    and x: "length b = ext_len V" "x = ext_of_bytes V b"
    by (auto simp: get_extension_def success_simps)
  from b have "put_extension_bytes (ACCOUNT_TYPE S) (ext_type V) b (tlv_data st) = tlv_data st"
    by (rule get_bytes_decomp) (simp add: put_decomp)
  then show ?thesis by (simp add: put_extension_def x ext_bytes_of_bytes)
qed

end

end
