(* ===== verification/Extensions.thy ===== *)
theory Extensions
  imports Extension_State
begin

text \<open>
  The extension structs (the \<open>mod.rs\<close> files and single-file modules under
  \<open>src/programs/src/extension/\<close>), each with its \<open>Extension\<close> instance, and the
  interpretation of the extension laws on every one of them.  An \<open>OptionalNonZeroPubkey\<close> is
  the key it wraps, a \<open>PodBool\<close> the byte it wraps.
\<close>

section \<open>Zero-sized markers\<close>

definition marker :: "extension_type \<Rightarrow> unit extension" where
  "marker t = \<lparr>ext_type = t, ext_len = 0, ext_of_bytes = (\<lambda>_. ()), ext_bytes = (\<lambda>_. []), ext_default = ()\<rparr>"

definition ImmutableOwnerExt :: "unit extension" where "ImmutableOwnerExt = marker ImmutableOwner"
definition NonTransferableExt :: "unit extension" where "NonTransferableExt = marker NonTransferable"
definition NonTransferableAccountExt :: "unit extension" where
  "NonTransferableAccountExt = marker NonTransferableAccount"

section \<open>One-byte structs\<close>

definition byte_extension :: "extension_type \<Rightarrow> u8 extension" where
  "byte_extension t =
     \<lparr>ext_type = t, ext_len = 1, ext_of_bytes = le_word, ext_bytes = word_le, ext_default = 0\<rparr>"

text \<open>The fields \<open>require_incoming_transfer_memos\<close>, \<open>lock_cpi\<close>,
  \<open>transferring\<close> and \<open>state\<close>.\<close>

definition MemoTransferExt :: "u8 extension" where "MemoTransferExt = byte_extension MemoTransfer"
definition CpiGuardExt :: "u8 extension" where "CpiGuardExt = byte_extension CpiGuard"
definition TransferHookAccountExt :: "u8 extension" where
  "TransferHookAccountExt = byte_extension TransferHookAccount"
definition DefaultAccountStateExt :: "u8 extension" where
  "DefaultAccountStateExt = byte_extension DefaultAccountState"

section \<open>Single keys\<close>

definition key_extension :: "extension_type \<Rightarrow> pubkey extension" where
  "key_extension t =
     \<lparr>ext_type = t, ext_len = 32, ext_of_bytes = le_word, ext_bytes = word_le, ext_default = 0\<rparr>"

text \<open>The fields \<open>close_authority\<close> and \<open>delegate\<close>.\<close>

definition MintCloseAuthorityExt :: "pubkey extension" where
  "MintCloseAuthorityExt = key_extension MintCloseAuthority"
definition PermanentDelegateExt :: "pubkey extension" where
  "PermanentDelegateExt = key_extension PermanentDelegate"

section \<open>Authority and address\<close>

text \<open>\<open>MetadataPointer\<close>, \<open>GroupPointer\<close>, \<open>GroupMemberPointer\<close> and
  \<open>TransferHook\<close> have the same two fields: the authority and the address
  (\<open>metadata_address\<close>, \<open>group_address\<close>, \<open>member_address\<close>,
  \<open>program_id\<close>).\<close>

record pointer =
  authority :: pubkey
  address :: pubkey

definition pointer_extension :: "extension_type \<Rightarrow> pointer extension" where
  "pointer_extension t =
     \<lparr>ext_type = t, ext_len = 64,
      ext_of_bytes = (\<lambda>b. \<lparr>authority = le_word (slice_of b 0 32), address = le_word (slice_of b 32 64)\<rparr>),
      ext_bytes = (\<lambda>p. word_le (authority p) @ word_le (address p)),
      ext_default = \<lparr>authority = 0, address = 0\<rparr>\<rparr>"

definition MetadataPointerExt :: "pointer extension" where
  "MetadataPointerExt = pointer_extension MetadataPointer"
definition GroupPointerExt :: "pointer extension" where
  "GroupPointerExt = pointer_extension GroupPointer"
definition GroupMemberPointerExt :: "pointer extension" where
  "GroupMemberPointerExt = pointer_extension GroupMemberPointer"
definition TransferHookExt :: "pointer extension" where
  "TransferHookExt = pointer_extension TransferHook"

section \<open>Transfer fees\<close>

record transfer_fee =
  fee_epoch :: u64
  maximum_fee :: u64
  transfer_fee_basis_points :: u16

definition transfer_fee_of_bytes :: "bytes \<Rightarrow> transfer_fee" where
  "transfer_fee_of_bytes b =
     \<lparr>fee_epoch = le_word (slice_of b 0 8), maximum_fee = le_word (slice_of b 8 16),
      transfer_fee_basis_points = le_word (slice_of b 16 18)\<rparr>"

definition transfer_fee_bytes :: "transfer_fee \<Rightarrow> bytes" where
  "transfer_fee_bytes f =
     word_le (fee_epoch f) @ word_le (maximum_fee f) @ word_le (transfer_fee_basis_points f)"

record transfer_fee_config =
  transfer_fee_config_authority :: pubkey
  withdraw_withheld_authority :: pubkey
  config_withheld_amount :: u64
  older_transfer_fee :: transfer_fee
  newer_transfer_fee :: transfer_fee

definition TransferFeeConfigExt :: "transfer_fee_config extension" where
  "TransferFeeConfigExt =
     \<lparr>ext_type = TransferFeeConfig, ext_len = 108,
      ext_of_bytes = (\<lambda>b.
        \<lparr>transfer_fee_config_authority = le_word (slice_of b 0 32),
         withdraw_withheld_authority = le_word (slice_of b 32 64),
         config_withheld_amount = le_word (slice_of b 64 72),
         older_transfer_fee = transfer_fee_of_bytes (slice_of b 72 90),
         newer_transfer_fee = transfer_fee_of_bytes (slice_of b 90 108)\<rparr>),
      ext_bytes = (\<lambda>c.
        word_le (transfer_fee_config_authority c) @ word_le (withdraw_withheld_authority c) @
        word_le (config_withheld_amount c) @ transfer_fee_bytes (older_transfer_fee c) @
        transfer_fee_bytes (newer_transfer_fee c)),
      ext_default =
        \<lparr>transfer_fee_config_authority = 0, withdraw_withheld_authority = 0, config_withheld_amount = 0,
         older_transfer_fee = \<lparr>fee_epoch = 0, maximum_fee = 0, transfer_fee_basis_points = 0\<rparr>,
         newer_transfer_fee = \<lparr>fee_epoch = 0, maximum_fee = 0, transfer_fee_basis_points = 0\<rparr>\<rparr>\<rparr>"

text \<open>The single field \<open>withheld_amount\<close> of \<open>TransferFeeAmount\<close>.\<close>

definition TransferFeeAmountExt :: "u64 extension" where
  "TransferFeeAmountExt =
     \<lparr>ext_type = TransferFeeAmount, ext_len = 8, ext_of_bytes = le_word, ext_bytes = word_le, ext_default = 0\<rparr>"

definition transfer_fee_amount_closable :: "u64 \<Rightarrow> unit result" where
  "transfer_fee_amount_closable withheld_amount =
     (if withheld_amount = 0 then Inr () else Inl (Token AccountHasWithheldTransferFees))"

section \<open>Interest-bearing mints\<close>

text \<open>Timestamps are \<open>PodI64\<close>, rates \<open>PodI16\<close>, kept as words in two's complement.\<close>

record interest_bearing_config =
  rate_authority :: pubkey
  initialization_timestamp :: u64
  pre_update_average_rate :: u16
  last_update_timestamp :: u64
  current_rate :: u16

definition InterestBearingConfigExt :: "interest_bearing_config extension" where
  "InterestBearingConfigExt =
     \<lparr>ext_type = InterestBearingConfig, ext_len = 52,
      ext_of_bytes = (\<lambda>b.
        \<lparr>rate_authority = le_word (slice_of b 0 32), initialization_timestamp = le_word (slice_of b 32 40),
         pre_update_average_rate = le_word (slice_of b 40 42),
         last_update_timestamp = le_word (slice_of b 42 50), current_rate = le_word (slice_of b 50 52)\<rparr>),
      ext_bytes = (\<lambda>c.
        word_le (rate_authority c) @ word_le (initialization_timestamp c) @
        word_le (pre_update_average_rate c) @ word_le (last_update_timestamp c) @ word_le (current_rate c)),
      ext_default =
        \<lparr>rate_authority = 0, initialization_timestamp = 0, pre_update_average_rate = 0,
         last_update_timestamp = 0, current_rate = 0\<rparr>\<rparr>"

section \<open>Confidential transfers\<close>

text \<open>
  Keys and ciphertexts of \<open>solana_zk_token_sdk\<close> are byte lists whose lengths are parameters of
  the environment.
\<close>

record confidential_transfer_mint =
  ct_authority :: pubkey
  auto_approve_new_accounts :: u8
  auditor_elgamal_pubkey :: bytes

definition ConfidentialTransferMintExt :: "env \<Rightarrow> confidential_transfer_mint extension" where
  "ConfidentialTransferMintExt E =
     \<lparr>ext_type = ConfidentialTransferMint, ext_len = type_len E ConfidentialTransferMint,
      ext_of_bytes = (\<lambda>b. \<lparr>ct_authority = le_word (slice_of b 0 32),
        auto_approve_new_accounts = le_word (slice_of b 32 33),
        auditor_elgamal_pubkey = slice_of b 33 (33 + elgamal_pubkey_len E)\<rparr>),
      ext_bytes = (\<lambda>c. word_le (ct_authority c) @ word_le (auto_approve_new_accounts c) @ auditor_elgamal_pubkey c),
      ext_default = \<lparr>ct_authority = 0, auto_approve_new_accounts = 0,
        auditor_elgamal_pubkey = replicate (elgamal_pubkey_len E) 0\<rparr>\<rparr>"

record confidential_transfer_fee_config =
  cf_authority :: pubkey
  withdraw_withheld_authority_elgamal_pubkey :: bytes
  harvest_to_mint_enabled :: u8
  cf_withheld_amount :: bytes

definition ConfidentialTransferFeeConfigExt :: "env \<Rightarrow> confidential_transfer_fee_config extension" where
  "ConfidentialTransferFeeConfigExt E =
     (let p1 = 32 + elgamal_pubkey_len E; p2 = p1 + 1 + elgamal_ciphertext_len E in
      \<lparr>ext_type = ConfidentialTransferFeeConfig, ext_len = type_len E ConfidentialTransferFeeConfig,
       ext_of_bytes = (\<lambda>b. \<lparr>cf_authority = le_word (slice_of b 0 32),
         withdraw_withheld_authority_elgamal_pubkey = slice_of b 32 p1,
         harvest_to_mint_enabled = le_word (slice_of b p1 (p1 + 1)),
         cf_withheld_amount = slice_of b (p1 + 1) p2\<rparr>),
       ext_bytes = (\<lambda>c. word_le (cf_authority c) @ withdraw_withheld_authority_elgamal_pubkey c @
         word_le (harvest_to_mint_enabled c) @ cf_withheld_amount c),
       ext_default = \<lparr>cf_authority = 0,
         withdraw_withheld_authority_elgamal_pubkey = replicate (elgamal_pubkey_len E) 0,
         harvest_to_mint_enabled = 0, cf_withheld_amount = replicate (elgamal_ciphertext_len E) 0\<rparr>\<rparr>)"

record confidential_transfer_account =
  approved :: u8
  elgamal_pubkey :: bytes
  pending_balance_lo :: bytes
  pending_balance_hi :: bytes
  available_balance :: bytes
  decryptable_available_balance :: bytes
  allow_confidential_credits :: u8
  allow_non_confidential_credits :: u8
  pending_balance_credit_counter :: u64
  maximum_pending_balance_credit_counter :: u64
  expected_pending_balance_credit_counter :: u64
  actual_pending_balance_credit_counter :: u64

definition ConfidentialTransferAccountExt :: "env \<Rightarrow> confidential_transfer_account extension" where
  "ConfidentialTransferAccountExt E =
     (let k = elgamal_pubkey_len E; c = elgamal_ciphertext_len E; a = ae_ciphertext_len E;
          p1 = 1 + k; p2 = p1 + c; p3 = p2 + c; p4 = p3 + c; p5 = p4 + a
      in \<lparr>ext_type = ConfidentialTransferAccount,
          ext_len = type_len E ConfidentialTransferAccount,
          ext_of_bytes = (\<lambda>b.
            \<lparr>approved = le_word (slice_of b 0 1), elgamal_pubkey = slice_of b 1 p1,
             pending_balance_lo = slice_of b p1 p2, pending_balance_hi = slice_of b p2 p3,
             available_balance = slice_of b p3 p4, decryptable_available_balance = slice_of b p4 p5,
             allow_confidential_credits = le_word (slice_of b p5 (p5 + 1)),
             allow_non_confidential_credits = le_word (slice_of b (p5 + 1) (p5 + 2)),
             pending_balance_credit_counter = le_word (slice_of b (p5 + 2) (p5 + 10)),
             maximum_pending_balance_credit_counter = le_word (slice_of b (p5 + 10) (p5 + 18)),
             expected_pending_balance_credit_counter = le_word (slice_of b (p5 + 18) (p5 + 26)),
             actual_pending_balance_credit_counter = le_word (slice_of b (p5 + 26) (p5 + 34))\<rparr>),
          ext_bytes = (\<lambda>s.
            word_le (approved s) @ elgamal_pubkey s @ pending_balance_lo s @ pending_balance_hi s @
            available_balance s @ decryptable_available_balance s @
            word_le (allow_confidential_credits s) @ word_le (allow_non_confidential_credits s) @
            word_le (pending_balance_credit_counter s) @ word_le (maximum_pending_balance_credit_counter s) @
            word_le (expected_pending_balance_credit_counter s) @
            word_le (actual_pending_balance_credit_counter s)),
          ext_default =
            \<lparr>approved = 0, elgamal_pubkey = replicate k 0, pending_balance_lo = replicate c 0,
             pending_balance_hi = replicate c 0, available_balance = replicate c 0,
             decryptable_available_balance = replicate a 0, allow_confidential_credits = 0,
             allow_non_confidential_credits = 0, pending_balance_credit_counter = 0,
             maximum_pending_balance_credit_counter = 0, expected_pending_balance_credit_counter = 0,
             actual_pending_balance_credit_counter = 0\<rparr>\<rparr>)"

text \<open>The methods of \<open>ConfidentialTransferAccount\<close>.  \<open>EncryptedBalance::zeroed()\<close> is
  the all-zero ciphertext.\<close>

definition is_zeroed :: "bytes \<Rightarrow> bool" where
  "is_zeroed b \<longleftrightarrow> list_all (\<lambda>x. x = 0) b"

definition confidential_account_approved :: "env \<Rightarrow> confidential_transfer_account \<Rightarrow> unit result" where
  "confidential_account_approved E s =
     (if pod_bool E (approved s) then Inr () else Inl (Token ConfidentialTransferAccountNotApproved))"

definition confidential_account_closable :: "confidential_transfer_account \<Rightarrow> unit result" where
  "confidential_account_closable s =
     (if is_zeroed (pending_balance_lo s) \<and> is_zeroed (pending_balance_hi s) \<and> is_zeroed (available_balance s)
      then Inr () else Inl (Token ConfidentialTransferAccountHasBalance))"

definition non_confidential_transfer_allowed :: "env \<Rightarrow> confidential_transfer_account \<Rightarrow> unit result" where
  "non_confidential_transfer_allowed E s =
     (if pod_bool E (allow_non_confidential_credits s) then Inr ()
      else Inl (Token NonConfidentialTransfersDisabled))"

definition valid_as_destination :: "env \<Rightarrow> confidential_transfer_account \<Rightarrow> unit result" where
  "valid_as_destination E s =
     bindE (confidential_account_approved E s) (\<lambda>_.
     if \<not> pod_bool E (allow_confidential_credits s)
     then Inl (Token ConfidentialTransferDepositsAndTransfersDisabled)
     else bindE (ok_or (Token Overflow) (checked_add (pending_balance_credit_counter s) 1)) (\<lambda>n.
       if n > maximum_pending_balance_credit_counter s
       then Inl (Token MaximumPendingBalanceCreditCounterExceeded) else Inr ()))"

definition increment_pending_balance_credit_counter ::
    "confidential_transfer_account \<Rightarrow> confidential_transfer_account result" where
  "increment_pending_balance_credit_counter s =
     bindE (ok_or (Token Overflow) (checked_add (pending_balance_credit_counter s) 1)) (\<lambda>n.
       Inr (s\<lparr>pending_balance_credit_counter := n\<rparr>))"

text \<open>\<open>ConfidentialTransferFeeAmount\<close>: the one ciphertext \<open>withheld_amount\<close>.\<close>

definition ConfidentialTransferFeeAmountExt :: "env \<Rightarrow> bytes extension" where
  "ConfidentialTransferFeeAmountExt E =
     \<lparr>ext_type = ConfidentialTransferFeeAmount, ext_len = type_len E ConfidentialTransferFeeAmount,
      ext_of_bytes = (\<lambda>b. b), ext_bytes = (\<lambda>b. b),
      ext_default = replicate (type_len E ConfidentialTransferFeeAmount) 0\<rparr>"

definition confidential_fee_amount_closable :: "bytes \<Rightarrow> unit result" where
  "confidential_fee_amount_closable withheld_amount =
     (if is_zeroed withheld_amount then Inr ()
      else Inl (Token ConfidentialTransferFeeAccountHasWithheldFee))"

section \<open>The extension laws hold for every struct\<close>

named_theorems ext_defs \<open>the definitions of the extension instances\<close>

lemmas [ext_defs] =
  marker_def ImmutableOwnerExt_def NonTransferableExt_def NonTransferableAccountExt_def
  byte_extension_def MemoTransferExt_def CpiGuardExt_def TransferHookAccountExt_def
  DefaultAccountStateExt_def key_extension_def MintCloseAuthorityExt_def PermanentDelegateExt_def
  pointer_extension_def MetadataPointerExt_def GroupPointerExt_def GroupMemberPointerExt_def
  TransferHookExt_def TransferFeeConfigExt_def TransferFeeAmountExt_def InterestBearingConfigExt_def
  ConfidentialTransferMintExt_def ConfidentialTransferFeeConfigExt_def
  ConfidentialTransferAccountExt_def ConfidentialTransferFeeAmountExt_def

lemma transfer_fee_codec [simp]:
  "length (transfer_fee_bytes f) = 18" "transfer_fee_of_bytes (transfer_fee_bytes f) = f"
  by (simp_all add: transfer_fee_bytes_def transfer_fee_of_bytes_def)

lemma transfer_fee_bytes_of_bytes:
  "j = i + 18 \<Longrightarrow> j \<le> length b \<Longrightarrow>
   transfer_fee_bytes (transfer_fee_of_bytes (slice_of b i j)) = slice_of b i j"
  by (simp add: transfer_fee_bytes_def transfer_fee_of_bytes_def slice_of_slice_of
      slice_of_append_slice_of)

lemma whole_buffer: "length b = n \<Longrightarrow> slice_of b 0 n = b"
  by (simp add: slice_of_def)

lemma marker_total: "total_extension (marker t)"
  by unfold_locales (simp_all add: ext_valid_def ext_defs)

lemma byte_extension_total: "total_extension (byte_extension t)"
  by unfold_locales (simp_all add: ext_valid_def ext_defs word_le_le_word)

lemma key_extension_total: "total_extension (key_extension t)"
  by unfold_locales (simp_all add: ext_valid_def ext_defs word_le_le_word)

lemma pointer_extension_total: "total_extension (pointer_extension t)"
  by unfold_locales (simp_all add: ext_valid_def ext_defs slice_of_append_slice_of whole_buffer)

interpretation immutable_owner: total_extension ImmutableOwnerExt
  unfolding ImmutableOwnerExt_def by (rule marker_total)
interpretation non_transferable: total_extension NonTransferableExt
  unfolding NonTransferableExt_def by (rule marker_total)
interpretation non_transferable_account: total_extension NonTransferableAccountExt
  unfolding NonTransferableAccountExt_def by (rule marker_total)
interpretation memo_transfer: total_extension MemoTransferExt
  unfolding MemoTransferExt_def by (rule byte_extension_total)
interpretation cpi_guard: total_extension CpiGuardExt
  unfolding CpiGuardExt_def by (rule byte_extension_total)
interpretation transfer_hook_account: total_extension TransferHookAccountExt
  unfolding TransferHookAccountExt_def by (rule byte_extension_total)
interpretation default_account_state: total_extension DefaultAccountStateExt
  unfolding DefaultAccountStateExt_def by (rule byte_extension_total)
interpretation mint_close_authority: total_extension MintCloseAuthorityExt
  unfolding MintCloseAuthorityExt_def by (rule key_extension_total)
interpretation permanent_delegate: total_extension PermanentDelegateExt
  unfolding PermanentDelegateExt_def by (rule key_extension_total)
interpretation metadata_pointer: total_extension MetadataPointerExt
  unfolding MetadataPointerExt_def by (rule pointer_extension_total)
interpretation group_pointer: total_extension GroupPointerExt
  unfolding GroupPointerExt_def by (rule pointer_extension_total)
interpretation group_member_pointer: total_extension GroupMemberPointerExt
  unfolding GroupMemberPointerExt_def by (rule pointer_extension_total)
interpretation transfer_hook: total_extension TransferHookExt
  unfolding TransferHookExt_def by (rule pointer_extension_total)

interpretation transfer_fee_config: total_extension TransferFeeConfigExt
  by unfold_locales
     (simp_all add: ext_valid_def ext_defs transfer_fee_bytes_of_bytes slice_of_append_slice_of whole_buffer)

interpretation transfer_fee_amount: total_extension TransferFeeAmountExt
  by unfold_locales (simp_all add: ext_valid_def ext_defs word_le_le_word)

interpretation interest_bearing_config: total_extension InterestBearingConfigExt
  by unfold_locales (simp_all add: ext_valid_def ext_defs slice_of_append_slice_of whole_buffer)

interpretation confidential_transfer_mint: extension_laws "ConfidentialTransferMintExt E" for E
  by unfold_locales (simp_all add: ext_valid_def ext_defs slice_of_append_slice_of whole_buffer)

interpretation confidential_transfer_fee_config: extension_laws "ConfidentialTransferFeeConfigExt E" for E
  by unfold_locales (simp_all add: ext_valid_def ext_defs Let_def slice_of_append_slice_of whole_buffer add.assoc)

interpretation confidential_transfer_account: extension_laws "ConfidentialTransferAccountExt E" for E
  by unfold_locales
     (simp_all add: ext_valid_def ext_defs Let_def slice_of_append_slice_of whole_buffer add.assoc)

interpretation confidential_transfer_fee_amount: extension_laws "ConfidentialTransferFeeAmountExt E" for E
  by unfold_locales (simp_all add: ext_valid_def ext_defs)

section \<open>The extensions in their base states\<close>

interpretation mint_transfer_fee_config: extension_of_state "PodMint E" TransferFeeConfigExt for E
  by unfold_locales
interpretation mint_close: extension_of_state "PodMint E" MintCloseAuthorityExt for E
  by unfold_locales
interpretation mint_delegate: extension_of_state "PodMint E" PermanentDelegateExt for E
  by unfold_locales
interpretation mint_default_state: extension_of_state "PodMint E" DefaultAccountStateExt for E
  by unfold_locales
interpretation mint_hook: extension_of_state "PodMint E" TransferHookExt for E
  by unfold_locales
interpretation account_fee_amount: extension_of_state PodAccount TransferFeeAmountExt
  by unfold_locales
interpretation account_cpi_guard: extension_of_state PodAccount CpiGuardExt
  by unfold_locales
interpretation account_memo: extension_of_state PodAccount MemoTransferExt
  by unfold_locales
interpretation account_hook: extension_of_state PodAccount TransferHookAccountExt
  by unfold_locales
interpretation account_immutable_owner: extension_of_state PodAccount ImmutableOwnerExt
  by unfold_locales
interpretation mint_confidential: extension_of_state "PodMint E" "ConfidentialTransferMintExt E" for E
  by unfold_locales
interpretation mint_confidential_fee: extension_of_state "PodMint E" "ConfidentialTransferFeeConfigExt E" for E
  by unfold_locales
interpretation account_confidential: extension_of_state PodAccount "ConfidentialTransferAccountExt E" for E
  by unfold_locales
interpretation account_confidential_fee: extension_of_state PodAccount "ConfidentialTransferFeeAmountExt E" for E
  by unfold_locales

end
