(* ===== verification/Transfer_Fee.thy ===== *)
theory Transfer_Fee
  imports Extensions
begin

text \<open>
  The fee arithmetic of the transfer-fee extension
  (\<open>src/programs/src/extension/transfer_fee/mod.rs\<close>), on the words and with the checked
  operations of the code.  \<open>nat_fee\<close> is the reference: the fee rounded up, capped.  The lemmas
  show that the code computes it, that a fee never exceeds the amount, and that the inverse
  computation returns the least amount whose net is the requested one.
\<close>

section \<open>The code\<close>

definition MAX_FEE_BASIS_POINTS :: u16 where "MAX_FEE_BASIS_POINTS = 10000"
definition ONE_IN_BASIS_POINTS :: u128 where "ONE_IN_BASIS_POINTS = ucast MAX_FEE_BASIS_POINTS"

text \<open>\<open>u64::try_from(u128).ok()\<close>.\<close>

definition u64_try_from :: "u128 \<Rightarrow> u64 option" where
  "u64_try_from x = (if unat x < 2 ^ 64 then Some (ucast x) else None)"

definition ceil_div :: "u128 \<Rightarrow> u128 \<Rightarrow> u128 option" where
  "ceil_div numerator denominator =
     Option.bind (checked_add numerator denominator) (\<lambda>s.
     Option.bind (checked_sub s 1) (\<lambda>t. checked_div t denominator))"

definition calculate_fee :: "transfer_fee \<Rightarrow> u64 \<Rightarrow> u64 option" where
  "calculate_fee f pre_fee_amount =
     (let bps = (ucast (transfer_fee_basis_points f) :: u128) in
      if bps = 0 \<or> pre_fee_amount = 0 then Some 0
      else Option.bind (checked_mul (ucast pre_fee_amount) bps) (\<lambda>numerator.
           Option.bind (ceil_div numerator ONE_IN_BASIS_POINTS) (\<lambda>raw.
           Option.bind (u64_try_from raw) (\<lambda>raw_fee. Some (min raw_fee (maximum_fee f))))))"

definition calculate_post_fee_amount :: "transfer_fee \<Rightarrow> u64 \<Rightarrow> u64 option" where
  "calculate_post_fee_amount f pre_fee_amount =
     Option.bind (calculate_fee f pre_fee_amount) (\<lambda>fee. checked_sub pre_fee_amount fee)"

definition calculate_pre_fee_amount :: "transfer_fee \<Rightarrow> u64 \<Rightarrow> u64 option" where
  "calculate_pre_fee_amount f post_fee_amount =
     (let bps = (ucast (transfer_fee_basis_points f) :: u128) in
      if bps = 0 then Some post_fee_amount
      else if bps = ONE_IN_BASIS_POINTS \<or> post_fee_amount = 0 then Some 0
      else Option.bind (checked_mul (ucast post_fee_amount) ONE_IN_BASIS_POINTS) (\<lambda>numerator.
           Option.bind (checked_sub ONE_IN_BASIS_POINTS bps) (\<lambda>denominator.
           Option.bind (ceil_div numerator denominator) (\<lambda>raw_pre_fee_amount.
           Option.bind (checked_sub raw_pre_fee_amount (ucast post_fee_amount)) (\<lambda>diff.
             if diff \<ge> ucast (maximum_fee f)
             then checked_add post_fee_amount (maximum_fee f)
             else u64_try_from raw_pre_fee_amount)))))"

definition calculate_inverse_fee :: "transfer_fee \<Rightarrow> u64 \<Rightarrow> u64 option" where
  "calculate_inverse_fee f post_fee_amount =
     Option.bind (calculate_pre_fee_amount f post_fee_amount) (calculate_fee f)"

definition get_epoch_fee :: "transfer_fee_config \<Rightarrow> u64 \<Rightarrow> transfer_fee" where
  "get_epoch_fee c ep =
     (if ep \<ge> fee_epoch (newer_transfer_fee c) then newer_transfer_fee c else older_transfer_fee c)"

definition calculate_epoch_fee :: "transfer_fee_config \<Rightarrow> u64 \<Rightarrow> u64 \<Rightarrow> u64 option" where
  "calculate_epoch_fee c ep pre_fee_amount = calculate_fee (get_epoch_fee c ep) pre_fee_amount"

definition calculate_inverse_epoch_fee :: "transfer_fee_config \<Rightarrow> u64 \<Rightarrow> u64 \<Rightarrow> u64 option" where
  "calculate_inverse_epoch_fee c ep post_fee_amount =
     calculate_inverse_fee (get_epoch_fee c ep) post_fee_amount"

section \<open>The reference\<close>

text \<open>The fee on \<open>n\<close> tokens at \<open>b\<close> basis points, rounded up, at most \<open>m\<close>.\<close>

definition nat_fee :: "nat \<Rightarrow> nat \<Rightarrow> nat \<Rightarrow> nat" where
  "nat_fee b m n = min ((n * b + 9999) div 10000) m"

abbreviation (input) bps_of :: "transfer_fee \<Rightarrow> nat" where
  "bps_of f \<equiv> unat (transfer_fee_basis_points f)"

lemma nat_fee_zero [simp]: "nat_fee 0 m n = 0" "nat_fee b m 0 = 0"
  by (simp_all add: nat_fee_def)

lemma ceil_le: "b \<le> 10000 \<Longrightarrow> (n * b + 9999) div 10000 \<le> (n::nat)"
proof -
  assume "b \<le> 10000"
  then have "n * b \<le> n * 10000" by (rule mult_le_mono2)
  then have "(n * b + 9999) div 10000 \<le> (n * 10000 + 9999) div 10000" by (intro div_le_mono) simp
  also have "\<dots> = n" by simp
  finally show ?thesis .
qed

lemma nat_fee_le: "b \<le> 10000 \<Longrightarrow> nat_fee b m n \<le> n"
  using ceil_le [of b n] by (simp add: nat_fee_def)

text \<open>What is left after the fee without the cap is the floor of the complementary share.\<close>

lemma ceil_complement:
  assumes "b \<le> 10000"
  shows "n - (n * b + 9999) div 10000 = n * (10000 - b) div (10000::nat)"
proof -
  let ?c = "(n * b + 9999) div 10000"
  have c: "?c \<le> n" using assms by (rule ceil_le)
  have split: "n * b + n * (10000 - b) = n * 10000"
    using assms by (simp add: add_mult_distrib2 [symmetric])
  have "?c * 10000 \<le> n * b + 9999" "n * b + 9999 < ?c * 10000 + 10000"
    by (simp_all add: div_times_less_eq_dividend)
  with c split have "(n - ?c) * 10000 \<le> n * (10000 - b)" "n * (10000 - b) < (n - ?c) * 10000 + 10000"
    by (simp_all add: diff_mult_distrib)
  then show ?thesis by (intro div_nat_eqI [symmetric]) (simp_all add: mult.commute)
qed

text \<open>The least amount whose net after the fee is \<open>p\<close>.\<close>

definition nat_pre :: "nat \<Rightarrow> nat \<Rightarrow> nat \<Rightarrow> nat" where
  "nat_pre b m p = min ((p * 10000 + (10000 - b) - 1) div (10000 - b)) (p + m)"

lemma raw_pre:
  fixes b p :: nat
  assumes "b < 10000"
  defines "q \<equiv> (p * 10000 + (10000 - b) - 1) div (10000 - b)"
  shows "p * 10000 \<le> q * (10000 - b)" "\<And>k. k < q \<Longrightarrow> k * (10000 - b) < p * 10000"
proof -
  let ?d = "10000 - b"
  have d: "0 < ?d" using assms by simp
  have "p * 10000 + ?d - 1 < (q + 1) * ?d"
    using d unfolding q_def by (metis Suc_eq_plus1 dividend_less_div_times mult_Suc add.commute)
  then show "p * 10000 \<le> q * ?d" using d by simp
  fix k assume "k < q"
  then have "(k + 1) * ?d \<le> q * ?d" by (intro mult_le_mono1) simp
  also have "\<dots> \<le> p * 10000 + ?d - 1" unfolding q_def by (rule div_times_less_eq_dividend)
  finally show "k * ?d < p * 10000" using d by simp
qed

lemma raw_ge:
  fixes b p :: nat
  assumes "b < 10000"
  shows "p \<le> (p * 10000 + (10000 - b) - 1) div (10000 - b)" (is "p \<le> ?q")
proof -
  have "p * 10000 \<le> ?q * (10000 - b)" by (rule raw_pre(1) [OF assms])
  also have "\<dots> \<le> ?q * 10000" by (rule mult_le_mono2) simp
  finally show ?thesis by (simp only: mult_le_cancel2)
qed

lemma nat_pre_zero:
  assumes "b < 10000"
  shows "nat_pre b m 0 = 0" "nat_pre 0 m p = p"
  using assms by (simp_all add: nat_pre_def)

lemma net_eq:
  assumes "b < 10000"
  shows "n - nat_fee b m n = max (n * (10000 - b) div 10000) (n - m)"
proof -
  have "n - nat_fee b m n = max (n - (n * b + 9999) div 10000) (n - m)"
    by (auto simp: nat_fee_def min_def max_def)
  with ceil_complement [of b n] assms show ?thesis by simp
qed

lemma nat_pre_net:
  fixes b m p :: nat
  assumes "b < 10000"
  shows "nat_pre b m p - nat_fee b m (nat_pre b m p) = p"
    and "k < nat_pre b m p \<Longrightarrow> k - nat_fee b m k < p"
proof -
  define d where "d = 10000 - b"
  define q where "q = (p * 10000 + d - 1) div d"
  have pre: "nat_pre b m p = min q (p + m)" by (simp add: nat_pre_def q_def d_def)
  have net: "n - nat_fee b m n = max (n * d div 10000) (n - m)" for n
    using net_eq [OF assms] by (simp add: d_def)
  note raw = raw_pre [OF assms, where p = p, folded d_def, folded q_def]
  have "q * d < (p + 1) * 10000"
  proof (cases q)
    case (Suc r)
    then have "r * d < p * 10000" by (intro raw(2)) simp
    moreover have "d \<le> 10000" by (simp add: d_def)
    ultimately show ?thesis using Suc by simp
  qed simp
  then have "q * d div 10000 < p + 1" by (rule less_mult_imp_div_less)
  moreover have "p * 10000 div 10000 \<le> q * d div 10000" using raw(1) by (rule div_le_mono)
  ultimately have qd: "q * d div 10000 = p" by simp
  have below: "k * d div 10000 < p" if "k < q" for k
    using raw(2) [OF that] by (rule less_mult_imp_div_less)
  have "p \<le> q" using raw_ge [OF assms, of p] by (simp add: q_def d_def)
  show "nat_pre b m p - nat_fee b m (nat_pre b m p) = p"
  proof (cases "q \<le> p + m")
    case True
    with qd show ?thesis by (simp add: net pre min_def)
  next
    case False
    then have "(p + m) * d div 10000 < p" by (intro below) simp
    with False show ?thesis by (simp add: net pre min_def)
  qed
  show "k - nat_fee b m k < p" if "k < nat_pre b m p"
  proof -
    from that have k: "k < q" "k < p + m" by (simp_all add: pre)
    from below [OF k(1)] k(2) show ?thesis by (simp add: net)
  qed
qed

section \<open>The code computes the reference\<close>

lemma unat_ucast_u128 [simp]:
  "unat (ucast (a :: u64) :: u128) = unat a" "unat (ucast (b :: u16) :: u128) = unat b"
  using unat_less_2p [of a] unat_less_2p [of b]
  by (simp_all add: unsigned_ucast_eq take_bit_nat_eq_self)

lemma unat_ucast_u64: "unat (x :: u128) < 2 ^ 64 \<Longrightarrow> unat (ucast x :: u64) = unat x"
  by (simp add: unsigned_ucast_eq take_bit_nat_eq_self)

lemma u64_try_from_Some: "u64_try_from x = Some y \<longleftrightarrow> unat y = unat x"
  using unat_less_2p [of y] unat_ucast_u64 [of x]
  by (auto simp: u64_try_from_def word_unat_eq_iff split: if_splits)

lemma unat_ONE_IN_BASIS_POINTS [simp]: "unat ONE_IN_BASIS_POINTS = 10000"
  by (simp add: ONE_IN_BASIS_POINTS_def MAX_FEE_BASIS_POINTS_def)

lemma ceil_div_Some:
  assumes "unat a + unat b < 2 ^ 128"
  shows "ceil_div a b = Some c \<longleftrightarrow> b \<noteq> 0 \<and> unat c = (unat a + unat b - 1) div unat b"
proof -
  obtain s where s: "checked_add a b = Some s" "unat s = unat a + unat b"
    using assms checked_add_None [of a b] checked_add_Some [of a b] by (cases "checked_add a b") auto
  show ?thesis
  proof (cases "b = 0")
    case True
    then show ?thesis
      by (auto simp: ceil_div_def checked_div_def s(1) bind_eq_Some_conv)
  next
    case False
    then have "unat b \<noteq> 0" by (simp add: unat_eq_zero)
    then have "unat (1 :: u128) \<le> unat s" using s by simp
    then obtain t where t: "checked_sub s 1 = Some t" "unat t = unat a + unat b - 1"
      by (rule checked_sub_ok) (simp add: s)
    from s t False show ?thesis by (auto simp: ceil_div_def checked_div_Some)
  qed
qed

lemma calculate_fee_Some:
  "calculate_fee f n = Some c \<longleftrightarrow>
   (unat n * bps_of f + 9999) div 10000 < 2 ^ 64 \<and>
   unat c = nat_fee (bps_of f) (unat (maximum_fee f)) (unat n)"
proof -
  let ?b = "transfer_fee_basis_points f" and ?m = "maximum_fee f"
  have lt: "unat n < 2 ^ 64" "unat ?b < 2 ^ 16" using unat_less_2p [of n] unat_less_2p [of ?b] by simp_all
  have bound: "unat n * unat ?b < 2 ^ 64 * 2 ^ 16"
    using lt by (intro mult_strict_mono) auto
  show ?thesis
  proof (cases "?b = 0 \<or> n = 0")
    case True
    then show ?thesis
      by (auto simp: calculate_fee_def Let_def nat_fee_def word_unat_eq_iff)
  next
    case False
    then have nz: "(ucast ?b :: u128) \<noteq> 0" "n \<noteq> 0"
      by (auto simp: word_unat_eq_iff)
    have "unat (ucast n :: u128) * unat (ucast ?b :: u128) < 2 ^ LENGTH(128)" using bound by simp
    then obtain num where num: "checked_mul (ucast n) (ucast ?b :: u128) = Some num"
      and "unat num = unat (ucast n :: u128) * unat (ucast ?b :: u128)" by (rule checked_mul_ok)
    then have num2: "unat num = unat n * unat ?b" by simp
    have one: "ONE_IN_BASIS_POINTS \<noteq> 0" by (simp add: word_unat_eq_iff)
    have "unat num + unat ONE_IN_BASIS_POINTS < 2 ^ 128" using bound num2 by simp
    note cd = ceil_div_Some [OF this]
    have raw_lt: "(unat num + 10000 - 1) div 10000 < 2 ^ 128" using bound num2 by simp
    define raw where "raw = (of_nat ((unat num + 10000 - 1) div 10000) :: u128)"
    have raw: "ceil_div num ONE_IN_BASIS_POINTS = Some raw" "unat raw = (unat n * unat ?b + 9999) div 10000"
      using raw_lt one by (simp_all add: cd raw_def num2 unat_of_nat take_bit_nat_eq_self)
    have "calculate_fee f n = Option.bind (u64_try_from raw) (\<lambda>r. Some (min r ?m))"
      using nz by (simp add: calculate_fee_def num raw Let_def)
    then show ?thesis
      using raw(2) unat_ucast_u64 [of raw]
      by (auto simp: u64_try_from_def nat_fee_def min_def word_le_nat_alt word_unat_eq_iff split: if_splits)
  qed
qed

lemma calculate_fee_total:
  assumes "bps_of f \<le> 10000"
  obtains c where "calculate_fee f n = Some c"
    "unat c = nat_fee (bps_of f) (unat (maximum_fee f)) (unat n)" "unat c \<le> unat n"
proof -
  let ?c = "nat_fee (bps_of f) (unat (maximum_fee f)) (unat n)"
  have le: "?c \<le> unat n" using assms by (rule nat_fee_le)
  have "unat (of_nat ?c :: u64) = ?c"
    using le unat_less_2p [of n] by (simp add: unat_of_nat take_bit_nat_eq_self)
  moreover have "(unat n * bps_of f + 9999) div 10000 < 2 ^ 64"
    using ceil_le [OF assms, of "unat n"] unat_less_2p [of n] by simp
  ultimately show ?thesis using that [of "of_nat ?c"] le by (simp add: calculate_fee_Some)
qed

lemma calculate_post_fee_amount_Some:
  assumes "bps_of f \<le> 10000"
  shows "calculate_post_fee_amount f n = Some r \<longleftrightarrow>
    unat r = unat n - nat_fee (bps_of f) (unat (maximum_fee f)) (unat n)"
proof -
  from assms obtain c where c: "calculate_fee f n = Some c"
    "unat c = nat_fee (bps_of f) (unat (maximum_fee f)) (unat n)" "unat c \<le> unat n"
    by (rule calculate_fee_total)
  then show ?thesis by (auto simp: calculate_post_fee_amount_def checked_sub_Some)
qed

lemma min_as_if: "(p::nat) \<le> q \<Longrightarrow> min q (p + m) = (if m \<le> q - p then p + m else q)"
  by auto

lemma calculate_pre_fee_amount_Some:
  assumes "bps_of f < 10000"
  shows "calculate_pre_fee_amount f p = Some q \<longleftrightarrow>
    unat q = nat_pre (bps_of f) (unat (maximum_fee f)) (unat p)"
proof -
  let ?b = "transfer_fee_basis_points f" and ?m = "maximum_fee f"
  have pl: "unat p < 2 ^ 64" using unat_less_2p [of p] by simp
  show ?thesis
  proof (cases "?b = 0 \<or> p = 0")
    case True
    then show ?thesis using assms
      by (auto simp: calculate_pre_fee_amount_def nat_pre_zero [OF assms] nat_pre_zero(2) [of 0] word_unat_eq_iff Let_def)
  next
    case False
    then have nz: "(ucast ?b :: u128) \<noteq> 0" "(ucast ?b :: u128) \<noteq> ONE_IN_BASIS_POINTS" "p \<noteq> 0"
      using assms by (auto simp: word_unat_eq_iff)
    have "unat (ucast p :: u128) * unat ONE_IN_BASIS_POINTS < 2 ^ LENGTH(128)" using pl by simp
    then obtain num where num: "checked_mul (ucast p) ONE_IN_BASIS_POINTS = Some num"
      and "unat num = unat (ucast p :: u128) * unat ONE_IN_BASIS_POINTS" by (rule checked_mul_ok)
    then have num2: "unat num = unat p * 10000" by simp
    have "unat (ucast ?b :: u128) \<le> unat ONE_IN_BASIS_POINTS" using assms by simp
    then obtain den where den: "checked_sub ONE_IN_BASIS_POINTS (ucast ?b) = Some den"
      and "unat den = unat ONE_IN_BASIS_POINTS - unat (ucast ?b :: u128)" by (rule checked_sub_ok)
    then have den2: "unat den = 10000 - unat ?b" by simp
    let ?q = "(unat p * 10000 + (10000 - unat ?b) - 1) div (10000 - unat ?b)"
    have "unat num + unat den < 2 ^ 128" using pl num2 den2 by simp
    note cd = ceil_div_Some [OF this]
    have "?q \<le> unat p * 10000 + (10000 - unat ?b) - 1" by (rule div_le_dividend)
    moreover have "unat p * 10000 + (10000 - unat ?b) - 1 < 2 ^ 128" using pl by simp
    ultimately have q_lt: "?q < 2 ^ 128" by (rule le_less_trans)
    define raw where "raw = (of_nat ?q :: u128)"
    have raw: "ceil_div num den = Some raw" "unat raw = ?q"
      using q_lt den2 assms by (simp_all add: cd raw_def num2 unat_of_nat take_bit_nat_eq_self word_unat_eq_iff)
    have "unat p \<le> ?q" using assms by (rule raw_ge)
    then have "unat (ucast p :: u128) \<le> unat raw" by (simp add: raw(2))
    then obtain diff where diff: "checked_sub raw (ucast p) = Some diff"
      and "unat diff = unat raw - unat (ucast p :: u128)" by (rule checked_sub_ok)
    then have diff2: "unat diff = ?q - unat p" by (simp add: raw(2))
    have eq: "calculate_pre_fee_amount f p =
      (if unat ?m \<le> ?q - unat p then checked_add p ?m else u64_try_from raw)"
      using nz by (simp add: calculate_pre_fee_amount_def num den raw(1) diff Let_def word_le_nat_alt diff2)
    have "nat_pre (unat ?b) (unat ?m) (unat p) = (if unat ?m \<le> ?q - unat p then unat p + unat ?m else ?q)"
      using min_as_if [OF \<open>unat p \<le> ?q\<close>] by (simp only: nat_pre_def)
    then show ?thesis
      by (simp only: eq checked_add_Some u64_try_from_Some raw(2) simp_thms split: if_splits)
  qed
qed

section \<open>Properties\<close>

text \<open>C25.  For a rate of at most 100\% the fee is always computed (no checked operation fails).  It is
  the share of the amount in basis points, rounded up and capped by the maximum fee, and it exceeds
  neither the amount nor the cap.\<close>

theorem calculate_fee_spec:
  assumes "bps_of f \<le> 10000"
  shows "\<exists>c. calculate_fee f n = Some c \<and> unat c = min ((unat n * bps_of f + 9999) div 10000) (unat (maximum_fee f))
    \<and> c \<le> n \<and> c \<le> maximum_fee f"
proof -
  from assms obtain c where c: "calculate_fee f n = Some c"
    "unat c = nat_fee (bps_of f) (unat (maximum_fee f)) (unat n)" "unat c \<le> unat n"
    by (rule calculate_fee_total)
  then show ?thesis by (auto simp: nat_fee_def word_le_nat_alt)
qed

theorem calculate_fee_spec_witness:
  "\<exists>c. calculate_fee \<lparr>fee_epoch = 0, maximum_fee = 5000, transfer_fee_basis_points = 1\<rparr> 10001 = Some c \<and> c \<le> 5000"
  using calculate_fee_spec [of "\<lparr>fee_epoch = 0, maximum_fee = 5000, transfer_fee_basis_points = 1\<rparr>" 10001]
  by auto



end
