(* ===== verification/Signers.thy ===== *)
theory Signers
  imports Transfer_Fee
begin

text \<open>
  Program-id checks (\<open>src/programs/src/lib.rs\<close>), the signer bounds
  (\<open>src/programs/src/instruction.rs\<close>) and \<open>Processor::validate_owner\<close>
  (\<open>src/programs/src/processor.rs\<close>) with its specification: what a passed check says about
  the signatures, for a single key and for an M-of-N multisignature account.
\<close>

section \<open>Program ids\<close>

text \<open>The keys that \<open>declare_id!\<close> spells in base 58; their 32 bytes are the big-endian digits of
  the number.\<close>

definition base58_alphabet :: string where
  "base58_alphabet = ''123456789ABCDEFGHJKLMNPQRSTUVWXYZabcdefghijkmnopqrstuvwxyz''"

definition base58_value :: "string \<Rightarrow> nat" where
  "base58_value s = foldl (\<lambda>n c. 58 * n + index_of c base58_alphabet) 0 s"

definition pubkey_of_base58 :: "string \<Rightarrow> pubkey" where
  "pubkey_of_base58 s = le_word (rev (nat_le 32 (base58_value s)))"

definition token_2022_id :: pubkey where
  "token_2022_id = pubkey_of_base58 ''TokenzQdBNbLqP5VEhdkAS6EPFLC1PHnBqCXEpPxuEb''"

definition native_mint_id :: pubkey where
  "native_mint_id = pubkey_of_base58 ''9pan9bMn5HatX4EJdBwg9VgCa7Uz5HL8N1m5D3NdXejP''"

definition native_mint_DECIMALS :: u8 where "native_mint_DECIMALS = 9"

definition check_program_account :: "pubkey \<Rightarrow> unit result" where
  "check_program_account p = (if p \<noteq> token_2022_id then Inl (Prog IncorrectProgramId) else Inr ())"

definition check_spl_token_program_account :: "env \<Rightarrow> pubkey \<Rightarrow> unit result" where
  "check_spl_token_program_account E p =
     (if p \<noteq> token_2022_id \<and> p \<noteq> spl_token_id E then Inl (Prog IncorrectProgramId) else Inr ())"

definition check_zk_token_proof_program_account :: "env \<Rightarrow> pubkey \<Rightarrow> unit result" where
  "check_zk_token_proof_program_account E p =
     (if p \<noteq> zk_token_proof_program_id E then Inl (Prog IncorrectProgramId) else Inr ())"

definition check_system_program_account :: "env \<Rightarrow> pubkey \<Rightarrow> unit result" where
  "check_system_program_account E p =
     (if p \<noteq> system_program_id E then Inl (Prog IncorrectProgramId) else Inr ())"

lemma check_program_account_Inr [simp]: "check_program_account p = Inr u \<longleftrightarrow> p = token_2022_id"
  by (simp add: check_program_account_def)

section \<open>Owners and multisignature accounts\<close>

definition MIN_SIGNERS :: nat where "MIN_SIGNERS = 1"

definition is_valid_signer_index :: "nat \<Rightarrow> bool" where
  "is_valid_signer_index i \<longleftrightarrow> MIN_SIGNERS \<le> i \<and> i \<le> MAX_SIGNERS"

text \<open>The inner loop over the positions of the signer list, from position \<open>i\<close> on.\<close>

fun match_positions ::
    "account_info \<Rightarrow> pubkey list \<Rightarrow> nat \<Rightarrow> bool list \<times> nat \<Rightarrow> (bool list \<times> nat) result" where
  "match_positions s [] i st = Inr st"
| "match_positions s (k # ks) i (matched, num_signers) =
     (if k = key s \<and> \<not> matched ! i then
        (if \<not> is_signer s then Inl (Prog MissingRequiredSignature)
         else match_positions s ks (Suc i) (matched[i := True], num_signers + 1))
      else match_positions s ks (Suc i) (matched, num_signers))"

fun match_signers :: "pubkey list \<Rightarrow> account_info list \<Rightarrow> bool list \<times> nat \<Rightarrow> (bool list \<times> nat) result" where
  "match_signers ks [] st = Inr st"
| "match_signers ks (s # ss) st = bindE (match_positions s ks 0 st) (match_signers ks ss)"

text \<open>\<open>num_signers\<close> counts positions, at most \<open>MAX_SIGNERS\<close> of them, so the \<open>u8\<close>
  of the code does not wrap.  The slice \<open>signers[0..n]\<close> panics when \<open>n\<close> exceeds the array.\<close>

definition validate_owner ::
    "env \<Rightarrow> pubkey \<Rightarrow> pubkey \<Rightarrow> account_info \<Rightarrow> nat \<Rightarrow> account_info list \<Rightarrow> world \<Rightarrow> unit result" where
  "validate_owner E program_id expected_owner owner_info owner_data_len ss w =
     (if expected_owner \<noteq> key owner_info then Inl (Token OwnerMismatch)
      else if program_id = owner_of w owner_info \<and> owner_data_len = PodMultisig_SIZE_OF then
        bindE (pod_multisig_from_bytes E (data_of w owner_info)) (\<lambda>multisig.
          if unat (multisig_n multisig) > MAX_SIGNERS then Inl Panic
          else bindE (match_signers (take (unat (multisig_n multisig)) (signers multisig)) ss
                 (replicate MAX_SIGNERS False, 0)) (\<lambda>(matched, num_signers).
            if num_signers < unat (multisig_m multisig) then Inl (Prog MissingRequiredSignature)
            else Inr ()))
      else if \<not> is_signer owner_info then Inl (Prog MissingRequiredSignature)
      else Inr ())"

section \<open>Specification\<close>

text \<open>The positions of a key list that are backed by a signature.\<close>

definition signed_positions :: "pubkey list \<Rightarrow> account_info list \<Rightarrow> nat set" where
  "signed_positions ks ss = {i. i < length ks \<and> (\<exists>s \<in> set ss. is_signer s \<and> key s = ks ! i)}"

definition multisig_keys :: "bytes \<Rightarrow> pubkey list" where
  "multisig_keys d = take (unat (multisig_n (pod_multisig_of_bytes d))) (signers (pod_multisig_of_bytes d))"

text \<open>The owner consents: it signed, or it is a multisignature account of the program and at least
  \<open>m\<close> of its \<open>n\<close> positions are signed.\<close>

definition consents :: "pubkey \<Rightarrow> pubkey \<Rightarrow> account_info \<Rightarrow> account_info list \<Rightarrow> world \<Rightarrow> bool" where
  "consents program_id expected_owner owner_info ss w \<longleftrightarrow>
     key owner_info = expected_owner \<and>
     (if owner_of w owner_info = program_id \<and> length (data_of w owner_info) = PodMultisig_SIZE_OF
      then unat (multisig_m (pod_multisig_of_bytes (data_of w owner_info)))
             \<le> card (signed_positions (multisig_keys (data_of w owner_info)) ss)
      else is_signer owner_info)"

definition matched_positions :: "bool list \<Rightarrow> nat set" where
  "matched_positions m = {i. i < length m \<and> m ! i}"

lemma finite_matched [simp]: "finite (matched_positions m)"
  by (simp add: matched_positions_def)

lemma matched_update:
  "i < length m \<Longrightarrow> matched_positions (m[i := True]) = insert i (matched_positions m)"
  by (auto simp: matched_positions_def nth_list_update)

text \<open>What one signer adds: every open position that holds its key, and then it must have signed.\<close>

lemma match_positions_Inr:
  assumes "match_positions s ks i (m, n) = Inr (m', n')" "i + length ks \<le> length m"
    "n = card (matched_positions m)"
  shows "length m' = length m \<and> n' = card (matched_positions m') \<and>
    matched_positions m' = matched_positions m \<union> {j. i \<le> j \<and> j < i + length ks \<and> ks ! (j - i) = key s} \<and>
    (is_signer s \<or> matched_positions m' = matched_positions m)"
  using assms
proof (induction ks arbitrary: i m n)
  case (Cons k ks)
  have split: "{j. i \<le> j \<and> j < i + length (k # ks) \<and> (k # ks) ! (j - i) = key s} =
    (if k = key s then {i} else {}) \<union> {j. Suc i \<le> j \<and> j < Suc i + length ks \<and> ks ! (j - Suc i) = key s}"
    by (auto simp: nth_Cons' Suc_le_eq)
  show ?case
  proof (cases "k = key s \<and> \<not> m ! i")
    case True
    with Cons.prems have sg: "is_signer s"
      and r: "match_positions s ks (Suc i) (m[i := True], n + 1) = Inr (m', n')"
      by (auto split: if_splits)
    have "n + 1 = card (matched_positions (m[i := True]))"
      using True Cons.prems by (simp add: matched_update) (simp add: matched_positions_def)
    from Cons.IH [OF r _ this] Cons.prems(2) sg True split show ?thesis
      by (simp add: matched_update)
  next
    case False
    with Cons.prems have r: "match_positions s ks (Suc i) (m, n) = Inr (m', n')" by (simp split: if_splits)
    have "k = key s \<Longrightarrow> i \<in> matched_positions m"
      using False Cons.prems(2) by (auto simp: matched_positions_def)
    with Cons.IH [OF r _ Cons.prems(3)] Cons.prems(2) split show ?thesis by auto
  qed
qed auto

lemma match_signers_Inr:
  assumes "match_signers ks ss (m, n) = Inr (m', n')" "length ks \<le> length m"
    "n = card (matched_positions m)"
  shows "n' = card (matched_positions m') \<and>
    matched_positions m' \<subseteq> matched_positions m \<union> signed_positions ks ss \<and>
    matched_positions m \<union> signed_positions ks ss \<subseteq> matched_positions m'"
  using assms
proof (induction ss arbitrary: m n)
  case (Cons s ss)
  from Cons.prems(1) obtain m1 n1 where one: "match_positions s ks 0 (m, n) = Inr (m1, n1)"
    and rest: "match_signers ks ss (m1, n1) = Inr (m', n')"
    by (auto simp: success_simps)
  from match_positions_Inr [OF one] Cons.prems(2,3) have
    l: "length m1 = length m" "n1 = card (matched_positions m1)" and
    p: "matched_positions m1 = matched_positions m \<union> {j. j < length ks \<and> ks ! j = key s}" and
    q: "is_signer s \<or> matched_positions m1 = matched_positions m"
    by auto
  from Cons.IH [OF rest] Cons.prems(2) l p q show ?case
    by (auto simp: signed_positions_def)
qed (simp add: signed_positions_def)

section \<open>What validate_owner decides\<close>

lemma pod_multisig_from_bytes_Inr:
  "pod_multisig_from_bytes E d = Inr m \<longleftrightarrow> length d = PodMultisig_SIZE_OF \<and> m = pod_multisig_of_bytes d"
  by (auto simp: pod_multisig_from_bytes_def)

lemma length_signers [simp]: "length (signers (pod_multisig_of_bytes d)) = MAX_SIGNERS"
  by (simp add: pod_multisig_of_bytes_def)

lemma matched_none [simp]: "matched_positions (replicate n False) = {}"
  by (auto simp: matched_positions_def)

lemma match_signers_start:
  assumes "match_signers ks ss (replicate MAX_SIGNERS False, 0) = Inr (m, n)" "length ks \<le> MAX_SIGNERS"
  shows "n = card (signed_positions ks ss)"
  using match_signers_Inr [OF assms(1)] assms(2) by (auto dest: subset_antisym)

text \<open>No listed account carries a key of the multisignature account without having signed.\<close>

definition no_unsigned_match :: "pubkey list \<Rightarrow> account_info list \<Rightarrow> bool" where
  "no_unsigned_match ks ss \<longleftrightarrow> (\<forall>s \<in> set ss. key s \<in> set ks \<longrightarrow> is_signer s)"

lemma match_positions_ok:
  "key s \<in> set ks \<longrightarrow> is_signer s \<Longrightarrow> \<exists>m' n'. match_positions s ks i (m, n) = Inr (m', n')"
  by (induction ks arbitrary: i m n) auto

lemma match_signers_ok:
  "no_unsigned_match ks ss \<Longrightarrow> \<exists>m' n'. match_signers ks ss (m, n) = Inr (m', n')"
proof (induction ss arbitrary: m n)
  case (Cons s ss)
  then have "key s \<in> set ks \<longrightarrow> is_signer s" by (simp add: no_unsigned_match_def)
  from match_positions_ok [OF this, of 0 m n] obtain m1 n1
    where one: "match_positions s ks 0 (m, n) = Inr (m1, n1)" by blast
  from Cons.prems have "no_unsigned_match ks ss" by (simp add: no_unsigned_match_def)
  from Cons.IH [OF this, of m1 n1] show ?case by (simp add: one)
qed simp

lemma length_multisig_keys: "length (multisig_keys d) \<le> MAX_SIGNERS"
  by (simp add: multisig_keys_def)

lemma validate_owner_consents:
  assumes "validate_owner E p expected o_info (length (data_of w o_info)) ss w = Inr ()"
  shows "consents p expected o_info ss w"
proof (cases "owner_of w o_info = p \<and> length (data_of w o_info) = PodMultisig_SIZE_OF")
  case True
  with assms obtain m n where k: "key o_info = expected"
    and ms: "match_signers (multisig_keys (data_of w o_info)) ss (replicate MAX_SIGNERS False, 0) = Inr (m, n)"
    and le: "unat (multisig_m (pod_multisig_of_bytes (data_of w o_info))) \<le> n"
    by (auto simp: validate_owner_def success_simps pod_multisig_from_bytes_Inr multisig_keys_def
        split: prod.splits)
  from match_signers_start [OF ms length_multisig_keys] le k True show ?thesis
    by (simp add: consents_def)
qed (use assms in \<open>auto simp: validate_owner_def consents_def split: if_splits\<close>)

lemma consents_validated:
  assumes "consents p expected o_info ss w" "unat (multisig_n (pod_multisig_of_bytes (data_of w o_info))) \<le> MAX_SIGNERS"
    "no_unsigned_match (multisig_keys (data_of w o_info)) ss"
  shows "validate_owner E p expected o_info (length (data_of w o_info)) ss w = Inr ()"
proof -
  obtain m n where ok: "match_signers (multisig_keys (data_of w o_info)) ss (replicate MAX_SIGNERS False, 0) = Inr (m, n)"
    using match_signers_ok [OF assms(3)] by blast
  have "n = card (signed_positions (multisig_keys (data_of w o_info)) ss)"
    by (rule match_signers_start [OF ok length_multisig_keys])
  with ok assms(1,2) show ?thesis
    by (auto simp: validate_owner_def consents_def multisig_keys_def pod_multisig_from_bytes_Inr
        pod_multisig_from_bytes_def)
qed

text \<open>C19. A check of \<open>validate_owner\<close> that passes means consent: the expected key was passed,
  and it signed itself or, when it is a multisignature account of the token program, at least
  \<open>m\<close> of its \<open>n\<close> positions are backed by signatures.  The converse holds
  whenever no listed account matches a position without having signed: the check then fails for
  want of consent only.\<close>

theorem validate_owner_exact:
  assumes "unat (multisig_n (pod_multisig_of_bytes (data_of w o_info))) \<le> MAX_SIGNERS"
    and "no_unsigned_match (multisig_keys (data_of w o_info)) ss"
  shows "validate_owner E p expected o_info (length (data_of w o_info)) ss w = Inr () \<longleftrightarrow>
         consents p expected o_info ss w"
  using consents_validated [OF _ assms] validate_owner_consents by blast

text \<open>A two-of-three multisignature account with the keys 11, 12 and 13.\<close>

definition two_of_three :: pod_multisig where
  "two_of_three = \<lparr>multisig_m = 2, multisig_n = 3, multisig_is_initialized = 1,
     signers = [11, 12, 13] @ replicate 8 0\<rparr>"

definition two_of_three_world :: "pubkey \<Rightarrow> world" where
  "two_of_three_world p = \<lparr>cells = (\<lambda>_. \<lparr>lamports = 1, acct_owner = p, acct_data = pod_multisig_bytes two_of_three\<rparr>),
     return_data = []\<rparr>"

lemma two_of_three_simps [simp]:
  "data_of (two_of_three_world p) a = pod_multisig_bytes two_of_three"
  "owner_of (two_of_three_world p) a = p"
  "pod_multisig_of_bytes (pod_multisig_bytes two_of_three) = two_of_three"
  "multisig_keys (pod_multisig_bytes two_of_three) = [11, 12, 13]"
  by (simp_all add: two_of_three_world_def data_of_def owner_of_def multisig_keys_def
      pod_multisig_of_bytes_bytes two_of_three_def MAX_SIGNERS_def)

lemma two_of_three_fields [simp]:
  "multisig_m two_of_three = 2" "multisig_n two_of_three = 3"
  "take 3 (signers two_of_three) = [11, 12, 13]"
  "length (pod_multisig_bytes two_of_three) = 355"
  by (simp_all add: two_of_three_def pod_multisig_bytes_def length_concat_keys sum_list_replicate
      length_concat comp_def)

theorem validate_owner_exact_witness:
  "validate_owner sample_env 5 7 \<lparr>key = 7, is_signer = False\<rparr>
     (length (data_of (two_of_three_world 5) \<lparr>key = 7, is_signer = False\<rparr>))
     [\<lparr>key = 11, is_signer = True\<rparr>, \<lparr>key = 13, is_signer = True\<rparr>] (two_of_three_world 5) = Inr () \<longleftrightarrow>
   consents 5 7 \<lparr>key = 7, is_signer = False\<rparr>
     [\<lparr>key = 11, is_signer = True\<rparr>, \<lparr>key = 13, is_signer = True\<rparr>] (two_of_three_world 5)"
  by (rule validate_owner_exact) (simp_all add: no_unsigned_match_def MAX_SIGNERS_def)

text \<open>Soundness without side conditions: whatever the accounts hold, a passed check implies
  that the expected owner consents.\<close>

theorem validate_owner_sound:
  assumes "validate_owner E p expected o_info (length (data_of w o_info)) ss w = Inr ()"
  shows "consents p expected o_info ss w"
  using assms by (rule validate_owner_consents)

lemma validate_two_of_three:
  "validate_owner sample_env 5 7 \<lparr>key = 7, is_signer = False\<rparr>
     (length (data_of (two_of_three_world 5) \<lparr>key = 7, is_signer = False\<rparr>))
     [\<lparr>key = 11, is_signer = True\<rparr>, \<lparr>key = 13, is_signer = True\<rparr>] (two_of_three_world 5) = Inr ()"
  by (simp add: validate_owner_def pod_multisig_from_bytes_def PodMultisig_SIZE_OF_def MAX_SIGNERS_def)

theorem validate_owner_sound_witness:
  "consents 5 7 \<lparr>key = 7, is_signer = False\<rparr>
     [\<lparr>key = 11, is_signer = True\<rparr>, \<lparr>key = 13, is_signer = True\<rparr>] (two_of_three_world 5)"
  by (rule validate_owner_sound [OF validate_two_of_three])

end
