(* ===== verification/Processor_Base.thy ===== *)
theory Processor_Base
  imports Signers
begin

text \<open>
  What the handlers of \<open>src/programs/src/processor.rs\<close> share: storing an unpacked state,
  \<open>if let Ok(..)\<close>, reading the rent, the extensions a mint requires of its token accounts, and
  the extension accessors that several handlers call (\<open>memo_required\<close>,
  \<open>cpi_guard_enabled\<close>, \<open>in_cpi\<close>, \<open>get_permanent_delegate\<close>,
  \<open>transfer_hook::get_program_id\<close>).

  A handler is a function from the accounts it is given, its decoded arguments and the
  \<open>world\<close> to the new \<open>world\<close> or the error that ends the instruction.
\<close>

section \<open>Storing and reading\<close>

definition store :: "'s base_state \<Rightarrow> account_info \<Rightarrow> 's ext_state \<Rightarrow> world \<Rightarrow> world" where
  "store S a st w = set_data a (state_bytes S st) w"

fun result_ok :: "'a result \<Rightarrow> 'a option" where
  "result_ok (Inl e) = None"
| "result_ok (Inr x) = Some x"

text \<open>\<open>.map_err(|_| TokenError::InvalidMint)\<close> on the unpacking of a mint.\<close>

definition unpack_mint :: "env \<Rightarrow> account_info \<Rightarrow> world \<Rightarrow> pod_mint ext_state result" where
  "unpack_mint E a w = map_err (\<lambda>_. Token InvalidMint) (unpack (PodMint E) (data_of w a))"

text \<open>\<open>Rent::from_account_info(next_account_info(..)?)?\<close> or \<open>Rent::get()?\<close>.\<close>

definition get_rent ::
    "env \<Rightarrow> bool \<Rightarrow> account_info list \<Rightarrow> world \<Rightarrow> (rent \<times> account_info list) result" where
  "get_rent E rent_sysvar_account as w =
     (if rent_sysvar_account then
        bindE (next_account_info as) (\<lambda>(a, as).
        bindE (rent_from_account_info E a w) (\<lambda>r. Inr (r, as)))
      else bindE (rent_get E) (\<lambda>r. Inr (r, as)))"

section \<open>Required account extensions\<close>

definition get_required_account_extensions_from_unpacked_mint ::
    "pubkey \<Rightarrow> pod_mint ext_state \<Rightarrow> extension_type list result" where
  "get_required_account_extensions_from_unpacked_mint token_program_id mt =
     bindE (check_program_account token_program_id) (\<lambda>_.
     bindE (get_extension_types mt) (\<lambda>ts.
       Inr (get_required_init_account_extensions ts)))"

definition get_required_account_extensions ::
    "env \<Rightarrow> account_info \<Rightarrow> world \<Rightarrow> extension_type list result" where
  "get_required_account_extensions E mint_info w =
     bindE (unpack_mint E mint_info w) (\<lambda>mt.
       get_required_account_extensions_from_unpacked_mint (owner_of w mint_info) mt)"

text \<open>\<open>init_account_extension_from_type\<close>; the extension types of token accounts that are
  not listed reach \<open>unreachable!()\<close>.\<close>

definition init_account_extension_from_type ::
    "extension_type \<Rightarrow> pod_account ext_state \<Rightarrow> pod_account ext_state result" where
  "init_account_extension_from_type t st =
     (if get_account_type t \<noteq> account_type.Account then Inr st
      else if t = TransferFeeAmount then init_extension PodAccount TransferFeeAmountExt True st
      else if t = extension_type.ImmutableOwner then init_extension PodAccount ImmutableOwnerExt True st
      else if t = NonTransferableAccount then init_extension PodAccount NonTransferableAccountExt True st
      else if t = TransferHookAccount then init_extension PodAccount TransferHookAccountExt True st
      else if t = ConfidentialTransferAccount then Inr st
      else Inl Panic)"

fun init_required_extensions ::
    "extension_type list \<Rightarrow> pod_account ext_state \<Rightarrow> pod_account ext_state result" where
  "init_required_extensions [] st = Inr st"
| "init_required_extensions (t # ts) st =
     bindE (init_account_extension_from_type t st) (init_required_extensions ts)"

section \<open>Reading the extensions\<close>

definition memo_required :: "env \<Rightarrow> pod_account ext_state \<Rightarrow> bool" where
  "memo_required E st =
     (case get_extension E PodAccount MemoTransferExt st of Inl _ \<Rightarrow> False | Inr b \<Rightarrow> pod_bool E b)"

definition check_previous_sibling_instruction_is_memo :: "env \<Rightarrow> unit result" where
  "check_previous_sibling_instruction_is_memo E =
     (case sibling_program E 0 of
        Some p \<Rightarrow> if p = memo_id E \<or> p = memo_v1_id E then Inr () else Inl (Token NoMemo)
      | None \<Rightarrow> Inl (Token NoMemo))"

definition cpi_guard_enabled :: "env \<Rightarrow> pod_account ext_state \<Rightarrow> bool" where
  "cpi_guard_enabled E st =
     (case get_extension E PodAccount CpiGuardExt st of Inl _ \<Rightarrow> False | Inr b \<Rightarrow> pod_bool E b)"

definition in_cpi :: "env \<Rightarrow> bool" where
  "in_cpi E \<longleftrightarrow> transaction_level_stack_height E < stack_height E"

definition get_permanent_delegate :: "env \<Rightarrow> pod_mint ext_state \<Rightarrow> pubkey option" where
  "get_permanent_delegate E mt =
     (case get_extension E (PodMint E) PermanentDelegateExt mt of
        Inl _ \<Rightarrow> None | Inr d \<Rightarrow> option_of_non_zero d)"

definition get_hook_program_id :: "env \<Rightarrow> pod_mint ext_state \<Rightarrow> pubkey option" where
  "get_hook_program_id E mt =
     (case get_extension E (PodMint E) TransferHookExt mt of
        Inl _ \<Rightarrow> None | Inr h \<Rightarrow> option_of_non_zero (address h))"

section \<open>Lemmas\<close>

lemma cells_store [frame]:
  "cells (store S a st w) k = (if k = key a then (cells w k)\<lparr>acct_data := state_bytes S st\<rparr> else cells w k)"
  by (simp add: store_def frame)

lemma store_frame [frame]:
  "data_of (store S a st w) b = (if key b = key a then state_bytes S st else data_of w b)"
  "owner_of (store S a st w) b = owner_of w b"
  "lamports_of (store S a st w) b = lamports_of w b"
  by (simp_all add: store_def frame)

lemma unpack_mint_Inr [success_simps]:
  "unpack_mint E a w = Inr st \<longleftrightarrow> unpack (PodMint E) (data_of w a) = Inr st"
  by (simp add: unpack_mint_def success_simps)

lemma result_ok_Some [simp]: "result_ok m = Some x \<longleftrightarrow> m = Inr x"
  by (cases m) auto

lemma PodMint_simps [simp]:
  "base_is_initialized (PodMint E) = pod_mint_is_initialized E" "size_of (PodMint E) = PodMint_SIZE_OF"
  "ACCOUNT_TYPE (PodMint E) = account_type.Mint" "base_bytes (PodMint E) = pod_mint_bytes"
  "base_of_bytes (PodMint E) = pod_mint_of_bytes"
  by (simp_all add: PodMint_def)

lemma PodAccount_simps [simp]:
  "base_is_initialized PodAccount = pod_account_is_initialized" "size_of PodAccount = PodAccount_SIZE_OF"
  "ACCOUNT_TYPE PodAccount = account_type.Account" "base_bytes PodAccount = pod_account_bytes"
  "base_of_bytes PodAccount = pod_account_of_bytes"
  by (simp_all add: PodAccount_def)

text \<open>The account type byte and the length keep mints and token accounts apart.\<close>

lemma mint_is_no_account:
  assumes "unpack (PodMint E) d = Inr m"
  shows "unpack PodAccount d \<noteq> Inr a"
proof
  assume "unpack PodAccount d = Inr a"
  then have a: "d = state_bytes PodAccount a" "shape_ok PodAccount a"
    by (simp_all add: pod_account.unpack_iff)
  from assms have m: "d = state_bytes (PodMint E) m" "shape_ok (PodMint E) m"
    by (simp_all add: pod_mint.unpack_iff)
  have la: "length d = 165 \<or> 166 < length d \<and> d ! 165 = account_type_u8 account_type.Account"
    using a by (auto simp: shape_ok_def state_bytes_def nth_append PodAccount_SIZE_OF_def
        BASE_ACCOUNT_LENGTH_def Account_LEN_def)
  have lm: "length d = 82 \<or> 166 < length d \<and> d ! 165 = account_type_u8 account_type.Mint"
    using m by (auto simp: shape_ok_def state_bytes_def nth_append PodMint_SIZE_OF_def
        BASE_ACCOUNT_LENGTH_def Account_LEN_def)
  from la lm show False by auto
qed

section \<open>Initialising a state\<close>

text \<open>The shape of an uninitialised state: like \<open>shape_ok\<close> with the account type byte
  still zero.\<close>

definition fresh_shape :: "'s base_state \<Rightarrow> 's ext_state \<Rightarrow> bool" where
  "fresh_shape S st \<longleftrightarrow>
     (padding st = [] \<and> account_type st = [] \<and> tlv_data st = []
      \<or> padding st = replicate (BASE_ACCOUNT_LENGTH - size_of S) 0 \<and> account_type st = [0] \<and>
        tlv_data st \<noteq> [])
     \<and> length (state_bytes S st) \<noteq> Multisig_LEN"

lemma check_uninitialized_type_Inr: "check_uninitialized_type t = Inr u \<longleftrightarrow> t = account_type.Uninitialized"
  by (simp add: check_uninitialized_type_def)

context base_state_laws
begin

lemma unpack_uninitialized_Inr:
  assumes u: "unpack_uninitialized S d = Inr st"
  shows "d = state_bytes S st" "\<not> base_is_initialized S (base st)" "fresh_shape S st"
    "check_account_type_matches_extension_type S st = Inr ()"
proof -
  let ?r = "drop (size_of S) d"
  from u have len: "length d \<noteq> Multisig_LEN" "size_of S \<le> length d"
    by (auto simp: unpack_uninitialized_def check_min_len_and_not_multisig_def Let_def split: if_splits)
  from u obtain pad ty tlv where
    r: "unpack_type_and_tlv_data_with_check S ?r check_uninitialized_type = Inr (pad, ty, tlv)"
    and st: "st = \<lparr>base = base_of_bytes S (take (size_of S) d), padding = pad, account_type = ty, tlv_data = tlv\<rparr>"
    and b: "\<not> base_is_initialized S (base st)"
    and c: "check_account_type_matches_extension_type S st = Inr ()"
    by (auto simp: unpack_uninitialized_def Let_def success_simps)
  from unpack_rest_Inr [OF r] have rest: "?r = pad @ ty @ tlv" and
    sh: "pad = [] \<and> ty = [] \<and> tlv = [] \<or>
     pad = replicate (BASE_ACCOUNT_LENGTH - size_of S) 0 \<and> ty = [0] \<and> tlv \<noteq> []"
    by (auto simp: check_uninitialized_type_Inr)
  have "base_bytes S (base st) = take (size_of S) d"
    using len base_bytes_of_bytes [of "take (size_of S) d"] by (simp add: st)
  with rest show d: "d = state_bytes S st"
    by (simp add: state_bytes_def st) (metis append_take_drop_id)
  show "\<not> base_is_initialized S (base st)" by (rule b)
  show "fresh_shape S st" using sh len by (simp add: fresh_shape_def d [symmetric]) (simp add: st)
  show "check_account_type_matches_extension_type S st = Inr ()" by (rule c)
qed

lemma unpack_uninitialized_state_bytes [simp]:
  assumes "\<not> base_is_initialized S (base st)" "fresh_shape S st"
    "check_account_type_matches_extension_type S st = Inr ()"
  shows "unpack_uninitialized S (state_bytes S st) = Inr st"
proof -
  from assms(2) have "unpack_type_and_tlv_data_with_check S (padding st @ account_type st @ tlv_data st)
      check_uninitialized_type = Inr (padding st, account_type st, tlv_data st)"
    using unpack_rest_intro [of check_uninitialized_type account_type.Uninitialized "tlv_data st" S]
    by (auto simp: fresh_shape_def unpack_rest_nil check_uninitialized_type_def)
  with assms show ?thesis
    by (cases st) (simp add: unpack_uninitialized_def check_min_len_and_not_multisig_def state_bytes_split
        base_of_bytes_bytes fresh_shape_def length_state_bytes Let_def)
qed

lemma fresh_shape_base [simp]: "fresh_shape S (st\<lparr>base := b\<rparr>) = fresh_shape S st"
  by (simp add: fresh_shape_def length_state_bytes)

lemma fresh_shape_init:
  "init_extension_with S V v overwrite st = Inr st' \<Longrightarrow> fresh_shape S st' = fresh_shape S st"
  by (auto simp: init_extension_with_def success_simps fresh_shape_def length_state_bytes dest: length_init)

text \<open>Writing the account type completes the state; it unpacks as what was written.\<close>

lemma init_account_type_Inr:
  assumes "init_account_type S st = Inr st'" "fresh_shape S st"
  shows "base st' = base st" "tlv_data st' = tlv_data st" "shape_ok S st'"
    "length (state_bytes S st') = length (state_bytes S st)"
proof -
  from assms(1) have st': "st' = (if account_type st = [] then st
      else st\<lparr>account_type := (account_type st)[0 := account_type_u8 (ACCOUNT_TYPE S)]\<rparr>)"
    by (simp add: init_account_type_def success_simps split: if_splits) auto
  show "base st' = base st" "tlv_data st' = tlv_data st"
    "length (state_bytes S st') = length (state_bytes S st)" by (simp_all add: st' length_state_bytes)
  show "shape_ok S st'" using assms(2)
    by (auto simp: st' fresh_shape_def shape_ok_def length_state_bytes)
qed

lemma init_account_type_unpack:
  assumes "init_account_type S st = Inr st'" "fresh_shape S st" "base_is_initialized S (base st)"
  shows "unpack S (state_bytes S st') = Inr st'"
  using init_account_type_Inr [OF assms(1,2)] assms(3) by simp

end

lemma get_extension_tlv:
  "tlv_data st' = tlv_data st \<Longrightarrow> get_extension E S V st' = get_extension E S V st"
  by (simp add: get_extension_def)

lemma unpack_excludes_uninitialized:
  "unpack S d = Inr st \<Longrightarrow> unpack_uninitialized S d = Inl (Token AlreadyInUse)"
  by (auto simp: unpack_def unpack_uninitialized_def Let_def success_simps)

section \<open>Concrete states\<close>

text \<open>States without extensions, and a ledger whose accounts are all alike, for concrete runs.\<close>

definition zero_mint :: pod_mint where
  "zero_mint = \<lparr>mint_authority = pod_none, mint_supply = 0, decimals = 0, is_initialized = 0,
     freeze_authority = pod_none\<rparr>"

definition bare :: "'s \<Rightarrow> 's ext_state" where
  "bare b = \<lparr>base = b, padding = [], account_type = [], tlv_data = []\<rparr>"

definition one_account :: "u64 \<Rightarrow> pubkey \<Rightarrow> bytes \<Rightarrow> world" where
  "one_account l p d = \<lparr>cells = (\<lambda>_. \<lparr>lamports = l, acct_owner = p, acct_data = d\<rparr>), return_data = []\<rparr>"

lemma one_account_simps [simp]:
  "data_of (one_account l p d) a = d" "owner_of (one_account l p d) a = p"
  "lamports_of (one_account l p d) a = l"
  by (simp_all add: one_account_def data_of_def owner_of_def lamports_of_def)

lemma bare_simps [simp]:
  "base (bare b) = b" "tlv_data (bare b) = []" "account_type (bare b) = []"
  "get_extension_types (bare b) = Inr []" "check_account_type_matches_extension_type S (bare b) = Inr ()"
  "init_account_type S ((bare b)\<lparr>base := c\<rparr>) = Inr (bare c)" "state_bytes S (bare b) = base_bytes S b"
  by (simp_all add: bare_def get_extension_types_def get_tlv_data_info_def get_tlv_data_info_from.simps
      check_account_type_matches_extension_type_def get_first_extension_type_def init_account_type_def
      state_bytes_def)

lemma bare_extension [simp]: "result_ok (get_extension E S V (bare b)) = None"
  "(case get_extension E S V (bare b) of Inl e \<Rightarrow> x | Inr v \<Rightarrow> f v) = x"
  by (auto simp: get_extension_def get_extension_bytes_def extension_range_def bare_def
      get_extension_indices_def get_extension_indices_from.simps split: if_splits)

context base_state_laws
begin

lemma unpack_bare:
  "size_of S \<noteq> Multisig_LEN \<Longrightarrow> \<not> base_is_initialized S b \<Longrightarrow>
   unpack_uninitialized S (base_bytes S b) = Inr (bare b)"
  "size_of S \<noteq> Multisig_LEN \<Longrightarrow> base_is_initialized S b \<Longrightarrow> unpack S (base_bytes S b) = Inr (bare b)"
  using unpack_uninitialized_state_bytes [of "bare b"] unpack_state_bytes [of "bare b"]
  by (simp_all add: fresh_shape_def shape_ok_def length_base_bytes) (simp_all add: bare_def)

end

lemma sample_env_rent:
  "rent_get sample_env = Inr \<lparr>is_exempt = (\<lambda>l n. of_nat n \<le> l), minimum_balance = of_nat\<rparr>"
  by (simp add: sample_env_def)

end
