(* ===== verification/Initialize.thy ===== *)
theory Initialize
  imports Processor_Base
begin

text \<open>
  The initialisation instructions of \<open>src/programs/src/processor.rs\<close>: mints, token
  accounts, multisignature accounts and the extensions that are set up before a mint or an account
  is initialised.
\<close>

section \<open>Mints\<close>

text \<open>\<open>if let Ok(default_account_state) = \<dots>\<close>: a mint that freezes new accounts needs a
  freeze authority.\<close>

definition check_default_account_state :: "env \<Rightarrow> pod_mint ext_state \<Rightarrow> pubkey pod_coption \<Rightarrow> unit result" where
  "check_default_account_state E mt freeze_auth =
     (case get_extension E (PodMint E) DefaultAccountStateExt mt of
        Inl _ \<Rightarrow> Inr ()
      | Inr b \<Rightarrow>
          bindE (ok_or (Prog InvalidAccountData) (account_state_try_from b)) (\<lambda>s.
            if s = Frozen \<and> pod_is_none freeze_auth then Inl (Token MintCannotFreeze) else Inr ()))"

definition process_initialize_mint_with ::
    "env \<Rightarrow> account_info list \<Rightarrow> u8 \<Rightarrow> pubkey \<Rightarrow> pubkey pod_coption \<Rightarrow> bool \<Rightarrow> world \<Rightarrow> world result" where
  "process_initialize_mint_with E accounts decs mint_auth freeze_auth rent_sysvar_account w =
     bindE (next_account_info accounts) (\<lambda>(mint_info, it).
     let mint_data_len = length (data_of w mint_info) in
     bindE (get_rent E rent_sysvar_account it w) (\<lambda>(rent, it).
     if \<not> is_exempt rent (lamports_of w mint_info) mint_data_len then Inl (Token NotRentExempt)
     else bindE (unpack_uninitialized (PodMint E) (data_of w mint_info)) (\<lambda>mt.
     bindE (get_extension_types mt) (\<lambda>extension_types.
     bindE (try_calculate_account_len E Mint_LEN extension_types) (\<lambda>len.
     if len \<noteq> mint_data_len then Inl (Prog InvalidAccountData)
     else bindE (check_for_invalid_mint_extension_combinations extension_types) (\<lambda>_.
     bindE (check_default_account_state E mt freeze_auth) (\<lambda>_.
     let b = (base mt)\<lparr>mint_authority := pod_some mint_auth, decimals := decs,
                       is_initialized := pod_of_bool E True, freeze_authority := freeze_auth\<rparr>
     in bindE (init_account_type (PodMint E) (mt\<lparr>base := b\<rparr>)) (\<lambda>mt.
        Inr (store (PodMint E) mint_info mt w)))))))))"

definition process_initialize_mint ::
    "env \<Rightarrow> account_info list \<Rightarrow> u8 \<Rightarrow> pubkey \<Rightarrow> pubkey pod_coption \<Rightarrow> world \<Rightarrow> world result" where
  "process_initialize_mint E accounts decs mint_auth freeze_auth w =
     process_initialize_mint_with E accounts decs mint_auth freeze_auth True w"

definition process_initialize_mint2 ::
    "env \<Rightarrow> account_info list \<Rightarrow> u8 \<Rightarrow> pubkey \<Rightarrow> pubkey pod_coption \<Rightarrow> world \<Rightarrow> world result" where
  "process_initialize_mint2 E accounts decs mint_auth freeze_auth w =
     process_initialize_mint_with E accounts decs mint_auth freeze_auth False w"

section \<open>Token accounts\<close>

definition starting_state :: "env \<Rightarrow> pod_mint ext_state \<Rightarrow> account_state result" where
  "starting_state E mt =
     (case get_extension E (PodMint E) DefaultAccountStateExt mt of
        Inl _ \<Rightarrow> Inr account_state.Initialized
      | Inr b \<Rightarrow> ok_or (Prog InvalidAccountData) (account_state_try_from b))"

text \<open>The assignments to \<open>account.base\<close>; the fields are all overwritten.  Only an account of
  the native mint starts with tokens: the lamports above its rent-exempt reserve.\<close>

definition new_account_base ::
    "pubkey \<Rightarrow> pubkey \<Rightarrow> account_state \<Rightarrow> rent \<Rightarrow> u64 \<Rightarrow> nat \<Rightarrow> pod_account result" where
  "new_account_base mint_key owner_key s rent lams data_len =
     (let b = \<lparr>mint = mint_key, owner = owner_key, amount = 0, delegate = pod_none,
               state = account_state_u8 s, is_native = pod_none, delegated_amount = 0,
               close_authority = pod_none\<rparr>
      in if mint_key = native_mint_id then
           let rent_exempt_reserve = minimum_balance rent data_len in
           bindE (ok_or (Token Overflow) (checked_sub lams rent_exempt_reserve)) (\<lambda>a.
             Inr (b\<lparr>is_native := pod_some rent_exempt_reserve, amount := a\<rparr>))
         else Inr b)"

text \<open>The mint is borrowed while the new account is borrowed mutably, so naming one account twice
  panics.\<close>

definition process_initialize_account_with ::
    "env \<Rightarrow> account_info list \<Rightarrow> pubkey option \<Rightarrow> bool \<Rightarrow> world \<Rightarrow> world result" where
  "process_initialize_account_with E accounts owner_arg rent_sysvar_account w =
     bindE (next_account_info accounts) (\<lambda>(new_account_info, it).
     bindE (next_account_info it) (\<lambda>(mint_info, it).
     bindE (case owner_arg of Some p \<Rightarrow> Inr (p, it)
            | None \<Rightarrow> bindE (next_account_info it) (\<lambda>(a, it). Inr (key a, it))) (\<lambda>(owner_key, it).
     let data_len = length (data_of w new_account_info) in
     bindE (get_rent E rent_sysvar_account it w) (\<lambda>(rent, it).
     bindE (unpack_uninitialized PodAccount (data_of w new_account_info)) (\<lambda>account.
     if \<not> is_exempt rent (lamports_of w new_account_info) data_len then Inl (Token NotRentExempt)
     else if key new_account_info = key mint_info then Inl Panic
     else bindE (unpack_mint E mint_info w) (\<lambda>mt.
     bindE (get_required_account_extensions_from_unpacked_mint (owner_of w mint_info) mt) (\<lambda>required.
     bindE (try_calculate_account_len E Account_LEN required) (\<lambda>len.
     if len > data_len then Inl (Prog InvalidAccountData)
     else bindE (init_required_extensions required account) (\<lambda>account.
     bindE (starting_state E mt) (\<lambda>s.
     bindE (new_account_base (key mint_info) owner_key s rent (lamports_of w new_account_info) data_len) (\<lambda>b.
     bindE (init_account_type PodAccount (account\<lparr>base := b\<rparr>)) (\<lambda>account.
       Inr (store PodAccount new_account_info account w)))))))))))))"

definition process_initialize_account :: "env \<Rightarrow> account_info list \<Rightarrow> world \<Rightarrow> world result" where
  "process_initialize_account E accounts w = process_initialize_account_with E accounts None True w"

definition process_initialize_account2 :: "env \<Rightarrow> account_info list \<Rightarrow> pubkey \<Rightarrow> world \<Rightarrow> world result" where
  "process_initialize_account2 E accounts p w = process_initialize_account_with E accounts (Some p) True w"

definition process_initialize_account3 :: "env \<Rightarrow> account_info list \<Rightarrow> pubkey \<Rightarrow> world \<Rightarrow> world result" where
  "process_initialize_account3 E accounts p w = process_initialize_account_with E accounts (Some p) False w"

section \<open>Multisignature accounts\<close>

text \<open>The count of signers is cast to \<open>u8\<close> before it is checked; the loop then indexes the
  array of \<open>MAX_SIGNERS\<close> keys with every position, and panics out of range.\<close>

fun write_signers :: "account_info list \<Rightarrow> nat \<Rightarrow> pubkey list \<Rightarrow> pubkey list result" where
  "write_signers [] i ks = Inr ks"
| "write_signers (a # as) i ks =
     (if length ks \<le> i then Inl Panic else write_signers as (Suc i) (ks[i := key a]))"

definition process_initialize_multisig_with ::
    "env \<Rightarrow> account_info list \<Rightarrow> u8 \<Rightarrow> bool \<Rightarrow> world \<Rightarrow> world result" where
  "process_initialize_multisig_with E accounts m rent_sysvar_account w =
     bindE (next_account_info accounts) (\<lambda>(multisig_info, it).
     let data_len = length (data_of w multisig_info) in
     bindE (get_rent E rent_sysvar_account it w) (\<lambda>(rent, signer_infos).
     bindE (pod_multisig_from_bytes E (data_of w multisig_info)) (\<lambda>multisig.
     if pod_bool E (multisig_is_initialized multisig) then Inl (Token AlreadyInUse)
     else if \<not> is_exempt rent (lamports_of w multisig_info) data_len then Inl (Token NotRentExempt)
     else let n = of_nat (length signer_infos) :: u8 in
     if \<not> is_valid_signer_index (unat n) then Inl (Token InvalidNumberOfProvidedSigners)
     else if \<not> is_valid_signer_index (unat m) then Inl (Token InvalidNumberOfRequiredSigners)
     else bindE (write_signers signer_infos 0 (signers multisig)) (\<lambda>ks.
       Inr (set_data multisig_info (pod_multisig_bytes
         \<lparr>multisig_m = m, multisig_n = n, multisig_is_initialized = pod_of_bool E True, signers = ks\<rparr>) w)))))"

definition process_initialize_multisig :: "env \<Rightarrow> account_info list \<Rightarrow> u8 \<Rightarrow> world \<Rightarrow> world result" where
  "process_initialize_multisig E accounts m w = process_initialize_multisig_with E accounts m True w"

definition process_initialize_multisig2 :: "env \<Rightarrow> account_info list \<Rightarrow> u8 \<Rightarrow> world \<Rightarrow> world result" where
  "process_initialize_multisig2 E accounts m w = process_initialize_multisig_with E accounts m False w"

section \<open>Extensions of a state that is not initialised yet\<close>

text \<open>Unpack the uninitialised state, run \<open>init_extension(true)\<close>, assign the value.\<close>

definition init_uninitialized ::
    "'s base_state \<Rightarrow> 'v extension \<Rightarrow> 'v result \<Rightarrow> account_info list \<Rightarrow> world \<Rightarrow> world result" where
  "init_uninitialized S V value accounts w =
     bindE (next_account_info accounts) (\<lambda>(info, it).
     bindE (unpack_uninitialized S (data_of w info)) (\<lambda>st.
     bindE (init_extension S V True st) (\<lambda>st.
     bindE value (\<lambda>v. Inr (store S info (put_extension S V v st) w)))))"

definition process_initialize_mint_close_authority ::
    "env \<Rightarrow> account_info list \<Rightarrow> pubkey pod_coption \<Rightarrow> world \<Rightarrow> world result" where
  "process_initialize_mint_close_authority E accounts close_auth w =
     init_uninitialized (PodMint E) MintCloseAuthorityExt (optional_non_zero_pubkey_of_pod close_auth) accounts w"

definition process_initialize_immutable_owner :: "account_info list \<Rightarrow> world \<Rightarrow> world result" where
  "process_initialize_immutable_owner accounts w =
     init_uninitialized PodAccount ImmutableOwnerExt (Inr ()) accounts w"

definition process_initialize_non_transferable_mint :: "env \<Rightarrow> account_info list \<Rightarrow> world \<Rightarrow> world result" where
  "process_initialize_non_transferable_mint E accounts w =
     init_uninitialized (PodMint E) NonTransferableExt (Inr ()) accounts w"

text \<open>\<open>Some(*delegate).try_into()?\<close>: the all-zero key is refused.\<close>

definition process_initialize_permanent_delegate ::
    "env \<Rightarrow> account_info list \<Rightarrow> pubkey \<Rightarrow> world \<Rightarrow> world result" where
  "process_initialize_permanent_delegate E accounts delegate_key w =
     init_uninitialized (PodMint E) PermanentDelegateExt
       (if delegate_key = 0 then Inl (zero_key_error E) else Inr delegate_key) accounts w"

text \<open>\<open>process_get_account_data_size\<close>: the length is returned as the eight bytes of a
  \<open>usize\<close>.\<close>

definition process_get_account_data_size ::
    "env \<Rightarrow> account_info list \<Rightarrow> extension_type list \<Rightarrow> world \<Rightarrow> world result" where
  "process_get_account_data_size E accounts new_extension_types w =
     (if list_ex (\<lambda>t. get_account_type t \<noteq> account_type.Account) new_extension_types
      then Inl (Token ExtensionTypeMismatch)
      else bindE (next_account_info accounts) (\<lambda>(mint_info, it).
        bindE (get_required_account_extensions E mint_info w) (\<lambda>account_extensions.
        bindE (try_calculate_account_len E Account_LEN (account_extensions @ new_extension_types)) (\<lambda>len.
          Inr (w\<lparr>return_data := nat_le 8 len\<rparr>)))))"

section \<open>What initialisation establishes\<close>

lemma pod_bool_True: "pod_bool_ok E \<Longrightarrow> pod_bool E (pod_of_bool E True)"
  by (simp add: pod_bool_ok_def)

lemma next_account_info_Cons: "next_account_info (a # as) = Inr (a, as)"
  by simp

lemma initialize_mint_Inr:
  assumes "process_initialize_mint_with E (mint_info # it) decs ma fa sysvar w = Inr w'"
  obtains old st ts where "unpack_uninitialized (PodMint E) (data_of w mint_info) = Inr old"
    "get_extension_types old = Inr ts" "try_calculate_account_len E Mint_LEN ts = Inr (length (data_of w mint_info))"
    "check_for_invalid_mint_extension_combinations ts = Inr ()" "check_default_account_state E old fa = Inr ()"
    "init_account_type (PodMint E) (old\<lparr>base := (base old)\<lparr>mint_authority := pod_some ma, decimals := decs,
       is_initialized := pod_of_bool E True, freeze_authority := fa\<rparr>\<rparr>) = Inr st"
    "w' = store (PodMint E) mint_info st w"
  using assms by (auto simp: process_initialize_mint_with_def success_simps Let_def)

text \<open>\<open>InitializeMint\<close>: the account becomes a mint with the given authorities and
  decimals; the supply and every extension initialised before stay as they were; its length is
  exactly the length its extensions need; a second initialisation is refused.\<close>

theorem initialize_mint_correct:
  assumes "process_initialize_mint_with E (mint_info # it) decs ma fa sysvar w = Inr w'" "pod_bool_ok E"
  shows "\<exists>old st ts. unpack_uninitialized (PodMint E) (data_of w mint_info) = Inr old \<and>
    w' = store (PodMint E) mint_info st w \<and>
    unpack (PodMint E) (data_of w' mint_info) = Inr st \<and>
    base st = (base old)\<lparr>mint_authority := pod_some ma, decimals := decs,
                         is_initialized := pod_of_bool E True, freeze_authority := fa\<rparr> \<and>
    tlv_data st = tlv_data old \<and> get_extension_types st = Inr ts \<and>
    try_calculate_account_len E Mint_LEN ts = Inr (length (data_of w' mint_info)) \<and>
    process_initialize_mint_with E (mint_info # it') d2 ma2 fa2 False w' \<noteq> Inr w''"
  using assms(1)
proof (rule initialize_mint_Inr)
  fix old st :: "pod_mint ext_state" and ts
  let ?b = "(base old)\<lparr>mint_authority := pod_some ma, decimals := decs,
       is_initialized := pod_of_bool E True, freeze_authority := fa\<rparr>"
  assume u: "unpack_uninitialized (PodMint E) (data_of w mint_info) = Inr old"
    and ts: "get_extension_types old = Inr ts"
    and len: "try_calculate_account_len E Mint_LEN ts = Inr (length (data_of w mint_info))"
    and i: "init_account_type (PodMint E) (old\<lparr>base := ?b\<rparr>) = Inr st"
    and w': "w' = store (PodMint E) mint_info st w"
  note old = pod_mint.unpack_uninitialized_Inr [OF u]
  have f: "fresh_shape (PodMint E) (old\<lparr>base := ?b\<rparr>)" using old(3) by simp
  note st = pod_mint.init_account_type_Inr [OF i f]
  have unp: "unpack (PodMint E) (data_of w' mint_info) = Inr st"
    using pod_mint.init_account_type_unpack [OF i f] assms(2)
    by (simp add: w' frame pod_mint_is_initialized_def pod_bool_True)
  have "length (data_of w' mint_info) = length (data_of w mint_info)"
    using st(4) old(1) by (simp add: w' frame pod_mint.length_state_bytes)
  moreover have "get_extension_types st = Inr ts" using ts st(2) by (simp add: get_extension_types_def)
  moreover have "process_initialize_mint_with E (mint_info # it') d2 ma2 fa2 False w' \<noteq> Inr w''"
    using unpack_excludes_uninitialized [OF unp]
    by (auto simp: process_initialize_mint_with_def success_simps Let_def)
  ultimately show ?thesis using u w' unp st(1,2) len
    by (intro exI [of _ old] exI [of _ st] exI [of _ ts]) simp
qed

theorem initialize_mint_correct_witness:
  "\<exists>w'. process_initialize_mint_with sample_env [\<lparr>key = 7, is_signer = False\<rparr>] 6 11 pod_none False
      (one_account 82 token_2022_id (pod_mint_bytes zero_mint)) = Inr w' \<and>
     (\<exists>st. unpack (PodMint sample_env) (data_of w' \<lparr>key = 7, is_signer = False\<rparr>) = Inr st \<and>
        mint_supply (base st) = 0 \<and> decimals (base st) = 6)"
proof -
  let ?w = "one_account 82 token_2022_id (pod_mint_bytes zero_mint)"
  let ?a = "\<lparr>key = 7, is_signer = False\<rparr>"
  have u: "unpack_uninitialized (PodMint sample_env) (pod_mint_bytes zero_mint) = Inr (bare zero_mint)"
    using pod_mint.unpack_bare [of sample_env zero_mint]
    by (simp add: zero_mint_def pod_mint_is_initialized_def sample_env_def PodMint_SIZE_OF_def Multisig_LEN_def)
  then obtain w' where w': "process_initialize_mint_with sample_env [?a] 6 11 pod_none False ?w = Inr w'"
    by (simp add: process_initialize_mint_with_def get_rent_def sample_env_rent
        try_calculate_account_len_def Mint_LEN_def check_for_invalid_mint_extension_combinations_def
        check_default_account_state_def Let_def)
  from initialize_mint_correct [OF w' sample_env_ok, of "[]" 0 0 pod_none w'] obtain st
    where "unpack (PodMint sample_env) (data_of w' ?a) = Inr st" "mint_supply (base st) = 0" "decimals (base st) = 6"
    by (auto simp: u) (simp add: zero_mint_def)
  with w' show ?thesis by blast
qed

text \<open>The required extensions, on the bytes of the TLV buffer: every listed type is there with its
  default value, everything else that was there is unchanged.\<close>

lemma word_le_zero: "word_le (0 :: 'a::len word) = replicate (LENGTH('a) div 8) 0"
proof -
  have "nat_le k 0 = replicate k 0" for k by (induction k) auto
  then show ?thesis by (simp add: word_le_def)
qed

lemma init_default_bytes:
  "init_extension PodAccount TransferFeeAmountExt True st = Inr st' \<longleftrightarrow>
   (\<exists>d. init_extension_bytes account_type.Account TransferFeeAmount (replicate 8 0) True (tlv_data st) = Inr d \<and>
        st' = st\<lparr>tlv_data := d\<rparr>)"
  "init_extension PodAccount ImmutableOwnerExt True st = Inr st' \<longleftrightarrow>
   (\<exists>d. init_extension_bytes account_type.Account extension_type.ImmutableOwner [] True (tlv_data st) = Inr d \<and>
        st' = st\<lparr>tlv_data := d\<rparr>)"
  "init_extension PodAccount NonTransferableAccountExt True st = Inr st' \<longleftrightarrow>
   (\<exists>d. init_extension_bytes account_type.Account NonTransferableAccount [] True (tlv_data st) = Inr d \<and>
        st' = st\<lparr>tlv_data := d\<rparr>)"
  "init_extension PodAccount TransferHookAccountExt True st = Inr st' \<longleftrightarrow>
   (\<exists>d. init_extension_bytes account_type.Account TransferHookAccount [0] True (tlv_data st) = Inr d \<and>
        st' = st\<lparr>tlv_data := d\<rparr>)"
  by (auto simp: init_extension_def init_extension_with_def success_simps ext_defs word_le_zero)

lemma init_from_type_bytes:
  assumes "init_account_extension_from_type t st = Inr st'"
  shows "st' = st \<and> (get_account_type t \<noteq> account_type.Account \<or> t = ConfidentialTransferAccount) \<or>
    (\<exists>d. init_extension_bytes account_type.Account t (replicate (type_len E t) 0) True (tlv_data st) = Inr d \<and>
         st' = st\<lparr>tlv_data := d\<rparr>)"
proof (cases "get_account_type t \<noteq> account_type.Account \<or> t = ConfidentialTransferAccount")
  case True
  with assms show ?thesis
    by (auto simp: init_account_extension_from_type_def split: if_splits)
next
  case False
  with assms consider
      (fee) "t = TransferFeeAmount" "init_extension PodAccount TransferFeeAmountExt True st = Inr st'"
    | (owner) "t = extension_type.ImmutableOwner" "init_extension PodAccount ImmutableOwnerExt True st = Inr st'"
    | (nt) "t = NonTransferableAccount" "init_extension PodAccount NonTransferableAccountExt True st = Inr st'"
    | (hook) "t = TransferHookAccount" "init_extension PodAccount TransferHookAccountExt True st = Inr st'"
    by (auto simp: init_account_extension_from_type_def split: if_splits)
  then show ?thesis
    by cases (auto simp: init_default_bytes)
qed

lemma init_required_Inr:
  assumes "init_required_extensions ts st = Inr st'"
  shows "\<exists>d. st' = st\<lparr>tlv_data := d\<rparr> \<and> length d = length (tlv_data st) \<and>
    (\<forall>t\<in>set ts. get_account_type t = account_type.Account \<and> t \<noteq> ConfidentialTransferAccount \<longrightarrow>
       get_extension_bytes account_type.Account t d = Inr (replicate (type_len E t) 0)) \<and>
    (\<forall>t x. t \<notin> set ts \<and> get_extension_bytes account_type.Account t (tlv_data st) = Inr x \<longrightarrow>
       get_extension_bytes account_type.Account t d = Inr x)"
  using assms
proof (induction ts arbitrary: st)
  case Nil
  then show ?case by (intro exI [of _ "tlv_data st"]) simp
next
  case (Cons t ts)
  let ?A = account_type.Account
  from Cons.prems obtain st1 where one: "init_account_extension_from_type t st = Inr st1"
    and rest: "init_required_extensions ts st1 = Inr st'" by (auto simp: success_simps)
  from Cons.IH [OF rest] obtain d where d: "st' = st1\<lparr>tlv_data := d\<rparr>" "length d = length (tlv_data st1)"
    and here: "\<And>u. u \<in> set ts \<Longrightarrow> get_account_type u = ?A \<Longrightarrow> u \<noteq> ConfidentialTransferAccount \<Longrightarrow>
       get_extension_bytes ?A u d = Inr (replicate (type_len E u) 0)"
    and other: "\<And>u x. u \<notin> set ts \<Longrightarrow> get_extension_bytes ?A u (tlv_data st1) = Inr x \<Longrightarrow>
       get_extension_bytes ?A u d = Inr x"
    by blast
  from init_from_type_bytes [OF one, of E] show ?case
  proof (elim disjE exE conjE)
    fix d1 assume i: "init_extension_bytes ?A t (replicate (type_len E t) 0) True (tlv_data st) = Inr d1"
      and st1: "st1 = st\<lparr>tlv_data := d1\<rparr>"
    have "get_extension_bytes ?A u d = Inr (replicate (type_len E u) 0)"
      if "u = t" "u \<notin> set ts" for u
      using other [OF that(2)] get_init_same [OF i] that(1) st1 by simp
    moreover have "get_extension_bytes ?A u d = Inr x"
      if "u \<noteq> t" "u \<notin> set ts" "get_extension_bytes ?A u (tlv_data st) = Inr x" for u x
      using other [OF that(2)] get_init_other [OF i that(1) _ that(3)] st1 by simp
    ultimately show ?thesis using here d length_init [OF i] st1
      by (intro exI [of _ d]) auto
  qed (use d here other in \<open>auto intro!: exI [of _ d]\<close>)
qed

lemma required_types:
  "t \<in> set (get_required_init_account_extensions ts) \<Longrightarrow>
   get_account_type t = account_type.Account \<and> t \<noteq> ConfidentialTransferAccount"
proof -
  have "t \<in> set (required_for u) \<Longrightarrow> get_account_type t = account_type.Account \<and> t \<noteq> ConfidentialTransferAccount" for u
    by (cases u) auto
  moreover assume "t \<in> set (get_required_init_account_extensions ts)"
  ultimately show ?thesis by (auto simp: get_required_init_account_extensions_def)
qed

lemma initialize_account_Inr:
  assumes "process_initialize_account_with E (new_info # mint_info # it) (Some p) sysvar w = Inr w'"
  obtains rent old mt required old2 s b st
  where "unpack_uninitialized PodAccount (data_of w new_info) = Inr old" "key new_info \<noteq> key mint_info"
    "unpack (PodMint E) (data_of w mint_info) = Inr mt"
    "get_required_account_extensions_from_unpacked_mint (owner_of w mint_info) mt = Inr required"
    "init_required_extensions required old = Inr old2" "starting_state E mt = Inr s"
    "new_account_base (key mint_info) p s rent (lamports_of w new_info) (length (data_of w new_info)) = Inr b"
    "init_account_type PodAccount (old2\<lparr>base := b\<rparr>) = Inr st" "w' = store PodAccount new_info st w"
  using assms by (auto simp: process_initialize_account_with_def success_simps Let_def)

lemma new_account_base_Inr:
  assumes "new_account_base m p s rent lams n = Inr b"
  shows "mint b = m" "owner b = p" "state b = account_state_u8 s" "delegate b = pod_none"
    "delegated_amount b = 0" "close_authority b = pod_none"
    "if m = native_mint_id
     then \<exists>r. is_native b = pod_some r \<and> unat (amount b) + unat r = unat lams
     else is_native b = pod_none \<and> amount b = 0"
  using assms by (auto simp: new_account_base_def Let_def success_simps checked_sub_Some split: if_splits)

lemma required_Inr [success_simps]:
  "get_required_account_extensions_from_unpacked_mint p mt = Inr ts \<longleftrightarrow> p = token_2022_id \<and>
   (\<exists>us. get_extension_types mt = Inr us \<and> ts = get_required_init_account_extensions us)"
  by (auto simp: get_required_account_extensions_from_unpacked_mint_def success_simps)

lemma fresh_shape_tlv:
  "length d = length (tlv_data st) \<Longrightarrow> fresh_shape PodAccount (st\<lparr>tlv_data := d\<rparr>) = fresh_shape PodAccount st"
  by (auto simp: fresh_shape_def pod_account.length_state_bytes)

lemma initialize_account_facts:
  assumes "process_initialize_account_with E (new_info # mint_info # it) (Some p) sysvar w = Inr w'"
    "starting_state E mt \<noteq> Inr account_state.Uninitialized" "unpack (PodMint E) (data_of w mint_info) = Inr mt"
  shows "\<exists>old st us s. unpack_uninitialized PodAccount (data_of w new_info) = Inr old \<and>
    w' = store PodAccount new_info st w \<and> unpack PodAccount (data_of w' new_info) = Inr st \<and>
    owner_of w mint_info = token_2022_id \<and> key new_info \<noteq> key mint_info \<and>
    mint (base st) = key mint_info \<and> owner (base st) = p \<and> delegate (base st) = pod_none \<and>
    delegated_amount (base st) = 0 \<and> close_authority (base st) = pod_none \<and>
    starting_state E mt = Inr s \<and> state (base st) = account_state_u8 s \<and>
    (if key mint_info = native_mint_id
     then \<exists>r. is_native (base st) = pod_some r \<and> unat (amount (base st)) + unat r = unat (lamports_of w new_info)
     else is_native (base st) = pod_none \<and> amount (base st) = 0) \<and>
    get_extension_types mt = Inr us \<and>
    (\<forall>t \<in> set (get_required_init_account_extensions us).
       get_extension_bytes account_type.Account t (tlv_data st) = Inr (replicate (type_len E t) 0)) \<and>
    (\<forall>t x. t \<notin> set (get_required_init_account_extensions us) \<and>
       get_extension_bytes account_type.Account t (tlv_data old) = Inr x \<longrightarrow>
       get_extension_bytes account_type.Account t (tlv_data st) = Inr x)"
  using assms(1)
proof (rule initialize_account_Inr)
  fix rent and old old2 st :: "pod_account ext_state" and mt' required s b
  assume u: "unpack_uninitialized PodAccount (data_of w new_info) = Inr old"
    and ne: "key new_info \<noteq> key mint_info"
    and m: "unpack (PodMint E) (data_of w mint_info) = Inr mt'"
    and req: "get_required_account_extensions_from_unpacked_mint (owner_of w mint_info) mt' = Inr required"
    and ie: "init_required_extensions required old = Inr old2"
    and s: "starting_state E mt' = Inr s"
    and b: "new_account_base (key mint_info) p s rent (lamports_of w new_info) (length (data_of w new_info)) = Inr b"
    and i: "init_account_type PodAccount (old2\<lparr>base := b\<rparr>) = Inr st"
    and w': "w' = store PodAccount new_info st w"
  have mt: "mt' = mt" using m assms(3) by simp
  from req obtain us where own: "owner_of w mint_info = token_2022_id" and us: "get_extension_types mt = Inr us"
    and r: "required = get_required_init_account_extensions us" by (auto simp: success_simps mt)
  from init_required_Inr [OF ie, of E] obtain d where d: "old2 = old\<lparr>tlv_data := d\<rparr>" "length d = length (tlv_data old)"
    and e: "\<forall>t\<in>set required. get_extension_bytes account_type.Account t d = Inr (replicate (type_len E t) 0)"
    and o: "\<forall>t x. t \<notin> set required \<and> get_extension_bytes account_type.Account t (tlv_data old) = Inr x \<longrightarrow>
       get_extension_bytes account_type.Account t d = Inr x"
    using required_types r by blast
  have f: "fresh_shape PodAccount (old2\<lparr>base := b\<rparr>)"
    using pod_account.unpack_uninitialized_Inr(3) [OF u] d by (simp add: fresh_shape_tlv)
  note st = pod_account.init_account_type_Inr [OF i f]
  note b' = new_account_base_Inr [OF b]
  have "s \<noteq> account_state.Uninitialized" using s assms(2) mt by auto
  then have "pod_account_is_initialized (base (old2\<lparr>base := b\<rparr>))"
    using b'(3) by (cases s) (simp_all add: pod_account_is_initialized_def)
  then have "unpack PodAccount (data_of w' new_info) = Inr st"
    using pod_account.init_account_type_unpack [OF i f] by (simp add: w' frame)
  with u w' own ne st(1,2) b' us e o s show ?thesis
    by (intro exI [of _ old] exI [of _ st] exI [of _ us] exI [of _ s]) (simp add: d r mt)
qed


text \<open>A ledger with a mint at key 9 and a fresh account at key 7.\<close>

definition live_mint :: pod_mint where
  "live_mint = \<lparr>mint_authority = pod_some 20, mint_supply = 1000, decimals = 6, is_initialized = 1,
     freeze_authority = pod_some 21\<rparr>"

definition zero_account :: pod_account where
  "zero_account = \<lparr>mint = 0, owner = 0, amount = 0, delegate = pod_none, state = 0, is_native = pod_none,
     delegated_amount = 0, close_authority = pod_none\<rparr>"

definition mint_and_fresh :: world where
  "mint_and_fresh = \<lparr>cells = (\<lambda>k. \<lparr>lamports = 165, acct_owner = token_2022_id,
     acct_data = (if k = 9 then pod_mint_bytes live_mint else pod_account_bytes zero_account)\<rparr>),
     return_data = []\<rparr>"

lemma mint_and_fresh_simps [simp]:
  "owner_of mint_and_fresh a = token_2022_id" "lamports_of mint_and_fresh a = 165"
  "data_of mint_and_fresh a = (if key a = 9 then pod_mint_bytes live_mint else pod_account_bytes zero_account)"
  by (simp_all add: mint_and_fresh_def owner_of_def lamports_of_def data_of_def)

lemma unpack_live_mint [simp]: "unpack (PodMint sample_env) (pod_mint_bytes live_mint) = Inr (bare live_mint)"
  using pod_mint.unpack_bare(2) [of sample_env live_mint]
  by (simp add: pod_mint_is_initialized_def live_mint_def sample_env_def PodMint_SIZE_OF_def Multisig_LEN_def)

lemma unpack_zero_account [simp]:
  "unpack_uninitialized PodAccount (pod_account_bytes zero_account) = Inr (bare zero_account)"
  using pod_account.unpack_bare(1) [of zero_account]
  by (simp add: pod_account_is_initialized_def zero_account_def PodAccount_SIZE_OF_def Multisig_LEN_def)


lemma write_signers_Inr:
  assumes "write_signers as i ks = Inr ks'" "i \<le> length ks"
  shows "i + length as \<le> length ks \<and> length ks' = length ks \<and> take i ks' = take i ks \<and>
    take (length as) (drop i ks') = map key as"
  using assms
proof (induction "as" arbitrary: i ks)
  case (Cons a as)
  then have "i < length ks" and r: "write_signers as (Suc i) (ks[i := key a]) = Inr ks'"
    by (auto simp: not_le split: if_splits)
  from Cons.IH [OF r] this have ih: "Suc i + length as \<le> length ks" "length ks' = length ks"
    "take (Suc i) ks' = take (Suc i) (ks[i := key a])" "take (length as) (drop (Suc i) ks') = map key as"
    by auto
  have "ks' ! i = key a" using arg_cong [OF ih(3), of "\<lambda>l. l ! i"] \<open>i < length ks\<close> by simp
  moreover have "take i ks' = take i ks"
    using arg_cong [OF ih(3), of "take i"] by (simp add: min_def)
  ultimately show ?case using ih \<open>i < length ks\<close>
    by (simp add: Cons_nth_drop_Suc [symmetric])
qed simp

lemma length_pod_multisig_bytes:
  "length (signers m) = MAX_SIGNERS \<Longrightarrow> length (pod_multisig_bytes m) = PodMultisig_SIZE_OF"
  by (simp add: pod_multisig_bytes_def length_concat_keys MAX_SIGNERS_def PodMultisig_SIZE_OF_def)

text \<open>\<open>InitializeMultisig\<close>: the account records exactly the keys of the signer accounts
  passed, in order; both their number and the threshold are between 1 and 11, although the code
  truncates the number to a byte before it checks it.\<close>

theorem initialize_multisig_correct:
  assumes "process_initialize_multisig_with E accounts m sysvar w = Inr w'"
    "accounts = multisig_info # (if sysvar then rent_info # signer_infos else signer_infos)"
  shows "multisig_keys (data_of w' multisig_info) = map key signer_infos \<and>
    1 \<le> length signer_infos \<and> length signer_infos \<le> 11 \<and>
    multisig_m (pod_multisig_of_bytes (data_of w' multisig_info)) = m \<and> 1 \<le> unat m \<and> unat m \<le> 11 \<and>
    length (data_of w' multisig_info) = PodMultisig_SIZE_OF"
proof -
  let ?n = "of_nat (length signer_infos) :: u8"
  from assms obtain old ks where len: "length (data_of w multisig_info) = PodMultisig_SIZE_OF"
    and old: "old = pod_multisig_of_bytes (data_of w multisig_info)"
    and n: "is_valid_signer_index (unat ?n)" and m: "is_valid_signer_index (unat m)"
    and ks: "write_signers signer_infos 0 (signers old) = Inr ks"
    and w': "w' = set_data multisig_info (pod_multisig_bytes
      \<lparr>multisig_m = m, multisig_n = ?n, multisig_is_initialized = pod_of_bool E True, signers = ks\<rparr>) w"
    by (auto simp: process_initialize_multisig_with_def get_rent_def success_simps Let_def
        pod_multisig_from_bytes_Inr split: if_splits)
  from write_signers_Inr [OF ks] have l: "length signer_infos \<le> MAX_SIGNERS" "length ks = MAX_SIGNERS"
    "take (length signer_infos) ks = map key signer_infos" by (simp_all add: old)
  then have "unat ?n = length signer_infos" by (simp add: MAX_SIGNERS_def unat_of_nat take_bit_nat_def)
  with l n m len show ?thesis
    by (simp add: w' frame multisig_keys_def pod_multisig_of_bytes_bytes is_valid_signer_index_def
        MIN_SIGNERS_def MAX_SIGNERS_def length_pod_multisig_bytes)
qed

definition blank_multisig :: pod_multisig where
  "blank_multisig = \<lparr>multisig_m = 0, multisig_n = 0, multisig_is_initialized = 0, signers = replicate 11 0\<rparr>"

theorem initialize_multisig_correct_witness:
  "\<exists>w'. process_initialize_multisig_with sample_env
       (\<lparr>key = 7, is_signer = False\<rparr> # [\<lparr>key = 11, is_signer = False\<rparr>, \<lparr>key = 12, is_signer = False\<rparr>]) 2 False
       (one_account 400 token_2022_id (pod_multisig_bytes blank_multisig)) = Inr w' \<and>
     multisig_keys (data_of w' \<lparr>key = 7, is_signer = False\<rparr>) = [11, 12]"
proof -
  let ?s = "[\<lparr>key = 11, is_signer = False\<rparr>, \<lparr>key = 12, is_signer = False\<rparr>]"
  have sg: "length (signers blank_multisig) = MAX_SIGNERS" "signers blank_multisig = replicate 11 0"
    "multisig_is_initialized blank_multisig = 0"
    by (simp_all add: blank_multisig_def MAX_SIGNERS_def sample_env_def)
  then have d: "pod_multisig_from_bytes sample_env (pod_multisig_bytes blank_multisig) = Inr blank_multisig"
    "length (pod_multisig_bytes blank_multisig) = 355"
    by (simp_all add: pod_multisig_from_bytes_Inr pod_multisig_of_bytes_bytes length_pod_multisig_bytes)
       (simp add: PodMultisig_SIZE_OF_def)
  have v: "is_valid_signer_index 2" by (simp add: is_valid_signer_index_def MIN_SIGNERS_def MAX_SIGNERS_def)
  have "isOk (process_initialize_multisig_with sample_env (\<lparr>key = 7, is_signer = False\<rparr> # ?s) 2 False
      (one_account 400 token_2022_id (pod_multisig_bytes blank_multisig)))"
    by (simp add: process_initialize_multisig_with_def get_rent_def sample_env_rent Let_def d sg(2,3) v)
  then obtain w' where w': "process_initialize_multisig_with sample_env (\<lparr>key = 7, is_signer = False\<rparr> # ?s) 2 False
      (one_account 400 token_2022_id (pod_multisig_bytes blank_multisig)) = Inr w'"
    by (auto simp: isOk_iff)
  with initialize_multisig_correct [OF w', of _ undefined ?s] show ?thesis by auto
qed

text \<open>C24. No account is a mint and a token account at once: the length of the buffer and the
  account type byte tell them apart, so a handler that unpacks one kind never reads the other.\<close>

theorem mint_account_separation:
  "isOk (unpack (PodMint E) d) \<Longrightarrow> \<not> isOk (unpack PodAccount d)"
  by (auto simp: isOk_iff dest: mint_is_no_account)

theorem mint_account_separation_witness: "\<not> isOk (unpack PodAccount (pod_mint_bytes live_mint))"
  by (rule mint_account_separation [of sample_env]) simp

end
