(* ===== verification/Token_Transfer.thy ===== *)
theory Token_Transfer
  imports Initialize
begin

text \<open>
  \<open>Processor::process_transfer\<close> (\<open>src/programs/src/processor.rs\<close>) and the
  transfer-hook flag (\<open>src/programs/src/extension/transfer_hook/mod.rs\<close>), split into the
  phases of the function: the terms read from the mint, the authority, the movement of tokens, the
  movement of lamports of native accounts and the call of the transfer hook.
\<close>

section \<open>The phases of a transfer\<close>

text \<open>Fee, permanent delegate and hook program.  The source is borrowed mutably, so a mint with the
  key of the source cannot be borrowed.\<close>

definition transfer_terms ::
    "env \<Rightarrow> account_info \<Rightarrow> pod_account ext_state \<Rightarrow> (account_info \<times> u8) option \<Rightarrow> u64 \<Rightarrow> world \<Rightarrow>
     (u64 \<times> pubkey option \<times> pubkey option) result" where
  "transfer_terms E source_info src expected_mint amt w =
     (case expected_mint of
        Some (mint_info, expected_decimals) \<Rightarrow>
          if mint (base src) \<noteq> key mint_info then Inl (Token MintMismatch)
          else if key mint_info = key source_info then Inl (Prog AccountBorrowFailed)
          else bindE (unpack (PodMint E) (data_of w mint_info)) (\<lambda>mt.
            if expected_decimals \<noteq> decimals (base mt) then Inl (Token MintDecimalsMismatch)
            else bindE (case get_extension E (PodMint E) TransferFeeConfigExt mt of
                   Inr config \<Rightarrow> bindE (clock_get E) (\<lambda>c.
                     ok_or (Token Overflow) (calculate_epoch_fee config (epoch c) amt))
                 | Inl _ \<Rightarrow> Inr 0) (\<lambda>fee.
              Inr (fee, get_permanent_delegate E mt, get_hook_program_id E mt)))
      | None \<Rightarrow>
          if isOk (get_extension E PodAccount TransferHookAccountExt src) then Inl (Token MintRequiredForTransfer)
          else if isOk (get_extension E PodAccount TransferFeeAmountExt src) then Inl (Token MintRequiredForTransfer)
          else Inr (0, None, None))"

text \<open>The authority: the permanent delegate, else the delegate, whose allowance is used up, else the
  owner, whom an enabled CPI guard stops inside a cross-program invocation.\<close>

definition spend_allowance :: "u64 \<Rightarrow> bool \<Rightarrow> pod_account ext_state \<Rightarrow> pod_account ext_state result" where
  "spend_allowance amt self_transfer src =
     (if delegated_amount (base src) < amt then Inl (Token InsufficientFunds)
      else if self_transfer then Inr src
      else bindE (ok_or (Token Overflow) (checked_sub (delegated_amount (base src)) amt)) (\<lambda>n.
        let b = (base src)\<lparr>delegated_amount := n\<rparr>
        in Inr (src\<lparr>base := if delegated_amount b = 0 then b\<lparr>delegate := pod_none\<rparr> else b\<rparr>)))"

definition transfer_authority ::
    "env \<Rightarrow> pubkey \<Rightarrow> bool \<Rightarrow> u64 \<Rightarrow> pod_account ext_state \<Rightarrow> pubkey option \<Rightarrow> account_info \<Rightarrow>
     account_info list \<Rightarrow> world \<Rightarrow> pod_account ext_state result" where
  "transfer_authority E program_id self_transfer amt src permanent_delegate authority_info ss w =
     (let n = length (data_of w authority_info) in
      if permanent_delegate = Some (key authority_info) then
        bindE (validate_owner E program_id (key authority_info) authority_info n ss w) (\<lambda>_. Inr src)
      else if pod_match_some (delegate (base src)) = Some (key authority_info) then
        bindE (validate_owner E program_id (key authority_info) authority_info n ss w) (\<lambda>_.
          spend_allowance amt self_transfer src)
      else
        bindE (validate_owner E program_id (owner (base src)) authority_info n ss w) (\<lambda>_.
          if cpi_guard_enabled E src \<and> in_cpi E then Inl (Token CpiGuardTransferBlocked) else Inr src))"

definition check_destination ::
    "env \<Rightarrow> pod_account ext_state \<Rightarrow> pod_account ext_state \<Rightarrow> unit result" where
  "check_destination E src dst =
     (if pod_account_is_frozen (base dst) then Inl (Token AccountFrozen)
      else if mint (base src) \<noteq> mint (base dst) then Inl (Token MintMismatch)
      else bindE (if memo_required E dst then check_previous_sibling_instruction_is_memo E else Inr ()) (\<lambda>_.
        case get_extension E PodAccount (ConfidentialTransferAccountExt E) dst of
          Inl _ \<Rightarrow> Inr ()
        | Inr c \<Rightarrow> non_confidential_transfer_allowed E c))"

text \<open>The fee stays with the destination, in its \<open>TransferFeeAmount\<close> extension.\<close>

definition withhold_fee :: "env \<Rightarrow> u64 \<Rightarrow> pod_account ext_state \<Rightarrow> pod_account ext_state result" where
  "withhold_fee E fee dst =
     (if fee > 0 then
        (case get_extension E PodAccount TransferFeeAmountExt dst of
           Inl _ \<Rightarrow> Inl (Token InvalidState)
         | Inr withheld \<Rightarrow> bindE (ok_or (Token Overflow) (checked_add withheld fee)) (\<lambda>n.
             Inr (put_extension PodAccount TransferFeeAmountExt n dst)))
      else Inr dst)"

definition move_tokens ::
    "env \<Rightarrow> u64 \<Rightarrow> u64 \<Rightarrow> pod_account ext_state \<Rightarrow> pod_account ext_state \<Rightarrow>
     (pod_account ext_state \<times> pod_account ext_state) result" where
  "move_tokens E amt fee src dst =
     bindE (ok_or (Token Overflow) (checked_sub (amount (base src)) amt)) (\<lambda>a.
     bindE (ok_or (Token Overflow) (checked_sub amt fee)) (\<lambda>credited_amount.
     bindE (ok_or (Token Overflow) (checked_add (amount (base dst)) credited_amount)) (\<lambda>b.
     bindE (withhold_fee E fee (dst\<lparr>base := (base dst)\<lparr>amount := b\<rparr>\<rparr>)) (\<lambda>dst.
       Inr (src\<lparr>base := (base src)\<lparr>amount := a\<rparr>\<rparr>, dst)))))"

definition move_lamports :: "account_info \<Rightarrow> account_info \<Rightarrow> u64 \<Rightarrow> world \<Rightarrow> world result" where
  "move_lamports from_info to_info amt w =
     bindE (ok_or (Token Overflow) (checked_sub (lamports_of w from_info) amt)) (\<lambda>a.
     let w = set_lamports from_info a w in
     bindE (ok_or (Token Overflow) (checked_add (lamports_of w to_info) amt)) (\<lambda>b.
       Inr (set_lamports to_info b w)))"

definition set_transferring :: "env \<Rightarrow> pod_account ext_state \<Rightarrow> pod_account ext_state result" where
  "set_transferring E st =
     bindE (get_extension E PodAccount TransferHookAccountExt st) (\<lambda>_.
       Inr (put_extension PodAccount TransferHookAccountExt (pod_of_bool E True) st))"

definition unset_transferring :: "env \<Rightarrow> account_info \<Rightarrow> world \<Rightarrow> world result" where
  "unset_transferring E info w =
     bindE (unpack PodAccount (data_of w info)) (\<lambda>st.
     bindE (get_extension E PodAccount TransferHookAccountExt st) (\<lambda>_.
       Inr (store PodAccount info (put_extension PodAccount TransferHookAccountExt (pod_of_bool E False) st) w)))"

text \<open>Both states are stored, with the flags set, before the hook program runs.\<close>

definition run_transfer_hook ::
    "env \<Rightarrow> pubkey \<Rightarrow> account_info \<Rightarrow> pod_account ext_state \<Rightarrow> account_info \<Rightarrow> account_info \<Rightarrow>
     pod_account ext_state \<Rightarrow> account_info \<Rightarrow> account_info list \<Rightarrow> u64 \<Rightarrow> world \<Rightarrow> world result" where
  "run_transfer_hook E hook_program source_info src mint_info destination_info dst authority_info rest amt w =
     bindE (set_transferring E src) (\<lambda>src.
     bindE (set_transferring E dst) (\<lambda>dst.
     let w = store PodAccount destination_info dst (store PodAccount source_info src w) in
     bindE (invoke_execute E hook_program [source_info, mint_info, destination_info, authority_info] rest amt w) (\<lambda>w.
     bindE (unset_transferring E source_info w) (\<lambda>w.
       unset_transferring E destination_info w))))"

section \<open>The handler\<close>

text \<open>The part after the self-transfer check.\<close>

definition transfer_between ::
    "env \<Rightarrow> account_info \<Rightarrow> pod_account ext_state \<Rightarrow> (account_info \<times> u8) option \<Rightarrow> account_info \<Rightarrow> account_info \<Rightarrow>
     account_info list \<Rightarrow> u64 \<Rightarrow> u64 \<Rightarrow> pubkey option \<Rightarrow> world \<Rightarrow> world result" where
  "transfer_between E source_info src expected_mint destination_info authority_info rest amt fee hook_program w =
     bindE (unpack PodAccount (data_of w destination_info)) (\<lambda>dst.
     bindE (check_destination E src dst) (\<lambda>_.
     bindE (move_tokens E amt fee src dst) (\<lambda>(src, dst).
     bindE (if pod_account_is_native (base src) then move_lamports source_info destination_info amt w else Inr w) (\<lambda>w.
     case (hook_program, expected_mint) of
       (None, _) \<Rightarrow> Inr (store PodAccount destination_info dst (store PodAccount source_info src w))
     | (Some p, Some (mint_info, _)) \<Rightarrow>
         run_transfer_hook E p source_info src mint_info destination_info dst authority_info rest amt w
     | (Some p, None) \<Rightarrow> Inl (Token MintRequiredForTransfer)))))"

definition transfer_accounts ::
    "account_info list \<Rightarrow> u8 option \<Rightarrow>
     (account_info \<times> (account_info \<times> u8) option \<times> account_info \<times> account_info \<times> account_info list) result" where
  "transfer_accounts accounts expected_decimals =
     bindE (next_account_info accounts) (\<lambda>(source_info, it).
     bindE (case expected_decimals of
              Some d \<Rightarrow> bindE (next_account_info it) (\<lambda>(m, it). Inr (Some (m, d), it))
            | None \<Rightarrow> Inr (None, it)) (\<lambda>(expected_mint, it).
     bindE (next_account_info it) (\<lambda>(destination_info, it).
     bindE (next_account_info it) (\<lambda>(authority_info, it).
       Inr (source_info, expected_mint, destination_info, authority_info, it)))))"

definition process_transfer ::
    "env \<Rightarrow> pubkey \<Rightarrow> account_info list \<Rightarrow> u64 \<Rightarrow> u8 option \<Rightarrow> u64 option \<Rightarrow> world \<Rightarrow> world result" where
  "process_transfer E program_id accounts amt expected_decimals expected_fee w =
     bindE (transfer_accounts accounts expected_decimals)
       (\<lambda>(source_info, expected_mint, destination_info, authority_info, rest).
     bindE (unpack PodAccount (data_of w source_info)) (\<lambda>src.
     if pod_account_is_frozen (base src) then Inl (Token AccountFrozen)
     else if amount (base src) < amt then Inl (Token InsufficientFunds)
     else if isOk (get_extension E PodAccount NonTransferableAccountExt src) then Inl (Token token_error.NonTransferable)
     else bindE (transfer_terms E source_info src expected_mint amt w) (\<lambda>(fee, permanent_delegate, hook_program).
     if (case expected_fee of Some f \<Rightarrow> f \<noteq> fee | None \<Rightarrow> False) then Inl (Token FeeMismatch)
     else let self_transfer = (key source_info = key destination_info) in
     bindE (transfer_authority E program_id self_transfer amt src permanent_delegate authority_info rest w) (\<lambda>src.
     bindE (check_program_account (owner_of w source_info)) (\<lambda>_.
     bindE (check_program_account (owner_of w destination_info)) (\<lambda>_.
     if self_transfer then Inr w
     else transfer_between E source_info src expected_mint destination_info authority_info rest amt fee
            hook_program w))))))"

section \<open>The tokens an account holds\<close>

text \<open>Besides its amount an account holds the fees withheld on it.\<close>

definition withheld :: "env \<Rightarrow> pod_account ext_state \<Rightarrow> u64" where
  "withheld E st = (case get_extension E PodAccount TransferFeeAmountExt st of Inl _ \<Rightarrow> 0 | Inr n \<Rightarrow> n)"

definition holdings :: "env \<Rightarrow> pod_account ext_state \<Rightarrow> nat" where
  "holdings E st = unat (amount (base st)) + unat (withheld E st)"

definition live :: "pod_account ext_state \<Rightarrow> bool" where
  "live st \<longleftrightarrow> pod_account_is_initialized (base st) \<and> shape_ok PodAccount st"

lemma unpack_account_live: "unpack PodAccount d = Inr st \<longleftrightarrow> d = state_bytes PodAccount st \<and> live st"
  by (auto simp: live_def pod_account.unpack_iff)

lemma unpack_live [simp]: "live st \<Longrightarrow> unpack PodAccount (state_bytes PodAccount st) = Inr st"
  by (simp add: unpack_account_live)

lemma live_base [simp]: "state b = state (base st) \<Longrightarrow> live (st\<lparr>base := b\<rparr>) = live st"
  by (simp add: live_def pod_account_is_initialized_def)

lemma live_put [simp]: "live (put_extension PodAccount V v st) = live st"
  by (simp add: live_def)

lemma withheld_base [simp]: "withheld E (st\<lparr>base := b\<rparr>) = withheld E st"
  by (simp add: withheld_def)

lemma get_put_other_account [simp]:
  "ext_type U \<noteq> ext_type V \<Longrightarrow>
   get_extension E PodAccount U (put_extension PodAccount V v st) = get_extension E PodAccount U st"
  by (rule pod_account.get_put_extension_other)

lemma account_ext_types [simp]:
  "ext_type TransferFeeAmountExt = TransferFeeAmount" "ext_type TransferHookAccountExt = TransferHookAccount"
  "ext_type CpiGuardExt = CpiGuard" "ext_type MemoTransferExt = MemoTransfer"
  "ext_type ImmutableOwnerExt = extension_type.ImmutableOwner"
  "ext_type NonTransferableAccountExt = NonTransferableAccount"
  by (simp_all add: ext_defs)

lemma withheld_put_hook [simp]: "withheld E (put_extension PodAccount TransferHookAccountExt v st) = withheld E st"
  by (simp add: withheld_def)

lemma withhold_fee_Inr:
  assumes "withhold_fee E fee dst = Inr dst'"
  shows "base dst' = base dst" "live dst' = live dst"
    "unat (withheld E dst') = unat (withheld E dst) + unat fee"
    "ext_type U \<noteq> TransferFeeAmount \<Longrightarrow> get_extension E PodAccount U dst' = get_extension E PodAccount U dst"
  using assms
  by (auto simp: withhold_fee_def withheld_def success_simps checked_add_Some transfer_fee_amount.all_valid
      account_fee_amount.get_put_extension word_gt_0 split: if_splits sum.splits)

lemma move_tokens_Inr:
  assumes "move_tokens E amt fee src dst = Inr (src', dst')"
  shows "base src' = (base src)\<lparr>amount := amount (base src')\<rparr>" "base dst' = (base dst)\<lparr>amount := amount (base dst')\<rparr>"
    "unat (amount (base src)) = unat (amount (base src')) + unat amt"
    "unat (amount (base dst')) + unat fee = unat (amount (base dst)) + unat amt"
    "withheld E src' = withheld E src" "unat (withheld E dst') = unat (withheld E dst) + unat fee"
    "live src' = live src" "live dst' = live dst" "unat fee \<le> unat amt"
    "src' = src\<lparr>base := base src'\<rparr>"
    "ext_type U \<noteq> TransferFeeAmount \<Longrightarrow> get_extension E PodAccount U dst' = get_extension E PodAccount U dst"
  using assms
  by (auto simp: move_tokens_def success_simps checked_sub_Some checked_add_Some
      withhold_fee_Inr [where E = E and fee = fee])

lemma move_lamports_data:
  "move_lamports a b n w = Inr w' \<Longrightarrow> data_of w' c = data_of w c \<and> owner_of w' c = owner_of w c"
  by (auto simp: move_lamports_def success_simps frame Let_def)

text \<open>The runtime's contract for a cross-program invocation of another program: it cannot change the
  data or the owner of an account that belongs to this program, and an account it hands over to this
  program is all zeros.\<close>

definition cpi_preserves :: "env \<Rightarrow> bool" where
  "cpi_preserves E \<longleftrightarrow> (\<forall>p infos rest amt w w' k. invoke_execute E p infos rest amt w = Inr w' \<longrightarrow>
     (if acct_owner (cells w k) = token_2022_id
      then acct_owner (cells w' k) = token_2022_id \<and> acct_data (cells w' k) = acct_data (cells w k)
      else acct_owner (cells w' k) = token_2022_id \<longrightarrow> list_all (\<lambda>b. b = 0) (acct_data (cells w' k))))"

lemma cpi_preserves_info:
  "cpi_preserves E \<Longrightarrow> invoke_execute E p infos rest amt w = Inr w' \<Longrightarrow> owner_of w a = token_2022_id \<Longrightarrow>
   owner_of w' a = token_2022_id \<and> data_of w' a = data_of w a"
  unfolding cpi_preserves_def owner_of_def data_of_def by metis

lemma sample_env_cpi [simp]: "cpi_preserves sample_env"
  by (auto simp: cpi_preserves_def sample_env_def)

text \<open>What a transfer may do to an account besides moving tokens: toggle the hook flag.\<close>

definition same_but_flag :: "env \<Rightarrow> pod_account ext_state \<Rightarrow> pod_account ext_state \<Rightarrow> bool" where
  "same_but_flag E st st' \<longleftrightarrow> (st' = st \<or> (\<exists>b c. isOk (get_extension E PodAccount TransferHookAccountExt st) \<and>
     st' = put_extension PodAccount TransferHookAccountExt c (put_extension PodAccount TransferHookAccountExt b st)))"

lemma same_but_flag_simps:
  assumes "same_but_flag E st st'"
  shows "base st' = base st" "withheld E st' = withheld E st" "live st' = live st"
    "ext_type U \<noteq> TransferHookAccount \<Longrightarrow> get_extension E PodAccount U st' = get_extension E PodAccount U st"
  using assms by (auto simp: same_but_flag_def)

lemma run_transfer_hook_Inr:
  assumes "run_transfer_hook E p a src m b dst auth rest amt w = Inr w'" "cpi_preserves E"
    "key a \<noteq> key b" "owner_of w a = token_2022_id" "owner_of w b = token_2022_id" "live src" "live dst"
  obtains src' dst' where "data_of w' a = state_bytes PodAccount src'" "data_of w' b = state_bytes PodAccount dst'"
    "same_but_flag E src src'" "same_but_flag E dst dst'"
    "\<And>k. k \<noteq> key a \<Longrightarrow> k \<noteq> key b \<Longrightarrow> acct_owner (cells w k) = token_2022_id \<Longrightarrow>
       acct_owner (cells w' k) = token_2022_id \<and> acct_data (cells w' k) = acct_data (cells w k)"
    "owner_of w' a = token_2022_id" "owner_of w' b = token_2022_id"
    "\<And>k. acct_owner (cells w k) \<noteq> token_2022_id \<Longrightarrow> acct_owner (cells w' k) = token_2022_id \<Longrightarrow>
       list_all (\<lambda>b. b = 0) (acct_data (cells w' k))"
proof -
  let ?flag = "\<lambda>v. put_extension PodAccount TransferHookAccountExt (pod_of_bool E v)"
  let ?w1 = "store PodAccount b (?flag True dst) (store PodAccount a (?flag True src) w)"
  from assms(1) obtain w2 w3 where
    h: "isOk (get_extension E PodAccount TransferHookAccountExt src)" "isOk (get_extension E PodAccount TransferHookAccountExt dst)"
    and inv: "invoke_execute E p [a, m, b, auth] rest amt ?w1 = Inr w2"
    and ua: "unset_transferring E a w2 = Inr w3" and ub: "unset_transferring E b w3 = Inr w'"
    by (auto simp: run_transfer_hook_def set_transferring_def success_simps Let_def isOk_iff)
  have o: "owner_of ?w1 a = token_2022_id" "owner_of ?w1 b = token_2022_id" using assms(4,5) by (simp_all add: frame)
  have d2: "data_of w2 a = state_bytes PodAccount (?flag True src)" "data_of w2 b = state_bytes PodAccount (?flag True dst)"
    and o2: "owner_of w2 a = token_2022_id" "owner_of w2 b = token_2022_id"
    using cpi_preserves_info [OF assms(2) inv o(1)] cpi_preserves_info [OF assms(2) inv o(2)] assms(3)
    by (simp_all add: frame)
  from ua d2 assms(6) have w3: "w3 = store PodAccount a (?flag False (?flag True src)) w2"
    by (auto simp: unset_transferring_def success_simps)
  from ub d2 assms(3,7) have w': "w' = store PodAccount b (?flag False (?flag True dst)) w3"
    by (auto simp: unset_transferring_def success_simps w3 frame)
  have same: "acct_owner (cells w' k) = token_2022_id \<and> acct_data (cells w' k) = acct_data (cells w k)"
    if "k \<noteq> key a" "k \<noteq> key b" "acct_owner (cells w k) = token_2022_id" for k
    using cpi_preserves_info [OF assms(2) inv, of "\<lparr>key = k, is_signer = False\<rparr>"] that
    by (simp add: w' w3 frame) (simp add: owner_of_def data_of_def frame)
  have zero: "list_all (\<lambda>b. b = 0) (acct_data (cells w' k))"
    if "acct_owner (cells w k) \<noteq> token_2022_id" "acct_owner (cells w' k) = token_2022_id" for k
  proof -
    have k: "k \<noteq> key a" "k \<noteq> key b" using that assms(4,5) by (auto simp: owner_of_def)
    with that have "acct_owner (cells ?w1 k) \<noteq> token_2022_id" "acct_owner (cells w2 k) = token_2022_id"
      by (simp_all add: w' w3 frame)
    with inv assms(2) have "list_all (\<lambda>b. b = 0) (acct_data (cells w2 k))" unfolding cpi_preserves_def by metis
    with k show ?thesis by (simp add: w' w3 frame)
  qed
  show ?thesis
  proof (rule that)
    show "data_of w' a = state_bytes PodAccount (?flag False (?flag True src))"
      "data_of w' b = state_bytes PodAccount (?flag False (?flag True dst))"
      using assms(3) by (simp_all add: w' w3 frame)
    show "same_but_flag E src (?flag False (?flag True src))" "same_but_flag E dst (?flag False (?flag True dst))"
      using h by (auto simp: same_but_flag_def)
    show "owner_of w' a = token_2022_id" "owner_of w' b = token_2022_id" using o2 by (simp_all add: w' w3 frame)
  qed (fact same zero)+
qed

text \<open>Only the named accounts of this program change; an account that becomes one is all zeros.\<close>

definition changes_only :: "pubkey set \<Rightarrow> world \<Rightarrow> world \<Rightarrow> bool" where
  "changes_only ks w w' \<longleftrightarrow> (\<forall>k. k \<notin> ks \<longrightarrow>
     (if acct_owner (cells w k) = token_2022_id
      then acct_owner (cells w' k) = token_2022_id \<and> acct_data (cells w' k) = acct_data (cells w k)
      else acct_owner (cells w' k) = token_2022_id \<longrightarrow> list_all (\<lambda>b. b = 0) (acct_data (cells w' k))))"

lemma changes_only_same:
  "(\<And>k. k \<notin> ks \<Longrightarrow> acct_data (cells w' k) = acct_data (cells w k) \<and> acct_owner (cells w' k) = acct_owner (cells w k)) \<Longrightarrow>
   changes_only ks w w'"
  by (auto simp: changes_only_def)

lemma changes_only_refl [simp]: "changes_only ks w w"
  by (simp add: changes_only_same)

lemma changes_only_info:
  "changes_only ks w w' \<Longrightarrow> key a \<notin> ks \<Longrightarrow> owner_of w a = token_2022_id \<Longrightarrow>
   data_of w' a = data_of w a \<and> owner_of w' a = token_2022_id"
  by (auto simp: changes_only_def owner_of_def data_of_def split: if_splits)

lemma move_lamports_Inr:
  "move_lamports a b n w = Inr w' \<Longrightarrow>
   acct_data (cells w' k) = acct_data (cells w k) \<and> acct_owner (cells w' k) = acct_owner (cells w k)"
  by (auto simp: move_lamports_def success_simps frame Let_def)

lemma transfer_between_Inr:
  assumes "transfer_between E a src em b auth rest amt fee hook w = Inr w'" "cpi_preserves E"
    "key a \<noteq> key b" "owner_of w a = token_2022_id" "owner_of w b = token_2022_id" "live src"
  obtains dst src1 dst1 src' dst' where "unpack PodAccount (data_of w b) = Inr dst"
    "check_destination E src dst = Inr ()" "move_tokens E amt fee src dst = Inr (src1, dst1)"
    "unpack PodAccount (data_of w' a) = Inr src'" "unpack PodAccount (data_of w' b) = Inr dst'"
    "same_but_flag E src1 src'" "same_but_flag E dst1 dst'" "hook = None \<Longrightarrow> src' = src1 \<and> dst' = dst1"
    "changes_only {key a, key b} w w'" "owner_of w' a = token_2022_id" "owner_of w' b = token_2022_id"
proof -
  from assms(1) obtain dst src1 dst1 w1 where dst: "unpack PodAccount (data_of w b) = Inr dst"
    and cd: "check_destination E src dst = Inr ()" and mv: "move_tokens E amt fee src dst = Inr (src1, dst1)"
    and l: "(if pod_account_is_native (base src1) then move_lamports a b amt w else Inr w) = Inr w1"
    and r: "(case (hook, em) of
       (None, _) \<Rightarrow> Inr (store PodAccount b dst1 (store PodAccount a src1 w1))
     | (Some p, Some (m, _)) \<Rightarrow> run_transfer_hook E p a src1 m b dst1 auth rest amt w1
     | (Some p, None) \<Rightarrow> Inl (Token MintRequiredForTransfer)) = Inr w'"
    by (auto simp: transfer_between_def success_simps)
  have w1: "acct_data (cells w1 k) = acct_data (cells w k) \<and> acct_owner (cells w1 k) = acct_owner (cells w k)" for k
    using l by (auto simp: move_lamports_Inr split: if_splits)
  then have o1: "owner_of w1 a = token_2022_id" "owner_of w1 b = token_2022_id"
    using assms(4,5) by (simp_all add: owner_of_def)
  note mt = move_tokens_Inr [OF mv]
  have lv: "live src1" "live dst1" using mt(7,8) assms(6) dst by (simp_all add: unpack_account_live)
  show ?thesis
  proof (cases hook)
    case None
    with r have w': "w' = store PodAccount b dst1 (store PodAccount a src1 w1)" by simp
    have "changes_only {key a, key b} w w'"
      by (rule changes_only_same) (use w1 in \<open>simp add: w' frame\<close>)
    with that [OF dst cd mv, of src1 dst1] w' None lv assms(3) o1 show ?thesis
      by (simp add: frame same_but_flag_def)
  next
    case (Some p)
    with r obtain m d where "em = Some (m, d)"
      and rr: "run_transfer_hook E p a src1 m b dst1 auth rest amt w1 = Inr w'"
      by (auto split: option.splits)
    from run_transfer_hook_Inr [OF rr assms(2,3) o1 lv] obtain src' dst' where
      *: "data_of w' a = state_bytes PodAccount src'" "data_of w' b = state_bytes PodAccount dst'"
        "same_but_flag E src1 src'" "same_but_flag E dst1 dst'"
      and k: "\<And>k. k \<noteq> key a \<Longrightarrow> k \<noteq> key b \<Longrightarrow> acct_owner (cells w1 k) = token_2022_id \<Longrightarrow>
         acct_owner (cells w' k) = token_2022_id \<and> acct_data (cells w' k) = acct_data (cells w1 k)"
        "\<And>k. acct_owner (cells w1 k) \<noteq> token_2022_id \<Longrightarrow> acct_owner (cells w' k) = token_2022_id \<Longrightarrow>
         list_all (\<lambda>b. b = 0) (acct_data (cells w' k))"
      and ow: "owner_of w' a = token_2022_id" "owner_of w' b = token_2022_id" by metis
    have "changes_only {key a, key b} w w'" using k w1 by (auto simp: changes_only_def)
    with that [OF dst cd mv, of src' dst'] * lv ow Some show ?thesis
      by (simp add: same_but_flag_simps(3))
  qed
qed

section \<open>Who may transfer, and what moves\<close>

text \<open>The state of the source after the authority was checked: only the allowance may have changed.\<close>

definition allowance_spent :: "pod_account ext_state \<Rightarrow> pod_account ext_state \<Rightarrow> bool" where
  "allowance_spent src src' \<longleftrightarrow>
     src' = src\<lparr>base := (base src)\<lparr>delegate := delegate (base src'), delegated_amount := delegated_amount (base src')\<rparr>\<rparr>"

lemma allowance_spent_simps:
  assumes "allowance_spent src src'"
  shows "amount (base src') = amount (base src)" "state (base src') = state (base src)"
    "mint (base src') = mint (base src)" "owner (base src') = owner (base src)"
    "is_native (base src') = is_native (base src)" "close_authority (base src') = close_authority (base src)"
    "live src' = live src" "withheld E src' = withheld E src"
    "get_extension E PodAccount V src' = get_extension E PodAccount V src"
proof -
  obtain d n where "src' = src\<lparr>base := (base src)\<lparr>delegate := d, delegated_amount := n\<rparr>\<rparr>"
    using assms by (simp add: allowance_spent_def)
  then show "amount (base src') = amount (base src)" "state (base src') = state (base src)"
    "mint (base src') = mint (base src)" "owner (base src') = owner (base src)"
    "is_native (base src') = is_native (base src)" "close_authority (base src') = close_authority (base src)"
    "live src' = live src" "withheld E src' = withheld E src"
    "get_extension E PodAccount V src' = get_extension E PodAccount V src" by simp_all
qed

text \<open>The three ways to be entitled to move tokens.\<close>

definition may_transfer ::
    "env \<Rightarrow> pubkey \<Rightarrow> u64 \<Rightarrow> pod_account ext_state \<Rightarrow> pubkey option \<Rightarrow> account_info \<Rightarrow> account_info list \<Rightarrow> world \<Rightarrow> bool" where
  "may_transfer E program_id amt src permanent_delegate auth ss w \<longleftrightarrow>
     consents program_id (key auth) auth ss w \<and>
     (permanent_delegate = Some (key auth)
      \<or> pod_match_some (delegate (base src)) = Some (key auth) \<and> amt \<le> delegated_amount (base src)
      \<or> owner (base src) = key auth \<and> \<not> (cpi_guard_enabled E src \<and> in_cpi E))"

lemma spend_allowance_Inr:
  assumes "spend_allowance amt slf src = Inr src'"
  shows "amt \<le> delegated_amount (base src)" "allowance_spent src src'" "slf \<Longrightarrow> src' = src"
    "\<not> slf \<Longrightarrow> unat (delegated_amount (base src)) = unat (delegated_amount (base src')) + unat amt"
  using assms
  by (auto simp: spend_allowance_def allowance_spent_def success_simps checked_sub_Some Let_def not_less split: if_splits)

lemma transfer_authority_Inr:
  assumes "transfer_authority E p slf amt src pd auth ss w = Inr src'"
  shows "may_transfer E p amt src pd auth ss w" "allowance_spent src src'" "slf \<Longrightarrow> src' = src"
proof -
  have "may_transfer E p amt src pd auth ss w \<and> allowance_spent src src' \<and> (slf \<longrightarrow> src' = src)"
  proof (cases "pd = Some (key auth)")
    case True
    with assms show ?thesis
      by (auto simp: transfer_authority_def success_simps Let_def may_transfer_def allowance_spent_def
          dest: validate_owner_consents)
  next
    case no_pd: False
    show ?thesis
    proof (cases "pod_match_some (delegate (base src)) = Some (key auth)")
      case True
      with assms no_pd show ?thesis
        by (auto simp: transfer_authority_def success_simps Let_def may_transfer_def
            dest: validate_owner_consents spend_allowance_Inr)
    next
      case False
      with assms no_pd have v: "validate_owner E p (owner (base src)) auth (length (data_of w auth)) ss w = Inr ()"
        and g: "\<not> (cpi_guard_enabled E src \<and> in_cpi E)" "src' = src"
        by (auto simp: transfer_authority_def success_simps Let_def)
      from validate_owner_consents [OF v] have "consents p (owner (base src)) auth ss w" .
      then show ?thesis using g by (auto simp: may_transfer_def consents_def allowance_spent_def)
    qed
  qed
  then show "may_transfer E p amt src pd auth ss w" "allowance_spent src src'" "slf \<Longrightarrow> src' = src" by auto
qed

lemma process_transfer_Inr:
  assumes "process_transfer E p accounts amt dec fee_arg w = Inr w'"
  obtains a em b auth rest src fee pd hook src0
  where "transfer_accounts accounts dec = Inr (a, em, b, auth, rest)"
    "unpack PodAccount (data_of w a) = Inr src" "\<not> pod_account_is_frozen (base src)" "amt \<le> amount (base src)"
    "\<not> isOk (get_extension E PodAccount NonTransferableAccountExt src)"
    "transfer_terms E a src em amt w = Inr (fee, pd, hook)" "fee_arg = None \<or> fee_arg = Some fee"
    "transfer_authority E p (key a = key b) amt src pd auth rest w = Inr src0"
    "owner_of w a = token_2022_id" "owner_of w b = token_2022_id"
    "if key a = key b then w' = w else transfer_between E a src0 em b auth rest amt fee hook w = Inr w'"
proof -
  from assms obtain a em b auth rest src fee pd hook src0
    where *: "transfer_accounts accounts dec = Inr (a, em, b, auth, rest)"
    "unpack PodAccount (data_of w a) = Inr src" "\<not> pod_account_is_frozen (base src)" "amt \<le> amount (base src)"
    "\<not> isOk (get_extension E PodAccount NonTransferableAccountExt src)"
    "transfer_terms E a src em amt w = Inr (fee, pd, hook)"
    and f: "\<not> (case fee_arg of Some f \<Rightarrow> f \<noteq> fee | None \<Rightarrow> False)"
    and t: "transfer_authority E p (key a = key b) amt src pd auth rest w = Inr src0"
    "owner_of w a = token_2022_id" "owner_of w b = token_2022_id"
    and r: "(if key a = key b then Inr w else transfer_between E a src0 em b auth rest amt fee hook w) = Inr w'"
    unfolding process_transfer_def Let_def
    by (auto simp: success_simps not_less simp del: if_Inl_Inr(2) split: prod.splits)
  have "fee_arg = None \<or> fee_arg = Some fee" using f by (cases fee_arg) auto
  moreover have "if key a = key b then w' = w else transfer_between E a src0 em b auth rest amt fee hook w = Inr w'"
    using r by (cases "key a = key b") auto
  ultimately show ?thesis using that * t by blast
qed

text \<open>C4. A transfer is authorised: the authority passed consents, and it is the permanent delegate of
  the mint, the delegate with a sufficient allowance, or the owner, whom the CPI guard did not have to
  stop.  The source is not frozen, holds the amount, may be transferred from, and belongs to this
  program.\<close>

theorem transfer_authorized:
  assumes "process_transfer E p accounts amt dec fee_arg w = Inr w'"
    "transfer_accounts accounts dec = Inr (a, em, b, auth, rest)"
  shows "\<exists>src fee pd hook. unpack PodAccount (data_of w a) = Inr src \<and>
    transfer_terms E a src em amt w = Inr (fee, pd, hook) \<and>
    may_transfer E p amt src pd auth rest w \<and> \<not> pod_account_is_frozen (base src) \<and>
    amt \<le> amount (base src) \<and> get_extension E PodAccount NonTransferableAccountExt src \<noteq> Inr () \<and>
    owner_of w a = token_2022_id \<and> owner_of w b = token_2022_id"
  using assms(1)
proof (rule process_transfer_Inr)
  fix a' em' b' auth' rest' src fee pd hook src0
  assume *: "transfer_accounts accounts dec = Inr (a', em', b', auth', rest')"
    "unpack PodAccount (data_of w a') = Inr src" "\<not> pod_account_is_frozen (base src)" "amt \<le> amount (base src)"
    "\<not> isOk (get_extension E PodAccount NonTransferableAccountExt src)"
    "transfer_terms E a' src em' amt w = Inr (fee, pd, hook)"
    "transfer_authority E p (key a' = key b') amt src pd auth' rest' w = Inr src0"
    "owner_of w a' = token_2022_id" "owner_of w b' = token_2022_id"
  with transfer_authority_Inr(1) [OF *(7)] assms(2) show ?thesis by (auto simp: isOk_iff)
qed


text \<open>A transfer from an account to itself changes nothing, whatever the amount, the fee and the
  hook, and it still needs an authority.\<close>

theorem self_transfer_is_noop:
  assumes "process_transfer E p accounts amt dec fee_arg w = Inr w'"
    "transfer_accounts accounts dec = Inr (a, em, b, auth, rest)" "key a = key b"
  shows "w' = w \<and> (\<exists>k. consents p k auth rest w)"
  using assms(1)
proof (rule process_transfer_Inr)
  fix a' em' b' auth' rest' src fee pd hook src0
  assume ta: "transfer_accounts accounts dec = Inr (a', em', b', auth', rest')"
    and au: "transfer_authority E p (key a' = key b') amt src pd auth' rest' w = Inr src0"
    and tb: "if key a' = key b' then w' = w else transfer_between E a' src0 em' b' auth' rest' amt fee hook w = Inr w'"
  with assms(2,3) transfer_authority_Inr(1) [OF au] show ?thesis by (auto simp: may_transfer_def)
qed

section \<open>Transfers go through\<close>

text \<open>An account whose tokens move freely: live, owned by the program, not frozen, without the
  extensions that restrict a plain transfer.\<close>

definition transferable :: "env \<Rightarrow> world \<Rightarrow> account_info \<Rightarrow> pod_account ext_state \<Rightarrow> bool" where
  "transferable E w a st \<longleftrightarrow> unpack PodAccount (data_of w a) = Inr st \<and> owner_of w a = token_2022_id \<and>
     \<not> pod_account_is_frozen (base st) \<and> \<not> pod_account_is_native (base st) \<and>
     \<not> isOk (get_extension E PodAccount NonTransferableAccountExt st) \<and>
     \<not> isOk (get_extension E PodAccount TransferHookAccountExt st) \<and>
     \<not> isOk (get_extension E PodAccount TransferFeeAmountExt st) \<and>
     \<not> isOk (get_extension E PodAccount (ConfidentialTransferAccountExt E) st) \<and>
     \<not> cpi_guard_enabled E st \<and> \<not> memo_required E st"

lemma transfer_runs:
  assumes "transferable E w a src" "transferable E w b dst" "mint (base src) = mint (base dst)"
    "amt \<le> amount (base src)" "unat (amount (base dst)) + unat amt < 2 ^ 64"
    "validate_owner E p (owner (base src)) auth (length (data_of w auth)) rest w = Inr ()"
    "pod_match_some (delegate (base src)) \<noteq> Some (key auth)"
  shows "\<exists>w'. process_transfer E p (a # b # auth # rest) amt None None w = Inr w'"
proof -
  obtain x where x: "checked_sub (amount (base src)) amt = Some x"
    using assms(4) by (auto simp: checked_sub_def)
  obtain y where y: "checked_add (amount (base dst)) amt = Some y"
    using assms(5) checked_add_ok [of "amount (base dst)" amt] by auto
  have cd: "check_destination E src dst = Inr ()"
    using assms(2,3) by (auto simp: check_destination_def transferable_def not_isOk_iff)
  have mv: "move_tokens E amt 0 src dst =
      Inr (src\<lparr>base := (base src)\<lparr>amount := x\<rparr>\<rparr>, dst\<lparr>base := (base dst)\<lparr>amount := y\<rparr>\<rparr>)"
    using x y by (simp add: move_tokens_def withhold_fee_def checked_sub_def [of amt 0])
  show ?thesis using assms cd mv
    by (simp add: process_transfer_def transfer_accounts_def transfer_terms_def transfer_authority_def
        transfer_between_def transferable_def pod_account_is_native_def check_program_account_def not_less Let_def)
qed

text \<open>The owner of a transferable account who signs can move any amount it holds to any other
  transferable account of the mint that has room for it: the handler returns, with success.\<close>

theorem transfer_succeeds:
  assumes "transferable E w a src" "transferable E w b dst" "mint (base src) = mint (base dst)"
    "amt \<le> amount (base src)" "unat (amount (base dst)) + unat amt < 2 ^ 64"
    "validate_owner E p (owner (base src)) auth (length (data_of w auth)) rest w = Inr ()"
    "pod_match_some (delegate (base src)) \<noteq> Some (key auth)"
  shows "\<exists>w'. process_transfer E p (a # b # auth # rest) amt None None w = Inr w'"
  using assms by (rule transfer_runs)

text \<open>A ledger with token accounts of mint 9: key 7 holds 100, key 8 holds 5.\<close>

definition holder :: "pubkey \<Rightarrow> u64 \<Rightarrow> pod_account" where
  "holder p n = \<lparr>mint = 9, owner = p, amount = n, delegate = pod_none, state = 1, is_native = pod_none,
     delegated_amount = 0, close_authority = pod_none\<rparr>"

definition ledger :: "(pubkey \<Rightarrow> bytes) \<Rightarrow> world" where
  "ledger f = \<lparr>cells = (\<lambda>k. \<lparr>lamports = 1000, acct_owner = token_2022_id, acct_data = f k\<rparr>), return_data = []\<rparr>"

definition two_holders :: world where
  "two_holders = ledger (\<lambda>k. if k = 7 then pod_account_bytes (holder 30 100)
     else if k = 8 then pod_account_bytes (holder 31 5) else if k = 9 then pod_mint_bytes live_mint else [])"

lemma ledger_simps [simp]:
  "data_of (ledger f) a = f (key a)" "owner_of (ledger f) a = token_2022_id" "lamports_of (ledger f) a = 1000"
  by (simp_all add: ledger_def data_of_def owner_of_def lamports_of_def)

lemma unpack_bare_account [simp]:
  "pod_account_is_initialized b \<Longrightarrow> unpack PodAccount (pod_account_bytes b) = Inr (bare b)"
  using pod_account.unpack_bare(2) [of b] by (simp add: PodAccount_SIZE_OF_def Multisig_LEN_def)

lemma bare_no_extension [simp]: "\<not> isOk (get_extension E S V (bare b))" "get_extension E S V (bare b) \<noteq> Inr x"
  using bare_extension(1) [of E S V b] by (cases "get_extension E S V (bare b)"; simp)+

lemma bare_flags [simp]: "\<not> cpi_guard_enabled E (bare b)" "\<not> memo_required E (bare b)"
  by (simp_all add: cpi_guard_enabled_def memo_required_def)

lemma holder_simps [simp]:
  "pod_account_is_initialized (holder p n)" "\<not> pod_account_is_frozen (holder p n)"
  "\<not> pod_account_is_native (holder p n)" "mint (holder p n) = 9" "owner (holder p n) = p" "amount (holder p n) = n"
  "pod_match_some (delegate (holder p n)) = None"
  by (simp_all add: holder_def pod_account_is_initialized_def pod_account_is_frozen_def pod_account_is_native_def
      pod_match_some_def NONE_tag_def SOME_tag_def)

lemma transferable_holder:
  "key a = 7 \<Longrightarrow> transferable sample_env two_holders a (bare (holder 30 100))"
  "key a = 8 \<Longrightarrow> transferable sample_env two_holders a (bare (holder 31 5))"
  by (simp_all add: transferable_def two_holders_def)

lemma validate_signer:
  "key auth = k \<Longrightarrow> is_signer auth \<Longrightarrow> n \<noteq> PodMultisig_SIZE_OF \<Longrightarrow> validate_owner E p k auth n ss w = Inr ()"
  by (simp add: validate_owner_def)

theorem transfer_succeeds_witness:
  "\<exists>w'. process_transfer sample_env token_2022_id
     [\<lparr>key = 7, is_signer = False\<rparr>, \<lparr>key = 8, is_signer = False\<rparr>, \<lparr>key = 30, is_signer = True\<rparr>]
     40 None None two_holders = Inr w'"
  by (rule transfer_succeeds [OF transferable_holder(1) transferable_holder(2)])
     (simp_all add: validate_signer two_holders_def PodMultisig_SIZE_OF_def)

lemma sample_transfer:
  obtains w' where "process_transfer sample_env token_2022_id
     [\<lparr>key = 7, is_signer = False\<rparr>, \<lparr>key = 8, is_signer = False\<rparr>, \<lparr>key = 30, is_signer = True\<rparr>]
     40 None None two_holders = Inr w'"
  using transfer_runs [OF transferable_holder(1) transferable_holder(2), of
      "\<lparr>key = 7, is_signer = False\<rparr>" "\<lparr>key = 8, is_signer = False\<rparr>" 40 token_2022_id
      "\<lparr>key = 30, is_signer = True\<rparr>" "[]"]
  by (auto simp: validate_signer two_holders_def PodMultisig_SIZE_OF_def)

lemma sample_accounts:
  "transfer_accounts [a, b, c] None = Inr (a, None, b, c, [])"
  by (simp add: transfer_accounts_def)

theorem transfer_authorized_witness:
  "\<exists>src. unpack PodAccount (data_of two_holders \<lparr>key = 7, is_signer = False\<rparr>) = Inr src \<and>
     may_transfer sample_env token_2022_id 40 src None \<lparr>key = 30, is_signer = True\<rparr> [] two_holders"
proof (rule sample_transfer)
  fix w' assume "process_transfer sample_env token_2022_id
     [\<lparr>key = 7, is_signer = False\<rparr>, \<lparr>key = 8, is_signer = False\<rparr>, \<lparr>key = 30, is_signer = True\<rparr>]
     40 None None two_holders = Inr w'"
  from transfer_authorized [OF this sample_accounts] show ?thesis
    by (auto simp: transfer_terms_def split: if_splits)
qed


theorem self_transfer_is_noop_witness:
  "\<exists>w'. process_transfer sample_env token_2022_id
     [\<lparr>key = 7, is_signer = False\<rparr>, \<lparr>key = 7, is_signer = False\<rparr>, \<lparr>key = 30, is_signer = True\<rparr>]
     40 None None two_holders = Inr w' \<and> w' = two_holders"
proof -
  have "\<exists>w'. process_transfer sample_env token_2022_id
     [\<lparr>key = 7, is_signer = False\<rparr>, \<lparr>key = 7, is_signer = False\<rparr>, \<lparr>key = 30, is_signer = True\<rparr>]
     40 None None two_holders = Inr w'"
    by (rule transfer_runs [OF transferable_holder(1) transferable_holder(1)])
       (simp_all add: validate_signer two_holders_def PodMultisig_SIZE_OF_def)
  then obtain w' where t: "process_transfer sample_env token_2022_id
     [\<lparr>key = 7, is_signer = False\<rparr>, \<lparr>key = 7, is_signer = False\<rparr>, \<lparr>key = 30, is_signer = True\<rparr>]
     40 None None two_holders = Inr w'" by blast
  from self_transfer_is_noop [OF t sample_accounts] t show ?thesis by auto
qed

end
