(* ===== verification/Authority.thy ===== *)
theory Authority
  imports Token_Transfer
begin

text \<open>
  Delegation and authorities: \<open>process_approve\<close>, \<open>process_revoke\<close> and
  \<open>process_set_authority\<close> of \<open>src/programs/src/processor.rs\<close>, and the type
  \<open>AuthorityType\<close> of \<open>src/programs/src/instruction.rs\<close>.
\<close>

section \<open>Authority types\<close>

datatype (plugins only: code size) authority_type =
    MintTokens | FreezeAccount | AccountOwner | CloseAccount | TransferFeeConfig
  | WithheldWithdraw | CloseMint | InterestRate | PermanentDelegate | ConfidentialTransferMint
  | TransferHookProgramId | ConfidentialTransferFeeConfig | MetadataPointer | GroupPointer
  | GroupMemberPointer

fun authority_type_into :: "authority_type \<Rightarrow> u8" where
  "authority_type_into MintTokens = 0"
| "authority_type_into FreezeAccount = 1"
| "authority_type_into AccountOwner = 2"
| "authority_type_into CloseAccount = 3"
| "authority_type_into TransferFeeConfig = 4"
| "authority_type_into WithheldWithdraw = 5"
| "authority_type_into CloseMint = 6"
| "authority_type_into InterestRate = 7"
| "authority_type_into PermanentDelegate = 8"
| "authority_type_into ConfidentialTransferMint = 9"
| "authority_type_into TransferHookProgramId = 10"
| "authority_type_into ConfidentialTransferFeeConfig = 11"
| "authority_type_into MetadataPointer = 12"
| "authority_type_into GroupPointer = 13"
| "authority_type_into GroupMemberPointer = 14"

definition authority_type_from :: "u8 \<Rightarrow> authority_type result" where
  "authority_type_from i =
     (if i = 0 then Inr MintTokens
      else if i = 1 then Inr FreezeAccount
      else if i = 2 then Inr AccountOwner
      else if i = 3 then Inr CloseAccount
      else if i = 4 then Inr TransferFeeConfig
      else if i = 5 then Inr WithheldWithdraw
      else if i = 6 then Inr CloseMint
      else if i = 7 then Inr InterestRate
      else if i = 8 then Inr PermanentDelegate
      else if i = 9 then Inr ConfidentialTransferMint
      else if i = 10 then Inr TransferHookProgramId
      else if i = 11 then Inr ConfidentialTransferFeeConfig
      else if i = 12 then Inr MetadataPointer
      else if i = 13 then Inr GroupPointer
      else if i = 14 then Inr GroupMemberPointer
      else Inl (Token InvalidInstruction))"

lemma authority_type_from_into [simp]: "authority_type_from (authority_type_into t) = Inr t"
  by (cases t) (simp_all add: authority_type_from_def)

lemma authority_type_from_Inr: "authority_type_from i = Inr t \<longleftrightarrow> authority_type_into t = i"
proof
  assume "authority_type_from i = Inr t"
  then show "authority_type_into t = i" by (auto simp: authority_type_from_def split: if_splits)
qed auto

section \<open>Approve and revoke\<close>

definition process_approve ::
    "env \<Rightarrow> pubkey \<Rightarrow> account_info list \<Rightarrow> u64 \<Rightarrow> u8 option \<Rightarrow> world \<Rightarrow> world result" where
  "process_approve E program_id accounts amt expected_decimals w =
     bindE (next_account_info accounts) (\<lambda>(source_info, it).
     bindE (case expected_decimals of
              Some d \<Rightarrow> bindE (next_account_info it) (\<lambda>(m, it). Inr (Some (m, d), it))
            | None \<Rightarrow> Inr (None, it)) (\<lambda>(expected_mint, it).
     bindE (next_account_info it) (\<lambda>(delegate_info, it).
     bindE (next_account_info it) (\<lambda>(owner_info, rest).
     bindE (unpack PodAccount (data_of w source_info)) (\<lambda>src.
     if pod_account_is_frozen (base src) then Inl (Token AccountFrozen)
     else bindE (case expected_mint of
            None \<Rightarrow> Inr ()
          | Some (mint_info, d) \<Rightarrow>
              if mint (base src) \<noteq> key mint_info then Inl (Token MintMismatch)
              else if key mint_info = key source_info then Inl Panic
              else bindE (unpack (PodMint E) (data_of w mint_info)) (\<lambda>mt.
                if d \<noteq> decimals (base mt) then Inl (Token MintDecimalsMismatch) else Inr ())) (\<lambda>_.
     bindE (validate_owner E program_id (owner (base src)) owner_info (length (data_of w owner_info)) rest w) (\<lambda>_.
     if cpi_guard_enabled E src \<and> in_cpi E then Inl (Token CpiGuardApproveBlocked)
     else Inr (store PodAccount source_info
            (src\<lparr>base := (base src)\<lparr>delegate := pod_some (key delegate_info), delegated_amount := amt\<rparr>\<rparr>) w))))))))"

definition process_revoke :: "env \<Rightarrow> pubkey \<Rightarrow> account_info list \<Rightarrow> world \<Rightarrow> world result" where
  "process_revoke E program_id accounts w =
     bindE (next_account_info accounts) (\<lambda>(source_info, it).
     bindE (next_account_info it) (\<lambda>(authority_info, rest).
     bindE (unpack PodAccount (data_of w source_info)) (\<lambda>src.
     if pod_account_is_frozen (base src) then Inl (Token AccountFrozen)
     else bindE (validate_owner E program_id
            (if pod_match_some (delegate (base src)) = Some (key authority_info) then key authority_info
             else owner (base src))
            authority_info (length (data_of w authority_info)) rest w) (\<lambda>_.
       Inr (store PodAccount source_info
              (src\<lparr>base := (base src)\<lparr>delegate := pod_none, delegated_amount := 0\<rparr>\<rparr>) w)))))"

section \<open>Changing authorities\<close>

text \<open>The branches for a token account.\<close>

definition set_account_authority ::
    "env \<Rightarrow> pubkey \<Rightarrow> authority_type \<Rightarrow> pubkey pod_coption \<Rightarrow> account_info \<Rightarrow> account_info list \<Rightarrow> world \<Rightarrow>
     pod_account ext_state \<Rightarrow> pod_account ext_state result" where
  "set_account_authority E program_id ty new_authority auth rest w account =
     (let n = length (data_of w auth) in
      if pod_account_is_frozen (base account) then Inl (Token AccountFrozen)
      else case ty of
        AccountOwner \<Rightarrow>
          bindE (validate_owner E program_id (owner (base account)) auth n rest w) (\<lambda>_.
          if isOk (get_extension E PodAccount ImmutableOwnerExt account) then Inl (Token token_error.ImmutableOwner)
          else if cpi_guard_enabled E account \<and> in_cpi E then Inl (Token CpiGuardSetAuthorityBlocked)
          else if cpi_guard_enabled E account then Inl (Token CpiGuardOwnerChangeBlocked)
          else case pod_match_some new_authority of
            None \<Rightarrow> Inl (Token InvalidInstruction)
          | Some k \<Rightarrow>
              let b = (base account)\<lparr>owner := k, delegate := pod_none, delegated_amount := 0\<rparr>
              in Inr (account\<lparr>base := if pod_account_is_native b then b\<lparr>close_authority := pod_none\<rparr> else b\<rparr>))
      | CloseAccount \<Rightarrow>
          bindE (validate_owner E program_id (pod_unwrap_or (close_authority (base account)) (owner (base account)))
                   auth n rest w) (\<lambda>_.
          if cpi_guard_enabled E account \<and> in_cpi E \<and> pod_is_some new_authority
          then Inl (Token CpiGuardSetAuthorityBlocked)
          else Inr (account\<lparr>base := (base account)\<lparr>close_authority := new_authority\<rparr>\<rparr>))
      | _ \<Rightarrow> Inl (Token AuthorityTypeNotSupported))"

text \<open>An authority kept in an extension: read it, check it, replace it.  \<open>get\<close> and
  \<open>set\<close> are the field of the extension struct.\<close>

definition set_extension_authority ::
    "env \<Rightarrow> pubkey \<Rightarrow> 'v extension \<Rightarrow> ('v \<Rightarrow> pubkey) \<Rightarrow> (pubkey \<Rightarrow> 'v \<Rightarrow> 'v) \<Rightarrow> pubkey pod_coption \<Rightarrow>
     account_info \<Rightarrow> account_info list \<Rightarrow> world \<Rightarrow> pod_mint ext_state \<Rightarrow> pod_mint ext_state result" where
  "set_extension_authority E program_id V get set_to new_authority auth rest w mt =
     bindE (get_extension E (PodMint E) V mt) (\<lambda>v.
     bindE (ok_or (Token AuthorityTypeNotSupported) (option_of_non_zero (get v))) (\<lambda>k.
     bindE (validate_owner E program_id k auth (length (data_of w auth)) rest w) (\<lambda>_.
     bindE (optional_non_zero_pubkey_of_pod new_authority) (\<lambda>new.
       Inr (put_extension (PodMint E) V (set_to new v) mt)))))"

text \<open>An authority of the mint itself: once removed it cannot be set again.\<close>

definition set_base_authority ::
    "env \<Rightarrow> pubkey \<Rightarrow> token_error \<Rightarrow> pubkey pod_coption \<Rightarrow> (pod_mint \<Rightarrow> pod_mint) \<Rightarrow> account_info \<Rightarrow>
     account_info list \<Rightarrow> world \<Rightarrow> pod_mint ext_state \<Rightarrow> pod_mint ext_state result" where
  "set_base_authority E program_id e current set_to auth rest w mt =
     bindE (pod_ok_or current (Token e)) (\<lambda>k.
     bindE (validate_owner E program_id k auth (length (data_of w auth)) rest w) (\<lambda>_.
       Inr (mt\<lparr>base := set_to (base mt)\<rparr>)))"

definition set_mint_authority ::
    "env \<Rightarrow> pubkey \<Rightarrow> authority_type \<Rightarrow> pubkey pod_coption \<Rightarrow> account_info \<Rightarrow> account_info list \<Rightarrow> world \<Rightarrow>
     pod_mint ext_state \<Rightarrow> pod_mint ext_state result" where
  "set_mint_authority E p ty new auth rest w mt =
     (case ty of
        MintTokens \<Rightarrow> set_base_authority E p FixedSupply (mint_authority (base mt))
          (\<lambda>b. b\<lparr>mint_authority := new\<rparr>) auth rest w mt
      | FreezeAccount \<Rightarrow> set_base_authority E p MintCannotFreeze (freeze_authority (base mt))
          (\<lambda>b. b\<lparr>freeze_authority := new\<rparr>) auth rest w mt
      | CloseMint \<Rightarrow> set_extension_authority E p MintCloseAuthorityExt (\<lambda>k. k) (\<lambda>k _. k) new auth rest w mt
      | TransferFeeConfig \<Rightarrow> set_extension_authority E p TransferFeeConfigExt transfer_fee_config_authority
          (\<lambda>k v. v\<lparr>transfer_fee_config_authority := k\<rparr>) new auth rest w mt
      | WithheldWithdraw \<Rightarrow> set_extension_authority E p TransferFeeConfigExt withdraw_withheld_authority
          (\<lambda>k v. v\<lparr>withdraw_withheld_authority := k\<rparr>) new auth rest w mt
      | InterestRate \<Rightarrow> set_extension_authority E p InterestBearingConfigExt rate_authority
          (\<lambda>k v. v\<lparr>rate_authority := k\<rparr>) new auth rest w mt
      | PermanentDelegate \<Rightarrow> set_extension_authority E p PermanentDelegateExt (\<lambda>k. k) (\<lambda>k _. k) new auth rest w mt
      | ConfidentialTransferMint \<Rightarrow> set_extension_authority E p (ConfidentialTransferMintExt E) ct_authority
          (\<lambda>k v. v\<lparr>ct_authority := k\<rparr>) new auth rest w mt
      | TransferHookProgramId \<Rightarrow> set_extension_authority E p TransferHookExt authority
          (\<lambda>k v. v\<lparr>authority := k\<rparr>) new auth rest w mt
      | ConfidentialTransferFeeConfig \<Rightarrow> set_extension_authority E p (ConfidentialTransferFeeConfigExt E) cf_authority
          (\<lambda>k v. v\<lparr>cf_authority := k\<rparr>) new auth rest w mt
      | MetadataPointer \<Rightarrow> set_extension_authority E p MetadataPointerExt authority
          (\<lambda>k v. v\<lparr>authority := k\<rparr>) new auth rest w mt
      | GroupPointer \<Rightarrow> set_extension_authority E p GroupPointerExt authority
          (\<lambda>k v. v\<lparr>authority := k\<rparr>) new auth rest w mt
      | GroupMemberPointer \<Rightarrow> set_extension_authority E p GroupMemberPointerExt authority
          (\<lambda>k v. v\<lparr>authority := k\<rparr>) new auth rest w mt
      | _ \<Rightarrow> Inl (Token AuthorityTypeNotSupported))"

definition process_set_authority ::
    "env \<Rightarrow> pubkey \<Rightarrow> account_info list \<Rightarrow> authority_type \<Rightarrow> pubkey pod_coption \<Rightarrow> world \<Rightarrow> world result" where
  "process_set_authority E program_id accounts ty new_authority w =
     bindE (next_account_info accounts) (\<lambda>(info, it).
     bindE (next_account_info it) (\<lambda>(authority_info, rest).
     case result_ok (unpack PodAccount (data_of w info)) of
       Some account \<Rightarrow>
         bindE (set_account_authority E program_id ty new_authority authority_info rest w account) (\<lambda>account.
           Inr (store PodAccount info account w))
     | None \<Rightarrow>
        (case result_ok (unpack (PodMint E) (data_of w info)) of
           Some mt \<Rightarrow>
             bindE (set_mint_authority E program_id ty new_authority authority_info rest w mt) (\<lambda>mt.
               Inr (store (PodMint E) info mt w))
         | None \<Rightarrow> Inl (Prog InvalidAccountData))))"

section \<open>What these instructions change, and with whose consent\<close>

lemma changes_only_store:
  "changes_only {key a} w (store S a st w)"
  by (rule changes_only_same) (simp add: frame)

lemma process_approve_Inr:
  assumes "process_approve E p (a # d # auth # rest) amt None w = Inr w'"
  obtains src where "unpack PodAccount (data_of w a) = Inr src" "\<not> pod_account_is_frozen (base src)"
    "validate_owner E p (owner (base src)) auth (length (data_of w auth)) rest w = Inr ()"
    "\<not> (cpi_guard_enabled E src \<and> in_cpi E)"
    "w' = store PodAccount a (src\<lparr>base := (base src)\<lparr>delegate := pod_some (key d), delegated_amount := amt\<rparr>\<rparr>) w"
  using assms by (auto simp: process_approve_def success_simps)

text \<open>\<open>Approve\<close>: with the consent of the owner, and outside a guarded cross-program
  invocation, the delegate and its allowance are set; nothing else of the account changes.\<close>

theorem approve_correct:
  assumes "process_approve E p (a # d # auth # rest) amt None w = Inr w'"
  shows "\<exists>src. unpack PodAccount (data_of w a) = Inr src \<and> \<not> pod_account_is_frozen (base src) \<and>
    consents p (owner (base src)) auth rest w \<and> \<not> (cpi_guard_enabled E src \<and> in_cpi E) \<and>
    unpack PodAccount (data_of w' a) =
      Inr (src\<lparr>base := (base src)\<lparr>delegate := pod_some (key d), delegated_amount := amt\<rparr>\<rparr>) \<and>
    changes_only {key a} w w'"
  using assms
proof (rule process_approve_Inr)
  fix src assume *: "unpack PodAccount (data_of w a) = Inr src" "\<not> pod_account_is_frozen (base src)"
    "validate_owner E p (owner (base src)) auth (length (data_of w auth)) rest w = Inr ()"
    "\<not> (cpi_guard_enabled E src \<and> in_cpi E)"
    "w' = store PodAccount a (src\<lparr>base := (base src)\<lparr>delegate := pod_some (key d), delegated_amount := amt\<rparr>\<rparr>) w"
  then have "live src" by (simp add: unpack_account_live)
  with * validate_owner_consents [OF *(3)] show ?thesis
    by (intro exI [of _ src]) (simp add: frame changes_only_store)
qed

theorem approve_correct_witness:
  "\<exists>w' st. process_approve sample_env token_2022_id
     [\<lparr>key = 7, is_signer = False\<rparr>, \<lparr>key = 40, is_signer = False\<rparr>, \<lparr>key = 30, is_signer = True\<rparr>]
     25 None two_holders = Inr w' \<and>
     unpack PodAccount (data_of w' \<lparr>key = 7, is_signer = False\<rparr>) = Inr st \<and> delegate (base st) = pod_some 40"
proof -
  have "isOk (process_approve sample_env token_2022_id
     [\<lparr>key = 7, is_signer = False\<rparr>, \<lparr>key = 40, is_signer = False\<rparr>, \<lparr>key = 30, is_signer = True\<rparr>]
     25 None two_holders)"
    by (simp add: process_approve_def two_holders_def validate_signer PodMultisig_SIZE_OF_def)
  then obtain w' where t: "process_approve sample_env token_2022_id
     [\<lparr>key = 7, is_signer = False\<rparr>, \<lparr>key = 40, is_signer = False\<rparr>, \<lparr>key = 30, is_signer = True\<rparr>]
     25 None two_holders = Inr w'" by (auto simp: isOk_iff)
  from approve_correct [OF t] t show ?thesis by auto
qed

text \<open>\<open>Revoke\<close>: the owner or the delegate itself can withdraw the delegation, and nothing
  else changes.\<close>

theorem revoke_correct:
  assumes "process_revoke E p (a # auth # rest) w = Inr w'"
  shows "\<exists>src. unpack PodAccount (data_of w a) = Inr src \<and> \<not> pod_account_is_frozen (base src) \<and>
    (\<exists>k. consents p k auth rest w \<and> (k = owner (base src) \<or> pod_match_some (delegate (base src)) = Some k)) \<and>
    unpack PodAccount (data_of w' a) =
      Inr (src\<lparr>base := (base src)\<lparr>delegate := pod_none, delegated_amount := 0\<rparr>\<rparr>) \<and>
    changes_only {key a} w w'"
proof -
  from assms obtain src where *: "unpack PodAccount (data_of w a) = Inr src" "\<not> pod_account_is_frozen (base src)"
    and v: "validate_owner E p (if pod_match_some (delegate (base src)) = Some (key auth) then key auth
        else owner (base src)) auth (length (data_of w auth)) rest w = Inr ()"
    and w': "w' = store PodAccount a (src\<lparr>base := (base src)\<lparr>delegate := pod_none, delegated_amount := 0\<rparr>\<rparr>) w"
    by (auto simp: process_revoke_def success_simps)
  have "live src" using * by (simp add: unpack_account_live)
  with * validate_owner_consents [OF v] show ?thesis
    by (intro exI [of _ src]) (auto simp: w' frame changes_only_store split: if_splits)
qed

theorem revoke_correct_witness:
  "\<exists>w' st. process_revoke sample_env token_2022_id
     [\<lparr>key = 7, is_signer = False\<rparr>, \<lparr>key = 30, is_signer = True\<rparr>] two_holders = Inr w' \<and>
     unpack PodAccount (data_of w' \<lparr>key = 7, is_signer = False\<rparr>) = Inr st \<and> delegate (base st) = pod_none"
proof -
  have "isOk (process_revoke sample_env token_2022_id
     [\<lparr>key = 7, is_signer = False\<rparr>, \<lparr>key = 30, is_signer = True\<rparr>] two_holders)"
    by (simp add: process_revoke_def two_holders_def validate_signer PodMultisig_SIZE_OF_def)
  then obtain w' where t: "process_revoke sample_env token_2022_id
     [\<lparr>key = 7, is_signer = False\<rparr>, \<lparr>key = 30, is_signer = True\<rparr>] two_holders = Inr w'" by (auto simp: isOk_iff)
  from revoke_correct [OF t] t show ?thesis by auto
qed

section \<open>Authorities of token accounts\<close>

lemma set_account_authority_Inr:
  assumes "set_account_authority E p ty new auth rest w st = Inr st'"
  shows "\<not> pod_account_is_frozen (base st)"
    "(ty = AccountOwner \<and> consents p (owner (base st)) auth rest w \<and>
        \<not> isOk (get_extension E PodAccount ImmutableOwnerExt st) \<and> \<not> cpi_guard_enabled E st \<and>
        pod_match_some new = Some (owner (base st')) \<and>
        st' = st\<lparr>base := (base st)\<lparr>owner := owner (base st'), delegate := pod_none, delegated_amount := 0,
           close_authority := if pod_account_is_native (base st) then pod_none else close_authority (base st)\<rparr>\<rparr>)
     \<or> (ty = CloseAccount \<and>
        consents p (pod_unwrap_or (close_authority (base st)) (owner (base st))) auth rest w \<and>
        st' = st\<lparr>base := (base st)\<lparr>close_authority := new\<rparr>\<rparr>)"
  using assms
  by (auto simp: set_account_authority_def success_simps Let_def pod_account_is_native_def
      dest: validate_owner_consents split: authority_type.splits if_splits option.splits)



section \<open>Authorities of mints\<close>

text \<open>The withheld tokens that were collected in the mint.\<close>

definition mint_withheld :: "env \<Rightarrow> pod_mint ext_state \<Rightarrow> u64" where
  "mint_withheld E mt =
     (case get_extension E (PodMint E) TransferFeeConfigExt mt of Inl _ \<Rightarrow> 0 | Inr c \<Rightarrow> config_withheld_amount c)"

definition live_mint_state :: "env \<Rightarrow> pod_mint ext_state \<Rightarrow> bool" where
  "live_mint_state E mt \<longleftrightarrow> pod_mint_is_initialized E (base mt) \<and> shape_ok (PodMint E) mt"

lemma unpack_mint_live: "unpack (PodMint E) d = Inr mt \<longleftrightarrow> d = state_bytes (PodMint E) mt \<and> live_mint_state E mt"
  by (auto simp: live_mint_state_def pod_mint.unpack_iff)

lemma unpack_live_mint_state [simp]: "live_mint_state E mt \<Longrightarrow> unpack (PodMint E) (state_bytes (PodMint E) mt) = Inr mt"
  by (simp add: unpack_mint_live)

lemma live_mint_base [simp]:
  "is_initialized b = is_initialized (base mt) \<Longrightarrow> live_mint_state E (mt\<lparr>base := b\<rparr>) = live_mint_state E mt"
  by (simp add: live_mint_state_def pod_mint_is_initialized_def)

lemma live_mint_put [simp]: "live_mint_state E (put_extension (PodMint E) V v mt) = live_mint_state E mt"
  by (simp add: live_mint_state_def)

lemma mint_withheld_base [simp]: "mint_withheld E (mt\<lparr>base := b\<rparr>) = mint_withheld E mt"
  by (simp add: mint_withheld_def)

lemma get_put_other_mint [simp]:
  "ext_type U \<noteq> ext_type V \<Longrightarrow>
   get_extension E (PodMint E) U (put_extension (PodMint E) V v mt) = get_extension E (PodMint E) U mt"
  by (rule pod_mint.get_put_extension_other)

lemma mint_ext_types [simp]:
  "ext_type TransferFeeConfigExt = extension_type.TransferFeeConfig"
  "ext_type MintCloseAuthorityExt = MintCloseAuthority" "ext_type InterestBearingConfigExt = InterestBearingConfig"
  "ext_type PermanentDelegateExt = extension_type.PermanentDelegate" "ext_type TransferHookExt = TransferHook"
  "ext_type MetadataPointerExt = extension_type.MetadataPointer"
  "ext_type GroupPointerExt = extension_type.GroupPointer"
  "ext_type GroupMemberPointerExt = extension_type.GroupMemberPointer"
  "ext_type DefaultAccountStateExt = DefaultAccountState"
  "ext_type (ConfidentialTransferMintExt E) = extension_type.ConfidentialTransferMint"
  "ext_type (ConfidentialTransferFeeConfigExt E) = extension_type.ConfidentialTransferFeeConfig"
  by (simp_all add: ext_defs Let_def)

lemma mint_withheld_put_other [simp]:
  "ext_type V \<noteq> extension_type.TransferFeeConfig \<Longrightarrow>
   mint_withheld E (put_extension (PodMint E) V v mt) = mint_withheld E mt"
  by (simp add: mint_withheld_def)

lemma mint_withheld_put_config:
  "get_extension E (PodMint E) TransferFeeConfigExt mt = Inr c \<Longrightarrow>
   mint_withheld E (put_extension (PodMint E) TransferFeeConfigExt c' mt) = config_withheld_amount c'"
  by (simp add: mint_withheld_def mint_transfer_fee_config.get_put_extension transfer_fee_config.all_valid)

lemma set_extension_authority_Inr:
  assumes "set_extension_authority E p V get set_to new auth rest w mt = Inr mt'"
  obtains v k new' where "get_extension E (PodMint E) V mt = Inr v" "k = get v" "k \<noteq> 0"
    "consents p k auth rest w" "mt' = put_extension (PodMint E) V (set_to new' v) mt"
    "optional_non_zero_pubkey_of_pod new = Inr new'"
  using assms by (auto simp: set_extension_authority_def success_simps option_of_non_zero_def
      dest: validate_owner_consents split: if_splits)

lemma set_base_authority_Inr:
  assumes "set_base_authority E p e current f auth rest w mt = Inr mt'"
  obtains k where "mt' = mt\<lparr>base := f (base mt)\<rparr>" "pod_match_some current = Some k" "consents p k auth rest w"
  using assms by (auto simp: set_base_authority_def success_simps pod_ok_or_def pod_match_some_def
      dest: validate_owner_consents split: if_splits)

lemma set_mint_authority_Inr:
  assumes "set_mint_authority E p ty new auth rest w mt = Inr mt'"
  shows "mint_supply (base mt') = mint_supply (base mt)" "decimals (base mt') = decimals (base mt)"
    "live_mint_state E mt' = live_mint_state E mt" "mint_withheld E mt' = mint_withheld E mt"
    "mint_authority (base mt') \<noteq> mint_authority (base mt) \<Longrightarrow>
       \<exists>k. pod_match_some (mint_authority (base mt)) = Some k \<and> consents p k auth rest w"
    "freeze_authority (base mt') \<noteq> freeze_authority (base mt) \<Longrightarrow>
       \<exists>k. pod_match_some (freeze_authority (base mt)) = Some k \<and> consents p k auth rest w"
    "\<exists>k. consents p k auth rest w"
  using assms
  by (auto simp: set_mint_authority_def mint_withheld_put_config
      elim!: set_extension_authority_Inr set_base_authority_Inr split: authority_type.splits)
     (auto simp: mint_withheld_def)

lemma mint_not_account:
  "unpack (PodMint E) d = Inr mt \<Longrightarrow> result_ok (unpack PodAccount d) = None"
  using mint_is_no_account [of E d mt] by (cases "unpack PodAccount d") auto



text \<open>The authority types round-trip through their byte, and no other byte is accepted.\<close>

theorem authority_type_codec:
  "authority_type_from i = Inr t \<longleftrightarrow> i = authority_type_into t"
  by (auto simp: authority_type_from_Inr)

end
