(* ===== verification/Supply.thy ===== *)
theory Supply
  imports Authority
begin

text \<open>
  \<open>process_mint_to\<close> and \<open>process_burn\<close> of \<open>src/programs/src/processor.rs\<close>:
  the only instructions that change the supply of a mint.
\<close>

section \<open>Minting\<close>

text \<open>Both accounts are borrowed mutably; one account in both roles panics.\<close>

definition process_mint_to ::
    "env \<Rightarrow> pubkey \<Rightarrow> account_info list \<Rightarrow> u64 \<Rightarrow> u8 option \<Rightarrow> world \<Rightarrow> world result" where
  "process_mint_to E program_id accounts amt expected_decimals w =
     bindE (next_account_info accounts) (\<lambda>(mint_info, it).
     bindE (next_account_info it) (\<lambda>(destination_info, it).
     bindE (next_account_info it) (\<lambda>(owner_info, rest).
     bindE (unpack PodAccount (data_of w destination_info)) (\<lambda>dst.
     if pod_account_is_frozen (base dst) then Inl (Token AccountFrozen)
     else if pod_account_is_native (base dst) then Inl (Token NativeNotSupported)
     else if key mint_info \<noteq> mint (base dst) then Inl (Token MintMismatch)
     else if key mint_info = key destination_info then Inl Panic
     else bindE (unpack (PodMint E) (data_of w mint_info)) (\<lambda>mt.
     if isOk (get_extension E (PodMint E) NonTransferableExt mt) \<and>
        \<not> isOk (get_extension E PodAccount ImmutableOwnerExt dst)
     then Inl (Token NonTransferableNeedsImmutableOwnership)
     else if (case expected_decimals of Some d \<Rightarrow> d \<noteq> decimals (base mt) | None \<Rightarrow> False)
     then Inl (Token MintDecimalsMismatch)
     else bindE (case pod_match_some (mint_authority (base mt)) of
            Some k \<Rightarrow> validate_owner E program_id k owner_info (length (data_of w owner_info)) rest w
          | None \<Rightarrow> Inl (Token FixedSupply)) (\<lambda>_.
     bindE (check_program_account (owner_of w mint_info)) (\<lambda>_.
     bindE (check_program_account (owner_of w destination_info)) (\<lambda>_.
     bindE (ok_or (Token Overflow) (checked_add (amount (base dst)) amt)) (\<lambda>a.
     bindE (ok_or (Token Overflow) (checked_add (mint_supply (base mt)) amt)) (\<lambda>s.
       Inr (store (PodMint E) mint_info (mt\<lparr>base := (base mt)\<lparr>mint_supply := s\<rparr>\<rparr>)
             (store PodAccount destination_info (dst\<lparr>base := (base dst)\<lparr>amount := a\<rparr>\<rparr>) w))))))))))))"

section \<open>Burning\<close>

definition burn_authority ::
    "env \<Rightarrow> pubkey \<Rightarrow> u64 \<Rightarrow> pod_account ext_state \<Rightarrow> pubkey option \<Rightarrow> account_info \<Rightarrow>
     account_info list \<Rightarrow> world \<Rightarrow> pod_account ext_state result" where
  "burn_authority E program_id amt src permanent_delegate authority_info ss w =
     (let n = length (data_of w authority_info) in
      if permanent_delegate = Some (key authority_info) then
        bindE (validate_owner E program_id (key authority_info) authority_info n ss w) (\<lambda>_. Inr src)
      else if pod_match_some (delegate (base src)) = Some (key authority_info) then
        bindE (validate_owner E program_id (key authority_info) authority_info n ss w) (\<lambda>_.
          spend_allowance amt False src)
      else
        bindE (validate_owner E program_id (owner (base src)) authority_info n ss w) (\<lambda>_.
          if cpi_guard_enabled E src \<and> in_cpi E then Inl (Token CpiGuardBurnBlocked) else Inr src))"

text \<open>Tokens of accounts owned by the system program or the incinerator can be burned by anyone.\<close>

definition process_burn ::
    "env \<Rightarrow> pubkey \<Rightarrow> account_info list \<Rightarrow> u64 \<Rightarrow> u8 option \<Rightarrow> world \<Rightarrow> world result" where
  "process_burn E program_id accounts amt expected_decimals w =
     bindE (next_account_info accounts) (\<lambda>(source_info, it).
     bindE (next_account_info it) (\<lambda>(mint_info, it).
     bindE (next_account_info it) (\<lambda>(authority_info, rest).
     bindE (unpack PodAccount (data_of w source_info)) (\<lambda>src.
     if key source_info = key mint_info then Inl Panic
     else bindE (unpack (PodMint E) (data_of w mint_info)) (\<lambda>mt.
     if pod_account_is_frozen (base src) then Inl (Token AccountFrozen)
     else if pod_account_is_native (base src) then Inl (Token NativeNotSupported)
     else if amount (base src) < amt then Inl (Token InsufficientFunds)
     else if key mint_info \<noteq> mint (base src) then Inl (Token MintMismatch)
     else if (case expected_decimals of Some d \<Rightarrow> d \<noteq> decimals (base mt) | None \<Rightarrow> False)
     then Inl (Token MintDecimalsMismatch)
     else bindE (if is_owned_by_system_program_or_incinerator E (base src) then Inr src
                 else burn_authority E program_id amt src (get_permanent_delegate E mt) authority_info rest w) (\<lambda>src.
     bindE (check_program_account (owner_of w source_info)) (\<lambda>_.
     bindE (check_program_account (owner_of w mint_info)) (\<lambda>_.
     bindE (ok_or (Token Overflow) (checked_sub (amount (base src)) amt)) (\<lambda>a.
     bindE (ok_or (Token Overflow) (checked_sub (mint_supply (base mt)) amt)) (\<lambda>s.
       Inr (store (PodMint E) mint_info (mt\<lparr>base := (base mt)\<lparr>mint_supply := s\<rparr>\<rparr>)
             (store PodAccount source_info (src\<lparr>base := (base src)\<lparr>amount := a\<rparr>\<rparr>) w))))))))))))"

section \<open>What they change, and with whose consent\<close>

lemma changes_only_store2:
  "changes_only {key b, key a} w (store S b st (store T a st' w))"
  by (rule changes_only_same) (simp add: frame)

lemma process_mint_to_Inr:
  assumes "process_mint_to E p (m # b # auth # rest) amt dec w = Inr w'"
  obtains dst mt k x s where "unpack PodAccount (data_of w b) = Inr dst" "unpack (PodMint E) (data_of w m) = Inr mt"
    "\<not> pod_account_is_frozen (base dst)" "\<not> pod_account_is_native (base dst)" "mint (base dst) = key m"
    "key m \<noteq> key b" "owner_of w m = token_2022_id" "owner_of w b = token_2022_id"
    "isOk (get_extension E (PodMint E) NonTransferableExt mt) \<Longrightarrow> isOk (get_extension E PodAccount ImmutableOwnerExt dst)"
    "pod_match_some (mint_authority (base mt)) = Some k" "consents p k auth rest w"
    "unat x = unat (amount (base dst)) + unat amt" "unat s = unat (mint_supply (base mt)) + unat amt"
    "w' = store (PodMint E) m (mt\<lparr>base := (base mt)\<lparr>mint_supply := s\<rparr>\<rparr>)
           (store PodAccount b (dst\<lparr>base := (base dst)\<lparr>amount := x\<rparr>\<rparr>) w)"
proof -
  from assms obtain dst mt x s where *: "unpack PodAccount (data_of w b) = Inr dst" "unpack (PodMint E) (data_of w m) = Inr mt"
    "\<not> pod_account_is_frozen (base dst)" "\<not> pod_account_is_native (base dst)" "mint (base dst) = key m"
    "key m \<noteq> key b" "owner_of w m = token_2022_id" "owner_of w b = token_2022_id"
    and n: "\<not> (isOk (get_extension E (PodMint E) NonTransferableExt mt) \<and>
        \<not> isOk (get_extension E PodAccount ImmutableOwnerExt dst))"
    and au: "(case pod_match_some (mint_authority (base mt)) of
       Some k \<Rightarrow> validate_owner E p k auth (length (data_of w auth)) rest w | None \<Rightarrow> Inl (Token FixedSupply)) = Inr ()"
    and xs: "checked_add (amount (base dst)) amt = Some x" "checked_add (mint_supply (base mt)) amt = Some s"
    "w' = store (PodMint E) m (mt\<lparr>base := (base mt)\<lparr>mint_supply := s\<rparr>\<rparr>)
           (store PodAccount b (dst\<lparr>base := (base dst)\<lparr>amount := x\<rparr>\<rparr>) w)"
    unfolding process_mint_to_def by (auto simp: success_simps)
  from au obtain k where "pod_match_some (mint_authority (base mt)) = Some k" "consents p k auth rest w"
    by (auto dest: validate_owner_consents split: option.splits)
  with that [OF * _ this _ _ xs(3)] n xs(1,2) show ?thesis by (auto simp: checked_add_Some)
qed

lemma allowance_spent_refl [simp]: "allowance_spent src src"
  by (simp add: allowance_spent_def)

lemma burn_authority_Inr:
  assumes "burn_authority E p amt src pd auth ss w = Inr src'"
  shows "may_transfer E p amt src pd auth ss w" "allowance_spent src src'"
proof -
  have "may_transfer E p amt src pd auth ss w \<and> allowance_spent src src'"
  proof (cases "pd = Some (key auth) \<or> pod_match_some (delegate (base src)) = Some (key auth)")
    case True
    with assms show ?thesis
      by (auto simp: burn_authority_def success_simps Let_def may_transfer_def
          dest: validate_owner_consents spend_allowance_Inr split: if_splits)
  next
    case False
    with assms have v: "validate_owner E p (owner (base src)) auth (length (data_of w auth)) ss w = Inr ()"
      and g: "\<not> (cpi_guard_enabled E src \<and> in_cpi E)" "src' = src"
      by (auto simp: burn_authority_def success_simps Let_def)
    from validate_owner_consents [OF v] have "consents p (owner (base src)) auth ss w" .
    then show ?thesis using g by (auto simp: may_transfer_def consents_def allowance_spent_def)
  qed
  then show "may_transfer E p amt src pd auth ss w" "allowance_spent src src'" by auto
qed

lemma process_burn_Inr:
  assumes "process_burn E p (a # m # auth # rest) amt dec w = Inr w'"
  obtains src mt src0 x s where "unpack PodAccount (data_of w a) = Inr src" "unpack (PodMint E) (data_of w m) = Inr mt"
    "\<not> pod_account_is_frozen (base src)" "\<not> pod_account_is_native (base src)" "mint (base src) = key m"
    "key a \<noteq> key m" "owner_of w m = token_2022_id" "owner_of w a = token_2022_id"
    "is_owned_by_system_program_or_incinerator E (base src) \<or>
     may_transfer E p amt src (get_permanent_delegate E mt) auth rest w"
    "allowance_spent src src0"
    "unat (amount (base src)) = unat x + unat amt" "unat (mint_supply (base mt)) = unat s + unat amt"
    "w' = store (PodMint E) m (mt\<lparr>base := (base mt)\<lparr>mint_supply := s\<rparr>\<rparr>)
           (store PodAccount a (src0\<lparr>base := (base src0)\<lparr>amount := x\<rparr>\<rparr>) w)"
proof -
  from assms obtain src mt src0 x s where *: "unpack PodAccount (data_of w a) = Inr src" "unpack (PodMint E) (data_of w m) = Inr mt"
    "\<not> pod_account_is_frozen (base src)" "\<not> pod_account_is_native (base src)" "mint (base src) = key m"
    "key a \<noteq> key m" "owner_of w m = token_2022_id" "owner_of w a = token_2022_id"
    and au: "(if is_owned_by_system_program_or_incinerator E (base src) then Inr src
       else burn_authority E p amt src (get_permanent_delegate E mt) auth rest w) = Inr src0"
    and xs: "checked_sub (amount (base src0)) amt = Some x" "checked_sub (mint_supply (base mt)) amt = Some s"
    "w' = store (PodMint E) m (mt\<lparr>base := (base mt)\<lparr>mint_supply := s\<rparr>\<rparr>)
           (store PodAccount a (src0\<lparr>base := (base src0)\<lparr>amount := x\<rparr>\<rparr>) w)"
    unfolding process_burn_def by (auto simp: success_simps)
  have "allowance_spent src src0" "is_owned_by_system_program_or_incinerator E (base src) \<or>
     may_transfer E p amt src (get_permanent_delegate E mt) auth rest w"
    using au by (auto dest: burn_authority_Inr split: if_splits)
  with that [OF * _ _ _ _ xs(3)] xs(1,2) show ?thesis
    by (auto simp: checked_sub_Some allowance_spent_simps(1) [of src src0])
qed

text \<open>C5. \<open>MintTo\<close>: only with the consent of the mint authority, on a mint that still has
  one, is the supply raised, and by exactly the amount the destination gains; the sums do not wrap.  A
  frozen or native destination is refused, and tokens of a non-transferable mint go to accounts with
  immutable ownership only.\<close>

theorem mint_to_correct:
  assumes "process_mint_to E p (m # b # auth # rest) amt dec w = Inr w'"
  shows "\<exists>dst mt dst' mt' k. unpack PodAccount (data_of w b) = Inr dst \<and> unpack (PodMint E) (data_of w m) = Inr mt \<and>
    unpack PodAccount (data_of w' b) = Inr dst' \<and> unpack (PodMint E) (data_of w' m) = Inr mt' \<and>
    pod_match_some (mint_authority (base mt)) = Some k \<and> consents p k auth rest w \<and>
    mint (base dst) = key m \<and> \<not> pod_account_is_frozen (base dst) \<and> \<not> pod_account_is_native (base dst) \<and>
    (isOk (get_extension E (PodMint E) NonTransferableExt mt) \<longrightarrow> isOk (get_extension E PodAccount ImmutableOwnerExt dst)) \<and>
    dst' = dst\<lparr>base := (base dst)\<lparr>amount := amount (base dst')\<rparr>\<rparr> \<and>
    mt' = mt\<lparr>base := (base mt)\<lparr>mint_supply := mint_supply (base mt')\<rparr>\<rparr> \<and>
    unat (amount (base dst')) = unat (amount (base dst)) + unat amt \<and>
    unat (mint_supply (base mt')) = unat (mint_supply (base mt)) + unat amt \<and>
    changes_only {key m, key b} w w'"
  using assms
proof (rule process_mint_to_Inr)
  fix dst mt k x s
  assume *: "unpack PodAccount (data_of w b) = Inr dst" "unpack (PodMint E) (data_of w m) = Inr mt"
    "\<not> pod_account_is_frozen (base dst)" "\<not> pod_account_is_native (base dst)" "mint (base dst) = key m"
    "key m \<noteq> key b" "pod_match_some (mint_authority (base mt)) = Some k" "consents p k auth rest w"
    "unat x = unat (amount (base dst)) + unat amt" "unat s = unat (mint_supply (base mt)) + unat amt"
    "isOk (get_extension E (PodMint E) NonTransferableExt mt) \<Longrightarrow> isOk (get_extension E PodAccount ImmutableOwnerExt dst)"
    and w': "w' = store (PodMint E) m (mt\<lparr>base := (base mt)\<lparr>mint_supply := s\<rparr>\<rparr>)
           (store PodAccount b (dst\<lparr>base := (base dst)\<lparr>amount := x\<rparr>\<rparr>) w)"
  have "live dst" "live_mint_state E mt" using *(1,2) by (simp_all add: unpack_account_live unpack_mint_live)
  with * show ?thesis
    by (intro exI [of _ dst] exI [of _ mt] exI [of _ "dst\<lparr>base := (base dst)\<lparr>amount := x\<rparr>\<rparr>"]
        exI [of _ "mt\<lparr>base := (base mt)\<lparr>mint_supply := s\<rparr>\<rparr>"] exI [of _ k])
       (simp add: w' frame changes_only_store2)
qed

lemma live_mint_simps [simp]:
  "mint_supply live_mint = 1000" "decimals live_mint = 6" "pod_match_some (mint_authority live_mint) = Some 20"
  "pod_match_some (freeze_authority live_mint) = Some 21"
  by (simp_all add: live_mint_def pod_match_some_def pod_some_def)

lemma two_holders_data [simp]:
  "data_of two_holders \<lparr>key = 7, is_signer = b\<rparr> = pod_account_bytes (holder 30 100)"
  "data_of two_holders \<lparr>key = 8, is_signer = b\<rparr> = pod_account_bytes (holder 31 5)"
  "data_of two_holders \<lparr>key = 9, is_signer = b\<rparr> = pod_mint_bytes live_mint"
  "owner_of two_holders a = token_2022_id"
  by (simp_all add: two_holders_def)

lemma validate_two_holders [simp]:
  "k \<notin> {7, 8, 9} \<Longrightarrow> validate_owner E p k \<lparr>key = k, is_signer = True\<rparr>
     (length (data_of two_holders \<lparr>key = k, is_signer = True\<rparr>)) ss w = Inr ()"
  by (simp add: two_holders_def validate_signer PodMultisig_SIZE_OF_def)

theorem mint_to_correct_witness:
  "\<exists>w' dst'. process_mint_to sample_env token_2022_id
     [\<lparr>key = 9, is_signer = False\<rparr>, \<lparr>key = 8, is_signer = False\<rparr>, \<lparr>key = 20, is_signer = True\<rparr>]
     25 None two_holders = Inr w' \<and>
     unpack PodAccount (data_of w' \<lparr>key = 8, is_signer = False\<rparr>) = Inr dst' \<and> unat (amount (base dst')) = 30"
proof -
  have "isOk (process_mint_to sample_env token_2022_id
     [\<lparr>key = 9, is_signer = False\<rparr>, \<lparr>key = 8, is_signer = False\<rparr>, \<lparr>key = 20, is_signer = True\<rparr>]
     25 None two_holders)"
    by (simp add: process_mint_to_def checked_add_def check_program_account_def)
  then obtain w' where t: "process_mint_to sample_env token_2022_id
     [\<lparr>key = 9, is_signer = False\<rparr>, \<lparr>key = 8, is_signer = False\<rparr>, \<lparr>key = 20, is_signer = True\<rparr>]
     25 None two_holders = Inr w'" by (auto simp: isOk_iff)
  from mint_to_correct [OF t] t show ?thesis by auto
qed

text \<open>C6. \<open>Burn\<close>: the supply is lowered by exactly the amount the source loses; the authority
  is entitled to move the tokens, unless the source is owned by the system program or the incinerator;
  frozen and native accounts are refused.\<close>

theorem burn_correct:
  assumes "process_burn E p (a # m # auth # rest) amt dec w = Inr w'"
  shows "\<exists>src mt src' mt'. unpack PodAccount (data_of w a) = Inr src \<and> unpack (PodMint E) (data_of w m) = Inr mt \<and>
    unpack PodAccount (data_of w' a) = Inr src' \<and> unpack (PodMint E) (data_of w' m) = Inr mt' \<and>
    (is_owned_by_system_program_or_incinerator E (base src) \<or>
     may_transfer E p amt src (get_permanent_delegate E mt) auth rest w) \<and>
    mint (base src) = key m \<and> \<not> pod_account_is_frozen (base src) \<and> \<not> pod_account_is_native (base src) \<and>
    mt' = mt\<lparr>base := (base mt)\<lparr>mint_supply := mint_supply (base mt')\<rparr>\<rparr> \<and>
    unat (amount (base src)) = unat (amount (base src')) + unat amt \<and>
    unat (mint_supply (base mt)) = unat (mint_supply (base mt')) + unat amt \<and>
    mint (base src') = mint (base src) \<and> owner (base src') = owner (base src) \<and>
    withheld E src' = withheld E src \<and> changes_only {key m, key a} w w'"
  using assms
proof (rule process_burn_Inr)
  fix src mt src0 x s
  assume *: "unpack PodAccount (data_of w a) = Inr src" "unpack (PodMint E) (data_of w m) = Inr mt"
    "\<not> pod_account_is_frozen (base src)" "\<not> pod_account_is_native (base src)" "mint (base src) = key m"
    "key a \<noteq> key m" "is_owned_by_system_program_or_incinerator E (base src) \<or>
     may_transfer E p amt src (get_permanent_delegate E mt) auth rest w"
    "unat (amount (base src)) = unat x + unat amt" "unat (mint_supply (base mt)) = unat s + unat amt"
    and al: "allowance_spent src src0"
    and w': "w' = store (PodMint E) m (mt\<lparr>base := (base mt)\<lparr>mint_supply := s\<rparr>\<rparr>)
           (store PodAccount a (src0\<lparr>base := (base src0)\<lparr>amount := x\<rparr>\<rparr>) w)"
  have "live src" "live_mint_state E mt" using *(1,2) by (simp_all add: unpack_account_live unpack_mint_live)
  with * show ?thesis
    by (intro exI [of _ src] exI [of _ mt] exI [of _ "src0\<lparr>base := (base src0)\<lparr>amount := x\<rparr>\<rparr>"]
        exI [of _ "mt\<lparr>base := (base mt)\<lparr>mint_supply := s\<rparr>\<rparr>"])
       (simp add: w' frame changes_only_store2 allowance_spent_simps [OF al])
qed

theorem burn_correct_witness:
  "\<exists>w' mt'. process_burn sample_env token_2022_id
     [\<lparr>key = 7, is_signer = False\<rparr>, \<lparr>key = 9, is_signer = False\<rparr>, \<lparr>key = 30, is_signer = True\<rparr>]
     60 (Some 6) two_holders = Inr w' \<and>
     unpack (PodMint sample_env) (data_of w' \<lparr>key = 9, is_signer = False\<rparr>) = Inr mt' \<and> unat (mint_supply (base mt')) = 940"
proof -
  have "isOk (process_burn sample_env token_2022_id
     [\<lparr>key = 7, is_signer = False\<rparr>, \<lparr>key = 9, is_signer = False\<rparr>, \<lparr>key = 30, is_signer = True\<rparr>]
     60 (Some 6) two_holders)"
    by (simp add: process_burn_def burn_authority_def checked_sub_def check_program_account_def
        is_owned_by_system_program_or_incinerator_def get_permanent_delegate_def)
  then obtain w' where t: "process_burn sample_env token_2022_id
     [\<lparr>key = 7, is_signer = False\<rparr>, \<lparr>key = 9, is_signer = False\<rparr>, \<lparr>key = 30, is_signer = True\<rparr>]
     60 (Some 6) two_holders = Inr w'" by (auto simp: isOk_iff)
  from burn_correct [OF t] t show ?thesis by auto
qed

end
