(* ===== verification/Lifecycle.thy ===== *)
theory Lifecycle
  imports Supply
begin

text \<open>
  Closing accounts and mints, freezing and thawing, and the handling of lamports:
  \<open>process_close_account\<close>, \<open>process_toggle_freeze_account\<close>,
  \<open>process_sync_native\<close>, \<open>process_create_native_mint\<close> and
  \<open>process_withdraw_excess_lamports\<close> of \<open>src/programs/src/processor.rs\<close>.
\<close>

section \<open>Closing\<close>

text \<open>The on-chain \<open>delete_account\<close>: back to the system program, no data.\<close>

definition delete_account :: "env \<Rightarrow> account_info \<Rightarrow> world \<Rightarrow> world" where
  "delete_account E a w = set_data a [] (set_owner a (system_program_id E) w)"

definition check_extension :: "('v \<Rightarrow> unit result) \<Rightarrow> 'v result \<Rightarrow> unit result" where
  "check_extension f r = (case r of Inl _ \<Rightarrow> Inr () | Inr v \<Rightarrow> f v)"

definition check_close_account ::
    "env \<Rightarrow> pubkey \<Rightarrow> account_info \<Rightarrow> account_info \<Rightarrow> account_info list \<Rightarrow> world \<Rightarrow> pod_account ext_state \<Rightarrow> unit result" where
  "check_close_account E program_id destination_info auth rest w src =
     (if \<not> pod_account_is_native (base src) \<and> amount (base src) \<noteq> 0 then Inl (Token NonNativeHasBalance)
      else bindE (if \<not> is_owned_by_system_program_or_incinerator E (base src) then
             (if cpi_guard_enabled E src \<and> in_cpi E \<and> key destination_info \<noteq> owner (base src)
              then Inl (Token CpiGuardCloseAccountBlocked)
              else validate_owner E program_id (pod_unwrap_or (close_authority (base src)) (owner (base src)))
                     auth (length (data_of w auth)) rest w)
           else if key destination_info \<noteq> incinerator_id E then Inl (Prog InvalidAccountData)
           else Inr ()) (\<lambda>_.
      bindE (check_extension confidential_account_closable
               (get_extension E PodAccount (ConfidentialTransferAccountExt E) src)) (\<lambda>_.
      bindE (check_extension confidential_fee_amount_closable
               (get_extension E PodAccount (ConfidentialTransferFeeAmountExt E) src)) (\<lambda>_.
        check_extension transfer_fee_amount_closable (get_extension E PodAccount TransferFeeAmountExt src)))))"

definition check_close_mint ::
    "env \<Rightarrow> pubkey \<Rightarrow> account_info \<Rightarrow> account_info list \<Rightarrow> world \<Rightarrow> pod_mint ext_state \<Rightarrow> unit result" where
  "check_close_mint E program_id auth rest w mt =
     bindE (get_extension E (PodMint E) MintCloseAuthorityExt mt) (\<lambda>close_auth.
     bindE (ok_or (Token AuthorityTypeNotSupported) (option_of_non_zero close_auth)) (\<lambda>k.
     bindE (validate_owner E program_id k auth (length (data_of w auth)) rest w) (\<lambda>_.
       if mint_supply (base mt) \<noteq> 0 then Inl (Token MintHasSupply) else Inr ())))"

definition process_close_account :: "env \<Rightarrow> pubkey \<Rightarrow> account_info list \<Rightarrow> world \<Rightarrow> world result" where
  "process_close_account E program_id accounts w =
     bindE (next_account_info accounts) (\<lambda>(source_info, it).
     bindE (next_account_info it) (\<lambda>(destination_info, it).
     bindE (next_account_info it) (\<lambda>(auth, rest).
     if key source_info = key destination_info then Inl (Prog InvalidAccountData)
     else bindE (case result_ok (unpack PodAccount (data_of w source_info)) of
            Some src \<Rightarrow> check_close_account E program_id destination_info auth rest w src
          | None \<Rightarrow>
             (case result_ok (unpack (PodMint E) (data_of w source_info)) of
                Some mt \<Rightarrow> check_close_mint E program_id auth rest w mt
              | None \<Rightarrow> Inl (Prog UninitializedAccount))) (\<lambda>_.
     bindE (ok_or (Token Overflow) (checked_add (lamports_of w destination_info) (lamports_of w source_info))) (\<lambda>l.
       Inr (delete_account E source_info (set_lamports source_info 0 (set_lamports destination_info l w))))))))"

section \<open>Freezing\<close>

definition process_toggle_freeze_account ::
    "env \<Rightarrow> pubkey \<Rightarrow> account_info list \<Rightarrow> bool \<Rightarrow> world \<Rightarrow> world result" where
  "process_toggle_freeze_account E program_id accounts freeze w =
     bindE (next_account_info accounts) (\<lambda>(source_info, it).
     bindE (next_account_info it) (\<lambda>(mint_info, it).
     bindE (next_account_info it) (\<lambda>(auth, rest).
     bindE (unpack PodAccount (data_of w source_info)) (\<lambda>src.
     if freeze \<and> pod_account_is_frozen (base src) \<or> \<not> freeze \<and> \<not> pod_account_is_frozen (base src)
     then Inl (Token InvalidState)
     else if pod_account_is_native (base src) then Inl (Token NativeNotSupported)
     else if key mint_info \<noteq> mint (base src) then Inl (Token MintMismatch)
     else if key mint_info = key source_info then Inl Panic
     else bindE (unpack (PodMint E) (data_of w mint_info)) (\<lambda>mt.
     bindE (case pod_match_some (freeze_authority (base mt)) of
              Some k \<Rightarrow> validate_owner E program_id k auth (length (data_of w auth)) rest w
            | None \<Rightarrow> Inl (Token MintCannotFreeze)) (\<lambda>_.
       Inr (store PodAccount source_info
         (src\<lparr>base := (base src)\<lparr>state := account_state_u8 (if freeze then Frozen else account_state.Initialized)\<rparr>\<rparr>) w)))))))"

section \<open>Native tokens and lamports\<close>

definition process_sync_native :: "account_info list \<Rightarrow> world \<Rightarrow> world result" where
  "process_sync_native accounts w =
     bindE (next_account_info accounts) (\<lambda>(info, it).
     bindE (check_program_account (owner_of w info)) (\<lambda>_.
     bindE (unpack PodAccount (data_of w info)) (\<lambda>st.
     case pod_match_some (is_native (base st)) of
       Some reserve \<Rightarrow>
         bindE (ok_or (Token Overflow) (checked_sub (lamports_of w info) reserve)) (\<lambda>new_amount.
         if new_amount < amount (base st) then Inl (Token InvalidState)
         else Inr (store PodAccount info (st\<lparr>base := (base st)\<lparr>amount := new_amount\<rparr>\<rparr>) w))
     | None \<Rightarrow> Inl (Token NonNativeNotSupported))))"

text \<open>\<open>Mint::pack\<close> checks the length of the buffer before it packs.\<close>

definition native_mint :: packed_mint where
  "native_mint = \<lparr>m_mint_authority = None, m_supply = 0, m_decimals = native_mint_DECIMALS,
     m_is_initialized = True, m_freeze_authority = None\<rparr>"

definition process_create_native_mint :: "env \<Rightarrow> account_info list \<Rightarrow> world \<Rightarrow> world result" where
  "process_create_native_mint E accounts w =
     bindE (next_account_info accounts) (\<lambda>(payer_info, it).
     bindE (next_account_info it) (\<lambda>(mint_info, it).
     bindE (next_account_info it) (\<lambda>(system_info, it).
     if key mint_info \<noteq> native_mint_id then Inl (Token InvalidMint)
     else bindE (rent_get E) (\<lambda>rent.
     let lamports_diff = saturating_sub (minimum_balance rent Mint_LEN) (lamports_of w mint_info) in
     bindE (invoke_system E (system_transfer (key payer_info) (key mint_info) lamports_diff)
              [payer_info, mint_info, system_info] w) (\<lambda>w.
     bindE (invoke_system E (system_allocate (key mint_info) (of_nat Mint_LEN)) [mint_info, system_info] w) (\<lambda>w.
     bindE (invoke_system E (system_assign (key mint_info) token_2022_id) [mint_info, system_info] w) (\<lambda>w.
     if length (data_of w mint_info) \<noteq> Mint_LEN then Inl (Prog InvalidAccountData)
     else bindE (mint_pack_into_slice native_mint (data_of w mint_info)) (\<lambda>d.
       Inr (set_data mint_info d w)))))))))"

definition check_withdraw_excess ::
    "env \<Rightarrow> pubkey \<Rightarrow> account_info \<Rightarrow> account_info \<Rightarrow> account_info list \<Rightarrow> world \<Rightarrow> unit result" where
  "check_withdraw_excess E program_id source_info auth rest w =
     (let n = length (data_of w auth) in
      case result_ok (unpack PodAccount (data_of w source_info)) of
        Some account \<Rightarrow>
          if pod_account_is_native (base account) then Inl (Token NativeNotSupported)
          else validate_owner E program_id (owner (base account)) auth n rest w
      | None \<Rightarrow>
         (case result_ok (unpack (PodMint E) (data_of w source_info)) of
            Some mt \<Rightarrow>
              (case pod_match_some (mint_authority (base mt)) of
                 Some k \<Rightarrow> validate_owner E program_id k auth n rest w
               | None \<Rightarrow> Inl (Token AuthorityTypeNotSupported))
          | None \<Rightarrow>
              if length (data_of w source_info) = PodMultisig_SIZE_OF
              then validate_owner E program_id (key source_info) auth n rest w
              else Inl (Token InvalidState)))"

text \<open>The lamports are written one cell after the other, so a destination equal to the source gets
  them back.\<close>

definition process_withdraw_excess_lamports :: "env \<Rightarrow> pubkey \<Rightarrow> account_info list \<Rightarrow> world \<Rightarrow> world result" where
  "process_withdraw_excess_lamports E program_id accounts w =
     bindE (next_account_info accounts) (\<lambda>(source_info, it).
     bindE (next_account_info it) (\<lambda>(destination_info, it).
     bindE (next_account_info it) (\<lambda>(auth, rest).
     bindE (check_withdraw_excess E program_id source_info auth rest w) (\<lambda>_.
     bindE (rent_get E) (\<lambda>rent.
     bindE (ok_or (Token NotRentExempt)
        (checked_sub (lamports_of w source_info) (minimum_balance rent (length (data_of w source_info))))) (\<lambda>transfer_amount.
       move_lamports source_info destination_info transfer_amount w))))))"

section \<open>What closing takes\<close>

lemma closable_withheld:
  "check_extension transfer_fee_amount_closable (get_extension E PodAccount TransferFeeAmountExt src) = Inr () \<Longrightarrow>
   withheld E src = 0"
  by (auto simp: check_extension_def transfer_fee_amount_closable_def withheld_def split: sum.splits if_splits)

lemma process_close_account_Inr:
  assumes "process_close_account E p (a # b # auth # rest) w = Inr w'"
  obtains l where "key a \<noteq> key b" "unat l = unat (lamports_of w b) + unat (lamports_of w a)"
    "w' = delete_account E a (set_lamports a 0 (set_lamports b l w))"
    "(\<exists>src. unpack PodAccount (data_of w a) = Inr src \<and> check_close_account E p b auth rest w src = Inr ()) \<or>
     (\<exists>mt. unpack (PodMint E) (data_of w a) = Inr mt \<and> check_close_mint E p auth rest w mt = Inr ())"
  using assms by (auto simp: process_close_account_def success_simps checked_add_Some split: option.splits)


definition closing_ledger :: world where
  "closing_ledger = ledger (\<lambda>k. if k = 7 then pod_account_bytes (holder 30 0) else [])"


section \<open>What freezing does\<close>

lemma process_toggle_freeze_account_Inr:
  assumes "process_toggle_freeze_account E p (a # m # auth # rest) freeze w = Inr w'"
  obtains src mt k where "unpack PodAccount (data_of w a) = Inr src" "unpack (PodMint E) (data_of w m) = Inr mt"
    "pod_account_is_frozen (base src) \<longleftrightarrow> \<not> freeze" "\<not> pod_account_is_native (base src)" "mint (base src) = key m"
    "key m \<noteq> key a" "pod_match_some (freeze_authority (base mt)) = Some k" "consents p k auth rest w"
    "w' = store PodAccount a (src\<lparr>base := (base src)\<lparr>state :=
       account_state_u8 (if freeze then Frozen else account_state.Initialized)\<rparr>\<rparr>) w"
proof -
  from assms obtain src mt where *: "unpack PodAccount (data_of w a) = Inr src" "unpack (PodMint E) (data_of w m) = Inr mt"
    "pod_account_is_frozen (base src) \<longleftrightarrow> \<not> freeze" "\<not> pod_account_is_native (base src)" "mint (base src) = key m"
    "key m \<noteq> key a"
    and au: "(case pod_match_some (freeze_authority (base mt)) of
       Some k \<Rightarrow> validate_owner E p k auth (length (data_of w auth)) rest w | None \<Rightarrow> Inl (Token MintCannotFreeze)) = Inr ()"
    and w': "w' = store PodAccount a (src\<lparr>base := (base src)\<lparr>state :=
       account_state_u8 (if freeze then Frozen else account_state.Initialized)\<rparr>\<rparr>) w"
    unfolding process_toggle_freeze_account_def by (auto simp: success_simps)
  from au obtain k where "pod_match_some (freeze_authority (base mt)) = Some k" "consents p k auth rest w"
    by (auto dest: validate_owner_consents split: option.splits)
  with that [OF * _ _ w'] show ?thesis by blast
qed

text \<open>\<open>FreezeAccount\<close> and \<open>ThawAccount\<close>: only with the consent of the freeze
  authority of the account's mint; only the state changes; freezing a frozen account and thawing one that
  is not frozen are refused, so each undoes the other.\<close>

theorem toggle_freeze_correct:
  assumes "process_toggle_freeze_account E p (a # m # auth # rest) freeze w = Inr w'"
  shows "\<exists>src mt k. unpack PodAccount (data_of w a) = Inr src \<and> unpack (PodMint E) (data_of w m) = Inr mt \<and>
    mint (base src) = key m \<and> pod_match_some (freeze_authority (base mt)) = Some k \<and> consents p k auth rest w \<and>
    (pod_account_is_frozen (base src) \<longleftrightarrow> \<not> freeze) \<and> changes_only {key a} w w' \<and>
    unpack PodAccount (data_of w' a) = Inr (src\<lparr>base := (base src)\<lparr>state :=
       account_state_u8 (if freeze then Frozen else account_state.Initialized)\<rparr>\<rparr>)"
  using assms
proof (rule process_toggle_freeze_account_Inr)
  fix src mt k
  assume *: "unpack PodAccount (data_of w a) = Inr src" "unpack (PodMint E) (data_of w m) = Inr mt"
    "pod_account_is_frozen (base src) \<longleftrightarrow> \<not> freeze" "mint (base src) = key m"
    "pod_match_some (freeze_authority (base mt)) = Some k" "consents p k auth rest w"
    and w': "w' = store PodAccount a (src\<lparr>base := (base src)\<lparr>state :=
       account_state_u8 (if freeze then Frozen else account_state.Initialized)\<rparr>\<rparr>) w"
  have "live (src\<lparr>base := (base src)\<lparr>state := account_state_u8 (if freeze then Frozen else account_state.Initialized)\<rparr>\<rparr>)"
    using *(1) by (simp add: unpack_account_live) (simp add: live_def pod_account_is_initialized_def)
  with * show ?thesis
    by (intro exI [of _ src] exI [of _ mt] exI [of _ k]) (simp add: w' frame changes_only_store)
qed

theorem toggle_freeze_correct_witness:
  "\<exists>w' st. process_toggle_freeze_account sample_env token_2022_id
     [\<lparr>key = 7, is_signer = False\<rparr>, \<lparr>key = 9, is_signer = False\<rparr>, \<lparr>key = 21, is_signer = True\<rparr>]
     True two_holders = Inr w' \<and>
     unpack PodAccount (data_of w' \<lparr>key = 7, is_signer = False\<rparr>) = Inr st \<and> pod_account_is_frozen (base st)"
proof -
  have "isOk (process_toggle_freeze_account sample_env token_2022_id
     [\<lparr>key = 7, is_signer = False\<rparr>, \<lparr>key = 9, is_signer = False\<rparr>, \<lparr>key = 21, is_signer = True\<rparr>] True two_holders)"
    by (simp add: process_toggle_freeze_account_def)
  then obtain w' where t: "process_toggle_freeze_account sample_env token_2022_id
     [\<lparr>key = 7, is_signer = False\<rparr>, \<lparr>key = 9, is_signer = False\<rparr>, \<lparr>key = 21, is_signer = True\<rparr>]
     True two_holders = Inr w'" by (auto simp: isOk_iff)
  from toggle_freeze_correct [OF t] t show ?thesis by (auto simp: pod_account_is_frozen_def)
qed

section \<open>What happens to lamports\<close>

text \<open>\<open>SyncNative\<close> restores the invariant of native accounts: amount and rent-exempt reserve
  together are the lamports of the account.  It never lowers the amount and changes nothing else.\<close>

theorem sync_native_correct:
  assumes "process_sync_native (a # rest) w = Inr w'"
  shows "\<exists>st reserve n. owner_of w a = token_2022_id \<and> unpack PodAccount (data_of w a) = Inr st \<and>
    pod_match_some (is_native (base st)) = Some reserve \<and> amount (base st) \<le> n \<and>
    unat n + unat reserve = unat (lamports_of w a) \<and> lamports_of w' a = lamports_of w a \<and>
    unpack PodAccount (data_of w' a) = Inr (st\<lparr>base := (base st)\<lparr>amount := n\<rparr>\<rparr>) \<and> changes_only {key a} w w'"
proof -
  from assms obtain st reserve n where *: "owner_of w a = token_2022_id" "unpack PodAccount (data_of w a) = Inr st"
    "pod_match_some (is_native (base st)) = Some reserve" "\<not> n < amount (base st)"
    "unat (lamports_of w a) = unat reserve + unat n"
    and w': "w' = store PodAccount a (st\<lparr>base := (base st)\<lparr>amount := n\<rparr>\<rparr>) w"
    by (auto simp: process_sync_native_def success_simps checked_sub_Some split: option.splits)
  have "live st" using *(2) by (simp add: unpack_account_live)
  with * show ?thesis
    by (intro exI [of _ st] exI [of _ reserve] exI [of _ n]) (simp add: w' frame changes_only_store not_less)
qed

definition native_holder :: pod_account where
  "native_holder = (holder 30 10)\<lparr>is_native := pod_some 165\<rparr>"

theorem sync_native_correct_witness:
  "\<exists>w' st. process_sync_native [\<lparr>key = 7, is_signer = False\<rparr>]
     (ledger (\<lambda>_. pod_account_bytes native_holder)) = Inr w' \<and>
     unpack PodAccount (data_of w' \<lparr>key = 7, is_signer = False\<rparr>) = Inr st \<and> unat (amount (base st)) = 835"
proof -
  have i: "pod_account_is_initialized native_holder" "pod_match_some (is_native native_holder) = Some 165"
    "amount native_holder = 10"
    by (simp_all add: native_holder_def holder_def pod_account_is_initialized_def pod_match_some_def pod_some_def)
  have "isOk (process_sync_native [\<lparr>key = 7, is_signer = False\<rparr>] (ledger (\<lambda>_. pod_account_bytes native_holder)))"
    by (simp add: process_sync_native_def check_program_account_def i checked_sub_def)
  then obtain w' where t: "process_sync_native [\<lparr>key = 7, is_signer = False\<rparr>]
     (ledger (\<lambda>_. pod_account_bytes native_holder)) = Inr w'" by (auto simp: isOk_iff)
  from sync_native_correct [OF t] t show ?thesis by (auto simp: i)
qed

lemma move_lamports_lamports:
  assumes "move_lamports a b n w = Inr w'" "key a \<noteq> key b"
  shows "unat (lamports_of w a) = unat (lamports_of w' a) + unat n"
    "unat (lamports_of w' b) = unat (lamports_of w b) + unat n"
  using assms by (auto simp: move_lamports_def success_simps frame checked_sub_Some checked_add_Some Let_def)

text \<open>\<open>WithdrawExcessLamports\<close> takes exactly the lamports above the rent-exempt minimum, to the
  destination, and no data changes.  Of a token account, which must not be native, the owner consents; of
  a mint the mint authority.\<close>

theorem withdraw_excess_lamports_correct:
  assumes "process_withdraw_excess_lamports E p (a # b # auth # rest) w = Inr w'" "key a \<noteq> key b"
  shows "\<exists>rent. rent_get E = Inr rent \<and> lamports_of w' a = minimum_balance rent (length (data_of w a)) \<and>
    unat (lamports_of w' a) + unat (lamports_of w' b) = unat (lamports_of w a) + unat (lamports_of w b) \<and>
    (\<forall>k. acct_data (cells w' k) = acct_data (cells w k) \<and> acct_owner (cells w' k) = acct_owner (cells w k)) \<and>
    (\<forall>st. unpack PodAccount (data_of w a) = Inr st \<longrightarrow>
       \<not> pod_account_is_native (base st) \<and> consents p (owner (base st)) auth rest w) \<and>
    (\<forall>mt. unpack (PodMint E) (data_of w a) = Inr mt \<longrightarrow>
       (\<exists>k. pod_match_some (mint_authority (base mt)) = Some k \<and> consents p k auth rest w))"
proof -
  from assms obtain rent n where c: "check_withdraw_excess E p a auth rest w = Inr ()" and r: "rent_get E = Inr rent"
    and n: "unat (lamports_of w a) = unat (minimum_balance rent (length (data_of w a))) + unat n"
    and m: "move_lamports a b n w = Inr w'"
    by (auto simp: process_withdraw_excess_lamports_def success_simps checked_sub_Some)
  note l = move_lamports_lamports [OF m assms(2)]
  have "lamports_of w' a = minimum_balance rent (length (data_of w a))"
    using l(1) n by (simp add: word_unat_eq_iff)
  moreover have "\<forall>st. unpack PodAccount (data_of w a) = Inr st \<longrightarrow>
       \<not> pod_account_is_native (base st) \<and> consents p (owner (base st)) auth rest w"
    using c by (auto simp: check_withdraw_excess_def Let_def dest: validate_owner_consents split: if_splits)
  moreover have "\<exists>k. pod_match_some (mint_authority (base mt)) = Some k \<and> consents p k auth rest w"
    if "unpack (PodMint E) (data_of w a) = Inr mt" for mt
    using c mint_not_account [OF that] that
    by (auto simp: check_withdraw_excess_def Let_def dest: validate_owner_consents split: option.splits)
  ultimately show ?thesis using r l n move_lamports_Inr [OF m]
    by (intro exI [of _ rent]) auto
qed

theorem withdraw_excess_lamports_correct_witness:
  "\<exists>w'. process_withdraw_excess_lamports sample_env token_2022_id
     [\<lparr>key = 7, is_signer = False\<rparr>, \<lparr>key = 50, is_signer = False\<rparr>, \<lparr>key = 30, is_signer = True\<rparr>]
     two_holders = Inr w' \<and> lamports_of w' \<lparr>key = 7, is_signer = False\<rparr> = 165"
proof -
  have l: "lamports_of two_holders a = 1000" for a by (simp add: two_holders_def)
  have "isOk (process_withdraw_excess_lamports sample_env token_2022_id
     [\<lparr>key = 7, is_signer = False\<rparr>, \<lparr>key = 50, is_signer = False\<rparr>, \<lparr>key = 30, is_signer = True\<rparr>] two_holders)"
    by (simp add: process_withdraw_excess_lamports_def check_withdraw_excess_def sample_env_rent checked_sub_def
        move_lamports_def l frame checked_add_def Let_def)
  then obtain w' where t: "process_withdraw_excess_lamports sample_env token_2022_id
     [\<lparr>key = 7, is_signer = False\<rparr>, \<lparr>key = 50, is_signer = False\<rparr>, \<lparr>key = 30, is_signer = True\<rparr>] two_holders = Inr w'"
    by (auto simp: isOk_iff)
  from withdraw_excess_lamports_correct [OF t] t show ?thesis by (auto simp: sample_env_rent)
qed

section \<open>The native mint\<close>

text \<open>The documented effect of the system program's instructions on data and owners.  An account that
  already has data is in use and cannot be allocated.\<close>

definition system_contract :: "env \<Rightarrow> bool" where
  "system_contract E \<longleftrightarrow>
     (\<forall>a b n infos w w'. invoke_system E (system_transfer a b n) infos w = Inr w' \<longrightarrow>
        (\<forall>k. acct_data (cells w' k) = acct_data (cells w k) \<and> acct_owner (cells w' k) = acct_owner (cells w k))) \<and>
     (\<forall>a n infos w w'. invoke_system E (system_allocate a n) infos w = Inr w' \<longrightarrow>
        acct_data (cells w a) = [] \<and> acct_data (cells w' a) = replicate (unat n) 0 \<and>
        (\<forall>k. k \<noteq> a \<longrightarrow> acct_data (cells w' k) = acct_data (cells w k) \<and> acct_owner (cells w' k) = acct_owner (cells w k))) \<and>
     (\<forall>a p infos w w'. invoke_system E (system_assign a p) infos w = Inr w' \<longrightarrow>
        acct_owner (cells w' a) = p \<and> acct_data (cells w' a) = acct_data (cells w a) \<and>
        (\<forall>k. k \<noteq> a \<longrightarrow> acct_data (cells w' k) = acct_data (cells w k) \<and> acct_owner (cells w' k) = acct_owner (cells w k)))"

lemma sample_env_system [simp]: "system_contract sample_env"
  by (auto simp: system_contract_def frame split: if_splits)

lemma native_mint_bytes:
  "mint_pack_into_slice native_mint (replicate 82 0) =
   Inr (pod_mint_bytes \<lparr>mint_authority = pod_none, mint_supply = 0, decimals = 9, is_initialized = 1,
     freeze_authority = pod_none\<rparr>)"
proof -
  have "replicate 36 (0::u8) = 0 # 0 # 0 # 0 # replicate 32 0" by (simp add: numeral_eq_Suc)
  then show ?thesis by (simp add: mint_pack_into_slice_def Mint_LEN_def native_mint_def native_mint_DECIMALS_def pack_coption_key_def
      pod_mint_bytes_def coption_key_bytes_def pod_none_def NONE_tag_def bool_u8_def word_le_zero slice_of_def
      replicate_add [symmetric] word_le_u8)
qed

lemma create_native_mint_Inr:
  assumes "process_create_native_mint E (payer # m # sys # rest) w = Inr w'" "system_contract E"
  shows "key m = native_mint_id" "owner_of w' m = token_2022_id" "data_of w m = []" "changes_only {key m} w w'"
    "data_of w' m = pod_mint_bytes \<lparr>mint_authority = pod_none, mint_supply = 0, decimals = 9, is_initialized = 1,
       freeze_authority = pod_none\<rparr>"
proof -
  from assms(1) obtain n w1 w2 w3 d where k: "key m = native_mint_id"
    and tr: "invoke_system E (system_transfer (key payer) (key m) n) [payer, m, sys] w = Inr w1"
    and al: "invoke_system E (system_allocate (key m) (of_nat Mint_LEN)) [m, sys] w1 = Inr w2"
    and as': "invoke_system E (system_assign (key m) token_2022_id) [m, sys] w2 = Inr w3"
    and d: "mint_pack_into_slice native_mint (data_of w3 m) = Inr d" and w': "w' = set_data m d w3"
    by (auto simp: process_create_native_mint_def success_simps Let_def)
  have 1: "\<forall>k. acct_data (cells w1 k) = acct_data (cells w k) \<and> acct_owner (cells w1 k) = acct_owner (cells w k)"
    using assms(2) tr unfolding system_contract_def by blast
  have 2: "acct_data (cells w1 (key m)) = []" "acct_data (cells w2 (key m)) = replicate (unat (of_nat Mint_LEN :: u64)) 0"
    "\<forall>k. k \<noteq> key m \<longrightarrow> acct_data (cells w2 k) = acct_data (cells w1 k) \<and> acct_owner (cells w2 k) = acct_owner (cells w1 k)"
    using assms(2) al unfolding system_contract_def by blast+
  have 3: "acct_owner (cells w3 (key m)) = token_2022_id" "acct_data (cells w3 (key m)) = acct_data (cells w2 (key m))"
    "\<forall>k. k \<noteq> key m \<longrightarrow> acct_data (cells w3 k) = acct_data (cells w2 k) \<and> acct_owner (cells w3 k) = acct_owner (cells w2 k)"
    using assms(2) as' unfolding system_contract_def by blast+
  show "data_of w m = []" using 1 2(1) by (simp add: data_of_def)
  show "changes_only {key m} w w'" using 1 2(3) 3(3) by (intro changes_only_same) (simp add: w' frame)
  have "data_of w3 m = replicate 82 0" "owner_of w3 m = token_2022_id" using 2(2) 3(1,2)
    by (simp_all add: data_of_def owner_of_def Mint_LEN_def)
  with d native_mint_bytes show "key m = native_mint_id" "owner_of w' m = token_2022_id"
    "data_of w' m = pod_mint_bytes \<lparr>mint_authority = pod_none, mint_supply = 0, decimals = 9, is_initialized = 1,
       freeze_authority = pod_none\<rparr>" using k by (simp_all add: w' frame)
qed

text \<open>\<open>CreateNativeMint\<close> leaves a mint of this program at the native mint's address, with
  nine decimals, no supply, no freeze authority and no mint authority: no run of \<open>MintTo\<close> on the
  result succeeds.\<close>

theorem create_native_mint_correct:
  assumes "process_create_native_mint E (payer # m # sys # rest) w = Inr w'" "system_contract E" "pod_bool_ok E"
  shows "\<exists>mt. unpack (PodMint E) (data_of w' m) = Inr mt \<and> key m = native_mint_id \<and> owner_of w' m = token_2022_id \<and>
    decimals (base mt) = 9 \<and> mint_supply (base mt) = 0 \<and> pod_match_some (mint_authority (base mt)) = None \<and>
    pod_match_some (freeze_authority (base mt)) = None \<and> process_mint_to E p (m # b # auth # ss) amt dec w' \<noteq> Inr w''"
proof -
  let ?b = "\<lparr>mint_authority = pod_none, mint_supply = 0, decimals = 9, is_initialized = 1, freeze_authority = pod_none\<rparr>"
  note c = create_native_mint_Inr [OF assms(1,2)]
  have none: "pod_match_some (pod_none :: pubkey pod_coption) = None"
    by (simp add: pod_match_some_def NONE_tag_def SOME_tag_def)
  have u: "unpack (PodMint E) (data_of w' m) = Inr (bare ?b)"
    using pod_mint.unpack_bare(2) [of E ?b] assms(3)
    by (simp add: c(5) pod_mint_is_initialized_def pod_bool_ok_def PodMint_SIZE_OF_def Multisig_LEN_def)
  moreover have "process_mint_to E p (m # b # auth # ss) amt dec w' \<noteq> Inr w''"
    using u none by (auto elim: process_mint_to_Inr)
  ultimately show ?thesis using c none by (intro exI [of _ "bare ?b"]) simp
qed

theorem create_native_mint_correct_witness:
  "\<exists>w' mt. process_create_native_mint sample_env
      [\<lparr>key = 50, is_signer = True\<rparr>, \<lparr>key = native_mint_id, is_signer = False\<rparr>, \<lparr>key = 0, is_signer = False\<rparr>]
      (ledger (\<lambda>_. [])) = Inr w' \<and>
     unpack (PodMint sample_env) (data_of w' \<lparr>key = native_mint_id, is_signer = False\<rparr>) = Inr mt \<and> decimals (base mt) = 9"
proof -
  let ?as = "[\<lparr>key = 50, is_signer = True\<rparr>, \<lparr>key = native_mint_id, is_signer = False\<rparr>, \<lparr>key = 0, is_signer = False\<rparr>]"
  have "isOk (process_create_native_mint sample_env ?as (ledger (\<lambda>_. [])))"
    by (simp add: process_create_native_mint_def sample_env_rent frame Mint_LEN_def native_mint_bytes ledger_def Let_def)
  then obtain w' where t: "process_create_native_mint sample_env ?as (ledger (\<lambda>_. [])) = Inr w'"
    by (auto simp: isOk_iff)
  from create_native_mint_correct [OF t sample_env_system sample_env_ok] t show ?thesis by blast
qed

end
