(* ===== verification/Fee_Processor.thy ===== *)
theory Fee_Processor
  imports Lifecycle
begin

text \<open>
  The transfer-fee instructions of \<open>src/programs/src/extension/transfer_fee/processor.rs\<close>:
  configuring the fee, changing it, and collecting the withheld tokens.
\<close>

section \<open>Configuring the fee\<close>

text \<open>\<open>COption<Pubkey>.try_into()?\<close> for an \<open>OptionalNonZeroPubkey\<close>.\<close>

definition optional_non_zero_pubkey :: "env \<Rightarrow> pubkey option \<Rightarrow> pubkey result" where
  "optional_non_zero_pubkey E k = (case k of
     None \<Rightarrow> Inr 0 | Some p \<Rightarrow> if p = 0 then Inl (zero_key_error E) else Inr p)"

definition initial_fee_config ::
    "env \<Rightarrow> pubkey option \<Rightarrow> pubkey option \<Rightarrow> u16 \<Rightarrow> u64 \<Rightarrow> transfer_fee_config result" where
  "initial_fee_config E config_auth withdraw_auth bps max_fee =
     bindE (optional_non_zero_pubkey E config_auth) (\<lambda>ca.
     bindE (optional_non_zero_pubkey E withdraw_auth) (\<lambda>wa.
     if bps > MAX_FEE_BASIS_POINTS then Inl (Token TransferFeeExceedsMaximum)
     else bindE (clock_get E) (\<lambda>c.
       let f = \<lparr>fee_epoch = epoch c, maximum_fee = max_fee, transfer_fee_basis_points = bps\<rparr>
       in Inr \<lparr>transfer_fee_config_authority = ca, withdraw_withheld_authority = wa,
               config_withheld_amount = 0, older_transfer_fee = f, newer_transfer_fee = f\<rparr>)))"

definition process_initialize_transfer_fee_config ::
    "env \<Rightarrow> account_info list \<Rightarrow> pubkey option \<Rightarrow> pubkey option \<Rightarrow> u16 \<Rightarrow> u64 \<Rightarrow> world \<Rightarrow> world result" where
  "process_initialize_transfer_fee_config E accounts config_auth withdraw_auth bps max_fee w =
     init_uninitialized (PodMint E) TransferFeeConfigExt
       (initial_fee_config E config_auth withdraw_auth bps max_fee) accounts w"

text \<open>The new schedule: a fee that is in force, or was, becomes the older one; the new fee starts two
  epochs ahead.\<close>

definition schedule_fee :: "u64 \<Rightarrow> u16 \<Rightarrow> u64 \<Rightarrow> transfer_fee_config \<Rightarrow> transfer_fee_config" where
  "schedule_fee now bps max_fee c =
     (let c = (if fee_epoch (newer_transfer_fee c) \<le> now
               then c\<lparr>older_transfer_fee := newer_transfer_fee c\<rparr> else c)
      in c\<lparr>newer_transfer_fee :=
             \<lparr>fee_epoch = saturating_add now 2, maximum_fee = max_fee, transfer_fee_basis_points = bps\<rparr>\<rparr>)"

definition process_set_transfer_fee ::
    "env \<Rightarrow> pubkey \<Rightarrow> account_info list \<Rightarrow> u16 \<Rightarrow> u64 \<Rightarrow> world \<Rightarrow> world result" where
  "process_set_transfer_fee E program_id accounts bps max_fee w =
     bindE (next_account_info accounts) (\<lambda>(mint_info, it).
     bindE (next_account_info it) (\<lambda>(auth, rest).
     bindE (unpack (PodMint E) (data_of w mint_info)) (\<lambda>mt.
     bindE (get_extension E (PodMint E) TransferFeeConfigExt mt) (\<lambda>c.
     bindE (ok_or (Token NoAuthorityExists) (option_of_non_zero (transfer_fee_config_authority c))) (\<lambda>k.
     bindE (validate_owner E program_id k auth (length (data_of w auth)) rest w) (\<lambda>_.
     if bps > MAX_FEE_BASIS_POINTS then Inl (Token TransferFeeExceedsMaximum)
     else bindE (clock_get E) (\<lambda>now.
       Inr (store (PodMint E) mint_info
         (put_extension (PodMint E) TransferFeeConfigExt (schedule_fee (epoch now) bps max_fee c) mt) w))))))))"

section \<open>Collecting withheld tokens\<close>

definition process_withdraw_withheld_tokens_from_mint ::
    "env \<Rightarrow> pubkey \<Rightarrow> account_info list \<Rightarrow> world \<Rightarrow> world result" where
  "process_withdraw_withheld_tokens_from_mint E program_id accounts w =
     bindE (next_account_info accounts) (\<lambda>(mint_info, it).
     bindE (next_account_info it) (\<lambda>(destination_info, it).
     bindE (next_account_info it) (\<lambda>(auth, rest).
     bindE (check_program_account (owner_of w mint_info)) (\<lambda>_.
     bindE (unpack (PodMint E) (data_of w mint_info)) (\<lambda>mt.
     bindE (get_extension E (PodMint E) TransferFeeConfigExt mt) (\<lambda>c.
     bindE (ok_or (Token NoAuthorityExists) (option_of_non_zero (withdraw_withheld_authority c))) (\<lambda>k.
     bindE (validate_owner E program_id k auth (length (data_of w auth)) rest w) (\<lambda>_.
     if key destination_info = key mint_info then Inl Panic
     else bindE (unpack PodAccount (data_of w destination_info)) (\<lambda>dst.
     if mint (base dst) \<noteq> key mint_info then Inl (Token MintMismatch)
     else if pod_account_is_frozen (base dst) then Inl (Token AccountFrozen)
     else bindE (ok_or (Token Overflow) (checked_add (amount (base dst)) (config_withheld_amount c))) (\<lambda>a.
       Inr (store PodAccount destination_info (dst\<lparr>base := (base dst)\<lparr>amount := a\<rparr>\<rparr>)
             (store (PodMint E) mint_info
               (put_extension (PodMint E) TransferFeeConfigExt (c\<lparr>config_withheld_amount := 0\<rparr>) mt) w))))))))))))"

text \<open>\<open>harvest_from_account\<close> fails with a \<open>TokenError\<close>.\<close>

definition harvest_from_account :: "env \<Rightarrow> pubkey \<Rightarrow> account_info \<Rightarrow> world \<Rightarrow> token_error + (u64 \<times> world)" where
  "harvest_from_account E mint_key info w =
     bindE (map_err (\<lambda>_. InvalidState) (unpack PodAccount (data_of w info))) (\<lambda>st.
     if mint (base st) \<noteq> mint_key then Inl MintMismatch
     else bindE (map_err (\<lambda>_. InvalidState) (check_program_account (owner_of w info))) (\<lambda>_.
       bindE (map_err (\<lambda>_. InvalidState) (get_extension E PodAccount TransferFeeAmountExt st)) (\<lambda>n.
         Inr (n, store PodAccount info (put_extension PodAccount TransferFeeAmountExt 0 st) w))))"

text \<open>Errors of single accounts are logged and skipped.  The mint is borrowed mutably during the loop:
  naming it among the accounts panics.\<close>

fun harvest_to_mint ::
    "env \<Rightarrow> pubkey \<Rightarrow> account_info list \<Rightarrow> transfer_fee_config \<times> world \<Rightarrow> (transfer_fee_config \<times> world) result" where
  "harvest_to_mint E mint_key [] st = Inr st"
| "harvest_to_mint E mint_key (a # as) (c, w) =
     (if key a = mint_key then Inl Panic
      else case harvest_from_account E mint_key a w of
        Inl e \<Rightarrow> harvest_to_mint E mint_key as (c, w)
      | Inr (n, w') \<Rightarrow>
          bindE (ok_or (Token Overflow) (checked_add (config_withheld_amount c) n)) (\<lambda>m.
            harvest_to_mint E mint_key as (c\<lparr>config_withheld_amount := m\<rparr>, w')))"

definition process_harvest_withheld_tokens_to_mint ::
    "env \<Rightarrow> account_info list \<Rightarrow> world \<Rightarrow> world result" where
  "process_harvest_withheld_tokens_to_mint E accounts w =
     bindE (next_account_info accounts) (\<lambda>(mint_info, token_infos).
     bindE (unpack (PodMint E) (data_of w mint_info)) (\<lambda>mt.
     bindE (get_extension E (PodMint E) TransferFeeConfigExt mt) (\<lambda>c.
     bindE (harvest_to_mint E (key mint_info) token_infos (c, w)) (\<lambda>(c, w).
       Inr (store (PodMint E) mint_info (put_extension (PodMint E) TransferFeeConfigExt c mt) w)))))"

text \<open>The destination is held unpacked during the loop; it may be one of the accounts.\<close>

fun harvest_to_account ::
    "env \<Rightarrow> pubkey \<Rightarrow> pubkey \<Rightarrow> account_info list \<Rightarrow> pod_account ext_state \<times> world \<Rightarrow>
     (pod_account ext_state \<times> world) result" where
  "harvest_to_account E mint_key dst_key [] st = Inr st"
| "harvest_to_account E mint_key dst_key (a # as) (dst, w) =
     (if key a = dst_key then
        bindE (map_err (\<lambda>_. Token InvalidState) (get_extension E PodAccount TransferFeeAmountExt dst)) (\<lambda>n.
        let dst = put_extension PodAccount TransferFeeAmountExt 0 dst in
        bindE (ok_or (Token Overflow) (checked_add (amount (base dst)) n)) (\<lambda>m.
          harvest_to_account E mint_key dst_key as (dst\<lparr>base := (base dst)\<lparr>amount := m\<rparr>\<rparr>, w)))
      else if key a = mint_key then Inl Panic
      else case harvest_from_account E mint_key a w of
        Inl e \<Rightarrow> harvest_to_account E mint_key dst_key as (dst, w)
      | Inr (n, w') \<Rightarrow>
          bindE (ok_or (Token Overflow) (checked_add (amount (base dst)) n)) (\<lambda>m.
            harvest_to_account E mint_key dst_key as (dst\<lparr>base := (base dst)\<lparr>amount := m\<rparr>\<rparr>, w')))"

definition process_withdraw_withheld_tokens_from_accounts ::
    "env \<Rightarrow> pubkey \<Rightarrow> account_info list \<Rightarrow> u8 \<Rightarrow> world \<Rightarrow> world result" where
  "process_withdraw_withheld_tokens_from_accounts E program_id accounts num_token_accounts w =
     bindE (next_account_info accounts) (\<lambda>(mint_info, it).
     bindE (next_account_info it) (\<lambda>(destination_info, it).
     bindE (next_account_info it) (\<lambda>(auth, infos).
     let num_signers = length infos - unat num_token_accounts in
     bindE (check_program_account (owner_of w mint_info)) (\<lambda>_.
     bindE (unpack (PodMint E) (data_of w mint_info)) (\<lambda>mt.
     bindE (get_extension E (PodMint E) TransferFeeConfigExt mt) (\<lambda>c.
     bindE (ok_or (Token NoAuthorityExists) (option_of_non_zero (withdraw_withheld_authority c))) (\<lambda>k.
     bindE (validate_owner E program_id k auth (length (data_of w auth)) (take num_signers infos) w) (\<lambda>_.
     if key destination_info = key mint_info then Inl Panic
     else bindE (unpack PodAccount (data_of w destination_info)) (\<lambda>dst.
     if mint (base dst) \<noteq> key mint_info then Inl (Token MintMismatch)
     else if pod_account_is_frozen (base dst) then Inl (Token AccountFrozen)
     else bindE (harvest_to_account E (key mint_info) (key destination_info) (drop num_signers infos) (dst, w))
       (\<lambda>(dst, w). Inr (store PodAccount destination_info dst w)))))))))))"

section \<open>The fee schedule\<close>

lemma unat_saturating_add_2:
  "unat (n :: u64) + 2 < 2 ^ 64 \<Longrightarrow> unat (saturating_add n 2) = unat n + 2"
  by (simp add: saturating_add_def unat_word_ariths)

lemma schedule_fee_spec:
  assumes "unat now + 2 < 2 ^ 64"
  shows "unat now \<le> unat e \<Longrightarrow> unat e < unat now + 2 \<Longrightarrow> get_epoch_fee (schedule_fee now bps m c) e = get_epoch_fee c now"
    "unat now + 2 \<le> unat e \<Longrightarrow> get_epoch_fee (schedule_fee now bps m c) e =
       \<lparr>fee_epoch = saturating_add now 2, maximum_fee = m, transfer_fee_basis_points = bps\<rparr>"
  using unat_saturating_add_2 [OF assms]
  by (auto simp: schedule_fee_def get_epoch_fee_def word_le_nat_alt Let_def)

text \<open>\<open>SetTransferFee\<close>: with the consent of the fee authority a fee of at most 100\% is
  scheduled two epochs ahead.  Until then, in the current and in the next epoch, the fee in force is the
  one that was in force; from then on it is the new one.  The withheld tokens and the authorities stay.\<close>

theorem set_transfer_fee_correct:
  assumes "process_set_transfer_fee E p (a # auth # rest) bps m w = Inr w'" "clock_get E = Inr now"
    "unat (epoch now) + 2 < 2 ^ 64"
  shows "\<exists>mt c c'. unpack (PodMint E) (data_of w a) = Inr mt \<and> get_extension E (PodMint E) TransferFeeConfigExt mt = Inr c \<and>
    (\<exists>mt'. unpack (PodMint E) (data_of w' a) = Inr mt' \<and> base mt' = base mt \<and>
       get_extension E (PodMint E) TransferFeeConfigExt mt' = Inr c') \<and>
    consents p (transfer_fee_config_authority c) auth rest w \<and> bps \<le> MAX_FEE_BASIS_POINTS \<and>
    (\<forall>e. unat (epoch now) \<le> unat e \<and> unat e < unat (epoch now) + 2 \<longrightarrow> get_epoch_fee c' e = get_epoch_fee c (epoch now)) \<and>
    (\<forall>e. unat (epoch now) + 2 \<le> unat e \<longrightarrow>
       transfer_fee_basis_points (get_epoch_fee c' e) = bps \<and> maximum_fee (get_epoch_fee c' e) = m) \<and>
    config_withheld_amount c' = config_withheld_amount c \<and>
    withdraw_withheld_authority c' = withdraw_withheld_authority c \<and> changes_only {key a} w w'"
proof -
  from assms(1,2) obtain mt c where mt: "unpack (PodMint E) (data_of w a) = Inr mt"
    and c: "get_extension E (PodMint E) TransferFeeConfigExt mt = Inr c"
    and v: "validate_owner E p (transfer_fee_config_authority c) auth (length (data_of w auth)) rest w = Inr ()"
    and b: "bps \<le> MAX_FEE_BASIS_POINTS"
    and w': "w' = store (PodMint E) a (put_extension (PodMint E) TransferFeeConfigExt (schedule_fee (epoch now) bps m c) mt) w"
    by (auto simp: process_set_transfer_fee_def success_simps option_of_non_zero_def not_less split: if_splits)
  let ?c = "schedule_fee (epoch now) bps m c"
  have "live_mint_state E mt" using mt by (simp add: unpack_mint_live)
  then have "unpack (PodMint E) (data_of w' a) = Inr (put_extension (PodMint E) TransferFeeConfigExt ?c mt)"
    by (simp add: w' frame)
  moreover have "get_extension E (PodMint E) TransferFeeConfigExt (put_extension (PodMint E) TransferFeeConfigExt ?c mt) = Inr ?c"
    by (rule mint_transfer_fee_config.get_put_extension [OF c transfer_fee_config.all_valid])
  moreover have "config_withheld_amount ?c = config_withheld_amount c"
    "withdraw_withheld_authority ?c = withdraw_withheld_authority c" by (simp_all add: schedule_fee_def Let_def)
  moreover have "changes_only {key a} w w'" unfolding w' by (rule changes_only_store)
  ultimately show ?thesis using mt c b validate_owner_consents [OF v] schedule_fee_spec [OF assms(3)]
    by (intro exI [of _ mt] exI [of _ c] exI [of _ ?c] conjI exI [of _ "put_extension (PodMint E) TransferFeeConfigExt ?c mt"])
       auto
qed

section \<open>A mint with a fee\<close>

definition sample_config :: transfer_fee_config where
  "sample_config = \<lparr>transfer_fee_config_authority = 22, withdraw_withheld_authority = 23, config_withheld_amount = 40,
     older_transfer_fee = \<lparr>fee_epoch = 0, maximum_fee = 500, transfer_fee_basis_points = 100\<rparr>,
     newer_transfer_fee = \<lparr>fee_epoch = 3, maximum_fee = 500, transfer_fee_basis_points = 200\<rparr>\<rparr>"

definition fee_mint :: "pod_mint ext_state" where
  "fee_mint = \<lparr>base = live_mint, padding = replicate 83 0, account_type = [1],
     tlv_data = tlv_entry extension_type.TransferFeeConfig (ext_bytes TransferFeeConfigExt sample_config)\<rparr>"

lemma get_extension_entry:
  assumes "tlv_data st = tlv_entry (ext_type V) (ext_bytes V v) @ rest" "get_account_type (ext_type V) = ACCOUNT_TYPE S"
    "ext_valid V v" "ext_len V < 2 ^ 16"
  shows "get_extension E S V st = Inr v"
  using assms by (simp add: get_extension_def ext_valid_def)

lemma tlv_entry_not_Nil [simp]: "tlv_entry t x \<noteq> []"
  using length_tlv_entry [of t x] by (metis add_is_0 length_0_conv zero_neq_numeral)

lemma fee_mint_config [simp]:
  "get_extension E (PodMint E) TransferFeeConfigExt fee_mint = Inr sample_config"
  by (rule get_extension_entry [where rest = "[]"])
     (simp_all add: fee_mint_def transfer_fee_config.all_valid, simp add: ext_defs)

lemma unpack_fee_mint [simp]:
  "unpack (PodMint sample_env) (state_bytes (PodMint sample_env) fee_mint) = Inr fee_mint"
proof -
  have "length (tlv_data fee_mint) = 112"
    using transfer_fee_config.all_valid [of sample_config] by (simp add: fee_mint_def ext_valid_def) (simp add: ext_defs)
  then have "live_mint_state sample_env fee_mint"
    by (simp add: live_mint_state_def shape_ok_def pod_mint.length_state_bytes pod_mint_is_initialized_def
        PodMint_SIZE_OF_def BASE_ACCOUNT_LENGTH_def Account_LEN_def Multisig_LEN_def)
       (auto simp: fee_mint_def live_mint_def)
  then show ?thesis by simp
qed

text \<open>Key 9 is that mint; key 7 holds 100 of its tokens and 7 withheld, key 8 holds 5.\<close>

definition fee_holder :: "pubkey \<Rightarrow> u64 \<Rightarrow> u64 \<Rightarrow> pod_account ext_state" where
  "fee_holder p n f = \<lparr>base = holder p n, padding = [], account_type = [2],
     tlv_data = tlv_entry TransferFeeAmount (word_le f)\<rparr>"

definition fee_ledger :: world where
  "fee_ledger = ledger (\<lambda>k. if k = 7 then state_bytes PodAccount (fee_holder 30 100 7)
     else if k = 8 then state_bytes PodAccount (fee_holder 31 5 0)
     else if k = 9 then state_bytes (PodMint sample_env) fee_mint else [])"

lemma fee_holder_simps [simp]:
  "get_extension E PodAccount TransferFeeAmountExt (fee_holder p n f) = Inr f"
  "base (fee_holder p n f) = holder p n" "live (fee_holder p n f)"
proof -
  show "get_extension E PodAccount TransferFeeAmountExt (fee_holder p n f) = Inr f"
    by (rule get_extension_entry [where rest = "[]"])
       (simp_all add: fee_holder_def transfer_fee_amount.all_valid, simp_all add: ext_defs)
  show "base (fee_holder p n f) = holder p n" by (simp add: fee_holder_def)
  show "live (fee_holder p n f)"
    by (simp add: live_def shape_ok_def pod_account.length_state_bytes PodAccount_SIZE_OF_def
        BASE_ACCOUNT_LENGTH_def Account_LEN_def Multisig_LEN_def)
       (auto simp: fee_holder_def)
qed

lemma fee_ledger_data [simp]:
  "data_of fee_ledger \<lparr>key = 7, is_signer = b\<rparr> = state_bytes PodAccount (fee_holder 30 100 7)"
  "data_of fee_ledger \<lparr>key = 8, is_signer = b\<rparr> = state_bytes PodAccount (fee_holder 31 5 0)"
  "data_of fee_ledger \<lparr>key = 9, is_signer = b\<rparr> = state_bytes (PodMint sample_env) fee_mint"
  "owner_of fee_ledger a = token_2022_id"
  by (simp_all add: fee_ledger_def)

lemma validate_fee_ledger [simp]:
  "k \<notin> {7, 8, 9} \<Longrightarrow> validate_owner E p k \<lparr>key = k, is_signer = True\<rparr>
     (length (data_of fee_ledger \<lparr>key = k, is_signer = True\<rparr>)) ss w = Inr ()"
  by (simp add: fee_ledger_def validate_signer PodMultisig_SIZE_OF_def)

theorem set_transfer_fee_correct_witness:
  "\<exists>w' mt'. process_set_transfer_fee sample_env token_2022_id
     [\<lparr>key = 9, is_signer = False\<rparr>, \<lparr>key = 22, is_signer = True\<rparr>] 300 1000 fee_ledger = Inr w' \<and>
     unpack (PodMint sample_env) (data_of w' \<lparr>key = 9, is_signer = False\<rparr>) = Inr mt' \<and> mint_supply (base mt') = 1000"
proof -
  have "isOk (process_set_transfer_fee sample_env token_2022_id
     [\<lparr>key = 9, is_signer = False\<rparr>, \<lparr>key = 22, is_signer = True\<rparr>] 300 1000 fee_ledger)"
    by (simp add: process_set_transfer_fee_def sample_config_def option_of_non_zero_def MAX_FEE_BASIS_POINTS_def)
  then obtain w' where t: "process_set_transfer_fee sample_env token_2022_id
     [\<lparr>key = 9, is_signer = False\<rparr>, \<lparr>key = 22, is_signer = True\<rparr>] 300 1000 fee_ledger = Inr w'"
    by (auto simp: isOk_iff)
  have "mint_supply (base fee_mint) = 1000" by (simp add: fee_mint_def)
  with set_transfer_fee_correct [OF t sample_env_simps(6)] t show ?thesis by auto
qed

end
