(* ===== verification/Extension_Processors.thy ===== *)
theory Extension_Processors
  imports Fee_Processor "HOL-Library.Signed_Division"
begin

text \<open>
  The processors of the small extensions under \<open>src/programs/src/extension/\<close>: memo transfer,
  CPI guard, default account state, the pointers (metadata, group, group member), the transfer hook and
  the interest-bearing mint.  An \<open>OptionalNonZeroPubkey\<close> argument is the key it wraps, 0 for
  none.
\<close>

section \<open>Switches of a token account\<close>

text \<open>\<open>if let Ok(e) = get_extension_mut() { e } else { init_extension(true)? }\<close>, then the
  assignment of the flag.\<close>

definition set_switch ::
    "env \<Rightarrow> u8 extension \<Rightarrow> bool \<Rightarrow> pod_account ext_state \<Rightarrow> pod_account ext_state result" where
  "set_switch E V enable st =
     (case get_extension E PodAccount V st of
        Inr b \<Rightarrow> Inr (put_extension PodAccount V (pod_of_bool E enable) st)
      | Inl e \<Rightarrow> bindE (init_extension PodAccount V True st) (\<lambda>st.
          Inr (put_extension PodAccount V (pod_of_bool E enable) st)))"

definition process_toggle_required_memo_transfers ::
    "env \<Rightarrow> pubkey \<Rightarrow> account_info list \<Rightarrow> bool \<Rightarrow> world \<Rightarrow> world result" where
  "process_toggle_required_memo_transfers E program_id accounts enable w =
     bindE (next_account_info accounts) (\<lambda>(info, it).
     bindE (next_account_info it) (\<lambda>(owner_info, rest).
     bindE (unpack PodAccount (data_of w info)) (\<lambda>account.
     bindE (validate_owner E program_id (owner (base account)) owner_info (length (data_of w owner_info)) rest w) (\<lambda>_.
     bindE (set_switch E MemoTransferExt enable account) (\<lambda>account.
       Inr (store PodAccount info account w))))))"

definition process_toggle_cpi_guard ::
    "env \<Rightarrow> pubkey \<Rightarrow> account_info list \<Rightarrow> bool \<Rightarrow> world \<Rightarrow> world result" where
  "process_toggle_cpi_guard E program_id accounts enable w =
     bindE (next_account_info accounts) (\<lambda>(info, it).
     bindE (next_account_info it) (\<lambda>(owner_info, rest).
     bindE (unpack PodAccount (data_of w info)) (\<lambda>account.
     bindE (validate_owner E program_id (owner (base account)) owner_info (length (data_of w owner_info)) rest w) (\<lambda>_.
     if in_cpi E then Inl (Token CpiGuardSettingsLocked)
     else bindE (set_switch E CpiGuardExt enable account) (\<lambda>account.
       Inr (store PodAccount info account w))))))"

section \<open>The default state of new accounts\<close>

fun check_valid_default_state :: "account_state \<Rightarrow> unit result" where
  "check_valid_default_state account_state.Uninitialized = Inl (Token InvalidState)"
| "check_valid_default_state s = Inr ()"

definition process_initialize_default_account_state ::
    "env \<Rightarrow> account_info list \<Rightarrow> account_state \<Rightarrow> world \<Rightarrow> world result" where
  "process_initialize_default_account_state E accounts s w =
     bindE (check_valid_default_state s) (\<lambda>_.
       init_uninitialized (PodMint E) DefaultAccountStateExt (Inr (account_state_u8 s)) accounts w)"

definition process_update_default_account_state ::
    "env \<Rightarrow> pubkey \<Rightarrow> account_info list \<Rightarrow> account_state \<Rightarrow> world \<Rightarrow> world result" where
  "process_update_default_account_state E program_id accounts s w =
     bindE (check_valid_default_state s) (\<lambda>_.
     bindE (next_account_info accounts) (\<lambda>(mint_info, it).
     bindE (next_account_info it) (\<lambda>(auth, rest).
     bindE (unpack (PodMint E) (data_of w mint_info)) (\<lambda>mt.
     bindE (case pod_match_some (freeze_authority (base mt)) of
              Some k \<Rightarrow> validate_owner E program_id k auth (length (data_of w auth)) rest w
            | None \<Rightarrow> Inl (Token NoAuthorityExists)) (\<lambda>_.
     bindE (get_extension E (PodMint E) DefaultAccountStateExt mt) (\<lambda>_.
       Inr (store (PodMint E) mint_info
              (put_extension (PodMint E) DefaultAccountStateExt (account_state_u8 s) mt) w)))))))"

section \<open>Pointers\<close>

text \<open>The arguments are checked after the extension was initialised (metadata pointer, transfer hook) or
  before (the others); \<open>init_checked\<close> is the second order, \<open>init_uninitialized\<close> the
  first.\<close>

definition init_checked ::
    "'s base_state \<Rightarrow> 'v extension \<Rightarrow> 'v result \<Rightarrow> account_info list \<Rightarrow> world \<Rightarrow> world result" where
  "init_checked S V value accounts w =
     bindE (next_account_info accounts) (\<lambda>(info, it).
     bindE (unpack_uninitialized S (data_of w info)) (\<lambda>st.
     bindE value (\<lambda>v.
     bindE (init_extension S V True st) (\<lambda>st. Inr (store S info (put_extension S V v st) w)))))"

definition new_pointer :: "pubkey \<Rightarrow> pubkey \<Rightarrow> pointer result" where
  "new_pointer auth addr =
     (if option_of_non_zero auth = None \<and> option_of_non_zero addr = None then Inl (Token InvalidInstruction)
      else Inr \<lparr>authority = auth, address = addr\<rparr>)"

definition update_address ::
    "env \<Rightarrow> pubkey \<Rightarrow> pointer extension \<Rightarrow> unit result \<Rightarrow> account_info list \<Rightarrow> pubkey \<Rightarrow> world \<Rightarrow> world result" where
  "update_address E program_id V check accounts new_address w =
     bindE (next_account_info accounts) (\<lambda>(mint_info, it).
     bindE (next_account_info it) (\<lambda>(owner_info, rest).
     bindE (unpack (PodMint E) (data_of w mint_info)) (\<lambda>mt.
     bindE (get_extension E (PodMint E) V mt) (\<lambda>v.
     bindE (ok_or (Token NoAuthorityExists) (option_of_non_zero (authority v))) (\<lambda>k.
     bindE (validate_owner E program_id k owner_info (length (data_of w owner_info)) rest w) (\<lambda>_.
     bindE check (\<lambda>_.
       Inr (store (PodMint E) mint_info (put_extension (PodMint E) V (v\<lparr>address := new_address\<rparr>) mt) w))))))))"

definition metadata_pointer_initialize ::
    "env \<Rightarrow> account_info list \<Rightarrow> pubkey \<Rightarrow> pubkey \<Rightarrow> world \<Rightarrow> world result" where
  "metadata_pointer_initialize E accounts auth addr w =
     init_uninitialized (PodMint E) MetadataPointerExt (new_pointer auth addr) accounts w"

definition metadata_pointer_update ::
    "env \<Rightarrow> pubkey \<Rightarrow> account_info list \<Rightarrow> pubkey \<Rightarrow> world \<Rightarrow> world result" where
  "metadata_pointer_update E program_id = update_address E program_id MetadataPointerExt (Inr ())"

definition group_pointer_initialize ::
    "env \<Rightarrow> account_info list \<Rightarrow> pubkey \<Rightarrow> pubkey \<Rightarrow> world \<Rightarrow> world result" where
  "group_pointer_initialize E accounts auth addr w =
     init_checked (PodMint E) GroupPointerExt (new_pointer auth addr) accounts w"

definition group_pointer_update ::
    "env \<Rightarrow> pubkey \<Rightarrow> account_info list \<Rightarrow> pubkey \<Rightarrow> world \<Rightarrow> world result" where
  "group_pointer_update E program_id = update_address E program_id GroupPointerExt (Inr ())"

definition group_member_pointer_initialize ::
    "env \<Rightarrow> account_info list \<Rightarrow> pubkey \<Rightarrow> pubkey \<Rightarrow> world \<Rightarrow> world result" where
  "group_member_pointer_initialize E accounts auth addr w =
     init_checked (PodMint E) GroupMemberPointerExt (new_pointer auth addr) accounts w"

definition group_member_pointer_update ::
    "env \<Rightarrow> pubkey \<Rightarrow> account_info list \<Rightarrow> pubkey \<Rightarrow> world \<Rightarrow> world result" where
  "group_member_pointer_update E program_id = update_address E program_id GroupMemberPointerExt (Inr ())"

text \<open>A token program is not its own transfer hook.\<close>

definition transfer_hook_initialize ::
    "env \<Rightarrow> pubkey \<Rightarrow> account_info list \<Rightarrow> pubkey \<Rightarrow> pubkey \<Rightarrow> world \<Rightarrow> world result" where
  "transfer_hook_initialize E program_id accounts auth hook w =
     init_uninitialized (PodMint E) TransferHookExt
       (case option_of_non_zero hook of
          Some p \<Rightarrow> if p = program_id then Inl (Prog IncorrectProgramId) else Inr \<lparr>authority = auth, address = hook\<rparr>
        | None \<Rightarrow> if option_of_non_zero auth = None then Inl (Token InvalidInstruction)
                  else Inr \<lparr>authority = auth, address = hook\<rparr>) accounts w"

definition transfer_hook_update ::
    "env \<Rightarrow> pubkey \<Rightarrow> account_info list \<Rightarrow> pubkey \<Rightarrow> world \<Rightarrow> world result" where
  "transfer_hook_update E program_id accounts new_hook w =
     update_address E program_id TransferHookExt
       (if option_of_non_zero new_hook = Some program_id then Inl (Prog IncorrectProgramId) else Inr ())
       accounts new_hook w"

section \<open>Interest-bearing mints\<close>

text \<open>The checked operations of \<open>i128\<close>; division truncates.\<close>

definition i128 :: "int \<Rightarrow> int option" where
  "i128 n = (if - (2 ^ 127) \<le> n \<and> n < 2 ^ 127 then Some n else None)"

definition i128_div :: "int \<Rightarrow> int \<Rightarrow> int option" where
  "i128_div a b = (if b = 0 then None else i128 (a sdiv b))"

definition i16_try_from :: "int \<Rightarrow> u16 option" where
  "i16_try_from n = (if - (2 ^ 15) \<le> n \<and> n < 2 ^ 15 then Some (of_int n) else None)"

definition time_weighted_average_rate :: "interest_bearing_config \<Rightarrow> u64 \<Rightarrow> u16 option" where
  "time_weighted_average_rate c current_timestamp =
     (let initialization = sint (initialization_timestamp c); last_update = sint (last_update_timestamp c);
          r1 = sint (pre_update_average_rate c); r2 = sint (current_rate c)
      in Option.bind (i128 (last_update - initialization)) (\<lambda>t1.
         Option.bind (i128 (sint current_timestamp - last_update)) (\<lambda>t2.
         Option.bind (i128 (t1 + t2)) (\<lambda>total.
         Option.bind (if total = 0 then Some r2
           else Option.bind (i128 (r1 * t1)) (\<lambda>a.
                Option.bind (i128 (r2 * t2)) (\<lambda>b.
                Option.bind (i128 (a + b)) (\<lambda>s. i128_div s total)))) i16_try_from))))"

definition interest_bearing_initialize ::
    "env \<Rightarrow> account_info list \<Rightarrow> pubkey \<Rightarrow> u16 \<Rightarrow> world \<Rightarrow> world result" where
  "interest_bearing_initialize E accounts auth rate w =
     init_checked (PodMint E) InterestBearingConfigExt
       (bindE (clock_get E) (\<lambda>c.
          Inr \<lparr>rate_authority = auth, initialization_timestamp = unix_timestamp c,
               pre_update_average_rate = rate, last_update_timestamp = unix_timestamp c, current_rate = rate\<rparr>))
       accounts w"

definition interest_bearing_update_rate ::
    "env \<Rightarrow> pubkey \<Rightarrow> account_info list \<Rightarrow> u16 \<Rightarrow> world \<Rightarrow> world result" where
  "interest_bearing_update_rate E program_id accounts new_rate w =
     bindE (next_account_info accounts) (\<lambda>(mint_info, it).
     bindE (next_account_info it) (\<lambda>(owner_info, rest).
     bindE (unpack (PodMint E) (data_of w mint_info)) (\<lambda>mt.
     bindE (get_extension E (PodMint E) InterestBearingConfigExt mt) (\<lambda>v.
     bindE (ok_or (Token NoAuthorityExists) (option_of_non_zero (rate_authority v))) (\<lambda>k.
     bindE (validate_owner E program_id k owner_info (length (data_of w owner_info)) rest w) (\<lambda>_.
     bindE (clock_get E) (\<lambda>c.
     bindE (ok_or (Token Overflow) (time_weighted_average_rate v (unix_timestamp c))) (\<lambda>avg.
       Inr (store (PodMint E) mint_info (put_extension (PodMint E) InterestBearingConfigExt
              (v\<lparr>pre_update_average_rate := avg, last_update_timestamp := unix_timestamp c,
                 current_rate := new_rate\<rparr>) mt) w)))))))))"

section \<open>Correctness: the average rate\<close>

lemma sdiv_between:
  assumes "0 < (d::int)" "m * d \<le> s" "s \<le> M * d"
  shows "m \<le> s sdiv d \<and> s sdiv d \<le> M"
proof (cases "0 \<le> s")
  case True
  then have "s sdiv d = s div d" using assms(1) by (cases "s = 0") (simp_all add: signed_divide_int_def sgn_if)
  moreover have "m \<le> s div d" using zdiv_mono1 [OF assms(2,1)] assms(1) by simp
  moreover have "s div d \<le> M" using zdiv_mono1 [OF assms(3,1)] assms(1) by simp
  ultimately show ?thesis by simp
next
  case False
  then have e: "s sdiv d = - ((- s) div d)" using assms(1) by (simp add: signed_divide_int_def sgn_if)
  have c: "(k * d) div d = k" for k using assms(1) by (intro nonzero_mult_div_cancel_right) simp
  have "(- s) div d \<le> (- m * d) div d" "(- M * d) div d \<le> (- s) div d"
    using assms by (auto intro!: zdiv_mono1)
  then have "(- s) div d \<le> - m" "- M \<le> (- s) div d" by (simp_all only: c)
  then show ?thesis using e by simp
qed


lemma i128_Some: "\<bar>n\<bar> < 2 ^ 127 \<Longrightarrow> i128 n = Some n"
  by (auto simp: i128_def)

lemma rate_times_time:
  assumes "\<bar>r\<bar> \<le> (2::int) ^ 15" "\<bar>t\<bar> \<le> 2 ^ 64"
  shows "\<bar>r * t\<bar> \<le> 2 ^ 79"
  using mult_mono [OF assms] by (simp add: abs_mult)

lemma sint_u16: "- (2 ^ 15) \<le> sint (r :: u16)" "sint (r :: u16) < 2 ^ 15"
  using sint_ge [of r] sint_lt [of r] by simp_all

lemma sint_u64: "- (2 ^ 63) \<le> sint (t :: u64)" "sint (t :: u64) < 2 ^ 63"
  using sint_ge [of t] sint_lt [of t] by simp_all

lemma i16_try_from_Some:
  assumes "- (2 ^ 15) \<le> n" "n < 2 ^ 15"
  shows "i16_try_from n = Some (of_int n)" "sint (of_int n :: u16) = n"
  using assms by (simp_all add: i16_try_from_def int_word_sint)

text \<open>The time-weighted average of the rate is computed without overflow whenever time has not run
  backwards; it is the truncated weighted mean, and it lies between the two rates, so an update of the
  rate can never push the recorded average outside the rates that were in force.\<close>

theorem average_rate_spec:
  assumes "sint (initialization_timestamp c) \<le> sint (last_update_timestamp c)"
    "sint (last_update_timestamp c) \<le> sint now"
  shows "\<exists>r. time_weighted_average_rate c now = Some r \<and>
    min (sint (pre_update_average_rate c)) (sint (current_rate c)) \<le> sint r \<and>
    sint r \<le> max (sint (pre_update_average_rate c)) (sint (current_rate c)) \<and>
    (if sint now = sint (initialization_timestamp c) then r = current_rate c
     else sint r = (sint (pre_update_average_rate c) * (sint (last_update_timestamp c) - sint (initialization_timestamp c))
            + sint (current_rate c) * (sint now - sint (last_update_timestamp c)))
          sdiv (sint now - sint (initialization_timestamp c)))"
proof -
  define r1 r2 t1 t2 where "r1 = sint (pre_update_average_rate c)" and "r2 = sint (current_rate c)"
    and "t1 = sint (last_update_timestamp c) - sint (initialization_timestamp c)"
    and "t2 = sint now - sint (last_update_timestamp c)"
  note d = this
  have t: "0 \<le> t1" "0 \<le> t2" "t1 + t2 = sint now - sint (initialization_timestamp c)" using assms by (simp_all add: d)
  have b: "\<bar>t1\<bar> \<le> 2 ^ 64" "\<bar>t2\<bar> \<le> 2 ^ 64" "\<bar>t1 + t2\<bar> \<le> 2 ^ 64"
    using t sint_u64 [of now] sint_u64 [of "initialization_timestamp c"] by auto
  have r: "- (2 ^ 15) \<le> r1" "r1 < 2 ^ 15" "- (2 ^ 15) \<le> r2" "r2 < 2 ^ 15"
    using sint_u16 [of "pre_update_average_rate c"] sint_u16 [of "current_rate c"] by (simp_all add: d)
  then have "\<bar>r1\<bar> \<le> 2 ^ 15" "\<bar>r2\<bar> \<le> 2 ^ 15" by auto
  with b have p: "\<bar>r1 * t1\<bar> \<le> 2 ^ 79" "\<bar>r2 * t2\<bar> \<le> 2 ^ 79" by (blast intro: rate_times_time)+
  have i: "i128 t1 = Some t1" "i128 t2 = Some t2" "i128 (t1 + t2) = Some (t1 + t2)" "i128 (r1 * t1) = Some (r1 * t1)"
    "i128 (r2 * t2) = Some (r2 * t2)" "i128 (r1 * t1 + r2 * t2) = Some (r1 * t1 + r2 * t2)"
    using b p by (auto intro!: i128_Some)
  let ?avg = "(r1 * t1 + r2 * t2) sdiv (t1 + t2)"
  have run: "time_weighted_average_rate c now =
      (if t1 + t2 = 0 then i16_try_from r2 else Option.bind (i128 ?avg) i16_try_from)"
    using i by (simp add: time_weighted_average_rate_def Let_def i128_div_def flip: d)
  show ?thesis
  proof (cases "t1 + t2 = 0")
    case True
    then have "time_weighted_average_rate c now = Some (current_rate c)"
      using i16_try_from_Some(1) [OF r(3,4)] by (simp add: run) (simp add: d)
    with True t(3) show ?thesis by (auto simp: min_def max_def)
  next
    case False
    have m: "min r1 r2 \<le> ?avg \<and> ?avg \<le> max r1 r2"
    proof (rule sdiv_between)
      show "0 < t1 + t2" using False t by simp
      have "min r1 r2 * t1 \<le> r1 * t1" "min r1 r2 * t2 \<le> r2 * t2" "r1 * t1 \<le> max r1 r2 * t1" "r2 * t2 \<le> max r1 r2 * t2"
        using t by (simp_all add: mult_right_mono)
      then show "min r1 r2 * (t1 + t2) \<le> r1 * t1 + r2 * t2" "r1 * t1 + r2 * t2 \<le> max r1 r2 * (t1 + t2)"
        by (simp_all add: distrib_left)
    qed
    with r have a: "- (2 ^ 15) \<le> ?avg" "?avg < 2 ^ 15" by linarith+
    then have "i128 ?avg = Some ?avg" by (intro i128_Some) auto
    with False run i16_try_from_Some [OF a] have "time_weighted_average_rate c now = Some (of_int ?avg)"
      "sint (of_int ?avg :: u16) = ?avg" by simp_all
    with m False t(3) show ?thesis unfolding d by auto
  qed
qed

text \<open>A rate of 5\% for 100 seconds, then 1\% for 300.\<close>

definition sample_rates :: interest_bearing_config where
  "sample_rates = \<lparr>rate_authority = 25, initialization_timestamp = 600, pre_update_average_rate = 500,
     last_update_timestamp = 700, current_rate = 100\<rparr>"

theorem average_rate_spec_witness:
  "\<exists>r. time_weighted_average_rate sample_rates 1000 = Some r \<and> sint r = 200"
proof -
  have "sint (initialization_timestamp sample_rates) \<le> sint (last_update_timestamp sample_rates)"
    "sint (last_update_timestamp sample_rates) \<le> sint (1000 :: u64)" by (simp_all add: sample_rates_def)
  from average_rate_spec [OF this] show ?thesis by (auto simp: sample_rates_def signed_divide_int_def)
qed

section \<open>Correctness: switches\<close>

lemma live_init:
  "init_extension_with PodAccount V v overwrite st = Inr st' \<Longrightarrow> live st' = live st"
  by (simp add: live_def pod_account.shape_ok_init init_extension_base)

lemma set_switch_Inr:
  assumes "set_switch E V enable st = Inr st'" "extension_of_state PodAccount V" "total_extension V"
  shows "base st' = base st" "live st' = live st" "get_extension E PodAccount V st' = Inr (pod_of_bool E enable)"
    "ext_type U \<noteq> ext_type V \<Longrightarrow> get_extension E PodAccount U st = Inr x \<Longrightarrow> get_extension E PodAccount U st' = Inr x"
proof -
  have valid: "ext_valid V v" for v using assms(3) by (rule total_extension.all_valid)
  note put = extension_of_state.get_put_extension [OF assms(2) _ valid]
  note init = extension_of_state.get_init_extension_with [OF assms(2) _ valid]
  show "base st' = base st" "live st' = live st" "get_extension E PodAccount V st' = Inr (pod_of_bool E enable)"
    "ext_type U \<noteq> ext_type V \<Longrightarrow> get_extension E PodAccount U st = Inr x \<Longrightarrow> get_extension E PodAccount U st' = Inr x"
    using assms(1)
    by (auto simp: set_switch_def init_extension_def success_simps init_extension_base live_init
        put put [OF init] pod_account.get_init_extension_other split: sum.splits)
qed

lemmas memo_switch = set_switch_Inr [OF _ account_memo.extension_of_state_axioms memo_transfer.total_extension_axioms]
lemmas cpi_switch = set_switch_Inr [OF _ account_cpi_guard.extension_of_state_axioms cpi_guard.total_extension_axioms]

lemma process_toggle_cpi_guard_Inr:
  assumes "process_toggle_cpi_guard E p (a # auth # rest) enable w = Inr w'"
  obtains st st' where "unpack PodAccount (data_of w a) = Inr st" "consents p (owner (base st)) auth rest w"
    "\<not> in_cpi E" "set_switch E CpiGuardExt enable st = Inr st'" "w' = store PodAccount a st' w"
  using assms by (auto simp: process_toggle_cpi_guard_def success_simps dest: validate_owner_consents)

lemma process_toggle_memo_Inr:
  assumes "process_toggle_required_memo_transfers E p (a # auth # rest) enable w = Inr w'"
  obtains st st' where "unpack PodAccount (data_of w a) = Inr st" "consents p (owner (base st)) auth rest w"
    "set_switch E MemoTransferExt enable st = Inr st'" "w' = store PodAccount a st' w"
  using assms by (auto simp: process_toggle_required_memo_transfers_def success_simps dest: validate_owner_consents)

text \<open>The CPI guard is switched only by the owner and only outside of a cross-program invocation, so
  a program that the owner calls cannot lift it; afterwards the guard is on or off as asked, and no
  other extension and nothing of the account itself has changed.\<close>

theorem toggle_cpi_guard_correct:
  assumes "process_toggle_cpi_guard E p (a # auth # rest) enable w = Inr w'" "pod_bool_ok E"
  shows "\<not> in_cpi E \<and> (\<exists>st st'. unpack PodAccount (data_of w a) = Inr st \<and> consents p (owner (base st)) auth rest w \<and>
    unpack PodAccount (data_of w' a) = Inr st' \<and> base st' = base st \<and> cpi_guard_enabled E st' = enable \<and>
    (\<forall>U x. ext_type (U :: 'v extension) \<noteq> CpiGuard \<and> get_extension E PodAccount U st = Inr x \<longrightarrow>
       get_extension E PodAccount U st' = Inr x) \<and> changes_only {key a} w w')"
  using assms(1)
proof (rule process_toggle_cpi_guard_Inr)
  fix st st' assume *: "unpack PodAccount (data_of w a) = Inr st" "consents p (owner (base st)) auth rest w"
    "\<not> in_cpi E" "set_switch E CpiGuardExt enable st = Inr st'" "w' = store PodAccount a st' w"
  then have "live st'" using cpi_switch(2) [OF *(4)] by (simp add: unpack_account_live)
  moreover have "cpi_guard_enabled E st' = enable"
    using cpi_switch(3) [OF *(4)] assms(2) by (cases enable) (simp_all add: cpi_guard_enabled_def pod_bool_ok_def)
  ultimately show ?thesis using * cpi_switch(1) [OF *(4)] cpi_switch(4) [OF *(4)] changes_only_store
    by (intro conjI exI [of _ st] exI [of _ st']) (auto simp: frame)
qed

text \<open>An account of owner 30 with the CPI guard on.\<close>

definition guarded_holder :: "pod_account ext_state" where
  "guarded_holder = \<lparr>base = holder 30 100, padding = [], account_type = [2], tlv_data = tlv_entry CpiGuard [1]\<rparr>"

lemma guarded_holder_simps [simp]:
  "get_extension E PodAccount CpiGuardExt guarded_holder = Inr 1" "live guarded_holder"
  "base guarded_holder = holder 30 100"
proof -
  show "get_extension E PodAccount CpiGuardExt guarded_holder = Inr 1"
    by (rule get_extension_entry [where rest = "[]"])
       (simp_all add: guarded_holder_def cpi_guard.all_valid, simp_all add: ext_defs word_le_u8)
  show "live guarded_holder"
    by (simp add: live_def shape_ok_def pod_account.length_state_bytes PodAccount_SIZE_OF_def
        BASE_ACCOUNT_LENGTH_def Account_LEN_def Multisig_LEN_def)
       (auto simp: guarded_holder_def)
  show "base guarded_holder = holder 30 100" by (simp add: guarded_holder_def)
qed

definition guarded_ledger :: world where
  "guarded_ledger = ledger (\<lambda>k. if k = 7 then state_bytes PodAccount guarded_holder else [])"

lemma guarded_ledger_data [simp]:
  "data_of guarded_ledger \<lparr>key = 7, is_signer = b\<rparr> = state_bytes PodAccount guarded_holder"
  by (simp add: guarded_ledger_def)

lemma validate_guarded_ledger [simp]:
  "k \<noteq> 7 \<Longrightarrow> validate_owner E p k \<lparr>key = k, is_signer = True\<rparr>
     (length (data_of guarded_ledger \<lparr>key = k, is_signer = True\<rparr>)) ss w = Inr ()"
  by (simp add: guarded_ledger_def validate_signer PodMultisig_SIZE_OF_def)

theorem toggle_cpi_guard_correct_witness:
  "\<exists>w' st'. process_toggle_cpi_guard sample_env token_2022_id
     [\<lparr>key = 7, is_signer = False\<rparr>, \<lparr>key = 30, is_signer = True\<rparr>] False guarded_ledger = Inr w' \<and>
     unpack PodAccount (data_of w' \<lparr>key = 7, is_signer = False\<rparr>) = Inr st' \<and> \<not> cpi_guard_enabled sample_env st'"
proof -
  have "isOk (process_toggle_cpi_guard sample_env token_2022_id
     [\<lparr>key = 7, is_signer = False\<rparr>, \<lparr>key = 30, is_signer = True\<rparr>] False guarded_ledger)"
    by (simp add: process_toggle_cpi_guard_def in_cpi_def set_switch_def)
  then obtain w' where t: "process_toggle_cpi_guard sample_env token_2022_id
     [\<lparr>key = 7, is_signer = False\<rparr>, \<lparr>key = 30, is_signer = True\<rparr>] False guarded_ledger = Inr w'"
    by (auto simp: isOk_iff)
  from toggle_cpi_guard_correct [OF t sample_env_ok] t show ?thesis by auto
qed

section \<open>Correctness: the default state\<close>

lemma check_valid_default_state_Inr [success_simps]:
  "check_valid_default_state s = Inr u \<longleftrightarrow> s \<noteq> account_state.Uninitialized"
  by (cases s) auto

lemma process_update_default_state_Inr:
  assumes "process_update_default_account_state E p (m # auth # rest) s w = Inr w'"
  obtains mt k b where "unpack (PodMint E) (data_of w m) = Inr mt" "pod_match_some (freeze_authority (base mt)) = Some k"
    "consents p k auth rest w" "s \<noteq> account_state.Uninitialized" "get_extension E (PodMint E) DefaultAccountStateExt mt = Inr b"
    "w' = store (PodMint E) m (put_extension (PodMint E) DefaultAccountStateExt (account_state_u8 s) mt) w"
proof -
  from assms obtain mt b where *: "unpack (PodMint E) (data_of w m) = Inr mt" "s \<noteq> account_state.Uninitialized"
    "get_extension E (PodMint E) DefaultAccountStateExt mt = Inr b"
    "w' = store (PodMint E) m (put_extension (PodMint E) DefaultAccountStateExt (account_state_u8 s) mt) w"
    and c: "(case pod_match_some (freeze_authority (base mt)) of
       Some k \<Rightarrow> validate_owner E p k auth (length (data_of w auth)) rest w
     | None \<Rightarrow> Inl (Token NoAuthorityExists)) = Inr ()"
    by (auto simp: process_update_default_account_state_def success_simps)
  from c obtain k where "pod_match_some (freeze_authority (base mt)) = Some k" "consents p k auth rest w"
    by (auto dest: validate_owner_consents split: option.splits)
  with * that show ?thesis by blast
qed

text \<open>The default state governs: it is changed with the consent of the freeze authority only, and
  every account of the mint that is initialised afterwards starts in exactly that state.  The mint
  itself and its other extensions stay as they were.\<close>

theorem default_state_governs:
  assumes "process_update_default_account_state E p (m # auth # rest) s w = Inr w'"
  shows "\<exists>mt mt' k. unpack (PodMint E) (data_of w m) = Inr mt \<and> unpack (PodMint E) (data_of w' m) = Inr mt' \<and>
    pod_match_some (freeze_authority (base mt)) = Some k \<and> consents p k auth rest w \<and> base mt' = base mt \<and>
    (\<forall>U. ext_type (U :: 'v extension) \<noteq> DefaultAccountState \<longrightarrow>
       get_extension E (PodMint E) U mt' = get_extension E (PodMint E) U mt) \<and>
    (\<forall>new it q sysvar w''. process_initialize_account_with E (new # m # it) (Some q) sysvar w' = Inr w'' \<longrightarrow>
       (\<exists>st. unpack PodAccount (data_of w'' new) = Inr st \<and> mint (base st) = key m \<and>
          state (base st) = account_state_u8 s)) \<and>
    changes_only {key m} w w'"
  using assms
proof (rule process_update_default_state_Inr)
  fix mt k b assume *: "unpack (PodMint E) (data_of w m) = Inr mt" "pod_match_some (freeze_authority (base mt)) = Some k"
    "consents p k auth rest w" "s \<noteq> account_state.Uninitialized"
    and g: "get_extension E (PodMint E) DefaultAccountStateExt mt = Inr b"
    and w': "w' = store (PodMint E) m (put_extension (PodMint E) DefaultAccountStateExt (account_state_u8 s) mt) w"
  let ?mt = "put_extension (PodMint E) DefaultAccountStateExt (account_state_u8 s) mt"
  have u: "unpack (PodMint E) (data_of w' m) = Inr ?mt" using *(1) by (simp add: w' frame unpack_mint_live)
  have s: "starting_state E ?mt = Inr s"
    using mint_default_state.get_put_extension [OF g default_account_state.all_valid] by (simp add: starting_state_def)
  have "\<exists>st. unpack PodAccount (data_of w'' new) = Inr st \<and> mint (base st) = key m \<and> state (base st) = account_state_u8 s"
    if "process_initialize_account_with E (new # m # it) (Some q) sysvar w' = Inr w''" for new it q sysvar w''
    using initialize_account_facts [OF that _ u] s *(4) by auto
  with * u show ?thesis
    by (intro exI [of _ mt] exI [of _ ?mt] exI [of _ k]) (auto simp: w' changes_only_store)
qed

text \<open>The mint of key 9 with frozen new accounts.\<close>

definition frozen_mint :: "pod_mint ext_state" where
  "frozen_mint = \<lparr>base = live_mint, padding = replicate 83 0, account_type = [1],
     tlv_data = tlv_entry DefaultAccountState [2]\<rparr>"

lemma frozen_mint_simps [simp]:
  "get_extension E (PodMint E) DefaultAccountStateExt frozen_mint = Inr 2"
  "unpack (PodMint sample_env) (state_bytes (PodMint sample_env) frozen_mint) = Inr frozen_mint"
  "base frozen_mint = live_mint"
proof -
  show "get_extension E (PodMint E) DefaultAccountStateExt frozen_mint = Inr 2"
    by (rule get_extension_entry [where rest = "[]"])
       (simp_all add: frozen_mint_def default_account_state.all_valid, simp_all add: ext_defs word_le_u8)
  have "live_mint_state sample_env frozen_mint"
    by (simp add: live_mint_state_def shape_ok_def pod_mint.length_state_bytes pod_mint_is_initialized_def
        PodMint_SIZE_OF_def BASE_ACCOUNT_LENGTH_def Account_LEN_def Multisig_LEN_def)
       (auto simp: frozen_mint_def live_mint_def)
  then show "unpack (PodMint sample_env) (state_bytes (PodMint sample_env) frozen_mint) = Inr frozen_mint" by simp
  show "base frozen_mint = live_mint" by (simp add: frozen_mint_def)
qed

theorem default_state_governs_witness:
  "\<exists>w' mt'. process_update_default_account_state sample_env token_2022_id
     [\<lparr>key = 9, is_signer = False\<rparr>, \<lparr>key = 21, is_signer = True\<rparr>] account_state.Initialized
     (ledger (\<lambda>k. if k = 9 then state_bytes (PodMint sample_env) frozen_mint else [])) = Inr w' \<and>
     unpack (PodMint sample_env) (data_of w' \<lparr>key = 9, is_signer = False\<rparr>) = Inr mt' \<and> base mt' = live_mint"
proof -
  let ?w = "ledger (\<lambda>k. if k = 9 then state_bytes (PodMint sample_env) frozen_mint else [])"
  have "isOk (process_update_default_account_state sample_env token_2022_id
     [\<lparr>key = 9, is_signer = False\<rparr>, \<lparr>key = 21, is_signer = True\<rparr>] account_state.Initialized ?w)"
    by (simp add: process_update_default_account_state_def validate_signer PodMultisig_SIZE_OF_def)
  then obtain w' where t: "process_update_default_account_state sample_env token_2022_id
     [\<lparr>key = 9, is_signer = False\<rparr>, \<lparr>key = 21, is_signer = True\<rparr>] account_state.Initialized ?w = Inr w'"
    by (auto simp: isOk_iff)
  from default_state_governs [OF t] t show ?thesis by auto
qed

section \<open>Correctness: pointers\<close>

lemma update_address_Inr:
  assumes "update_address E p V check (m # auth # rest) new w = Inr w'"
  obtains mt v where "unpack (PodMint E) (data_of w m) = Inr mt" "get_extension E (PodMint E) V mt = Inr v"
    "authority v \<noteq> 0" "consents p (authority v) auth rest w" "check = Inr ()"
    "w' = store (PodMint E) m (put_extension (PodMint E) V (v\<lparr>address := new\<rparr>) mt) w"
  using assms by (auto simp: update_address_def success_simps option_of_non_zero_def
      dest!: validate_owner_consents split: if_splits)

text \<open>The transfer hook of a mint is replaced only with the consent of the hook authority, never by
  the token program itself; supply, authorities and every other extension of the mint are
  untouched, and so is the hook authority.  The hook that transfers call next is the new one.\<close>

theorem transfer_hook_update_correct:
  assumes "transfer_hook_update E p (m # auth # rest) new w = Inr w'"
  shows "\<exists>mt mt' h. unpack (PodMint E) (data_of w m) = Inr mt \<and> get_extension E (PodMint E) TransferHookExt mt = Inr h \<and>
    authority h \<noteq> 0 \<and> consents p (authority h) auth rest w \<and> option_of_non_zero new \<noteq> Some p \<and>
    unpack (PodMint E) (data_of w' m) = Inr mt' \<and> base mt' = base mt \<and>
    get_extension E (PodMint E) TransferHookExt mt' = Inr \<lparr>authority = authority h, address = new\<rparr> \<and>
    get_hook_program_id E mt' = option_of_non_zero new \<and>
    (\<forall>U. ext_type (U :: 'v extension) \<noteq> TransferHook \<longrightarrow>
       get_extension E (PodMint E) U mt' = get_extension E (PodMint E) U mt) \<and> changes_only {key m} w w'"
  using assms unfolding transfer_hook_update_def
proof (rule update_address_Inr)
  fix mt h assume *: "unpack (PodMint E) (data_of w m) = Inr mt" "get_extension E (PodMint E) TransferHookExt mt = Inr h"
    "authority h \<noteq> 0" "consents p (authority h) auth rest w"
    and c: "(if option_of_non_zero new = Some p then Inl (Prog IncorrectProgramId) else Inr ()) = Inr ()"
    and w': "w' = store (PodMint E) m (put_extension (PodMint E) TransferHookExt (h\<lparr>address := new\<rparr>) mt) w"
  let ?mt = "put_extension (PodMint E) TransferHookExt (h\<lparr>address := new\<rparr>) mt"
  have g: "get_extension E (PodMint E) TransferHookExt ?mt = Inr (h\<lparr>address := new\<rparr>)"
    by (rule mint_hook.get_put_extension [OF *(2) transfer_hook.all_valid])
  have "h\<lparr>address := new\<rparr> = \<lparr>authority = authority h, address = new\<rparr>" by simp
  moreover have "option_of_non_zero new \<noteq> Some p" using c by (auto split: if_splits)
  ultimately show ?thesis using * g
    by (intro exI [of _ mt] exI [of _ ?mt] exI [of _ h])
       (auto simp: w' frame changes_only_store unpack_mint_live get_hook_program_id_def)
qed

definition hooked_mint :: "pod_mint ext_state" where
  "hooked_mint = \<lparr>base = live_mint, padding = replicate 83 0, account_type = [1],
     tlv_data = tlv_entry TransferHook (ext_bytes TransferHookExt \<lparr>authority = 26, address = 40\<rparr>)\<rparr>"

lemma hooked_mint_simps [simp]:
  "get_extension E (PodMint E) TransferHookExt hooked_mint = Inr \<lparr>authority = 26, address = 40\<rparr>"
  "unpack (PodMint sample_env) (state_bytes (PodMint sample_env) hooked_mint) = Inr hooked_mint"
  "base hooked_mint = live_mint"
proof -
  show "get_extension E (PodMint E) TransferHookExt hooked_mint = Inr \<lparr>authority = 26, address = 40\<rparr>"
    by (rule get_extension_entry [where rest = "[]"])
       (simp_all add: hooked_mint_def transfer_hook.all_valid, simp add: ext_defs)
  have "length (tlv_data hooked_mint) = 68"
    using transfer_hook.all_valid [of "\<lparr>authority = 26, address = 40\<rparr>"]
    by (simp add: hooked_mint_def ext_valid_def) (simp add: ext_defs)
  then have "live_mint_state sample_env hooked_mint"
    by (simp add: live_mint_state_def shape_ok_def pod_mint.length_state_bytes pod_mint_is_initialized_def
        PodMint_SIZE_OF_def BASE_ACCOUNT_LENGTH_def Account_LEN_def Multisig_LEN_def)
       (auto simp: hooked_mint_def live_mint_def)
  then show "unpack (PodMint sample_env) (state_bytes (PodMint sample_env) hooked_mint) = Inr hooked_mint" by simp
  show "base hooked_mint = live_mint" by (simp add: hooked_mint_def)
qed

theorem transfer_hook_update_correct_witness:
  "\<exists>w' mt'. transfer_hook_update sample_env 77
     [\<lparr>key = 9, is_signer = False\<rparr>, \<lparr>key = 26, is_signer = True\<rparr>] 41
     (ledger (\<lambda>k. if k = 9 then state_bytes (PodMint sample_env) hooked_mint else [])) = Inr w' \<and>
     unpack (PodMint sample_env) (data_of w' \<lparr>key = 9, is_signer = False\<rparr>) = Inr mt' \<and>
     get_hook_program_id sample_env mt' = Some 41"
proof -
  let ?w = "ledger (\<lambda>k. if k = 9 then state_bytes (PodMint sample_env) hooked_mint else [])"
  have "isOk (transfer_hook_update sample_env 77
     [\<lparr>key = 9, is_signer = False\<rparr>, \<lparr>key = 26, is_signer = True\<rparr>] 41 ?w)"
    by (simp add: transfer_hook_update_def update_address_def option_of_non_zero_def
        validate_signer PodMultisig_SIZE_OF_def)
  then obtain w' where t: "transfer_hook_update sample_env 77
     [\<lparr>key = 9, is_signer = False\<rparr>, \<lparr>key = 26, is_signer = True\<rparr>] 41 ?w = Inr w'"
    by (auto simp: isOk_iff)
  from transfer_hook_update_correct [OF t] t show ?thesis by (auto simp: option_of_non_zero_def)
qed

end
