(* ===== verification/Zk.thy ===== *)
theory Zk
  imports Extension_Processors
begin

text \<open>
  The zero-knowledge side of confidential transfers: \<open>src/programs/src/proof.rs\<close>,
  \<open>extension/confidential_transfer/verify_proof.rs\<close> and \<open>ciphertext_extraction.rs\<close>.  A proof is
  never checked here: it was verified by the proof program, either in an instruction of the same transaction or
  in a context account that the proof program owns.  What is checked is that the context is the expected one and that
  the contexts of split proofs belong together.
\<close>

section \<open>The SDK\<close>

text \<open>Proofs by what they prove: \<open>ProofInstruction::Verify\<dots>\<close> and \<open>ProofType\<close> of
  \<open>solana_zk_token_sdk\<close>, as far as the program names them.\<close>

datatype proof_type =
    PubkeyValidity | ZeroBalance | Withdraw | Transfer | TransferWithFee | CiphertextCommitmentEquality
  | BatchedGroupedCiphertext2HandlesValidity | BatchedRangeProofU128 | BatchedRangeProofU256 | FeeSigma
  | CiphertextCiphertextEquality | OtherProof

text \<open>The contexts of proofs.  Keys, ciphertexts, commitments and handles are byte strings.\<close>

record pubkey_validity_context =
  pv_pubkey :: bytes

record zero_balance_context =
  zb_pubkey :: bytes
  zb_ciphertext :: bytes

record withdraw_context =
  wd_pubkey :: bytes
  wd_final_ciphertext :: bytes

record transfer_pubkeys_info =
  tp_source :: bytes
  tp_destination :: bytes
  tp_auditor :: bytes

record transfer_proof_context_info =
  ciphertext_lo :: bytes
  ciphertext_hi :: bytes
  transfer_pubkeys :: transfer_pubkeys_info
  new_source_ciphertext :: bytes

record transfer_with_fee_pubkeys_info = transfer_pubkeys_info +
  tp_withdraw_withheld_authority :: bytes

record transfer_with_fee_proof_context_info =
  wf_ciphertext_lo :: bytes
  wf_ciphertext_hi :: bytes
  transfer_with_fee_pubkeys :: transfer_with_fee_pubkeys_info
  wf_new_source_ciphertext :: bytes
  fee_ciphertext_lo :: bytes
  fee_ciphertext_hi :: bytes

text \<open>\<open>TransferProofContext\<close> of the SDK has the fields of \<open>TransferProofContextInfo\<close>, which the
  conversion copies; \<open>TransferWithFeeProofContext\<close> has the fee parameters besides.\<close>

record fee_parameters =
  fee_rate_basis_points :: u16
  fp_maximum_fee :: u64

record equality_context =
  eq_pubkey :: bytes
  eq_ciphertext :: bytes
  eq_commitment :: bytes

record validity_context =
  gv_destination_pubkey :: bytes
  gv_auditor_pubkey :: bytes
  grouped_ciphertext_lo :: bytes
  grouped_ciphertext_hi :: bytes

record range_context =
  range_commitments :: "bytes list"
  range_bit_lengths :: "u8 list"

record fee_sigma_context =
  fee_commitment :: bytes
  delta_commitment :: bytes
  claimed_commitment :: bytes
  max_fee :: u64

record ciphertexts_equality_context =
  cc_source_pubkey :: bytes
  cc_destination_pubkey :: bytes
  cc_source_ciphertext :: bytes
  cc_destination_ciphertext :: bytes

text \<open>\<open>ProofContextState\<close>, and an instruction of the transaction.\<close>

record 'c proof_context_state =
  state_proof_type :: u8
  proof_context :: 'c

record zkp_instruction =
  instruction_program_id :: pubkey
  instruction_data :: bytes

text \<open>How a kind of context is read from a context account (\<open>pod_from_bytes\<close>) and from a proof instruction
  (\<open>ProofInstruction::proof_data\<close> and \<open>ZkProofData::context_data\<close>).\<close>

record 'c proof_reader =
  read_state :: "bytes \<Rightarrow> 'c proof_context_state option"
  read_instruction :: "bytes \<Rightarrow> 'c option"

text \<open>The functions of the SDK: the sysvar of instructions, the type of a proof instruction, the code of a proof type,
  the readers, arithmetic on ciphertexts (\<open>zk_token_elgamal::ops\<close>) and on curve points
  (\<open>curve25519::ristretto\<close>), \<open>OptionalNonZeroElGamalPubkey::equals\<close>, and the cross-program
  invocation that closes a context account: its key, the key of its authority, the destination of the lamports.\<close>

record zk =
  get_instruction_relative :: "int \<Rightarrow> account_info \<Rightarrow> world \<Rightarrow> zkp_instruction result"
  instruction_type :: "bytes \<Rightarrow> proof_type option"
  proof_type_u8 :: "proof_type \<Rightarrow> u8"
  pubkey_validity :: "pubkey_validity_context proof_reader"
  zero_balance :: "zero_balance_context proof_reader"
  withdraw_proof :: "withdraw_context proof_reader"
  transfer_proof :: "transfer_proof_context_info proof_reader"
  transfer_with_fee_proof :: "(transfer_with_fee_proof_context_info \<times> fee_parameters) proof_reader"
  equality_proof :: "equality_context proof_reader"
  validity_proof :: "validity_context proof_reader"
  range_proof :: "range_context proof_reader"
  fee_sigma_proof :: "fee_sigma_context proof_reader"
  ciphertexts_equality :: "ciphertexts_equality_context proof_reader"
  ct_add :: "bytes \<Rightarrow> bytes \<Rightarrow> bytes option"
  ct_subtract :: "bytes \<Rightarrow> bytes \<Rightarrow> bytes option"
  ct_add_to :: "bytes \<Rightarrow> u64 \<Rightarrow> bytes option"
  ct_subtract_from :: "bytes \<Rightarrow> u64 \<Rightarrow> bytes option"
  ct_add_with_lo_hi :: "bytes \<Rightarrow> bytes \<Rightarrow> bytes \<Rightarrow> bytes option"
  ct_subtract_with_lo_hi :: "bytes \<Rightarrow> bytes \<Rightarrow> bytes \<Rightarrow> bytes option"
  multiply_ristretto :: "bytes \<Rightarrow> bytes \<Rightarrow> bytes option"
  add_ristretto :: "bytes \<Rightarrow> bytes \<Rightarrow> bytes option"
  subtract_ristretto :: "bytes \<Rightarrow> bytes \<Rightarrow> bytes option"
  elgamal_equals :: "bytes \<Rightarrow> bytes \<Rightarrow> bool"
  close_context_state :: "pubkey \<Rightarrow> pubkey \<Rightarrow> pubkey \<Rightarrow> account_info list \<Rightarrow> world \<Rightarrow> world result"

text \<open>An SDK for concrete runs: ciphertexts, points and scalars start with a 64-bit word, on which the arithmetic
  is done; every context account holds the expected context with an all-zero key, there are no proof
  instructions.\<close>

definition sample_ciphertext :: "u64 \<Rightarrow> bytes" where
  "sample_ciphertext n = word_le n @ replicate 56 0"

definition sample_plaintext :: "bytes \<Rightarrow> u64" where
  "sample_plaintext b = le_word (take 8 b)"

definition sample_reader :: "(bytes \<Rightarrow> 'c) \<Rightarrow> 'c proof_reader" where
  "sample_reader f =
     \<lparr>read_state = (\<lambda>b. if b = [] then None else Some \<lparr>state_proof_type = hd b, proof_context = f (tl b)\<rparr>),
      read_instruction = (\<lambda>_. None)\<rparr>"

definition sample_zk :: zk where
  "sample_zk =
     (let add = \<lambda>a b. Some (sample_ciphertext (sample_plaintext a + sample_plaintext b));
          sub = \<lambda>a b. Some (sample_ciphertext (sample_plaintext a - sample_plaintext b));
          point = \<lambda>n. Some (word_le n @ replicate 24 0); k = replicate 32 0
      in \<lparr>get_instruction_relative = (\<lambda>_ _ _. Inl (Prog InvalidInstructionData)), instruction_type = (\<lambda>_. None),
          proof_type_u8 = (\<lambda>t. case t of Withdraw \<Rightarrow> 3 | _ \<Rightarrow> 0),
          pubkey_validity = sample_reader (\<lambda>b. \<lparr>pv_pubkey = k\<rparr>),
          zero_balance = sample_reader (\<lambda>b. \<lparr>zb_pubkey = k, zb_ciphertext = b\<rparr>),
          withdraw_proof = sample_reader (\<lambda>b. \<lparr>wd_pubkey = k, wd_final_ciphertext = b\<rparr>),
          transfer_proof = sample_reader (\<lambda>b. \<lparr>ciphertext_lo = sample_ciphertext 5 @ sample_ciphertext 0,
            ciphertext_hi = sample_ciphertext 1 @ sample_ciphertext 0,
            transfer_pubkeys = \<lparr>tp_source = k, tp_destination = k, tp_auditor = k\<rparr>, new_source_ciphertext = b\<rparr>),
          transfer_with_fee_proof = sample_reader (\<lambda>b. (\<lparr>wf_ciphertext_lo = sample_ciphertext 5 @ sample_ciphertext 0,
            wf_ciphertext_hi = sample_ciphertext 1 @ sample_ciphertext 0,
            transfer_with_fee_pubkeys = \<lparr>tp_source = k, tp_destination = k, tp_auditor = k,
              tp_withdraw_withheld_authority = k\<rparr>,
            wf_new_source_ciphertext = b, fee_ciphertext_lo = sample_ciphertext 3 @ replicate 32 0,
            fee_ciphertext_hi = sample_ciphertext 0 @ replicate 32 0\<rparr>,
            \<lparr>fee_rate_basis_points = 200, fp_maximum_fee = 500\<rparr>)),
          equality_proof = sample_reader (\<lambda>b. \<lparr>eq_pubkey = k, eq_ciphertext = b, eq_commitment = k\<rparr>),
          validity_proof = sample_reader (\<lambda>b. \<lparr>gv_destination_pubkey = k, gv_auditor_pubkey = k,
            grouped_ciphertext_lo = b, grouped_ciphertext_hi = b\<rparr>),
          range_proof = sample_reader (\<lambda>b. \<lparr>range_commitments = [], range_bit_lengths = []\<rparr>),
          fee_sigma_proof = sample_reader (\<lambda>b. \<lparr>fee_commitment = k, delta_commitment = k, claimed_commitment = k,
            max_fee = 0\<rparr>),
          ciphertexts_equality = sample_reader (\<lambda>b. \<lparr>cc_source_pubkey = k, cc_destination_pubkey = k,
            cc_source_ciphertext = b, cc_destination_ciphertext = b\<rparr>),
          ct_add = add, ct_subtract = sub, ct_add_to = (\<lambda>a n. add a (sample_ciphertext n)),
          ct_subtract_from = (\<lambda>a n. sub a (sample_ciphertext n)),
          ct_add_with_lo_hi = (\<lambda>a lo hi.
            Some (sample_ciphertext (sample_plaintext a + sample_plaintext lo + 65536 * sample_plaintext hi))),
          ct_subtract_with_lo_hi = (\<lambda>a lo hi.
            Some (sample_ciphertext (sample_plaintext a - sample_plaintext lo - 65536 * sample_plaintext hi))),
          multiply_ristretto = (\<lambda>a b. point (sample_plaintext a * sample_plaintext b)),
          add_ristretto = (\<lambda>a b. point (sample_plaintext a + sample_plaintext b)),
          subtract_ristretto = (\<lambda>a b. point (sample_plaintext a - sample_plaintext b)),
          elgamal_equals = (=), close_context_state = (\<lambda>_ _ _ _ w. Inr w)\<rparr>)"

section \<open>Reading a proof context\<close>

definition decode_proof_instruction_context ::
    "env \<Rightarrow> zk \<Rightarrow> 'c proof_reader \<Rightarrow> proof_type \<Rightarrow> zkp_instruction \<Rightarrow> 'c result" where
  "decode_proof_instruction_context E Z r expected i =
     (if instruction_program_id i \<noteq> zk_token_proof_program_id E \<or>
         instruction_type Z (instruction_data i) \<noteq> Some expected
      then Inl (Prog InvalidInstructionData)
      else ok_or (Prog InvalidInstructionData) (read_instruction r (instruction_data i)))"

text \<open>The account is a context account.\<close>

definition verify_context_state ::
    "env \<Rightarrow> zk \<Rightarrow> 'c proof_reader \<Rightarrow> proof_type \<Rightarrow> account_info \<Rightarrow> world \<Rightarrow> 'c result" where
  "verify_context_state E Z r expected a w =
     bindE (check_zk_token_proof_program_account E (owner_of w a)) (\<lambda>_.
     bindE (ok_or (pod_size_error E) (read_state r (data_of w a))) (\<lambda>s.
       if state_proof_type s \<noteq> proof_type_u8 Z expected then Inl (Prog InvalidInstructionData)
       else Inr (proof_context s)))"

text \<open>The account is a context account, or the sysvar through which the proof instruction is found.\<close>

definition verify_proof_at ::
    "env \<Rightarrow> zk \<Rightarrow> 'c proof_reader \<Rightarrow> proof_type \<Rightarrow> account_info \<Rightarrow> int \<Rightarrow> world \<Rightarrow> 'c result" where
  "verify_proof_at E Z r expected a proof_instruction_offset w =
     (if proof_instruction_offset = 0 then verify_context_state E Z r expected a w
      else bindE (get_instruction_relative Z proof_instruction_offset a w)
             (decode_proof_instruction_context E Z r expected))"

definition verify_next_proof ::
    "env \<Rightarrow> zk \<Rightarrow> 'c proof_reader \<Rightarrow> proof_type \<Rightarrow> account_info list \<Rightarrow> int \<Rightarrow> world \<Rightarrow> ('c \<times> account_info list) result" where
  "verify_next_proof E Z r expected it proof_instruction_offset w =
     bindE (next_account_info it) (\<lambda>(a, it).
     bindE (verify_proof_at E Z r expected a proof_instruction_offset w) (\<lambda>c. Inr (c, it)))"

definition verify_configure_account_proof where
  "verify_configure_account_proof E Z = verify_next_proof E Z (pubkey_validity Z) PubkeyValidity"

definition verify_empty_account_proof where
  "verify_empty_account_proof E Z = verify_next_proof E Z (zero_balance Z) ZeroBalance"

definition verify_withdraw_proof where
  "verify_withdraw_proof E Z = verify_next_proof E Z (withdraw_proof Z) Withdraw"

definition verify_equality_proof where
  "verify_equality_proof E Z = verify_context_state E Z (equality_proof Z) CiphertextCommitmentEquality"

definition verify_ciphertext_validity_proof where
  "verify_ciphertext_validity_proof E Z =
     verify_context_state E Z (validity_proof Z) BatchedGroupedCiphertext2HandlesValidity"

definition verify_transfer_range_proof where
  "verify_transfer_range_proof E Z = verify_context_state E Z (range_proof Z) BatchedRangeProofU128"

definition verify_transfer_with_fee_range_proof where
  "verify_transfer_with_fee_range_proof E Z = verify_context_state E Z (range_proof Z) BatchedRangeProofU256"

definition verify_fee_sigma_proof where
  "verify_fee_sigma_proof E Z = verify_context_state E Z (fee_sigma_proof Z) FeeSigma"

definition verify_ciphertext_ciphertext_equality_proof where
  "verify_ciphertext_ciphertext_equality_proof E Z =
     verify_proof_at E Z (ciphertexts_equality Z) CiphertextCiphertextEquality"

section \<open>Parts of grouped ciphertexts\<close>

text \<open>A commitment, then one decryption handle per public key, 32 bytes each.\<close>

definition extract_commitment_from_grouped_ciphertext :: "bytes \<Rightarrow> bytes" where
  "extract_commitment_from_grouped_ciphertext b = take 32 b"

definition transfer_amount_source_ciphertext :: "bytes \<Rightarrow> bytes" where
  "transfer_amount_source_ciphertext b = take 32 b @ slice_of b 32 64"

definition transfer_amount_destination_ciphertext :: "bytes \<Rightarrow> bytes" where
  "transfer_amount_destination_ciphertext b = take 32 b @ slice_of b 64 96"

definition fee_amount_destination_ciphertext :: "bytes \<Rightarrow> bytes" where
  "fee_amount_destination_ciphertext b = take 32 b @ slice_of b 32 64"

definition fee_amount_withdraw_withheld_authority_ciphertext :: "bytes \<Rightarrow> bytes" where
  "fee_amount_withdraw_withheld_authority_ciphertext b = take 32 b @ slice_of b 64 96"

definition transfer_amount_encryption_from_decrypt_handle :: "bytes \<Rightarrow> bytes \<Rightarrow> bytes" where
  "transfer_amount_encryption_from_decrypt_handle source_handle grouped =
     take 32 grouped @ source_handle @ slice_of grouped 32 96"

text \<open>The decryption handles of the source, which split proofs lack.\<close>

record source_decrypt_handles =
  handle_lo :: bytes
  handle_hi :: bytes

section \<open>Points of the curve\<close>

definition ristretto_generator :: bytes where
  "ristretto_generator =
     [226, 242, 174, 10, 106, 188, 78, 113, 168, 132, 169, 97, 197, 0, 81, 95, 88, 227, 11, 106, 165,
      130, 221, 141, 182, 166, 89, 69, 224, 141, 45, 118]"

definition u16_to_scalar :: "u16 \<Rightarrow> bytes" where
  "u16_to_scalar n = word_le n @ replicate 30 0"

definition u64_to_scalar :: "u64 \<Rightarrow> bytes" where
  "u64_to_scalar n = word_le n @ replicate 24 0"

definition combine_lo_hi_pedersen_points :: "zk \<Rightarrow> bytes \<Rightarrow> bytes \<Rightarrow> bytes option" where
  "combine_lo_hi_pedersen_points Z lo hi =
     Option.bind (multiply_ristretto Z (u64_to_scalar 65536) hi) (add_ristretto Z lo)"

definition verify_delta_commitment :: "zk \<Rightarrow> bytes \<Rightarrow> bytes \<Rightarrow> bytes \<Rightarrow> bytes \<Rightarrow> u16 \<Rightarrow> unit result" where
  "verify_delta_commitment Z amount_lo amount_hi fee delta bps =
     (let failed = Token CiphertextArithmeticFailed in
      bindE (ok_or failed (combine_lo_hi_pedersen_points Z amount_lo amount_hi)) (\<lambda>amount_point.
      bindE (ok_or failed (multiply_ristretto Z (u16_to_scalar bps) amount_point)) (\<lambda>scaled_amount.
      bindE (ok_or failed (multiply_ristretto Z (u64_to_scalar 10000) fee)) (\<lambda>scaled_fee.
      bindE (ok_or failed (subtract_ristretto Z scaled_fee scaled_amount)) (\<lambda>expected.
        if expected \<noteq> delta then Inl (Prog InvalidInstructionData) else Inr ())))))"

section \<open>Split proofs belong together\<close>

text \<open>\<open>a.iter().zip(b.iter()).all(|(x, y)| x == y)\<close>: the lists agree as far as both reach.\<close>

definition zip_all_equal :: "'a list \<Rightarrow> 'a list \<Rightarrow> bool" where
  "zip_all_equal xs ys = list_all (\<lambda>(x, y). x = y) (zip xs ys)"

definition check_range_proof :: "range_context \<Rightarrow> bytes list \<Rightarrow> u8 list \<Rightarrow> unit result" where
  "check_range_proof r commitments bit_lengths =
     (if \<not> zip_all_equal (range_commitments r) commitments then Inl (Prog InvalidInstructionData)
      else if \<not> zip_all_equal (range_bit_lengths r) bit_lengths then Inl (Prog InvalidInstructionData)
      else Inr ())"

definition verify_and_extract_transfer ::
    "equality_context \<Rightarrow> validity_context \<Rightarrow> range_context \<Rightarrow> source_decrypt_handles \<Rightarrow>
     transfer_proof_context_info result" where
  "verify_and_extract_transfer eq gv rp handles =
     bindE (check_range_proof rp
              [eq_commitment eq,
               extract_commitment_from_grouped_ciphertext (grouped_ciphertext_lo gv),
               extract_commitment_from_grouped_ciphertext (grouped_ciphertext_hi gv)]
              [64, 16, 32, 16]) (\<lambda>_.
       Inr \<lparr>ciphertext_lo = transfer_amount_encryption_from_decrypt_handle (handle_lo handles) (grouped_ciphertext_lo gv),
            ciphertext_hi = transfer_amount_encryption_from_decrypt_handle (handle_hi handles) (grouped_ciphertext_hi gv),
            transfer_pubkeys = \<lparr>tp_source = eq_pubkey eq, tp_destination = gv_destination_pubkey gv,
              tp_auditor = gv_auditor_pubkey gv\<rparr>,
            new_source_ciphertext = eq_ciphertext eq\<rparr>)"

text \<open>With a fee: the fee was computed with the parameters of the mint, for the destination of the transfer, and
  the sigma proof, the validity proof and the range proof speak of the same commitments.\<close>

definition verify_and_extract_transfer_with_fee ::
    "zk \<Rightarrow> equality_context \<Rightarrow> validity_context \<Rightarrow> fee_sigma_context \<Rightarrow> validity_context \<Rightarrow> range_context \<Rightarrow>
     source_decrypt_handles \<Rightarrow> transfer_fee \<Rightarrow> transfer_with_fee_proof_context_info result" where
  "verify_and_extract_transfer_with_fee Z eq gv fs fee_gv rp handles params =
     (let failed = Token CiphertextArithmeticFailed;
          amount_lo = extract_commitment_from_grouped_ciphertext (grouped_ciphertext_lo gv);
          amount_hi = extract_commitment_from_grouped_ciphertext (grouped_ciphertext_hi gv);
          fee_lo = extract_commitment_from_grouped_ciphertext (grouped_ciphertext_lo fee_gv);
          fee_hi = extract_commitment_from_grouped_ciphertext (grouped_ciphertext_hi fee_gv)
      in if maximum_fee params \<noteq> max_fee fs then Inl (Prog InvalidInstructionData)
      else if gv_destination_pubkey gv \<noteq> gv_destination_pubkey fee_gv then Inl (Prog InvalidInstructionData)
      else bindE (ok_or failed (multiply_ristretto Z (u64_to_scalar 10000) ristretto_generator)) (\<lambda>max_bps.
      bindE (ok_or failed (subtract_ristretto Z max_bps (claimed_commitment fs))) (\<lambda>complement.
      bindE (check_range_proof rp
               [eq_commitment eq, amount_lo, amount_hi, claimed_commitment fs, complement, fee_lo, fee_hi]
               [64, 16, 32, 48, 48, 16, 32]) (\<lambda>_.
      bindE (ok_or failed (combine_lo_hi_pedersen_points Z fee_lo fee_hi)) (\<lambda>fee_point.
      if fee_point \<noteq> fee_commitment fs then Inl (Prog InvalidInstructionData)
      else bindE (verify_delta_commitment Z amount_lo amount_hi (fee_commitment fs) (delta_commitment fs)
                    (transfer_fee_basis_points params)) (\<lambda>_.
        Inr \<lparr>wf_ciphertext_lo = transfer_amount_encryption_from_decrypt_handle (handle_lo handles) (grouped_ciphertext_lo gv),
             wf_ciphertext_hi = transfer_amount_encryption_from_decrypt_handle (handle_hi handles) (grouped_ciphertext_hi gv),
             transfer_with_fee_pubkeys = \<lparr>tp_source = eq_pubkey eq, tp_destination = gv_destination_pubkey gv,
               tp_auditor = gv_auditor_pubkey gv, tp_withdraw_withheld_authority = gv_auditor_pubkey fee_gv\<rparr>,
             wf_new_source_ciphertext = eq_ciphertext eq,
             fee_ciphertext_lo = grouped_ciphertext_lo fee_gv,
             fee_ciphertext_hi = grouped_ciphertext_hi fee_gv\<rparr>))))))"

section \<open>The proofs of a transfer\<close>

text \<open>The mint is borrowed mutably by the caller while context accounts are closed, so the invocation refuses
  an instruction that names it.\<close>

fun close_context_states ::
    "zk \<Rightarrow> pubkey \<Rightarrow> account_info list \<Rightarrow> account_info \<Rightarrow> account_info \<Rightarrow> world \<Rightarrow> world result" where
  "close_context_states Z mint_key [] destination auth w = Inr w"
| "close_context_states Z mint_key (a # as) destination auth w =
     (if mint_key \<in> {key a, key destination, key auth} then Inl (Prog AccountBorrowFailed)
      else bindE (close_context_state Z (key a) (key auth) (key destination) [a, destination, auth] w)
             (close_context_states Z mint_key as destination auth))"

definition close_split_contexts ::
    "zk \<Rightarrow> pubkey \<Rightarrow> bool \<Rightarrow> account_info list \<Rightarrow> account_info list \<Rightarrow> world \<Rightarrow> (account_info list \<times> world) result" where
  "close_split_contexts Z mint_key close infos it w =
     (if close then
        bindE (next_account_info it) (\<lambda>(destination, it).
        bindE (next_account_info it) (\<lambda>(auth, it).
        bindE (next_account_info it) (\<lambda>(_, it).
        bindE (close_context_states Z mint_key infos destination auth w) (\<lambda>w. Inr (it, w)))))
      else Inr (it, w))"

text \<open>With \<open>no_op\<close> an account that still belongs to the system program ends the verification without a
  context.\<close>

definition uninitialized :: "env \<Rightarrow> bool \<Rightarrow> account_info list \<Rightarrow> world \<Rightarrow> bool" where
  "uninitialized E no_op infos w \<longleftrightarrow>
     no_op \<and> list_ex (\<lambda>a. isOk (check_system_program_account E (owner_of w a))) infos"

definition verify_transfer_proof ::
    "env \<Rightarrow> zk \<Rightarrow> pubkey \<Rightarrow> account_info list \<Rightarrow> int \<Rightarrow> bool \<Rightarrow> bool \<Rightarrow> bool \<Rightarrow> source_decrypt_handles \<Rightarrow> world \<Rightarrow>
     (transfer_proof_context_info option \<times> account_info list \<times> world) result" where
  "verify_transfer_proof E Z mint_key it proof_instruction_offset split no_op close handles w =
     (if proof_instruction_offset = 0 \<and> split then
        bindE (next_account_info it) (\<lambda>(equality_info, it).
        bindE (next_account_info it) (\<lambda>(validity_info, it).
        bindE (next_account_info it) (\<lambda>(range_info, it).
        if uninitialized E no_op [equality_info, validity_info, range_info] w then Inr (None, it, w)
        else bindE (verify_equality_proof E Z equality_info w) (\<lambda>eq.
        bindE (verify_ciphertext_validity_proof E Z validity_info w) (\<lambda>gv.
        bindE (verify_transfer_range_proof E Z range_info w) (\<lambda>rp.
        bindE (verify_and_extract_transfer eq gv rp handles) (\<lambda>c.
        bindE (close_split_contexts Z mint_key close [equality_info, validity_info, range_info] it w) (\<lambda>(it, w).
          Inr (Some c, it, w)))))))))
      else
        bindE (next_account_info it) (\<lambda>(a, it).
        bindE (verify_proof_at E Z (transfer_proof Z) Transfer a proof_instruction_offset w) (\<lambda>c.
          Inr (Some c, it, w))))"

definition check_fee_parameters :: "transfer_fee \<Rightarrow> fee_parameters \<Rightarrow> unit result" where
  "check_fee_parameters params proof_params =
     (if transfer_fee_basis_points params \<noteq> fee_rate_basis_points proof_params \<or>
         maximum_fee params \<noteq> fp_maximum_fee proof_params
      then Inl (Token FeeParametersMismatch) else Inr ())"

definition verify_transfer_with_fee_proof ::
    "env \<Rightarrow> zk \<Rightarrow> pubkey \<Rightarrow> account_info list \<Rightarrow> int \<Rightarrow> bool \<Rightarrow> bool \<Rightarrow> bool \<Rightarrow> source_decrypt_handles \<Rightarrow> transfer_fee \<Rightarrow> world \<Rightarrow>
     (transfer_with_fee_proof_context_info option \<times> account_info list \<times> world) result" where
  "verify_transfer_with_fee_proof E Z mint_key it proof_instruction_offset split no_op close handles params w =
     (if proof_instruction_offset = 0 \<and> split then
        bindE (next_account_info it) (\<lambda>(equality_info, it).
        bindE (next_account_info it) (\<lambda>(validity_info, it).
        bindE (next_account_info it) (\<lambda>(fee_sigma_info, it).
        bindE (next_account_info it) (\<lambda>(fee_validity_info, it).
        bindE (next_account_info it) (\<lambda>(range_info, it).
        let infos = [equality_info, validity_info, fee_sigma_info, fee_validity_info, range_info] in
        if uninitialized E no_op infos w then Inr (None, it, w)
        else bindE (verify_equality_proof E Z equality_info w) (\<lambda>eq.
        bindE (verify_ciphertext_validity_proof E Z validity_info w) (\<lambda>gv.
        bindE (verify_fee_sigma_proof E Z fee_sigma_info w) (\<lambda>fs.
        bindE (verify_ciphertext_validity_proof E Z fee_validity_info w) (\<lambda>fee_gv.
        bindE (verify_transfer_with_fee_range_proof E Z range_info w) (\<lambda>rp.
        bindE (verify_and_extract_transfer_with_fee Z eq gv fs fee_gv rp handles params) (\<lambda>c.
        bindE (close_split_contexts Z mint_key close infos it w) (\<lambda>(it, w). Inr (Some c, it, w)))))))))))))
      else
        bindE (next_account_info it) (\<lambda>(a, it).
        bindE (verify_proof_at E Z (transfer_with_fee_proof Z) TransferWithFee a proof_instruction_offset w)
          (\<lambda>(c, proof_params).
        bindE (check_fee_parameters params proof_params) (\<lambda>_. Inr (Some c, it, w)))))"

end
