(* ===== verification/Confidential.thy ===== *)
theory Confidential
  imports Zk
begin

text \<open>
  The confidential transfer extension: the handlers of
  \<open>src/programs/src/extension/confidential_transfer/processor.rs\<close>.  A token account with the extension holds
  an available and a pending balance as ciphertexts besides its amount; deposits and withdrawals move tokens between
  the amount and the ciphertexts, transfers move ciphertexts between accounts.
\<close>

section \<open>Configuration\<close>

definition zeroed_ciphertext :: "env \<Rightarrow> bytes" where
  "zeroed_ciphertext E = replicate (elgamal_ciphertext_len E) 0"

definition process_initialize_mint_ct ::
    "env \<Rightarrow> account_info list \<Rightarrow> pubkey \<Rightarrow> u8 \<Rightarrow> bytes \<Rightarrow> world \<Rightarrow> world result" where
  "process_initialize_mint_ct E accounts new_authority auto_approve auditor w =
     bindE (next_account_info accounts) (\<lambda>(mint_info, it).
     bindE (check_program_account (owner_of w mint_info)) (\<lambda>_.
     init_uninitialized (PodMint E) (ConfidentialTransferMintExt E)
       (Inr \<lparr>ct_authority = new_authority, auto_approve_new_accounts = auto_approve, auditor_elgamal_pubkey = auditor\<rparr>)
       accounts w))"

definition process_update_mint ::
    "env \<Rightarrow> account_info list \<Rightarrow> u8 \<Rightarrow> bytes \<Rightarrow> world \<Rightarrow> world result" where
  "process_update_mint E accounts auto_approve auditor w =
     bindE (next_account_info accounts) (\<lambda>(mint_info, it).
     bindE (next_account_info it) (\<lambda>(authority_info, it).
     bindE (check_program_account (owner_of w mint_info)) (\<lambda>_.
     bindE (unpack (PodMint E) (data_of w mint_info)) (\<lambda>mt.
     bindE (get_extension E (PodMint E) (ConfidentialTransferMintExt E) mt) (\<lambda>c.
     bindE (ok_or (Token NoAuthorityExists) (option_of_non_zero (ct_authority c))) (\<lambda>k.
     if \<not> is_signer authority_info then Inl (Prog MissingRequiredSignature)
     else if k \<noteq> key authority_info then Inl (Token OwnerMismatch)
     else Inr (store (PodMint E) mint_info (put_extension (PodMint E) (ConfidentialTransferMintExt E)
            (c\<lparr>auto_approve_new_accounts := auto_approve, auditor_elgamal_pubkey := auditor\<rparr>) mt) w)))))))"

text \<open>The state of a newly configured account.\<close>

definition configured_account ::
    "env \<Rightarrow> confidential_transfer_mint \<Rightarrow> bytes \<Rightarrow> bytes \<Rightarrow> u64 \<Rightarrow> confidential_transfer_account" where
  "configured_account E c pubkey decryptable_zero_balance maximum =
     \<lparr>approved = auto_approve_new_accounts c, elgamal_pubkey = pubkey,
      pending_balance_lo = zeroed_ciphertext E, pending_balance_hi = zeroed_ciphertext E,
      available_balance = zeroed_ciphertext E, decryptable_available_balance = decryptable_zero_balance,
      allow_confidential_credits = pod_of_bool E True, allow_non_confidential_credits = pod_of_bool E True,
      pending_balance_credit_counter = 0, maximum_pending_balance_credit_counter = maximum,
      expected_pending_balance_credit_counter = 0, actual_pending_balance_credit_counter = 0\<rparr>"

text \<open>\<open>init_extension(false)\<close> and the assignments to the fresh struct.\<close>

definition init_and_assign ::
    "env \<Rightarrow> 'v extension \<Rightarrow> 'v \<Rightarrow> pod_account ext_state \<Rightarrow> pod_account ext_state result" where
  "init_and_assign E V v st =
     bindE (init_extension PodAccount V False st) (\<lambda>st. Inr (put_extension PodAccount V v st))"

definition process_configure_account ::
    "env \<Rightarrow> zk \<Rightarrow> pubkey \<Rightarrow> account_info list \<Rightarrow> bytes \<Rightarrow> u64 \<Rightarrow> int \<Rightarrow> world \<Rightarrow> world result" where
  "process_configure_account E Z program_id accounts decryptable_zero_balance maximum proof_instruction_offset w =
     bindE (next_account_info accounts) (\<lambda>(token_info, it).
     bindE (next_account_info it) (\<lambda>(mint_info, it).
     bindE (verify_configure_account_proof E Z it proof_instruction_offset w) (\<lambda>(proof, it).
     bindE (next_account_info it) (\<lambda>(authority_info, rest).
     bindE (check_program_account (owner_of w token_info)) (\<lambda>_.
     bindE (unpack PodAccount (data_of w token_info)) (\<lambda>st.
     if mint (base st) \<noteq> key mint_info then Inl (Token MintMismatch)
     else bindE (validate_owner E program_id (owner (base st)) authority_info (length (data_of w authority_info)) rest w) (\<lambda>_.
     bindE (check_program_account (owner_of w mint_info)) (\<lambda>_.
     if key mint_info = key token_info then Inl Panic
     else bindE (unpack (PodMint E) (data_of w mint_info)) (\<lambda>mt.
     bindE (get_extension E (PodMint E) (ConfidentialTransferMintExt E) mt) (\<lambda>c.
     bindE (init_and_assign E (ConfidentialTransferAccountExt E)
              (configured_account E c (pv_pubkey proof) decryptable_zero_balance maximum) st) (\<lambda>st.
     bindE (if isOk (get_extension E (PodMint E) TransferFeeConfigExt mt)
            then init_and_assign E (ConfidentialTransferFeeAmountExt E) (zeroed_ciphertext E) st
            else Inr st) (\<lambda>st.
       Inr (store PodAccount token_info st w)))))))))))))"

definition process_approve_account :: "env \<Rightarrow> account_info list \<Rightarrow> world \<Rightarrow> world result" where
  "process_approve_account E accounts w =
     bindE (next_account_info accounts) (\<lambda>(token_info, it).
     bindE (next_account_info it) (\<lambda>(mint_info, it).
     bindE (next_account_info it) (\<lambda>(authority_info, it).
     bindE (check_program_account (owner_of w token_info)) (\<lambda>_.
     bindE (unpack PodAccount (data_of w token_info)) (\<lambda>st.
     if key mint_info \<noteq> mint (base st) then Inl (Token MintMismatch)
     else bindE (check_program_account (owner_of w mint_info)) (\<lambda>_.
     if key mint_info = key token_info then Inl Panic
     else bindE (unpack (PodMint E) (data_of w mint_info)) (\<lambda>mt.
     bindE (get_extension E (PodMint E) (ConfidentialTransferMintExt E) mt) (\<lambda>c.
     bindE (ok_or (Token NoAuthorityExists) (option_of_non_zero (ct_authority c))) (\<lambda>k.
     if is_signer authority_info \<and> key authority_info = k then
       bindE (get_extension E PodAccount (ConfidentialTransferAccountExt E) st) (\<lambda>s.
         Inr (store PodAccount token_info
               (put_extension PodAccount (ConfidentialTransferAccountExt E) (s\<lparr>approved := pod_of_bool E True\<rparr>) st) w))
     else Inl (Prog MissingRequiredSignature))))))))))"

definition process_empty_account ::
    "env \<Rightarrow> zk \<Rightarrow> pubkey \<Rightarrow> account_info list \<Rightarrow> int \<Rightarrow> world \<Rightarrow> world result" where
  "process_empty_account E Z program_id accounts proof_instruction_offset w =
     bindE (next_account_info accounts) (\<lambda>(token_info, it).
     bindE (verify_empty_account_proof E Z it proof_instruction_offset w) (\<lambda>(proof, it).
     bindE (next_account_info it) (\<lambda>(authority_info, rest).
     bindE (check_program_account (owner_of w token_info)) (\<lambda>_.
     bindE (unpack PodAccount (data_of w token_info)) (\<lambda>st.
     bindE (validate_owner E program_id (owner (base st)) authority_info (length (data_of w authority_info)) rest w) (\<lambda>_.
     bindE (get_extension E PodAccount (ConfidentialTransferAccountExt E) st) (\<lambda>s.
     if elgamal_pubkey s \<noteq> zb_pubkey proof then Inl (Token ConfidentialTransferElGamalPubkeyMismatch)
     else if available_balance s \<noteq> zb_ciphertext proof then Inl (Prog InvalidInstructionData)
     else let s = s\<lparr>available_balance := zeroed_ciphertext E\<rparr> in
     bindE (confidential_account_closable s) (\<lambda>_.
       Inr (store PodAccount token_info
             (put_extension PodAccount (ConfidentialTransferAccountExt E) s st) w)))))))))"

text \<open>The two switches of an account: the owner's consent, then one flag.\<close>

definition process_update_confidential ::
    "env \<Rightarrow> pubkey \<Rightarrow> account_info list \<Rightarrow> (confidential_transfer_account \<Rightarrow> confidential_transfer_account result) \<Rightarrow>
     world \<Rightarrow> world result" where
  "process_update_confidential E program_id accounts f w =
     bindE (next_account_info accounts) (\<lambda>(token_info, it).
     bindE (next_account_info it) (\<lambda>(authority_info, rest).
     bindE (check_program_account (owner_of w token_info)) (\<lambda>_.
     bindE (unpack PodAccount (data_of w token_info)) (\<lambda>st.
     bindE (validate_owner E program_id (owner (base st)) authority_info (length (data_of w authority_info)) rest w) (\<lambda>_.
     bindE (get_extension E PodAccount (ConfidentialTransferAccountExt E) st) (\<lambda>s.
     bindE (f s) (\<lambda>s.
       Inr (store PodAccount token_info (put_extension PodAccount (ConfidentialTransferAccountExt E) s st) w))))))))"

definition process_allow_confidential_credits ::
    "env \<Rightarrow> pubkey \<Rightarrow> account_info list \<Rightarrow> bool \<Rightarrow> world \<Rightarrow> world result" where
  "process_allow_confidential_credits E program_id accounts allow w =
     process_update_confidential E program_id accounts
       (\<lambda>s. Inr (s\<lparr>allow_confidential_credits := pod_of_bool E allow\<rparr>)) w"

definition process_allow_non_confidential_credits ::
    "env \<Rightarrow> pubkey \<Rightarrow> account_info list \<Rightarrow> bool \<Rightarrow> world \<Rightarrow> world result" where
  "process_allow_non_confidential_credits E program_id accounts allow w =
     process_update_confidential E program_id accounts
       (\<lambda>s. Inr (s\<lparr>allow_non_confidential_credits := pod_of_bool E allow\<rparr>)) w"

text \<open>\<open>ApplyPendingBalance\<close>: the pending balance becomes available; the counter the client expects is recorded
  beside the actual one.\<close>

definition apply_pending_balance ::
    "env \<Rightarrow> zk \<Rightarrow> u64 \<Rightarrow> bytes \<Rightarrow> confidential_transfer_account \<Rightarrow> confidential_transfer_account result" where
  "apply_pending_balance E Z expected new_decryptable s =
     bindE (ok_or (Token CiphertextArithmeticFailed)
       (ct_add_with_lo_hi Z (available_balance s) (pending_balance_lo s) (pending_balance_hi s))) (\<lambda>b.
     Inr (s\<lparr>available_balance := b,
            actual_pending_balance_credit_counter := pending_balance_credit_counter s,
            expected_pending_balance_credit_counter := expected,
            decryptable_available_balance := new_decryptable,
            pending_balance_credit_counter := 0,
            pending_balance_lo := zeroed_ciphertext E, pending_balance_hi := zeroed_ciphertext E\<rparr>))"

definition process_apply_pending_balance ::
    "env \<Rightarrow> zk \<Rightarrow> pubkey \<Rightarrow> account_info list \<Rightarrow> u64 \<Rightarrow> bytes \<Rightarrow> world \<Rightarrow> world result" where
  "process_apply_pending_balance E Z program_id accounts expected new_decryptable w =
     process_update_confidential E program_id accounts (apply_pending_balance E Z expected new_decryptable) w"

section \<open>Deposit and withdrawal\<close>

definition MAXIMUM_DEPOSIT_TRANSFER_AMOUNT :: u64 where
  "MAXIMUM_DEPOSIT_TRANSFER_AMOUNT = 65535 + 65536 * 4294967295"

definition verify_and_split_deposit_amount :: "u64 \<Rightarrow> (u64 \<times> u64) result" where
  "verify_and_split_deposit_amount amt =
     (if amt > MAXIMUM_DEPOSIT_TRANSFER_AMOUNT then Inl (Token MaximumDepositAmountExceeded)
      else Inr (and amt 65535, drop_bit 16 amt))"

text \<open>The checks that deposits and withdrawals share.  The mint is held borrowed while the account is.\<close>

definition open_for_conversion ::
    "env \<Rightarrow> pubkey \<Rightarrow> account_info \<Rightarrow> account_info \<Rightarrow> account_info \<Rightarrow> account_info list \<Rightarrow> u8 \<Rightarrow> world \<Rightarrow>
     pod_account ext_state result" where
  "open_for_conversion E program_id token_info mint_info authority_info rest expected_decimals w =
     bindE (check_program_account (owner_of w mint_info)) (\<lambda>_.
     bindE (unpack (PodMint E) (data_of w mint_info)) (\<lambda>mt.
     if expected_decimals \<noteq> decimals (base mt) then Inl (Token MintDecimalsMismatch)
     else if isOk (get_extension E (PodMint E) NonTransferableExt mt) then Inl (Token token_error.NonTransferable)
     else bindE (check_program_account (owner_of w token_info)) (\<lambda>_.
     if key token_info = key mint_info then Inl Panic
     else bindE (unpack PodAccount (data_of w token_info)) (\<lambda>st.
     bindE (validate_owner E program_id (owner (base st)) authority_info (length (data_of w authority_info)) rest w) (\<lambda>_.
     if pod_account_is_frozen (base st) then Inl (Token AccountFrozen)
     else if mint (base st) \<noteq> key mint_info then Inl (Token MintMismatch)
     else if pod_account_is_native (base st) then Inl Panic
     else Inr st)))))"

text \<open>A balance changes only when the amount is not zero: the arithmetic is a system call.\<close>

definition add_unless_zero :: "zk \<Rightarrow> bytes \<Rightarrow> u64 \<Rightarrow> bytes result" where
  "add_unless_zero Z b n = (if n > 0 then ok_or (Token CiphertextArithmeticFailed) (ct_add_to Z b n) else Inr b)"

definition process_deposit ::
    "env \<Rightarrow> zk \<Rightarrow> pubkey \<Rightarrow> account_info list \<Rightarrow> u64 \<Rightarrow> u8 \<Rightarrow> world \<Rightarrow> world result" where
  "process_deposit E Z program_id accounts amt expected_decimals w =
     bindE (next_account_info accounts) (\<lambda>(token_info, it).
     bindE (next_account_info it) (\<lambda>(mint_info, it).
     bindE (next_account_info it) (\<lambda>(authority_info, rest).
     bindE (open_for_conversion E program_id token_info mint_info authority_info rest expected_decimals w) (\<lambda>st.
     bindE (ok_or (Token Overflow) (checked_sub (amount (base st)) amt)) (\<lambda>a.
     let st = st\<lparr>base := (base st)\<lparr>amount := a\<rparr>\<rparr> in
     bindE (get_extension E PodAccount (ConfidentialTransferAccountExt E) st) (\<lambda>s.
     bindE (valid_as_destination E s) (\<lambda>_.
     bindE (verify_and_split_deposit_amount amt) (\<lambda>(lo, hi).
     bindE (add_unless_zero Z (pending_balance_lo s) lo) (\<lambda>plo.
     bindE (add_unless_zero Z (pending_balance_hi s) hi) (\<lambda>phi.
     bindE (increment_pending_balance_credit_counter (s\<lparr>pending_balance_lo := plo, pending_balance_hi := phi\<rparr>)) (\<lambda>s.
       Inr (store PodAccount token_info
             (put_extension PodAccount (ConfidentialTransferAccountExt E) s st) w))))))))))))"

definition process_withdraw ::
    "env \<Rightarrow> zk \<Rightarrow> pubkey \<Rightarrow> account_info list \<Rightarrow> u64 \<Rightarrow> u8 \<Rightarrow> bytes \<Rightarrow> int \<Rightarrow> world \<Rightarrow> world result" where
  "process_withdraw E Z program_id accounts amt expected_decimals new_decryptable proof_instruction_offset w =
     bindE (next_account_info accounts) (\<lambda>(token_info, it).
     bindE (next_account_info it) (\<lambda>(mint_info, it).
     bindE (verify_withdraw_proof E Z it proof_instruction_offset w) (\<lambda>(proof, it).
     bindE (next_account_info it) (\<lambda>(authority_info, rest).
     bindE (open_for_conversion E program_id token_info mint_info authority_info rest expected_decimals w) (\<lambda>st.
     bindE (get_extension E PodAccount (ConfidentialTransferAccountExt E) st) (\<lambda>s.
     bindE (confidential_account_approved E s) (\<lambda>_.
     if elgamal_pubkey s \<noteq> wd_pubkey proof then Inl (Token ConfidentialTransferElGamalPubkeyMismatch)
     else bindE (if amt > 0 then ok_or (Token CiphertextArithmeticFailed) (ct_subtract_from Z (available_balance s) amt)
                 else Inr (available_balance s)) (\<lambda>b.
     if b \<noteq> wd_final_ciphertext proof then Inl (Token ConfidentialTransferBalanceMismatch)
     else let s = s\<lparr>available_balance := b, decryptable_available_balance := new_decryptable\<rparr> in
     bindE (ok_or (Token Overflow) (checked_add (amount (base st)) amt)) (\<lambda>a.
       Inr (store PodAccount token_info
             (put_extension PodAccount (ConfidentialTransferAccountExt E) s (st\<lparr>base := (base st)\<lparr>amount := a\<rparr>\<rparr>)) w))))))))))"

section \<open>Transfers\<close>

text \<open>The public keys, the two parts of the amount and the new balance of the source, as both kinds of proof context
  have them.\<close>

definition debit_source ::
    "zk \<Rightarrow> (bytes \<times> bytes \<times> bytes \<times> bytes) option \<Rightarrow> bytes \<Rightarrow> confidential_transfer_account \<Rightarrow>
     confidential_transfer_account result" where
  "debit_source Z proof new_decryptable s =
     (case proof of
        None \<Rightarrow> Inr s
      | Some (source_pubkey, lo, hi, new_source) \<Rightarrow>
          if source_pubkey \<noteq> elgamal_pubkey s then Inl (Token ConfidentialTransferElGamalPubkeyMismatch)
          else bindE (ok_or (Token CiphertextArithmeticFailed)
                 (ct_subtract_with_lo_hi Z (available_balance s) (transfer_amount_source_ciphertext lo)
                    (transfer_amount_source_ciphertext hi))) (\<lambda>b.
            if b \<noteq> new_source then Inl (Token ConfidentialTransferBalanceMismatch)
            else Inr (s\<lparr>available_balance := b, decryptable_available_balance := new_decryptable\<rparr>)))"

definition process_source ::
    "env \<Rightarrow> zk \<Rightarrow> pubkey \<Rightarrow> account_info \<Rightarrow> account_info \<Rightarrow> account_info \<Rightarrow> account_info list \<Rightarrow>
     (bytes \<times> bytes \<times> bytes \<times> bytes) option \<Rightarrow> bytes \<Rightarrow> world \<Rightarrow> world result" where
  "process_source E Z program_id source_info mint_info authority_info rest proof new_decryptable w =
     bindE (check_program_account (owner_of w source_info)) (\<lambda>_.
     if key mint_info \<in> {key authority_info, key source_info} then Inl Panic
     else bindE (unpack PodAccount (data_of w source_info)) (\<lambda>st.
     bindE (validate_owner E program_id (owner (base st)) authority_info (length (data_of w authority_info)) rest w) (\<lambda>_.
     if pod_account_is_frozen (base st) then Inl (Token AccountFrozen)
     else if mint (base st) \<noteq> key mint_info then Inl (Token MintMismatch)
     else bindE (get_extension E PodAccount (ConfidentialTransferAccountExt E) st) (\<lambda>s.
     bindE (confidential_account_approved E s) (\<lambda>_.
     bindE (debit_source Z proof new_decryptable s) (\<lambda>s.
       Inr (store PodAccount source_info (put_extension PodAccount (ConfidentialTransferAccountExt E) s st) w)))))))"

definition process_source_for_transfer where
  "process_source_for_transfer E Z program_id source_info mint_info authority_info rest proof =
     process_source E Z program_id source_info mint_info authority_info rest
       (map_option (\<lambda>c. (tp_source (transfer_pubkeys c), ciphertext_lo c, ciphertext_hi c, new_source_ciphertext c)) proof)"

definition process_source_for_transfer_with_fee where
  "process_source_for_transfer_with_fee E Z program_id source_info mint_info authority_info rest proof =
     process_source E Z program_id source_info mint_info authority_info rest
       (map_option (\<lambda>c. (tp_source (transfer_with_fee_pubkeys c), wf_ciphertext_lo c, wf_ciphertext_hi c,
          wf_new_source_ciphertext c)) proof)"

definition credit_destination ::
    "zk \<Rightarrow> bytes \<Rightarrow> bytes \<Rightarrow> bytes \<Rightarrow> confidential_transfer_account \<Rightarrow> confidential_transfer_account result" where
  "credit_destination Z destination_pubkey lo hi s =
     (let failed = Token CiphertextArithmeticFailed in
      if destination_pubkey \<noteq> elgamal_pubkey s then Inl (Token ConfidentialTransferElGamalPubkeyMismatch)
      else bindE (ok_or failed (ct_add Z (pending_balance_lo s) (transfer_amount_destination_ciphertext lo))) (\<lambda>plo.
      bindE (ok_or failed (ct_add Z (pending_balance_hi s) (transfer_amount_destination_ciphertext hi))) (\<lambda>phi.
        increment_pending_balance_credit_counter (s\<lparr>pending_balance_lo := plo, pending_balance_hi := phi\<rparr>))))"

text \<open>The checks on the destination.\<close>

definition open_destination ::
    "env \<Rightarrow> account_info \<Rightarrow> account_info \<Rightarrow> world \<Rightarrow> (pod_account ext_state \<times> confidential_transfer_account) result" where
  "open_destination E destination_info mint_info w =
     bindE (check_program_account (owner_of w destination_info)) (\<lambda>_.
     if key destination_info = key mint_info then Inl Panic
     else bindE (unpack PodAccount (data_of w destination_info)) (\<lambda>st.
     if pod_account_is_frozen (base st) then Inl (Token AccountFrozen)
     else if mint (base st) \<noteq> key mint_info then Inl (Token MintMismatch)
     else bindE (if memo_required E st then check_previous_sibling_instruction_is_memo E else Inr ()) (\<lambda>_.
     bindE (get_extension E PodAccount (ConfidentialTransferAccountExt E) st) (\<lambda>s.
     bindE (valid_as_destination E s) (\<lambda>_. Inr (st, s))))))"

definition process_destination_for_transfer ::
    "env \<Rightarrow> zk \<Rightarrow> account_info \<Rightarrow> account_info \<Rightarrow> transfer_proof_context_info option \<Rightarrow> world \<Rightarrow> world result" where
  "process_destination_for_transfer E Z destination_info mint_info proof w =
     bindE (open_destination E destination_info mint_info w) (\<lambda>(st, s).
     bindE (case proof of
              None \<Rightarrow> Inr s
            | Some c \<Rightarrow> credit_destination Z (tp_destination (transfer_pubkeys c)) (ciphertext_lo c) (ciphertext_hi c) s) (\<lambda>s.
       Inr (store PodAccount destination_info (put_extension PodAccount (ConfidentialTransferAccountExt E) s st) w)))"

text \<open>The fee leaves the pending balance and is withheld, encrypted for the withdraw authority.\<close>

definition subtract_fee ::
    "zk \<Rightarrow> bytes \<Rightarrow> bytes \<Rightarrow> confidential_transfer_account \<Rightarrow> confidential_transfer_account result" where
  "subtract_fee Z fee_lo fee_hi s =
     (let failed = Token CiphertextArithmeticFailed in
      bindE (ok_or failed (ct_subtract Z (pending_balance_lo s) (fee_amount_destination_ciphertext fee_lo))) (\<lambda>plo.
      bindE (ok_or failed (ct_subtract Z (pending_balance_hi s) (fee_amount_destination_ciphertext fee_hi))) (\<lambda>phi.
        Inr (s\<lparr>pending_balance_lo := plo, pending_balance_hi := phi\<rparr>))))"

definition withhold_confidential_fee ::
    "env \<Rightarrow> zk \<Rightarrow> bytes \<Rightarrow> bytes \<Rightarrow> pod_account ext_state \<Rightarrow> pod_account ext_state result" where
  "withhold_confidential_fee E Z fee_lo fee_hi st =
     bindE (get_extension E PodAccount (ConfidentialTransferFeeAmountExt E) st) (\<lambda>n.
     bindE (ok_or (Token CiphertextArithmeticFailed)
       (ct_add_with_lo_hi Z n (fee_amount_withdraw_withheld_authority_ciphertext fee_lo)
          (fee_amount_withdraw_withheld_authority_ciphertext fee_hi))) (\<lambda>n.
       Inr (put_extension PodAccount (ConfidentialTransferFeeAmountExt E) n st)))"

definition credit_with_fee ::
    "env \<Rightarrow> zk \<Rightarrow> transfer_with_fee_proof_context_info \<Rightarrow> bool \<Rightarrow> confidential_transfer_account \<Rightarrow>
     pod_account ext_state \<Rightarrow> pod_account ext_state result" where
  "credit_with_fee E Z c is_self_transfer s st =
     bindE (credit_destination Z (tp_destination (transfer_with_fee_pubkeys c)) (wf_ciphertext_lo c)
              (wf_ciphertext_hi c) s) (\<lambda>s.
     if is_self_transfer then Inr (put_extension PodAccount (ConfidentialTransferAccountExt E) s st)
     else bindE (subtract_fee Z (fee_ciphertext_lo c) (fee_ciphertext_hi c) s) (\<lambda>s.
       withhold_confidential_fee E Z (fee_ciphertext_lo c) (fee_ciphertext_hi c)
         (put_extension PodAccount (ConfidentialTransferAccountExt E) s st)))"

definition process_destination_for_transfer_with_fee ::
    "env \<Rightarrow> zk \<Rightarrow> account_info \<Rightarrow> account_info \<Rightarrow> transfer_with_fee_proof_context_info option \<Rightarrow> bool \<Rightarrow> world \<Rightarrow> world result" where
  "process_destination_for_transfer_with_fee E Z destination_info mint_info proof is_self_transfer w =
     bindE (open_destination E destination_info mint_info w) (\<lambda>(st, s).
     bindE (case proof of None \<Rightarrow> Inr st | Some c \<Rightarrow> credit_with_fee E Z c is_self_transfer s st) (\<lambda>st.
       Inr (store PodAccount destination_info st w)))"

text \<open>After a verification without a context the accounts for the closing are still ahead.\<close>

definition flush_close_accounts :: "bool \<Rightarrow> 'c option \<Rightarrow> account_info list \<Rightarrow> account_info list result" where
  "flush_close_accounts close proof it =
     (if close \<and> proof = None then
        bindE (next_account_info it) (\<lambda>(_, it).
        bindE (next_account_info it) (\<lambda>(_, it).
        bindE (next_account_info it) (\<lambda>(_, it). Inr it)))
      else Inr it)"

definition check_auditor :: "zk \<Rightarrow> confidential_transfer_mint \<Rightarrow> bytes option \<Rightarrow> unit result" where
  "check_auditor Z c auditor =
     (if (case auditor of None \<Rightarrow> False | Some k \<Rightarrow> \<not> elgamal_equals Z (auditor_elgamal_pubkey c) k)
      then Inl (Token ConfidentialTransferElGamalPubkeyMismatch) else Inr ())"

definition transfer_without_fee ::
    "env \<Rightarrow> zk \<Rightarrow> pubkey \<Rightarrow> account_info \<Rightarrow> account_info \<Rightarrow> account_info \<Rightarrow> account_info list \<Rightarrow>
     confidential_transfer_mint \<Rightarrow> bytes \<Rightarrow> int \<Rightarrow> bool \<Rightarrow> bool \<Rightarrow> bool \<Rightarrow> source_decrypt_handles \<Rightarrow> world \<Rightarrow>
     (account_info \<times> account_info list \<times> world) result" where
  "transfer_without_fee E Z program_id source_info mint_info destination_info it c new_decryptable offset split no_op
       close handles w =
     bindE (verify_transfer_proof E Z (key mint_info) it offset split no_op close handles w) (\<lambda>(proof, it, w).
     bindE (flush_close_accounts close proof it) (\<lambda>it.
     bindE (next_account_info it) (\<lambda>(authority_info, rest).
     bindE (check_auditor Z c (map_option (\<lambda>p. tp_auditor (transfer_pubkeys p)) proof)) (\<lambda>_.
     bindE (process_source_for_transfer E Z program_id source_info mint_info authority_info rest proof new_decryptable w) (\<lambda>w.
     bindE (process_destination_for_transfer E Z destination_info mint_info proof w) (\<lambda>w.
       Inr (authority_info, rest, w)))))))"

definition check_withdraw_withheld_authority ::
    "confidential_transfer_fee_config \<Rightarrow> transfer_with_fee_proof_context_info option \<Rightarrow> unit result" where
  "check_withdraw_withheld_authority f proof =
     (if (case proof of None \<Rightarrow> False
          | Some c \<Rightarrow> tp_withdraw_withheld_authority (transfer_with_fee_pubkeys c) \<noteq> withdraw_withheld_authority_elgamal_pubkey f)
      then Inl (Token ConfidentialTransferElGamalPubkeyMismatch) else Inr ())"

definition transfer_with_fee ::
    "env \<Rightarrow> zk \<Rightarrow> pubkey \<Rightarrow> account_info \<Rightarrow> account_info \<Rightarrow> account_info \<Rightarrow> account_info list \<Rightarrow>
     pod_mint ext_state \<Rightarrow> confidential_transfer_mint \<Rightarrow> transfer_fee_config \<Rightarrow>
     bytes \<Rightarrow> int \<Rightarrow> bool \<Rightarrow> bool \<Rightarrow> bool \<Rightarrow> source_decrypt_handles \<Rightarrow> world \<Rightarrow>
     (account_info \<times> account_info list \<times> world) result" where
  "transfer_with_fee E Z program_id source_info mint_info destination_info it mt c config new_decryptable offset split
       no_op close handles w =
     bindE (clock_get E) (\<lambda>now.
     bindE (verify_transfer_with_fee_proof E Z (key mint_info) it offset split no_op close handles
              (get_epoch_fee config (epoch now)) w) (\<lambda>(proof, it, w).
     bindE (flush_close_accounts close proof it) (\<lambda>it.
     bindE (next_account_info it) (\<lambda>(authority_info, rest).
     bindE (check_auditor Z c (map_option (\<lambda>p. tp_auditor (transfer_with_fee_pubkeys p)) proof)) (\<lambda>_.
     bindE (get_extension E (PodMint E) (ConfidentialTransferFeeConfigExt E) mt) (\<lambda>f.
     bindE (check_withdraw_withheld_authority f proof) (\<lambda>_.
     bindE (process_source_for_transfer_with_fee E Z program_id source_info mint_info authority_info rest proof
              new_decryptable w) (\<lambda>w.
     bindE (process_destination_for_transfer_with_fee E Z destination_info mint_info proof
              (key source_info = key destination_info) w) (\<lambda>w.
       Inr (authority_info, rest, w))))))))))"

definition set_transferring_account :: "env \<Rightarrow> account_info \<Rightarrow> world \<Rightarrow> world result" where
  "set_transferring_account E info w =
     bindE (unpack PodAccount (data_of w info)) (\<lambda>st.
     bindE (set_transferring E st) (\<lambda>st. Inr (store PodAccount info st w)))"

text \<open>The amount is unknown to the hook: \<open>u64::MAX\<close> stands for it.\<close>

definition run_confidential_hook ::
    "env \<Rightarrow> pubkey \<Rightarrow> account_info \<Rightarrow> account_info \<Rightarrow> account_info \<Rightarrow> account_info \<Rightarrow> account_info list \<Rightarrow> world \<Rightarrow> world result" where
  "run_confidential_hook E hook_program source_info mint_info destination_info authority_info rest w =
     bindE (set_transferring_account E source_info w) (\<lambda>w.
     bindE (set_transferring_account E destination_info w) (\<lambda>w.
     bindE (invoke_execute E hook_program [source_info, mint_info, destination_info, authority_info] rest (- 1) w) (\<lambda>w.
     bindE (unset_transferring E source_info w) (\<lambda>w.
       unset_transferring E destination_info w))))"

text \<open>Whether the mint has a transfer fee decides which proofs are expected.\<close>

definition transfer_by_kind ::
    "env \<Rightarrow> zk \<Rightarrow> pubkey \<Rightarrow> account_info \<Rightarrow> account_info \<Rightarrow> account_info \<Rightarrow> account_info list \<Rightarrow>
     pod_mint ext_state \<Rightarrow> confidential_transfer_mint \<Rightarrow> bytes \<Rightarrow> int \<Rightarrow> bool \<Rightarrow> bool \<Rightarrow> bool \<Rightarrow>
     source_decrypt_handles \<Rightarrow> world \<Rightarrow> (account_info \<times> account_info list \<times> world) result" where
  "transfer_by_kind E Z program_id source_info mint_info destination_info it mt c new_decryptable offset split no_op
       close handles w =
     (case get_extension E (PodMint E) TransferFeeConfigExt mt of
        Inl _ \<Rightarrow> transfer_without_fee E Z program_id source_info mint_info destination_info it c new_decryptable
                   offset split no_op close handles w
      | Inr config \<Rightarrow> transfer_with_fee E Z program_id source_info mint_info destination_info it mt c config
                   new_decryptable offset split no_op close handles w)"

definition process_transfer_ct ::
    "env \<Rightarrow> zk \<Rightarrow> pubkey \<Rightarrow> account_info list \<Rightarrow> bytes \<Rightarrow> int \<Rightarrow> bool \<Rightarrow> bool \<Rightarrow> bool \<Rightarrow> source_decrypt_handles \<Rightarrow> world \<Rightarrow> world result" where
  "process_transfer_ct E Z program_id accounts new_decryptable offset split no_op close handles w =
     bindE (next_account_info accounts) (\<lambda>(source_info, it).
     bindE (next_account_info it) (\<lambda>(mint_info, it).
     bindE (next_account_info it) (\<lambda>(destination_info, it).
     bindE (check_program_account (owner_of w mint_info)) (\<lambda>_.
     bindE (unpack (PodMint E) (data_of w mint_info)) (\<lambda>mt.
     if isOk (get_extension E (PodMint E) NonTransferableExt mt) then Inl (Token token_error.NonTransferable)
     else bindE (get_extension E (PodMint E) (ConfidentialTransferMintExt E) mt) (\<lambda>c.
     bindE (transfer_by_kind E Z program_id source_info mint_info destination_info it mt c new_decryptable offset split
              no_op close handles w) (\<lambda>(authority_info, rest, w).
     case get_hook_program_id E mt of
       None \<Rightarrow> Inr w
     | Some p \<Rightarrow> run_confidential_hook E p source_info mint_info destination_info authority_info rest w)))))))"

end
