(* ===== verification/Confidential_Fee.thy ===== *)
theory Confidential_Fee
  imports Confidential
begin

text \<open>
  Confidential transfer fees:
  \<open>src/programs/src/extension/confidential_transfer_fee/processor.rs\<close>.  Fees withheld on accounts, as
  ciphertexts, are harvested to the mint or withdrawn to an account.
\<close>

definition process_initialize_confidential_transfer_fee_config ::
    "env \<Rightarrow> account_info list \<Rightarrow> pubkey \<Rightarrow> bytes \<Rightarrow> world \<Rightarrow> world result" where
  "process_initialize_confidential_transfer_fee_config E accounts new_authority withdraw_key w =
     init_uninitialized (PodMint E) (ConfidentialTransferFeeConfigExt E)
       (Inr \<lparr>cf_authority = new_authority, withdraw_withheld_authority_elgamal_pubkey = withdraw_key,
             harvest_to_mint_enabled = pod_of_bool E True, cf_withheld_amount = zeroed_ciphertext E\<rparr>) accounts w"

section \<open>Withdrawing from the mint\<close>

text \<open>The mint, and the consent of the authority that may withdraw.\<close>

definition open_fee_mint ::
    "env \<Rightarrow> pubkey \<Rightarrow> account_info \<Rightarrow> account_info \<Rightarrow> account_info list \<Rightarrow> world \<Rightarrow> pod_mint ext_state result" where
  "open_fee_mint E program_id mint_info authority_info ss w =
     bindE (check_program_account (owner_of w mint_info)) (\<lambda>_.
     bindE (unpack (PodMint E) (data_of w mint_info)) (\<lambda>mt.
     bindE (get_extension E (PodMint E) TransferFeeConfigExt mt) (\<lambda>c.
     bindE (ok_or (Token NoAuthorityExists) (option_of_non_zero (withdraw_withheld_authority c))) (\<lambda>k.
     bindE (validate_owner E program_id k authority_info (length (data_of w authority_info)) ss w) (\<lambda>_. Inr mt)))))"

definition open_fee_destination ::
    "env \<Rightarrow> account_info \<Rightarrow> account_info \<Rightarrow> world \<Rightarrow> pod_account ext_state result" where
  "open_fee_destination E destination_info mint_info w =
     (if key destination_info = key mint_info then Inl Panic
      else bindE (unpack PodAccount (data_of w destination_info)) (\<lambda>dst.
      if mint (base dst) \<noteq> key mint_info then Inl (Token MintMismatch)
      else if pod_account_is_frozen (base dst) then Inl (Token AccountFrozen)
      else Inr dst))"

text \<open>The proof is for the keys and for exactly the withheld ciphertext; its re-encryption for the destination is
  added to the available balance.\<close>

definition credit_withheld ::
    "zk \<Rightarrow> ciphertexts_equality_context \<Rightarrow> bytes \<Rightarrow> bytes \<Rightarrow> bytes \<Rightarrow> confidential_transfer_account \<Rightarrow>
     confidential_transfer_account result" where
  "credit_withheld Z proof withdraw_key withheld_ciphertext new_decryptable s =
     (if cc_source_pubkey proof \<noteq> withdraw_key then Inl (Token ConfidentialTransferElGamalPubkeyMismatch)
      else if cc_destination_pubkey proof \<noteq> elgamal_pubkey s then Inl (Token ConfidentialTransferElGamalPubkeyMismatch)
      else if cc_source_ciphertext proof \<noteq> withheld_ciphertext then Inl (Token ConfidentialTransferBalanceMismatch)
      else bindE (ok_or (Prog InvalidInstructionData) (ct_add Z (available_balance s) (cc_destination_ciphertext proof))) (\<lambda>b.
        Inr (s\<lparr>available_balance := b, decryptable_available_balance := new_decryptable\<rparr>)))"

definition process_withdraw_withheld_tokens_from_mint_ct ::
    "env \<Rightarrow> zk \<Rightarrow> pubkey \<Rightarrow> account_info list \<Rightarrow> bytes \<Rightarrow> int \<Rightarrow> world \<Rightarrow> world result" where
  "process_withdraw_withheld_tokens_from_mint_ct E Z program_id accounts new_decryptable offset w =
     bindE (next_account_info accounts) (\<lambda>(mint_info, it).
     bindE (next_account_info it) (\<lambda>(destination_info, it).
     bindE (next_account_info it) (\<lambda>(proof_info, it).
     bindE (verify_ciphertext_ciphertext_equality_proof E Z proof_info offset w) (\<lambda>proof.
     bindE (next_account_info it) (\<lambda>(authority_info, rest).
     bindE (open_fee_mint E program_id mint_info authority_info rest w) (\<lambda>mt.
     bindE (get_extension E (PodMint E) (ConfidentialTransferFeeConfigExt E) mt) (\<lambda>f.
     bindE (open_fee_destination E destination_info mint_info w) (\<lambda>dst.
     bindE (get_extension E PodAccount (ConfidentialTransferAccountExt E) dst) (\<lambda>s.
     bindE (valid_as_destination E s) (\<lambda>_.
     bindE (credit_withheld Z proof (withdraw_withheld_authority_elgamal_pubkey f) (cf_withheld_amount f) new_decryptable s) (\<lambda>s.
       Inr (store PodAccount destination_info (put_extension PodAccount (ConfidentialTransferAccountExt E) s dst)
             (store (PodMint E) mint_info (put_extension (PodMint E) (ConfidentialTransferFeeConfigExt E)
               (f\<lparr>cf_withheld_amount := zeroed_ciphertext E\<rparr>) mt) w)))))))))))))"

section \<open>Harvesting\<close>

definition harvest_from_account_ct :: "env \<Rightarrow> pubkey \<Rightarrow> account_info \<Rightarrow> world \<Rightarrow> token_error + (bytes \<times> world)" where
  "harvest_from_account_ct E mint_key info w =
     bindE (map_err (\<lambda>_. InvalidState) (unpack PodAccount (data_of w info))) (\<lambda>st.
     if mint (base st) \<noteq> mint_key then Inl MintMismatch
     else bindE (map_err (\<lambda>_. InvalidState) (check_program_account (owner_of w info))) (\<lambda>_.
       bindE (map_err (\<lambda>_. InvalidState) (get_extension E PodAccount (ConfidentialTransferFeeAmountExt E) st)) (\<lambda>n.
         Inr (n, store PodAccount info
                   (put_extension PodAccount (ConfidentialTransferFeeAmountExt E) (zeroed_ciphertext E) st) w))))"

fun harvest_to_mint_ct ::
    "env \<Rightarrow> zk \<Rightarrow> pubkey \<Rightarrow> account_info list \<Rightarrow> confidential_transfer_fee_config \<times> world \<Rightarrow>
     (confidential_transfer_fee_config \<times> world) result" where
  "harvest_to_mint_ct E Z mint_key [] st = Inr st"
| "harvest_to_mint_ct E Z mint_key (a # as) (f, w) =
     (if key a = mint_key then Inl Panic
      else case harvest_from_account_ct E mint_key a w of
        Inl e \<Rightarrow> harvest_to_mint_ct E Z mint_key as (f, w)
      | Inr (n, w') \<Rightarrow>
          bindE (ok_or (Prog InvalidInstructionData) (ct_add Z (cf_withheld_amount f) n)) (\<lambda>m.
            harvest_to_mint_ct E Z mint_key as (f\<lparr>cf_withheld_amount := m\<rparr>, w')))"

definition process_harvest_withheld_tokens_to_mint_ct ::
    "env \<Rightarrow> zk \<Rightarrow> account_info list \<Rightarrow> world \<Rightarrow> world result" where
  "process_harvest_withheld_tokens_to_mint_ct E Z accounts w =
     bindE (next_account_info accounts) (\<lambda>(mint_info, token_infos).
     bindE (unpack (PodMint E) (data_of w mint_info)) (\<lambda>mt.
     bindE (get_extension E (PodMint E) TransferFeeConfigExt mt) (\<lambda>_.
     bindE (get_extension E (PodMint E) (ConfidentialTransferFeeConfigExt E) mt) (\<lambda>f.
     if \<not> pod_bool E (harvest_to_mint_enabled f) then Inl (Token HarvestToMintDisabled)
     else bindE (harvest_to_mint_ct E Z (key mint_info) token_infos (f, w)) (\<lambda>(f, w).
       Inr (store (PodMint E) mint_info (put_extension (PodMint E) (ConfidentialTransferFeeConfigExt E) f mt) w))))))"

text \<open>The sum of the withheld ciphertexts; the destination is held unpacked and may be one of the accounts.\<close>

fun aggregate_withheld ::
    "env \<Rightarrow> zk \<Rightarrow> pubkey \<Rightarrow> pubkey \<Rightarrow> account_info list \<Rightarrow> bytes \<times> pod_account ext_state \<times> world \<Rightarrow>
     (bytes \<times> pod_account ext_state \<times> world) result" where
  "aggregate_withheld E Z mint_key dst_key [] st = Inr st"
| "aggregate_withheld E Z mint_key dst_key (a # as) (sum_ct, dst, w) =
     (if key a = dst_key then
        bindE (map_err (\<lambda>_. Token InvalidState) (get_extension E PodAccount (ConfidentialTransferFeeAmountExt E) dst)) (\<lambda>n.
        bindE (ok_or (Prog InvalidInstructionData) (ct_add Z sum_ct n)) (\<lambda>m.
          aggregate_withheld E Z mint_key dst_key as
            (m, put_extension PodAccount (ConfidentialTransferFeeAmountExt E) (zeroed_ciphertext E) dst, w)))
      else if key a = mint_key then Inl Panic
      else case harvest_from_account_ct E mint_key a w of
        Inl e \<Rightarrow> aggregate_withheld E Z mint_key dst_key as (sum_ct, dst, w)
      | Inr (n, w') \<Rightarrow>
          bindE (ok_or (Prog InvalidInstructionData) (ct_add Z sum_ct n)) (\<lambda>m.
            aggregate_withheld E Z mint_key dst_key as (m, dst, w')))"

definition process_withdraw_withheld_tokens_from_accounts_ct ::
    "env \<Rightarrow> zk \<Rightarrow> pubkey \<Rightarrow> account_info list \<Rightarrow> u8 \<Rightarrow> bytes \<Rightarrow> int \<Rightarrow> world \<Rightarrow> world result" where
  "process_withdraw_withheld_tokens_from_accounts_ct E Z program_id accounts num_token_accounts new_decryptable offset w =
     bindE (next_account_info accounts) (\<lambda>(mint_info, it).
     bindE (next_account_info it) (\<lambda>(destination_info, it).
     bindE (next_account_info it) (\<lambda>(proof_info, it).
     bindE (verify_ciphertext_ciphertext_equality_proof E Z proof_info offset w) (\<lambda>proof.
     bindE (next_account_info it) (\<lambda>(authority_info, infos).
     let num_signers = length infos - unat num_token_accounts in
     bindE (open_fee_mint E program_id mint_info authority_info (take num_signers infos) w) (\<lambda>mt.
     bindE (open_fee_destination E destination_info mint_info w) (\<lambda>dst.
     bindE (aggregate_withheld E Z (key mint_info) (key destination_info) (drop num_signers infos)
              (zeroed_ciphertext E, dst, w)) (\<lambda>(sum_ct, dst, w).
     bindE (get_extension E PodAccount (ConfidentialTransferAccountExt E) dst) (\<lambda>s.
     bindE (valid_as_destination E s) (\<lambda>_.
     bindE (get_extension E (PodMint E) (ConfidentialTransferFeeConfigExt E) mt) (\<lambda>f.
     bindE (credit_withheld Z proof (withdraw_withheld_authority_elgamal_pubkey f) sum_ct new_decryptable s) (\<lambda>s.
       Inr (store PodAccount destination_info (put_extension PodAccount (ConfidentialTransferAccountExt E) s dst) w)))))))))))))"

section \<open>The harvest switch\<close>

definition set_harvest_to_mint ::
    "env \<Rightarrow> pubkey \<Rightarrow> account_info list \<Rightarrow> bool \<Rightarrow> world \<Rightarrow> world result" where
  "set_harvest_to_mint E program_id accounts enable w =
     bindE (next_account_info accounts) (\<lambda>(mint_info, it).
     bindE (next_account_info it) (\<lambda>(authority_info, rest).
     bindE (check_program_account (owner_of w mint_info)) (\<lambda>_.
     bindE (unpack (PodMint E) (data_of w mint_info)) (\<lambda>mt.
     bindE (get_extension E (PodMint E) (ConfidentialTransferFeeConfigExt E) mt) (\<lambda>f.
     bindE (ok_or (Token NoAuthorityExists) (option_of_non_zero (cf_authority f))) (\<lambda>k.
     bindE (validate_owner E program_id k authority_info (length (data_of w authority_info)) rest w) (\<lambda>_.
       Inr (store (PodMint E) mint_info (put_extension (PodMint E) (ConfidentialTransferFeeConfigExt E)
             (f\<lparr>harvest_to_mint_enabled := pod_of_bool E enable\<rparr>) mt) w))))))))"

definition process_enable_harvest_to_mint where
  "process_enable_harvest_to_mint E program_id accounts = set_harvest_to_mint E program_id accounts True"

definition process_disable_harvest_to_mint where
  "process_disable_harvest_to_mint E program_id accounts = set_harvest_to_mint E program_id accounts False"

end
