(* ===== verification/Ui_Amount.thy ===== *)
theory Ui_Amount
  imports Extension_Processors
begin

text \<open>
  The decimal representation of amounts (\<open>src/programs/src/lib.rs\<close>) and the two instructions
  that convert between raw and UI amounts (\<open>src/programs/src/processor.rs\<close>).  A string is
  the list of its UTF-8 bytes: 48 to 57 are the digits, 46 the point, 43 the plus sign.
\<close>

section \<open>Decimal digits\<close>

fun digits :: "nat \<Rightarrow> bytes" where
  "digits n = (if n < 10 then [48 + of_nat n] else digits (n div 10) @ [48 + of_nat (n mod 10)])"

declare digits.simps [simp del]

text \<open>\<open>format!("{:01$}", amount, width)\<close>.\<close>

definition zero_padded :: "nat \<Rightarrow> bytes \<Rightarrow> bytes" where
  "zero_padded width s = replicate (width - length s) 48 @ s"

definition amount_to_ui_amount_string :: "u64 \<Rightarrow> u8 \<Rightarrow> bytes" where
  "amount_to_ui_amount_string amt dec =
     (if dec > 0 then
        let s = zero_padded (unat dec + 1) (digits (unat amt)); k = length s - unat dec
        in take k s @ 46 # drop k s
      else digits (unat amt))"

definition trim_end_matches :: "u8 \<Rightarrow> bytes \<Rightarrow> bytes" where
  "trim_end_matches c s = rev (dropWhile (\<lambda>b. b = c) (rev s))"

definition amount_to_ui_amount_string_trimmed :: "u64 \<Rightarrow> u8 \<Rightarrow> bytes" where
  "amount_to_ui_amount_string_trimmed amt dec =
     (let s = amount_to_ui_amount_string amt dec
      in if dec > 0 then trim_end_matches 46 (trim_end_matches 48 s) else s)"

text \<open>\<open>str::split\<close>, \<open>str::parse::<u64>\<close>.\<close>

fun split_at :: "u8 \<Rightarrow> bytes \<Rightarrow> bytes list" where
  "split_at c [] = [[]]"
| "split_at c (b # bs) =
     (if b = c then [] # split_at c bs
      else case split_at c bs of [] \<Rightarrow> [[b]] | p # ps \<Rightarrow> (b # p) # ps)"

fun parse_digits :: "u64 \<Rightarrow> bytes \<Rightarrow> u64 option" where
  "parse_digits acc [] = Some acc"
| "parse_digits acc (b # bs) =
     (if 48 \<le> b \<and> b \<le> 57 then
        Option.bind (checked_mul acc 10) (\<lambda>m.
        Option.bind (checked_add m (of_nat (unat b - 48))) (\<lambda>a. parse_digits a bs))
      else None)"

definition parse_u64 :: "bytes \<Rightarrow> u64 option" where
  "parse_u64 s =
     (let ds = (case s of b # bs \<Rightarrow> if b = 43 then bs else s | [] \<Rightarrow> [])
      in if ds = [] then None else parse_digits 0 ds)"

definition try_ui_amount_into_amount :: "bytes \<Rightarrow> u8 \<Rightarrow> u64 result" where
  "try_ui_amount_into_amount ui_amount dec =
     (let parts = split_at 46 ui_amount;
          amount_str = hd parts;
          after_decimal = trim_end_matches 48 (case tl parts of [] \<Rightarrow> [] | p # _ \<Rightarrow> p)
      in if amount_str = [] \<and> after_decimal = [] \<or> length parts > 2 \<or> length after_decimal > unat dec
         then Inl (Prog InvalidArgument)
         else ok_or (Prog InvalidArgument)
                (parse_u64 (amount_str @ after_decimal @ replicate (unat dec - length after_decimal) 48)))"

section \<open>The two instructions\<close>

text \<open>A mint that bears interest converts with floating-point arithmetic (theory Interest):
  \<open>to_ui\<close> and \<open>from_ui\<close> stand for the conversions of its configuration, given the
  decimals and the time.\<close>

definition process_amount_to_ui_amount ::
    "env \<Rightarrow> (interest_bearing_config \<Rightarrow> u64 \<Rightarrow> u8 \<Rightarrow> u64 \<Rightarrow> bytes option) \<Rightarrow>
     account_info list \<Rightarrow> u64 \<Rightarrow> world \<Rightarrow> world result" where
  "process_amount_to_ui_amount E to_ui accounts amt w =
     bindE (next_account_info accounts) (\<lambda>(mint_info, it).
     bindE (check_program_account (owner_of w mint_info)) (\<lambda>_.
     bindE (map_err (\<lambda>_. Token InvalidMint) (unpack (PodMint E) (data_of w mint_info))) (\<lambda>mt.
     bindE (case get_extension E (PodMint E) InterestBearingConfigExt mt of
              Inr c \<Rightarrow> bindE (clock_get E) (\<lambda>now.
                ok_or (Prog InvalidArgument) (to_ui c amt (decimals (base mt)) (unix_timestamp now)))
            | Inl _ \<Rightarrow> Inr (amount_to_ui_amount_string_trimmed amt (decimals (base mt)))) (\<lambda>s.
       Inr (w\<lparr>return_data := s\<rparr>)))))"

definition process_ui_amount_to_amount ::
    "env \<Rightarrow> (interest_bearing_config \<Rightarrow> bytes \<Rightarrow> u8 \<Rightarrow> u64 \<Rightarrow> u64 result) \<Rightarrow>
     account_info list \<Rightarrow> bytes \<Rightarrow> world \<Rightarrow> world result" where
  "process_ui_amount_to_amount E from_ui accounts ui_amount w =
     bindE (next_account_info accounts) (\<lambda>(mint_info, it).
     bindE (check_program_account (owner_of w mint_info)) (\<lambda>_.
     bindE (map_err (\<lambda>_. Token InvalidMint) (unpack (PodMint E) (data_of w mint_info))) (\<lambda>mt.
     bindE (case get_extension E (PodMint E) InterestBearingConfigExt mt of
              Inr c \<Rightarrow> bindE (clock_get E) (\<lambda>now. from_ui c ui_amount (decimals (base mt)) (unix_timestamp now))
            | Inl _ \<Rightarrow> try_ui_amount_into_amount ui_amount (decimals (base mt))) (\<lambda>amt.
       Inr (w\<lparr>return_data := word_le amt\<rparr>)))))"

section \<open>The value of a string of digits\<close>

definition is_digit :: "u8 \<Rightarrow> bool" where
  "is_digit b \<longleftrightarrow> 48 \<le> b \<and> b \<le> 57"

fun dec_value :: "nat \<Rightarrow> bytes \<Rightarrow> nat" where
  "dec_value acc [] = acc"
| "dec_value acc (b # bs) = dec_value (acc * 10 + (unat b - 48)) bs"

lemma dec_value_append: "dec_value acc (s @ t) = dec_value (dec_value acc s) t"
  by (induction s arbitrary: acc) auto

lemma dec_value_acc: "dec_value acc s = acc * 10 ^ length s + dec_value 0 s"
proof (induction s arbitrary: acc)
  case (Cons b s)
  show ?case using Cons.IH [of "acc * 10 + (unat b - 48)"] Cons.IH [of "unat b - 48"]
    by (simp add: algebra_simps)
qed simp

lemma dec_value_ge: "n \<le> dec_value n s"
proof -
  have "n * 1 \<le> n * 10 ^ length s" by (rule mult_le_mono) simp_all
  then show ?thesis by (simp only: dec_value_acc [of n s])
qed

lemma dec_value_zeros: "dec_value acc (replicate n 48) = acc * 10 ^ n"
  by (induction n arbitrary: acc) simp_all

lemma unat_digit: "n < 10 \<Longrightarrow> unat (48 + of_nat n :: u8) = 48 + n"
  by (simp add: unat_word_ariths unat_of_nat take_bit_nat_def)

lemma is_digit_of_nat: "n < 10 \<Longrightarrow> is_digit (48 + of_nat n)"
  by (simp add: is_digit_def word_le_nat_alt unat_digit)

lemma digits_digits: "list_all is_digit (digits n)"
  by (induction n rule: digits.induct) (subst digits.simps, simp add: is_digit_of_nat)

lemma dec_value_digits: "dec_value 0 (digits n) = n"
proof (induction n rule: digits.induct)
  case (1 n)
  then show ?case by (subst digits.simps) (simp add: dec_value_append unat_digit)
qed

lemma digits_not_Nil [simp]: "digits n \<noteq> []"
  by (subst digits.simps) simp

lemma digit_step:
  assumes "48 \<le> b" "b \<le> (57 :: u8)"
  shows "Option.bind (checked_mul acc 10) (\<lambda>m. Option.bind (checked_add m (of_nat (unat b - 48))) k) =
    (if unat acc * 10 + (unat b - 48) < 2 ^ 64 then k (of_nat (unat acc * 10 + (unat b - 48)) :: u64) else None)"
proof -
  have u: "unat (of_nat (unat b - 48) :: u64) = unat b - 48"
    using unat_less_2p [of b] by (simp add: unat_of_nat take_bit_nat_def)
  show ?thesis
  proof (cases "unat acc * 10 < 2 ^ 64")
    case True
    then obtain m where m: "checked_mul acc 10 = Some m" "unat m = unat acc * 10"
      using checked_mul_ok [of acc 10] by auto
    show ?thesis
    proof (cases "checked_add m (of_nat (unat b - 48) :: u64)")
      case None
      then show ?thesis using m u checked_add_None [of m "of_nat (unat b - 48)"] by simp
    next
      case (Some x)
      then have "unat x = unat acc * 10 + (unat b - 48)" using m u by (simp add: checked_add_Some)
      moreover from this have "x = of_nat (unat acc * 10 + (unat b - 48))" by (metis of_nat_unat ucast_id)
      ultimately show ?thesis using Some m unat_less_2p [of x] by simp
    qed
  next
    case False
    then have "checked_mul acc 10 = None" by (simp add: checked_mul_def)
    with False show ?thesis by simp
  qed
qed

lemma parse_digits_spec:
  assumes "list_all is_digit s"
  shows "parse_digits acc s =
    (if dec_value (unat acc) s < 2 ^ 64 then Some (of_nat (dec_value (unat acc) s)) else None)"
  using assms
proof (induction s arbitrary: acc)
  case Nil
  then show ?case using unat_less_2p [of acc] by simp
next
  case (Cons b s)
  then have b: "48 \<le> b" "b \<le> 57" by (simp_all add: is_digit_def)
  let ?n = "unat acc * 10 + (unat b - 48)"
  show ?case
  proof (cases "?n < 2 ^ 64")
    case True
    define z where "z = (of_nat ?n :: u64)"
    have "unat z = ?n" using True by (simp add: z_def unat_of_nat take_bit_nat_def del: of_nat_add of_nat_mult)
    moreover have "parse_digits acc (b # s) = parse_digits z s" using True b by (simp add: digit_step z_def)
    ultimately show ?thesis using Cons by simp
  next
    case False
    with dec_value_ge [of ?n s] have "\<not> dec_value ?n s < 2 ^ 64" by linarith
    with False b show ?thesis by (simp add: digit_step)
  qed
qed

lemma parse_u64_spec:
  assumes "list_all is_digit s" "s \<noteq> []"
  shows "parse_u64 s = (if dec_value 0 s < 2 ^ 64 then Some (of_nat (dec_value 0 s)) else None)"
proof -
  obtain b bs where s: "s = b # bs" using assms(2) by (cases s) auto
  have "b \<noteq> 43" using assms(1) by (auto simp: s is_digit_def)
  then have "parse_u64 s = parse_digits 0 s" by (simp add: parse_u64_def s)
  then show ?thesis by (simp add: parse_digits_spec [OF assms(1)])
qed

section \<open>Parsing a UI amount\<close>

lemma split_at_digits:
  assumes "list_all is_digit i"
  shows "split_at 46 i = [i]" "split_at 46 (i @ 46 # f) = i # split_at 46 f"
  using assms by (induction i) (auto simp: is_digit_def)

lemma trim_end_zeros: "\<exists>n. s = trim_end_matches c s @ replicate n c"
proof -
  have "rev s = takeWhile (\<lambda>b. b = c) (rev s) @ dropWhile (\<lambda>b. b = c) (rev s)" by simp
  then have "s = trim_end_matches c s @ rev (takeWhile (\<lambda>b. b = c) (rev s))"
    unfolding trim_end_matches_def by (metis rev_append rev_rev_ident)
  moreover have "rev (takeWhile (\<lambda>b. b = c) (rev s)) = replicate (length (takeWhile (\<lambda>b. b = c) (rev s))) c"
    by (intro replicate_eqI) (auto dest: set_takeWhileD)
  ultimately show ?thesis by metis
qed

lemma trim_end_digits: "list_all is_digit s \<Longrightarrow> list_all is_digit (trim_end_matches c s)"
  using trim_end_zeros [of s c] by (metis list_all_append)

lemma decimal_parsed:
  assumes "list_all is_digit i" "list_all is_digit f" "i \<noteq> [] \<or> trim_end_matches 48 f \<noteq> []"
  shows "try_ui_amount_into_amount (i @ 46 # f) dec =
    (let t = trim_end_matches 48 f; n = dec_value 0 i * 10 ^ unat dec + dec_value 0 t * 10 ^ (unat dec - length t)
     in if length t \<le> unat dec \<and> n < 2 ^ 64 then Inr (of_nat n) else Inl (Prog InvalidArgument))"
proof -
  let ?t = "trim_end_matches 48 f" and ?z = "replicate (unat dec - length (trim_end_matches 48 f)) (48 :: u8)"
  have v: "dec_value 0 (i @ ?t @ ?z) = dec_value 0 i * 10 ^ unat dec + dec_value 0 ?t * 10 ^ (unat dec - length ?t)"
    if "length ?t \<le> unat dec"
    using that by (simp add: dec_value_append dec_value_zeros dec_value_acc [of "dec_value 0 i" ?t] algebra_simps
        flip: power_add)
  have d: "list_all is_digit (i @ ?t @ ?z)" "i @ ?t @ ?z \<noteq> []"
    using assms trim_end_digits [OF assms(2), of 48] by (auto simp: is_digit_def list_all_iff)
  show ?thesis
    using assms(3) parse_u64_spec [OF d] v
    by (auto simp: try_ui_amount_into_amount_def split_at_digits [OF assms(1)] split_at_digits(1) [OF assms(2)] Let_def)
qed

text \<open>C37. The parser of UI amounts, exactly: of \<open>i.f\<close>, digits on both sides, the trailing zeros of
  \<open>f\<close> do not count; what is left of \<open>f\<close> may have at most as many digits as the mint has
  decimals, and the result is the number of raw units, refused when it does not fit in 64 bits.  Nothing is
  rounded and nothing wraps.\<close>

theorem ui_amount_parsed:
  assumes "list_all is_digit i" "list_all is_digit f" "i \<noteq> [] \<or> trim_end_matches 48 f \<noteq> []"
  shows "try_ui_amount_into_amount (i @ 46 # f) dec =
    (let t = trim_end_matches 48 f; n = dec_value 0 i * 10 ^ unat dec + dec_value 0 t * 10 ^ (unat dec - length t)
     in if length t \<le> unat dec \<and> n < 2 ^ 64 then Inr (of_nat n) else Inl (Prog InvalidArgument))"
  using assms by (rule decimal_parsed)

theorem ui_amount_parsed_witness:
  "try_ui_amount_into_amount [49, 46, 53, 48] 6 = Inr 1500000"
  using ui_amount_parsed [of "[49]" "[53, 48]" 6]
  by (simp add: is_digit_def trim_end_matches_def Let_def)

section \<open>Printing and parsing\<close>

lemma zero_padded_digits:
  "list_all is_digit (zero_padded n (digits m))" "dec_value 0 (zero_padded n (digits m)) = m"
  "n \<le> length (zero_padded n (digits m))"
  using digits_digits [of m]
  by (simp_all add: zero_padded_def is_digit_def dec_value_append dec_value_zeros dec_value_digits)
     (auto simp: list_all_iff is_digit_def)

lemma dec_value_trimmed:
  assumes "length f = d"
  shows "dec_value 0 (trim_end_matches 48 f) * 10 ^ (d - length (trim_end_matches 48 f)) = dec_value 0 f"
proof -
  obtain n where f: "f = trim_end_matches 48 f @ replicate n 48" using trim_end_zeros by blast
  then have "d - length (trim_end_matches 48 f) = n" using assms by (metis add_diff_cancel_left' length_append length_replicate)
  with f show ?thesis by (metis dec_value_append dec_value_zeros)
qed

text \<open>The printed amount, as integer and fractional part.\<close>

lemma amount_string_parts:
  assumes "dec > 0"
  obtains i f where "amount_to_ui_amount_string amt dec = i @ 46 # f" "list_all is_digit i" "list_all is_digit f"
    "i \<noteq> []" "length f = unat dec" "dec_value 0 i * 10 ^ unat dec + dec_value 0 f = unat amt"
proof -
  let ?s = "zero_padded (unat dec + 1) (digits (unat amt))"
  let ?k = "length ?s - unat dec"
  note z = zero_padded_digits [of "unat dec + 1" "unat amt"]
  have d: "list_all is_digit (take ?k ?s)" "list_all is_digit (drop ?k ?s)"
    using z(1) by (metis append_take_drop_id list_all_append)+
  have "dec_value 0 (take ?k ?s @ drop ?k ?s) = unat amt" using z(2) by simp
  then have v: "dec_value 0 (take ?k ?s) * 10 ^ unat dec + dec_value 0 (drop ?k ?s) = unat amt"
    using z(3) dec_value_acc [of "dec_value 0 (take ?k ?s)" "drop ?k ?s"]
    by (simp add: dec_value_append del: append_take_drop_id)
  show ?thesis
    by (rule that [OF _ d _ _ v]) (use assms z(3) in \<open>auto simp: amount_to_ui_amount_string_def Let_def\<close>)
qed

lemma trim_end_keep: "b \<noteq> c \<Longrightarrow> trim_end_matches c (s @ [b]) = s @ [b]"
  by (simp add: trim_end_matches_def)

lemma trim_end_append:
  "trim_end_matches c (s @ t) = (if trim_end_matches c t = [] then trim_end_matches c s else s @ trim_end_matches c t)"
proof (cases "\<forall>b\<in>set t. b = c")
  case True
  then have "dropWhile (\<lambda>b. b = c) (rev t @ rev s) = dropWhile (\<lambda>b. b = c) (rev s)" by (intro dropWhile_append2) auto
  with True show ?thesis by (simp add: trim_end_matches_def dropWhile_eq_Nil_conv)
next
  case False
  then obtain b where "b \<in> set (rev t)" "b \<noteq> c" by auto
  then show ?thesis
    by (auto simp: trim_end_matches_def dropWhile_append1 [OF \<open>b \<in> set (rev t)\<close>] dropWhile_eq_Nil_conv)
qed

lemma trim_end_last: "trim_end_matches c s \<noteq> [] \<Longrightarrow> last (trim_end_matches c s) \<noteq> c"
  using hd_dropWhile [of "\<lambda>b. b = c" "rev s"] by (simp add: trim_end_matches_def last_rev)

lemma trim_end_Nil [simp]: "trim_end_matches c [] = []"
  by (simp add: trim_end_matches_def)

lemma trim_end_no: "s = [] \<or> last s \<noteq> c \<Longrightarrow> trim_end_matches c s = s"
proof (cases s rule: rev_cases)
  case (snoc t b)
  assume "s = [] \<or> last s \<noteq> c"
  then have "b \<noteq> c" using snoc by simp
  then show ?thesis unfolding snoc by (rule trim_end_keep)
qed simp

text \<open>What trimming leaves of a printed amount.\<close>

lemma trimmed_string:
  assumes "list_all is_digit i" "list_all is_digit f" "i \<noteq> []"
  shows "trim_end_matches 46 (trim_end_matches 48 (i @ 46 # f)) =
    (if trim_end_matches 48 f = [] then i else i @ 46 # trim_end_matches 48 f)"
proof -
  have digit: "b \<in> set s \<Longrightarrow> list_all is_digit s \<Longrightarrow> b \<noteq> 46" for b s by (auto simp: list_all_iff is_digit_def)
  have li: "last i \<noteq> 46" using assms(1,3) digit [of "last i" i] by simp
  let ?t = "trim_end_matches 48 f"
  have one: "trim_end_matches 48 (i @ 46 # f) = i @ 46 # ?t"
    using trim_end_append [of 48 "i @ [46]" f] trim_end_keep [of 46 48 i] by (cases "?t = []") simp_all
  show ?thesis
  proof (cases "?t = []")
    case True
    have "trim_end_matches 46 (i @ [46]) = trim_end_matches 46 i"
      using trim_end_append [of 46 i "[46]"] by (simp add: trim_end_matches_def)
    then show ?thesis using True li by (simp add: one trim_end_no)
  next
    case False
    have "last ?t \<noteq> 46" using False trim_end_digits [OF assms(2), of 48] digit [of "last ?t" ?t] by simp
    then show ?thesis using False by (simp add: one trim_end_no)
  qed
qed

lemma trim_end_idem [simp]: "trim_end_matches c (trim_end_matches c s) = trim_end_matches c s"
  using trim_end_last [of c s] by (intro trim_end_no) auto

lemma parse_integer:
  assumes "list_all is_digit i" "i \<noteq> []"
  shows "try_ui_amount_into_amount i dec =
    (if dec_value 0 i * 10 ^ unat dec < 2 ^ 64 then Inr (of_nat (dec_value 0 i * 10 ^ unat dec)) else Inl (Prog InvalidArgument))"
proof -
  have d: "list_all is_digit (i @ replicate (unat dec) 48)" "i @ replicate (unat dec) 48 \<noteq> []"
    using assms by (auto simp: is_digit_def list_all_iff)
  show ?thesis using assms(2) parse_u64_spec [OF d]
    by (simp add: try_ui_amount_into_amount_def split_at_digits [OF assms(1)] trim_end_matches_def
        dec_value_append dec_value_zeros Let_def)
qed

lemma parse_decimal:
  assumes "list_all is_digit i" "list_all is_digit f" "i \<noteq> []" "length f = unat dec"
    "dec_value 0 i * 10 ^ unat dec + dec_value 0 f = unat (amt :: u64)"
  shows "try_ui_amount_into_amount (i @ 46 # f) dec = Inr amt"
    "try_ui_amount_into_amount (i @ 46 # trim_end_matches 48 f) dec = Inr amt"
proof -
  let ?t = "trim_end_matches 48 f"
  have l: "length ?t \<le> unat dec" using trim_end_zeros [of f 48] assms(4) by (metis le_add1 length_append)
  have "dec_value 0 ?t * 10 ^ (unat dec - length ?t) = dec_value 0 f" by (rule dec_value_trimmed [OF assms(4)])
  then have n: "dec_value 0 i * 10 ^ unat dec + dec_value 0 ?t * 10 ^ (unat dec - length ?t) = unat amt"
    using assms(5) by simp
  have ne: "i \<noteq> [] \<or> X \<noteq> []" for X :: bytes using assms(3) by simp
  show "try_ui_amount_into_amount (i @ 46 # f) dec = Inr amt"
    "try_ui_amount_into_amount (i @ 46 # ?t) dec = Inr amt"
    using l n unat_less_2p [of amt]
    by (simp_all add: decimal_parsed [OF assms(1) _ ne] assms(2) trim_end_digits Let_def)
qed

text \<open>What \<open>AmountToUiAmount\<close> prints, trimmed or not, \<open>UiAmountToAmount\<close> parses
  back: for every amount and any number of decimals the round trip gives the amount.\<close>

theorem ui_amount_roundtrip:
  "try_ui_amount_into_amount (amount_to_ui_amount_string amt dec) dec = Inr amt \<and>
   try_ui_amount_into_amount (amount_to_ui_amount_string_trimmed amt dec) dec = Inr amt"
proof (cases "dec > 0")
  case False
  then have "dec = 0" by (simp add: word_gt_0)
  then show ?thesis using parse_integer [OF digits_digits digits_not_Nil, of "unat amt" 0] unat_less_2p [of amt]
    by (simp add: amount_to_ui_amount_string_def amount_to_ui_amount_string_trimmed_def dec_value_digits)
next
  case True
  then show ?thesis
  proof (rule amount_string_parts [of dec amt])
    fix i f assume s: "amount_to_ui_amount_string amt dec = i @ 46 # f"
      and d: "list_all is_digit i" "list_all is_digit f" "i \<noteq> []" "length f = unat dec"
      and v: "dec_value 0 i * 10 ^ unat dec + dec_value 0 f = unat amt"
    note p = parse_decimal [OF d v]
    have "try_ui_amount_into_amount i dec = Inr amt" if "trim_end_matches 48 f = []"
      using dec_value_trimmed [OF d(4)] v that unat_less_2p [of amt] by (simp add: parse_integer [OF d(1,3)])
    then show ?thesis using p True
      by (simp add: s amount_to_ui_amount_string_trimmed_def trimmed_string [OF d(1-3)])
  qed
qed

end
