(* ===== verification/Pod_Instruction.thy ===== *)
theory Pod_Instruction
  imports Ui_Amount
begin

text \<open>
  The instruction types and data of the on-chain dispatcher
  (\<open>src/programs/src/pod_instruction.rs\<close>), and the decoding functions of
  \<open>src/programs/src/instruction.rs\<close>.
\<close>

section \<open>Instruction data\<close>

text \<open>The structs of one field are that field.\<close>

record initialize_mint_data =
  data_decimals :: u8
  data_mint_authority :: pubkey

record amount_checked_data =
  data_amount :: u64
  data_checked_decimals :: u8

definition initialize_mint_data_of_bytes :: "bytes \<Rightarrow> initialize_mint_data" where
  "initialize_mint_data_of_bytes b =
     \<lparr>data_decimals = le_word (slice_of b 0 1), data_mint_authority = le_word (slice_of b 1 33)\<rparr>"

definition amount_checked_data_of_bytes :: "bytes \<Rightarrow> amount_checked_data" where
  "amount_checked_data_of_bytes b =
     \<lparr>data_amount = le_word (slice_of b 0 8), data_checked_decimals = le_word (slice_of b 8 9)\<rparr>"

section \<open>Instruction types\<close>

datatype (plugins only: code size) pod_token_instruction =
    InitializeMint | InitializeAccount | InitializeMultisig | Transfer | Approve | Revoke
  | SetAuthority | MintTo | Burn | CloseAccount | FreezeAccount | ThawAccount | TransferChecked
  | ApproveChecked | MintToChecked | BurnChecked | InitializeAccount2 | SyncNative
  | InitializeAccount3 | InitializeMultisig2 | InitializeMint2 | GetAccountDataSize
  | InitializeImmutableOwner | AmountToUiAmount | UiAmountToAmount
  | InitializeMintCloseAuthority | TransferFeeExtension | ConfidentialTransferExtension
  | DefaultAccountStateExtension | Reallocate | MemoTransferExtension | CreateNativeMint
  | InitializeNonTransferableMint | InterestBearingMintExtension | CpiGuardExtension
  | InitializePermanentDelegate | TransferHookExtension | ConfidentialTransferFeeExtension
  | WithdrawExcessLamports | MetadataPointerExtension | GroupPointerExtension
  | GroupMemberPointerExtension

text \<open>The declaration order gives the discriminants.\<close>

definition pod_token_instructions :: "pod_token_instruction list" where
  "pod_token_instructions =
    [InitializeMint, InitializeAccount, InitializeMultisig, Transfer, Approve, Revoke,
     SetAuthority, MintTo, Burn, CloseAccount, FreezeAccount, ThawAccount, TransferChecked,
     ApproveChecked, MintToChecked, BurnChecked, InitializeAccount2, SyncNative,
     InitializeAccount3, InitializeMultisig2, InitializeMint2, GetAccountDataSize,
     InitializeImmutableOwner, AmountToUiAmount, UiAmountToAmount, InitializeMintCloseAuthority,
     TransferFeeExtension, ConfidentialTransferExtension, DefaultAccountStateExtension,
     Reallocate, MemoTransferExtension, CreateNativeMint, InitializeNonTransferableMint,
     InterestBearingMintExtension, CpiGuardExtension, InitializePermanentDelegate,
     TransferHookExtension, ConfidentialTransferFeeExtension, WithdrawExcessLamports,
     MetadataPointerExtension, GroupPointerExtension, GroupMemberPointerExtension]"

definition pod_token_instruction_try_from :: "u8 \<Rightarrow> pod_token_instruction option" where
  "pod_token_instruction_try_from b =
     (if unat b < length pod_token_instructions then Some (pod_token_instructions ! unat b) else None)"

definition pod_token_instruction_into :: "pod_token_instruction \<Rightarrow> u8" where
  "pod_token_instruction_into t = of_nat (index_of t pod_token_instructions)"

section \<open>Decoding\<close>

text \<open>\<open>decode_instruction_type\<close>, for any type with a \<open>TryFrom<u8>\<close>.\<close>

definition decode_instruction_type :: "(u8 \<Rightarrow> 'a option) \<Rightarrow> bytes \<Rightarrow> 'a result" where
  "decode_instruction_type try_from input =
     (case input of
        [] \<Rightarrow> Inl (Prog InvalidInstructionData)
      | b # _ \<Rightarrow> ok_or (Token InvalidInstruction) (try_from b))"

text \<open>\<open>decode_instruction_data::<T>\<close>, for a type of \<open>n\<close> bytes read by
  \<open>of_bytes\<close>: the length must be exact.\<close>

definition decode_instruction_data :: "nat \<Rightarrow> (bytes \<Rightarrow> 'a) \<Rightarrow> bytes \<Rightarrow> 'a result" where
  "decode_instruction_data n of_bytes input_with_type =
     (if length input_with_type \<noteq> n + 1 then Inl (Prog InvalidInstructionData)
      else Inr (of_bytes (drop 1 input_with_type)))"

definition unpack_pod_pubkey_option :: "bytes \<Rightarrow> pubkey pod_coption result" where
  "unpack_pod_pubkey_option input =
     (case input of
        [] \<Rightarrow> Inl (Prog InvalidInstructionData)
      | b # rest \<Rightarrow>
          if b = 0 then Inr pod_none
          else if b = 1 then
            (if length rest < 32 then Inl (Prog InvalidInstructionData) else Inr (pod_some (le_word (take 32 rest))))
          else Inl (Prog InvalidInstructionData))"

definition decode_instruction_data_with_coption_pubkey ::
    "nat \<Rightarrow> (bytes \<Rightarrow> 'a) \<Rightarrow> bytes \<Rightarrow> ('a \<times> pubkey pod_coption) result" where
  "decode_instruction_data_with_coption_pubkey n of_bytes input_with_type =
     (if length input_with_type < n + 1 then Inl (Prog InvalidInstructionData)
      else bindE (unpack_pod_pubkey_option (drop (n + 1) input_with_type)) (\<lambda>k.
        Inr (of_bytes (slice_of input_with_type 1 (n + 1)), k)))"

lemma decode_instruction_type_Cons [simp]:
  "decode_instruction_type f (b # rest) = ok_or (Token InvalidInstruction) (f b)"
  by (simp add: decode_instruction_type_def)

lemma decode_instruction_type_Nil [simp]: "\<not> isOk (decode_instruction_type f [])"
  by (simp add: decode_instruction_type_def)

section \<open>The bytes of the instruction types\<close>

lemma pod_token_instructions_facts:
  "length pod_token_instructions = 42" "distinct pod_token_instructions" "t \<in> set pod_token_instructions"
  by (simp_all add: pod_token_instructions_def) (cases t; simp)

lemma pod_token_instruction_try_from_iff:
  "pod_token_instruction_try_from b = Some t \<longleftrightarrow> b = pod_token_instruction_into t"
proof
  assume "pod_token_instruction_try_from b = Some t"
  then have "unat b < length pod_token_instructions" "t = pod_token_instructions ! unat b"
    by (auto simp: pod_token_instruction_try_from_def split: if_splits)
  then show "b = pod_token_instruction_into t"
    using index_of_distinct [OF pod_token_instructions_facts(2)] by (simp add: pod_token_instruction_into_def)
next
  assume b: "b = pod_token_instruction_into t"
  note i = index_of_nth [OF pod_token_instructions_facts(3), of t]
  then have "unat b = index_of t pod_token_instructions"
    by (simp add: b pod_token_instruction_into_def pod_token_instructions_facts(1) unat_of_nat take_bit_nat_def)
  with i show "pod_token_instruction_try_from b = Some t" by (simp add: pod_token_instruction_try_from_def)
qed

lemma pod_token_instruction_into_simps [simp]:
  "pod_token_instruction_into InitializeMint = 0"
  "pod_token_instruction_into InitializeAccount = 1"
  "pod_token_instruction_into InitializeMultisig = 2"
  "pod_token_instruction_into Transfer = 3"
  "pod_token_instruction_into Approve = 4"
  "pod_token_instruction_into Revoke = 5"
  "pod_token_instruction_into SetAuthority = 6"
  "pod_token_instruction_into MintTo = 7"
  "pod_token_instruction_into Burn = 8"
  "pod_token_instruction_into CloseAccount = 9"
  "pod_token_instruction_into FreezeAccount = 10"
  "pod_token_instruction_into ThawAccount = 11"
  "pod_token_instruction_into TransferChecked = 12"
  "pod_token_instruction_into ApproveChecked = 13"
  "pod_token_instruction_into MintToChecked = 14"
  "pod_token_instruction_into BurnChecked = 15"
  "pod_token_instruction_into InitializeAccount2 = 16"
  "pod_token_instruction_into SyncNative = 17"
  "pod_token_instruction_into InitializeAccount3 = 18"
  "pod_token_instruction_into InitializeMultisig2 = 19"
  "pod_token_instruction_into InitializeMint2 = 20"
  "pod_token_instruction_into GetAccountDataSize = 21"
  "pod_token_instruction_into InitializeImmutableOwner = 22"
  "pod_token_instruction_into AmountToUiAmount = 23"
  "pod_token_instruction_into UiAmountToAmount = 24"
  "pod_token_instruction_into InitializeMintCloseAuthority = 25"
  "pod_token_instruction_into TransferFeeExtension = 26"
  "pod_token_instruction_into ConfidentialTransferExtension = 27"
  "pod_token_instruction_into DefaultAccountStateExtension = 28"
  "pod_token_instruction_into Reallocate = 29"
  "pod_token_instruction_into MemoTransferExtension = 30"
  "pod_token_instruction_into CreateNativeMint = 31"
  "pod_token_instruction_into InitializeNonTransferableMint = 32"
  "pod_token_instruction_into InterestBearingMintExtension = 33"
  "pod_token_instruction_into CpiGuardExtension = 34"
  "pod_token_instruction_into InitializePermanentDelegate = 35"
  "pod_token_instruction_into TransferHookExtension = 36"
  "pod_token_instruction_into ConfidentialTransferFeeExtension = 37"
  "pod_token_instruction_into WithdrawExcessLamports = 38"
  "pod_token_instruction_into MetadataPointerExtension = 39"
  "pod_token_instruction_into GroupPointerExtension = 40"
  "pod_token_instruction_into GroupMemberPointerExtension = 41"
  by (simp_all add: pod_token_instruction_into_def pod_token_instructions_def)

lemma pod_token_instruction_of_into [simp]:
  "pod_token_instruction_try_from (pod_token_instruction_into t) = Some t"
  by (simp add: pod_token_instruction_try_from_iff)

text \<open>The numerals, for evaluation.\<close>

lemmas pod_token_instruction_of_tags [simp] =
  pod_token_instruction_of_into [of InitializeMint, simplified pod_token_instruction_into_simps]
  pod_token_instruction_of_into [of InitializeAccount, simplified pod_token_instruction_into_simps]
  pod_token_instruction_of_into [of InitializeMultisig, simplified pod_token_instruction_into_simps]
  pod_token_instruction_of_into [of Transfer, simplified pod_token_instruction_into_simps]
  pod_token_instruction_of_into [of Approve, simplified pod_token_instruction_into_simps]
  pod_token_instruction_of_into [of Revoke, simplified pod_token_instruction_into_simps]
  pod_token_instruction_of_into [of SetAuthority, simplified pod_token_instruction_into_simps]
  pod_token_instruction_of_into [of MintTo, simplified pod_token_instruction_into_simps]
  pod_token_instruction_of_into [of Burn, simplified pod_token_instruction_into_simps]
  pod_token_instruction_of_into [of CloseAccount, simplified pod_token_instruction_into_simps]
  pod_token_instruction_of_into [of FreezeAccount, simplified pod_token_instruction_into_simps]
  pod_token_instruction_of_into [of ThawAccount, simplified pod_token_instruction_into_simps]
  pod_token_instruction_of_into [of TransferChecked, simplified pod_token_instruction_into_simps]
  pod_token_instruction_of_into [of ApproveChecked, simplified pod_token_instruction_into_simps]
  pod_token_instruction_of_into [of MintToChecked, simplified pod_token_instruction_into_simps]
  pod_token_instruction_of_into [of BurnChecked, simplified pod_token_instruction_into_simps]
  pod_token_instruction_of_into [of InitializeAccount2, simplified pod_token_instruction_into_simps]
  pod_token_instruction_of_into [of SyncNative, simplified pod_token_instruction_into_simps]
  pod_token_instruction_of_into [of InitializeAccount3, simplified pod_token_instruction_into_simps]
  pod_token_instruction_of_into [of InitializeMultisig2, simplified pod_token_instruction_into_simps]
  pod_token_instruction_of_into [of InitializeMint2, simplified pod_token_instruction_into_simps]
  pod_token_instruction_of_into [of GetAccountDataSize, simplified pod_token_instruction_into_simps]
  pod_token_instruction_of_into [of InitializeImmutableOwner, simplified pod_token_instruction_into_simps]
  pod_token_instruction_of_into [of AmountToUiAmount, simplified pod_token_instruction_into_simps]
  pod_token_instruction_of_into [of UiAmountToAmount, simplified pod_token_instruction_into_simps]
  pod_token_instruction_of_into [of InitializeMintCloseAuthority, simplified pod_token_instruction_into_simps]
  pod_token_instruction_of_into [of TransferFeeExtension, simplified pod_token_instruction_into_simps]
  pod_token_instruction_of_into [of ConfidentialTransferExtension, simplified pod_token_instruction_into_simps]
  pod_token_instruction_of_into [of DefaultAccountStateExtension, simplified pod_token_instruction_into_simps]
  pod_token_instruction_of_into [of Reallocate, simplified pod_token_instruction_into_simps]
  pod_token_instruction_of_into [of MemoTransferExtension, simplified pod_token_instruction_into_simps]
  pod_token_instruction_of_into [of CreateNativeMint, simplified pod_token_instruction_into_simps]
  pod_token_instruction_of_into [of InitializeNonTransferableMint, simplified pod_token_instruction_into_simps]
  pod_token_instruction_of_into [of InterestBearingMintExtension, simplified pod_token_instruction_into_simps]
  pod_token_instruction_of_into [of CpiGuardExtension, simplified pod_token_instruction_into_simps]
  pod_token_instruction_of_into [of InitializePermanentDelegate, simplified pod_token_instruction_into_simps]
  pod_token_instruction_of_into [of TransferHookExtension, simplified pod_token_instruction_into_simps]
  pod_token_instruction_of_into [of ConfidentialTransferFeeExtension, simplified pod_token_instruction_into_simps]
  pod_token_instruction_of_into [of WithdrawExcessLamports, simplified pod_token_instruction_into_simps]
  pod_token_instruction_of_into [of MetadataPointerExtension, simplified pod_token_instruction_into_simps]
  pod_token_instruction_of_into [of GroupPointerExtension, simplified pod_token_instruction_into_simps]
  pod_token_instruction_of_into [of GroupMemberPointerExtension, simplified pod_token_instruction_into_simps]

text \<open>The one-byte instruction types: the 42 values from 0 to 41 stand for one type each, and no other
  byte is accepted.\<close>

theorem pod_instruction_type_codec:
  "(pod_token_instruction_try_from b = Some t \<longleftrightarrow> b = pod_token_instruction_into t) \<and>
   (pod_token_instruction_try_from b = None \<longleftrightarrow> 42 \<le> unat b)"
  by (auto simp: pod_token_instruction_try_from_iff)
     (auto simp: pod_token_instruction_try_from_def pod_token_instructions_facts(1) not_less split: if_splits)

section \<open>What the decoders read\<close>

lemma decode_instruction_data_Inr [success_simps]:
  "decode_instruction_data n f (t # b) = Inr x \<longleftrightarrow> length b = n \<and> x = f b"
  by (auto simp: decode_instruction_data_def)

lemma decode_instruction_data_exact [simp]:
  "length b = n \<Longrightarrow> decode_instruction_data n f (t # b) = Inr (f b)"
  by (simp add: decode_instruction_data_def)

lemma decode_coption_exact [simp]:
  "length b = n \<Longrightarrow> decode_instruction_data_with_coption_pubkey n f (t # b @ c) =
     bindE (unpack_pod_pubkey_option c) (\<lambda>k. Inr (f b, k))"
  by (simp add: decode_instruction_data_with_coption_pubkey_def slice_of_def)

lemma decode_coption_Inr [success_simps]:
  "decode_instruction_data_with_coption_pubkey n f (t # b) = Inr (x, k) \<longleftrightarrow>
     n \<le> length b \<and> x = f (take n b) \<and> unpack_pod_pubkey_option (drop n b) = Inr k"
  by (auto simp: decode_instruction_data_with_coption_pubkey_def success_simps slice_of_def)

end
