(* ===== verification/Confidential_Dispatch.thy ===== *)
theory Confidential_Dispatch
  imports Confidential_Fee Pod_Instruction
begin

text \<open>
  The instructions of the two confidential extensions and how they reach the handlers:
  \<open>instruction.rs\<close> and \<open>process_instruction\<close> of
  \<open>src/programs/src/extension/confidential_transfer\<close> and \<open>confidential_transfer_fee\<close>.
\<close>

section \<open>Confidential transfers\<close>

datatype confidential_transfer_instruction =
    CtInitializeMint | CtUpdateMint | CtConfigureAccount | CtApproveAccount | CtEmptyAccount | CtDeposit | CtWithdraw
  | CtTransfer | CtApplyPendingBalance | CtEnableConfidentialCredits | CtDisableConfidentialCredits
  | CtEnableNonConfidentialCredits | CtDisableNonConfidentialCredits | CtTransferWithSplitProofs

definition confidential_transfer_instructions :: "confidential_transfer_instruction list" where
  "confidential_transfer_instructions =
     [CtInitializeMint, CtUpdateMint, CtConfigureAccount, CtApproveAccount, CtEmptyAccount, CtDeposit, CtWithdraw,
      CtTransfer, CtApplyPendingBalance, CtEnableConfidentialCredits, CtDisableConfidentialCredits,
      CtEnableNonConfidentialCredits, CtDisableNonConfidentialCredits, CtTransferWithSplitProofs]"

definition confidential_transfer_instruction_try_from :: "u8 \<Rightarrow> confidential_transfer_instruction option" where
  "confidential_transfer_instruction_try_from b =
     (if unat b < length confidential_transfer_instructions
      then Some (confidential_transfer_instructions ! unat b) else None)"

text \<open>The layouts of the instruction data, without the byte of the type: one field after the other.  An offset is a
  signed byte.\<close>

definition i8_at :: "bytes \<Rightarrow> nat \<Rightarrow> int" where
  "i8_at b i = sint (le_word (slice_of b i (i + 1)) :: u8)"

definition initialize_mint_ct_data :: "env \<Rightarrow> bytes \<Rightarrow> pubkey \<times> u8 \<times> bytes" where
  "initialize_mint_ct_data E b = (le_word (slice_of b 0 32), le_word (slice_of b 32 33), slice_of b 33 (33 + elgamal_pubkey_len E))"

definition update_mint_data :: "env \<Rightarrow> bytes \<Rightarrow> u8 \<times> bytes" where
  "update_mint_data E b = (le_word (slice_of b 0 1), slice_of b 1 (1 + elgamal_pubkey_len E))"

definition configure_account_data :: "env \<Rightarrow> bytes \<Rightarrow> bytes \<times> u64 \<times> int" where
  "configure_account_data E b =
     (let n = ae_ciphertext_len E in (slice_of b 0 n, le_word (slice_of b n (n + 8)), i8_at b (n + 8)))"

definition deposit_data :: "bytes \<Rightarrow> u64 \<times> u8" where
  "deposit_data b = (le_word (slice_of b 0 8), le_word (slice_of b 8 9))"

definition withdraw_data :: "env \<Rightarrow> bytes \<Rightarrow> u64 \<times> u8 \<times> bytes \<times> int" where
  "withdraw_data E b =
     (let n = 9 + ae_ciphertext_len E
      in (le_word (slice_of b 0 8), le_word (slice_of b 8 9), slice_of b 9 n, i8_at b n))"

definition transfer_data :: "env \<Rightarrow> bytes \<Rightarrow> bytes \<times> int" where
  "transfer_data E b = (slice_of b 0 (ae_ciphertext_len E), i8_at b (ae_ciphertext_len E))"

definition apply_pending_balance_data :: "env \<Rightarrow> bytes \<Rightarrow> u64 \<times> bytes" where
  "apply_pending_balance_data E b = (le_word (slice_of b 0 8), slice_of b 8 (8 + ae_ciphertext_len E))"

definition split_proofs_data :: "env \<Rightarrow> bytes \<Rightarrow> bytes \<times> bool \<times> bool \<times> source_decrypt_handles" where
  "split_proofs_data E b =
     (let n = ae_ciphertext_len E
      in (slice_of b 0 n, pod_bool E (le_word (slice_of b n (n + 1))), pod_bool E (le_word (slice_of b (n + 1) (n + 2))),
          \<lparr>handle_lo = slice_of b (n + 2) (n + 34), handle_hi = slice_of b (n + 34) (n + 66)\<rparr>))"

definition confidential_transfer_process_instruction ::
    "env \<Rightarrow> zk \<Rightarrow> pubkey \<Rightarrow> account_info list \<Rightarrow> bytes \<Rightarrow> world \<Rightarrow> world result" where
  "confidential_transfer_process_instruction E Z program_id accounts input w =
     bindE (check_program_account program_id) (\<lambda>_.
     bindE (decode_instruction_type confidential_transfer_instruction_try_from input) (\<lambda>t. case t of
       CtInitializeMint \<Rightarrow>
         bindE (decode_instruction_data (33 + elgamal_pubkey_len E) (initialize_mint_ct_data E) input)
           (\<lambda>(auth, auto_approve, auditor). process_initialize_mint_ct E accounts auth auto_approve auditor w)
     | CtUpdateMint \<Rightarrow>
         bindE (decode_instruction_data (1 + elgamal_pubkey_len E) (update_mint_data E) input)
           (\<lambda>(auto_approve, auditor). process_update_mint E accounts auto_approve auditor w)
     | CtConfigureAccount \<Rightarrow>
         bindE (decode_instruction_data (ae_ciphertext_len E + 9) (configure_account_data E) input)
           (\<lambda>(zero, maximum, offset). process_configure_account E Z program_id accounts zero maximum offset w)
     | CtApproveAccount \<Rightarrow> process_approve_account E accounts w
     | CtEmptyAccount \<Rightarrow>
         bindE (decode_instruction_data 1 (\<lambda>b. i8_at b 0) input)
           (\<lambda>offset. process_empty_account E Z program_id accounts offset w)
     | CtDeposit \<Rightarrow>
         bindE (decode_instruction_data 9 deposit_data input)
           (\<lambda>(amt, dec). process_deposit E Z program_id accounts amt dec w)
     | CtWithdraw \<Rightarrow>
         bindE (decode_instruction_data (ae_ciphertext_len E + 10) (withdraw_data E) input)
           (\<lambda>(amt, dec, new_decryptable, offset).
             process_withdraw E Z program_id accounts amt dec new_decryptable offset w)
     | CtTransfer \<Rightarrow>
         bindE (decode_instruction_data (ae_ciphertext_len E + 1) (transfer_data E) input)
           (\<lambda>(new_decryptable, offset).
             process_transfer_ct E Z program_id accounts new_decryptable offset False False False
               \<lparr>handle_lo = replicate 32 0, handle_hi = replicate 32 0\<rparr> w)
     | CtApplyPendingBalance \<Rightarrow>
         bindE (decode_instruction_data (8 + ae_ciphertext_len E) (apply_pending_balance_data E) input)
           (\<lambda>(expected, new_decryptable).
             process_apply_pending_balance E Z program_id accounts expected new_decryptable w)
     | CtDisableConfidentialCredits \<Rightarrow> process_allow_confidential_credits E program_id accounts False w
     | CtEnableConfidentialCredits \<Rightarrow> process_allow_confidential_credits E program_id accounts True w
     | CtDisableNonConfidentialCredits \<Rightarrow> process_allow_non_confidential_credits E program_id accounts False w
     | CtEnableNonConfidentialCredits \<Rightarrow> process_allow_non_confidential_credits E program_id accounts True w
     | CtTransferWithSplitProofs \<Rightarrow>
         bindE (decode_instruction_data (ae_ciphertext_len E + 66) (split_proofs_data E) input)
           (\<lambda>(new_decryptable, no_op, close, handles).
             process_transfer_ct E Z program_id accounts new_decryptable 0 True no_op close handles w)))"

section \<open>Confidential transfer fees\<close>

datatype confidential_transfer_fee_instruction =
    CfInitialize | CfWithdrawFromMint | CfWithdrawFromAccounts | CfHarvestToMint | CfEnableHarvest | CfDisableHarvest

definition confidential_transfer_fee_instructions :: "confidential_transfer_fee_instruction list" where
  "confidential_transfer_fee_instructions =
     [CfInitialize, CfWithdrawFromMint, CfWithdrawFromAccounts, CfHarvestToMint, CfEnableHarvest, CfDisableHarvest]"

definition confidential_transfer_fee_instruction_try_from :: "u8 \<Rightarrow> confidential_transfer_fee_instruction option" where
  "confidential_transfer_fee_instruction_try_from b =
     (if unat b < length confidential_transfer_fee_instructions
      then Some (confidential_transfer_fee_instructions ! unat b) else None)"

definition initialize_fee_config_data :: "env \<Rightarrow> bytes \<Rightarrow> pubkey \<times> bytes" where
  "initialize_fee_config_data E b = (le_word (slice_of b 0 32), slice_of b 32 (32 + elgamal_pubkey_len E))"

definition withdraw_from_mint_data :: "env \<Rightarrow> bytes \<Rightarrow> int \<times> bytes" where
  "withdraw_from_mint_data E b = (i8_at b 0, slice_of b 1 (1 + ae_ciphertext_len E))"

definition withdraw_from_accounts_data :: "env \<Rightarrow> bytes \<Rightarrow> u8 \<times> int \<times> bytes" where
  "withdraw_from_accounts_data E b = (le_word (slice_of b 0 1), i8_at b 1, slice_of b 2 (2 + ae_ciphertext_len E))"

definition confidential_transfer_fee_process_instruction ::
    "env \<Rightarrow> zk \<Rightarrow> pubkey \<Rightarrow> account_info list \<Rightarrow> bytes \<Rightarrow> world \<Rightarrow> world result" where
  "confidential_transfer_fee_process_instruction E Z program_id accounts input w =
     bindE (check_program_account program_id) (\<lambda>_.
     bindE (decode_instruction_type confidential_transfer_fee_instruction_try_from input) (\<lambda>t. case t of
       CfInitialize \<Rightarrow>
         bindE (decode_instruction_data (32 + elgamal_pubkey_len E) (initialize_fee_config_data E) input)
           (\<lambda>(auth, k). process_initialize_confidential_transfer_fee_config E accounts auth k w)
     | CfWithdrawFromMint \<Rightarrow>
         bindE (decode_instruction_data (1 + ae_ciphertext_len E) (withdraw_from_mint_data E) input)
           (\<lambda>(offset, new_decryptable).
             process_withdraw_withheld_tokens_from_mint_ct E Z program_id accounts new_decryptable offset w)
     | CfWithdrawFromAccounts \<Rightarrow>
         bindE (decode_instruction_data (2 + ae_ciphertext_len E) (withdraw_from_accounts_data E) input)
           (\<lambda>(n, offset, new_decryptable).
             process_withdraw_withheld_tokens_from_accounts_ct E Z program_id accounts n new_decryptable offset w)
     | CfHarvestToMint \<Rightarrow> process_harvest_withheld_tokens_to_mint_ct E Z accounts w
     | CfEnableHarvest \<Rightarrow> process_enable_harvest_to_mint E program_id accounts w
     | CfDisableHarvest \<Rightarrow> process_disable_harvest_to_mint E program_id accounts w))"

end
