(* ===== verification/Instruction.thy ===== *)
theory Instruction
  imports Ui_Amount
begin

text \<open>
  The wire format of the instructions: \<open>TokenInstruction\<close> with its reader
  \<open>unpack\<close> and writer \<open>pack\<close> (\<open>src/programs/src/instruction.rs\<close>),
  and \<open>TransferFeeInstruction\<close>
  (\<open>src/programs/src/extension/transfer_fee/instruction.rs\<close>).
\<close>

section \<open>Readers and writers of fields\<close>

definition split_first :: "bytes \<Rightarrow> (u8 \<times> bytes) result" where
  "split_first input = (case input of [] \<Rightarrow> Inl (Token InvalidInstruction) | b # rest \<Rightarrow> Inr (b, rest))"

definition unpack_pubkey :: "bytes \<Rightarrow> (pubkey \<times> bytes) result" where
  "unpack_pubkey input =
     (if length input < 32 then Inl (Token InvalidInstruction) else Inr (le_word (take 32 input), drop 32 input))"

definition unpack_pubkey_option :: "bytes \<Rightarrow> (pubkey option \<times> bytes) result" where
  "unpack_pubkey_option input =
     (case input of
        [] \<Rightarrow> Inl (Token InvalidInstruction)
      | b # rest \<Rightarrow>
          if b = 0 then Inr (None, rest)
          else if b = 1 then bindE (unpack_pubkey rest) (\<lambda>(k, rest). Inr (Some k, rest))
          else Inl (Token InvalidInstruction))"

definition pack_pubkey_option :: "pubkey option \<Rightarrow> bytes" where
  "pack_pubkey_option k = (case k of Some p \<Rightarrow> 1 # word_le p | None \<Rightarrow> [0])"

definition unpack_u16 :: "bytes \<Rightarrow> (u16 \<times> bytes) result" where
  "unpack_u16 input =
     (if length input < 2 then Inl (Token InvalidInstruction) else Inr (le_word (take 2 input), drop 2 input))"

definition unpack_u64 :: "bytes \<Rightarrow> (u64 \<times> bytes) result" where
  "unpack_u64 input =
     (if length input < 8 then Inl (Token InvalidInstruction) else Inr (le_word (take 8 input), drop 8 input))"

definition unpack_amount_decimals :: "bytes \<Rightarrow> (u64 \<times> u8 \<times> bytes) result" where
  "unpack_amount_decimals input =
     bindE (unpack_u64 input) (\<lambda>(amt, rest).
     bindE (split_first rest) (\<lambda>(dec, rest). Inr (amt, dec, rest)))"

text \<open>\<open>chunks(2)\<close>: the last chunk may be short.\<close>

fun chunks2 :: "bytes \<Rightarrow> bytes list" where
  "chunks2 [] = []"
| "chunks2 [b] = [[b]]"
| "chunks2 (a # b # bs) = [a, b] # chunks2 bs"

text \<open>\<open>str::from_utf8\<close>: one scalar value after the other, without overlong forms, surrogates
  or values above \<open>10FFFF\<close>.\<close>

definition utf8_cont :: "u8 \<Rightarrow> bool" where
  "utf8_cont b \<longleftrightarrow> 128 \<le> b \<and> b \<le> 191"

fun valid_utf8 :: "bytes \<Rightarrow> bool" where
  "valid_utf8 [] = True"
| "valid_utf8 (a # bs) =
     (if a \<le> 127 then valid_utf8 bs
      else case bs of
        [] \<Rightarrow> False
      | b # cs \<Rightarrow>
          if 194 \<le> a \<and> a \<le> 223 then utf8_cont b \<and> valid_utf8 cs
          else case cs of
            [] \<Rightarrow> False
          | c # ds \<Rightarrow>
              if a = 224 then 160 \<le> b \<and> b \<le> 191 \<and> utf8_cont c \<and> valid_utf8 ds
              else if a = 237 then 128 \<le> b \<and> b \<le> 159 \<and> utf8_cont c \<and> valid_utf8 ds
              else if 225 \<le> a \<and> a \<le> 239 then utf8_cont b \<and> utf8_cont c \<and> valid_utf8 ds
              else case ds of
                [] \<Rightarrow> False
              | d # es \<Rightarrow>
                  (if a = 240 then 144 \<le> b \<and> b \<le> 191
                   else if a = 244 then 128 \<le> b \<and> b \<le> 143
                   else 241 \<le> a \<and> a \<le> 243 \<and> utf8_cont b) \<and> utf8_cont c \<and> utf8_cont d \<and> valid_utf8 es)"

section \<open>Token instructions\<close>

datatype (plugins only: code size) token_instruction =
    InitializeMint u8 pubkey "pubkey option" | InitializeAccount | InitializeMultisig u8
  | Transfer u64 | Approve u64 | Revoke | SetAuthority authority_type "pubkey option"
  | MintTo u64 | Burn u64 | CloseAccount | FreezeAccount | ThawAccount | TransferChecked u64 u8
  | ApproveChecked u64 u8 | MintToChecked u64 u8 | BurnChecked u64 u8
  | InitializeAccount2 pubkey | SyncNative | InitializeAccount3 pubkey | InitializeMultisig2 u8
  | InitializeMint2 u8 pubkey "pubkey option" | GetAccountDataSize "extension_type list"
  | InitializeImmutableOwner | AmountToUiAmount u64 | UiAmountToAmount bytes
  | InitializeMintCloseAuthority "pubkey option" | TransferFeeExtension
  | ConfidentialTransferExtension | DefaultAccountStateExtension
  | Reallocate "extension_type list" | MemoTransferExtension | CreateNativeMint
  | InitializeNonTransferableMint | InterestBearingMintExtension | CpiGuardExtension
  | InitializePermanentDelegate pubkey | TransferHookExtension
  | ConfidentialTransferFeeExtension | WithdrawExcessLamports | MetadataPointerExtension
  | GroupPointerExtension | GroupMemberPointerExtension

definition unpack_instruction :: "bytes \<Rightarrow> token_instruction result" where
  "unpack_instruction input = bindE (split_first input) (\<lambda>(tag, rest).
      if tag = 0 then
          bindE (split_first rest) (\<lambda>(dec, rest).
          bindE (unpack_pubkey rest) (\<lambda>(ma, rest).
          bindE (unpack_pubkey_option rest) (\<lambda>(fa, _).
            Inr (InitializeMint dec ma fa))))
      else if tag = 1 then Inr InitializeAccount
      else if tag = 2 then bindE (split_first rest) (\<lambda>(m, _). Inr (InitializeMultisig m))
      else if tag = 3 \<or> tag = 4 \<or> tag = 7 \<or> tag = 8 then
          bindE (unpack_u64 rest) (\<lambda>(amt, _).
          Inr (if tag = 3 then Transfer amt else if tag = 4 then Approve amt
               else if tag = 7 then MintTo amt else Burn amt))
      else if tag = 5 then Inr Revoke
      else if tag = 6 then
          bindE (split_first rest) (\<lambda>(t, rest).
          bindE (authority_type_from t) (\<lambda>ty.
          bindE (unpack_pubkey_option rest) (\<lambda>(na, _). Inr (SetAuthority ty na))))
      else if tag = 9 then Inr CloseAccount
      else if tag = 10 then Inr FreezeAccount
      else if tag = 11 then Inr ThawAccount
      else if tag = 12 then
          bindE (unpack_amount_decimals rest) (\<lambda>(amt, dec, _). Inr (TransferChecked amt dec))
      else if tag = 13 then
          bindE (unpack_amount_decimals rest) (\<lambda>(amt, dec, _). Inr (ApproveChecked amt dec))
      else if tag = 14 then
          bindE (unpack_amount_decimals rest) (\<lambda>(amt, dec, _). Inr (MintToChecked amt dec))
      else if tag = 15 then
          bindE (unpack_amount_decimals rest) (\<lambda>(amt, dec, _). Inr (BurnChecked amt dec))
      else if tag = 16 then bindE (unpack_pubkey rest) (\<lambda>(k, _). Inr (InitializeAccount2 k))
      else if tag = 17 then Inr SyncNative
      else if tag = 18 then bindE (unpack_pubkey rest) (\<lambda>(k, _). Inr (InitializeAccount3 k))
      else if tag = 19 then bindE (split_first rest) (\<lambda>(m, _). Inr (InitializeMultisig2 m))
      else if tag = 20 then
          bindE (split_first rest) (\<lambda>(dec, rest).
          bindE (unpack_pubkey rest) (\<lambda>(ma, rest).
          bindE (unpack_pubkey_option rest) (\<lambda>(fa, _).
            Inr (InitializeMint2 dec ma fa))))
      else if tag = 21 then
          bindE (mapE extension_type_of_bytes (chunks2 rest)) (\<lambda>ts. Inr (GetAccountDataSize ts))
      else if tag = 22 then Inr InitializeImmutableOwner
      else if tag = 23 then bindE (unpack_u64 rest) (\<lambda>(amt, _). Inr (AmountToUiAmount amt))
      else if tag = 24 then
          if valid_utf8 rest then Inr (UiAmountToAmount rest) else Inl (Token InvalidInstruction)
      else if tag = 25 then
          bindE (unpack_pubkey_option rest) (\<lambda>(ca, _). Inr (InitializeMintCloseAuthority ca))
      else if tag = 26 then Inr TransferFeeExtension
      else if tag = 27 then Inr ConfidentialTransferExtension
      else if tag = 28 then Inr DefaultAccountStateExtension
      else if tag = 29 then
          bindE (mapE extension_type_of_bytes (chunks2 rest)) (\<lambda>ts. Inr (Reallocate ts))
      else if tag = 30 then Inr MemoTransferExtension
      else if tag = 31 then Inr CreateNativeMint
      else if tag = 32 then Inr InitializeNonTransferableMint
      else if tag = 33 then Inr InterestBearingMintExtension
      else if tag = 34 then Inr CpiGuardExtension
      else if tag = 35 then
          bindE (unpack_pubkey rest) (\<lambda>(k, _). Inr (InitializePermanentDelegate k))
      else if tag = 36 then Inr TransferHookExtension
      else if tag = 37 then Inr ConfidentialTransferFeeExtension
      else if tag = 38 then Inr WithdrawExcessLamports
      else if tag = 39 then Inr MetadataPointerExtension
      else if tag = 40 then Inr GroupPointerExtension
      else if tag = 41 then Inr GroupMemberPointerExtension
      else Inl (Token InvalidInstruction))"

fun pack :: "token_instruction \<Rightarrow> bytes" where
  "pack (InitializeMint dec ma fa) =
     0 # dec # word_le ma @ pack_pubkey_option fa"
| "pack InitializeAccount = [1]"
| "pack (InitializeMultisig m) = [2, m]"
| "pack (Transfer amt) = 3 # word_le amt"
| "pack (Approve amt) = 4 # word_le amt"
| "pack Revoke = [5]"
| "pack (SetAuthority ty na) =
     6 # authority_type_into ty # pack_pubkey_option na"
| "pack (MintTo amt) = 7 # word_le amt"
| "pack (Burn amt) = 8 # word_le amt"
| "pack CloseAccount = [9]"
| "pack FreezeAccount = [10]"
| "pack ThawAccount = [11]"
| "pack (TransferChecked amt dec) = 12 # word_le amt @ [dec]"
| "pack (ApproveChecked amt dec) = 13 # word_le amt @ [dec]"
| "pack (MintToChecked amt dec) = 14 # word_le amt @ [dec]"
| "pack (BurnChecked amt dec) = 15 # word_le amt @ [dec]"
| "pack (InitializeAccount2 k) = 16 # word_le k"
| "pack SyncNative = [17]"
| "pack (InitializeAccount3 k) = 18 # word_le k"
| "pack (InitializeMultisig2 m) = [19, m]"
| "pack (InitializeMint2 dec ma fa) =
     20 # dec # word_le ma @ pack_pubkey_option fa"
| "pack (GetAccountDataSize ts) = 21 # concat (map extension_type_bytes ts)"
| "pack InitializeImmutableOwner = [22]"
| "pack (AmountToUiAmount amt) = 23 # word_le amt"
| "pack (UiAmountToAmount ui_amount) = 24 # ui_amount"
| "pack (InitializeMintCloseAuthority ca) = 25 # pack_pubkey_option ca"
| "pack TransferFeeExtension = [26]"
| "pack ConfidentialTransferExtension = [27]"
| "pack DefaultAccountStateExtension = [28]"
| "pack (Reallocate ts) = 29 # concat (map extension_type_bytes ts)"
| "pack MemoTransferExtension = [30]"
| "pack CreateNativeMint = [31]"
| "pack InitializeNonTransferableMint = [32]"
| "pack InterestBearingMintExtension = [33]"
| "pack CpiGuardExtension = [34]"
| "pack (InitializePermanentDelegate k) = 35 # word_le k"
| "pack TransferHookExtension = [36]"
| "pack ConfidentialTransferFeeExtension = [37]"
| "pack WithdrawExcessLamports = [38]"
| "pack MetadataPointerExtension = [39]"
| "pack GroupPointerExtension = [40]"
| "pack GroupMemberPointerExtension = [41]"

section \<open>Transfer-fee instructions\<close>

datatype (plugins only: code size) transfer_fee_instruction =
    InitializeTransferFeeConfig "pubkey option" "pubkey option" u16 u64
  | TransferCheckedWithFee u64 u8 u64
  | WithdrawWithheldTokensFromMint
  | WithdrawWithheldTokensFromAccounts u8
  | HarvestWithheldTokensToMint
  | SetTransferFee u16 u64

definition unpack_transfer_fee_instruction :: "bytes \<Rightarrow> transfer_fee_instruction result" where
  "unpack_transfer_fee_instruction input = bindE (split_first input) (\<lambda>(tag, rest).
      if tag = 0 then
          bindE (unpack_pubkey_option rest) (\<lambda>(ca, rest).
          bindE (unpack_pubkey_option rest) (\<lambda>(wa, rest).
          bindE (unpack_u16 rest) (\<lambda>(bps, rest).
          bindE (unpack_u64 rest) (\<lambda>(m, _). Inr (InitializeTransferFeeConfig ca wa bps m)))))
      else if tag = 1 then
          bindE (unpack_amount_decimals rest) (\<lambda>(amt, dec, rest).
          bindE (unpack_u64 rest) (\<lambda>(fee, _). Inr (TransferCheckedWithFee amt dec fee)))
      else if tag = 2 then Inr WithdrawWithheldTokensFromMint
      else if tag = 3 then bindE (split_first rest) (\<lambda>(n, _). Inr (WithdrawWithheldTokensFromAccounts n))
      else if tag = 4 then Inr HarvestWithheldTokensToMint
      else if tag = 5 then
          bindE (unpack_u16 rest) (\<lambda>(bps, rest).
          bindE (unpack_u64 rest) (\<lambda>(m, _). Inr (SetTransferFee bps m)))
      else Inl (Token InvalidInstruction))"

fun pack_transfer_fee_instruction :: "transfer_fee_instruction \<Rightarrow> bytes" where
  "pack_transfer_fee_instruction (InitializeTransferFeeConfig ca wa bps m) =
     0 # pack_pubkey_option ca @ pack_pubkey_option wa @ word_le bps @ word_le m"
| "pack_transfer_fee_instruction (TransferCheckedWithFee amt dec fee) =
     1 # word_le amt @ word_le dec @ word_le fee"
| "pack_transfer_fee_instruction WithdrawWithheldTokensFromMint = [2]"
| "pack_transfer_fee_instruction (WithdrawWithheldTokensFromAccounts n) = [3, n]"
| "pack_transfer_fee_instruction HarvestWithheldTokensToMint = [4]"
| "pack_transfer_fee_instruction (SetTransferFee bps m) = 5 # word_le bps @ word_le m"

section \<open>Reading what was written\<close>

lemma split_first_Cons [simp]: "split_first (b # rest) = Inr (b, rest)"
  by (simp add: split_first_def)

lemma unpack_fields [simp]:
  "unpack_pubkey (word_le k @ rest) = Inr (k, rest)" "unpack_u16 (word_le n @ rest) = Inr (n, rest)"
  "unpack_u64 (word_le a @ rest) = Inr (a, rest)"
  by (simp_all add: unpack_pubkey_def unpack_u16_def unpack_u64_def)

lemma unpack_pubkey_option_pack [simp]:
  "unpack_pubkey_option (pack_pubkey_option k @ rest) = Inr (k, rest)"
  by (cases k) (simp_all add: unpack_pubkey_option_def pack_pubkey_option_def)

lemma unpack_amount_decimals_pack [simp]:
  "unpack_amount_decimals (word_le a @ d # rest) = Inr (a, d, rest)"
  by (simp add: unpack_amount_decimals_def)

lemmas unpack_last [simp] =
  unpack_fields(1) [where rest = "[]", simplified] unpack_fields(3) [where rest = "[]", simplified]
  unpack_pubkey_option_pack [where rest = "[]", simplified]

lemma chunks2_types [simp]:
  "mapE extension_type_of_bytes (chunks2 (concat (map extension_type_bytes ts))) = Inr ts"
proof (induction ts)
  case (Cons t ts)
  obtain a b where "extension_type_bytes t = [a, b]"
    using length_extension_type_bytes [of t]
    by (auto simp: length_Suc_conv numeral_2_eq_2 simp del: length_extension_type_bytes)
  with Cons show ?case using extension_type_of_bytes_bytes [of t] by simp
qed simp

lemma unpack_pack:
  assumes "\<And>s. i = UiAmountToAmount s \<Longrightarrow> valid_utf8 s"
  shows "unpack_instruction (pack i) = Inr i"
  using assms by (cases i) (simp_all add: unpack_instruction_def)

section \<open>What the readers accept\<close>

lemma split_first_Inr [success_simps]: "split_first b = Inr (c, rest) \<longleftrightarrow> b = c # rest"
  by (auto simp: split_first_def split: list.splits)

lemma word_le_take: "length b \<ge> 32 \<Longrightarrow> word_le (le_word (take 32 b) :: pubkey) = take 32 b"
  "length b \<ge> 8 \<Longrightarrow> word_le (le_word (take 8 b) :: u64) = take 8 b"
  "length b \<ge> 2 \<Longrightarrow> word_le (le_word (take 2 b) :: u16) = take 2 b"
  by (rule word_le_le_word, simp)+

lemma unpack_fields_Inr [success_simps]:
  "unpack_pubkey b = Inr (k, rest) \<longleftrightarrow> b = word_le k @ rest"
  "unpack_u16 b = Inr (n, rest) \<longleftrightarrow> b = word_le n @ rest"
  "unpack_u64 b = Inr (a, rest) \<longleftrightarrow> b = word_le a @ rest"
  by (auto simp: unpack_pubkey_def unpack_u16_def unpack_u64_def word_le_take split: if_splits)

lemma unpack_pubkey_option_Inr [success_simps]:
  "unpack_pubkey_option b = Inr (k, rest) \<longleftrightarrow> b = pack_pubkey_option k @ rest"
  by (cases k) (auto simp: unpack_pubkey_option_def pack_pubkey_option_def success_simps split: list.splits if_splits)

lemma unpack_amount_decimals_Inr [success_simps]:
  "unpack_amount_decimals b = Inr (a, d, rest) \<longleftrightarrow> b = word_le a @ d # rest"
  by (auto simp: unpack_amount_decimals_def success_simps)

lemma chunks2_Inr: "mapE extension_type_of_bytes (chunks2 b) = Inr ts \<Longrightarrow> b = concat (map extension_type_bytes ts)"
proof (induction b arbitrary: ts rule: chunks2.induct)
  case (3 a b bs)
  then obtain t us where "extension_type_of_bytes [a, b] = Inr t" "mapE extension_type_of_bytes (chunks2 bs) = Inr us"
    "ts = t # us" by (auto simp: success_simps)
  with 3 show ?case using extension_type_bytes_of_bytes [of "[a, b]" t] by simp
qed (auto simp: extension_type_of_bytes_def)

lemma unpack_instruction_prefix:
  assumes "unpack_instruction b = Inr i"
  shows "\<exists>rest. b = pack i @ rest"
proof -
  from assms obtain tag rest where b: "b = tag # rest" by (auto simp: unpack_instruction_def success_simps)
  show ?thesis using assms unfolding unpack_instruction_def b
    by (auto simp: success_simps authority_type_from_Inr dest!: chunks2_Inr split: if_splits)
qed

lemma unpack_instruction_utf8: "unpack_instruction b = Inr (UiAmountToAmount s) \<Longrightarrow> valid_utf8 s"
  by (auto simp: unpack_instruction_def success_simps split: if_splits)



lemma unpack_transfer_fee_instruction_prefix:
  assumes "unpack_transfer_fee_instruction b = Inr i"
  shows "\<exists>rest. b = pack_transfer_fee_instruction i @ rest"
proof -
  from assms obtain tag rest where b: "b = tag # rest" by (auto simp: unpack_transfer_fee_instruction_def success_simps)
  show ?thesis using assms unfolding unpack_transfer_fee_instruction_def b
    by (auto simp: success_simps word_le_u8 split: if_splits)
qed

lemma unpack_transfer_fee_pack [simp]:
  "unpack_transfer_fee_instruction (pack_transfer_fee_instruction i @ rest) = Inr i"
  by (cases i) (simp_all add: unpack_transfer_fee_instruction_def word_le_u8)

text \<open>The same for the transfer-fee instructions.\<close>

theorem transfer_fee_instruction_codec:
  "unpack_transfer_fee_instruction b = Inr i \<longleftrightarrow> (\<exists>rest. b = pack_transfer_fee_instruction i @ rest)"
  using unpack_transfer_fee_instruction_prefix by auto

end
