(* ===== verification/Tlv_Map.thy ===== *)
theory Tlv_Map
  imports Tlv
begin

text \<open>
  The TLV buffer as a finite map.  \<open>represents S es d\<close> says that the buffer \<open>d\<close> of a base
  state of account type \<open>S\<close> holds the entries \<open>es\<close>, each type once, and zeros after them.
  The operations of theory Tlv refine the operations of the map \<open>map_of es\<close>: lookup, overwrite of a
  value, and insertion.
\<close>

section \<open>Representation\<close>

definition represents :: "account_type \<Rightarrow> entry list \<Rightarrow> bytes \<Rightarrow> bool" where
  "represents S es d \<longleftrightarrow> S \<noteq> account_type.Uninitialized \<and> entries_ok S es \<and> distinct (map fst es) \<and>
     (\<exists>n. d = tlv_encode es @ replicate n 0)"

definition tlv_wf :: "account_type \<Rightarrow> bytes \<Rightarrow> bool" where
  "tlv_wf S d \<longleftrightarrow> (\<exists>es. represents S es d)"

lemma representsE:
  assumes "represents S es d"
  obtains n where "d = tlv_encode es @ replicate n 0" "entries_ok S es" "distinct (map fst es)"
    "S \<noteq> account_type.Uninitialized"
  using assms by (auto simp: represents_def)

lemma type_bytes_inj: "extension_type_bytes t = extension_type_bytes u \<Longrightarrow> t = u"
  by (metis extension_type_of_bytes_bytes sum.inject(2))

lemma uninitialized_bytes: "extension_type_bytes Uninitialized = [0, 0]"
  by (simp add: extension_type_bytes_def extension_type_u16_def extension_types_def word_le_def numeral_2_eq_2)

lemma type_bytes_zero: "extension_type_bytes t = [0, 0] \<longleftrightarrow> t = Uninitialized"
  using type_bytes_inj [of t Uninitialized] by (auto simp: uninitialized_bytes)

text \<open>Encodings are prefix codes: two readings of a buffer agree as far as the shorter one goes.\<close>

lemma entry_prefix:
  assumes "tlv_entry t x @ d = tlv_entry u y @ e" "length x < 2 ^ 16" "length y < 2 ^ 16"
  shows "t = u \<and> x = y \<and> d = e"
proof -
  from assms(1) have a: "extension_type_bytes t = extension_type_bytes u"
    and b: "word_le (of_nat (length x) :: u16) = word_le (of_nat (length y) :: u16)"
    and c: "x @ d = y @ e" by (simp_all add: tlv_entry_def)
  from b have "(of_nat (length x) :: u16) = of_nat (length y)"
    by (metis le_word_word_le_simps(2))
  then have "unat (of_nat (length x) :: u16) = unat (of_nat (length y) :: u16)" by simp
  with assms(2,3) have "length x = length y" by (simp add: unat_of_nat take_bit_nat_def)
  with a c show ?thesis by (auto dest: type_bytes_inj)
qed

lemma entry_head: "take 2 (tlv_entry t x @ d) = extension_type_bytes t"
  by (simp add: tlv_entry_def)

lemma encode_split:
  assumes "tlv_encode es @ rest = tlv_encode fs @ replicate n 0" "entries_ok S es" "entries_ok S fs"
  shows "\<exists>gs. fs = es @ gs \<and> rest = tlv_encode gs @ replicate n 0"
  using assms
proof (induction es arbitrary: fs)
  case (Cons e es)
  obtain t x where e: "e = (t, x)" by (cases e)
  show ?case
  proof (cases fs)
    case Nil
    with Cons.prems e have eq: "tlv_entry t x @ tlv_encode es @ rest = replicate n 0" by simp
    from arg_cong [OF eq, of length] have "2 \<le> n" by simp
    then have "take 2 (replicate n (0::u8)) = [0, 0]" by (simp add: min_def numeral_2_eq_2)
    with arg_cong [OF eq, of "take 2"] have "extension_type_bytes t = [0, 0]"
      by (metis entry_head)
    with Cons.prems e show ?thesis by (simp add: type_bytes_zero)
  next
    case (Cons f fs')
    obtain u y where f: "f = (u, y)" by (cases f)
    from Cons.prems Cons e f have "tlv_entry t x @ (tlv_encode es @ rest) = tlv_entry u y @ (tlv_encode fs' @ replicate n 0)"
      by simp
    from entry_prefix [OF this] Cons.prems Cons e f
    have "t = u" "x = y" "tlv_encode es @ rest = tlv_encode fs' @ replicate n 0" by simp_all
    with Cons.IH [of fs'] Cons.prems Cons e f show ?thesis by auto
  qed
qed simp

section \<open>Lookup\<close>

lemma get_bytes_zeros:
  "S \<noteq> account_type.Uninitialized \<Longrightarrow> \<not> isOk (get_extension_bytes S v (replicate n 0))"
proof (cases "4 \<le> n \<and> get_account_type v = S")
  case True
  assume S: "S \<noteq> account_type.Uninitialized"
  have "take 2 (replicate n 0) = extension_type_bytes Uninitialized"
    using True by (simp add: uninitialized_bytes min_def numeral_2_eq_2)
  with get_bytes_uninitialized [of v S "replicate n 0"] True S show ?thesis by simp
next
  case False
  then show ?thesis
    by (auto simp: get_extension_bytes_def extension_range_def get_extension_indices_def
        get_extension_indices_from.simps [of v False "replicate n 0" 0] Let_def)
qed

text \<open>Lookup is the lookup of the map.\<close>

lemma represents_get:
  assumes "represents S es d"
  shows "get_extension_bytes S v d = Inr x \<longleftrightarrow> map_of es v = Some x"
proof -
  from assms obtain n where d: "d = tlv_encode es @ replicate n 0" and es: "entries_ok S es"
    and S: "S \<noteq> account_type.Uninitialized" by (rule representsE)
  show ?thesis
  proof (cases "map_of es v")
    case (Some y)
    with get_bytes_encode [OF es, of v y "replicate n 0"] show ?thesis by (simp add: d)
  next
    case None
    then have "v \<notin> fst ` set es" by (simp add: map_of_eq_None_iff)
    with get_bytes_encode_skip [OF es this, of "replicate n 0"] get_bytes_zeros [OF S, of v n] None
    show ?thesis by (simp add: d isOk_iff)
  qed
qed

section \<open>The walk that lists the types\<close>

lemma info_shift:
  "get_tlv_data_info_from (p @ d) ts (length p + i) =
   bindE (get_tlv_data_info_from d ts i) (\<lambda>info. Inr (info\<lparr>used_len := length p + used_len info\<rparr>))"
proof (induction d ts i rule: get_tlv_data_info_from.induct)
  case (1 d ts i)
  note unf = get_tlv_data_info_from.simps [of "p @ d" ts "length p + i"] get_tlv_data_info_from.simps [of d ts i]
  show ?case
  proof (cases "i < length d \<and> \<not> length d < i + 2")
    case False
    then show ?thesis by (auto simp: unf Let_def)
  next
    case True
    show ?thesis
    proof (cases "type_at d (get_tlv_indices i)")
      case (Inl e)
      with True show ?thesis by (simp add: unf Let_def)
    next
      case (Inr t)
      have "t \<noteq> Uninitialized \<Longrightarrow> \<not> length d < i + 4 \<Longrightarrow> \<not> length d < i + 4 + length_at d (get_tlv_indices i) \<Longrightarrow>
        get_tlv_data_info_from (p @ d) (ts @ [t]) (length p + (i + 4 + length_at d (get_tlv_indices i))) =
        bindE (get_tlv_data_info_from d (ts @ [t]) (i + 4 + length_at d (get_tlv_indices i)))
          (\<lambda>info. Inr (info\<lparr>used_len := length p + used_len info\<rparr>))"
        using "1.IH" [of "get_tlv_indices i" t] True Inr by simp
      with True Inr show ?thesis by (simp add: unf Let_def add.assoc)
    qed
  qed
qed

lemma info_zeros: "get_tlv_data_info_from (replicate n 0) ts 0 = Inr \<lparr>info_types = ts, used_len = 0\<rparr>"
proof (cases "2 \<le> n")
  case True
  then have "type_at (replicate n 0) (get_tlv_indices 0) = Inr Uninitialized"
    using extension_type_of_bytes_bytes [of Uninitialized]
    by (simp add: type_at_def slice_of_def min_def numeral_2_eq_2 uninitialized_bytes)
  with True show ?thesis by (simp add: get_tlv_data_info_from.simps [of "replicate n 0"] Let_def)
qed (auto simp: get_tlv_data_info_from.simps [of "replicate n 0"] Let_def)

lemma info_encode:
  "entries_ok S es \<Longrightarrow> get_tlv_data_info_from (tlv_encode es @ replicate n 0) ts 0 =
   Inr \<lparr>info_types = ts @ map fst es, used_len = length (tlv_encode es)\<rparr>"
proof (induction es arbitrary: ts)
  case Nil
  then show ?case by (simp add: info_zeros)
next
  case (Cons e es)
  obtain t x where e: "e = (t, x)" by (cases e)
  let ?d = "tlv_encode es @ replicate n 0"
  have "get_tlv_data_info_from (tlv_entry t x @ ?d) ts 0 =
        get_tlv_data_info_from (tlv_entry t x @ ?d) (ts @ [t]) (length (tlv_entry t x) + 0)"
    using Cons.prems by (simp add: e get_tlv_data_info_from.simps [of "tlv_entry t x @ ?d" ts 0] Let_def)
  also have "\<dots> = Inr \<lparr>info_types = ts @ map fst (e # es), used_len = length (tlv_encode (e # es))\<rparr>"
    using Cons by (subst info_shift) (simp add: e)
  finally show ?case by (simp add: e)
qed

lemma represents_info:
  "represents S es d \<Longrightarrow>
   get_tlv_data_info d = Inr \<lparr>info_types = map fst es, used_len = length (tlv_encode es)\<rparr>"
  by (auto simp: get_tlv_data_info_def info_encode elim: representsE)

section \<open>Writing\<close>

lemma map_of_middle:
  "v \<notin> fst ` set es1 \<Longrightarrow> map_of (es1 @ (v, y) # es2) = (map_of (es1 @ (v, x) # es2))(v \<mapsto> y)"
  by (induction es1) (auto simp: fun_upd_twist)

lemma map_of_snoc: "v \<notin> fst ` set es \<Longrightarrow> map_of (es @ [(v, y)]) = (map_of es)(v \<mapsto> y)"
  by (induction es) (auto simp: fun_upd_twist)

lemma represents_put:
  assumes "represents S es d"
  shows "\<exists>es'. represents S es' (put_extension_bytes S v y d) \<and> map fst es' = map fst es \<and>
    map_of es' = (case map_of es v of
       Some x \<Rightarrow> if length y = length x then (map_of es)(v \<mapsto> y) else map_of es | None \<Rightarrow> map_of es)"
proof (cases "map_of es v")
  case None
  then have "\<not> isOk (get_extension_bytes S v d)" by (auto simp: isOk_iff represents_get [OF assms])
  then have "put_extension_bytes S v y d = d"
    by (auto simp: get_extension_bytes_def put_extension_bytes_def isOk_iff split: sum.splits)
  with assms None show ?thesis by auto
next
  case (Some x)
  from assms obtain n where d: "d = tlv_encode es @ replicate n 0" and es: "entries_ok S es"
    and dist: "distinct (map fst es)" and S: "S \<noteq> account_type.Uninitialized" by (rule representsE)
  from Some have "(v, x) \<in> set es" by (rule map_of_SomeD)
  then obtain es1 es2 where sp: "es = es1 @ (v, x) # es2" by (auto simp: in_set_conv_decomp)
  with dist have v: "v \<notin> fst ` set es1" "v \<notin> fst ` set es2" by auto
  with es sp have x: "length x < 2 ^ 16" "get_account_type v = S" "entries_ok S es1" by auto
  have dd: "d = tlv_encode es1 @ tlv_entry v x @ (tlv_encode es2 @ replicate n 0)" by (simp add: d sp)
  show ?thesis
  proof (cases "length y = length x")
    case True
    have put: "put_extension_bytes S v y d = tlv_encode (es1 @ (v, y) # es2) @ replicate n 0"
      using put_decomp [OF dd x(3) v(1) x(1,2) True] by simp
    have "represents S (es1 @ (v, y) # es2) (put_extension_bytes S v y d)"
      using es dist S True unfolding represents_def put by (auto simp: sp)
    moreover have "map_of (es1 @ (v, y) # es2) = (map_of es)(v \<mapsto> y)"
      unfolding sp by (rule map_of_middle [OF v(1)])
    ultimately show ?thesis using True Some by (intro exI [of _ "es1 @ (v, y) # es2"]) (simp add: sp)
  next
    case False
    have "put_extension_bytes S v y d = d"
      using range_of_decomp [OF dd x(3) v(1) x(1,2)] False by (simp add: put_extension_bytes_def)
    with assms False Some show ?thesis by auto
  qed
qed

text \<open>Initialising an extension inserts it: at its place when it is overwritten, at the end
  otherwise.\<close>

lemma represents_init:
  assumes "represents S es d" "init_extension_bytes S v val overwrite d = Inr d'"
  shows "\<exists>es'. represents S es' d' \<and> map_of es' = (map_of es)(v \<mapsto> val) \<and>
    map fst es' = (if v \<in> fst ` set es then map fst es else map fst es @ [v])"
  using assms(2)
proof (rule init_decomp)
  fix es1 rest
  assume i: "d = tlv_encode es1 @ rest" "entries_ok S es1" "v \<notin> fst ` set es1" "4 + length val \<le> length rest"
    "length val < 2 ^ 16" "get_account_type v = S"
    "d' = tlv_encode es1 @ tlv_entry v val @ drop (4 + length val) rest"
    and slot: "take 2 rest = extension_type_bytes Uninitialized \<or>
     overwrite \<and> rest = tlv_entry v (slice_of rest 4 (4 + length val)) @ drop (4 + length val) rest"
  from assms(1) obtain n where d: "d = tlv_encode es @ replicate n 0" and es: "entries_ok S es"
    and dist: "distinct (map fst es)" and S: "S \<noteq> account_type.Uninitialized" by (rule representsE)
  have v0: "v \<noteq> Uninitialized" using i(6) S by auto
  from encode_split [of es1 rest es n S] i d es obtain gs where
    gs: "es = es1 @ gs" and rest: "rest = tlv_encode gs @ replicate n 0" by auto
  show ?thesis
  proof (cases gs)
    case Nil
    with rest i have "d' = tlv_encode (es @ [(v, val)]) @ replicate (n - (4 + length val)) 0" by (simp add: gs)
    moreover have v: "v \<notin> fst ` set es" using i(3) Nil gs by simp
    ultimately have "represents S (es @ [(v, val)]) d'" using es dist S i(5,6) v0
      by (auto simp: represents_def)
    with v map_of_snoc [OF v, of val] show ?thesis by (intro exI [of _ "es @ [(v, val)]"]) simp
  next
    case (Cons g gs')
    obtain t x where g: "g = (t, x)" by (cases g)
    have t: "t \<noteq> Uninitialized" "length x < 2 ^ 16" using es gs Cons g by auto
    have "take 2 rest = extension_type_bytes t" using rest Cons g
      by (metis append_assoc entry_head tlv_encode.simps(2))
    with t slot have ov: "rest = tlv_entry v (slice_of rest 4 (4 + length val)) @ drop (4 + length val) rest"
      by (auto dest: type_bytes_inj)
    have len: "length (slice_of rest 4 (4 + length val)) = length val" using i(4) by simp
    from ov have "tlv_entry v (slice_of rest 4 (4 + length val)) @ drop (4 + length val) rest =
        tlv_entry t x @ (tlv_encode gs' @ replicate n 0)" using rest Cons g by simp
    from entry_prefix [OF this _ t(2)] len i(5) have e: "v = t" "length x = length val"
      "drop (4 + length val) rest = tlv_encode gs' @ replicate n 0" by auto
    have "d' = tlv_encode (es1 @ (v, val) # gs') @ replicate n 0" using i(7) e by simp
    moreover have "v \<notin> fst ` set gs'" using dist gs Cons g e by simp
    ultimately have "represents S (es1 @ (v, val) # gs') d'" using es dist S i(3,5,6) v0 gs Cons g e
      by (auto simp: represents_def)
    moreover have "map_of (es1 @ (v, val) # gs') = (map_of es)(v \<mapsto> val)"
      using map_of_middle [OF i(3), of val gs' x] gs Cons g e by simp
    ultimately show ?thesis using gs Cons g e by (intro exI [of _ "es1 @ (v, val) # gs'"]) simp
  qed
qed

lemma represents_zeros: "S \<noteq> account_type.Uninitialized \<Longrightarrow> represents S [] (replicate n 0)"
  by (auto simp: represents_def)

lemma represents_extend: "represents S es d \<Longrightarrow> represents S es (d @ replicate m 0)"
  by (auto simp: represents_def simp flip: replicate_add)

text \<open>C27. The TLV buffer refines a finite map from extension types to values.  Looking a type up is looking
  it up in the map; writing a value updates the map at a type that is present, when the lengths agree,
  and nothing else; initialising an extension updates the map; the walk of \<open>get_tlv_data_info\<close>
  lists exactly the domain.  So no operation on one extension can disturb another.\<close>

theorem tlv_refines_map:
  assumes "represents S es d"
  shows "(\<forall>v x. get_extension_bytes S v d = Inr x \<longleftrightarrow> map_of es v = Some x) \<and>
    get_tlv_data_info d = Inr \<lparr>info_types = map fst es, used_len = length (tlv_encode es)\<rparr> \<and>
    (\<forall>v y. \<exists>es'. represents S es' (put_extension_bytes S v y d) \<and>
       map_of es' = (case map_of es v of
         Some x \<Rightarrow> if length y = length x then (map_of es)(v \<mapsto> y) else map_of es | None \<Rightarrow> map_of es)) \<and>
    (\<forall>v y overwrite d'. init_extension_bytes S v y overwrite d = Inr d' \<longrightarrow>
       (\<exists>es'. represents S es' d' \<and> map_of es' = (map_of es)(v \<mapsto> y)))"
  using represents_get [OF assms] represents_info [OF assms] represents_put [OF assms] represents_init [OF assms]
  by blast

text \<open>A token-account buffer of 40 bytes with a withheld fee and the marker of an immutable owner.\<close>

definition sample_entries :: "entry list" where
  "sample_entries = [(TransferFeeAmount, [7, 0, 0, 0, 0, 0, 0, 0]), (ImmutableOwner, [])]"

theorem tlv_refines_map_witness:
  "get_extension_bytes account_type.Account TransferFeeAmount (tlv_encode sample_entries @ replicate 24 0) =
     Inr [7, 0, 0, 0, 0, 0, 0, 0] \<and>
   map_of sample_entries TransferFeeAmount = Some [7, 0, 0, 0, 0, 0, 0, 0]"
proof -
  have "represents account_type.Account sample_entries (tlv_encode sample_entries @ replicate 24 0)"
    by (auto simp: represents_def sample_entries_def)
  from tlv_refines_map [OF this] show ?thesis by (simp add: sample_entries_def)
qed

end
