(* ===== verification/Reallocate.thy ===== *)
theory Reallocate
  imports Extension_Processors Tlv_Map
begin

text \<open>
  Growing an account: \<open>process_reallocate\<close> (\<open>src/programs/src/extension/reallocate.rs\<close>)
  with what it uses of \<open>src/programs/src/extension/mod.rs\<close>: \<open>StateWithExtensions\<close> over the
  packed \<open>Account\<close>, \<open>set_account_type\<close> and \<open>alloc_and_serialize\<close>.
\<close>

section \<open>States over the packed account\<close>

text \<open>\<open>Pack::unpack\<close> of \<open>Account\<close>.\<close>

definition account_unpack :: "bytes \<Rightarrow> packed_account result" where
  "account_unpack input =
     (if length input \<noteq> Account_LEN then Inl (Prog InvalidAccountData)
      else bindE (account_unpack_from_slice input) (\<lambda>a.
        if account_is_initialized a then Inr a else Inl (Prog UninitializedAccount)))"

definition unpack_tlv_data :: "'s base_state \<Rightarrow> bytes \<Rightarrow> bytes result" where
  "unpack_tlv_data S rest =
     bindE (type_and_tlv_indices S rest) (\<lambda>ix. case ix of
       None \<Rightarrow> Inr []
     | Some (account_type_index, tlv_start_index) \<Rightarrow>
         bindE (ok_or (Prog InvalidAccountData) (account_type_try_from (rest ! account_type_index))) (\<lambda>t.
         bindE (check_account_type S t) (\<lambda>_. Inr (drop tlv_start_index rest))))"

text \<open>\<open>StateWithExtensions::<Account>::unpack\<close>: the base and the TLV data.\<close>

definition unpack_packed :: "bytes \<Rightarrow> (packed_account \<times> bytes) result" where
  "unpack_packed input =
     bindE (check_min_len_and_not_multisig input Account_LEN) (\<lambda>_.
     bindE (account_unpack (take Account_LEN input)) (\<lambda>b.
     bindE (unpack_tlv_data PodAccount (drop Account_LEN input)) (\<lambda>tlv. Inr (b, tlv))))"

text \<open>\<open>StateWithExtensionsMut::<Account>\<close>: \<open>unpack\<close>, a change of the base, and
  \<open>pack_base\<close>.\<close>

definition update_packed :: "(packed_account \<Rightarrow> packed_account result) \<Rightarrow> bytes \<Rightarrow> bytes result" where
  "update_packed f input =
     bindE (unpack_packed input) (\<lambda>(b, tlv).
     bindE (f b) (\<lambda>b.
     bindE (account_pack_into_slice b (take Account_LEN input)) (\<lambda>d. Inr (d @ drop Account_LEN input))))"

section \<open>The account type byte\<close>

definition is_initialized_account :: "bytes \<Rightarrow> bool result" where
  "is_initialized_account input =
     (if length input \<noteq> BASE_ACCOUNT_LENGTH then Inl (Prog InvalidAccountData)
      else Inr (input ! ACCOUNT_INITIALIZED_INDEX \<noteq> 0))"

definition set_account_type :: "'s base_state \<Rightarrow> bytes \<Rightarrow> bytes result" where
  "set_account_type S input =
     bindE (check_min_len_and_not_multisig input (size_of S)) (\<lambda>_.
     let base_data = take (size_of S) input; rest = drop (size_of S) input in
     bindE (if ACCOUNT_TYPE S = account_type.Account
            then bindE (is_initialized_account base_data) (\<lambda>i. if \<not> i then Inl (Prog InvalidAccountData) else Inr ())
            else Inr ()) (\<lambda>_.
     bindE (type_and_tlv_indices S rest) (\<lambda>ix. case ix of
       None \<Rightarrow> Inl (Prog InvalidAccountData)
     | Some (account_type_index, tlv_start_index) \<Rightarrow>
         bindE (ok_or (Prog InvalidAccountData) (account_type_try_from (rest ! account_type_index))) (\<lambda>t.
           if t = account_type.Uninitialized
           then Inr (base_data @ rest[account_type_index := account_type_u8 (ACCOUNT_TYPE S)])
           else bindE (check_account_type S t) (\<lambda>_. Inr input)))))"

section \<open>The handler\<close>

definition rent_top_up ::
    "env \<Rightarrow> account_info \<Rightarrow> account_info \<Rightarrow> account_info \<Rightarrow> u64 option \<Rightarrow> u64 \<Rightarrow> world \<Rightarrow> world result" where
  "rent_top_up E info payer_info system_info native_token_amount reserve w =
     bindE (ok_or (Token Overflow) (checked_sub (lamports_of w info)
              (case native_token_amount of Some n \<Rightarrow> n | None \<Rightarrow> 0))) (\<lambda>current.
       let diff = saturating_sub reserve current in
       if diff > 0 then
         invoke_system E (system_transfer (key payer_info) (key info) diff) [payer_info, info, system_info] w
       else Inr w)"

text \<open>A native account keeps its amount; its reserve becomes the new rent-exempt minimum.\<close>

definition sync_reserve :: "u64 \<Rightarrow> u64 \<Rightarrow> u64 \<Rightarrow> packed_account \<Rightarrow> packed_account result" where
  "sync_reserve reserve native_token_amount lams account =
     bindE (ok_or (Token Overflow) (checked_add reserve native_token_amount)) (\<lambda>minimum.
       if lams < minimum then Inl (Token InvalidState) else Inr (account\<lparr>a_is_native := Some reserve\<rparr>))"

definition process_reallocate ::
    "env \<Rightarrow> pubkey \<Rightarrow> account_info list \<Rightarrow> extension_type list \<Rightarrow> world \<Rightarrow> world result" where
  "process_reallocate E program_id accounts new_extension_types w =
     bindE (next_account_info accounts) (\<lambda>(info, it).
     bindE (next_account_info it) (\<lambda>(payer_info, it).
     bindE (next_account_info it) (\<lambda>(system_info, it).
     bindE (next_account_info it) (\<lambda>(auth, rest).
     bindE (unpack_packed (data_of w info)) (\<lambda>(account, tlv).
     bindE (validate_owner E program_id (a_owner account) auth (length (data_of w auth)) rest w) (\<lambda>_.
     let native_token_amount = (if account_is_native account then Some (a_amount account) else None) in
     bindE (get_tlv_data_info tlv) (\<lambda>info_types_of.
     if list_ex (\<lambda>t. get_account_type t \<noteq> account_type.Account) new_extension_types then Inl (Token InvalidState)
     else bindE (try_calculate_account_len E Account_LEN (info_types info_types_of @ new_extension_types)) (\<lambda>needed.
     if length (data_of w info) \<ge> needed then Inr w
     else bindE (realloc_account E info needed w) (\<lambda>w.
     bindE (rent_get E) (\<lambda>rent.
     let reserve = minimum_balance rent needed in
     bindE (rent_top_up E info payer_info system_info native_token_amount reserve w) (\<lambda>w.
     bindE (set_account_type PodAccount (data_of w info)) (\<lambda>d.
     bindE (case native_token_amount of
              None \<Rightarrow> Inr d
            | Some n \<Rightarrow> update_packed (sync_reserve reserve n (lamports_of w info)) d) (\<lambda>d.
       Inr (set_data info d w))))))))))))))"

section \<open>Adding an extension to a live state\<close>

text \<open>\<open>alloc_and_serialize\<close>: grow the account if the extension does not fit, set the account type
  if there was none, write the extension.\<close>

definition alloc_and_serialize ::
    "env \<Rightarrow> 's base_state \<Rightarrow> 'v extension \<Rightarrow> 'v \<Rightarrow> bool \<Rightarrow> account_info \<Rightarrow> world \<Rightarrow> world result" where
  "alloc_and_serialize E S V new_extension overwrite info w =
     (let previous_len = length (data_of w info) in
      bindE (unpack S (data_of w info)) (\<lambda>st.
      bindE (try_get_new_account_len (ACCOUNT_TYPE S) (ext_type V) (ext_len V) (tlv_data st)) (\<lambda>new_len.
      bindE (if new_len > previous_len then realloc_account E info new_len w else Inr w) (\<lambda>w.
      bindE (if previous_len \<le> BASE_ACCOUNT_LENGTH then set_account_type S (data_of w info)
             else Inr (data_of w info)) (\<lambda>d.
      bindE (unpack S d) (\<lambda>st.
      bindE (init_extension S V overwrite st) (\<lambda>st.
        Inr (store S info (put_extension S V new_extension st) w))))))))"

section \<open>The packed and the zero-copy view\<close>

lemma unpack_tlv_data_Inr:
  "unpack_tlv_data S rest = Inr tlv \<longleftrightarrow>
   (\<exists>pad ty. unpack_type_and_tlv_data_with_check S rest (check_account_type S) = Inr (pad, ty, tlv))"
  by (cases "type_and_tlv_indices S rest")
     (auto simp: unpack_tlv_data_def unpack_type_and_tlv_data_with_check_def success_simps split: option.splits)

lemma unpack_packed_Inr:
  assumes "unpack_packed d = Inr (b, tlv)"
  shows "\<exists>st. unpack PodAccount d = Inr st \<and> tlv_data st = tlv \<and> base st = pod_account_of_bytes (take Account_LEN d)"
    "account_unpack_from_slice (take Account_LEN d) = Inr b" "Account_LEN \<le> length d"
proof -
  from assms have c: "check_min_len_and_not_multisig d Account_LEN = Inr ()"
    and b: "account_unpack (take Account_LEN d) = Inr b"
    and t: "unpack_tlv_data PodAccount (drop Account_LEN d) = Inr tlv"
    by (auto simp: unpack_packed_def success_simps)
  from b have u: "account_unpack_from_slice (take Account_LEN d) = Inr b" and i: "account_is_initialized b"
    by (auto simp: account_unpack_def success_simps)
  from t obtain pad ty where r: "unpack_type_and_tlv_data_with_check PodAccount (drop Account_LEN d)
      (check_account_type PodAccount) = Inr (pad, ty, tlv)" by (auto simp: unpack_tlv_data_Inr)
  have "pod_account_is_initialized (pod_account_of_bytes (take Account_LEN d))"
    using account_agrees [OF u] i
    by (cases "a_state b") (auto simp: pod_account_is_initialized_def account_is_initialized_def)
  then show "\<exists>st. unpack PodAccount d = Inr st \<and> tlv_data st = tlv \<and> base st = pod_account_of_bytes (take Account_LEN d)"
    using c r by (simp add: unpack_def PodAccount_SIZE_OF_def Account_LEN_def Let_def)
  show "account_unpack_from_slice (take Account_LEN d) = Inr b" by (rule u)
  show "Account_LEN \<le> length d" using c by (auto simp: check_min_len_and_not_multisig_def split: if_splits)
qed

lemma pack_native_reserve:
  assumes "account_unpack_from_slice d = Inr a" "length d = 165"
  shows "account_pack_into_slice (a\<lparr>a_is_native := Some r\<rparr>) d =
    Inr (pod_account_bytes ((pod_account_of_bytes d)\<lparr>is_native := pod_some r\<rparr>))"
proof -
  have tag: "word_le (1 :: u32) = [1, 0, 0, 0]" 
    using word_le_le_word [of "[1, 0, 0, 0]", where 'a = 32] by (simp add: le_word_def)
  from assms(1) obtain dl s n ca where k: "unpack_coption_key (slice_of d 72 108) = Inr dl"
      "account_state_try_from (le_word (slice_of d 108 109)) = Some s" "unpack_coption_key (slice_of d 129 165) = Inr ca"
    and a: "Inr \<lparr>a_mint = le_word (slice_of d 0 32), a_owner = le_word (slice_of d 32 64),
       a_amount = le_word (slice_of d 64 72), a_delegate = dl, a_state = s, a_is_native = n,
       a_delegated_amount = le_word (slice_of d 121 129), a_close_authority = ca\<rparr> = (Inr a :: packed_account result)"
    unfolding account_unpack_from_slice_def success_simps by blast
  from a have a': "a = \<lparr>a_mint = le_word (slice_of d 0 32), a_owner = le_word (slice_of d 32 64),
       a_amount = le_word (slice_of d 64 72), a_delegate = dl, a_state = s, a_is_native = n,
       a_delegated_amount = le_word (slice_of d 121 129), a_close_authority = ca\<rparr>" by (simp only: sum.inject)
  have s: "account_state_u8 s = le_word (slice_of d 108 109)" using k(2) by (simp add: account_state_try_from_Some)
  have c: "coption_key_bytes (coption_key_of_bytes (slice_of d i j)) = slice_of d i j" if "j = i + 36" "j \<le> 165" for i j
    using that assms(2) by (simp add: coption_key_bytes_def coption_key_of_bytes_def slice_of_slice_of
        slice_of_append_slice_of)
  have p: "pack_coption_key dl (slice_of d 72 108) = slice_of d 72 108"
    "pack_coption_key ca (slice_of d 129 165) = slice_of d 129 165"
    using k(1,3) assms(2) by (simp_all add: pack_unpack_coption_key)
  show ?thesis
    using assms(2) by (simp add: account_pack_into_slice_def Account_LEN_def a' p s pod_account_bytes_def
        pod_account_of_bytes_def c coption_u64_bytes_def pod_some_def SOME_tag_def tag pack_coption_u64_def)
qed

lemma update_packed_sync:
  assumes "update_packed (sync_reserve r n lams) d = Inr d'" "unpack PodAccount d = Inr st"
  shows "unpack PodAccount d' = Inr (st\<lparr>base := (base st)\<lparr>is_native := pod_some r\<rparr>\<rparr>)" "unat r + unat n \<le> unat lams"
    "length d' = length d"
proof -
  from assms(1) obtain b tlv h m where u: "unpack_packed d = Inr (b, tlv)" and m: "checked_add r n = Some m" "\<not> lams < m"
    and h: "account_pack_into_slice (b\<lparr>a_is_native := Some r\<rparr>) (take Account_LEN d) = Inr h"
    and d': "d' = h @ drop Account_LEN d"
    by (auto simp: update_packed_def sync_reserve_def success_simps)
  note p = unpack_packed_Inr [OF u]
  from p(1) assms(2) have b: "base st = pod_account_of_bytes (take Account_LEN d)" by auto
  from h pack_native_reserve [OF p(2)] p(3) have h': "h = pod_account_bytes ((base st)\<lparr>is_native := pod_some r\<rparr>)"
    by (simp add: b Account_LEN_def)
  have d: "d = state_bytes PodAccount st" and l: "live st" using assms(2) by (simp_all add: unpack_account_live)
  have "d' = state_bytes PodAccount (st\<lparr>base := (base st)\<lparr>is_native := pod_some r\<rparr>\<rparr>)"
    by (simp add: d' h' d state_bytes_def Account_LEN_def)
  with l show "unpack PodAccount d' = Inr (st\<lparr>base := (base st)\<lparr>is_native := pod_some r\<rparr>\<rparr>)" by simp
  show "unat r + unat n \<le> unat lams" using m by (simp add: checked_add_Some not_less word_le_nat_alt)
  show "length d' = length d" using p(3) by (simp add: d' h' Account_LEN_def)
qed

text \<open>Growing a token account and setting its type.\<close>

lemma set_account_type_grown:
  assumes "unpack PodAccount d = Inr st" "length d < n" "set_account_type PodAccount (resized n d) = Inr d'"
  shows "\<exists>k. unpack PodAccount d' = Inr (st\<lparr>account_type := [2], tlv_data := tlv_data st @ replicate k 0\<rparr>)"
    "length d' = n"
proof -
  have d: "d = pod_account_bytes (base st) @ account_type st @ tlv_data st" and l: "live st"
    and pad: "padding st = []"
    using assms(1) by (auto simp: unpack_account_live state_bytes_def live_def shape_ok_def PodAccount_SIZE_OF_def
      BASE_ACCOUNT_LENGTH_def Account_LEN_def)
  let ?z = "replicate (n - length d) 0"
  have r: "resized n d = pod_account_bytes (base st) @ (account_type st @ tlv_data st @ ?z)"
    using assms(2) by (simp add: resized_def d)
  have c: "n \<noteq> Multisig_LEN"
    using assms(2,3) by (auto simp: set_account_type_def check_min_len_and_not_multisig_def resized_def success_simps split: if_splits)
  have "\<exists>k. d' = state_bytes PodAccount (st\<lparr>account_type := [2], tlv_data := tlv_data st @ replicate k 0\<rparr>) \<and>
      tlv_data st @ replicate k 0 \<noteq> [] \<and> length d' = n"
  proof (cases "account_type st = []")
    case True
    then have t: "tlv_data st = []" using l by (auto simp: live_def shape_ok_def)
    have n: "?z = 0 # replicate (n - length d - 1) 0" using assms(2) by (cases "n - length d") auto
    from assms(3) r True t have "d' = pod_account_bytes (base st) @ 2 # replicate (n - length d - 1) 0 \<and>
       replicate (n - length d - 1) 0 \<noteq> ([] :: bytes)"
      unfolding set_account_type_def
      by (auto simp: n success_simps Let_def PodAccount_SIZE_OF_def Account_LEN_def type_and_tlv_indices_def
          BASE_ACCOUNT_LENGTH_def account_type_try_from_def split: if_splits)
    then show ?thesis using True t pad assms(2)
      by (intro exI [of _ "n - length d - 1"]) (auto simp: state_bytes_def d)
  next
    case False
    then have t: "account_type st = [2]" "tlv_data st \<noteq> []" using l by (auto simp: live_def shape_ok_def)
    from assms(3) r t have "d' = pod_account_bytes (base st) @ 2 # tlv_data st @ ?z"
      unfolding set_account_type_def
      by (auto simp: success_simps Let_def PodAccount_SIZE_OF_def Account_LEN_def type_and_tlv_indices_def
          BASE_ACCOUNT_LENGTH_def account_type_try_from_def split: if_splits)
    then show ?thesis using t pad assms(2)
      by (intro exI [of _ "n - length d"]) (auto simp: state_bytes_def d)
  qed
  then obtain k where k: "d' = state_bytes PodAccount (st\<lparr>account_type := [2], tlv_data := tlv_data st @ replicate k 0\<rparr>)"
    "tlv_data st @ replicate k 0 \<noteq> []" "length d' = n" by blast
  have "live (st\<lparr>account_type := [2], tlv_data := tlv_data st @ replicate k 0\<rparr>)"
    using l k c pad by (auto simp: live_def shape_ok_def PodAccount_SIZE_OF_def BASE_ACCOUNT_LENGTH_def Account_LEN_def)
  with k show "\<exists>k. unpack PodAccount d' = Inr (st\<lparr>account_type := [2], tlv_data := tlv_data st @ replicate k 0\<rparr>)"
    "length d' = n" by auto
qed

section \<open>Reallocation keeps the account\<close>

lemma rent_top_up_Inr:
  assumes "rent_top_up E info payer sys n r w = Inr w'" "system_contract E"
  shows "acct_data (cells w' k) = acct_data (cells w k) \<and> acct_owner (cells w' k) = acct_owner (cells w k)"
proof -
  from assms(1) obtain d where "invoke_system E (system_transfer (key payer) (key info) d) [payer, info, sys] w = Inr w' \<or> w' = w"
    by (auto simp: rent_top_up_def success_simps Let_def split: if_splits)
  then show ?thesis using assms(2) unfolding system_contract_def by blast
qed

lemma account_native_agrees:
  assumes "account_unpack_from_slice d = Inr b"
  shows "account_is_native b = pod_account_is_native (pod_account_of_bytes d)"
proof -
  have "a_is_native b = pod_match_some (is_native (pod_account_of_bytes d))" using account_agrees [OF assms] by simp
  then show ?thesis
    by (simp add: account_is_native_def pod_account_is_native_def pod_is_some_def pod_match_some_def)
qed

text \<open>What a native account's reserve becomes; the other fields of the account never change.\<close>

definition reserve_synced :: "pod_account \<Rightarrow> pod_account \<Rightarrow> u64 \<Rightarrow> bool" where
  "reserve_synced b b' lams \<longleftrightarrow>
     (if pod_account_is_native b
      then \<exists>r. b' = b\<lparr>is_native := pod_some r\<rparr> \<and> unat r + unat (amount b) \<le> unat lams
      else b' = b)"

lemma process_reallocate_Inr:
  assumes "process_reallocate E p (a # payer # sys # auth # rest) ts w = Inr w'" "realloc_ok E" "system_contract E"
  obtains st st' info needed k where "unpack PodAccount (data_of w a) = Inr st" "unpack PodAccount (data_of w' a) = Inr st'"
    "consents p (owner (base st)) auth rest w" "\<forall>t\<in>set ts. get_account_type t = account_type.Account"
    "get_tlv_data_info (tlv_data st) = Inr info"
    "try_calculate_account_len E Account_LEN (info_types info @ ts) = Inr needed" "needed \<le> length (data_of w' a)"
    "tlv_data st' = tlv_data st @ replicate k 0" "changes_only {key a} w w'" "owner_of w' a = owner_of w a"
    "w' = w \<or> reserve_synced (base st) (base st') (lamports_of w' a)" "base st' = base st \<or> pod_account_is_native (base st)"
    "is_native (base st') \<noteq> is_native (base st) \<Longrightarrow> pod_account_is_native (base st')"
    "mint (base st') = mint (base st)" "amount (base st') = amount (base st)"
proof -
  let ?nat = "\<lambda>b. if account_is_native b then Some (a_amount b) else None"
  from assms(1) obtain b tlv info needed where u: "unpack_packed (data_of w a) = Inr (b, tlv)"
    and v: "validate_owner E p (a_owner b) auth (length (data_of w auth)) rest w = Inr ()"
    and i: "get_tlv_data_info tlv = Inr info"
    and ts: "\<not> list_ex (\<lambda>t. get_account_type t \<noteq> account_type.Account) ts"
    and n: "try_calculate_account_len E Account_LEN (info_types info @ ts) = Inr needed"
    and r: "(if length (data_of w a) \<ge> needed then Inr w
       else bindE (realloc_account E a needed w) (\<lambda>w.
       bindE (rent_get E) (\<lambda>rent.
       let reserve = minimum_balance rent needed in
       bindE (rent_top_up E a payer sys (?nat b) reserve w) (\<lambda>w.
       bindE (set_account_type PodAccount (data_of w a)) (\<lambda>d.
       bindE (case ?nat b of
                None \<Rightarrow> Inr d
              | Some n \<Rightarrow> update_packed (sync_reserve reserve n (lamports_of w a)) d) (\<lambda>d.
         Inr (set_data a d w))))))) = Inr w'"
    unfolding process_reallocate_def next_account_info.simps bindE_simps prod.case Let_def
    by (auto simp: success_simps split del: if_split)
  from unpack_packed_Inr(1) [OF u] obtain st where st: "unpack PodAccount (data_of w a) = Inr st" "tlv_data st = tlv"
    "base st = pod_account_of_bytes (take Account_LEN (data_of w a))" by blast
  note ag = account_agrees [OF unpack_packed_Inr(2) [OF u], folded st(3)]
  have nat: "account_is_native b = pod_account_is_native (base st)"
    using account_native_agrees [OF unpack_packed_Inr(2) [OF u]] by (simp add: st(3))
  have c: "consents p (owner (base st)) auth rest w" using validate_owner_consents [OF v] ag by simp
  have ts': "\<forall>t\<in>set ts. get_account_type t = account_type.Account" using ts by (auto simp: list_ex_iff)
  note out = that [OF st(1) _ c ts' i [folded st(2)] n]
  show ?thesis
  proof (cases "length (data_of w a) \<ge> needed")
    case True
    with r have "w' = w" by simp
    with True st(1) show ?thesis by (intro out [of st 0]) auto
  next
    case False
    with r obtain w1 and rent :: rent and w2 d d' where w1: "realloc_account E a needed w = Inr w1"
      and w2: "rent_top_up E a payer sys (?nat b) (minimum_balance rent needed) w1 = Inr w2"
      and d: "set_account_type PodAccount (data_of w2 a) = Inr d"
      and d': "(case ?nat b of None \<Rightarrow> Inr d
         | Some n \<Rightarrow> update_packed (sync_reserve (minimum_balance rent needed) n (lamports_of w2 a)) d) = Inr d'"
      and w': "set_data a d' w2 = w'"
      by (simp add: success_simps Let_def) blast
    have s1: "w1 = set_data a (resized needed (data_of w a)) w" using w1 assms(2) unfolding realloc_ok_def by blast
    note s2 = rent_top_up_Inr [OF w2 assms(3)]
    have "data_of w2 a = resized needed (data_of w a)" "owner_of w2 a = owner_of w a"
      using s2 [of "key a"] by (simp_all add: data_of_def owner_of_def s1 frame)
    with set_account_type_grown [OF st(1) _ d [unfolded this]] False obtain k where
      ud: "unpack PodAccount d = Inr (st\<lparr>account_type := [2], tlv_data := tlv_data st @ replicate k 0\<rparr>)"
      and ld: "length d = needed" by auto
    have ch: "changes_only {key a} w w'"
      by (rule changes_only_same) (use s2 in \<open>simp add: s1 frame flip: w'\<close>)
    have ow: "owner_of w' a = owner_of w a" using \<open>owner_of w2 a = owner_of w a\<close> by (simp add: frame flip: w')
    let ?st = "st\<lparr>account_type := [2], tlv_data := tlv_data st @ replicate k 0\<rparr>"
    show ?thesis
    proof (cases "pod_account_is_native (base st)")
      case True
      with d' nat have up: "update_packed (sync_reserve (minimum_balance rent needed) (a_amount b) (lamports_of w2 a)) d = Inr d'"
        by simp
      let ?r = "minimum_balance rent needed"
      have "unpack PodAccount (data_of w' a) = Inr (?st\<lparr>base := (base st)\<lparr>is_native := pod_some ?r\<rparr>\<rparr>)"
        "unat ?r + unat (amount (base st)) \<le> unat (lamports_of w' a)" "length d' = needed"
        using update_packed_sync [OF up ud] ag ld by (simp_all add: frame flip: w')
      with True ch ow show ?thesis
        by (intro out [of "?st\<lparr>base := (base st)\<lparr>is_native := pod_some ?r\<rparr>\<rparr>" k])
           (auto simp: reserve_synced_def w'[symmetric] frame pod_account_is_native_def pod_is_some_def pod_some_def)
    next
      case False
      with d' nat have "d' = d" by simp
      with False ud ld ch ow show ?thesis
        by (intro out [of ?st k]) (auto simp: reserve_synced_def w'[symmetric] frame)
    qed
  qed
qed

text \<open>C29. \<open>Reallocate\<close> only makes room: with the consent of the owner the account gets at least the
  length that its extensions and the requested ones need together, and it still unpacks to the same
  account, with the same extensions, each with the value it had.  Only the rent-exempt reserve of a
  native account is updated, and then its lamports cover reserve and amount.\<close>

theorem reallocate_correct:
  assumes "process_reallocate E p (a # payer # sys # auth # rest) ts w = Inr w'" "realloc_ok E" "system_contract E"
    "\<And>st. unpack PodAccount (data_of w a) = Inr st \<Longrightarrow> tlv_wf account_type.Account (tlv_data st)"
  shows "\<exists>st st' us needed. unpack PodAccount (data_of w a) = Inr st \<and> unpack PodAccount (data_of w' a) = Inr st' \<and>
    consents p (owner (base st)) auth rest w \<and> (\<forall>t\<in>set ts. get_account_type t = account_type.Account) \<and>
    get_extension_types st = Inr us \<and> get_extension_types st' = Inr us \<and>
    try_calculate_account_len E Account_LEN (us @ ts) = Inr needed \<and> needed \<le> length (data_of w' a) \<and>
    (\<forall>t x. get_extension_bytes account_type.Account t (tlv_data st') = Inr x \<longleftrightarrow>
       get_extension_bytes account_type.Account t (tlv_data st) = Inr x) \<and>
    (w' = w \<or> reserve_synced (base st) (base st') (lamports_of w' a)) \<and>
    amount (base st') = amount (base st) \<and> changes_only {key a} w w'"
  using assms(1-3)
proof (rule process_reallocate_Inr)
  fix st st' info needed k
  assume *: "unpack PodAccount (data_of w a) = Inr st" "unpack PodAccount (data_of w' a) = Inr st'"
    "consents p (owner (base st)) auth rest w" "\<forall>t\<in>set ts. get_account_type t = account_type.Account"
    "get_tlv_data_info (tlv_data st) = Inr info"
    "try_calculate_account_len E Account_LEN (info_types info @ ts) = Inr needed" "needed \<le> length (data_of w' a)"
    "tlv_data st' = tlv_data st @ replicate k 0" "changes_only {key a} w w'"
    "w' = w \<or> reserve_synced (base st) (base st') (lamports_of w' a)" "amount (base st') = amount (base st)"
  from assms(4) [OF *(1)] obtain es where r: "represents account_type.Account es (tlv_data st)" by (auto simp: tlv_wf_def)
  from represents_extend [OF r] have r': "represents account_type.Account es (tlv_data st')" by (simp add: *(8))
  show ?thesis using * represents_info [OF r] represents_info [OF r'] represents_get [OF r] represents_get [OF r']
    by (intro exI [of _ st] exI [of _ st'] exI [of _ "info_types info"] exI [of _ needed])
       (auto simp: get_extension_types_def)
qed

text \<open>Key 7 is an account of owner 30 without extensions; it grows to hold a CPI guard.\<close>

theorem reallocate_correct_witness:
  "\<exists>w' st'. process_reallocate sample_env token_2022_id
     [\<lparr>key = 7, is_signer = False\<rparr>, \<lparr>key = 50, is_signer = True\<rparr>, \<lparr>key = 0, is_signer = False\<rparr>,
      \<lparr>key = 30, is_signer = True\<rparr>] [CpiGuard] two_holders = Inr w' \<and>
     unpack PodAccount (data_of w' \<lparr>key = 7, is_signer = False\<rparr>) = Inr st' \<and> amount (base st') = 100 \<and>
     171 \<le> length (data_of w' \<lparr>key = 7, is_signer = False\<rparr>)"
proof -
  let ?a = "\<lparr>key = 7 :: pubkey, is_signer = False\<rparr>"
  let ?as = "[?a, \<lparr>key = 50, is_signer = True\<rparr>, \<lparr>key = 0, is_signer = False\<rparr>, \<lparr>key = 30, is_signer = True\<rparr>]"
  let ?b = "\<lparr>a_mint = 9, a_owner = 30, a_amount = 100, a_delegate = None, a_state = account_state.Initialized,
     a_is_native = None, a_delegated_amount = 0, a_close_authority = None\<rparr>"
  have len: "length (data_of two_holders ?a) = 165" by simp
  have z: "word_le (0 :: u32) = [0, 0, 0, 0]"
    using word_le_le_word [of "[0, 0, 0, 0]", where 'a = 32] by (simp add: le_word_def)
  have n: "unpack_coption_key (coption_key_bytes pod_none) = Inr None"
    "unpack_coption_u64 (coption_u64_bytes pod_none) = Inr None"
    by (simp_all add: unpack_coption_key_def unpack_coption_u64_def coption_key_bytes_def coption_u64_bytes_def
        pod_none_def NONE_tag_def z [symmetric] Let_def)
  have "account_unpack_from_slice (pod_account_bytes (holder 30 100)) = Inr ?b"
    by (simp add: account_unpack_from_slice_def Account_LEN_def pod_account_bytes_def holder_def n
        account_state_try_from_def)
  then have u: "unpack_packed (data_of two_holders ?a) = Inr (?b, [])"
    by (simp add: unpack_packed_def account_unpack_def account_is_initialized_def unpack_tlv_data_def
        type_and_tlv_indices_def check_min_len_and_not_multisig_def Account_LEN_def Multisig_LEN_def)
  have i: "get_tlv_data_info [] = Inr \<lparr>info_types = [], used_len = 0\<rparr>"
    using info_zeros [of 0 "[]"] by (simp add: get_tlv_data_info_def)
  have n: "try_calculate_account_len sample_env Account_LEN [CpiGuard] = Inr 171"
    by (simp add: try_calculate_account_len_def try_get_total_tlv_len_def try_get_tlv_len_def try_get_type_len_def
        add_type_and_length_to_len_def adjust_len_for_multisig_def BASE_ACCOUNT_AND_TYPE_LENGTH_def
        BASE_ACCOUNT_LENGTH_def Account_LEN_def Multisig_LEN_def)
  have "pod_account_bytes (holder 30 100) ! 108 = 1"
    by (simp add: pod_account_bytes_def holder_def nth_append coption_key_bytes_def word_le_u8)
  then have "isOk (set_account_type PodAccount (pod_account_bytes (holder 30 100) @ replicate 6 0))"
    by (simp add: set_account_type_def check_min_len_and_not_multisig_def PodAccount_SIZE_OF_def Multisig_LEN_def
        is_initialized_account_def ACCOUNT_INITIALIZED_INDEX_def BASE_ACCOUNT_LENGTH_def Account_LEN_def
        type_and_tlv_indices_def account_type_try_from_def)
  then obtain d where d: "set_account_type PodAccount (pod_account_bytes (holder 30 100) @ replicate 6 0) = Inr d"
    by (auto simp: isOk_iff)
  have r: "rent_top_up sample_env a b c None 171 (set_data x y two_holders) = Inr (set_data x y two_holders)" for a b c x y
    by (simp add: rent_top_up_def checked_sub_def saturating_sub_def frame two_holders_def)
  have "isOk (process_reallocate sample_env token_2022_id ?as [CpiGuard] two_holders)"
    using u len d
    by (simp add: process_reallocate_def account_is_native_def i n r sample_env_rent resized_def frame)
  then obtain w' where t: "process_reallocate sample_env token_2022_id ?as [CpiGuard] two_holders = Inr w'"
    by (auto simp: isOk_iff)
  have wf: "tlv_wf account_type.Account (tlv_data st)" if "unpack PodAccount (data_of two_holders ?a) = Inr st" for st
    using that represents_zeros [of account_type.Account 0] by (auto simp: tlv_wf_def)
  from reallocate_correct [OF t sample_env_realloc sample_env_system wf] n t show ?thesis
    by (auto simp: get_extension_types_def i)
qed

end
