(* ===== verification/Variable_Len.thy ===== *)
theory Variable_Len
  imports Reallocate
begin

text \<open>
  Extensions of variable length (\<open>src/programs/src/extension/mod.rs\<close>): reading, allocating and reallocating
  their entries, and the account that grows and shrinks with them.
\<close>

section \<open>Moving the tail of a buffer\<close>

lemma splice_parts:
  "d = a @ b @ c \<Longrightarrow> length a = i \<Longrightarrow> length b = length v \<Longrightarrow> splice d i v = a @ v @ c"
  by (auto simp: splice_def)

lemma split_at_length:
  assumes "k \<le> length xs"
  obtains ys zs where "xs = ys @ zs" "length ys = k" "length zs = length xs - k"
  using that [of "take k xs" "drop k xs"] assms by simp

lemma tail_moved_up:
  assumes "length x \<le> k" "k - length x \<le> n"
  shows "splice (splice (H @ x @ K @ replicate n 0) (length H + k) K) (length H + length x) (replicate (k - length x) 0) =
    H @ (x @ replicate (k - length x) 0) @ K @ replicate (n - (k - length x)) (0 :: u8)"
proof -
  let ?j = "k - length x" and ?z = "\<lambda>n. replicate n (0 :: u8)"
  have z: "?z n = ?z ?j @ ?z (n - ?j)" using assms(2) by (simp flip: replicate_add)
  obtain T B where tb: "K @ ?z ?j = T @ B" "length T = ?j" "length B = length (K @ ?z ?j) - ?j"
    by (rule split_at_length [of ?j "K @ ?z ?j"]) simp
  have B: "length B = length K" using arg_cong [OF tb(1), of length] tb(2) by simp
  have "splice (H @ x @ K @ ?z n) (length H + k) K = (H @ x @ T) @ K @ ?z (n - ?j)"
    using tb(1,2) B assms by (intro splice_parts [of _ _ B]) (simp_all add: z)
  moreover have "splice ((H @ x @ T) @ K @ ?z (n - ?j)) (length H + length x) (?z ?j) = (H @ x) @ ?z ?j @ (K @ ?z (n - ?j))"
    using tb(2) by (intro splice_parts [of _ _ T]) simp_all
  ultimately show ?thesis by simp
qed

lemma tail_moved_down:
  "splice (splice (H @ (y @ r) @ K @ replicate n 0) (length H + length y) K) (length H + length y + length K)
     (replicate (length r) 0) = H @ y @ K @ replicate (n + length r) (0 :: u8)"
proof -
  let ?z = "\<lambda>n. replicate n (0 :: u8)"
  obtain T B where tb: "r @ K = T @ B" "length T = length K" by (rule split_at_length [of "length K" "r @ K"]) simp
  have B: "length B = length r" using arg_cong [OF tb(1), of length] tb(2) by simp
  have "splice (H @ (y @ r) @ K @ ?z n) (length H + length y) K = (H @ y) @ K @ (B @ ?z n)"
    using tb by (intro splice_parts [of _ _ T]) simp_all
  moreover have "splice ((H @ y) @ K @ (B @ ?z n)) (length H + length y + length K) (?z (length r)) =
      (H @ y @ K) @ ?z (length r) @ ?z n"
    using B by (intro splice_parts [of _ _ B]) simp_all
  moreover have "?z (length r) @ ?z n = ?z (n + length r)" by (simp add: add.commute flip: replicate_add)
  ultimately show ?thesis by simp
qed

section \<open>Reallocation of an entry\<close>

lemma indices_encode_skip:
  assumes "entries_ok (get_account_type v) es" "v \<notin> fst ` set es"
  shows "get_extension_indices v (tlv_encode es @ d) init =
    bindE (get_extension_indices v d init) (\<lambda>ix. Inr (shift_indices (length (tlv_encode es)) ix))"
  using assms
proof (induction es rule: tlv_encode.induct)
  case 1
  show ?case by (cases "get_extension_indices v d init") (simp_all add: shift_indices_def)
next
  case (2 t x es)
  then show ?case
    by (cases "get_extension_indices v d init") (auto simp: indices_skip shift_indices_def simp del: entry_ok.simps)
qed

lemma realloc_entry:
  assumes d: "d = tlv_encode es1 @ tlv_entry v x @ tlv_encode es2 @ replicate n 0"
    and es: "entries_ok (get_account_type v) (es1 @ (v, x) # es2)" "v \<notin> fst ` set es1"
    and r: "realloc v k d = Inr (d', i, j)"
  shows "\<exists>x' m. d' = tlv_encode es1 @ tlv_entry v x' @ tlv_encode es2 @ replicate m 0 \<and> length x' = k \<and> k < 2 ^ 16 \<and>
    i = length (tlv_encode es1) + 4 \<and> j = i + k \<and> length d' = length d"
proof -
  let ?A = "length (tlv_encode es1)" and ?K = "tlv_encode es2"
  let ?U = "?A + 4 + length x + length ?K"
  have x: "length x < 2 ^ 16" using es(1) by simp
  have ix: "get_extension_indices v d False = Inr (get_tlv_indices ?A)"
    using es by (simp add: d indices_encode_skip indices_here)
  have la: "length_at d (get_tlv_indices ?A) = length x"
    using at_shift(2) [of "tlv_encode es1" "tlv_entry v x @ ?K @ replicate n 0" 0] x by (simp add: d)
  have info: "get_tlv_data_info d = Inr \<lparr>info_types = map fst (es1 @ (v, x) # es2), used_len = ?U\<rparr>"
    using info_encode [OF es(1), of n "[]"] by (simp add: get_tlv_data_info_def d)
  from r ix la info have k: "k < 2 ^ 16" and room: "\<not> (length x < k \<and> ?U + (k - length x) > length d)"
    and ij: "i = ?A + 4" "j = ?A + 4 + k"
    by (auto simp: realloc_def Let_def success_simps length_try_from_def split: if_splits)
  let ?H = "tlv_encode es1 @ extension_type_bytes v @ word_le (of_nat k :: u16)"
  define D where "D = splice d (?A + 2) (word_le (of_nat k :: u16))"
  have H: "length ?H = ?A + 4" by simp
  have "D = (tlv_encode es1 @ extension_type_bytes v) @ word_le (of_nat k :: u16) @ (x @ ?K @ replicate n 0)"
    unfolding D_def by (rule splice_parts [of _ _ "word_le (of_nat (length x) :: u16)"]) (simp_all add: d tlv_entry_def)
  then have d1: "D = ?H @ x @ ?K @ replicate n 0" by simp
  have sl: "slice_of D (?A + 4 + length x) ?U = ?K" by (simp add: d1)
  from r k room obtain d2 where c: "copy_within D (?A + 4 + length x) ?U (?A + 4 + k) = Inr d2"
    and f: "(if k < length x then fill_zero d2 (?U - (length x - k)) ?U
       else if length x < k then fill_zero d2 (?A + 4 + length x) (?A + 4 + k) else Inr d2) = Inr d'"
    by (auto simp: realloc_def ix la info Let_def success_simps length_try_from_def D_def cong: if_cong)
  from c have "d2 = splice D (?A + 4 + k) ?K" by (simp add: copy_within_def sl split: if_splits)
  then have d2: "d2 = splice (?H @ x @ ?K @ replicate n 0) (length ?H + k) ?K" by (simp only: d1 H)
  show ?thesis
  proof (cases "k < length x")
    case True
    have "d' = splice d2 (length ?H + k + length ?K) (replicate (length x - k) 0)"
      using f True by (simp add: fill_zero_def H split: if_splits) (simp add: add.commute add.left_commute)
    then have "d' = ?H @ take k x @ ?K @ replicate (n + (length x - k)) 0"
      unfolding d2 using True tail_moved_down [of ?H "take k x" "drop k x" ?K n] by simp
    then show ?thesis using True k ij
      by (intro exI [of _ "take k x"] exI [of _ "n + (length x - k)"]) (simp add: tlv_entry_def d)
  next
    case False
    have n: "k - length x \<le> n" using False room by (auto simp: d)
    have "d' = splice d2 (length ?H + length x) (replicate (k - length x) 0)"
      using f False by (auto simp: fill_zero_def H splice_def ac_simps split: if_splits)
    then have "d' = ?H @ (x @ replicate (k - length x) 0) @ ?K @ replicate (n - (k - length x)) 0"
      unfolding d2 using False n by (simp only: tail_moved_up not_less)
    then show ?thesis using False k ij n
      by (intro exI [of _ "x @ replicate (k - length x) 0"] exI [of _ "n - (k - length x)"]) (simp add: tlv_entry_def d)
  qed
qed

text \<open>With room for the difference, reallocation succeeds.\<close>

lemma realloc_succeeds:
  assumes d: "d = tlv_encode es1 @ tlv_entry v x @ tlv_encode es2 @ replicate n 0"
    and es: "entries_ok (get_account_type v) (es1 @ (v, x) # es2)" "v \<notin> fst ` set es1" and k: "k < 2 ^ 16" "k \<le> length x + n"
  shows "isOk (realloc v k d)"
proof -
  let ?A = "length (tlv_encode es1)"
  let ?U = "?A + 4 + length x + length (tlv_encode es2)"
  have ix: "get_extension_indices v d False = Inr (get_tlv_indices ?A)"
    using es by (simp add: d indices_encode_skip indices_here)
  have la: "length_at d (get_tlv_indices ?A) = length x"
    using at_shift(2) [of "tlv_encode es1" "tlv_entry v x @ tlv_encode es2 @ replicate n 0" 0] es(1) by (simp add: d)
  have info: "get_tlv_data_info d = Inr \<lparr>info_types = map fst (es1 @ (v, x) # es2), used_len = ?U\<rparr>"
    using info_encode [OF es(1), of n "[]"] by (simp add: get_tlv_data_info_def d)
  have l: "length d = ?U + n" by (simp add: d)
  define D where "D = splice d (?A + 2) (word_le (of_nat k :: u16))"
  have D: "length D = length d" by (simp add: D_def l)
  have c: "copy_within D (?A + 4 + length x) ?U (?A + 4 + k) = Inr (splice D (?A + 4 + k) (slice_of D (?A + 4 + length x) ?U))"
    using k(2) by (simp add: copy_within_def D l)
  have "length (splice D (?A + 4 + k) (slice_of D (?A + 4 + length x) ?U)) = length d" using k(2) by (simp add: D l)
  moreover have "splice d (Suc (Suc ?A)) (word_le (of_nat k :: u16)) = D" by (simp add: D_def)
  moreover have "\<not> n < k - length x" using k(2) by arith
  ultimately show ?thesis
    using k l c by (simp add: realloc_def ix la info Let_def length_try_from_def fill_zero_def cong: if_cong)
qed

lemma alloc_succeeds:
  assumes "entries_ok S es" "v \<notin> fst ` set es" "get_account_type v = S" "S \<noteq> account_type.Uninitialized"
    "k < 2 ^ 16" "4 + k \<le> n"
  shows "isOk (alloc S v k overwrite (tlv_encode es @ replicate n 0))"
proof -
  let ?d = "tlv_encode es @ replicate n 0" and ?A = "length (tlv_encode es)"
  have v: "v \<noteq> Uninitialized" using assms(3,4) by auto
  have z: "type_at (replicate n 0) (get_tlv_indices 0) = Inr Uninitialized"
    using assms(6) extension_type_of_bytes_bytes [of Uninitialized]
    by (simp add: type_at_def slice_of_def min_def numeral_2_eq_2 uninitialized_bytes)
  then have "get_extension_indices v (replicate n 0) True = Inr (get_tlv_indices 0)"
    using assms(6) v by (simp add: get_extension_indices_def get_extension_indices_from.simps [of v True "replicate n 0" 0] Let_def)
  then have ix: "get_extension_indices v ?d True = Inr (get_tlv_indices ?A)"
    using assms(1-3) by (simp add: indices_encode_skip)
  have "type_at ?d (get_tlv_indices ?A) = Inr Uninitialized" using at_shift(1) [of "tlv_encode es" _ 0] z by simp
  then show ?thesis
    using assms(3,5,6) v by (simp add: alloc_def ix add_type_and_length_to_len_def length_try_from_def Let_def)
qed

section \<open>The VariableLenPack trait\<close>

text \<open>\<open>VariableLenPack\<close> of \<open>spl_type_length_value\<close>, with the type of the extension: the length of a
  value, its bytes written over a slice, and the value read from a slice.\<close>

record 'v variable_len =
  var_type :: extension_type
  get_packed_len :: "'v \<Rightarrow> nat result"
  pack_into_slice :: "'v \<Rightarrow> bytes \<Rightarrow> bytes result"
  unpack_from_slice :: "bytes \<Rightarrow> 'v result"

text \<open>Its contract: a slice keeps its length, and what was packed into a slice of the packed length reads back.\<close>

definition pack_ok :: "'v variable_len \<Rightarrow> bool" where
  "pack_ok V \<longleftrightarrow>
     (\<forall>v b y. pack_into_slice V v b = Inr y \<longrightarrow> length y = length b) \<and>
     (\<forall>v b y. get_packed_len V v = Inr (length b) \<longrightarrow> pack_into_slice V v b = Inr y \<longrightarrow> unpack_from_slice V y = Inr v)"

definition get_variable_len_extension :: "'s base_state \<Rightarrow> 'v variable_len \<Rightarrow> 's ext_state \<Rightarrow> 'v result" where
  "get_variable_len_extension S V st =
     bindE (get_extension_bytes (ACCOUNT_TYPE S) (var_type V) (tlv_data st)) (unpack_from_slice V)"

definition try_get_new_account_len_for_variable_len_extension ::
    "'s base_state \<Rightarrow> 'v variable_len \<Rightarrow> 'v \<Rightarrow> 's ext_state \<Rightarrow> nat result" where
  "try_get_new_account_len_for_variable_len_extension S V v st =
     bindE (get_packed_len V v) (\<lambda>n. try_get_new_account_len (ACCOUNT_TYPE S) (var_type V) n (tlv_data st))"

definition realloc_variable_len_extension ::
    "'v variable_len \<Rightarrow> 'v \<Rightarrow> 's ext_state \<Rightarrow> 's ext_state result" where
  "realloc_variable_len_extension V v st =
     bindE (get_packed_len V v) (\<lambda>n.
     bindE (realloc (var_type V) n (tlv_data st)) (\<lambda>(d, i, j).
     bindE (pack_into_slice V v (slice_of d i j)) (\<lambda>y.
       Inr (st\<lparr>tlv_data := splice d i y\<rparr>))))"

definition init_variable_len_extension ::
    "'s base_state \<Rightarrow> 'v variable_len \<Rightarrow> 'v \<Rightarrow> bool \<Rightarrow> 's ext_state \<Rightarrow> 's ext_state result" where
  "init_variable_len_extension S V v overwrite st =
     bindE (get_packed_len V v) (\<lambda>n.
     bindE (alloc (ACCOUNT_TYPE S) (var_type V) n overwrite (tlv_data st)) (\<lambda>(d, i, j).
     bindE (pack_into_slice V v (slice_of d i j)) (\<lambda>y.
       Inr (st\<lparr>tlv_data := splice d i y\<rparr>))))"

text \<open>\<open>alloc_and_serialize_variable_len_extension\<close>: an account that has to grow is reallocated first; otherwise
  the entry is written first and what is left over is cut off.\<close>

definition write_variable_len_extension ::
    "'s base_state \<Rightarrow> 'v variable_len \<Rightarrow> 'v \<Rightarrow> bool \<Rightarrow> 's ext_state \<Rightarrow> 's ext_state result" where
  "write_variable_len_extension S V v already_exists st =
     (if already_exists then realloc_variable_len_extension V v st else init_variable_len_extension S V v False st)"

definition alloc_and_serialize_variable_len_extension ::
    "env \<Rightarrow> 's base_state \<Rightarrow> 'v variable_len \<Rightarrow> 'v \<Rightarrow> bool \<Rightarrow> account_info \<Rightarrow> world \<Rightarrow> world result" where
  "alloc_and_serialize_variable_len_extension E S V v overwrite info w =
     (let previous_len = length (data_of w info) in
      bindE (unpack S (data_of w info)) (\<lambda>st.
      bindE (try_get_new_account_len_for_variable_len_extension S V v st) (\<lambda>new_len.
      let already_exists = isOk (get_extension_bytes (ACCOUNT_TYPE S) (var_type V) (tlv_data st)) in
      if already_exists \<and> \<not> overwrite then Inl (Token ExtensionAlreadyInitialized)
      else if previous_len < new_len then
        bindE (realloc_account E info new_len w) (\<lambda>w.
        bindE (if \<not> already_exists \<and> previous_len \<le> BASE_ACCOUNT_LENGTH then set_account_type S (data_of w info)
               else Inr (data_of w info)) (\<lambda>d.
        bindE (unpack S d) (\<lambda>st.
        bindE (write_variable_len_extension S V v already_exists st) (\<lambda>st. Inr (store S info st w)))))
      else
        bindE (write_variable_len_extension S V v already_exists st) (\<lambda>st.
          let w = store S info st w in
          if previous_len - new_len > 0 then realloc_account E info new_len w else Inr w))))"

section \<open>Writing refines the map\<close>

lemma encode_length:
  "distinct (map fst es) \<Longrightarrow> length (tlv_encode es) = (\<Sum>t\<leftarrow>map fst es. 4 + length (the (map_of es t)))"
proof (induction es rule: tlv_encode.induct)
  case (2 t x es)
  then have "t \<notin> set (map fst es)" by simp
  then have "(\<Sum>u\<leftarrow>map fst es. 4 + length (the (map_of ((t, x) # es) u))) = (\<Sum>u\<leftarrow>map fst es. 4 + length (the (map_of es u)))"
    by (intro arg_cong [of _ _ sum_list] map_cong refl) auto
  with 2 show ?case by simp
qed simp

text \<open>The length of the entries after a write.\<close>

definition entries_len :: "entry list \<Rightarrow> extension_type \<Rightarrow> nat \<Rightarrow> nat" where
  "entries_len es t n = length (tlv_encode es) - (case map_of es t of Some x \<Rightarrow> 4 + length x | None \<Rightarrow> 0) + (4 + n)"

lemma realloc_variable_represents:
  assumes "represents S es (tlv_data st)" "realloc_variable_len_extension V v st = Inr st'" "pack_ok V"
    "map_of es (var_type V) = Some x"
  obtains es' y where "represents S es' (tlv_data st')" "map_of es' = (map_of es)(var_type V \<mapsto> y)"
    "unpack_from_slice V y = Inr v" "get_packed_len V v = Inr (length y)" "length (tlv_encode es') = entries_len es (var_type V) (length y)"
    "st' = st\<lparr>tlv_data := tlv_data st'\<rparr>" "length (tlv_data st') = length (tlv_data st)"
proof -
  let ?t = "var_type V"
  from assms(2) obtain n d i j y where n: "get_packed_len V v = Inr n" and r: "realloc ?t n (tlv_data st) = Inr (d, i, j)"
    and y: "pack_into_slice V v (slice_of d i j) = Inr y" and st': "st' = st\<lparr>tlv_data := splice d i y\<rparr>"
    by (auto simp: realloc_variable_len_extension_def success_simps)
  from assms(1) obtain k where d: "tlv_data st = tlv_encode es @ replicate k 0" and es: "entries_ok S es"
    and dist: "distinct (map fst es)" and S: "S \<noteq> account_type.Uninitialized" by (rule representsE)
  from assms(4) have "(?t, x) \<in> set es" by (rule map_of_SomeD)
  then obtain es1 es2 where sp: "es = es1 @ (?t, x) # es2" by (auto simp: in_set_conv_decomp)
  with dist es have t: "?t \<notin> fst ` set es1" "?t \<notin> fst ` set es2" "get_account_type ?t = S" "?t \<noteq> Uninitialized" by auto
  have dd: "tlv_data st = tlv_encode es1 @ tlv_entry ?t x @ tlv_encode es2 @ replicate k 0" by (simp add: d sp)
  have ok: "entries_ok (get_account_type ?t) (es1 @ (?t, x) # es2)" using es t(3) by (simp add: sp)
  from realloc_entry [OF dd ok t(1) r] obtain x' m where d': "d = tlv_encode es1 @ tlv_entry ?t x' @ tlv_encode es2 @ replicate m 0"
    and x': "length x' = n" "n < 2 ^ 16" and ij: "i = length (tlv_encode es1) + 4" "j = i + n"
    and l: "length d = length (tlv_data st)" by blast
  have sl: "slice_of d i j = x'" using x' by (simp add: d' ij tlv_entry_def)
  from y assms(3) have len: "length y = n" unfolding pack_ok_def by (metis sl x'(1))
  have u: "unpack_from_slice V y = Inr v" using assms(3) y n x'(1) sl unfolding pack_ok_def by metis
  have "splice d i y = (tlv_encode es1 @ extension_type_bytes ?t @ word_le (of_nat n :: u16)) @ y @ tlv_encode es2 @ replicate m 0"
    by (rule splice_parts [of _ _ x']) (simp_all add: d' tlv_entry_def x' ij len)
  then have e: "tlv_data st' = tlv_encode (es1 @ (?t, y) # es2) @ replicate m 0" by (simp add: st' tlv_entry_def len)
  have "represents S (es1 @ (?t, y) # es2) (tlv_data st')"
    using es dist S t len x'(2) e by (auto simp: represents_def sp)
  moreover have "map_of (es1 @ (?t, y) # es2) = (map_of es)(?t \<mapsto> y)" unfolding sp by (rule map_of_middle [OF t(1)])
  moreover have "length (tlv_encode (es1 @ (?t, y) # es2)) = entries_len es ?t (length y)"
    using assms(4) by (simp add: entries_len_def sp)
  moreover have "length (tlv_data st') = length (tlv_data st)"
    using l len x' ij by (simp add: st' d')
  ultimately show thesis using that u n len st' by simp
qed

lemma init_variable_represents:
  assumes "represents (ACCOUNT_TYPE S) es (tlv_data st)" "init_variable_len_extension S V v False st = Inr st'" "pack_ok V"
    "map_of es (var_type V) = None"
  obtains es' y where "represents (ACCOUNT_TYPE S) es' (tlv_data st')" "map_of es' = (map_of es)(var_type V \<mapsto> y)"
    "unpack_from_slice V y = Inr v" "get_packed_len V v = Inr (length y)" "length (tlv_encode es') = entries_len es (var_type V) (length y)"
    "st' = st\<lparr>tlv_data := tlv_data st'\<rparr>" "length (tlv_data st') = length (tlv_data st)"
proof -
  let ?t = "var_type V"
  from assms(2) obtain n d i j y where n: "get_packed_len V v = Inr n"
    and a: "alloc (ACCOUNT_TYPE S) ?t n False (tlv_data st) = Inr (d, i, j)"
    and y: "pack_into_slice V v (slice_of d i j) = Inr y" and st': "st' = st\<lparr>tlv_data := splice d i y\<rparr>"
    by (auto simp: init_variable_len_extension_def success_simps)
  have sl: "length (slice_of d i j) = n" using a by (rule alloc_decomp) simp
  from y assms(3) have len: "length y = n" unfolding pack_ok_def by (metis sl)
  have u: "unpack_from_slice V y = Inr v" using assms(3) y n sl unfolding pack_ok_def by metis
  have i: "init_extension_bytes (ACCOUNT_TYPE S) ?t y False (tlv_data st) = Inr (tlv_data st')"
    by (simp add: init_extension_bytes_def len a st')
  from assms(4) have t: "?t \<notin> fst ` set es" by (simp add: map_of_eq_None_iff)
  from represents_init [OF assms(1) i] t obtain es' where es': "represents (ACCOUNT_TYPE S) es' (tlv_data st')"
    "map_of es' = (map_of es)(?t \<mapsto> y)" "map fst es' = map fst es @ [?t]" by auto
  have "length (tlv_encode es') = (\<Sum>u\<leftarrow>map fst es @ [?t]. 4 + length (the (map_of es' u)))"
    using encode_length [of es'] es'(1,3) by (simp add: represents_def)
  also have "\<dots> = (\<Sum>u\<leftarrow>map fst es. 4 + length (the (map_of es u))) + (4 + length y)"
    using t by (simp add: es'(2)) (intro arg_cong [of _ _ sum_list] map_cong refl, force)
  also have "\<dots> = entries_len es ?t (length y)"
    using encode_length [of es] assms(1,4) by (simp add: represents_def entries_len_def)
  finally show thesis using that [OF es'(1,2) u] n len length_init [OF i] by (simp add: st')
qed

text \<open>What both ways of writing establish.\<close>

lemma write_variable_represents:
  assumes "represents (ACCOUNT_TYPE S) es (tlv_data st)" "pack_ok V"
    "write_variable_len_extension S V v (isOk (get_extension_bytes (ACCOUNT_TYPE S) (var_type V) (tlv_data st0))) st = Inr st'"
    "represents (ACCOUNT_TYPE S) es (tlv_data st0)"
  obtains es' y where "represents (ACCOUNT_TYPE S) es' (tlv_data st')" "map_of es' = (map_of es)(var_type V \<mapsto> y)"
    "unpack_from_slice V y = Inr v" "get_packed_len V v = Inr (length y)" "length (tlv_encode es') = entries_len es (var_type V) (length y)"
    "st' = st\<lparr>tlv_data := tlv_data st'\<rparr>" "length (tlv_data st') = length (tlv_data st)"
proof (cases "map_of es (var_type V)")
  case None
  then have "\<not> isOk (get_extension_bytes (ACCOUNT_TYPE S) (var_type V) (tlv_data st0))"
    by (auto simp: isOk_iff represents_get [OF assms(4)])
  with assms(3) have "init_variable_len_extension S V v False st = Inr st'" by (simp add: write_variable_len_extension_def)
  from init_variable_represents [OF assms(1) this assms(2) None] that show thesis by blast
next
  case (Some x)
  then have "isOk (get_extension_bytes (ACCOUNT_TYPE S) (var_type V) (tlv_data st0))"
    by (auto simp: isOk_iff represents_get [OF assms(4)])
  with assms(3) have "realloc_variable_len_extension V v st = Inr st'" by (simp add: write_variable_len_extension_def)
  from realloc_variable_represents [OF assms(1) this assms(2) Some] that show thesis by blast
qed

lemma represents_take:
  "represents S es d \<Longrightarrow> length (tlv_encode es) \<le> n \<Longrightarrow> represents S es (take n d)"
  by (auto simp: represents_def)

lemma new_account_len:
  assumes "represents S es d" "try_get_new_account_len S t n d = Inr k"
  shows "k = adjust_len_for_multisig (BASE_ACCOUNT_AND_TYPE_LENGTH + entries_len es t n)"
proof -
  have c: "(case get_extension_bytes S t d of Inl e \<Rightarrow> 0 | Inr x \<Rightarrow> add_type_and_length_to_len (length x)) =
      (case map_of es t of None \<Rightarrow> 0 | Some x \<Rightarrow> 4 + length x)"
  proof (cases "map_of es t")
    case None
    then obtain e where "get_extension_bytes S t d = Inl e"
      using represents_get [OF assms(1), of t] by (cases "get_extension_bytes S t d") auto
    with None show ?thesis by simp
  next
    case (Some x)
    then have "get_extension_bytes S t d = Inr x" by (simp only: represents_get [OF assms(1)])
    with Some show ?thesis by (simp add: add_type_and_length_to_len_def)
  qed
  let ?c = "case map_of es t of None \<Rightarrow> 0 | Some x \<Rightarrow> 4 + length x" and ?B = BASE_ACCOUNT_AND_TYPE_LENGTH
  have "?c \<le> length (tlv_encode es)"
  proof (cases "map_of es t")
    case (Some x)
    then obtain es1 es2 where "es = es1 @ (t, x) # es2" by (auto simp: in_set_conv_decomp dest!: map_of_SomeD)
    with Some show ?thesis by simp
  qed simp
  then have "length (tlv_encode es) + ?B - ?c + (n + 2 + 2) = ?B + (length (tlv_encode es) - ?c + (4 + n))" by arith
  moreover have "Inr k = Inr (adjust_len_for_multisig (length (tlv_encode es) + ?B - ?c + (n + 2 + 2)))"
    using assms(2) unfolding try_get_new_account_len_def represents_info [OF assms(1)] bindE_simps Let_def c
    by (simp add: add_type_and_length_to_len_def)
  ultimately show ?thesis unfolding entries_len_def by (simp only: sum.inject)
qed

lemma adjusted_len: "n \<le> adjust_len_for_multisig n" "adjust_len_for_multisig n \<noteq> Multisig_LEN"
  by (simp_all add: adjust_len_for_multisig_def)

section \<open>An account that grows and shrinks\<close>

lemma set_data_twice [simp]: "set_data a x (set_data a y w) = set_data a x w"
  by (simp add: set_data_def fun_upd_def cong: if_cong)

context base_state_laws
begin

lemma extended_bytes:
  assumes "shape_ok S st" "tlv_data st \<noteq> []"
  obtains p where "\<And>t. state_bytes S (st\<lparr>tlv_data := t\<rparr>) = p @ t" "state_bytes S st = p @ tlv_data st"
    "length p = BASE_ACCOUNT_AND_TYPE_LENGTH"
  using that [of "base_bytes S (base st) @ padding st @ account_type st"] assms size_bound
  by (auto simp: shape_ok_def state_bytes_def length_base_bytes BASE_ACCOUNT_AND_TYPE_LENGTH_def)

lemma unpack_with_tlv:
  assumes "unpack S d = Inr st" "tlv_data st \<noteq> []" "t \<noteq> []" "BASE_ACCOUNT_AND_TYPE_LENGTH + length t \<noteq> Multisig_LEN"
  shows "unpack S (state_bytes S (st\<lparr>tlv_data := t\<rparr>)) = Inr (st\<lparr>tlv_data := t\<rparr>)"
proof -
  have s: "base_is_initialized S (base st)" "shape_ok S st" using assms(1) by (simp_all add: unpack_iff)
  obtain p where "state_bytes S (st\<lparr>tlv_data := t\<rparr>) = p @ t" "length p = BASE_ACCOUNT_AND_TYPE_LENGTH"
    using extended_bytes [OF s(2) assms(2)] by metis
  with s assms(2-4) show ?thesis by (intro unpack_state_bytes) (auto simp: shape_ok_def)
qed

lemma unpack_resized:
  assumes "unpack S d = Inr st" "tlv_data st \<noteq> []" "BASE_ACCOUNT_AND_TYPE_LENGTH < n" "n \<noteq> Multisig_LEN"
  shows "unpack S (resized n d) =
    Inr (st\<lparr>tlv_data := take (n - BASE_ACCOUNT_AND_TYPE_LENGTH) (tlv_data st) @ replicate (n - length d) 0\<rparr>)"
proof -
  let ?t = "take (n - BASE_ACCOUNT_AND_TYPE_LENGTH) (tlv_data st) @ replicate (n - length d) 0"
  have d: "d = state_bytes S st" "shape_ok S st" using assms(1) by (simp_all add: unpack_iff)
  obtain p where p: "\<And>t. state_bytes S (st\<lparr>tlv_data := t\<rparr>) = p @ t" "state_bytes S st = p @ tlv_data st"
    "length p = BASE_ACCOUNT_AND_TYPE_LENGTH"
    using extended_bytes [OF d(2) assms(2)] by metis
  have r: "resized n d = state_bytes S (st\<lparr>tlv_data := ?t\<rparr>)"
    using assms(3) by (simp add: p d(1) resized_def)
  have "length (resized n d) = n" by (simp add: resized_def)
  then have "BASE_ACCOUNT_AND_TYPE_LENGTH + length ?t = n" by (simp only: r p(1) length_append p(3))
  with r assms(2-4) unpack_with_tlv [OF assms(1,2), of ?t] show ?thesis by auto
qed

text \<open>The account after a write of variable length holds the old entries with the new value, and is exactly as long as
  its entries need.\<close>

lemma variable_len_written:
  assumes r: "alloc_and_serialize_variable_len_extension E S V v overwrite a w = Inr w'" and u: "unpack S (data_of w a) = Inr st"
    and es: "represents (ACCOUNT_TYPE S) es (tlv_data st)" "tlv_data st \<noteq> []" and ok: "pack_ok V" "realloc_ok E"
  shows "\<exists>st' es' y. unpack S (data_of w' a) = Inr st' \<and> st' = st\<lparr>tlv_data := tlv_data st'\<rparr> \<and>
    represents (ACCOUNT_TYPE S) es' (tlv_data st') \<and> map_of es' = (map_of es)(var_type V \<mapsto> y) \<and>
    get_variable_len_extension S V st' = Inr v \<and>
    length (data_of w' a) = adjust_len_for_multisig (BASE_ACCOUNT_AND_TYPE_LENGTH + length (tlv_encode es')) \<and>
    w' = set_data a (data_of w' a) w"
proof -
  let ?x = "isOk (get_extension_bytes (ACCOUNT_TYPE S) (var_type V) (tlv_data st))"
  let ?B = BASE_ACCOUNT_AND_TYPE_LENGTH
  have d: "data_of w a = state_bytes S st" "shape_ok S st" using u by (simp_all add: unpack_iff)
  obtain p where p: "\<And>t. state_bytes S (st\<lparr>tlv_data := t\<rparr>) = p @ t" "data_of w a = p @ tlv_data st" "length p = ?B"
    using extended_bytes [OF d(2) es(2)] d(1) by metis
  from r u obtain n len where n: "get_packed_len V v = Inr n"
    and lenr: "try_get_new_account_len (ACCOUNT_TYPE S) (var_type V) n (tlv_data st) = Inr len"
    by (auto simp: alloc_and_serialize_variable_len_extension_def try_get_new_account_len_for_variable_len_extension_def
        Let_def success_simps)
  note len = new_account_len [OF es(1) lenr]
  have big: "?B < len" "len \<noteq> Multisig_LEN"
    using adjusted_len [of "?B + entries_len es (var_type V) n"] by (simp_all add: len entries_len_def)
  have found: "get_variable_len_extension S V st' = Inr v"
    if "represents (ACCOUNT_TYPE S) es' (tlv_data st')" "map_of es' = (map_of es)(var_type V \<mapsto> y)" "unpack_from_slice V y = Inr v"
    for st' es' y
    using that by (simp add: get_variable_len_extension_def) (simp add: represents_get [OF that(1), THEN iffD2])
  show ?thesis
  proof (cases "length (data_of w a) < len")
    case True
    let ?st = "st\<lparr>tlv_data := tlv_data st @ replicate (len - length (data_of w a)) 0\<rparr>"
    have g: "unpack S (resized len (data_of w a)) = Inr ?st"
      using unpack_resized [OF u es(2) big] True p by simp
    have "\<not> length (data_of w a) \<le> BASE_ACCOUNT_LENGTH" using p es(2) by (simp add: BASE_ACCOUNT_AND_TYPE_LENGTH_def)
    with r u n lenr True obtain w1 st1 st' where w1: "realloc_account E a len w = Inr w1" "unpack S (data_of w1 a) = Inr st1"
      and wr: "write_variable_len_extension S V v ?x st1 = Inr st'" and w': "w' = store S a st' w1"
      by (auto simp: alloc_and_serialize_variable_len_extension_def try_get_new_account_len_for_variable_len_extension_def
          Let_def success_simps split: if_splits)
    from ok(2) w1(1) have w1': "w1 = set_data a (resized len (data_of w a)) w" unfolding realloc_ok_def by blast
    with w1(2) g have st1: "st1 = ?st" by (simp add: frame)
    have e1: "represents (ACCOUNT_TYPE S) es (tlv_data st1)" using represents_extend [OF es(1)] by (simp add: st1)
    obtain es' y where k: "represents (ACCOUNT_TYPE S) es' (tlv_data st')" "map_of es' = (map_of es)(var_type V \<mapsto> y)"
      "unpack_from_slice V y = Inr v" "get_packed_len V v = Inr (length y)"
      "length (tlv_encode es') = entries_len es (var_type V) (length y)" "st' = st1\<lparr>tlv_data := tlv_data st'\<rparr>"
      "length (tlv_data st') = length (tlv_data st1)"
      by (rule write_variable_represents [OF e1 ok(1) wr es(1)])
    have st': "st' = st\<lparr>tlv_data := tlv_data st'\<rparr>" using k(6) by (simp add: st1)
    have l: "?B + length (tlv_data st') = len" using k(7) True p by (simp add: st1)
    have ne: "tlv_data st' \<noteq> []" using l big(1) by auto
    have b: "state_bytes S st' = p @ tlv_data st'" using st' p(1) by metis
    have u': "unpack S (state_bytes S st') = Inr st'"
      using unpack_with_tlv [OF u es(2) ne] l big(2) st' by metis
    have dw: "data_of w' a = state_bytes S st'" "w' = set_data a (state_bytes S st') w"
      by (simp_all add: w' w1' store_def frame)
    show ?thesis
      by (rule exI [of _ st'], rule exI [of _ es'], rule exI [of _ y])
         (use u' st' k(1,2) found [OF k(1-3)] dw b l p(3) n k(4,5) len in \<open>simp\<close>)
  next
    case False
    from False r u n lenr obtain st' where wr: "write_variable_len_extension S V v ?x st = Inr st'"
      and w': "(if length (data_of w a) - len > 0 then realloc_account E a len (store S a st' w) else Inr (store S a st' w)) = Inr w'"
      by (auto simp: alloc_and_serialize_variable_len_extension_def try_get_new_account_len_for_variable_len_extension_def
          Let_def success_simps split: if_splits)
    obtain es' y where k: "represents (ACCOUNT_TYPE S) es' (tlv_data st')" "map_of es' = (map_of es)(var_type V \<mapsto> y)"
      "unpack_from_slice V y = Inr v" "get_packed_len V v = Inr (length y)"
      "length (tlv_encode es') = entries_len es (var_type V) (length y)" "st' = st\<lparr>tlv_data := tlv_data st'\<rparr>"
      "length (tlv_data st') = length (tlv_data st)"
      by (rule write_variable_represents [OF es(1) ok(1) wr es(1)])
    let ?t = "take (len - ?B) (tlv_data st')" and ?d = "state_bytes S st'"
    let ?st = "st\<lparr>tlv_data := ?t\<rparr>"
    have b: "?d = p @ tlv_data st'" using k(6) p(1) by metis
    have lt: "len - ?B \<le> length (tlv_data st')" using False k(7) p by simp
    have res: "state_bytes S ?st = resized len ?d" using lt big(1) p(3) by (simp add: p(1) b resized_def)
    have "w' = set_data a (resized len (data_of (store S a st' w) a)) (store S a st' w)"
      if "realloc_account E a len (store S a st' w) = Inr w'" using ok(2) that unfolding realloc_ok_def by blast
    then have "realloc_account E a len (store S a st' w) = Inr w' \<longrightarrow> w' = set_data a (resized len ?d) (store S a st' w)"
      by (simp add: frame)
    moreover have "?d = resized len ?d" if "\<not> length (data_of w a) - len > 0"
      using that False k(7) p b by (simp add: resized_def)
    ultimately have dw: "w' = set_data a (state_bytes S ?st) w"
      using w' by (auto simp: res store_def split: if_splits)
    have "?t \<noteq> []" using lt big(1) by auto
    then have u': "unpack S (state_bytes S ?st) = Inr ?st"
      using unpack_with_tlv [OF u es(2), of ?t] lt big by simp
    have r': "represents (ACCOUNT_TYPE S) es' (tlv_data ?st)"
      using represents_take [OF k(1), of "len - ?B"] adjusted_len(1) [of "?B + entries_len es (var_type V) n"] k(4,5) n len by simp
    show ?thesis
      by (rule exI [of _ ?st], rule exI [of _ es'], rule exI [of _ y])
         (use u' r' k(2) found [OF r' k(2,3)] dw p lt n k(4,5) len big in \<open>simp add: frame\<close>)
  qed
qed

text \<open>The same for an extension of fixed length.\<close>

lemma fixed_len_written:
  assumes r: "alloc_and_serialize E S V v overwrite a w = Inr w'" and u: "unpack S (data_of w a) = Inr st"
    and es: "represents (ACCOUNT_TYPE S) es (tlv_data st)" "tlv_data st \<noteq> []" and ok: "realloc_ok E"
    and V: "length (ext_bytes V v) = ext_len V" "length (ext_bytes V (ext_default V)) = ext_len V"
  shows "\<exists>st' es'. unpack S (data_of w' a) = Inr st' \<and> st' = st\<lparr>tlv_data := tlv_data st'\<rparr> \<and>
    represents (ACCOUNT_TYPE S) es' (tlv_data st') \<and> map_of es' = (map_of es)(ext_type V \<mapsto> ext_bytes V v) \<and>
    w' = set_data a (data_of w' a) w"
proof -
  let ?B = BASE_ACCOUNT_AND_TYPE_LENGTH
  have d: "data_of w a = state_bytes S st" "shape_ok S st" using u by (simp_all add: unpack_iff)
  obtain p where p: "data_of w a = p @ tlv_data st" "length p = ?B" using extended_bytes [OF d(2) es(2)] d(1) by metis
  have long: "\<not> length (data_of w a) \<le> BASE_ACCOUNT_LENGTH" using p es(2) by (simp add: BASE_ACCOUNT_AND_TYPE_LENGTH_def)
  with r u obtain len w1 st1 st2 where lenr: "try_get_new_account_len (ACCOUNT_TYPE S) (ext_type V) (ext_len V) (tlv_data st) = Inr len"
    and w1: "(if len > length (data_of w a) then realloc_account E a len w else Inr w) = Inr w1"
    and st1: "unpack S (data_of w1 a) = Inr st1" and i: "init_extension S V overwrite st1 = Inr st2"
    and w': "w' = store S a (put_extension S V v st2) w1"
    by (auto simp: alloc_and_serialize_def Let_def success_simps)
  have "\<exists>k d. st1 = st\<lparr>tlv_data := tlv_data st @ replicate k 0\<rparr> \<and> w1 = set_data a d w"
  proof (cases "len > length (data_of w a)")
    case True
    with w1 have "realloc_account E a len w = Inr w1" by simp
    with ok have w1': "w1 = set_data a (resized len (data_of w a)) w" unfolding realloc_ok_def by blast
    have "?B < len" "len \<noteq> Multisig_LEN"
      using True p new_account_len [OF es(1) lenr] adjusted_len(2) by simp_all
    from unpack_resized [OF u es(2) this] True p st1 w1' show ?thesis by (auto simp: frame)
  next
    case False
    have "w = set_data a (data_of w a) w" by (simp add: set_data_def data_of_def)
    with False w1 st1 u show ?thesis by (intro exI [of _ 0] exI [of _ "data_of w a"]) simp
  qed
  then obtain k d1 where st1': "st1 = st\<lparr>tlv_data := tlv_data st @ replicate k 0\<rparr>" and w1': "w1 = set_data a d1 w" by blast
  have e1: "represents (ACCOUNT_TYPE S) es (tlv_data st1)" using represents_extend [OF es(1)] by (simp add: st1')
  from i obtain d2 where i': "init_extension_bytes (ACCOUNT_TYPE S) (ext_type V) (ext_bytes V (ext_default V)) overwrite (tlv_data st1) = Inr d2"
    and st2: "st2 = st1\<lparr>tlv_data := d2\<rparr>" by (auto simp: init_extension_def init_extension_with_def success_simps)
  from represents_init [OF e1 i'] obtain es2 where es2: "represents (ACCOUNT_TYPE S) es2 d2"
    "map_of es2 = (map_of es)(ext_type V \<mapsto> ext_bytes V (ext_default V))" by blast
  from represents_put [OF es2(1), of "ext_type V" "ext_bytes V v"] V es2(2) obtain es' where
    es': "represents (ACCOUNT_TYPE S) es' (put_extension_bytes (ACCOUNT_TYPE S) (ext_type V) (ext_bytes V v) d2)"
    "map_of es' = (map_of es)(ext_type V \<mapsto> ext_bytes V v)" by (auto split: option.splits)
  let ?st = "put_extension S V v st2"
  have s: "?st = st\<lparr>tlv_data := tlv_data ?st\<rparr>" by (simp add: put_extension_def st2 st1')
  have "shape_ok S ?st"
    using st1 shape_ok_init [OF i [unfolded init_extension_def]] by (simp add: unpack_iff)
  moreover have "base_is_initialized S (base ?st)" using u by (simp add: unpack_iff st2 st1')
  ultimately have "unpack S (state_bytes S ?st) = Inr ?st" by simp
  then have u': "unpack S (data_of w' a) = Inr ?st" by (simp add: w' frame)
  have "w' = set_data a (data_of w' a) w" by (simp add: w' w1' store_def frame)
  with u' s es' show ?thesis
    by - (rule exI [of _ ?st], rule exI [of _ es'], simp add: put_extension_def st2)
qed

text \<open>And it succeeds when the account can be reallocated and the value can be packed.\<close>

lemma write_variable_succeeds:
  assumes "represents (ACCOUNT_TYPE S) es (tlv_data st)" "get_packed_len V v = Inr n" "n < 2 ^ 16"
    "\<And>b. length b = n \<Longrightarrow> isOk (pack_into_slice V v b)" "get_account_type (var_type V) = ACCOUNT_TYPE S"
    "entries_len es (var_type V) n \<le> length (tlv_data st)" "already_exists \<longleftrightarrow> map_of es (var_type V) \<noteq> None"
  shows "isOk (write_variable_len_extension S V v already_exists st)"
proof -
  let ?t = "var_type V"
  from assms(1) obtain k where d: "tlv_data st = tlv_encode es @ replicate k 0" and es: "entries_ok (ACCOUNT_TYPE S) es"
    and dist: "distinct (map fst es)" and S: "ACCOUNT_TYPE S \<noteq> account_type.Uninitialized" by (rule representsE)
  show ?thesis
  proof (cases "map_of es ?t")
    case None
    then have t: "?t \<notin> fst ` set es" by (simp add: map_of_eq_None_iff)
    have "4 + n \<le> k" using assms(6) None by (simp add: entries_len_def d)
    from alloc_succeeds [OF es t assms(5) S assms(3) this, of False] obtain d1 i j where
      a: "alloc (ACCOUNT_TYPE S) ?t n False (tlv_data st) = Inr (d1, i, j)" by (auto simp: isOk_iff d)
    have "length (slice_of d1 i j) = n" using a by (rule alloc_decomp) simp
    then obtain y where "pack_into_slice V v (slice_of d1 i j) = Inr y" using assms(4) by (auto simp: isOk_iff)
    with assms(2,7) a None show ?thesis
      by (auto simp: write_variable_len_extension_def init_variable_len_extension_def isOk_iff)
  next
    case (Some x)
    then obtain es1 es2 where sp: "es = es1 @ (?t, x) # es2" by (auto simp: in_set_conv_decomp dest!: map_of_SomeD)
    with dist have t: "?t \<notin> fst ` set es1" by auto
    have dd: "tlv_data st = tlv_encode es1 @ tlv_entry ?t x @ tlv_encode es2 @ replicate k 0" by (simp add: d sp)
    have ok: "entries_ok (get_account_type ?t) (es1 @ (?t, x) # es2)" using es assms(5) by (simp add: sp)
    have "n \<le> length x + k" using assms(6) Some by (simp add: entries_len_def d sp)
    from realloc_succeeds [OF dd ok t assms(3) this] obtain d1 i j where
      r: "realloc ?t n (tlv_data st) = Inr (d1, i, j)" by (auto simp: isOk_iff)
    from realloc_entry [OF dd ok t r] have "length (slice_of d1 i j) = n" by (auto simp: tlv_entry_def)
    then obtain y where "pack_into_slice V v (slice_of d1 i j) = Inr y" using assms(4) by (auto simp: isOk_iff)
    with assms(2,7) r Some show ?thesis
      by (auto simp: write_variable_len_extension_def realloc_variable_len_extension_def isOk_iff)
  qed
qed

lemma variable_len_succeeds:
  assumes u: "unpack S (data_of w a) = Inr st" and es: "represents (ACCOUNT_TYPE S) es (tlv_data st)" "tlv_data st \<noteq> []"
    and n: "get_packed_len V v = Inr n" "n < 2 ^ 16" "\<And>b. length b = n \<Longrightarrow> isOk (pack_into_slice V v b)"
    and t: "get_account_type (var_type V) = ACCOUNT_TYPE S" "overwrite \<or> map_of es (var_type V) = None"
    and ok: "realloc_ok E" "\<And>k w. isOk (realloc_account E a k w)"
  shows "isOk (alloc_and_serialize_variable_len_extension E S V v overwrite a w)"
proof -
  let ?x = "isOk (get_extension_bytes (ACCOUNT_TYPE S) (var_type V) (tlv_data st))"
  let ?B = BASE_ACCOUNT_AND_TYPE_LENGTH
  have d: "data_of w a = state_bytes S st" "shape_ok S st" using u by (simp_all add: unpack_iff)
  obtain p where p: "data_of w a = p @ tlv_data st" "length p = ?B" using extended_bytes [OF d(2) es(2)] d(1) by metis
  have long: "\<not> length (data_of w a) \<le> BASE_ACCOUNT_LENGTH" using p es(2) by (simp add: BASE_ACCOUNT_AND_TYPE_LENGTH_def)
  have x: "?x \<longleftrightarrow> map_of es (var_type V) \<noteq> None" by (auto simp: isOk_iff represents_get [OF es(1)])
  obtain len where lenr: "try_get_new_account_len (ACCOUNT_TYPE S) (var_type V) n (tlv_data st) = Inr len"
    by (auto simp: try_get_new_account_len_def represents_info [OF es(1)])
  note len = new_account_len [OF es(1) lenr]
  have big: "?B < len" "len \<noteq> Multisig_LEN" "entries_len es (var_type V) n \<le> len - ?B"
    using adjusted_len [of "?B + entries_len es (var_type V) n"] by (simp_all add: len entries_len_def)
  show ?thesis
  proof (cases "length (data_of w a) < len")
    case True
    let ?st = "st\<lparr>tlv_data := tlv_data st @ replicate (len - length (data_of w a)) 0\<rparr>"
    have g: "unpack S (resized len (data_of w a)) = Inr ?st" using unpack_resized [OF u es(2) big(1,2)] True p by simp
    from ok(2) [of len w] obtain w1 where r: "realloc_account E a len w = Inr w1" by (auto simp: isOk_iff)
    with ok(1) have "w1 = set_data a (resized len (data_of w a)) w" unfolding realloc_ok_def by blast
    then have "data_of w1 a = resized len (data_of w a)" by (simp add: frame)
    with g have u1: "unpack S (data_of w1 a) = Inr ?st" by simp
    have "isOk (write_variable_len_extension S V v ?x ?st)"
      using represents_extend [OF es(1)] n t(1) big(3) x True p
      by (intro write_variable_succeeds [where es = es and n = n]) simp_all
    with u n(1) lenr t(2) x True r u1 long show ?thesis
      by (auto simp: alloc_and_serialize_variable_len_extension_def try_get_new_account_len_for_variable_len_extension_def
          Let_def isOk_iff)
  next
    case False
    have "isOk (write_variable_len_extension S V v ?x st)"
      using es n t(1) big(3) x False p by (intro write_variable_succeeds [where es = es and n = n]) simp_all
    with u n(1) lenr t(2) x False ok(2) show ?thesis
      by (auto simp: alloc_and_serialize_variable_len_extension_def try_get_new_account_len_for_variable_len_extension_def
          Let_def isOk_iff)
  qed
qed

lemma fixed_len_succeeds:
  assumes u: "unpack S (data_of w a) = Inr st" and es: "represents (ACCOUNT_TYPE S) es (tlv_data st)" "tlv_data st \<noteq> []"
    and V: "ext_len V < 2 ^ 16" "length (ext_bytes V (ext_default V)) = ext_len V" "get_account_type (ext_type V) = ACCOUNT_TYPE S"
    and t: "map_of es (ext_type V) = None" and ok: "realloc_ok E" "\<And>k w. isOk (realloc_account E a k w)"
  shows "isOk (alloc_and_serialize E S V v overwrite a w)"
proof -
  let ?B = BASE_ACCOUNT_AND_TYPE_LENGTH
  have d: "data_of w a = state_bytes S st" "shape_ok S st" using u by (simp_all add: unpack_iff)
  obtain p where p: "data_of w a = p @ tlv_data st" "length p = ?B" using extended_bytes [OF d(2) es(2)] d(1) by metis
  have long: "\<not> length (data_of w a) \<le> BASE_ACCOUNT_LENGTH" using p es(2) by (simp add: BASE_ACCOUNT_AND_TYPE_LENGTH_def)
  obtain len where lenr: "try_get_new_account_len (ACCOUNT_TYPE S) (ext_type V) (ext_len V) (tlv_data st) = Inr len"
    by (auto simp: try_get_new_account_len_def represents_info [OF es(1)])
  note len = new_account_len [OF es(1) lenr]
  have big: "?B < len" "len \<noteq> Multisig_LEN" "entries_len es (ext_type V) (ext_len V) \<le> len - ?B"
    using adjusted_len [of "?B + entries_len es (ext_type V) (ext_len V)"] by (simp_all add: len entries_len_def)
  obtain k where k: "tlv_data st = tlv_encode es @ replicate k 0" and ent: "entries_ok (ACCOUNT_TYPE S) es"
    "ACCOUNT_TYPE S \<noteq> account_type.Uninitialized" using es(1) by (rule representsE)
  have init: "isOk (init_extension S V overwrite (st\<lparr>tlv_data := tlv_encode es @ replicate m 0\<rparr>))" if "4 + ext_len V \<le> m" for m
  proof -
    from t have "ext_type V \<notin> fst ` set es" by (simp add: map_of_eq_None_iff)
    from alloc_succeeds [OF ent(1) this V(3) ent(2) V(1) that, of overwrite] V(2) show ?thesis
      by (auto simp: init_extension_def init_extension_with_def init_extension_bytes_def isOk_iff)
  qed
  have r: "4 + ext_len V \<le> m" if "len - ?B \<le> length (tlv_encode es) + m" for m
    using big(3) t that by (simp add: entries_len_def)
  show ?thesis
  proof (cases "len > length (data_of w a)")
    case True
    let ?m = "len - length (data_of w a)"
    have "take (len - ?B) (tlv_data st) @ replicate ?m 0 = tlv_encode es @ replicate (k + ?m) 0"
    proof -
      have "take (len - ?B) (tlv_data st) = tlv_data st" using True p by simp
      then show ?thesis by (simp only: k append_assoc replicate_add)
    qed
    with unpack_resized [OF u es(2) big(1,2)]
    have g: "unpack S (resized len (data_of w a)) = Inr (st\<lparr>tlv_data := tlv_encode es @ replicate (k + ?m) 0\<rparr>)" by simp
    from ok(2) [of len w] obtain w1 where w1: "realloc_account E a len w = Inr w1" by (auto simp: isOk_iff)
    with ok(1) have "w1 = set_data a (resized len (data_of w a)) w" unfolding realloc_ok_def by blast
    with g have u1: "unpack S (data_of w1 a) = Inr (st\<lparr>tlv_data := tlv_encode es @ replicate (k + ?m) 0\<rparr>)" by (simp add: frame)
    have "4 + ext_len V \<le> k + ?m" using True p by (intro r) (simp add: k)
    from init [OF this] u lenr w1 u1 True long show ?thesis
      by (auto simp: alloc_and_serialize_def Let_def isOk_iff)
  next
    case False
    have "st = st\<lparr>tlv_data := tlv_encode es @ replicate k 0\<rparr>" by (simp flip: k)
    moreover have "4 + ext_len V \<le> k" using False p by (intro r) (simp add: k)
    ultimately have "isOk (init_extension S V overwrite st)" using init by metis
    with u lenr False long show ?thesis by (auto simp: alloc_and_serialize_def Let_def isOk_iff)
  qed
qed

end

end
