(* ===== verification/Token_Interfaces.thy ===== *)
theory Token_Interfaces
  imports Variable_Len
begin

text \<open>
  The two interfaces that the program implements for mints: token metadata
  (\<open>src/programs/src/extension/token_metadata\<close>) and token groups
  (\<open>src/programs/src/extension/token_group\<close>).
\<close>

section \<open>What the interface crates define\<close>

text \<open>\<open>TokenMetadata\<close>, with the fields that the processor names and the encoding of the others, which it
  leaves to their default; strings are their bytes, an optional key is zero when absent.\<close>

record token_metadata =
  md_update_authority :: pubkey
  md_mint :: pubkey
  md_name :: bytes
  md_symbol :: bytes
  md_uri :: bytes
  md_rest :: bytes

text \<open>\<open>TokenMetadataInstruction\<close>; a \<open>Field\<close> is only passed on and kept as its encoding.\<close>

datatype metadata_instruction =
    Initialize bytes bytes bytes
  | UpdateField bytes bytes
  | RemoveKey bytes bool
  | UpdateAuthority pubkey
  | Emit "u64 option" "u64 option"

text \<open>\<open>TokenGroupInstruction\<close>.\<close>

datatype group_instruction =
    InitializeGroup pubkey u32
  | UpdateGroupMaxSize u32
  | UpdateGroupAuthority pubkey
  | InitializeMember

text \<open>The functions of \<open>spl_token_metadata_interface\<close> and \<open>spl_token_group_interface\<close>: decoding of
  instructions; the errors; \<open>VariableLenPack\<close>, \<open>update\<close>, \<open>remove_key\<close> and \<open>get_slice\<close> of
  \<open>TokenMetadata\<close>; the constructors, the authority, \<open>update_max_size\<close> and \<open>increment_size\<close> of the
  structs of groups and members, as bytes.\<close>

record token_interfaces =
  metadata_instruction_unpack :: "bytes \<Rightarrow> metadata_instruction option"
  group_instruction_unpack :: "bytes \<Rightarrow> group_instruction option"
  immutable_metadata :: error
  incorrect_metadata_update_authority :: error
  incorrect_metadata_mint_authority :: error
  key_not_found :: error
  immutable_group :: error
  incorrect_group_update_authority :: error
  incorrect_group_mint_authority :: error
  member_account_is_group_account :: error
  metadata_default_rest :: bytes
  metadata_packed_len :: "token_metadata \<Rightarrow> nat result"
  metadata_pack_into_slice :: "token_metadata \<Rightarrow> bytes \<Rightarrow> bytes result"
  metadata_unpack_from_slice :: "bytes \<Rightarrow> token_metadata result"
  metadata_update :: "bytes \<Rightarrow> bytes \<Rightarrow> token_metadata \<Rightarrow> token_metadata"
  metadata_remove_key :: "bytes \<Rightarrow> token_metadata \<Rightarrow> token_metadata \<times> bool"
  metadata_get_slice :: "bytes \<Rightarrow> u64 option \<Rightarrow> u64 option \<Rightarrow> bytes option"
  group_new :: "pubkey \<Rightarrow> pubkey \<Rightarrow> u32 \<Rightarrow> bytes"
  group_authority :: "bytes \<Rightarrow> pubkey"
  group_set_authority :: "pubkey \<Rightarrow> bytes \<Rightarrow> bytes"
  group_update_max_size :: "u32 \<Rightarrow> bytes \<Rightarrow> bytes result"
  group_increment_size :: "bytes \<Rightarrow> (u32 \<times> bytes) result"
  member_new :: "pubkey \<Rightarrow> pubkey \<Rightarrow> u32 \<Rightarrow> bytes"

definition TokenMetadataExt :: "token_interfaces \<Rightarrow> token_metadata variable_len" where
  "TokenMetadataExt I =
     \<lparr>var_type = TokenMetadata, get_packed_len = metadata_packed_len I,
      pack_into_slice = metadata_pack_into_slice I, unpack_from_slice = metadata_unpack_from_slice I\<rparr>"

text \<open>The structs of fixed size, as bytes; the default is overwritten as soon as it is written.\<close>

definition bytes_extension :: "extension_type \<Rightarrow> nat \<Rightarrow> bytes extension" where
  "bytes_extension t n =
     \<lparr>ext_type = t, ext_len = n, ext_of_bytes = (\<lambda>b. b), ext_bytes = (\<lambda>b. b), ext_default = replicate n 0\<rparr>"

definition TokenGroupExt :: "env \<Rightarrow> bytes extension" where
  "TokenGroupExt E = bytes_extension TokenGroup (token_group_len E)"

definition TokenGroupMemberExt :: "env \<Rightarrow> bytes extension" where
  "TokenGroupMemberExt E = bytes_extension TokenGroupMember (token_group_member_len E)"

section \<open>Shared checks\<close>

text \<open>\<open>check_update_authority\<close>, the same in both processors up to the errors.\<close>

definition check_update_authority :: "error \<Rightarrow> error \<Rightarrow> account_info \<Rightarrow> pubkey \<Rightarrow> unit result" where
  "check_update_authority immutable incorrect update_authority_info expected =
     (if \<not> is_signer update_authority_info then Inl (Prog MissingRequiredSignature)
      else bindE (ok_or immutable (option_of_non_zero expected)) (\<lambda>k.
        if k \<noteq> key update_authority_info then Inl incorrect else Inr ()))"

text \<open>The scope that checks the mint authority and the pointer extension.\<close>

definition check_mint_authority ::
    "env \<Rightarrow> 'v extension \<Rightarrow> error \<Rightarrow> account_info \<Rightarrow> account_info \<Rightarrow> world \<Rightarrow> unit result" where
  "check_mint_authority E P incorrect mint_info authority_info w =
     bindE (check_program_account (owner_of w mint_info)) (\<lambda>_.
     bindE (unpack (PodMint E) (data_of w mint_info)) (\<lambda>mt.
     if \<not> is_signer authority_info then Inl (Prog MissingRequiredSignature)
     else if mint_authority (base mt) \<noteq> pod_some (key authority_info) then Inl incorrect
     else if \<not> isOk (get_extension E (PodMint E) P mt) then Inl (Token InvalidExtensionCombination)
     else Inr ()))"

section \<open>Token groups\<close>

definition process_initialize_group ::
    "env \<Rightarrow> token_interfaces \<Rightarrow> account_info list \<Rightarrow> pubkey \<Rightarrow> u32 \<Rightarrow> world \<Rightarrow> world result" where
  "process_initialize_group E I accounts new_authority max_size w =
     bindE (next_account_info accounts) (\<lambda>(group_info, it).
     bindE (next_account_info it) (\<lambda>(mint_info, it).
     bindE (next_account_info it) (\<lambda>(mint_authority_info, _).
     if key group_info \<noteq> key mint_info then Inl (Token MintMismatch)
     else bindE (check_mint_authority E GroupPointerExt (incorrect_group_mint_authority I) mint_info mint_authority_info w) (\<lambda>_.
       alloc_and_serialize E (PodMint E) (TokenGroupExt E) (group_new I (key mint_info) new_authority max_size) False
         group_info w))))"

text \<open>The two updates of a group differ in what they do to it.\<close>

definition update_group ::
    "env \<Rightarrow> token_interfaces \<Rightarrow> (bytes \<Rightarrow> bytes result) \<Rightarrow> account_info list \<Rightarrow> world \<Rightarrow> world result" where
  "update_group E I f accounts w =
     bindE (next_account_info accounts) (\<lambda>(group_info, it).
     bindE (next_account_info it) (\<lambda>(update_authority_info, _).
     bindE (unpack (PodMint E) (data_of w group_info)) (\<lambda>st.
     bindE (get_extension E (PodMint E) (TokenGroupExt E) st) (\<lambda>g.
     bindE (check_update_authority (immutable_group I) (incorrect_group_update_authority I) update_authority_info
              (group_authority I g)) (\<lambda>_.
     bindE (f g) (\<lambda>g.
       Inr (store (PodMint E) group_info (put_extension (PodMint E) (TokenGroupExt E) g st) w)))))))"

definition process_update_group_max_size ::
    "env \<Rightarrow> token_interfaces \<Rightarrow> account_info list \<Rightarrow> u32 \<Rightarrow> world \<Rightarrow> world result" where
  "process_update_group_max_size E I accounts max_size = update_group E I (group_update_max_size I max_size) accounts"

definition process_update_group_authority ::
    "env \<Rightarrow> token_interfaces \<Rightarrow> account_info list \<Rightarrow> pubkey \<Rightarrow> world \<Rightarrow> world result" where
  "process_update_group_authority E I accounts new_authority =
     update_group E I (\<lambda>g. Inr (group_set_authority I new_authority g)) accounts"

definition process_initialize_member ::
    "env \<Rightarrow> token_interfaces \<Rightarrow> account_info list \<Rightarrow> world \<Rightarrow> world result" where
  "process_initialize_member E I accounts w =
     bindE (next_account_info accounts) (\<lambda>(member_info, it).
     bindE (next_account_info it) (\<lambda>(member_mint_info, it).
     bindE (next_account_info it) (\<lambda>(member_mint_authority_info, it).
     bindE (next_account_info it) (\<lambda>(group_info, it).
     bindE (next_account_info it) (\<lambda>(group_update_authority_info, _).
     if key member_info \<noteq> key member_mint_info then Inl (Token MintMismatch)
     else bindE (check_mint_authority E GroupMemberPointerExt (incorrect_group_mint_authority I) member_mint_info
                   member_mint_authority_info w) (\<lambda>_.
     if key member_info = key group_info then Inl (member_account_is_group_account I)
     else bindE (unpack (PodMint E) (data_of w group_info)) (\<lambda>st.
     bindE (get_extension E (PodMint E) (TokenGroupExt E) st) (\<lambda>g.
     bindE (check_update_authority (immutable_group I) (incorrect_group_update_authority I) group_update_authority_info
              (group_authority I g)) (\<lambda>_.
     bindE (group_increment_size I g) (\<lambda>(member_number, g).
       alloc_and_serialize E (PodMint E) (TokenGroupMemberExt E)
         (member_new I (key member_mint_info) (key group_info) member_number) False member_info
         (store (PodMint E) group_info (put_extension (PodMint E) (TokenGroupExt E) g st) w)))))))))))"

definition token_group_process_instruction ::
    "env \<Rightarrow> token_interfaces \<Rightarrow> account_info list \<Rightarrow> group_instruction \<Rightarrow> world \<Rightarrow> world result" where
  "token_group_process_instruction E I accounts i w = (case i of
       InitializeGroup new_authority max_size \<Rightarrow> process_initialize_group E I accounts new_authority max_size w
     | UpdateGroupMaxSize max_size \<Rightarrow> process_update_group_max_size E I accounts max_size w
     | UpdateGroupAuthority new_authority \<Rightarrow> process_update_group_authority E I accounts new_authority w
     | InitializeMember \<Rightarrow> process_initialize_member E I accounts w)"

section \<open>Token metadata\<close>

definition process_initialize_metadata ::
    "env \<Rightarrow> token_interfaces \<Rightarrow> account_info list \<Rightarrow> bytes \<Rightarrow> bytes \<Rightarrow> bytes \<Rightarrow> world \<Rightarrow> world result" where
  "process_initialize_metadata E I accounts new_name new_symbol new_uri w =
     bindE (next_account_info accounts) (\<lambda>(metadata_info, it).
     bindE (next_account_info it) (\<lambda>(update_authority_info, it).
     bindE (next_account_info it) (\<lambda>(mint_info, it).
     bindE (next_account_info it) (\<lambda>(mint_authority_info, _).
     if key metadata_info \<noteq> key mint_info then Inl (Token MintMismatch)
     else bindE (check_mint_authority E MetadataPointerExt (incorrect_metadata_mint_authority I) mint_info
                   mint_authority_info w) (\<lambda>_.
     bindE (if key update_authority_info = 0 then Inl (zero_key_error E) else Inr (key update_authority_info)) (\<lambda>k.
       alloc_and_serialize_variable_len_extension E (PodMint E) (TokenMetadataExt I)
         \<lparr>md_update_authority = k, md_mint = key mint_info, md_name = new_name, md_symbol = new_symbol, md_uri = new_uri,
          md_rest = metadata_default_rest I\<rparr> False metadata_info w))))))"

text \<open>The three updates of metadata differ in what they do to it.\<close>

definition update_metadata ::
    "env \<Rightarrow> token_interfaces \<Rightarrow> (token_metadata \<Rightarrow> token_metadata result) \<Rightarrow> account_info list \<Rightarrow> world \<Rightarrow> world result" where
  "update_metadata E I f accounts w =
     bindE (next_account_info accounts) (\<lambda>(metadata_info, it).
     bindE (next_account_info it) (\<lambda>(update_authority_info, _).
     bindE (unpack (PodMint E) (data_of w metadata_info)) (\<lambda>mt.
     bindE (get_variable_len_extension (PodMint E) (TokenMetadataExt I) mt) (\<lambda>m.
     bindE (check_update_authority (immutable_metadata I) (incorrect_metadata_update_authority I) update_authority_info
              (md_update_authority m)) (\<lambda>_.
     bindE (f m) (\<lambda>m.
       alloc_and_serialize_variable_len_extension E (PodMint E) (TokenMetadataExt I) m True metadata_info w))))))"

definition process_update_field ::
    "env \<Rightarrow> token_interfaces \<Rightarrow> account_info list \<Rightarrow> bytes \<Rightarrow> bytes \<Rightarrow> world \<Rightarrow> world result" where
  "process_update_field E I accounts field new_value =
     update_metadata E I (\<lambda>m. Inr (metadata_update I field new_value m)) accounts"

definition process_remove_key ::
    "env \<Rightarrow> token_interfaces \<Rightarrow> account_info list \<Rightarrow> bytes \<Rightarrow> bool \<Rightarrow> world \<Rightarrow> world result" where
  "process_remove_key E I accounts k idempotent =
     update_metadata E I (\<lambda>m. let (m, found) = metadata_remove_key I k m in
       if \<not> found \<and> \<not> idempotent then Inl (key_not_found I) else Inr m) accounts"

definition process_update_metadata_authority ::
    "env \<Rightarrow> token_interfaces \<Rightarrow> account_info list \<Rightarrow> pubkey \<Rightarrow> world \<Rightarrow> world result" where
  "process_update_metadata_authority E I accounts new_authority =
     update_metadata E I (\<lambda>m. Inr (m\<lparr>md_update_authority := new_authority\<rparr>)) accounts"

definition process_emit ::
    "env \<Rightarrow> token_interfaces \<Rightarrow> pubkey \<Rightarrow> account_info list \<Rightarrow> u64 option \<Rightarrow> u64 option \<Rightarrow> world \<Rightarrow> world result" where
  "process_emit E I program_id accounts start_index end_index w =
     bindE (next_account_info accounts) (\<lambda>(metadata_info, _).
     if owner_of w metadata_info \<noteq> program_id then Inl (Prog IllegalOwner)
     else bindE (unpack (PodMint E) (data_of w metadata_info)) (\<lambda>mt.
       bindE (get_extension_bytes account_type.Mint TokenMetadata (tlv_data mt)) (\<lambda>b.
         Inr (case metadata_get_slice I b start_index end_index of
                Some r \<Rightarrow> w\<lparr>return_data := r\<rparr> | None \<Rightarrow> w))))"

definition token_metadata_process_instruction ::
    "env \<Rightarrow> token_interfaces \<Rightarrow> pubkey \<Rightarrow> account_info list \<Rightarrow> metadata_instruction \<Rightarrow> world \<Rightarrow> world result" where
  "token_metadata_process_instruction E I program_id accounts i w = (case i of
       Initialize new_name new_symbol new_uri \<Rightarrow> process_initialize_metadata E I accounts new_name new_symbol new_uri w
     | UpdateField field new_value \<Rightarrow> process_update_field E I accounts field new_value w
     | RemoveKey k idempotent \<Rightarrow> process_remove_key E I accounts k idempotent w
     | UpdateAuthority new_authority \<Rightarrow> process_update_metadata_authority E I accounts new_authority w
     | Emit start_index end_index \<Rightarrow> process_emit E I program_id accounts start_index end_index w)"

section \<open>Contracts of the interfaces\<close>

text \<open>A struct keeps its size, and the update authority of a group is a field of it.\<close>

definition interfaces_ok :: "env \<Rightarrow> token_interfaces \<Rightarrow> bool" where
  "interfaces_ok E I \<longleftrightarrow> pack_ok (TokenMetadataExt I) \<and>
     (\<forall>m k n. length (group_new I m k n) = token_group_len E) \<and>
     (\<forall>k g. length (group_set_authority I k g) = length g) \<and>
     (\<forall>n g g'. group_update_max_size I n g = Inr g' \<longrightarrow> length g' = length g \<and> group_authority I g' = group_authority I g) \<and>
     (\<forall>n g g'. group_increment_size I g = Inr (n, g') \<longrightarrow> length g' = length g \<and> group_authority I g' = group_authority I g) \<and>
     (\<forall>m g n. length (member_new I m g n) = token_group_member_len E)"

lemma interfaces_okD:
  assumes "interfaces_ok E I"
  shows "pack_ok (TokenMetadataExt I)" "length (group_new I m k n) = token_group_len E"
    "length (group_set_authority I k g) = length g"
    "group_update_max_size I n g = Inr g' \<Longrightarrow> length g' = length g"
    "group_increment_size I g = Inr (n, g') \<Longrightarrow> length g' = length g \<and> group_authority I g' = group_authority I g"
    "length (member_new I m k n) = token_group_member_len E"
  using assms unfolding interfaces_ok_def by blast+

lemma bytes_extension_simps [simp]:
  "ext_type (bytes_extension t n) = t" "ext_len (bytes_extension t n) = n" "ext_bytes (bytes_extension t n) b = b"
  "ext_of_bytes (bytes_extension t n) b = b" "ext_default (bytes_extension t n) = replicate n 0"
  "ext_valid (bytes_extension t n) b \<longleftrightarrow> length b = n"
  by (simp_all add: bytes_extension_def ext_valid_def)

lemma group_ext_simps [simp]:
  "ext_type (TokenGroupExt E) = TokenGroup" "ext_len (TokenGroupExt E) = token_group_len E"
  "ext_bytes (TokenGroupExt E) b = b" "ext_default (TokenGroupExt E) = replicate (token_group_len E) 0"
  "ext_valid (TokenGroupExt E) b \<longleftrightarrow> length b = token_group_len E"
  "ext_type (TokenGroupMemberExt E) = TokenGroupMember" "ext_len (TokenGroupMemberExt E) = token_group_member_len E"
  "ext_bytes (TokenGroupMemberExt E) b = b" "ext_default (TokenGroupMemberExt E) = replicate (token_group_member_len E) 0"
  "ext_valid (TokenGroupMemberExt E) b \<longleftrightarrow> length b = token_group_member_len E"
  "var_type (TokenMetadataExt I) = TokenMetadata"
  by (simp_all add: TokenGroupExt_def TokenGroupMemberExt_def TokenMetadataExt_def)

interpretation mint_group: extension_of_state "PodMint E" "TokenGroupExt F" for E F
  by unfold_locales (simp_all add: TokenGroupExt_def bytes_extension_def ext_valid_def)

interpretation mint_group_member: extension_of_state "PodMint E" "TokenGroupMemberExt F" for E F
  by unfold_locales (simp_all add: TokenGroupMemberExt_def bytes_extension_def ext_valid_def)

lemma extended_if_found:
  "get_extension E S V st = Inr x \<Longrightarrow> tlv_data st \<noteq> []"
  "get_extension_bytes A v (tlv_data st) = Inr b \<Longrightarrow> tlv_data st \<noteq> []"
  using get_bytes_Nil by (auto simp: get_extension_def success_simps isOk_iff)

section \<open>What the checks establish\<close>

lemma check_update_authority_Inr [simp]:
  "check_update_authority immutable incorrect a k = Inr () \<longleftrightarrow> is_signer a \<and> key a = k \<and> k \<noteq> 0"
  by (auto simp: check_update_authority_def option_of_non_zero_def success_simps split: if_splits)

lemma check_mint_authority_Inr:
  assumes "check_mint_authority E P incorrect m auth w = Inr ()"
  obtains mt x where "unpack (PodMint E) (data_of w m) = Inr mt" "owner_of w m = token_2022_id" "is_signer auth"
    "mint_authority (base mt) = pod_some (key auth)" "get_extension E (PodMint E) P mt = Inr x"
  using assms by (auto simp: check_mint_authority_def success_simps isOk_iff)

text \<open>The extensions of a mint other than the one that is written.\<close>

definition other_extensions :: "extension_type \<Rightarrow> pod_mint ext_state \<Rightarrow> pod_mint ext_state \<Rightarrow> bool" where
  "other_extensions t mt mt' \<longleftrightarrow> (\<forall>u x. u \<noteq> t \<longrightarrow>
     (get_extension_bytes account_type.Mint u (tlv_data mt') = Inr x \<longleftrightarrow>
      get_extension_bytes account_type.Mint u (tlv_data mt) = Inr x))"

lemma other_extensions_represents:
  assumes "represents account_type.Mint es (tlv_data mt)" "represents account_type.Mint es' (tlv_data mt')"
    "map_of es' = (map_of es)(t \<mapsto> y)"
  shows "other_extensions t mt mt'" "tlv_wf account_type.Mint (tlv_data mt')"
  using assms by (auto simp: other_extensions_def represents_get tlv_wf_def)

lemma changes_only_set_data: "w' = set_data a d w \<Longrightarrow> changes_only {key a} w w'"
  by (simp add: changes_only_def frame)

text \<open>Metadata written to a mint that has extensions.\<close>

lemma metadata_written:
  assumes "alloc_and_serialize_variable_len_extension E (PodMint E) (TokenMetadataExt I) m overwrite a w = Inr w'"
    "unpack (PodMint E) (data_of w a) = Inr mt" "tlv_wf account_type.Mint (tlv_data mt)" "tlv_data mt \<noteq> []"
    "interfaces_ok E I" "realloc_ok E"
  shows "\<exists>mt'. unpack (PodMint E) (data_of w' a) = Inr mt' \<and> base mt' = base mt \<and>
    get_variable_len_extension (PodMint E) (TokenMetadataExt I) mt' = Inr m \<and> other_extensions TokenMetadata mt mt' \<and>
    tlv_wf account_type.Mint (tlv_data mt') \<and> changes_only {key a} w w' \<and> owner_of w' a = owner_of w a \<and>
    (\<exists>es. represents account_type.Mint es (tlv_data mt') \<and>
       length (data_of w' a) = adjust_len_for_multisig (BASE_ACCOUNT_AND_TYPE_LENGTH + length (tlv_encode es)))"
proof -
  from assms(3) obtain es where es: "represents account_type.Mint es (tlv_data mt)" by (auto simp: tlv_wf_def)
  from pod_mint.variable_len_written [OF assms(1,2) _ assms(4) interfaces_okD(1) [OF assms(5)] assms(6), of es] es
  obtain mt' es' y where k: "unpack (PodMint E) (data_of w' a) = Inr mt'" "mt' = mt\<lparr>tlv_data := tlv_data mt'\<rparr>"
    "represents account_type.Mint es' (tlv_data mt')" "map_of es' = (map_of es)(TokenMetadata \<mapsto> y)"
    "get_variable_len_extension (PodMint E) (TokenMetadataExt I) mt' = Inr m"
    "length (data_of w' a) = adjust_len_for_multisig (BASE_ACCOUNT_AND_TYPE_LENGTH + length (tlv_encode es'))"
    and w': "w' = set_data a (data_of w' a) w" by auto
  note o = other_extensions_represents [OF es k(3,4)]
  have "base mt' = base mt" using k(2) by (metis ext_state.ext_inject ext_state.surjective ext_state.update_convs(4))
  moreover have "changes_only {key a} w w'" by (rule changes_only_set_data [OF w'])
  moreover have "owner_of w' a = owner_of w a" by (subst w') (simp add: frame)
  ultimately show ?thesis using k o by blast
qed

lemma group_struct_written:
  assumes "alloc_and_serialize E (PodMint E) V v overwrite a w = Inr w'" "V = bytes_extension t n" "length v = n"
    "unpack (PodMint E) (data_of w a) = Inr mt" "tlv_wf account_type.Mint (tlv_data mt)" "tlv_data mt \<noteq> []" "realloc_ok E"
  shows "\<exists>mt'. unpack (PodMint E) (data_of w' a) = Inr mt' \<and> base mt' = base mt \<and>
    get_extension E (PodMint E) V mt' = Inr v \<and> other_extensions t mt mt' \<and>
    tlv_wf account_type.Mint (tlv_data mt') \<and> changes_only {key a} w w' \<and> w' = set_data a (data_of w' a) w"
proof -
  from assms(5) obtain es where es: "represents account_type.Mint es (tlv_data mt)" by (auto simp: tlv_wf_def)
  from pod_mint.fixed_len_written [OF assms(1,4) _ assms(6,7), of es] es assms(2,3)
  obtain mt' es' where k: "unpack (PodMint E) (data_of w' a) = Inr mt'" "mt' = mt\<lparr>tlv_data := tlv_data mt'\<rparr>"
    "represents account_type.Mint es' (tlv_data mt')" "map_of es' = (map_of es)(t \<mapsto> v)"
    and w': "w' = set_data a (data_of w' a) w" by auto
  note o = other_extensions_represents [OF es k(3,4)]
  have "base mt' = base mt" using k(2) by (metis ext_state.ext_inject ext_state.surjective ext_state.update_convs(4))
  moreover have "get_extension E (PodMint E) V mt' = Inr v"
    using represents_get [OF k(3), of t v] k(4) assms(2,3) by (simp add: get_extension_def)
  moreover have "changes_only {key a} w w'" by (rule changes_only_set_data [OF w'])
  ultimately show ?thesis using k(1) o w' by blast
qed

section \<open>A sample of the interfaces\<close>

text \<open>Strings behind their lengths; a string of 2^16 bytes or more is refused.\<close>

definition string_bytes :: "bytes \<Rightarrow> bytes" where
  "string_bytes s = word_le (of_nat (length s) :: u16) @ s"

definition take_string :: "bytes \<Rightarrow> bytes \<times> bytes" where
  "take_string b = (let n = unat (le_word (take 2 b) :: u16) in (take n (drop 2 b), drop (2 + n) b))"

definition metadata_bytes :: "token_metadata \<Rightarrow> bytes" where
  "metadata_bytes m = word_le (md_update_authority m) @ word_le (md_mint m) @ string_bytes (md_name m) @
     string_bytes (md_symbol m) @ string_bytes (md_uri m) @ md_rest m"

definition metadata_of_bytes :: "bytes \<Rightarrow> token_metadata" where
  "metadata_of_bytes b =
     (let (n, c) = take_string (drop 64 b); (s, c) = take_string c; (u, c) = take_string c in
       \<lparr>md_update_authority = le_word (take 32 b), md_mint = le_word (take 32 (drop 32 b)), md_name = n, md_symbol = s,
        md_uri = u, md_rest = c\<rparr>)"

definition short_strings :: "token_metadata \<Rightarrow> bool" where
  "short_strings m \<longleftrightarrow> length (md_name m) < 2 ^ 16 \<and> length (md_symbol m) < 2 ^ 16 \<and> length (md_uri m) < 2 ^ 16"

definition group_bytes :: "pubkey \<Rightarrow> pubkey \<Rightarrow> u32 \<Rightarrow> u32 \<Rightarrow> bytes" where
  "group_bytes k m count limit = word_le k @ word_le m @ word_le count @ [0, 0, 0, 0] @ word_le limit @ [0, 0, 0, 0]"

definition sample_interfaces :: token_interfaces where
  "sample_interfaces =
     \<lparr>metadata_instruction_unpack = (\<lambda>_. None), group_instruction_unpack = (\<lambda>_. None),
      immutable_metadata = Prog (Custom 1), incorrect_metadata_update_authority = Prog (Custom 2),
      incorrect_metadata_mint_authority = Prog (Custom 3), key_not_found = Prog (Custom 4),
      immutable_group = Prog (Custom 5), incorrect_group_update_authority = Prog (Custom 6),
      incorrect_group_mint_authority = Prog (Custom 7), member_account_is_group_account = Prog (Custom 8),
      metadata_default_rest = [0, 0, 0, 0],
      metadata_packed_len = (\<lambda>m. if short_strings m then Inr (length (metadata_bytes m)) else Inl (Prog InvalidArgument)),
      metadata_pack_into_slice = (\<lambda>m b. if length (metadata_bytes m) \<le> length b
        then Inr (metadata_bytes m @ drop (length (metadata_bytes m)) b) else Inl (Prog InvalidAccountData)),
      metadata_unpack_from_slice = (\<lambda>b. Inr (metadata_of_bytes b)),
      metadata_update = (\<lambda>f v m. if f = [0] then m\<lparr>md_name := v\<rparr> else if f = [1] then m\<lparr>md_symbol := v\<rparr>
        else if f = [2] then m\<lparr>md_uri := v\<rparr> else m),
      metadata_remove_key = (\<lambda>_ m. (m, False)),
      metadata_get_slice = (\<lambda>b i j. let i = (case i of None \<Rightarrow> 0 | Some n \<Rightarrow> unat n);
          j = (case j of None \<Rightarrow> length b | Some n \<Rightarrow> unat n) in
        if i \<le> j \<and> j \<le> length b then Some (slice_of b i j) else None),
      group_new = (\<lambda>m k n. group_bytes k m 0 n),
      group_authority = (\<lambda>g. le_word (take 32 g)),
      group_set_authority = (\<lambda>k g. if length g = 80 then word_le k @ drop 32 g else g),
      group_update_max_size = (\<lambda>n g. if length g \<noteq> 80 \<or> n < le_word (slice_of g 64 68)
        then Inl (Prog (Custom 9)) else Inr (take 72 g @ word_le n @ drop 76 g)),
      group_increment_size = (\<lambda>g. let n = le_word (slice_of g 64 68) :: u32 in
        if length g \<noteq> 80 \<or> le_word (slice_of g 72 76) \<le> n then Inl (Prog (Custom 9))
        else Inr (n + 1, take 64 g @ word_le (n + 1) @ drop 68 g)),
      member_new = (\<lambda>m g n. word_le m @ word_le g @ word_le n @ [0, 0, 0, 0])\<rparr>"

lemma take_string_bytes [simp]:
  "length s < 2 ^ 16 \<Longrightarrow> take_string (string_bytes s @ c) = (s, c)"
  by (simp add: take_string_def string_bytes_def Let_def unat_of_nat take_bit_nat_def)

lemma metadata_of_bytes_bytes [simp]: "short_strings m \<Longrightarrow> metadata_of_bytes (metadata_bytes m) = m"
  by (simp add: metadata_of_bytes_def metadata_bytes_def short_strings_def)

lemma sample_interfaces_ok [simp]: "interfaces_ok sample_env sample_interfaces"
proof -
  have "pack_ok (TokenMetadataExt sample_interfaces)"
    by (auto simp: pack_ok_def TokenMetadataExt_def sample_interfaces_def split: if_splits)
  then show ?thesis
    by (auto simp: interfaces_ok_def sample_interfaces_def sample_env_def group_bytes_def Let_def min_def split: if_splits)
qed

text \<open>Mints given by their entries: key 9 has metadata and points to a group as a member, key 10 is a group.\<close>

definition mint_with :: "entry list \<Rightarrow> pod_mint ext_state" where
  "mint_with es = \<lparr>base = live_mint, padding = replicate 83 0, account_type = [1], tlv_data = tlv_encode es\<rparr>"

definition sample_metadata :: token_metadata where
  "sample_metadata = \<lparr>md_update_authority = 40, md_mint = 9, md_name = [66], md_symbol = [66], md_uri = [], md_rest = [0, 0, 0, 0]\<rparr>"

definition described :: "entry list" where
  "described = [(extension_type.MetadataPointer, replicate 64 0), (extension_type.GroupMemberPointer, replicate 64 0),
     (TokenMetadata, metadata_bytes sample_metadata)]"

definition pointed :: "entry list" where
  "pointed = [(extension_type.MetadataPointer, replicate 64 0)]"

definition grouped :: "entry list" where
  "grouped = [(TokenGroup, group_bytes 41 10 0 5)]"

definition interface_ledger :: world where
  "interface_ledger =
     \<lparr>cells = (\<lambda>k. \<lparr>lamports = 1000, acct_owner = token_2022_id, acct_data = state_bytes (PodMint sample_env)
        (mint_with (if k = 9 then described else if k = 10 then grouped else pointed))\<rparr>), return_data = []\<rparr>"

lemma sample_entries_ok:
  "represents account_type.Mint described (tlv_encode described)" "represents account_type.Mint grouped (tlv_encode grouped)"
  "represents account_type.Mint pointed (tlv_encode pointed)"
  by (auto simp: represents_def described_def grouped_def pointed_def metadata_bytes_def sample_metadata_def string_bytes_def
      group_bytes_def)

lemma unpack_mint_with:
  "tlv_encode es \<noteq> [] \<Longrightarrow> length (tlv_encode es) \<noteq> 189 \<Longrightarrow>
     unpack (PodMint sample_env) (state_bytes (PodMint sample_env) (mint_with es)) = Inr (mint_with es)"
  by (rule unpack_live_mint_state)
    (simp add: live_mint_state_def mint_with_def live_mint_def pod_mint_is_initialized_def shape_ok_def
      pod_mint.length_state_bytes PodMint_SIZE_OF_def BASE_ACCOUNT_LENGTH_def Account_LEN_def Multisig_LEN_def)

lemma interface_ledger_simps [simp]:
  "unpack (PodMint sample_env) (data_of interface_ledger \<lparr>key = 9, is_signer = b\<rparr>) = Inr (mint_with described)"
  "unpack (PodMint sample_env) (data_of interface_ledger \<lparr>key = 10, is_signer = b\<rparr>) = Inr (mint_with grouped)"
  "unpack (PodMint sample_env) (data_of interface_ledger \<lparr>key = 11, is_signer = b\<rparr>) = Inr (mint_with pointed)"
  "owner_of interface_ledger a = token_2022_id"
  by (simp_all add: data_of_def owner_of_def interface_ledger_def unpack_mint_with described_def grouped_def pointed_def
      metadata_bytes_def sample_metadata_def string_bytes_def group_bytes_def)

lemma mint_with_simps [simp]:
  "base (mint_with es) = live_mint" "tlv_data (mint_with es) = tlv_encode es"
  "tlv_wf account_type.Mint (tlv_encode described)" "tlv_wf account_type.Mint (tlv_encode pointed)"
  "token_group_member_len sample_env = 72"
  using sample_entries_ok by (auto simp: tlv_wf_def mint_with_def sample_env_def)

lemma interface_ledger_entries:
  "get_variable_len_extension (PodMint sample_env) (TokenMetadataExt sample_interfaces) (mint_with described) = Inr sample_metadata"
  "get_extension sample_env (PodMint sample_env) GroupMemberPointerExt (mint_with described) = Inr (ext_of_bytes GroupMemberPointerExt (replicate 64 0))"
  "get_extension sample_env (PodMint sample_env) MetadataPointerExt (mint_with pointed) = Inr (ext_of_bytes MetadataPointerExt (replicate 64 0))"
  "get_extension sample_env (PodMint sample_env) (TokenGroupExt sample_env) (mint_with grouped) = Inr (group_bytes 41 10 0 5)"
proof -
  have d: "tlv_data (mint_with es) = tlv_encode es" for es by (simp add: mint_with_def)
  have g: "get_extension_bytes account_type.Mint TokenMetadata (tlv_encode described) = Inr (metadata_bytes sample_metadata)"
    "get_extension_bytes account_type.Mint extension_type.GroupMemberPointer (tlv_encode described) = Inr (replicate 64 0)"
    "get_extension_bytes account_type.Mint extension_type.MetadataPointer (tlv_encode pointed) = Inr (replicate 64 0)"
    "get_extension_bytes account_type.Mint TokenGroup (tlv_encode grouped) = Inr (group_bytes 41 10 0 5)"
    by (subst represents_get [OF sample_entries_ok(1)] represents_get [OF sample_entries_ok(2)]
          represents_get [OF sample_entries_ok(3)], simp add: described_def grouped_def pointed_def)+
  have "metadata_of_bytes (metadata_bytes sample_metadata) = sample_metadata"
    by (rule metadata_of_bytes_bytes) (simp add: sample_metadata_def short_strings_def)
  then show "get_variable_len_extension (PodMint sample_env) (TokenMetadataExt sample_interfaces) (mint_with described) = Inr sample_metadata"
    by (simp add: get_variable_len_extension_def d g TokenMetadataExt_def sample_interfaces_def)
  show "get_extension sample_env (PodMint sample_env) GroupMemberPointerExt (mint_with described) = Inr (ext_of_bytes GroupMemberPointerExt (replicate 64 0))"
    "get_extension sample_env (PodMint sample_env) MetadataPointerExt (mint_with pointed) = Inr (ext_of_bytes MetadataPointerExt (replicate 64 0))"
    by (simp_all add: get_extension_def d g GroupMemberPointerExt_def MetadataPointerExt_def pointer_extension_def)
  show "get_extension sample_env (PodMint sample_env) (TokenGroupExt sample_env) (mint_with grouped) = Inr (group_bytes 41 10 0 5)"
    by (simp add: get_extension_def d g TokenGroupExt_def bytes_extension_def)
      (simp add: group_bytes_def sample_env_def)
qed

lemma sample_pack_succeeds:
  assumes "represents account_type.Mint es (tlv_encode es)" "tlv_encode es \<noteq> []" "short_strings m" "length (metadata_bytes m) < 2 ^ 16"
    "unpack (PodMint sample_env) (data_of w a) = Inr (mint_with es)" "overwrite \<or> map_of es TokenMetadata = None"
  shows "isOk (alloc_and_serialize_variable_len_extension sample_env (PodMint sample_env) (TokenMetadataExt sample_interfaces) m overwrite a w)"
proof (rule pod_mint.variable_len_succeeds [OF assms(5), of es _ _ "length (metadata_bytes m)"])
  show "represents (ACCOUNT_TYPE (PodMint sample_env)) es (tlv_data (mint_with es))" "tlv_data (mint_with es) \<noteq> []"
    using assms(1,2) by (simp_all add: mint_with_def)
qed (use assms in \<open>simp_all add: TokenMetadataExt_def sample_interfaces_def\<close>)

section \<open>Updates of metadata\<close>

text \<open>What the three updates do to the metadata.\<close>

fun metadata_effect :: "token_interfaces \<Rightarrow> metadata_instruction \<Rightarrow> (token_metadata \<Rightarrow> token_metadata result) option" where
  "metadata_effect I (UpdateField field new_value) = Some (\<lambda>m. Inr (metadata_update I field new_value m))"
| "metadata_effect I (RemoveKey k idempotent) = Some (\<lambda>m.
     if snd (metadata_remove_key I k m) \<or> idempotent then Inr (fst (metadata_remove_key I k m)) else Inl (key_not_found I))"
| "metadata_effect I (UpdateAuthority new_authority) = Some (\<lambda>m. Inr (m\<lparr>md_update_authority := new_authority\<rparr>))"
| "metadata_effect I _ = None"

lemma metadata_effect_runs:
  assumes "metadata_effect I i = Some f"
  shows "token_metadata_process_instruction E I p accounts i w = update_metadata E I f accounts w"
  using assms
  by (cases i) (auto simp: token_metadata_process_instruction_def process_update_field_def process_remove_key_def
      process_update_metadata_authority_def update_metadata_def split_def Let_def intro!: bindE_cong split: if_splits)

text \<open>C17. An update of the metadata of a mint needs the signature of the update authority recorded there.  It stores
  exactly the updated metadata, keeps the mint and every other extension, leaves the account exactly as long as its
  entries need, and touches no other account.\<close>

theorem metadata_update_correct:
  assumes "token_metadata_process_instruction E I p (a # auth # rest) i w = Inr w'" "metadata_effect I i = Some f"
    "unpack (PodMint E) (data_of w a) = Inr mt" "tlv_wf account_type.Mint (tlv_data mt)" "interfaces_ok E I" "realloc_ok E"
  shows "\<exists>m m' mt' es. get_variable_len_extension (PodMint E) (TokenMetadataExt I) mt = Inr m \<and>
    is_signer auth \<and> key auth = md_update_authority m \<and> key auth \<noteq> 0 \<and> f m = Inr m' \<and>
    unpack (PodMint E) (data_of w' a) = Inr mt' \<and> base mt' = base mt \<and>
    get_variable_len_extension (PodMint E) (TokenMetadataExt I) mt' = Inr m' \<and> other_extensions TokenMetadata mt mt' \<and>
    represents account_type.Mint es (tlv_data mt') \<and>
    length (data_of w' a) = adjust_len_for_multisig (BASE_ACCOUNT_AND_TYPE_LENGTH + length (tlv_encode es)) \<and>
    changes_only {key a} w w'"
proof -
  from assms(1,3) obtain m m' where m: "get_variable_len_extension (PodMint E) (TokenMetadataExt I) mt = Inr m"
    and c: "is_signer auth" "key auth = md_update_authority m" "md_update_authority m \<noteq> 0" and f: "f m = Inr m'"
    and w: "alloc_and_serialize_variable_len_extension E (PodMint E) (TokenMetadataExt I) m' True a w = Inr w'"
    unfolding metadata_effect_runs [OF assms(2)] by (auto simp: update_metadata_def success_simps)
  have "tlv_data mt \<noteq> []" using m by (auto simp: get_variable_len_extension_def success_simps dest: extended_if_found(2))
  from metadata_written [OF w assms(3,4) this assms(5,6)] m c f show ?thesis by metis
qed

theorem metadata_update_correct_witness:
  "\<exists>w' mt'. token_metadata_process_instruction sample_env sample_interfaces token_2022_id
       [\<lparr>key = 9, is_signer = False\<rparr>, \<lparr>key = 40, is_signer = True\<rparr>] (UpdateField [0] [67, 67]) interface_ledger = Inr w' \<and>
     unpack (PodMint sample_env) (data_of w' \<lparr>key = 9, is_signer = False\<rparr>) = Inr mt' \<and> base mt' = live_mint \<and>
     get_variable_len_extension (PodMint sample_env) (TokenMetadataExt sample_interfaces) mt' =
       Inr (sample_metadata\<lparr>md_name := [67, 67]\<rparr>)"
proof -
  let ?as = "[\<lparr>key = 9, is_signer = False\<rparr>, \<lparr>key = 40, is_signer = True\<rparr>]"
  let ?m = "sample_metadata\<lparr>md_name := [67, 67]\<rparr>"
  have m: "metadata_update sample_interfaces [0] [67, 67] sample_metadata = ?m" by (simp add: sample_interfaces_def)
  have c: "check_update_authority i j \<lparr>key = 40, is_signer = True\<rparr> (md_update_authority sample_metadata) = Inr ()" for i j
    by (simp add: sample_metadata_def)
  have "isOk (alloc_and_serialize_variable_len_extension sample_env (PodMint sample_env) (TokenMetadataExt sample_interfaces)
      ?m True \<lparr>key = 9, is_signer = False\<rparr> interface_ledger)"
    by (rule sample_pack_succeeds [OF sample_entries_ok(1)])
       (simp_all add: described_def sample_metadata_def short_strings_def metadata_bytes_def string_bytes_def)
  then obtain w' where "token_metadata_process_instruction sample_env sample_interfaces token_2022_id ?as (UpdateField [0] [67, 67])
      interface_ledger = Inr w'"
    by (auto simp: isOk_iff metadata_effect_runs update_metadata_def interface_ledger_entries m c)
  moreover from metadata_update_correct [OF this metadata_effect.simps(1), of "mint_with described"]
  obtain n mt' where "get_variable_len_extension (PodMint sample_env) (TokenMetadataExt sample_interfaces) (mint_with described) = Inr n"
    "unpack (PodMint sample_env) (data_of w' \<lparr>key = 9, is_signer = False\<rparr>) = Inr mt'" "base mt' = base (mint_with described)"
    "get_variable_len_extension (PodMint sample_env) (TokenMetadataExt sample_interfaces) mt' =
       Inr (metadata_update sample_interfaces [0] [67, 67] n)"
    by auto
  ultimately show ?thesis by (auto simp: interface_ledger_entries m)
qed

text \<open>Metadata is initialised by the mint authority, in the mint itself, once, and only if the mint has a metadata
  pointer; the second account becomes its update authority.\<close>

theorem initialize_metadata_correct:
  assumes "process_initialize_metadata E I (a # b # m # auth # rest) n s u w = Inr w'"
    "interfaces_ok E I" "realloc_ok E" "\<And>mt. unpack (PodMint E) (data_of w a) = Inr mt \<Longrightarrow> tlv_wf account_type.Mint (tlv_data mt)"
  shows "\<exists>mt mt'. unpack (PodMint E) (data_of w a) = Inr mt \<and> key m = key a \<and> is_signer auth \<and>
    mint_authority (base mt) = pod_some (key auth) \<and> isOk (get_extension E (PodMint E) MetadataPointerExt mt) \<and>
    \<not> isOk (get_extension_bytes account_type.Mint TokenMetadata (tlv_data mt)) \<and>
    unpack (PodMint E) (data_of w' a) = Inr mt' \<and> base mt' = base mt \<and>
    get_variable_len_extension (PodMint E) (TokenMetadataExt I) mt' =
      Inr \<lparr>md_update_authority = key b, md_mint = key a, md_name = n, md_symbol = s, md_uri = u,
        md_rest = metadata_default_rest I\<rparr> \<and>
    other_extensions TokenMetadata mt mt' \<and> changes_only {key a} w w'"
proof -
  let ?m = "\<lparr>md_update_authority = key b, md_mint = key a, md_name = n, md_symbol = s, md_uri = u,
    md_rest = metadata_default_rest I\<rparr>"
  from assms(1) have k: "key m = key a" and c: "check_mint_authority E MetadataPointerExt (incorrect_metadata_mint_authority I) m auth w = Inr ()"
    and w: "alloc_and_serialize_variable_len_extension E (PodMint E) (TokenMetadataExt I) ?m False a w = Inr w'"
    by (auto simp: process_initialize_metadata_def success_simps)
  have d: "data_of w m = data_of w a" using k by (simp add: data_of_def)
  from c obtain mt x where mt: "unpack (PodMint E) (data_of w a) = Inr mt" "is_signer auth"
    "mint_authority (base mt) = pod_some (key auth)" "get_extension E (PodMint E) MetadataPointerExt mt = Inr x"
    unfolding d [symmetric] by (rule check_mint_authority_Inr)
  have n: "\<not> isOk (get_extension_bytes account_type.Mint TokenMetadata (tlv_data mt))"
    using w mt(1) by (auto simp: alloc_and_serialize_variable_len_extension_def Let_def success_simps)
  from metadata_written [OF w mt(1) assms(4) [OF mt(1)] extended_if_found(1) [OF mt(4)] assms(2,3)] obtain mt' where
    "unpack (PodMint E) (data_of w' a) = Inr mt'" "base mt' = base mt"
    "get_variable_len_extension (PodMint E) (TokenMetadataExt I) mt' = Inr ?m" "other_extensions TokenMetadata mt mt'"
    "changes_only {key a} w w'" by blast
  then show ?thesis using mt k n
    by - (rule exI [of _ mt], rule exI [of _ mt'], simp)
qed

theorem initialize_metadata_correct_witness:
  "\<exists>w' mt'. process_initialize_metadata sample_env sample_interfaces
       [\<lparr>key = 11, is_signer = False\<rparr>, \<lparr>key = 40, is_signer = False\<rparr>, \<lparr>key = 11, is_signer = False\<rparr>, \<lparr>key = 20, is_signer = True\<rparr>]
       [65] [66] [67] interface_ledger = Inr w' \<and>
     unpack (PodMint sample_env) (data_of w' \<lparr>key = 11, is_signer = False\<rparr>) = Inr mt' \<and> base mt' = live_mint"
proof -
  let ?a = "\<lparr>key = 11, is_signer = False\<rparr>"
  let ?m = "\<lparr>md_update_authority = 40, md_mint = 11, md_name = [65], md_symbol = [66], md_uri = [67],
    md_rest = metadata_default_rest sample_interfaces\<rparr>"
  have c: "check_mint_authority sample_env MetadataPointerExt e ?a \<lparr>key = 20, is_signer = True\<rparr> interface_ledger = Inr ()" for e
    by (simp add: check_mint_authority_def interface_ledger_entries) (simp add: mint_with_def live_mint_def check_program_account_def)
  have "isOk (alloc_and_serialize_variable_len_extension sample_env (PodMint sample_env) (TokenMetadataExt sample_interfaces)
      ?m False ?a interface_ledger)"
    by (rule sample_pack_succeeds [OF sample_entries_ok(3)])
       (simp_all add: pointed_def short_strings_def metadata_bytes_def string_bytes_def sample_interfaces_def)
  then obtain w' where "process_initialize_metadata sample_env sample_interfaces
      [?a, \<lparr>key = 40, is_signer = False\<rparr>, ?a, \<lparr>key = 20, is_signer = True\<rparr>] [65] [66] [67] interface_ledger = Inr w'"
    by (auto simp: isOk_iff process_initialize_metadata_def c)
  moreover from initialize_metadata_correct [OF this] obtain mt mt' where
    "unpack (PodMint sample_env) (data_of interface_ledger ?a) = Inr mt"
    "unpack (PodMint sample_env) (data_of w' ?a) = Inr mt'" "base mt' = base mt"
    by auto
  ultimately show ?thesis by auto
qed

section \<open>Groups and members\<close>

lemma group_put:
  assumes "unpack (PodMint E) (data_of w a) = Inr st" "get_extension E (PodMint E) (TokenGroupExt E) st = Inr g"
    "length g' = length g" "w' = store (PodMint E) a (put_extension (PodMint E) (TokenGroupExt E) g' st) w"
  shows "unpack (PodMint E) (data_of w' a) = Inr (put_extension (PodMint E) (TokenGroupExt E) g' st)"
    "get_extension E (PodMint E) (TokenGroupExt E) (put_extension (PodMint E) (TokenGroupExt E) g' st) = Inr g'"
proof -
  have "ext_valid (TokenGroupExt E) g'" using mint_group.get_extension_valid [OF assms(2)] assms(3) by simp
  then show "get_extension E (PodMint E) (TokenGroupExt E) (put_extension (PodMint E) (TokenGroupExt E) g' st) = Inr g'"
    by (rule mint_group.get_put_extension [OF assms(2)])
  show "unpack (PodMint E) (data_of w' a) = Inr (put_extension (PodMint E) (TokenGroupExt E) g' st)"
    using assms(1) by (simp add: assms(4) frame unpack_mint_live)
qed



end
