(* ===== verification/Dispatch.thy ===== *)
theory Dispatch
  imports Confidential_Dispatch Pod_Instruction Instruction Token_Interfaces
begin

text \<open>
  From the bytes of an instruction to its handler: \<open>Processor::process\<close>
  (\<open>src/programs/src/processor.rs\<close>) and the \<open>process_instruction\<close> functions of
  the extensions (\<open>src/programs/src/extension/*/processor.rs\<close>).
\<close>

section \<open>What the dispatcher is given\<close>

text \<open>The functions of the zero-knowledge SDK, those of the crates of the metadata and group interfaces, and the
  floating-point conversions of interest-bearing mints, which theory Interest defines.\<close>

record foreign =
  interest_to_ui :: "interest_bearing_config \<Rightarrow> u64 \<Rightarrow> u8 \<Rightarrow> u64 \<Rightarrow> bytes option"
  interest_from_ui :: "interest_bearing_config \<Rightarrow> bytes \<Rightarrow> u8 \<Rightarrow> u64 \<Rightarrow> u64 result"
  zk_sdk :: zk
  interfaces :: token_interfaces

section \<open>Sub-instructions\<close>

text \<open>\<open>RequiredMemoTransfersInstruction\<close> and \<open>CpiGuardInstruction\<close>.\<close>

datatype switch_instruction = Enable | Disable

definition switch_instruction_try_from :: "u8 \<Rightarrow> switch_instruction option" where
  "switch_instruction_try_from b = (if b = 0 then Some Enable else if b = 1 then Some Disable else None)"

definition memo_transfer_process_instruction ::
    "env \<Rightarrow> pubkey \<Rightarrow> account_info list \<Rightarrow> bytes \<Rightarrow> world \<Rightarrow> world result" where
  "memo_transfer_process_instruction E program_id accounts input w =
     bindE (check_program_account program_id) (\<lambda>_.
     bindE (decode_instruction_type switch_instruction_try_from input) (\<lambda>t. case t of
       Enable \<Rightarrow> process_toggle_required_memo_transfers E program_id accounts True w
     | Disable \<Rightarrow> process_toggle_required_memo_transfers E program_id accounts False w))"

definition cpi_guard_process_instruction ::
    "env \<Rightarrow> pubkey \<Rightarrow> account_info list \<Rightarrow> bytes \<Rightarrow> world \<Rightarrow> world result" where
  "cpi_guard_process_instruction E program_id accounts input w =
     bindE (check_program_account program_id) (\<lambda>_.
     bindE (decode_instruction_type switch_instruction_try_from input) (\<lambda>t. case t of
       Enable \<Rightarrow> process_toggle_cpi_guard E program_id accounts True w
     | Disable \<Rightarrow> process_toggle_cpi_guard E program_id accounts False w))"

text \<open>\<open>DefaultAccountStateInstruction\<close>, \<open>InterestBearingMintInstruction\<close>,
  \<open>TransferHookInstruction\<close> and the three pointer instructions.\<close>

datatype setup_instruction = Initialize | Update

definition setup_instruction_try_from :: "u8 \<Rightarrow> setup_instruction option" where
  "setup_instruction_try_from b = (if b = 0 then Some Initialize else if b = 1 then Some Update else None)"

definition decode_default_account_state :: "bytes \<Rightarrow> (setup_instruction \<times> account_state) result" where
  "decode_default_account_state input =
     (if length input \<noteq> 2 then Inl (Token InvalidInstruction)
      else bindE (ok_or (Token InvalidInstruction) (setup_instruction_try_from (input ! 0))) (\<lambda>t.
        bindE (ok_or (Token InvalidInstruction) (account_state_try_from (input ! 1))) (\<lambda>s. Inr (t, s))))"

definition default_account_state_process_instruction ::
    "env \<Rightarrow> pubkey \<Rightarrow> account_info list \<Rightarrow> bytes \<Rightarrow> world \<Rightarrow> world result" where
  "default_account_state_process_instruction E program_id accounts input w =
     bindE (check_program_account program_id) (\<lambda>_.
     bindE (decode_default_account_state input) (\<lambda>(t, s). case t of
       Initialize \<Rightarrow> process_initialize_default_account_state E accounts s w
     | Update \<Rightarrow> process_update_default_account_state E program_id accounts s w))"

definition interest_bearing_mint_process_instruction ::
    "env \<Rightarrow> pubkey \<Rightarrow> account_info list \<Rightarrow> bytes \<Rightarrow> world \<Rightarrow> world result" where
  "interest_bearing_mint_process_instruction E program_id accounts input w =
     bindE (check_program_account program_id) (\<lambda>_.
     bindE (decode_instruction_type setup_instruction_try_from input) (\<lambda>t. case t of
       Initialize \<Rightarrow>
         bindE (decode_instruction_data 34 (\<lambda>b. (le_word (slice_of b 0 32), le_word (slice_of b 32 34))) input)
           (\<lambda>(rate_auth, rate). interest_bearing_initialize E accounts rate_auth rate w)
     | Update \<Rightarrow>
         bindE (decode_instruction_data 2 le_word input) (\<lambda>new_rate.
           interest_bearing_update_rate E program_id accounts new_rate w)))"

text \<open>Two keys, or one.\<close>

definition two_keys :: "bytes \<Rightarrow> pubkey \<times> pubkey" where
  "two_keys b = (le_word (slice_of b 0 32), le_word (slice_of b 32 64))"

definition transfer_hook_process_instruction ::
    "env \<Rightarrow> pubkey \<Rightarrow> account_info list \<Rightarrow> bytes \<Rightarrow> world \<Rightarrow> world result" where
  "transfer_hook_process_instruction E program_id accounts input w =
     bindE (check_program_account program_id) (\<lambda>_.
     bindE (decode_instruction_type setup_instruction_try_from input) (\<lambda>t. case t of
       Initialize \<Rightarrow> bindE (decode_instruction_data 64 two_keys input) (\<lambda>(auth, hook).
         transfer_hook_initialize E program_id accounts auth hook w)
     | Update \<Rightarrow> bindE (decode_instruction_data 32 le_word input) (\<lambda>hook.
         transfer_hook_update E program_id accounts hook w)))"

definition metadata_pointer_process_instruction ::
    "env \<Rightarrow> pubkey \<Rightarrow> account_info list \<Rightarrow> bytes \<Rightarrow> world \<Rightarrow> world result" where
  "metadata_pointer_process_instruction E program_id accounts input w =
     bindE (check_program_account program_id) (\<lambda>_.
     bindE (decode_instruction_type setup_instruction_try_from input) (\<lambda>t. case t of
       Initialize \<Rightarrow> bindE (decode_instruction_data 64 two_keys input) (\<lambda>(auth, addr).
         metadata_pointer_initialize E accounts auth addr w)
     | Update \<Rightarrow> bindE (decode_instruction_data 32 le_word input) (\<lambda>addr.
         metadata_pointer_update E program_id accounts addr w)))"

definition group_pointer_process_instruction ::
    "env \<Rightarrow> pubkey \<Rightarrow> account_info list \<Rightarrow> bytes \<Rightarrow> world \<Rightarrow> world result" where
  "group_pointer_process_instruction E program_id accounts input w =
     bindE (check_program_account program_id) (\<lambda>_.
     bindE (decode_instruction_type setup_instruction_try_from input) (\<lambda>t. case t of
       Initialize \<Rightarrow> bindE (decode_instruction_data 64 two_keys input) (\<lambda>(auth, addr).
         group_pointer_initialize E accounts auth addr w)
     | Update \<Rightarrow> bindE (decode_instruction_data 32 le_word input) (\<lambda>addr.
         group_pointer_update E program_id accounts addr w)))"

definition group_member_pointer_process_instruction ::
    "env \<Rightarrow> pubkey \<Rightarrow> account_info list \<Rightarrow> bytes \<Rightarrow> world \<Rightarrow> world result" where
  "group_member_pointer_process_instruction E program_id accounts input w =
     bindE (check_program_account program_id) (\<lambda>_.
     bindE (decode_instruction_type setup_instruction_try_from input) (\<lambda>t. case t of
       Initialize \<Rightarrow> bindE (decode_instruction_data 64 two_keys input) (\<lambda>(auth, addr).
         group_member_pointer_initialize E accounts auth addr w)
     | Update \<Rightarrow> bindE (decode_instruction_data 32 le_word input) (\<lambda>addr.
         group_member_pointer_update E program_id accounts addr w)))"

definition transfer_fee_process_instruction ::
    "env \<Rightarrow> pubkey \<Rightarrow> account_info list \<Rightarrow> bytes \<Rightarrow> world \<Rightarrow> world result" where
  "transfer_fee_process_instruction E program_id accounts input w =
     bindE (unpack_transfer_fee_instruction input) (\<lambda>i.
     bindE (check_program_account program_id) (\<lambda>_. case i of
       InitializeTransferFeeConfig ca wa bps m \<Rightarrow> process_initialize_transfer_fee_config E accounts ca wa bps m w
     | TransferCheckedWithFee amt dec fee \<Rightarrow> process_transfer E program_id accounts amt (Some dec) (Some fee) w
     | WithdrawWithheldTokensFromMint \<Rightarrow> process_withdraw_withheld_tokens_from_mint E program_id accounts w
     | WithdrawWithheldTokensFromAccounts n \<Rightarrow> process_withdraw_withheld_tokens_from_accounts E program_id accounts n w
     | HarvestWithheldTokensToMint \<Rightarrow> process_harvest_withheld_tokens_to_mint E accounts w
     | SetTransferFee bps m \<Rightarrow> process_set_transfer_fee E program_id accounts bps m w))"

section \<open>The dispatcher\<close>

definition process_pod_instruction ::
    "env \<Rightarrow> foreign \<Rightarrow> pubkey \<Rightarrow> account_info list \<Rightarrow> bytes \<Rightarrow> pod_token_instruction \<Rightarrow> world \<Rightarrow> world result" where
  "process_pod_instruction E F p accounts input t w = (case t of
       pod_token_instruction.InitializeMint \<Rightarrow>
         bindE (decode_instruction_data_with_coption_pubkey 33 initialize_mint_data_of_bytes input) (\<lambda>(d, fa).
         process_initialize_mint E accounts (data_decimals d) (data_mint_authority d) fa w)
     | pod_token_instruction.InitializeMint2 \<Rightarrow>
         bindE (decode_instruction_data_with_coption_pubkey 33 initialize_mint_data_of_bytes input) (\<lambda>(d, fa).
         process_initialize_mint2 E accounts (data_decimals d) (data_mint_authority d) fa w)
     | pod_token_instruction.InitializeAccount \<Rightarrow> process_initialize_account E accounts w
     | pod_token_instruction.InitializeAccount2 \<Rightarrow>
         bindE (decode_instruction_data 32 le_word input) (\<lambda>k. process_initialize_account2 E accounts k w)
     | pod_token_instruction.InitializeAccount3 \<Rightarrow>
         bindE (decode_instruction_data 32 le_word input) (\<lambda>k. process_initialize_account3 E accounts k w)
     | pod_token_instruction.InitializeMultisig \<Rightarrow>
         bindE (decode_instruction_data 1 le_word input) (\<lambda>m. process_initialize_multisig E accounts m w)
     | pod_token_instruction.InitializeMultisig2 \<Rightarrow>
         bindE (decode_instruction_data 1 le_word input) (\<lambda>m. process_initialize_multisig2 E accounts m w)
     | pod_token_instruction.Transfer \<Rightarrow>
         bindE (decode_instruction_data 8 le_word input) (\<lambda>n. process_transfer E p accounts n None None w)
     | pod_token_instruction.Approve \<Rightarrow>
         bindE (decode_instruction_data 8 le_word input) (\<lambda>n. process_approve E p accounts n None w)
     | pod_token_instruction.Revoke \<Rightarrow> process_revoke E p accounts w
     | pod_token_instruction.SetAuthority \<Rightarrow>
         bindE (decode_instruction_data_with_coption_pubkey 1 le_word input) (\<lambda>(t, na).
         bindE (authority_type_from t) (\<lambda>ty. process_set_authority E p accounts ty na w))
     | pod_token_instruction.MintTo \<Rightarrow>
         bindE (decode_instruction_data 8 le_word input) (\<lambda>n. process_mint_to E p accounts n None w)
     | pod_token_instruction.Burn \<Rightarrow>
         bindE (decode_instruction_data 8 le_word input) (\<lambda>n. process_burn E p accounts n None w)
     | pod_token_instruction.CloseAccount \<Rightarrow> process_close_account E p accounts w
     | pod_token_instruction.FreezeAccount \<Rightarrow> process_toggle_freeze_account E p accounts True w
     | pod_token_instruction.ThawAccount \<Rightarrow> process_toggle_freeze_account E p accounts False w
     | pod_token_instruction.TransferChecked \<Rightarrow>
         bindE (decode_instruction_data 9 amount_checked_data_of_bytes input) (\<lambda>d.
         process_transfer E p accounts (data_amount d) (Some (data_checked_decimals d)) None w)
     | pod_token_instruction.ApproveChecked \<Rightarrow>
         bindE (decode_instruction_data 9 amount_checked_data_of_bytes input) (\<lambda>d.
         process_approve E p accounts (data_amount d) (Some (data_checked_decimals d)) w)
     | pod_token_instruction.MintToChecked \<Rightarrow>
         bindE (decode_instruction_data 9 amount_checked_data_of_bytes input) (\<lambda>d.
         process_mint_to E p accounts (data_amount d) (Some (data_checked_decimals d)) w)
     | pod_token_instruction.BurnChecked \<Rightarrow>
         bindE (decode_instruction_data 9 amount_checked_data_of_bytes input) (\<lambda>d.
         process_burn E p accounts (data_amount d) (Some (data_checked_decimals d)) w)
     | pod_token_instruction.SyncNative \<Rightarrow> process_sync_native accounts w
     | pod_token_instruction.GetAccountDataSize \<Rightarrow>
         bindE (mapE extension_type_of_bytes (chunks2 (drop 1 input))) (\<lambda>ts.
         process_get_account_data_size E accounts ts w)
     | pod_token_instruction.InitializeMintCloseAuthority \<Rightarrow>
         bindE (decode_instruction_data_with_coption_pubkey 0 (\<lambda>_. ()) input) (\<lambda>(_, ca).
         process_initialize_mint_close_authority E accounts ca w)
     | pod_token_instruction.TransferFeeExtension \<Rightarrow>
         transfer_fee_process_instruction E p accounts (drop 1 input) w
     | pod_token_instruction.ConfidentialTransferExtension \<Rightarrow>
         confidential_transfer_process_instruction E (zk_sdk F) p accounts (drop 1 input) w
     | pod_token_instruction.DefaultAccountStateExtension \<Rightarrow>
         default_account_state_process_instruction E p accounts (drop 1 input) w
     | pod_token_instruction.InitializeImmutableOwner \<Rightarrow>
         process_initialize_immutable_owner accounts w
     | pod_token_instruction.AmountToUiAmount \<Rightarrow>
         bindE (decode_instruction_data 8 le_word input) (\<lambda>n.
         process_amount_to_ui_amount E (interest_to_ui F) accounts n w)
     | pod_token_instruction.UiAmountToAmount \<Rightarrow>
         if valid_utf8 (drop 1 input)
         then process_ui_amount_to_amount E (interest_from_ui F) accounts (drop 1 input) w
         else Inl (Token InvalidInstruction)
     | pod_token_instruction.Reallocate \<Rightarrow>
         bindE (mapE extension_type_of_bytes (chunks2 (drop 1 input))) (\<lambda>ts.
         process_reallocate E p accounts ts w)
     | pod_token_instruction.MemoTransferExtension \<Rightarrow>
         memo_transfer_process_instruction E p accounts (drop 1 input) w
     | pod_token_instruction.CreateNativeMint \<Rightarrow> process_create_native_mint E accounts w
     | pod_token_instruction.InitializeNonTransferableMint \<Rightarrow>
         process_initialize_non_transferable_mint E accounts w
     | pod_token_instruction.InterestBearingMintExtension \<Rightarrow>
         interest_bearing_mint_process_instruction E p accounts (drop 1 input) w
     | pod_token_instruction.CpiGuardExtension \<Rightarrow>
         cpi_guard_process_instruction E p accounts (drop 1 input) w
     | pod_token_instruction.InitializePermanentDelegate \<Rightarrow>
         bindE (decode_instruction_data 32 le_word input) (\<lambda>k.
         process_initialize_permanent_delegate E accounts k w)
     | pod_token_instruction.TransferHookExtension \<Rightarrow>
         transfer_hook_process_instruction E p accounts (drop 1 input) w
     | pod_token_instruction.ConfidentialTransferFeeExtension \<Rightarrow>
         confidential_transfer_fee_process_instruction E (zk_sdk F) p accounts (drop 1 input) w
     | pod_token_instruction.WithdrawExcessLamports \<Rightarrow>
         process_withdraw_excess_lamports E p accounts w
     | pod_token_instruction.MetadataPointerExtension \<Rightarrow>
         metadata_pointer_process_instruction E p accounts (drop 1 input) w
     | pod_token_instruction.GroupPointerExtension \<Rightarrow>
         group_pointer_process_instruction E p accounts (drop 1 input) w
     | pod_token_instruction.GroupMemberPointerExtension \<Rightarrow>
         group_member_pointer_process_instruction E p accounts (drop 1 input) w)"

definition process :: "env \<Rightarrow> foreign \<Rightarrow> pubkey \<Rightarrow> account_info list \<Rightarrow> bytes \<Rightarrow> world \<Rightarrow> world result" where
  "process E F program_id accounts input w =
     (case decode_instruction_type pod_token_instruction_try_from input of
        Inr t \<Rightarrow> process_pod_instruction E F program_id accounts input t w
      | Inl _ \<Rightarrow>
         (case metadata_instruction_unpack (interfaces F) input of
            Some i \<Rightarrow> token_metadata_process_instruction E (interfaces F) program_id accounts i w
          | None \<Rightarrow>
             (case group_instruction_unpack (interfaces F) input of
                Some i \<Rightarrow> token_group_process_instruction E (interfaces F) accounts i w
              | None \<Rightarrow> Inl (Token InvalidInstruction))))"

section \<open>The meaning of a token instruction\<close>

text \<open>What a \<open>TokenInstruction\<close> asks for; the prefixes of the extensions take the rest of the
  input.\<close>

definition run_instruction ::
    "env \<Rightarrow> foreign \<Rightarrow> pubkey \<Rightarrow> account_info list \<Rightarrow> bytes \<Rightarrow> token_instruction \<Rightarrow> world \<Rightarrow> world result" where
  "run_instruction E F p accounts rest i w = (case i of
       token_instruction.InitializeMint dec ma fa \<Rightarrow> process_initialize_mint E accounts dec ma (pod_of_option fa) w
     | token_instruction.InitializeAccount \<Rightarrow> process_initialize_account E accounts w
     | token_instruction.InitializeMultisig m \<Rightarrow> process_initialize_multisig E accounts m w
     | token_instruction.Transfer n \<Rightarrow> process_transfer E p accounts n None None w
     | token_instruction.Approve n \<Rightarrow> process_approve E p accounts n None w
     | token_instruction.Revoke \<Rightarrow> process_revoke E p accounts w
     | token_instruction.SetAuthority ty na \<Rightarrow> process_set_authority E p accounts ty (pod_of_option na) w
     | token_instruction.MintTo n \<Rightarrow> process_mint_to E p accounts n None w
     | token_instruction.Burn n \<Rightarrow> process_burn E p accounts n None w
     | token_instruction.CloseAccount \<Rightarrow> process_close_account E p accounts w
     | token_instruction.FreezeAccount \<Rightarrow> process_toggle_freeze_account E p accounts True w
     | token_instruction.ThawAccount \<Rightarrow> process_toggle_freeze_account E p accounts False w
     | token_instruction.TransferChecked n d \<Rightarrow> process_transfer E p accounts n (Some d) None w
     | token_instruction.ApproveChecked n d \<Rightarrow> process_approve E p accounts n (Some d) w
     | token_instruction.MintToChecked n d \<Rightarrow> process_mint_to E p accounts n (Some d) w
     | token_instruction.BurnChecked n d \<Rightarrow> process_burn E p accounts n (Some d) w
     | token_instruction.InitializeAccount2 k \<Rightarrow> process_initialize_account2 E accounts k w
     | token_instruction.SyncNative \<Rightarrow> process_sync_native accounts w
     | token_instruction.InitializeAccount3 k \<Rightarrow> process_initialize_account3 E accounts k w
     | token_instruction.InitializeMultisig2 m \<Rightarrow> process_initialize_multisig2 E accounts m w
     | token_instruction.InitializeMint2 dec ma fa \<Rightarrow> process_initialize_mint2 E accounts dec ma (pod_of_option fa) w
     | token_instruction.GetAccountDataSize ts \<Rightarrow> process_get_account_data_size E accounts ts w
     | token_instruction.InitializeImmutableOwner \<Rightarrow> process_initialize_immutable_owner accounts w
     | token_instruction.AmountToUiAmount n \<Rightarrow> process_amount_to_ui_amount E (interest_to_ui F) accounts n w
     | token_instruction.UiAmountToAmount s \<Rightarrow> process_ui_amount_to_amount E (interest_from_ui F) accounts s w
     | token_instruction.InitializeMintCloseAuthority k \<Rightarrow> process_initialize_mint_close_authority E accounts (pod_of_option k) w
     | token_instruction.TransferFeeExtension \<Rightarrow> transfer_fee_process_instruction E p accounts rest w
     | token_instruction.ConfidentialTransferExtension \<Rightarrow> confidential_transfer_process_instruction E (zk_sdk F) p accounts rest w
     | token_instruction.DefaultAccountStateExtension \<Rightarrow> default_account_state_process_instruction E p accounts rest w
     | token_instruction.Reallocate ts \<Rightarrow> process_reallocate E p accounts ts w
     | token_instruction.MemoTransferExtension \<Rightarrow> memo_transfer_process_instruction E p accounts rest w
     | token_instruction.CreateNativeMint \<Rightarrow> process_create_native_mint E accounts w
     | token_instruction.InitializeNonTransferableMint \<Rightarrow> process_initialize_non_transferable_mint E accounts w
     | token_instruction.InterestBearingMintExtension \<Rightarrow> interest_bearing_mint_process_instruction E p accounts rest w
     | token_instruction.CpiGuardExtension \<Rightarrow> cpi_guard_process_instruction E p accounts rest w
     | token_instruction.InitializePermanentDelegate k \<Rightarrow> process_initialize_permanent_delegate E accounts k w
     | token_instruction.TransferHookExtension \<Rightarrow> transfer_hook_process_instruction E p accounts rest w
     | token_instruction.ConfidentialTransferFeeExtension \<Rightarrow> confidential_transfer_fee_process_instruction E (zk_sdk F) p accounts rest w
     | token_instruction.WithdrawExcessLamports \<Rightarrow> process_withdraw_excess_lamports E p accounts w
     | token_instruction.MetadataPointerExtension \<Rightarrow> metadata_pointer_process_instruction E p accounts rest w
     | token_instruction.GroupPointerExtension \<Rightarrow> group_pointer_process_instruction E p accounts rest w
     | token_instruction.GroupMemberPointerExtension \<Rightarrow> group_member_pointer_process_instruction E p accounts rest w)"

definition is_prefix :: "token_instruction \<Rightarrow> bool" where
  "is_prefix i \<longleftrightarrow> i \<in>
      {token_instruction.TransferFeeExtension,
        token_instruction.ConfidentialTransferExtension,
        token_instruction.DefaultAccountStateExtension,
        token_instruction.MemoTransferExtension,
        token_instruction.InterestBearingMintExtension,
        token_instruction.CpiGuardExtension, token_instruction.TransferHookExtension,
        token_instruction.ConfidentialTransferFeeExtension,
        token_instruction.MetadataPointerExtension,
        token_instruction.GroupPointerExtension,
        token_instruction.GroupMemberPointerExtension}"

section \<open>The dispatcher and the wire format\<close>

lemma unpack_pod_pubkey_option_pack [simp]:
  "unpack_pod_pubkey_option (pack_pubkey_option k) = Inr (pod_of_option k)"
  by (cases k) (simp_all add: unpack_pod_pubkey_option_def pack_pubkey_option_def pod_of_option_def)

lemma unpack_pod_pubkey_option_Inr:
  assumes "unpack_pod_pubkey_option b = Inr k"
  obtains k' rest where "unpack_pubkey_option b = Inr (k', rest)" "k = pod_of_option k'"
  using assms
  by (auto simp: unpack_pod_pubkey_option_def unpack_pubkey_option_def unpack_pubkey_def pod_of_option_def
      split: list.splits if_splits)

lemma data_of_bytes_pack [simp]:
  "initialize_mint_data_of_bytes (d # word_le k) = \<lparr>data_decimals = d, data_mint_authority = k\<rparr>"
  "amount_checked_data_of_bytes (word_le a @ [d]) = \<lparr>data_amount = a, data_checked_decimals = d\<rparr>"
  by (simp_all add: initialize_mint_data_of_bytes_def amount_checked_data_of_bytes_def slice_of_def le_word_u8)

lemma decode_coption_pack [simp]:
  "decode_instruction_data_with_coption_pubkey 33 initialize_mint_data_of_bytes (t # d # word_le ma @ pack_pubkey_option fa) =
     Inr (\<lparr>data_decimals = d, data_mint_authority = ma\<rparr>, pod_of_option fa)"
  "decode_instruction_data_with_coption_pubkey (Suc 0) le_word (t # b # pack_pubkey_option fa) =
     Inr (b :: u8, pod_of_option fa)"
  "decode_instruction_data_with_coption_pubkey 0 (\<lambda>_. ()) (t # pack_pubkey_option fa) = Inr ((), pod_of_option fa)"
  using decode_coption_exact [of "d # word_le ma" 33 initialize_mint_data_of_bytes t "pack_pubkey_option fa"]
    decode_coption_exact [of "[b]" "Suc 0" "le_word :: bytes \<Rightarrow> u8" t "pack_pubkey_option fa"]
    decode_coption_exact [of "[]" 0 "\<lambda>_. ()" t "pack_pubkey_option fa"]
  by (simp_all add: le_word_u8)

text \<open>Functions for the examples.\<close>

definition sample_foreign :: foreign where
  "sample_foreign =
     \<lparr>interest_to_ui = (\<lambda>_ _ _ _. None), interest_from_ui = (\<lambda>_ _ _ _. Inl (Prog InvalidArgument)),
      zk_sdk = sample_zk, interfaces = sample_interfaces\<rparr>"

lemma process_packed:
  assumes "\<And>s. i = UiAmountToAmount s \<Longrightarrow> valid_utf8 s" "is_prefix i \<or> rest = []"
  shows "process E F p accounts (pack i @ rest) w = run_instruction E F p accounts rest i w"
  using assms
  by (cases i) (simp_all add: process_def process_pod_instruction_def run_instruction_def is_prefix_def le_word_u8)

text \<open>C30. The dispatcher runs what the packed instruction asks for: whatever instruction is packed, with the
  data of an extension behind its prefix, the handler of that instruction runs with its arguments,
  and its result, success or error, is the result.\<close>

theorem dispatch_packed:
  assumes "\<And>s. i = UiAmountToAmount s \<Longrightarrow> valid_utf8 s" "is_prefix i \<or> rest = []"
  shows "process E F p accounts (pack i @ rest) w = run_instruction E F p accounts rest i w"
  by (rule process_packed [OF assms])

theorem dispatch_packed_witness:
  "process sample_env sample_foreign token_2022_id [\<lparr>key = 7, is_signer = False\<rparr>, \<lparr>key = 30, is_signer = True\<rparr>] (pack token_instruction.Revoke @ []) two_holders =
   process_revoke sample_env token_2022_id [\<lparr>key = 7, is_signer = False\<rparr>, \<lparr>key = 30, is_signer = True\<rparr>] two_holders"
  using dispatch_packed [of "token_instruction.Revoke" "[]"] by (simp add: run_instruction_def)

text \<open>The shape of the data the dispatcher decoded.\<close>

lemma split_le_word: "n \<le> length b \<Longrightarrow> LENGTH('a) = 8 * n \<Longrightarrow> b = word_le (le_word (take n b) :: 'a::len word) @ drop n b"
  by (simp add: word_le_le_word)

lemma decoded_mint_data:
  assumes "decode_instruction_data_with_coption_pubkey 33 initialize_mint_data_of_bytes (t # b) = Inr (x, k)"
  obtains d ma fa rest where "b = d # word_le ma @ pack_pubkey_option fa @ rest"
    "x = \<lparr>data_decimals = d, data_mint_authority = ma\<rparr>" "k = pod_of_option fa"
proof -
  from assms have l: "33 \<le> length b" and x: "x = initialize_mint_data_of_bytes (take 33 b)"
    and k: "unpack_pod_pubkey_option (drop 33 b) = Inr k" by (simp_all add: success_simps)
  from l obtain d c where b: "b = d # c" "32 \<le> length c" by (cases b) auto
  from k obtain fa rest where "unpack_pubkey_option (drop 33 b) = Inr (fa, rest)" "k = pod_of_option fa"
    by (rule unpack_pod_pubkey_option_Inr)
  moreover have "c = word_le (le_word (take 32 c) :: pubkey) @ drop 32 c" using b(2) by (intro split_le_word) simp_all
  ultimately have e: "b = d # word_le (le_word (take 32 c) :: pubkey) @ pack_pubkey_option fa @ rest" "k = pod_of_option fa"
    by (simp_all add: b success_simps)
  have "take 33 b = d # word_le (le_word (take 32 c) :: pubkey)" by (subst e(1)) simp
  then have "x = \<lparr>data_decimals = d, data_mint_authority = le_word (take 32 c)\<rparr>" by (simp only: x data_of_bytes_pack)
  from that [OF e(1) this e(2)] show ?thesis .
qed

lemma decoded_authority_data:
  assumes "decode_instruction_data_with_coption_pubkey (Suc 0) le_word (t # b) = Inr (x :: u8, k)"
  obtains fa rest where "b = x # pack_pubkey_option fa @ rest" "k = pod_of_option fa"
proof -
  from assms obtain c where b: "b = x # c" and k: "unpack_pod_pubkey_option c = Inr k"
    by (cases b) (auto simp: success_simps le_word_u8)
  from k obtain fa rest where "unpack_pubkey_option c = Inr (fa, rest)" "k = pod_of_option fa"
    by (rule unpack_pod_pubkey_option_Inr)
  then show ?thesis using that b by (auto simp: success_simps)
qed

lemma decoded_authority:
  assumes "decode_instruction_data_with_coption_pubkey 0 (\<lambda>_. ()) (t # b) = Inr (x, k)"
  obtains fa rest where "b = pack_pubkey_option fa @ rest" "k = pod_of_option fa"
proof -
  from assms have "unpack_pod_pubkey_option b = Inr k" by (auto simp: success_simps)
  then show ?thesis using that by (auto elim!: unpack_pod_pubkey_option_Inr simp: success_simps)
qed

lemma decoded_amount:
  "decode_instruction_data 8 le_word (t # b) = Inr (n :: u64) \<longleftrightarrow> b = word_le n"
  using word_le_le_word [of b, where 'a = 64] by (auto simp: success_simps)

lemma decoded_key:
  "decode_instruction_data 32 le_word (t # b) = Inr (n :: pubkey) \<longleftrightarrow> b = word_le n"
  using word_le_le_word [of b, where 'a = 256] by (auto simp: success_simps)

lemma decoded_byte:
  "decode_instruction_data (Suc 0) le_word (t # b) = Inr (n :: u8) \<longleftrightarrow> b = [n]"
  by (auto simp: success_simps length_Suc_conv le_word_u8)

lemma decoded_amount_checked:
  "decode_instruction_data 9 amount_checked_data_of_bytes (t # b) = Inr x \<longleftrightarrow>
     b = word_le (data_amount x) @ [data_checked_decimals x]"
proof
  assume "decode_instruction_data 9 amount_checked_data_of_bytes (t # b) = Inr x"
  then have l: "length b = 9" and x: "x = amount_checked_data_of_bytes b" by (simp_all add: success_simps)
  have "length (drop 8 b) = Suc 0" using l by simp
  then obtain d where d: "drop 8 b = [d]" by (auto simp: length_Suc_conv simp del: length_drop)
  have b: "b = word_le (le_word (take 8 b) :: u64) @ [d]" using split_le_word [of 8 b, where 'a = 64] l d by simp
  then have "x = \<lparr>data_amount = le_word (take 8 b), data_checked_decimals = d\<rparr>" unfolding x by (metis data_of_bytes_pack(2))
  with b show "b = word_le (data_amount x) @ [data_checked_decimals x]" by simp
next
  assume "b = word_le (data_amount x) @ [data_checked_decimals x]"
  then show "decode_instruction_data 9 amount_checked_data_of_bytes (t # b) = Inr x" by (simp add: success_simps)
qed

lemmas decoded = decoded_amount decoded_key decoded_byte decoded_amount_checked



end
