(* ===== verification/Confidential_Balance.thy ===== *)
theory Confidential_Balance
  imports Confidential_Fee
begin

text \<open>
  The value of a confidential balance.  Ciphertexts are opaque to the program; the value of a balance is what a decryption
  function makes of it, for every function under which the arithmetic of the SDK is the arithmetic of plaintexts.
\<close>

section \<open>Decryption\<close>

text \<open>The contract of the ciphertext arithmetic: encryption is additively homomorphic (for any secret key, over the
  ring of plaintexts), results are ciphertexts, and the all-zero ciphertext is an encryption of zero.\<close>

definition ct :: "env \<Rightarrow> bytes \<Rightarrow> bool" where
  "ct E c \<longleftrightarrow> length c = elgamal_ciphertext_len E"

definition additive :: "env \<Rightarrow> zk \<Rightarrow> (bytes \<Rightarrow> 'p::comm_ring_1) \<Rightarrow> bool" where
  "additive E Z D \<longleftrightarrow>
     D (zeroed_ciphertext E) = 0 \<and>
     (\<forall>a b c. ct_add Z a b = Some c \<longrightarrow> ct E c \<and> D c = D a + D b) \<and>
     (\<forall>a b c. ct_subtract Z a b = Some c \<longrightarrow> ct E c \<and> D c = D a - D b) \<and>
     (\<forall>a n c. ct_add_to Z a n = Some c \<longrightarrow> ct E c \<and> D c = D a + of_nat (unat n)) \<and>
     (\<forall>a n c. ct_subtract_from Z a n = Some c \<longrightarrow> ct E c \<and> D c = D a - of_nat (unat n)) \<and>
     (\<forall>a lo hi c. ct_add_with_lo_hi Z a lo hi = Some c \<longrightarrow> ct E c \<and> D c = D a + (D lo + 65536 * D hi)) \<and>
     (\<forall>a lo hi c. ct_subtract_with_lo_hi Z a lo hi = Some c \<longrightarrow> ct E c \<and> D c = D a - (D lo + 65536 * D hi))"

lemma additiveD:
  assumes "additive E Z D"
  shows "D (zeroed_ciphertext E) = 0"
    "ct_add Z a b = Some c \<Longrightarrow> ct E c \<and> D c = D a + D b"
    "ct_subtract Z a b = Some c \<Longrightarrow> ct E c \<and> D c = D a - D b"
    "ct_add_to Z a n = Some c \<Longrightarrow> ct E c \<and> D c = D a + of_nat (unat n)"
    "ct_subtract_from Z a n = Some c \<Longrightarrow> ct E c \<and> D c = D a - of_nat (unat n)"
    "ct_add_with_lo_hi Z a lo hi = Some c \<Longrightarrow> ct E c \<and> D c = D a + (D lo + 65536 * D hi)"
    "ct_subtract_with_lo_hi Z a lo hi = Some c \<Longrightarrow> ct E c \<and> D c = D a - (D lo + 65536 * D hi)"
  using assms unfolding additive_def by blast+

text \<open>The value of an account: what is available and what is pending, the latter in two parts of 16 and 32 bits.\<close>

definition pending_value :: "(bytes \<Rightarrow> 'p::comm_ring_1) \<Rightarrow> confidential_transfer_account \<Rightarrow> 'p" where
  "pending_value D s = D (pending_balance_lo s) + 65536 * D (pending_balance_hi s)"

definition confidential_value :: "(bytes \<Rightarrow> 'p::comm_ring_1) \<Rightarrow> confidential_transfer_account \<Rightarrow> 'p" where
  "confidential_value D s = D (available_balance s) + pending_value D s"

lemmas value_defs = confidential_value_def pending_value_def

section \<open>Ciphertexts in the extension\<close>

definition ct_account :: "env \<Rightarrow> confidential_transfer_account \<Rightarrow> bool" where
  "ct_account E s \<longleftrightarrow> length (elgamal_pubkey s) = elgamal_pubkey_len E \<and> ct E (pending_balance_lo s) \<and>
     ct E (pending_balance_hi s) \<and> ct E (available_balance s) \<and>
     length (decryptable_available_balance s) = ae_ciphertext_len E"

lemma ct_zeroed [simp]: "ct E (zeroed_ciphertext E)"
  by (simp add: ct_def zeroed_ciphertext_def)

text \<open>The bytes of the struct have a fixed layout, so a state is readable again exactly when its parts have their lengths.\<close>

lemma ct_account_valid: "ct_account E s \<Longrightarrow> ext_valid (ConfidentialTransferAccountExt E) s"
  unfolding ct_account_def ct_def
  by (cases s) (simp add: ext_valid_def ConfidentialTransferAccountExt_def Let_def slice_of_def)

lemma get_ct_account:
  "get_extension E PodAccount (ConfidentialTransferAccountExt E) st = Inr s \<Longrightarrow> ct_account E s"
  by (auto simp: get_extension_def success_simps ConfidentialTransferAccountExt_def Let_def ct_account_def ct_def slice_of_def)

lemma get_put_ct_account:
  "get_extension E PodAccount (ConfidentialTransferAccountExt E) st = Inr s \<Longrightarrow> ct_account E s' \<Longrightarrow>
   get_extension E PodAccount (ConfidentialTransferAccountExt E)
     (put_extension PodAccount (ConfidentialTransferAccountExt E) s' st) = Inr s'"
  by (rule account_confidential.get_put_extension [OF _ ct_account_valid])

lemma fee_valid: "ct E n \<Longrightarrow> ext_valid (ConfidentialTransferFeeAmountExt E) n"
  by (simp add: ct_def ext_valid_def ConfidentialTransferFeeAmountExt_def)

lemma fee_config_valid:
  "length (withdraw_withheld_authority_elgamal_pubkey f) = elgamal_pubkey_len E \<Longrightarrow> ct E (cf_withheld_amount f) \<Longrightarrow>
   ext_valid (ConfidentialTransferFeeConfigExt E) f"
  by (cases f) (simp add: ct_def ext_valid_def ConfidentialTransferFeeConfigExt_def Let_def slice_of_def)

section \<open>The parts of a handler\<close>

lemma verify_and_split_deposit_amount_Inr:
  assumes "verify_and_split_deposit_amount amt = Inr (lo, hi)"
  shows "unat lo + 65536 * unat hi = unat amt" "unat lo < 2 ^ 16" "unat hi < 2 ^ 32" "unat amt < 2 ^ 48"
proof -
  from assms have a: "unat amt \<le> 65535 + 65536 * 4294967295" and lo: "lo = and amt 65535" and hi: "hi = drop_bit 16 amt"
    by (auto simp: verify_and_split_deposit_amount_def MAXIMUM_DEPOSIT_TRANSFER_AMOUNT_def word_le_nat_alt not_less split: if_splits)
  have "lo = take_bit 16 amt" by (simp add: lo take_bit_eq_mask mask_numeral)
  then have "unat lo = take_bit 16 (unat amt)" by (simp only: unsigned_take_bit_eq)
  then have l: "unat lo = unat amt mod 65536" by (simp add: take_bit_nat_def)
  have "take_bit 64 (unat amt) = unat amt" using unsigned_less [of amt] by (intro take_bit_nat_eq_self) simp
  then have "unat hi = drop_bit 16 (unat amt)" by (simp add: hi unsigned_drop_bit_eq)
  then have h: "unat hi = unat amt div 65536" by (simp add: drop_bit_nat_def)
  show "unat lo + 65536 * unat hi = unat amt" by (simp add: l h)
  show "unat lo < 2 ^ 16" by (simp add: l)
  show "unat amt < 2 ^ 48" using a by simp
  then show "unat hi < 2 ^ 32" by (simp add: h less_mult_imp_div_less)
qed

lemma add_unless_zero_Inr:
  assumes "add_unless_zero Z b n = Inr c" "additive E Z D" "ct E b"
  shows "ct E c" "D c = D b + of_nat (unat n)"
  using assms additiveD(4) [OF assms(2), of b n c]
  by (auto simp: add_unless_zero_def success_simps word_gt_0 split: if_splits)

lemma valid_as_destination_Inr:
  assumes "valid_as_destination E s = Inr ()"
  shows "pod_bool E (approved s)" "pod_bool E (allow_confidential_credits s)"
    "unat (pending_balance_credit_counter s) + 1 \<le> unat (maximum_pending_balance_credit_counter s)"
  using assms
  by (auto simp: valid_as_destination_def confidential_account_approved_def success_simps checked_add_Some
      word_le_nat_alt not_less split: if_splits)

lemma increment_Inr:
  assumes "increment_pending_balance_credit_counter s = Inr s'"
  obtains n where "s' = s\<lparr>pending_balance_credit_counter := n\<rparr>" "unat n = unat (pending_balance_credit_counter s) + 1"
  using assms by (auto simp: increment_pending_balance_credit_counter_def success_simps checked_add_Some)

text \<open>The account at \<open>a\<close> has this base and this confidential state.\<close>

definition confidential_at :: "env \<Rightarrow> world \<Rightarrow> account_info \<Rightarrow> pod_account \<Rightarrow> confidential_transfer_account \<Rightarrow> bool" where
  "confidential_at E w a b s \<longleftrightarrow> (\<exists>st. unpack PodAccount (data_of w a) = Inr st \<and> base st = b \<and>
     get_extension E PodAccount (ConfidentialTransferAccountExt E) st = Inr s)"

lemma confidential_atI:
  "unpack PodAccount (data_of w a) = Inr st \<Longrightarrow> get_extension E PodAccount (ConfidentialTransferAccountExt E) st = Inr s \<Longrightarrow>
   confidential_at E w a (base st) s"
  by (auto simp: confidential_at_def)

text \<open>A state that was read is stored with a new base and a new confidential state.\<close>

lemma stored_account:
  assumes "unpack PodAccount (data_of w a) = Inr st" "get_extension E PodAccount (ConfidentialTransferAccountExt E) st = Inr s"
    "ct_account E s'" "w' = store PodAccount a (put_extension PodAccount (ConfidentialTransferAccountExt E) s' (st\<lparr>base := b\<rparr>)) w"
    "pod_account_is_initialized (base st) \<Longrightarrow> pod_account_is_initialized b"
  shows "confidential_at E w a (base st) s" "confidential_at E w' a b s'" "changes_only {key a} w w'"
proof -
  let ?st = "put_extension PodAccount (ConfidentialTransferAccountExt E) s' (st\<lparr>base := b\<rparr>)"
  have "live ?st" using assms(1,5) by (simp add: live_def unpack_account_live)
  then have "unpack PodAccount (data_of w' a) = Inr ?st" by (simp add: assms(4) frame)
  moreover have "get_extension E PodAccount (ConfidentialTransferAccountExt E) ?st = Inr s'"
    by (rule get_put_ct_account [OF _ assms(3)]) (simp add: assms(2))
  ultimately show "confidential_at E w' a b s'" by (simp add: confidential_at_def)
  show "confidential_at E w a (base st) s" by (rule confidential_atI [OF assms(1,2)])
  show "changes_only {key a} w w'" by (simp add: assms(4) changes_only_store)
qed

lemma stored_same_base:
  assumes "unpack PodAccount (data_of w a) = Inr st" "get_extension E PodAccount (ConfidentialTransferAccountExt E) st = Inr s"
    "ct_account E s'" "w' = store PodAccount a (put_extension PodAccount (ConfidentialTransferAccountExt E) s' st) w"
  shows "confidential_at E w a (base st) s" "confidential_at E w' a (base st) s'" "changes_only {key a} w w'"
  using stored_account [OF assms(1-3), of w' "base st"] assms(4) by simp_all

lemma open_for_conversion_Inr:
  assumes "open_for_conversion E p a m auth rest dec w = Inr st"
  shows "unpack PodAccount (data_of w a) = Inr st" "owner_of w a = token_2022_id" "owner_of w m = token_2022_id"
    "mint (base st) = key m" "key a \<noteq> key m" "\<not> pod_account_is_frozen (base st)" "\<not> pod_account_is_native (base st)"
    "validate_owner E p (owner (base st)) auth (length (data_of w auth)) rest w = Inr ()"
    "\<exists>mt. unpack (PodMint E) (data_of w m) = Inr mt \<and> decimals (base mt) = dec \<and>
       \<not> isOk (get_extension E (PodMint E) NonTransferableExt mt)"
  using assms by (auto simp: open_for_conversion_def success_simps)

end
