(* ===== verification/Ledger.thy ===== *)
theory Ledger
  imports Reallocate
begin

text \<open>
  The tokens of a mint across the whole ledger.  \<open>balance E M w\<close> is the supply recorded in mint
  \<open>M\<close> minus the fees withheld in it minus everything held by its token accounts; the program keeps
  it at zero.  A cell counts only while the token program owns it.  The theory has one lemma per
  handler; theory Conservation puts them together.
\<close>

section \<open>The tokens in a cell\<close>

definition account_tokens :: "env \<Rightarrow> pubkey \<Rightarrow> acct \<Rightarrow> int" where
  "account_tokens E M c =
     (if acct_owner c = token_2022_id
      then (case unpack PodAccount (acct_data c) of
              Inr st \<Rightarrow> if mint (base st) = M then int (holdings E st) else 0
            | Inl _ \<Rightarrow> 0)
      else 0)"

definition supply_at :: "env \<Rightarrow> acct \<Rightarrow> int" where
  "supply_at E c =
     (if acct_owner c = token_2022_id
      then (case unpack (PodMint E) (acct_data c) of Inr mt \<Rightarrow> int (unat (mint_supply (base mt))) | Inl _ \<Rightarrow> 0)
      else 0)"

definition withheld_at :: "env \<Rightarrow> acct \<Rightarrow> int" where
  "withheld_at E c =
     (if acct_owner c = token_2022_id
      then (case unpack (PodMint E) (acct_data c) of Inr mt \<Rightarrow> int (unat (mint_withheld E mt)) | Inl _ \<Rightarrow> 0)
      else 0)"

definition cell_balance :: "env \<Rightarrow> pubkey \<Rightarrow> pubkey \<Rightarrow> acct \<Rightarrow> int" where
  "cell_balance E M k c = (if k = M then supply_at E c - withheld_at E c else 0) - account_tokens E M c"

definition balance :: "env \<Rightarrow> pubkey \<Rightarrow> world \<Rightarrow> int" where
  "balance E M w = (\<Sum>k\<in>UNIV. cell_balance E M k (cells w k))"

section \<open>Well-formed data\<close>

text \<open>What the data of an account owned by the program can be: a token account or a mint with a
  well-formed TLV buffer, only accounts of the native mint being native; or an account or mint that
  is not initialised yet and holds nothing; or anything that unpacks to neither.\<close>

definition data_ok :: "env \<Rightarrow> bytes \<Rightarrow> bool" where
  "data_ok E d \<longleftrightarrow>
     (\<forall>st. unpack PodAccount d = Inr st \<longrightarrow> tlv_wf account_type.Account (tlv_data st) \<and>
        (pod_account_is_native (base st) \<longrightarrow> mint (base st) = native_mint_id)) \<and>
     (\<forall>mt. unpack (PodMint E) d = Inr mt \<longrightarrow> tlv_wf account_type.Mint (tlv_data mt)) \<and>
     (\<forall>st. unpack_uninitialized PodAccount d = Inr st \<longrightarrow> tlv_wf account_type.Account (tlv_data st) \<and>
        withheld E st = 0) \<and>
     (\<forall>mt. unpack_uninitialized (PodMint E) d = Inr mt \<longrightarrow> tlv_wf account_type.Mint (tlv_data mt) \<and>
        mint_withheld E mt = 0 \<and> mint_supply (base mt) = 0)"

text \<open>The invariant, with an allowance per mint for the tokens that are in no account: those of confidential
  balances, and those a handler holds in its hands between two writes.  Native tokens are lamports and are accounted
  for by the runtime.\<close>

definition ledger_with :: "env \<Rightarrow> (pubkey \<Rightarrow> int) \<Rightarrow> world \<Rightarrow> bool" where
  "ledger_with E f w \<longleftrightarrow>
     (\<forall>k. acct_owner (cells w k) = token_2022_id \<longrightarrow> data_ok E (acct_data (cells w k))) \<and>
     (\<forall>M. M \<noteq> native_mint_id \<longrightarrow> balance E M w = f M)"

text \<open>The documented behaviour of the environment that the invariant rests on.\<close>

definition env_ok :: "env \<Rightarrow> bool" where
  "env_ok E \<longleftrightarrow> pod_bool_ok E \<and> cpi_preserves E \<and> realloc_ok E \<and> system_contract E"

text \<open>The runtime rejects an instruction that changed the data of an account of another program.\<close>

definition runtime_ok :: "world \<Rightarrow> world \<Rightarrow> bool" where
  "runtime_ok w w' \<longleftrightarrow>
     (\<forall>k. acct_owner (cells w k) \<noteq> token_2022_id \<longrightarrow> acct_data (cells w' k) = acct_data (cells w k))"

section \<open>One kind at a time\<close>

lemma not_mint_if_account: "unpack PodAccount d = Inr st \<Longrightarrow> unpack (PodMint E) d \<noteq> Inr mt"
  using mint_is_no_account by blast

lemma shape_length:
  "unpack PodAccount d = Inr st \<Longrightarrow> length d = 165 \<or> 166 < length d \<and> d ! 165 = 2"
  "unpack (PodMint E) d = Inr mt \<Longrightarrow> length d = 82 \<or> 166 < length d \<and> d ! 165 = 1"
  by (auto simp: pod_account.unpack_iff pod_mint.unpack_iff shape_ok_def state_bytes_def nth_append
      PodAccount_SIZE_OF_def PodMint_SIZE_OF_def BASE_ACCOUNT_LENGTH_def Account_LEN_def)

lemma fresh_account_length:
  assumes "unpack_uninitialized PodAccount d = Inr st"
  shows "length d = 165 \<or> 166 < length d \<and> d ! 165 = 0"
  using pod_account.unpack_uninitialized_Inr(1,3) [OF assms]
  by (auto simp: fresh_shape_def state_bytes_def nth_append PodAccount_SIZE_OF_def BASE_ACCOUNT_LENGTH_def Account_LEN_def)

lemma fresh_mint_length:
  assumes "unpack_uninitialized (PodMint E) d = Inr mt"
  shows "length d = 82 \<or> 166 < length d \<and> d ! 165 = 0"
  using pod_mint.unpack_uninitialized_Inr(1,3) [OF assms]
  by (auto simp: fresh_shape_def state_bytes_def nth_append PodMint_SIZE_OF_def BASE_ACCOUNT_LENGTH_def Account_LEN_def)

lemma one_kind:
  "unpack PodAccount d = Inr st \<Longrightarrow> unpack_uninitialized PodAccount d \<noteq> Inr st'"
  "unpack PodAccount d = Inr st \<Longrightarrow> unpack_uninitialized (PodMint E) d \<noteq> Inr mt'"
  "unpack (PodMint E) d = Inr mt \<Longrightarrow> unpack_uninitialized PodAccount d \<noteq> Inr st'"
  "unpack (PodMint E) d = Inr mt \<Longrightarrow> unpack_uninitialized (PodMint E) d \<noteq> Inr mt'"
  by (auto dest: unpack_excludes_uninitialized)
     (auto dest!: shape_length fresh_account_length fresh_mint_length)

lemma data_ok_account:
  assumes "unpack PodAccount d = Inr st" "tlv_wf account_type.Account (tlv_data st)"
    "pod_account_is_native (base st) \<Longrightarrow> mint (base st) = native_mint_id"
  shows "data_ok E d"
  using assms one_kind(1,2) [OF assms(1)] not_mint_if_account [OF assms(1)] by (auto simp: data_ok_def)

lemma data_ok_mint:
  assumes "unpack (PodMint E) d = Inr mt" "tlv_wf account_type.Mint (tlv_data mt)"
  shows "data_ok E d"
  using assms one_kind(3,4) [OF assms(1)] mint_is_no_account [OF assms(1)] by (auto simp: data_ok_def)

lemma data_ok_accountD:
  assumes "data_ok E d" "unpack PodAccount d = Inr st"
  shows "tlv_wf account_type.Account (tlv_data st)" "pod_account_is_native (base st) \<Longrightarrow> mint (base st) = native_mint_id"
  using assms by (auto simp: data_ok_def)

lemma data_ok_mintD: "data_ok E d \<Longrightarrow> unpack (PodMint E) d = Inr mt \<Longrightarrow> tlv_wf account_type.Mint (tlv_data mt)"
  by (auto simp: data_ok_def)

text \<open>Uninitialised data with an extension belongs to one kind only: the first extension tells which.\<close>

lemma first_extension:
  assumes "represents S es d" "es \<noteq> []"
  shows "get_first_extension_type d = Inr (Some (fst (hd es)))" "get_account_type (fst (hd es)) = S"
proof -
  from assms obtain t x es' n where es: "es = (t, x) # es'" and d: "d = tlv_entry t x @ (tlv_encode es' @ replicate n 0)"
    and t: "get_account_type t = S" "t \<noteq> Uninitialized"
    by (cases es) (auto simp: represents_def account_type_uninitialized [symmetric])
  have "type_at d (get_tlv_indices 0) = Inr t" by (simp add: d)
  then show "get_first_extension_type d = Inr (Some (fst (hd es)))" using t
    by (simp add: get_first_extension_type_def es d Let_def)
  show "get_account_type (fst (hd es)) = S" using t by (simp add: es)
qed

lemma fresh_account_tlv:
  assumes "unpack_uninitialized PodAccount d = Inr st"
  shows "tlv_data st = drop 166 d" "check_account_type_matches_extension_type PodAccount st = Inr ()"
  using pod_account.unpack_uninitialized_Inr(1,3,4) [OF assms]
  by (auto simp: fresh_shape_def state_bytes_def PodAccount_SIZE_OF_def BASE_ACCOUNT_LENGTH_def Account_LEN_def)

lemma fresh_mint_tlv:
  assumes "unpack_uninitialized (PodMint E) d = Inr mt"
  shows "tlv_data mt = drop 166 d" "check_account_type_matches_extension_type (PodMint E) mt = Inr ()"
  using pod_mint.unpack_uninitialized_Inr(1,3,4) [OF assms]
  by (auto simp: fresh_shape_def state_bytes_def PodMint_SIZE_OF_def BASE_ACCOUNT_LENGTH_def Account_LEN_def)

lemma fresh_kind:
  assumes "unpack_uninitialized PodAccount d = Inr st" "unpack_uninitialized (PodMint E) d = Inr mt"
    "represents S es (drop 166 d)"
  shows "es = []"
proof (rule ccontr)
  assume es: "es \<noteq> []"
  note f = first_extension [OF assms(3) es]
  from fresh_account_tlv [OF assms(1)] fresh_mint_tlv [OF assms(2)] f show False
    by (auto simp: check_account_type_matches_extension_type_def split: if_splits)
qed

lemma data_ok_fresh_account:
  assumes u: "unpack_uninitialized PodAccount d = Inr st" and r: "represents account_type.Account es (tlv_data st)"
    and es: "es \<noteq> []" and "withheld E st = 0"
  shows "data_ok E d"
proof -
  have "unpack_uninitialized (PodMint E) d \<noteq> Inr mt" for mt
    using fresh_kind [OF u, of E mt] r es fresh_account_tlv(1) [OF u] by auto
  moreover have "unpack PodAccount d \<noteq> Inr st'" "unpack (PodMint E) d \<noteq> Inr mt" for st' mt
    using one_kind(1) [of d st' st] one_kind(3) [of E d mt st] u by auto
  ultimately show ?thesis using assms by (auto simp: data_ok_def tlv_wf_def)
qed

lemma data_ok_fresh_mint:
  assumes u: "unpack_uninitialized (PodMint E) d = Inr mt" and r: "represents account_type.Mint es (tlv_data mt)"
    and es: "es \<noteq> []" and "mint_withheld E mt = 0" "mint_supply (base mt) = 0"
  shows "data_ok E d"
proof -
  have "unpack_uninitialized PodAccount d \<noteq> Inr st" for st
    using fresh_kind [OF _ u, of st] r es fresh_mint_tlv(1) [OF u] by auto
  moreover have "unpack PodAccount d \<noteq> Inr st'" "unpack (PodMint E) d \<noteq> Inr mt'" for st' mt'
    using one_kind(2) [of d st' E mt] one_kind(4) [of E d mt' mt] u by auto
  ultimately show ?thesis using assms by (auto simp: data_ok_def tlv_wf_def)
qed

lemma multisig_length:
  assumes "length d = Multisig_LEN"
  shows "unpack S d \<noteq> Inr st" "unpack_uninitialized S d \<noteq> Inr st"
  using assms by (simp_all add: unpack_def unpack_uninitialized_def check_min_len_and_not_multisig_def)

lemma data_ok_multisig: "length d = Multisig_LEN \<Longrightarrow> data_ok E d"
  by (simp add: data_ok_def multisig_length)

text \<open>An account of zeros holds nothing, whatever it is taken for.\<close>

lemma word_le_zeros: "list_all (\<lambda>b. b = 0) (word_le (v :: u64)) \<Longrightarrow> v = 0"
proof -
  assume "list_all (\<lambda>b. b = 0) (word_le v)"
  then have "word_le v = replicate 8 0" by (intro replicate_eqI) (auto simp: list_all_iff)
  then show "v = 0" by (metis word_le_zero le_word_word_le_simps(4) len_num1 length_word_le length_replicate)
qed

lemma zeros_unpack:
  assumes "list_all (\<lambda>b. b = 0) d" "pod_bool_ok E"
  shows "unpack PodAccount d \<noteq> Inr st" "unpack (PodMint E) d \<noteq> Inr mt"
proof -
  show "unpack PodAccount d \<noteq> Inr st"
  proof
    assume "unpack PodAccount d = Inr st"
    then have "d = state_bytes PodAccount st" "pod_account_is_initialized (base st)" by (simp_all add: pod_account.unpack_iff)
    with assms(1) show False
      by (auto simp: state_bytes_def pod_account_bytes_def word_le_u8 pod_account_is_initialized_def)
  qed
  show "unpack (PodMint E) d \<noteq> Inr mt"
  proof
    assume "unpack (PodMint E) d = Inr mt"
    then have "d = state_bytes (PodMint E) mt" "pod_mint_is_initialized E (base mt)" by (simp_all add: pod_mint.unpack_iff)
    with assms show False
      by (auto simp: state_bytes_def pod_mint_bytes_def word_le_u8 pod_mint_is_initialized_def pod_bool_ok_def)
  qed
qed

lemma zeros_tlv: "list_all (\<lambda>b. b = 0) d \<Longrightarrow> S \<noteq> account_type.Uninitialized \<Longrightarrow> represents S [] (drop n d)"
proof -
  assume d: "list_all (\<lambda>b. b = 0) d" and S: "S \<noteq> account_type.Uninitialized"
  from d have "d = replicate (length d) 0" by (intro replicate_eqI) (auto simp: list_all_iff)
  then have "drop n d = replicate (length d - n) 0" by (metis drop_replicate)
  with represents_zeros [OF S] show "represents S [] (drop n d)" by metis
qed

lemma represents_nothing: "represents S [] d \<Longrightarrow> get_extension_bytes S v d \<noteq> Inr x"
  by (simp add: represents_get)

lemma data_ok_zeros:
  assumes d: "list_all (\<lambda>b. b = 0) d" and E: "pod_bool_ok E"
  shows "data_ok E d"
proof -
  have a: "tlv_wf account_type.Account (tlv_data st) \<and> withheld E st = 0" if "unpack_uninitialized PodAccount d = Inr st" for st
  proof -
    have r: "represents account_type.Account [] (tlv_data st)"
      using zeros_tlv [OF d] by (simp add: fresh_account_tlv(1) [OF that])
    have "get_extension E PodAccount TransferFeeAmountExt st \<noteq> Inr x" for x
      using represents_nothing [OF r] by (auto simp: get_extension_def success_simps)
    then have "withheld E st = 0" by (auto simp: withheld_def split: sum.splits)
    with r show ?thesis by (auto simp: tlv_wf_def)
  qed
  have m: "tlv_wf account_type.Mint (tlv_data mt) \<and> mint_withheld E mt = 0 \<and> mint_supply (base mt) = 0"
    if "unpack_uninitialized (PodMint E) d = Inr mt" for mt
  proof -
    have r: "represents account_type.Mint [] (tlv_data mt)"
      using zeros_tlv [OF d] by (simp add: fresh_mint_tlv(1) [OF that])
    have "get_extension E (PodMint E) TransferFeeConfigExt mt \<noteq> Inr x" for x
      using represents_nothing [OF r] by (auto simp: get_extension_def success_simps)
    then have "mint_withheld E mt = 0" by (auto simp: mint_withheld_def split: sum.splits)
    moreover have "mint_supply (base mt) = 0"
      using d pod_mint.unpack_uninitialized_Inr(1) [OF that] word_le_zeros [of "mint_supply (base mt)"]
      by (simp add: state_bytes_def pod_mint_bytes_def)
    ultimately show ?thesis using r by (auto simp: tlv_wf_def)
  qed
  show ?thesis using a m zeros_unpack [OF d E] by (auto simp: data_ok_def)
qed

section \<open>How a step changes the balance\<close>

lemma cell_balance_foreign: "acct_owner c \<noteq> token_2022_id \<Longrightarrow> cell_balance E M k c = 0"
  by (simp add: cell_balance_def account_tokens_def supply_at_def withheld_at_def)

lemma cell_balance_account:
  "unpack PodAccount (acct_data c) = Inr st \<Longrightarrow> acct_owner c = token_2022_id \<Longrightarrow>
   cell_balance E M k c = - (if mint (base st) = M then int (holdings E st) else 0)"
  using not_mint_if_account [of "acct_data c" st E]
  by (auto simp: cell_balance_def account_tokens_def supply_at_def withheld_at_def split: sum.splits)

lemma cell_balance_mint:
  "unpack (PodMint E) (acct_data c) = Inr mt \<Longrightarrow> acct_owner c = token_2022_id \<Longrightarrow>
   cell_balance E M k c = (if k = M then int (unat (mint_supply (base mt))) - int (unat (mint_withheld E mt)) else 0)"
  using mint_is_no_account [of E "acct_data c" mt]
  by (auto simp: cell_balance_def account_tokens_def supply_at_def withheld_at_def split: sum.splits)

lemma cell_balance_none:
  "(\<And>st. unpack PodAccount (acct_data c) \<noteq> Inr st) \<Longrightarrow> (\<And>mt. unpack (PodMint E) (acct_data c) \<noteq> Inr mt) \<Longrightarrow>
   cell_balance E M k c = 0"
  by (auto simp: cell_balance_def account_tokens_def supply_at_def withheld_at_def split: sum.splits)

lemma cell_balance_same:
  "acct_data c = acct_data c' \<Longrightarrow> acct_owner c = acct_owner c' \<Longrightarrow> cell_balance E M k c = cell_balance E M k c'"
  by (simp add: cell_balance_def account_tokens_def supply_at_def withheld_at_def)

lemma cell_balance_zeros:
  "list_all (\<lambda>b. b = 0) (acct_data c) \<Longrightarrow> pod_bool_ok E \<Longrightarrow> cell_balance E M k c = 0"
  by (rule cell_balance_none) (simp_all add: zeros_unpack)

lemma balance_change:
  assumes ch: "changes_only ks w w'" and E: "pod_bool_ok E"
  shows "balance E M w' - (\<Sum>k\<in>ks. cell_balance E M k (cells w' k)) =
    balance E M w - (\<Sum>k\<in>ks. cell_balance E M k (cells w k))"
proof -
  have "cell_balance E M k (cells w' k) = cell_balance E M k (cells w k)" if "k \<in> UNIV - ks" for k
  proof (cases "acct_owner (cells w k) = token_2022_id")
    case True
    with that ch show ?thesis by (intro cell_balance_same) (auto simp: changes_only_def)
  next
    case False
    with that ch E show ?thesis
      by (cases "acct_owner (cells w' k) = token_2022_id")
         (auto simp: changes_only_def cell_balance_foreign cell_balance_zeros)
  qed
  then have "(\<Sum>k\<in>UNIV - ks. cell_balance E M k (cells w' k)) = (\<Sum>k\<in>UNIV - ks. cell_balance E M k (cells w k))"
    by (rule sum.cong [OF refl])
  then show ?thesis
    unfolding balance_def
    by (simp add: sum.subset_diff [of ks UNIV "\<lambda>k. cell_balance E M k (cells w' k)"]
        sum.subset_diff [of ks UNIV "\<lambda>k. cell_balance E M k (cells w k)"])
qed

text \<open>The one induction step behind every handler: the cells of \<open>ks\<close> are well-formed afterwards, and
  their balance moved by the given amounts.\<close>

lemma ledger_step:
  assumes "ledger_with E f w" "changes_only ks w w'" "pod_bool_ok E"
    "\<And>k. k \<in> ks \<Longrightarrow> acct_owner (cells w' k) = token_2022_id \<Longrightarrow> data_ok E (acct_data (cells w' k))"
    "\<And>M. M \<noteq> native_mint_id \<Longrightarrow>
       (\<Sum>k\<in>ks. cell_balance E M k (cells w' k)) = (\<Sum>k\<in>ks. cell_balance E M k (cells w k)) + g M - f M"
  shows "ledger_with E g w'"
  unfolding ledger_with_def
proof (intro conjI allI impI)
  fix k assume o: "acct_owner (cells w' k) = token_2022_id"
  show "data_ok E (acct_data (cells w' k))"
  proof (cases "k \<in> ks")
    case False
    show ?thesis
    proof (cases "acct_owner (cells w k) = token_2022_id")
      case True
      with False assms(1,2) show ?thesis by (auto simp: changes_only_def ledger_with_def)
    next
      case False
      with \<open>k \<notin> ks\<close> o assms(2) have "list_all (\<lambda>b. b = 0) (acct_data (cells w' k))" by (auto simp: changes_only_def)
      then show ?thesis using assms(3) by (rule data_ok_zeros)
    qed
  qed (use o assms(4) in blast)
next
  fix M :: pubkey assume M: "M \<noteq> native_mint_id"
  with assms(1) have "balance E M w = f M" by (simp add: ledger_with_def)
  with balance_change [OF assms(2,3), of M] assms(5) [OF M] show "balance E M w' = g M" by simp
qed

lemma ledger_data: "ledger_with E f w \<Longrightarrow> owner_of w a = token_2022_id \<Longrightarrow> data_ok E (data_of w a)"
  by (simp add: ledger_with_def owner_of_def data_of_def)

text \<open>One account is rewritten.\<close>

lemma ledger_one:
  assumes "ledger_with E f w" "changes_only {key a} w w'" "pod_bool_ok E" "owner_of w' a = owner_of w a"
    "owner_of w a = token_2022_id \<Longrightarrow> data_ok E (data_of w' a)"
    "\<And>M. owner_of w a = token_2022_id \<Longrightarrow> M \<noteq> native_mint_id \<Longrightarrow>
       cell_balance E M (key a) (cells w' (key a)) = cell_balance E M (key a) (cells w (key a)) + g M - f M"
    "\<And>M. owner_of w a \<noteq> token_2022_id \<Longrightarrow> M \<noteq> native_mint_id \<Longrightarrow> g M = f M"
  shows "ledger_with E g w'"
proof (rule ledger_step [OF assms(1,2,3)])
  fix k assume "k \<in> {key a}" "acct_owner (cells w' k) = token_2022_id"
  with assms(4,5) show "data_ok E (acct_data (cells w' k))" by (simp add: owner_of_def data_of_def)
next
  fix M :: pubkey assume M: "M \<noteq> native_mint_id"
  show "(\<Sum>k\<in>{key a}. cell_balance E M k (cells w' k)) = (\<Sum>k\<in>{key a}. cell_balance E M k (cells w k)) + g M - f M"
  proof (cases "owner_of w a = token_2022_id")
    case True
    with assms(6) M show ?thesis by simp
  next
    case False
    with assms(4,7) M show ?thesis by (simp add: owner_of_def cell_balance_foreign)
  qed
qed

lemma tlv_wf_put [intro]:
  "tlv_wf (ACCOUNT_TYPE S) (tlv_data st) \<Longrightarrow> tlv_wf (ACCOUNT_TYPE S) (tlv_data (put_extension S V v st))"
  unfolding tlv_wf_def put_extension_def
  by (auto dest: represents_put [where v = "ext_type V" and y = "ext_bytes V v"])

section \<open>Rewriting a token account or a mint\<close>

lemma cells_info: "acct_data (cells w (key a)) = data_of w a" "acct_owner (cells w (key a)) = owner_of w a"
  by (simp_all add: data_of_def owner_of_def)

text \<open>How the state of a token account may evolve: the TLV data stays well-formed, the mint is the same,
  and an account does not become native.\<close>

definition evolves :: "pod_account ext_state \<Rightarrow> pod_account ext_state \<Rightarrow> bool" where
  "evolves st st' \<longleftrightarrow>
     (tlv_wf account_type.Account (tlv_data st) \<longrightarrow> tlv_wf account_type.Account (tlv_data st')) \<and>
     mint (base st') = mint (base st) \<and>
     (pod_account_is_native (base st') \<longrightarrow> pod_account_is_native (base st))"

lemma evolves_refl [simp]: "evolves st st"
  by (simp add: evolves_def)

lemma evolves_trans: "evolves st st1 \<Longrightarrow> evolves st1 st2 \<Longrightarrow> evolves st st2"
  by (simp add: evolves_def)

lemma evolves_base:
  "mint b = mint (base st) \<Longrightarrow> is_native b = is_native (base st) \<Longrightarrow> evolves st (st\<lparr>base := b\<rparr>)"
  by (simp add: evolves_def pod_account_is_native_def)

lemma evolves_put: "evolves st (put_extension PodAccount V v st)"
  using tlv_wf_put [of PodAccount st V v] by (simp add: evolves_def)

lemma ledger_account:
  assumes "ledger_with E f w" "changes_only {key a} w w'" "pod_bool_ok E" "owner_of w' a = owner_of w a"
    "unpack PodAccount (data_of w a) = Inr st" "unpack PodAccount (data_of w' a) = Inr st'" "evolves st st'"
    "\<And>M. M \<noteq> native_mint_id \<Longrightarrow> g M = f M + (if owner_of w a = token_2022_id \<and> M = mint (base st)
       then int (holdings E st) - int (holdings E st') else 0)"
  shows "ledger_with E g w'"
proof (rule ledger_one [OF assms(1-4)])
  assume o: "owner_of w a = token_2022_id"
  from data_ok_accountD [OF ledger_data [OF assms(1) o] assms(5)] assms(7)
  show "data_ok E (data_of w' a)" by (intro data_ok_account [OF assms(6)]) (auto simp: evolves_def)
next
  fix M assume "owner_of w a = token_2022_id" "M \<noteq> native_mint_id"
  then show "cell_balance E M (key a) (cells w' (key a)) = cell_balance E M (key a) (cells w (key a)) + g M - f M"
    using assms(4-8) by (auto simp: cell_balance_account cells_info evolves_def)
next
  fix M assume "owner_of w a \<noteq> token_2022_id" "M \<noteq> native_mint_id"
  then show "g M = f M" using assms(8) by simp
qed

lemma ledger_account_store:
  assumes "ledger_with E f w" "pod_bool_ok E" "unpack PodAccount (data_of w a) = Inr st" "live st'" "evolves st st'"
    "mint (base st) = native_mint_id \<or> holdings E st' = holdings E st" "w' = store PodAccount a st' w"
  shows "ledger_with E f w'"
  using assms by (intro ledger_account [of E f w a w' st st']) (auto simp: frame changes_only_store)

lemma ledger_mint:
  assumes "ledger_with E f w" "changes_only {key m} w w'" "pod_bool_ok E" "owner_of w' m = owner_of w m"
    "unpack (PodMint E) (data_of w m) = Inr mt" "unpack (PodMint E) (data_of w' m) = Inr mt'"
    "tlv_wf account_type.Mint (tlv_data mt) \<Longrightarrow> tlv_wf account_type.Mint (tlv_data mt')"
    "\<And>M. M \<noteq> native_mint_id \<Longrightarrow> g M = f M + (if owner_of w m = token_2022_id \<and> M = key m
       then int (unat (mint_supply (base mt'))) - int (unat (mint_withheld E mt'))
          - int (unat (mint_supply (base mt))) + int (unat (mint_withheld E mt)) else 0)"
  shows "ledger_with E g w'"
proof (rule ledger_one [OF assms(1-4)])
  assume o: "owner_of w m = token_2022_id"
  from data_ok_mintD [OF ledger_data [OF assms(1) o] assms(5)] assms(7)
  show "data_ok E (data_of w' m)" by (intro data_ok_mint [OF assms(6)]) auto
next
  fix M assume "owner_of w m = token_2022_id" "M \<noteq> native_mint_id"
  then show "cell_balance E M (key m) (cells w' (key m)) = cell_balance E M (key m) (cells w (key m)) + g M - f M"
    using assms(4-8) by (auto simp: cell_balance_mint cells_info)
next
  fix M assume "owner_of w m \<noteq> token_2022_id" "M \<noteq> native_mint_id"
  then show "g M = f M" using assms(8) by simp
qed

lemma ledger_mint_store:
  assumes "ledger_with E f w" "pod_bool_ok E" "unpack (PodMint E) (data_of w m) = Inr mt" "live_mint_state E mt'"
    "tlv_wf account_type.Mint (tlv_data mt) \<Longrightarrow> tlv_wf account_type.Mint (tlv_data mt')"
    "mint_supply (base mt') = mint_supply (base mt)" "mint_withheld E mt' = mint_withheld E mt"
    "w' = store (PodMint E) m mt' w"
  shows "ledger_with E f w'"
  using assms by (intro ledger_mint [of E f w m w' mt mt']) (auto simp: frame changes_only_store)

text \<open>Writing an extension of a mint other than the fee configuration.\<close>

lemma ledger_mint_put:
  assumes "ledger_with E f w" "pod_bool_ok E" "unpack (PodMint E) (data_of w m) = Inr mt"
    "mint_withheld E (put_extension (PodMint E) V v mt) = mint_withheld E mt"
    "w' = store (PodMint E) m (put_extension (PodMint E) V v mt) w"
  shows "ledger_with E f w'"
  using assms tlv_wf_put [of "PodMint E" mt V v]
  by (intro ledger_mint_store [OF assms(1-3) _ _ _ assms(4,5)]) (simp_all add: unpack_mint_live)

section \<open>Extensions of a state that is not initialised yet\<close>

lemma get_extension_represents:
  "represents (ACCOUNT_TYPE S) es (tlv_data st) \<Longrightarrow>
   get_extension E S V st = Inr x \<longleftrightarrow>
     (\<exists>b. map_of es (ext_type V) = Some b \<and> length b = ext_len V \<and> x = ext_of_bytes V b)"
  by (auto simp: get_extension_def success_simps represents_get)

lemma init_keeps:
  assumes "init_extension_with S V v ow st = Inr st'" "tlv_wf (ACCOUNT_TYPE S) (tlv_data st)"
  obtains es where "represents (ACCOUNT_TYPE S) es (tlv_data st')" "es \<noteq> []"
    "\<And>U x. ext_type (U :: 'u extension) \<noteq> ext_type V \<Longrightarrow>
       get_extension E S U st' = Inr x \<longleftrightarrow> get_extension E S U st = Inr x"
proof -
  from assms(2) obtain es where r: "represents (ACCOUNT_TYPE S) es (tlv_data st)" by (auto simp: tlv_wf_def)
  from assms(1) obtain d where d: "init_extension_bytes (ACCOUNT_TYPE S) (ext_type V) (ext_bytes V v) ow (tlv_data st) = Inr d"
    and st': "tlv_data st' = d" by (auto simp: init_extension_with_def success_simps)
  from represents_init [OF r d] obtain es' where r': "represents (ACCOUNT_TYPE S) es' (tlv_data st')"
    and m: "map_of es' = (map_of es)(ext_type V \<mapsto> ext_bytes V v)" by (auto simp: st')
  from m have "map_of es' (ext_type V) \<noteq> None" by simp
  then have "es' \<noteq> []" by auto
  moreover have "get_extension E S U st' = Inr x \<longleftrightarrow> get_extension E S U st = Inr x"
    if "ext_type (U :: 'u extension) \<noteq> ext_type V" for U x
    using that by (simp add: get_extension_represents [OF r'] get_extension_represents [OF r] m)
  ultimately show ?thesis using that r' by blast
qed


lemma case_result_cong:
  assumes "\<And>x. m' = Inr x \<longleftrightarrow> m = Inr x"
  shows "(case m' of Inl _ \<Rightarrow> z | Inr x \<Rightarrow> g x) = (case m of Inl _ \<Rightarrow> z | Inr x \<Rightarrow> g x)"
proof (cases m)
  case (Inl e)
  with assms show ?thesis by (cases m') auto
next
  case (Inr x)
  with assms [of x] show ?thesis by simp
qed

text \<open>The first extension of a fresh state fixes its kind.\<close>

lemma fresh_check:
  assumes "represents (ACCOUNT_TYPE S) es (tlv_data st)" "es \<noteq> []"
  shows "check_account_type_matches_extension_type S st = Inr ()"
  using first_extension [OF assms] by (simp add: check_account_type_matches_extension_type_def)

lemma put_bytes_Nil [simp]: "put_extension_bytes S v y d = [] \<longleftrightarrow> d = []"
  by (metis length_0_conv length_put)

context base_state_laws
begin

lemma fresh_shape_put [simp]: "fresh_shape S (put_extension S V v st) = fresh_shape S st"
  by (simp add: fresh_shape_def put_extension_def length_state_bytes)

end

lemma represents_put_nonempty:
  assumes "represents (ACCOUNT_TYPE S) es (tlv_data st)" "es \<noteq> []"
  shows "\<exists>es'. represents (ACCOUNT_TYPE S) es' (tlv_data (put_extension S V v st)) \<and> es' \<noteq> []"
proof -
  from represents_put [OF assms(1), of "ext_type V" "ext_bytes V v"] obtain es' where
    "represents (ACCOUNT_TYPE S) es' (put_extension_bytes (ACCOUNT_TYPE S) (ext_type V) (ext_bytes V v) (tlv_data st))"
    "map fst es' = map fst es" by blast
  with assms(2) show ?thesis by (intro exI [of _ es']) (auto simp: put_extension_def)
qed

lemma fresh_mint_written:
  assumes u: "unpack_uninitialized (PodMint E) d = Inr mt" and ok: "data_ok E d"
    and i: "init_extension (PodMint E) V True mt = Inr mt1"
    and z: "ext_type V = extension_type.TransferFeeConfig \<Longrightarrow> mint_withheld E (put_extension (PodMint E) V v mt1) = 0"
  shows "data_ok E (state_bytes (PodMint E) (put_extension (PodMint E) V v mt1))"
    "unpack_uninitialized (PodMint E) (state_bytes (PodMint E) (put_extension (PodMint E) V v mt1)) =
       Inr (put_extension (PodMint E) V v mt1)"
proof -
  let ?st = "put_extension (PodMint E) V v mt1"
  have d: "tlv_wf account_type.Mint (tlv_data mt)" "mint_withheld E mt = 0" "mint_supply (base mt) = 0"
    using ok u by (auto simp: data_ok_def)
  from i have i': "init_extension_with (PodMint E) V (ext_default V) True mt = Inr mt1" by (simp add: init_extension_def)
  from init_keeps [OF i'] d(1) obtain es where es: "represents account_type.Mint es (tlv_data mt1)" "es \<noteq> []"
    and o: "\<And>x. ext_type TransferFeeConfigExt \<noteq> ext_type V \<Longrightarrow>
       get_extension E (PodMint E) TransferFeeConfigExt mt1 = Inr x \<longleftrightarrow>
       get_extension E (PodMint E) TransferFeeConfigExt mt = Inr x" by (metis PodMint_simps(3))
  from represents_put_nonempty [of "PodMint E" es mt1 V v] es obtain es' where
    es': "represents account_type.Mint es' (tlv_data ?st)" "es' \<noteq> []" by auto
  have b: "base mt1 = base mt" using init_extension_base [OF i'] by simp
  have f: "fresh_shape (PodMint E) ?st"
    using pod_mint.unpack_uninitialized_Inr(3) [OF u] pod_mint.fresh_shape_init [OF i'] by simp
  show un: "unpack_uninitialized (PodMint E) (state_bytes (PodMint E) ?st) = Inr ?st"
    using pod_mint.unpack_uninitialized_Inr(2) [OF u] f fresh_check [of "PodMint E" es' ?st] es' b
    by (intro pod_mint.unpack_uninitialized_state_bytes) simp_all
  have "mint_withheld E ?st = 0"
  proof (cases "ext_type V = extension_type.TransferFeeConfig")
    case False
    then have "mint_withheld E ?st = mint_withheld E mt1" by simp
    also have "\<dots> = mint_withheld E mt" unfolding mint_withheld_def using o False by (intro case_result_cong) auto
    finally show ?thesis using d(2) by simp
  qed (rule z)
  then show "data_ok E (state_bytes (PodMint E) ?st)"
    using data_ok_fresh_mint [OF un es'] b d(3) by simp
qed

lemma fresh_account_written:
  assumes u: "unpack_uninitialized PodAccount d = Inr st" and ok: "data_ok E d"
    and i: "init_extension PodAccount V True st = Inr st1" and V: "ext_type V \<noteq> TransferFeeAmount"
  shows "data_ok E (state_bytes PodAccount (put_extension PodAccount V v st1))"
    "unpack_uninitialized PodAccount (state_bytes PodAccount (put_extension PodAccount V v st1)) =
       Inr (put_extension PodAccount V v st1)"
proof -
  let ?st = "put_extension PodAccount V v st1"
  have d: "tlv_wf account_type.Account (tlv_data st)" "withheld E st = 0" using ok u by (auto simp: data_ok_def)
  from i have i': "init_extension_with PodAccount V (ext_default V) True st = Inr st1" by (simp add: init_extension_def)
  from init_keeps [OF i'] d(1) obtain es where es: "represents account_type.Account es (tlv_data st1)" "es \<noteq> []"
    and o: "\<And>x. ext_type TransferFeeAmountExt \<noteq> ext_type V \<Longrightarrow>
       get_extension E PodAccount TransferFeeAmountExt st1 = Inr x \<longleftrightarrow>
       get_extension E PodAccount TransferFeeAmountExt st = Inr x" by (metis PodAccount_simps(3))
  from represents_put_nonempty [of PodAccount es st1 V v] es obtain es' where
    es': "represents account_type.Account es' (tlv_data ?st)" "es' \<noteq> []" by auto
  have b: "base st1 = base st" using init_extension_base [OF i'] by simp
  have f: "fresh_shape PodAccount ?st"
    using pod_account.unpack_uninitialized_Inr(3) [OF u] pod_account.fresh_shape_init [OF i'] by simp
  show un: "unpack_uninitialized PodAccount (state_bytes PodAccount ?st) = Inr ?st"
    using pod_account.unpack_uninitialized_Inr(2) [OF u] f fresh_check [of PodAccount es' ?st] es' b
    by (intro pod_account.unpack_uninitialized_state_bytes) simp_all
  have "withheld E ?st = withheld E st1" using V by (simp add: withheld_def)
  also have "\<dots> = withheld E st" unfolding withheld_def using o V by (intro case_result_cong) auto
  finally show "data_ok E (state_bytes PodAccount ?st)" using data_ok_fresh_account [OF un es'] d(2) by simp
qed

lemma ledger_none:
  assumes "ledger_with E f w" "changes_only {key a} w w'" "pod_bool_ok E" "owner_of w' a = owner_of w a"
    "\<And>st. unpack PodAccount (data_of w a) \<noteq> Inr st" "\<And>mt. unpack (PodMint E) (data_of w a) \<noteq> Inr mt"
    "\<And>st. unpack PodAccount (data_of w' a) \<noteq> Inr st" "\<And>mt. unpack (PodMint E) (data_of w' a) \<noteq> Inr mt"
    "owner_of w a = token_2022_id \<Longrightarrow> data_ok E (data_of w' a)"
  shows "ledger_with E f w'"
  using assms by (intro ledger_one [OF assms(1-4)]) (simp_all add: cell_balance_none cells_info)

lemma fresh_not_live:
  "unpack_uninitialized PodAccount d = Inr st \<Longrightarrow> unpack PodAccount d \<noteq> Inr st'"
  "unpack_uninitialized PodAccount d = Inr st \<Longrightarrow> unpack (PodMint E) d \<noteq> Inr mt'"
  "unpack_uninitialized (PodMint E) d = Inr mt \<Longrightarrow> unpack PodAccount d \<noteq> Inr st'"
  "unpack_uninitialized (PodMint E) d = Inr mt \<Longrightarrow> unpack (PodMint E) d \<noteq> Inr mt'"
  using one_kind by blast+

lemma ledger_fresh_mint:
  assumes "ledger_with E f w" "pod_bool_ok E" "unpack_uninitialized (PodMint E) (data_of w a) = Inr mt"
    "init_extension (PodMint E) V True mt = Inr mt1"
    "ext_type V = extension_type.TransferFeeConfig \<Longrightarrow> mint_withheld E (put_extension (PodMint E) V v mt1) = 0"
    "w' = store (PodMint E) a (put_extension (PodMint E) V v mt1) w"
  shows "ledger_with E f w'"
proof (cases "owner_of w a = token_2022_id")
  case True
  from fresh_mint_written [OF assms(3) ledger_data [OF assms(1) True] assms(4,5)]
  show ?thesis using fresh_not_live(3,4) [OF assms(3)] fresh_not_live(3,4)
    by (intro ledger_none [OF assms(1) _ assms(2)]) (auto simp: assms(6) frame changes_only_store)
next
  case False
  then show ?thesis
    by (intro ledger_one [OF assms(1) _ assms(2)]) (auto simp: assms(6) frame changes_only_store)
qed

lemma ledger_fresh_account:
  assumes "ledger_with E f w" "pod_bool_ok E" "unpack_uninitialized PodAccount (data_of w a) = Inr st"
    "init_extension PodAccount V True st = Inr st1" "ext_type V \<noteq> TransferFeeAmount"
    "w' = store PodAccount a (put_extension PodAccount V v st1) w"
  shows "ledger_with E f w'"
proof (cases "owner_of w a = token_2022_id")
  case True
  from fresh_account_written [OF assms(3) ledger_data [OF assms(1) True] assms(4,5)]
  show ?thesis using fresh_not_live(1,2) [OF assms(3)] fresh_not_live(1,2)
    by (intro ledger_none [OF assms(1) _ assms(2)]) (auto simp: assms(6) frame changes_only_store)
next
  case False
  then show ?thesis
    by (intro ledger_one [OF assms(1) _ assms(2)]) (auto simp: assms(6) frame changes_only_store)
qed

end
