(* ===== verification/Ledger_Steps.thy ===== *)
theory Ledger_Steps
  imports Ledger
begin

text \<open>
  Every handler keeps the ledger: one lemma \<open>keeps_\<dots>\<close> per handler, collected under
  \<open>keeps\<close>, each for any list of accounts and any arguments.
\<close>

named_theorems keeps \<open>the handlers that keep the ledger\<close>

lemma env_okD:
  "env_ok E \<Longrightarrow> pod_bool_ok E" "env_ok E \<Longrightarrow> cpi_preserves E" "env_ok E \<Longrightarrow> realloc_ok E"
  "env_ok E \<Longrightarrow> system_contract E"
  by (simp_all add: env_ok_def)

section \<open>Initialisation\<close>

text \<open>Any extension but the fee configuration.\<close>

lemma keeps_init_mint:
  assumes "ledger_with E L w" "env_ok E" "ext_type V \<noteq> extension_type.TransferFeeConfig"
    "init_uninitialized (PodMint E) V value accounts w = Inr w' \<or> init_checked (PodMint E) V value accounts w = Inr w'"
  shows "ledger_with E L w'"
proof -
  from assms(4) obtain a mt mt1 v where u: "unpack_uninitialized (PodMint E) (data_of w a) = Inr mt"
    and i: "init_extension (PodMint E) V True mt = Inr mt1"
    and w': "w' = store (PodMint E) a (put_extension (PodMint E) V v mt1) w"
    by (auto simp: init_uninitialized_def init_checked_def success_simps)
  show ?thesis using assms(1,3)
    by (intro ledger_fresh_mint [OF _ env_okD(1) [OF assms(2)] u i _ w']) auto
qed

lemma keeps_init_uninitialized:
  "init_uninitialized (PodMint E) V value accounts w = Inr w' \<Longrightarrow> ledger_with E L w \<Longrightarrow> env_ok E \<Longrightarrow>
   ext_type V \<noteq> extension_type.TransferFeeConfig \<Longrightarrow> ledger_with E L w'"
  by (rule keeps_init_mint) auto

lemma keeps_init_checked:
  "init_checked (PodMint E) V value accounts w = Inr w' \<Longrightarrow> ledger_with E L w \<Longrightarrow> env_ok E \<Longrightarrow>
   ext_type V \<noteq> extension_type.TransferFeeConfig \<Longrightarrow> ledger_with E L w'"
  by (rule keeps_init_mint) auto

lemma non_transferable_type [simp]: "ext_type NonTransferableExt = extension_type.NonTransferable"
  by (simp add: ext_defs)

lemmas initialize_extension_defs =
  process_initialize_mint_close_authority_def process_initialize_non_transferable_mint_def
  process_initialize_permanent_delegate_def process_initialize_default_account_state_def
  metadata_pointer_initialize_def group_pointer_initialize_def group_member_pointer_initialize_def
  transfer_hook_initialize_def interest_bearing_initialize_def

lemma keeps_initialize_extensions [keeps]:
  assumes "ledger_with E L w" "env_ok E"
    "process_initialize_mint_close_authority E accounts k w = Inr w' \<or>
     process_initialize_non_transferable_mint E accounts w = Inr w' \<or>
     process_initialize_permanent_delegate E accounts d w = Inr w' \<or>
     process_initialize_default_account_state E accounts s w = Inr w' \<or>
     metadata_pointer_initialize E accounts ma mb w = Inr w' \<or>
     group_pointer_initialize E accounts ma mb w = Inr w' \<or>
     group_member_pointer_initialize E accounts ma mb w = Inr w' \<or>
     transfer_hook_initialize E p accounts ma mb w = Inr w' \<or>
     interest_bearing_initialize E accounts ma r w = Inr w'"
  shows "ledger_with E L w'"
  using assms(3) unfolding initialize_extension_defs success_simps
proof (elim disjE exE conjE)
qed (erule keeps_init_uninitialized keeps_init_checked, rule assms(1), rule assms(2), simp)+

text \<open>The fee configuration starts with nothing withheld.\<close>

lemma keeps_initialize_transfer_fee_config [keeps]:
  assumes "ledger_with E L w" "env_ok E"
    "process_initialize_transfer_fee_config E accounts ca wa bps m w = Inr w'"
  shows "ledger_with E L w'"
proof -
  from assms(3) obtain a mt mt1 c where u: "unpack_uninitialized (PodMint E) (data_of w a) = Inr mt"
    and i: "init_extension (PodMint E) TransferFeeConfigExt True mt = Inr mt1"
    and c: "initial_fee_config E ca wa bps m = Inr c"
    and w': "w' = store (PodMint E) a (put_extension (PodMint E) TransferFeeConfigExt c mt1) w"
    by (auto simp: process_initialize_transfer_fee_config_def init_uninitialized_def success_simps)
  have "config_withheld_amount c = 0" using c by (auto simp: initial_fee_config_def success_simps Let_def)
  then have "mint_withheld E (put_extension (PodMint E) TransferFeeConfigExt c mt1) = 0"
    using mint_withheld_put_config [OF mint_transfer_fee_config.get_init_extension [OF i]] by simp
  then show ?thesis using assms(1)
    by (intro ledger_fresh_mint [OF _ env_okD(1) [OF assms(2)] u i _ w']) auto
qed

lemma keeps_initialize_immutable_owner [keeps]:
  assumes "ledger_with E L w" "env_ok E" "process_initialize_immutable_owner accounts w = Inr w'"
  shows "ledger_with E L w'"
proof -
  from assms(3) obtain a st st1 where u: "unpack_uninitialized PodAccount (data_of w a) = Inr st"
    and i: "init_extension PodAccount ImmutableOwnerExt True st = Inr st1"
    and w': "w' = store PodAccount a (put_extension PodAccount ImmutableOwnerExt () st1) w"
    by (auto simp: process_initialize_immutable_owner_def init_uninitialized_def success_simps)
  show ?thesis using assms(1)
    by (intro ledger_fresh_account [OF _ env_okD(1) [OF assms(2)] u i _ w']) auto
qed

lemma keeps_initialize_mint [keeps]:
  assumes "ledger_with E L w" "env_ok E" "process_initialize_mint_with E accounts decs ma fa sysvar w = Inr w'"
  shows "ledger_with E L w'"
proof -
  from assms(3) obtain a it where "accounts = a # it" by (auto simp: process_initialize_mint_with_def success_simps)
  from assms(3) [unfolded this] show ?thesis
  proof (rule initialize_mint_Inr)
    fix old st :: "pod_mint ext_state" and ts
    let ?b = "(base old)\<lparr>mint_authority := pod_some ma, decimals := decs,
       is_initialized := pod_of_bool E True, freeze_authority := fa\<rparr>"
    assume u: "unpack_uninitialized (PodMint E) (data_of w a) = Inr old"
      and i: "init_account_type (PodMint E) (old\<lparr>base := ?b\<rparr>) = Inr st" and w': "w' = store (PodMint E) a st w"
    note E = env_okD(1) [OF assms(2)]
    have f: "fresh_shape (PodMint E) (old\<lparr>base := ?b\<rparr>)" using pod_mint.unpack_uninitialized_Inr(3) [OF u] by simp
    note st = pod_mint.init_account_type_Inr [OF i f]
    have unp: "unpack (PodMint E) (data_of w' a) = Inr st"
      using pod_mint.init_account_type_unpack [OF i f] E by (simp add: w' frame pod_mint_is_initialized_def pod_bool_True)
    have mw: "mint_withheld E st = mint_withheld E old"
      using get_extension_tlv [of st old E "PodMint E" TransferFeeConfigExt] st(2) by (simp add: mint_withheld_def)
    have old: "tlv_wf account_type.Mint (tlv_data old) \<and> mint_withheld E old = 0 \<and> mint_supply (base old) = 0"
      if "owner_of w a = token_2022_id"
      using ledger_data [OF assms(1) that] u by (auto simp: data_ok_def)
    show ?thesis
      using assms(1)
    proof (rule ledger_one [where a = a])
      show "changes_only {key a} w w'" unfolding w' by (rule changes_only_store)
      show "owner_of w' a = owner_of w a" by (simp add: w' frame)
      assume o: "owner_of w a = token_2022_id"
      show "data_ok E (data_of w' a)" using old [OF o] st(2) by (intro data_ok_mint [OF unp]) simp
      show "cell_balance E M (key a) (cells w' (key a)) = cell_balance E M (key a) (cells w (key a)) + L M - L M" for M
        using old [OF o] unp o st(1) mw fresh_not_live(3,4) [OF u]
          cell_balance_mint [of E "cells w' (key a)" st] cell_balance_none [of "cells w (key a)" E]
        by (simp add: cells_info) (simp add: w' frame)
    qed (simp_all add: E)
  qed
qed

lemma keeps_initialize_multisig [keeps]:
  assumes "ledger_with E L w" "env_ok E" "process_initialize_multisig_with E accounts m sysvar w = Inr w'"
  shows "ledger_with E L w'"
proof -
  from assms(3) obtain a it and old :: pod_multisig and ks n i where len: "length (data_of w a) = PodMultisig_SIZE_OF"
    and ks: "write_signers it 0 (signers old) = Inr ks" "length (signers old) = MAX_SIGNERS"
    and w': "w' = set_data a (pod_multisig_bytes
      \<lparr>multisig_m = m, multisig_n = n, multisig_is_initialized = i, signers = ks\<rparr>) w"
    by (auto simp: process_initialize_multisig_with_def success_simps Let_def pod_multisig_from_bytes_Inr)
  have l: "length (data_of w' a) = Multisig_LEN" "length (data_of w a) = Multisig_LEN"
    using write_signers_Inr [OF ks(1)] ks(2) len
    by (simp_all add: w' frame length_pod_multisig_bytes PodMultisig_SIZE_OF_def Multisig_LEN_def)
  have "changes_only {key a} w w'" by (rule changes_only_same) (simp add: w' frame)
  moreover have "owner_of w' a = owner_of w a" by (simp add: w' frame)
  ultimately show ?thesis
   
    by (rule ledger_none [OF assms(1) _ env_okD(1) [OF assms(2)]])
       (simp_all add: multisig_length l data_ok_multisig)
qed

lemma init_one_keeps:
  assumes "init_extension PodAccount V True st = Inr st1" "tlv_wf account_type.Account (tlv_data st)" "withheld E st = 0"
  shows "tlv_wf account_type.Account (tlv_data st1)" "ext_type V \<noteq> TransferFeeAmount \<Longrightarrow> withheld E st1 = 0"
proof -
  from assms(1) have i': "init_extension_with PodAccount V (ext_default V) True st = Inr st1" by (simp add: init_extension_def)
  from init_keeps [OF i'] assms(2) obtain es where es: "represents account_type.Account es (tlv_data st1)"
    and o: "\<And>x. ext_type TransferFeeAmountExt \<noteq> ext_type V \<Longrightarrow>
       get_extension E PodAccount TransferFeeAmountExt st1 = Inr x \<longleftrightarrow>
       get_extension E PodAccount TransferFeeAmountExt st = Inr x" by (metis PodAccount_simps(3))
  from es show "tlv_wf account_type.Account (tlv_data st1)" by (auto simp: tlv_wf_def)
  assume V: "ext_type V \<noteq> TransferFeeAmount"
  have "withheld E st1 = withheld E st" unfolding withheld_def using o V by (intro case_result_cong) auto
  then show "withheld E st1 = 0" using assms(3) by simp
qed

lemma init_required_keeps:
  assumes "init_required_extensions ts st = Inr st'" "tlv_wf account_type.Account (tlv_data st)" "withheld E st = 0"
  shows "tlv_wf account_type.Account (tlv_data st') \<and> withheld E st' = 0"
  using assms
proof (induction ts arbitrary: st)
  case (Cons t ts)
  from Cons.prems(1) obtain st1 where one: "init_account_extension_from_type t st = Inr st1"
    and rest: "init_required_extensions ts st1 = Inr st'" by (auto simp: success_simps)
  have fee: "withheld E st1 = 0" if "init_extension PodAccount TransferFeeAmountExt True st = Inr st1"
    using account_fee_amount.get_init_extension [OF that, of E] by (simp add: withheld_def) (simp add: ext_defs)
  from one have "tlv_wf account_type.Account (tlv_data st1) \<and> withheld E st1 = 0"
    using Cons.prems(2,3) fee
    by (auto simp: init_account_extension_from_type_def dest: init_one_keeps [OF _ Cons.prems(2,3)] split: if_splits)
  with rest Cons.IH show ?case by blast
qed simp

lemma initialize_account_with_None:
  "process_initialize_account_with E (a # m # o1 # it) None sysvar w =
   process_initialize_account_with E (a # m # it) (Some (key o1)) sysvar w"
  by (simp add: process_initialize_account_with_def)

text \<open>A mint whose default state is \<open>Uninitialized\<close> would make such an account; it counts as nothing.\<close>

lemma state_bytes_account_length:
  "shape_ok PodAccount st \<Longrightarrow> length (state_bytes PodAccount st) = 165 \<or>
     166 < length (state_bytes PodAccount st) \<and> state_bytes PodAccount st ! 165 = 2"
  by (auto simp: shape_ok_def state_bytes_def nth_append PodAccount_SIZE_OF_def BASE_ACCOUNT_LENGTH_def Account_LEN_def)

lemma uninitialized_account_data:
  assumes "shape_ok PodAccount st" "\<not> pod_account_is_initialized (base st)"
  defines "d \<equiv> state_bytes PodAccount st"
  shows "unpack PodAccount d \<noteq> Inr st'" "unpack (PodMint E) d \<noteq> Inr mt" "data_ok E d"
proof -
  note len = state_bytes_account_length [OF assms(1), folded d_def]
  show a: "unpack PodAccount d \<noteq> Inr st'" for st'
  proof
    assume "unpack PodAccount d = Inr st'"
    then have "d = state_bytes PodAccount st'" "pod_account_is_initialized (base st')" by (simp_all add: pod_account.unpack_iff)
    moreover from this(1) have "base st' = base st"
      using pod_account.state_bytes_split(1) [of st] pod_account.state_bytes_split(1) [of st']
      by (metis PodAccount_simps(4) d_def pod_account_of_bytes_bytes)
    ultimately show False using assms(2) by simp
  qed
  show m: "unpack (PodMint E) d \<noteq> Inr mt" for mt using len shape_length(2) [of E d mt] by auto
  have "unpack_uninitialized (PodMint E) d \<noteq> Inr mt" for mt using len fresh_mint_length [of E d mt] by auto
  moreover have "tlv_wf account_type.Account (tlv_data st0) \<and> withheld E st0 = 0" if "unpack_uninitialized PodAccount d = Inr st0" for st0
  proof -
    have "length d = 165" using fresh_account_length [OF that] len by auto
    then have t: "tlv_data st0 = []" using fresh_account_tlv(1) [OF that] by simp
    have r: "represents account_type.Account [] []" using represents_zeros [of account_type.Account 0] by simp
    have "get_extension E PodAccount TransferFeeAmountExt st0 \<noteq> Inr x" for x
      using represents_nothing [OF r] t by (auto simp: get_extension_def success_simps)
    then have "withheld E st0 = 0" by (auto simp: withheld_def split: sum.splits)
    with r t show ?thesis by (auto simp: tlv_wf_def)
  qed
  ultimately show "data_ok E d" using a m by (auto simp: data_ok_def)
qed

lemma keeps_initialize_account_Some:
  assumes "ledger_with E L w" "env_ok E" "process_initialize_account_with E (a # m # it) (Some p) sysvar w = Inr w'"
  shows "ledger_with E L w'"
  using assms(3)
proof (rule initialize_account_Inr)
  fix rent and old old2 st :: "pod_account ext_state" and mt required s b
  assume u: "unpack_uninitialized PodAccount (data_of w a) = Inr old"
    and ie: "init_required_extensions required old = Inr old2"
    and b: "new_account_base (key m) p s rent (lamports_of w a) (length (data_of w a)) = Inr b"
    and i: "init_account_type PodAccount (old2\<lparr>base := b\<rparr>) = Inr st"
    and w': "w' = store PodAccount a st w"
  note E = env_okD(1) [OF assms(2)]
  from init_required_Inr [OF ie, of E] obtain d where d: "old2 = old\<lparr>tlv_data := d\<rparr>" "length d = length (tlv_data old)"
    by blast
  have f: "fresh_shape PodAccount (old2\<lparr>base := b\<rparr>)"
    using pod_account.unpack_uninitialized_Inr(3) [OF u] d by (simp add: fresh_shape_tlv)
  note st = pod_account.init_account_type_Inr [OF i f]
  note b' = new_account_base_Inr [OF b]
  have wh: "withheld E st = withheld E old2"
    using get_extension_tlv [of st old2 E PodAccount TransferFeeAmountExt] st(2) by (simp add: withheld_def)
  have nat: "pod_account_is_native (base st) \<Longrightarrow> mint (base st) = native_mint_id" and am: "mint (base st) \<noteq> native_mint_id \<Longrightarrow> amount (base st) = 0"
    using b'(1,7) st(1) by (auto simp: pod_account_is_native_def split: if_splits)
  have ok: "tlv_wf account_type.Account (tlv_data st) \<and> withheld E st = 0" if "owner_of w a = token_2022_id"
  proof -
    have "tlv_wf account_type.Account (tlv_data old)" "withheld E old = 0"
      using ledger_data [OF assms(1) that] u by (auto simp: data_ok_def)
    from init_required_keeps [OF ie this] st(2) wh show ?thesis by simp
  qed
  have d': "data_of w' a = state_bytes PodAccount st" "owner_of w' a = owner_of w a" by (simp_all add: w' frame)
  show ?thesis
    using assms(1)
  proof (rule ledger_one [where a = a])
    show "changes_only {key a} w w'" unfolding w' by (rule changes_only_store)
    assume o: "owner_of w a = token_2022_id"
    show "data_ok E (data_of w' a)"
    proof (cases "pod_account_is_initialized (base st)")
      case True
      then have "unpack PodAccount (data_of w' a) = Inr st" using st(3) by (simp add: d')
      then show ?thesis using ok [OF o] nat by (intro data_ok_account) auto
    next
      case False
      from uninitialized_account_data(3) [OF st(3) this] show ?thesis by (simp add: d')
    qed
    have "cell_balance E M (key a) (cells w (key a)) = 0" for M
      using fresh_not_live(1,2) [OF u] by (intro cell_balance_none) (simp_all add: cells_info)
    moreover have "cell_balance E M (key a) (cells w' (key a)) = 0" if "M \<noteq> native_mint_id" for M
    proof (cases "pod_account_is_initialized (base st)")
      case True
      then have "unpack PodAccount (data_of w' a) = Inr st" using st(3) by (simp add: d')
      then show ?thesis using o d'(2) ok [OF o] am that
        by (subst cell_balance_account [where st = st]) (auto simp: cells_info holdings_def)
    next
      case False
      from uninitialized_account_data(1,2) [OF st(3) this] show ?thesis
        by (intro cell_balance_none) (simp_all add: cells_info d')
    qed
    ultimately show "cell_balance E M (key a) (cells w' (key a)) = cell_balance E M (key a) (cells w (key a)) + L M - L M"
      if "M \<noteq> native_mint_id" for M
      using that by simp
  qed (simp_all add: E d')
qed

lemma keeps_initialize_account [keeps]:
  assumes "ledger_with E L w" "env_ok E" "process_initialize_account_with E accounts p sysvar w = Inr w'"
  shows "ledger_with E L w'"
proof -
  from assms(3) obtain a m it where "accounts = a # m # it"
    by (auto simp: process_initialize_account_with_def success_simps)
  moreover from assms(3) this obtain o1 it' where "p = None \<Longrightarrow> it = o1 # it'"
    by (cases p) (auto simp: process_initialize_account_with_def success_simps)
  ultimately show ?thesis using assms
    by (cases p) (auto simp: initialize_account_with_None intro: keeps_initialize_account_Some)
qed

end
