(* ===== verification/Ledger_Updates.thy ===== *)
theory Ledger_Updates
  imports Ledger_Steps
begin

text \<open>
  The handlers that rewrite one token account or one mint, or only lamports, keep the ledger: no
  tokens appear and none vanish.
\<close>

section \<open>One token account\<close>

text \<open>A new value for the fields of a token account that do not count.\<close>

lemma keeps_base:
  assumes "ledger_with E L w" "env_ok E" "unpack PodAccount (data_of w a) = Inr st"
    "w' = store PodAccount a (st\<lparr>base := b\<rparr>) w"
    "mint b = mint (base st)" "is_native b = is_native (base st)" "amount b = amount (base st)"
    "live (st\<lparr>base := b\<rparr>)"
  shows "ledger_with E L w'"
  by (rule ledger_account_store [OF assms(1) env_okD(1) [OF assms(2)] assms(3,8)
        evolves_base [OF assms(5,6)] _ assms(4)])
     (simp add: holdings_def assms(7))

lemma keeps_approve [keeps]:
  assumes "ledger_with E L w" "env_ok E" "process_approve E p accounts amt dec w = Inr w'"
  shows "ledger_with E L w'"
proof -
  from assms(3) obtain a src and d :: account_info where u: "unpack PodAccount (data_of w a) = Inr src"
    and w': "w' = store PodAccount a (src\<lparr>base := (base src)\<lparr>delegate := pod_some (key d), delegated_amount := amt\<rparr>\<rparr>) w"
    unfolding process_approve_def by (auto simp: success_simps)
  show ?thesis by (rule keeps_base [OF assms(1,2) u w']) (use u in \<open>simp_all add: unpack_account_live\<close>)
qed

lemma keeps_revoke [keeps]:
  assumes "ledger_with E L w" "env_ok E" "process_revoke E p accounts w = Inr w'"
  shows "ledger_with E L w'"
proof -
  from assms(3) obtain a and src :: "pod_account ext_state" where u: "unpack PodAccount (data_of w a) = Inr src"
    and w': "w' = store PodAccount a (src\<lparr>base := (base src)\<lparr>delegate := pod_none, delegated_amount := 0\<rparr>\<rparr>) w"
    unfolding process_revoke_def by (auto simp: success_simps)
  show ?thesis by (rule keeps_base [OF assms(1,2) u w']) (use u in \<open>simp_all add: unpack_account_live\<close>)
qed

lemma keeps_toggle_freeze [keeps]:
  assumes "ledger_with E L w" "env_ok E" "process_toggle_freeze_account E p accounts freeze w = Inr w'"
  shows "ledger_with E L w'"
proof -
  from assms(3) obtain a m auth rest where "accounts = a # m # auth # rest"
    by (auto simp: process_toggle_freeze_account_def success_simps)
  from assms(3) [unfolded this] show ?thesis
  proof (rule process_toggle_freeze_account_Inr)
    fix src :: "pod_account ext_state"
    let ?b = "(base src)\<lparr>state := account_state_u8 (if freeze then Frozen else account_state.Initialized)\<rparr>"
    assume u: "unpack PodAccount (data_of w a) = Inr src" and w': "w' = store PodAccount a (src\<lparr>base := ?b\<rparr>) w"
    have "live (src\<lparr>base := ?b\<rparr>)"
      using u by (simp add: unpack_account_live) (simp add: live_def pod_account_is_initialized_def)
    then show ?thesis by (intro keeps_base [OF assms(1,2) u w']) simp_all
  qed
qed

text \<open>\<open>SyncNative\<close> makes tokens out of lamports, of the native mint only.\<close>

lemma keeps_sync_native [keeps]:
  assumes "ledger_with E L w" "env_ok E" "process_sync_native accounts w = Inr w'"
  shows "ledger_with E L w'"
proof -
  from assms(3) obtain a st n reserve where o: "owner_of w a = token_2022_id"
    and u: "unpack PodAccount (data_of w a) = Inr st" and r: "pod_match_some (is_native (base st)) = Some reserve"
    and w': "w' = store PodAccount a (st\<lparr>base := (base st)\<lparr>amount := n\<rparr>\<rparr>) w"
    by (auto simp: process_sync_native_def success_simps split: option.splits)
  note l = assms(1)
  have "mint (base st) = native_mint_id"
    using data_ok_accountD(2) [OF ledger_data [OF l o] u] r by (simp add: pod_account_is_native_def pod_is_some_def pod_match_some_def split: if_splits)
  moreover have "live (st\<lparr>base := (base st)\<lparr>amount := n\<rparr>\<rparr>)" using u by (simp add: unpack_account_live)
  ultimately show ?thesis
    by (intro ledger_account_store [OF l env_okD(1) [OF assms(2)] u _ evolves_base _ w']) auto
qed

text \<open>The switches.\<close>

lemma switch_evolves:
  assumes "set_switch E V enable st = Inr st'" "ext_type V \<noteq> TransferFeeAmount"
    "tlv_wf account_type.Account (tlv_data st)"
  shows "tlv_wf account_type.Account (tlv_data st') \<and> withheld E st' = withheld E st"
proof (cases "get_extension E PodAccount V st")
  case (Inr b)
  with assms(1) have st': "st' = put_extension PodAccount V (pod_of_bool E enable) st" by (simp add: set_switch_def)
  show ?thesis using tlv_wf_put [of PodAccount st V] assms(2,3) by (simp add: st' withheld_def)
next
  case (Inl e)
  with assms(1) obtain st1 where i: "init_extension_with PodAccount V (ext_default V) True st = Inr st1"
    and st': "st' = put_extension PodAccount V (pod_of_bool E enable) st1"
    by (auto simp: set_switch_def init_extension_def success_simps)
  from init_keeps [OF i] assms(3) obtain es where es: "represents account_type.Account es (tlv_data st1)"
    and o: "\<And>x. ext_type TransferFeeAmountExt \<noteq> ext_type V \<Longrightarrow>
       get_extension E PodAccount TransferFeeAmountExt st1 = Inr x \<longleftrightarrow>
       get_extension E PodAccount TransferFeeAmountExt st = Inr x" by (metis PodAccount_simps(3))
  have "tlv_wf account_type.Account (tlv_data st1)" using es by (auto simp: tlv_wf_def)
  moreover have "withheld E st1 = withheld E st" unfolding withheld_def using o assms(2) by (intro case_result_cong) auto
  ultimately show ?thesis using tlv_wf_put [of PodAccount st1 V] assms(2) by (simp add: st' withheld_def)
qed

lemma keeps_switch:
  assumes "ledger_with E L w" "env_ok E" "unpack PodAccount (data_of w a) = Inr st" "set_switch E V enable st = Inr st'"
    "w' = store PodAccount a st' w" "ext_type V \<noteq> TransferFeeAmount" "base st' = base st" "live st' = live st"
  shows "ledger_with E L w'"
proof (cases "owner_of w a = token_2022_id")
  case True
  note l = assms(1)
  from switch_evolves [OF assms(4,6) data_ok_accountD(1) [OF ledger_data [OF l True] assms(3)]]
  show ?thesis using assms(3,7,8)
    by (intro ledger_account_store [OF l env_okD(1) [OF assms(2)] assms(3) _ _ _ assms(5)])
       (auto simp: unpack_account_live evolves_def holdings_def)
next
  case False
  then show ?thesis
    by (intro ledger_one [OF assms(1) _ env_okD(1) [OF assms(2)], where a = a])
       (auto simp: assms(5) frame changes_only_store)
qed

lemma keeps_toggle_required_memo_transfers [keeps]:
  assumes "ledger_with E L w" "env_ok E" "process_toggle_required_memo_transfers E p accounts enable w = Inr w'"
  shows "ledger_with E L w'"
proof -
  from assms(3) obtain a st st' where u: "unpack PodAccount (data_of w a) = Inr st"
    and s: "set_switch E MemoTransferExt enable st = Inr st'" and w': "w' = store PodAccount a st' w"
    by (auto simp: process_toggle_required_memo_transfers_def success_simps)
  show ?thesis by (rule keeps_switch [OF assms(1,2) u s w' _ memo_switch(1,2) [OF s]]) simp
qed

lemma keeps_toggle_cpi_guard [keeps]:
  assumes "ledger_with E L w" "env_ok E" "process_toggle_cpi_guard E p accounts enable w = Inr w'"
  shows "ledger_with E L w'"
proof -
  from assms(3) obtain a st st' where u: "unpack PodAccount (data_of w a) = Inr st"
    and s: "set_switch E CpiGuardExt enable st = Inr st'" and w': "w' = store PodAccount a st' w"
    by (auto simp: process_toggle_cpi_guard_def success_simps)
  show ?thesis by (rule keeps_switch [OF assms(1,2) u s w' _ cpi_switch(1,2) [OF s]]) simp
qed

lemma keeps_reallocate [keeps]:
  assumes "ledger_with E L w" "env_ok E" "process_reallocate E p accounts ts w = Inr w'"
  shows "ledger_with E L w'"
proof -
  note l = assms(1)
  from assms(3) obtain a payer sys auth rest where "accounts = a # payer # sys # auth # rest"
    by (auto simp: process_reallocate_def success_simps)
  from assms(3) [unfolded this] show ?thesis
  proof (rule process_reallocate_Inr [OF _ env_okD(3,4) [OF assms(2)]])
    fix st st' k
    assume *: "unpack PodAccount (data_of w a) = Inr st" "unpack PodAccount (data_of w' a) = Inr st'"
      "tlv_data st' = tlv_data st @ replicate k 0" "changes_only {key a} w w'" "owner_of w' a = owner_of w a"
      "is_native (base st') \<noteq> is_native (base st) \<Longrightarrow> pod_account_is_native (base st')"
      "base st' = base st \<or> pod_account_is_native (base st)"
      "mint (base st') = mint (base st)" "amount (base st') = amount (base st)"
    show ?thesis
    proof (cases "owner_of w a = token_2022_id")
      case True
      from data_ok_accountD [OF ledger_data [OF l True] *(1)]
      obtain es where r: "represents account_type.Account es (tlv_data st)" by (auto simp: tlv_wf_def)
      from represents_extend [OF r] have r': "represents account_type.Account es (tlv_data st')" by (simp add: *(3))
      have "withheld E st' = withheld E st" unfolding withheld_def
        using r r' by (intro case_result_cong) (simp add: get_extension_represents [of PodAccount es])
      then have h: "holdings E st' = holdings E st" using *(9) by (simp add: holdings_def)
      have "evolves st st'" using r' *(7,8) by (auto simp: evolves_def tlv_wf_def)
      with h show ?thesis
        by (intro ledger_account [OF l *(4) env_okD(1) [OF assms(2)] *(5,1,2)]) auto
    next
      case False
      then show ?thesis
        by (intro ledger_one [OF l *(4) env_okD(1) [OF assms(2)] *(5)]) auto
    qed
  qed
qed

section \<open>One mint\<close>

lemma keeps_put:
  assumes "ledger_with E L w" "env_ok E" "unpack (PodMint E) (data_of w m) = Inr mt"
    "mint_withheld E (put_extension (PodMint E) V v mt) = mint_withheld E mt"
    "w' = store (PodMint E) m (put_extension (PodMint E) V v mt) w"
  shows "ledger_with E L w'"
  by (rule ledger_mint_put [OF assms(1) env_okD(1) [OF assms(2)] assms(3-5)])

lemma keeps_set_transfer_fee [keeps]:
  assumes "ledger_with E L w" "env_ok E" "process_set_transfer_fee E p accounts bps m w = Inr w'"
  shows "ledger_with E L w'"
proof -
  from assms(3) obtain a mt c n where u: "unpack (PodMint E) (data_of w a) = Inr mt"
    and c: "get_extension E (PodMint E) TransferFeeConfigExt mt = Inr c"
    and w': "w' = store (PodMint E) a (put_extension (PodMint E) TransferFeeConfigExt (schedule_fee n bps m c) mt) w"
    by (auto simp: process_set_transfer_fee_def success_simps)
  show ?thesis
    by (rule keeps_put [OF assms(1,2) u _ w'])
       (simp add: mint_withheld_put_config [OF c], simp add: mint_withheld_def c schedule_fee_def Let_def)
qed

lemma keeps_update_default_account_state [keeps]:
  assumes "ledger_with E L w" "env_ok E" "process_update_default_account_state E p accounts s w = Inr w'"
  shows "ledger_with E L w'"
proof -
  from assms(3) obtain a mt where u: "unpack (PodMint E) (data_of w a) = Inr mt"
    and w': "w' = store (PodMint E) a (put_extension (PodMint E) DefaultAccountStateExt (account_state_u8 s) mt) w"
    by (auto simp: process_update_default_account_state_def success_simps)
  show ?thesis by (rule keeps_put [OF assms(1,2) u _ w']) simp
qed

lemma keeps_update_address:
  assumes "update_address E p V check accounts k w = Inr w'" "ledger_with E L w" "env_ok E"
    "ext_type V \<noteq> extension_type.TransferFeeConfig"
  shows "ledger_with E L w'"
proof -
  from assms(1) obtain a mt v where u: "unpack (PodMint E) (data_of w a) = Inr mt"
    and w': "w' = store (PodMint E) a (put_extension (PodMint E) V v mt) w"
    by (auto simp: update_address_def success_simps)
  show ?thesis by (rule keeps_put [OF assms(2,3) u _ w']) (use assms(4) in simp)
qed

lemma keeps_pointer_updates [keeps]:
  assumes "ledger_with E L w" "env_ok E"
    "metadata_pointer_update E p accounts k w = Inr w' \<or> group_pointer_update E p accounts k w = Inr w' \<or>
     group_member_pointer_update E p accounts k w = Inr w' \<or> transfer_hook_update E p accounts k w = Inr w'"
  shows "ledger_with E L w'"
  using assms(3) unfolding metadata_pointer_update_def group_pointer_update_def
    group_member_pointer_update_def transfer_hook_update_def
  by (elim disjE) (erule keeps_update_address, rule assms(1), rule assms(2), simp)+

lemma keeps_interest_bearing_update_rate [keeps]:
  assumes "ledger_with E L w" "env_ok E" "interest_bearing_update_rate E p accounts r w = Inr w'"
  shows "ledger_with E L w'"
proof -
  from assms(3) obtain a mt v where u: "unpack (PodMint E) (data_of w a) = Inr mt"
    and w': "w' = store (PodMint E) a (put_extension (PodMint E) InterestBearingConfigExt v mt) w"
    by (auto simp: interest_bearing_update_rate_def success_simps)
  show ?thesis by (rule keeps_put [OF assms(1,2) u _ w']) simp
qed

section \<open>Authorities\<close>

lemma set_mint_authority_tlv_wf:
  assumes "set_mint_authority E p ty new auth rest w mt = Inr mt'" "tlv_wf account_type.Mint (tlv_data mt)"
  shows "tlv_wf account_type.Mint (tlv_data mt')"
  using assms
  by (auto simp: set_mint_authority_def intro: tlv_wf_put [of "PodMint E" mt, simplified] elim!: set_extension_authority_Inr set_base_authority_Inr
      split: authority_type.splits)

lemma keeps_set_authority [keeps]:
  assumes "ledger_with E L w" "env_ok E" "process_set_authority E p accounts ty new w = Inr w'"
  shows "ledger_with E L w'"
proof -
  note l = assms(1)
  from assms(3) obtain a auth rest where acc: "accounts = a # auth # rest"
    by (auto simp: process_set_authority_def success_simps)
  show ?thesis
  proof (cases "unpack PodAccount (data_of w a)")
    case (Inr st)
    with assms(3) obtain st' where r: "set_account_authority E p ty new auth rest w st = Inr st'"
      and w': "w' = store PodAccount a st' w"
      by (auto simp: acc process_set_authority_def success_simps)
    from set_account_authority_Inr(2) [OF r] obtain b where b: "st' = st\<lparr>base := b\<rparr>" "mint b = mint (base st)"
      "is_native b = is_native (base st)" "amount b = amount (base st)" "state b = state (base st)"
      by (elim disjE conjE) (erule that, simp_all)
    show ?thesis
      by (rule keeps_base [OF assms(1,2) Inr w' [unfolded b(1)] b(2-4)])
         (use Inr b(5) in \<open>simp add: unpack_account_live\<close>)
  next
    case (Inl e)
    with assms(3) obtain mt mt' where u: "unpack (PodMint E) (data_of w a) = Inr mt"
      and r: "set_mint_authority E p ty new auth rest w mt = Inr mt'" and w': "w' = store (PodMint E) a mt' w"
      by (auto simp: acc process_set_authority_def success_simps split: option.splits)
    note s = set_mint_authority_Inr [OF r]
    show ?thesis
      by (rule ledger_mint_store [OF l env_okD(1) [OF assms(2)] u _ set_mint_authority_tlv_wf [OF r] s(1,4) w'])
         (use u s(3) in \<open>simp_all add: unpack_mint_live\<close>)
  qed
qed

section \<open>Lamports and return data\<close>

lemma keeps_same_data:
  assumes "ledger_with E L w"
    "\<And>k. acct_data (cells w' k) = acct_data (cells w k) \<and> acct_owner (cells w' k) = acct_owner (cells w k)"
  shows "ledger_with E L w'"
proof -
  have "balance E M w' = balance E M w" for M
    unfolding balance_def using assms(2) by (intro sum.cong refl cell_balance_same) auto
  with assms show ?thesis by (simp add: ledger_with_def)
qed

lemma keeps_withdraw_excess_lamports [keeps]:
  assumes "ledger_with E L w" "process_withdraw_excess_lamports E p accounts w = Inr w'"
  shows "ledger_with E L w'"
proof -
  from assms(2) obtain a b n where "move_lamports a b n w = Inr w'"
    by (auto simp: process_withdraw_excess_lamports_def success_simps)
  from move_lamports_Inr [OF this] show ?thesis by (rule keeps_same_data [OF assms(1)])
qed

end
