(* ===== verification/Ledger_Flows.thy ===== *)
theory Ledger_Flows
  imports Ledger_Updates
begin

text \<open>
  The handlers that move tokens between two places keep the ledger: transfers, minting and burning,
  closing, and the collection of withheld fees.
\<close>

section \<open>Transfers\<close>

lemma allowance_spent_evolves:
  assumes "allowance_spent st st'"
  shows "evolves st st'"
proof -
  obtain d n where "st' = st\<lparr>base := (base st)\<lparr>delegate := d, delegated_amount := n\<rparr>\<rparr>"
    using assms by (simp add: allowance_spent_def)
  then show ?thesis by (simp add: evolves_base)
qed

lemma same_but_flag_evolves: "same_but_flag E st st' \<Longrightarrow> evolves st st'"
  unfolding same_but_flag_def by (auto intro: evolves_trans [OF evolves_put evolves_put])

lemma withhold_fee_evolves: "withhold_fee E fee st = Inr st' \<Longrightarrow> evolves st st'"
  by (auto simp: withhold_fee_def success_simps evolves_put split: if_splits sum.splits)

lemma move_tokens_evolves:
  assumes "move_tokens E amt fee src dst = Inr (src', dst')"
  shows "evolves src src'" "evolves dst dst'"
proof -
  from assms obtain x y where s: "src' = src\<lparr>base := (base src)\<lparr>amount := x\<rparr>\<rparr>"
    and d: "withhold_fee E fee (dst\<lparr>base := (base dst)\<lparr>amount := y\<rparr>\<rparr>) = Inr dst'"
    by (auto simp: move_tokens_def success_simps)
  show "evolves src src'" by (simp add: s evolves_base)
  show "evolves dst dst'" by (rule evolves_trans [OF _ withhold_fee_evolves [OF d]]) (simp add: evolves_base)
qed

text \<open>Two token accounts of one mint, holding together what they held before.\<close>

lemma ledger_two_accounts:
  assumes "ledger_with E f w" "pod_bool_ok E" "changes_only {key a, key b} w w'" "key a \<noteq> key b"
    "owner_of w a = token_2022_id" "owner_of w b = token_2022_id"
    "owner_of w' a = token_2022_id" "owner_of w' b = token_2022_id"
    "unpack PodAccount (data_of w a) = Inr src" "unpack PodAccount (data_of w b) = Inr dst"
    "unpack PodAccount (data_of w' a) = Inr src'" "unpack PodAccount (data_of w' b) = Inr dst'"
    "evolves src src'" "evolves dst dst'" "mint (base src) = mint (base dst)"
    "holdings E src' + holdings E dst' = holdings E src + holdings E dst"
  shows "ledger_with E f w'"
proof (rule ledger_step [OF assms(1,3,2)])
  have "data_ok E (data_of w' a)"
    using data_ok_accountD [OF ledger_data [OF assms(1,5)] assms(9)] assms(13)
    by (intro data_ok_account [OF assms(11)]) (auto simp: evolves_def)
  moreover have "data_ok E (data_of w' b)"
    using data_ok_accountD [OF ledger_data [OF assms(1,6)] assms(10)] assms(14)
    by (intro data_ok_account [OF assms(12)]) (auto simp: evolves_def)
  ultimately show "data_ok E (acct_data (cells w' k))" if "k \<in> {key a, key b}" for k
    using that by (auto simp: cells_info)
  show "(\<Sum>k\<in>{key a, key b}. cell_balance E M k (cells w' k)) =
      (\<Sum>k\<in>{key a, key b}. cell_balance E M k (cells w k)) + f M - f M" for M
    using assms(4-16)
    by (auto simp: cells_info evolves_def cell_balance_account [where st = src] cell_balance_account [where st = dst]
        cell_balance_account [where st = src'] cell_balance_account [where st = dst'])
qed

lemma check_destination_mint: "check_destination E src dst = Inr () \<Longrightarrow> mint (base src) = mint (base dst)"
  by (auto simp: check_destination_def success_simps split: if_splits)

lemma keeps_transfer [keeps]:
  assumes "ledger_with E L w" "env_ok E" "process_transfer E p accounts amt dec fee_arg w = Inr w'"
  shows "ledger_with E L w'"
  using assms(3)
proof (rule process_transfer_Inr)
  fix a em b auth rest src fee pd hook src0
  assume src: "unpack PodAccount (data_of w a) = Inr src"
    and au: "transfer_authority E p (key a = key b) amt src pd auth rest w = Inr src0"
    and o: "owner_of w a = token_2022_id" "owner_of w b = token_2022_id"
    and tb: "if key a = key b then w' = w else transfer_between E a src0 em b auth rest amt fee hook w = Inr w'"
  note as = transfer_authority_Inr(2) [OF au]
  note sp = allowance_spent_simps [OF as]
  note l = assms(1)
  show ?thesis
  proof (cases "key a = key b")
    case True
    with tb assms(1) show ?thesis by simp
  next
    case False
    with tb have t: "transfer_between E a src0 em b auth rest amt fee hook w = Inr w'" by simp
    have "live src0" using src by (simp add: sp unpack_account_live)
    from t env_okD(2) [OF assms(2)] False o this show ?thesis
    proof (rule transfer_between_Inr)
      fix dst src1 dst1 src' dst'
      assume dst: "unpack PodAccount (data_of w b) = Inr dst" and cd: "check_destination E src0 dst = Inr ()"
        and mv: "move_tokens E amt fee src0 dst = Inr (src1, dst1)"
        and res: "unpack PodAccount (data_of w' a) = Inr src'" "unpack PodAccount (data_of w' b) = Inr dst'"
        and fl: "same_but_flag E src1 src'" "same_but_flag E dst1 dst'"
        and c: "changes_only {key a, key b} w w'" "owner_of w' a = token_2022_id" "owner_of w' b = token_2022_id"
      note m = move_tokens_Inr [OF mv]
      note ev = move_tokens_evolves [OF mv]
      note flag = same_but_flag_simps [OF fl(1)] same_but_flag_simps [OF fl(2)]
      have e: "evolves src src'" "evolves dst dst'"
        by (rule evolves_trans [OF evolves_trans [OF allowance_spent_evolves [OF as] ev(1)] same_but_flag_evolves [OF fl(1)]])
           (rule evolves_trans [OF ev(2) same_but_flag_evolves [OF fl(2)]])
      have h: "holdings E src' + holdings E dst' = holdings E src + holdings E dst"
        using m(3-6) sp by (simp add: holdings_def flag)
      show ?thesis
        by (rule ledger_two_accounts [OF l env_okD(1) [OF assms(2)] c(1) False o c(2,3) src dst res e _ h])
           (use check_destination_mint [OF cd] sp in simp)
    qed
  qed
qed

section \<open>Minting and burning\<close>

text \<open>An account and its mint are rewritten one after the other.\<close>

lemma ledger_account_mint:
  assumes l: "ledger_with E L w" and E: "env_ok E" and o: "owner_of w a = token_2022_id" "owner_of w m = token_2022_id"
    and k: "key m \<noteq> key a" and u: "unpack PodAccount (data_of w a) = Inr st" "unpack (PodMint E) (data_of w m) = Inr mt"
    and ev: "evolves st st'" "live st'" "mint (base st) = key m"
    and h: "int (holdings E st') - int (holdings E st) = int (unat s) - int (unat (mint_supply (base mt)))"
    and w': "w' = store (PodMint E) m (mt\<lparr>base := (base mt)\<lparr>mint_supply := s\<rparr>\<rparr>) (store PodAccount a st' w)"
  shows "ledger_with E L w'"
proof -
  let ?d = "int (unat s) - int (unat (mint_supply (base mt)))"
  let ?w = "store PodAccount a st' w" and ?mt = "mt\<lparr>base := (base mt)\<lparr>mint_supply := s\<rparr>\<rparr>"
  note E1 = env_okD(1) [OF E]
  have l1: "ledger_with E (\<lambda>M. L M + (if M = key m then - ?d else 0)) ?w"
    by (rule ledger_account [OF l changes_only_store E1 _ u(1) _ ev(1)])
       (use ev o h in \<open>auto simp: frame\<close>)
  have um: "unpack (PodMint E) (data_of ?w m) = Inr mt" using k u(2) by (simp add: frame)
  show ?thesis unfolding w'
    by (rule ledger_mint [OF l1 changes_only_store E1 _ um, where mt' = ?mt])
       (use u(2) o in \<open>auto simp: frame unpack_mint_live\<close>)
qed

lemma keeps_mint_to [keeps]:
  assumes "ledger_with E L w" "env_ok E" "process_mint_to E p accounts amt dec w = Inr w'"
  shows "ledger_with E L w'"
proof -
  from assms(3) obtain m b auth rest where acc: "accounts = m # b # auth # rest"
    by (auto simp: process_mint_to_def success_simps)
  from assms(3) [unfolded acc] show ?thesis
  proof (rule process_mint_to_Inr)
    fix dst mt x s
    assume *: "unpack PodAccount (data_of w b) = Inr dst" "unpack (PodMint E) (data_of w m) = Inr mt"
      "mint (base dst) = key m" "key m \<noteq> key b" "owner_of w m = token_2022_id" "owner_of w b = token_2022_id"
      "unat x = unat (amount (base dst)) + unat amt" "unat s = unat (mint_supply (base mt)) + unat amt"
      and w': "w' = store (PodMint E) m (mt\<lparr>base := (base mt)\<lparr>mint_supply := s\<rparr>\<rparr>)
           (store PodAccount b (dst\<lparr>base := (base dst)\<lparr>amount := x\<rparr>\<rparr>) w)"
    show ?thesis
      by (rule ledger_account_mint [OF assms(1,2) *(6,5,4,1,2) _ _ *(3) _ w'])
         (use * in \<open>simp_all add: evolves_base holdings_def unpack_account_live\<close>)
  qed
qed

lemma keeps_burn [keeps]:
  assumes "ledger_with E L w" "env_ok E" "process_burn E p accounts amt dec w = Inr w'"
  shows "ledger_with E L w'"
proof -
  from assms(3) obtain a m auth rest where acc: "accounts = a # m # auth # rest"
    by (auto simp: process_burn_def success_simps)
  from assms(3) [unfolded acc] show ?thesis
  proof (rule process_burn_Inr)
    fix src mt src0 x s
    assume *: "unpack PodAccount (data_of w a) = Inr src" "unpack (PodMint E) (data_of w m) = Inr mt"
      "mint (base src) = key m" "key a \<noteq> key m" "owner_of w m = token_2022_id" "owner_of w a = token_2022_id"
      "allowance_spent src src0"
      "unat (amount (base src)) = unat x + unat amt" "unat (mint_supply (base mt)) = unat s + unat amt"
      and w': "w' = store (PodMint E) m (mt\<lparr>base := (base mt)\<lparr>mint_supply := s\<rparr>\<rparr>)
           (store PodAccount a (src0\<lparr>base := (base src0)\<lparr>amount := x\<rparr>\<rparr>) w)"
    note sp = allowance_spent_simps [OF *(7)]
    have ev: "evolves src (src0\<lparr>base := (base src0)\<lparr>amount := x\<rparr>\<rparr>)"
      by (rule evolves_trans [OF allowance_spent_evolves [OF *(7)] evolves_base]) simp_all
    show ?thesis
      by (rule ledger_account_mint [OF assms(1,2) *(6,5) *(4) [symmetric] *(1,2) ev _ *(3) _ w'])
         (use * sp in \<open>simp_all add: holdings_def unpack_account_live\<close>)
  qed
qed

section \<open>The native mint\<close>

lemma keeps_create_native_mint [keeps]:
  assumes "ledger_with E L w" "env_ok E" "process_create_native_mint E accounts w = Inr w'"
  shows "ledger_with E L w'"
proof -
  let ?b = "\<lparr>mint_authority = pod_none, mint_supply = 0, decimals = 9, is_initialized = 1, freeze_authority = pod_none\<rparr>"
  note E = env_okD(1) [OF assms(2)]
  from assms(3) obtain payer m sys rest where acc: "accounts = payer # m # sys # rest"
    by (auto simp: process_create_native_mint_def success_simps)
  note c = create_native_mint_Inr [OF assms(3) [unfolded acc] env_okD(4) [OF assms(2)]]
  have u: "unpack (PodMint E) (data_of w' m) = Inr (bare ?b)"
    using pod_mint.unpack_bare(2) [of E ?b] E
    by (simp add: c(5) pod_mint_is_initialized_def pod_bool_ok_def PodMint_SIZE_OF_def Multisig_LEN_def)
  have "represents account_type.Mint [] []" using represents_zeros [of account_type.Mint 0] by simp
  then have d: "data_ok E (data_of w' m)" by (intro data_ok_mint [OF u]) (auto simp: tlv_wf_def bare_def)
  have b: "cell_balance E M (key m) (cells w' (key m)) = 0" if "M \<noteq> native_mint_id" for M
    unfolding cell_balance_mint [OF u [folded cells_info] c(2) [folded cells_info]] using that c(1) by simp
  have b0: "cell_balance E M (key m) (cells w (key m)) = 0" for M
    by (rule cell_balance_zeros [OF _ E]) (simp only: cells_info c(3) list.pred_inject(1))
  show ?thesis
    by (rule ledger_step [OF assms(1) c(4) E]) (use d b b0 in \<open>auto simp: cells_info\<close>)
qed

section \<open>Closing\<close>

lemma account_tokens_nonneg: "0 \<le> account_tokens E M c"
  by (auto simp: account_tokens_def split: sum.splits)

text \<open>A mint without supply has no withheld fees either.\<close>

lemma no_supply_no_fees:
  assumes "ledger_with E L w" "0 \<le> L (key m)" "key m \<noteq> native_mint_id" "owner_of w m = token_2022_id"
    "unpack (PodMint E) (data_of w m) = Inr mt" "mint_supply (base mt) = 0"
  shows "mint_withheld E mt = 0"
proof -
  let ?M = "key m"
  have "cell_balance E ?M k (cells w k) \<le> 0" for k
  proof -
    have "- int (unat (mint_withheld E mt)) \<le> account_tokens E ?M (cells w k)"
      using account_tokens_nonneg [of E ?M "cells w k"] by linarith
    then show ?thesis using assms account_tokens_nonneg [of E ?M "cells w k"]
      by (auto simp: cell_balance_def supply_at_def withheld_at_def cells_info)
  qed
  moreover from this have "balance E ?M w \<le> 0" unfolding balance_def by (intro sum_nonpos)
  moreover have "0 \<le> balance E ?M w" using assms(1-3) by (simp add: ledger_with_def)
  ultimately have "cell_balance E ?M ?M (cells w ?M) = 0"
    unfolding balance_def using sum_nonneg_eq_0_iff [of UNIV "\<lambda>k. - cell_balance E ?M k (cells w k)"]
    by (simp add: sum_negf)
  moreover have "account_tokens E ?M (cells w ?M) = 0"
    using mint_is_no_account [OF assms(5)] by (auto simp: account_tokens_def cells_info split: sum.splits)
  ultimately show ?thesis using assms(4-6)
    by (simp add: cell_balance_def supply_at_def withheld_at_def cells_info uint_0_iff)
qed

lemma keeps_close_account [keeps]:
  assumes "ledger_with E L w" "env_ok E" "process_close_account E p accounts w = Inr w'" "\<And>M. 0 \<le> L M"
  shows "ledger_with E L w'"
proof -
  note E = env_okD(1) [OF assms(2)]
  note l = assms(1)
  from assms(3) obtain a b auth rest where acc: "accounts = a # b # auth # rest"
    by (auto simp: process_close_account_def success_simps)
  from assms(3) [unfolded acc] show ?thesis
  proof (rule process_close_account_Inr)
    fix n
    assume k: "key a \<noteq> key b" and w': "w' = delete_account E a (set_lamports a 0 (set_lamports b n w))"
      and c: "(\<exists>src. unpack PodAccount (data_of w a) = Inr src \<and> check_close_account E p b auth rest w src = Inr ()) \<or>
        (\<exists>mt. unpack (PodMint E) (data_of w a) = Inr mt \<and> check_close_mint E p auth rest w mt = Inr ())"
    have d: "acct_data (cells w' (key a)) = []" by (simp add: w' delete_account_def frame)
    have ch: "changes_only {key a} w w'" by (rule changes_only_same) (simp add: w' delete_account_def frame)
    have z: "cell_balance E M (key a) (cells w (key a)) = 0" if M: "M \<noteq> native_mint_id" for M
    proof (cases "owner_of w a = token_2022_id")
      case o: True
      from c show ?thesis
      proof (elim disjE exE conjE)
        fix src assume u: "unpack PodAccount (data_of w a) = Inr src" and s: "check_close_account E p b auth rest w src = Inr ()"
        have "pod_account_is_native (base src) \<or> holdings E src = 0"
          using s closable_withheld [of E src] by (auto simp: check_close_account_def success_simps holdings_def split: if_splits)
        with data_ok_accountD(2) [OF ledger_data [OF l o] u] M have "mint (base src) = M \<Longrightarrow> holdings E src = 0" by auto
        then show ?thesis using u o by (subst cell_balance_account [where st = src]) (auto simp: cells_info)
      next
        fix mt assume u: "unpack (PodMint E) (data_of w a) = Inr mt" and s: "check_close_mint E p auth rest w mt = Inr ()"
        have "mint_supply (base mt) = 0" using s by (auto simp: check_close_mint_def success_simps split: if_splits)
        with no_supply_no_fees [OF l assms(4) _ o u] M have "key a = M \<Longrightarrow> mint_supply (base mt) = 0 \<and> mint_withheld E mt = 0" by auto
        then show ?thesis using u o by (subst cell_balance_mint [where mt = mt]) (auto simp: cells_info)
      qed
    qed (simp add: cell_balance_foreign cells_info)
    show ?thesis
      by (rule ledger_step [OF l ch E]) (auto simp: d z data_ok_zeros [OF _ E] cell_balance_zeros [OF _ E])
  qed
qed

section \<open>Withheld fees\<close>

text \<open>Writing to an account of another program changes nothing, or the runtime rejects the instruction.\<close>

lemma runtime_ok_data: "runtime_ok w w' \<Longrightarrow> owner_of w a \<noteq> token_2022_id \<Longrightarrow> data_of w' a = data_of w a"
  by (simp add: runtime_ok_def owner_of_def data_of_def)

text \<open>The last write of an instruction, to a token account whose state was held in memory.\<close>

lemma ledger_account_settle:
  assumes "ledger_with E f w1" "pod_bool_ok E" "runtime_ok w w'" "owner_of w1 a = owner_of w a"
    "data_of w1 a = data_of w a" "unpack PodAccount (data_of w a) = Inr st" "live st'" "evolves st st'"
    "w' = store PodAccount a st' w1"
    "\<And>M. f M = L M + (if M = mint (base st) then int (holdings E st') - int (holdings E st) else 0)"
  shows "ledger_with E L w'"
proof (rule ledger_account [OF assms(1) _ assms(2) _ _ _ assms(8)])
  show "changes_only {key a} w1 w'" unfolding assms(9) by (rule changes_only_store)
  show "owner_of w' a = owner_of w1 a" "unpack PodAccount (data_of w1 a) = Inr st"
    "unpack PodAccount (data_of w' a) = Inr st'" using assms(5-7) by (simp_all add: assms(9) frame)
  have "st' = st" if "owner_of w1 a \<noteq> token_2022_id"
  proof -
    have "data_of w' a = data_of w a" using runtime_ok_data [OF assms(3)] that assms(4) by simp
    with assms(6) \<open>unpack PodAccount (data_of w' a) = Inr st'\<close> show ?thesis by simp
  qed
  then show "L M = f M + (if owner_of w1 a = token_2022_id \<and> M = mint (base st)
      then int (holdings E st) - int (holdings E st') else 0)" for M
    by (auto simp: assms(10))
qed

lemma ledger_config_settle:
  assumes "ledger_with E f w1" "pod_bool_ok E" "runtime_ok w w'" "owner_of w1 m = owner_of w m"
    "data_of w1 m = data_of w m" "unpack (PodMint E) (data_of w m) = Inr mt"
    "get_extension E (PodMint E) TransferFeeConfigExt mt = Inr c"
    "w' = store (PodMint E) m (put_extension (PodMint E) TransferFeeConfigExt c' mt) w1"
    "\<And>M. M \<noteq> native_mint_id \<Longrightarrow> f M = L M + (if M = key m
       then int (unat (config_withheld_amount c')) - int (unat (config_withheld_amount c)) else 0)"
  shows "ledger_with E L w'"
proof (rule ledger_mint [OF assms(1) _ assms(2)])
  let ?mt = "put_extension (PodMint E) TransferFeeConfigExt c' mt"
  have lm: "live_mint_state E mt" using assms(6) by (simp add: unpack_mint_live)
  show "changes_only {key m} w1 w'" unfolding assms(8) by (rule changes_only_store)
  show "owner_of w' m = owner_of w1 m" "unpack (PodMint E) (data_of w1 m) = Inr mt"
    "unpack (PodMint E) (data_of w' m) = Inr ?mt" using assms(5,6) lm by (simp_all add: assms(8) frame)
  show "tlv_wf account_type.Mint (tlv_data mt) \<Longrightarrow> tlv_wf account_type.Mint (tlv_data ?mt)"
    using tlv_wf_put [of "PodMint E" mt] by simp
  have wh: "mint_withheld E mt = config_withheld_amount c" "mint_withheld E ?mt = config_withheld_amount c'"
    using assms(7) mint_withheld_put_config [OF assms(7)] by (simp_all add: mint_withheld_def)
  have "?mt = mt" if "owner_of w1 m \<noteq> token_2022_id"
  proof -
    have "data_of w' m = data_of w m" using runtime_ok_data [OF assms(3)] that assms(4) by simp
    with assms(6) \<open>unpack (PodMint E) (data_of w' m) = Inr ?mt\<close> show ?thesis by simp
  qed
  then have "config_withheld_amount c' = config_withheld_amount c" if "owner_of w1 m \<noteq> token_2022_id"
    using wh that by metis
  then show "L M = f M + (if owner_of w1 m = token_2022_id \<and> M = key m
      then int (unat (mint_supply (base ?mt))) - int (unat (mint_withheld E ?mt))
        - int (unat (mint_supply (base mt))) + int (unat (mint_withheld E mt)) else 0)" if "M \<noteq> native_mint_id" for M
    using that by (simp add: assms(9) wh)
qed

lemma keeps_withdraw_withheld_from_mint [keeps]:
  assumes "ledger_with E L w" "env_ok E" "process_withdraw_withheld_tokens_from_mint E p accounts w = Inr w'" "runtime_ok w w'"
  shows "ledger_with E L w'"
proof -
  from assms(3) obtain m b mt c dst x where o: "owner_of w m = token_2022_id"
    and um: "unpack (PodMint E) (data_of w m) = Inr mt" and c: "get_extension E (PodMint E) TransferFeeConfigExt mt = Inr c"
    and k: "key b \<noteq> key m" and u: "unpack PodAccount (data_of w b) = Inr dst" and m: "mint (base dst) = key m"
    and x: "checked_add (amount (base dst)) (config_withheld_amount c) = Some x"
    and w': "w' = store PodAccount b (dst\<lparr>base := (base dst)\<lparr>amount := x\<rparr>\<rparr>)
       (store (PodMint E) m (put_extension (PodMint E) TransferFeeConfigExt (c\<lparr>config_withheld_amount := 0\<rparr>) mt) w)"
    by (auto simp: process_withdraw_withheld_tokens_from_mint_def success_simps)
  let ?mt = "put_extension (PodMint E) TransferFeeConfigExt (c\<lparr>config_withheld_amount := 0\<rparr>) mt"
  let ?w = "store (PodMint E) m ?mt w" and ?dst = "dst\<lparr>base := (base dst)\<lparr>amount := x\<rparr>\<rparr>"
  note E = env_okD(1) [OF assms(2)]
  have wh: "mint_withheld E mt = config_withheld_amount c" "mint_withheld E ?mt = 0"
    using c mint_withheld_put_config [OF c] by (simp_all add: mint_withheld_def)
  have um': "unpack (PodMint E) (data_of ?w m) = Inr ?mt" using um by (simp add: frame unpack_mint_live)
  have l1: "ledger_with E (\<lambda>M. L M + (if M = key m then int (unat (config_withheld_amount c)) else 0)) ?w"
    by (rule ledger_mint [OF assms(1) changes_only_store E _ um um'])
       (use o tlv_wf_put [of "PodMint E" mt] in \<open>simp_all add: frame wh\<close>)
  have h: "int (holdings E ?dst) - int (holdings E dst) = int (unat (config_withheld_amount c))"
    using x by (simp add: holdings_def checked_add_Some)
  show ?thesis
    by (rule ledger_account_settle [OF l1 E assms(4) _ _ u _ _ w'])
       (use k u m h in \<open>auto simp: frame unpack_account_live evolves_base\<close>)
qed

text \<open>Harvesting moves what is withheld on one account into the hands of the handler.\<close>

definition plus_at :: "pubkey \<Rightarrow> int \<Rightarrow> (pubkey \<Rightarrow> int) \<Rightarrow> pubkey \<Rightarrow> int" where
  "plus_at k n f = (\<lambda>M. f M + (if M = k then n else 0))"

lemma plus_at_simps [simp]:
  "plus_at k 0 f = f" "plus_at k n (plus_at k m f) = plus_at k (m + n) f"
  by (auto simp: plus_at_def)

lemma harvest_from_account_Inr:
  assumes "harvest_from_account E mk a w = Inr (n, w')"
  obtains st where "unpack PodAccount (data_of w a) = Inr st" "mint (base st) = mk" "owner_of w a = token_2022_id"
    "withheld E st = n" "w' = store PodAccount a (put_extension PodAccount TransferFeeAmountExt 0 st) w"
    "withheld E (put_extension PodAccount TransferFeeAmountExt 0 st) = 0"
  using assms account_fee_amount.get_put_extension [OF _ transfer_fee_amount.all_valid]
  by (auto simp: harvest_from_account_def success_simps withheld_def)

lemma ledger_harvest_from_account:
  assumes "ledger_with E f w" "pod_bool_ok E" "harvest_from_account E mk a w = Inr (n, w')"
  shows "ledger_with E (plus_at mk (int (unat n)) f) w'"
  using assms(3)
proof (rule harvest_from_account_Inr)
  fix st
  let ?st = "put_extension PodAccount TransferFeeAmountExt 0 st"
  assume u: "unpack PodAccount (data_of w a) = Inr st" and m: "mint (base st) = mk" "owner_of w a = token_2022_id"
    "withheld E st = n" and w': "w' = store PodAccount a ?st w" and z: "withheld E ?st = 0"
  have "int (holdings E st) - int (holdings E ?st) = int (unat n)" by (simp add: holdings_def z m(3))
  then show ?thesis unfolding w'
    by (intro ledger_account [OF assms(1) changes_only_store assms(2) _ u _ evolves_put])
       (use u m in \<open>auto simp: frame unpack_account_live plus_at_def\<close>)
qed

lemma harvest_from_account_frame:
  "harvest_from_account E mk a w = Inr (n, w') \<Longrightarrow> key b \<noteq> key a \<Longrightarrow> data_of w' b = data_of w b \<and> owner_of w' b = owner_of w b"
  by (auto simp: harvest_from_account_def success_simps frame)

lemma harvest_to_mint_ledger:
  assumes "harvest_to_mint E (key m) as (c, w) = Inr (c', w')" "ledger_with E f w" "pod_bool_ok E"
  shows "ledger_with E (plus_at (key m)
      (int (unat (config_withheld_amount c')) - int (unat (config_withheld_amount c))) f) w' \<and>
    data_of w' m = data_of w m \<and> owner_of w' m = owner_of w m"
  using assms(1,2)
proof (induction as arbitrary: c w f)
  case (Cons a as)
  from Cons.prems(1) have k: "key m \<noteq> key a" by (auto split: if_splits)
  show ?case
  proof (cases "harvest_from_account E (key m) a w")
    case (Inl e)
    with Cons.prems k show ?thesis by (intro Cons.IH) simp_all
  next
    case (Inr r)
    obtain n w1 where r: "r = (n, w1)" by (cases r)
    from Cons.prems(1) Inr k obtain x where x: "checked_add (config_withheld_amount c) n = Some x"
      and rest: "harvest_to_mint E (key m) as (c\<lparr>config_withheld_amount := x\<rparr>, w1) = Inr (c', w')"
      by (auto simp: r success_simps)
    have "int (unat x) = int (unat (config_withheld_amount c)) + int (unat n)" using x by (simp add: checked_add_Some)
    with Cons.IH [OF rest ledger_harvest_from_account [OF Cons.prems(2) assms(3) Inr [unfolded r]]]
      harvest_from_account_frame [OF Inr [unfolded r] k] show ?thesis by simp
  qed
qed simp

lemma keeps_harvest_to_mint [keeps]:
  assumes "ledger_with E L w" "env_ok E" "process_harvest_withheld_tokens_to_mint E accounts w = Inr w'" "runtime_ok w w'"
  shows "ledger_with E L w'"
proof -
  from assms(3) obtain m as mt c c' w1 where um: "unpack (PodMint E) (data_of w m) = Inr mt"
    and c: "get_extension E (PodMint E) TransferFeeConfigExt mt = Inr c"
    and h: "harvest_to_mint E (key m) as (c, w) = Inr (c', w1)"
    and w': "w' = store (PodMint E) m (put_extension (PodMint E) TransferFeeConfigExt c' mt) w1"
    by (auto simp: process_harvest_withheld_tokens_to_mint_def success_simps)
  note E = env_okD(1) [OF assms(2)]
  note hl = harvest_to_mint_ledger [OF h assms(1) E]
  show ?thesis
    by (rule ledger_config_settle [OF hl [THEN conjunct1] E assms(4) _ _ um c w']) (use hl in \<open>simp_all add: plus_at_def\<close>)
qed

lemma harvest_to_account_ledger:
  assumes "harvest_to_account E mk (key b) as (dst, w) = Inr (dst', w')" "ledger_with E f w" "pod_bool_ok E"
  shows "ledger_with E (plus_at mk (int (holdings E dst') - int (holdings E dst)) f) w' \<and>
    data_of w' b = data_of w b \<and> owner_of w' b = owner_of w b \<and> evolves dst dst' \<and> live dst' = live dst"
  using assms(1,2)
proof (induction as arbitrary: dst w f)
  case (Cons a as)
  show ?case
  proof (cases "key a = key b")
    case True
    let ?z = "put_extension PodAccount TransferFeeAmountExt 0 dst"
    from Cons.prems(1) True obtain n x where n: "get_extension E PodAccount TransferFeeAmountExt dst = Inr n"
      and x: "checked_add (amount (base dst)) n = Some x"
      and rest: "harvest_to_account E mk (key b) as (?z\<lparr>base := (base ?z)\<lparr>amount := x\<rparr>\<rparr>, w) = Inr (dst', w')"
      by (auto simp: success_simps Let_def)
    have "withheld E dst = n" "withheld E ?z = 0"
      using n account_fee_amount.get_put_extension [OF n transfer_fee_amount.all_valid] by (simp_all add: withheld_def)
    then have "holdings E (?z\<lparr>base := (base ?z)\<lparr>amount := x\<rparr>\<rparr>) = holdings E dst"
      using x by (simp add: holdings_def checked_add_Some)
    moreover have "evolves dst (?z\<lparr>base := (base ?z)\<lparr>amount := x\<rparr>\<rparr>)"
      by (rule evolves_trans [OF evolves_put evolves_base]) simp_all
    ultimately show ?thesis using Cons.IH [OF rest Cons.prems(2)] by (auto intro: evolves_trans)
  next
    case no: False
    show ?thesis
    proof (cases "harvest_from_account E mk a w")
      case (Inl e)
      with Cons.prems no show ?thesis by (intro Cons.IH) (auto split: if_splits)
    next
      case (Inr r)
      obtain n w1 where r: "r = (n, w1)" by (cases r)
      let ?d = "\<lambda>x. dst\<lparr>base := (base dst)\<lparr>amount := x\<rparr>\<rparr>"
      from Cons.prems(1) Inr no obtain x where x: "checked_add (amount (base dst)) n = Some x"
        and rest: "harvest_to_account E mk (key b) as (?d x, w1) = Inr (dst', w')"
        by (auto simp: r success_simps split: if_splits)
      have e: "evolves dst (?d x)" by (simp add: evolves_base)
      have "int (holdings E (?d x)) = int (holdings E dst) + int (unat n)"
        using x by (simp add: holdings_def checked_add_Some)
      with Cons.IH [OF rest ledger_harvest_from_account [OF Cons.prems(2) assms(3) Inr [unfolded r]]]
        harvest_from_account_frame [OF Inr [unfolded r] no [symmetric]] e
      show ?thesis by (auto intro: evolves_trans)
    qed
  qed
qed simp

lemma keeps_withdraw_withheld_from_accounts [keeps]:
  assumes "ledger_with E L w" "env_ok E" "process_withdraw_withheld_tokens_from_accounts E p accounts n w = Inr w'"
    "runtime_ok w w'"
  shows "ledger_with E L w'"
proof -
  from assms(3) obtain b as dst dst' w1 and m :: account_info where u: "unpack PodAccount (data_of w b) = Inr dst"
    and m: "mint (base dst) = key m" and h: "harvest_to_account E (key m) (key b) as (dst, w) = Inr (dst', w1)"
    and w': "w' = store PodAccount b dst' w1"
    by (auto simp: process_withdraw_withheld_tokens_from_accounts_def success_simps Let_def)
  note E = env_okD(1) [OF assms(2)]
  note hl = harvest_to_account_ledger [OF h assms(1) E]
  show ?thesis
    by (rule ledger_account_settle [OF hl [THEN conjunct1] E assms(4) _ _ u _ _ w'])
       (use hl u m in \<open>auto simp: unpack_account_live plus_at_def\<close>)
qed

end
