(* ===== verification/Confidential_Ledger.thy ===== *)
theory Confidential_Ledger
  imports Confidential_Balance Confidential_Dispatch Ledger_Flows
begin

text \<open>
  The confidential handlers and the ledger.  All of them but deposits and withdrawals leave every plain amount alone;
  a deposit takes tokens out of the accounts and a withdrawal puts them back, by exactly the stated amount.
\<close>

section \<open>What the SDK may do\<close>

text \<open>Closing a context account is the business of the proof program: like every other program it cannot touch the
  accounts of this one.\<close>

definition zk_ok :: "zk \<Rightarrow> bool" where
  "zk_ok Z \<longleftrightarrow> (\<forall>k auth d infos w w'. close_context_state Z k auth d infos w = Inr w' \<longrightarrow> changes_only {} w w')"

lemma sample_zk_ok [simp]: "zk_ok sample_zk"
  by (simp add: zk_ok_def sample_zk_def Let_def)

section \<open>One extension\<close>

lemma confidential_types [simp]:
  "ext_type (ConfidentialTransferAccountExt E) = ConfidentialTransferAccount"
  "ext_type (ConfidentialTransferFeeAmountExt E) = ConfidentialTransferFeeAmount"
  by (simp_all add: ext_defs Let_def)

lemma keeps_elsewhere:
  assumes "ledger_with E L w" "changes_only {} w w'" "env_ok E"
  shows "ledger_with E L w'"
  by (rule ledger_step [OF assms(1,2) env_okD(1) [OF assms(3)]]) simp_all

text \<open>A state that evolved without touching what counts is stored; it may have been held in memory while other
  accounts were written.\<close>

definition quiet :: "env \<Rightarrow> pod_account ext_state \<Rightarrow> pod_account ext_state \<Rightarrow> bool" where
  "quiet E st st' \<longleftrightarrow> evolves st st' \<and> holdings E st' = holdings E st \<and> live st' = live st"

lemma quiet_refl [simp]: "quiet E st st"
  by (simp add: quiet_def)

lemma quiet_trans: "quiet E st st1 \<Longrightarrow> quiet E st1 st2 \<Longrightarrow> quiet E st st2"
  unfolding quiet_def using evolves_trans by auto

lemma quiet_put: "ext_type V \<noteq> TransferFeeAmount \<Longrightarrow> quiet E st (put_extension PodAccount V v st)"
  by (simp add: quiet_def evolves_put holdings_def withheld_def)

lemma keeps_quiet:
  assumes "ledger_with E L w" "env_ok E" "unpack PodAccount (data_of w a) = Inr st" "quiet E st st'"
    "w' = store PodAccount a st' w"
  shows "ledger_with E L w'"
  using assms(3,4)
  by (intro ledger_account_store [OF assms(1) env_okD(1) [OF assms(2)] assms(3) _ _ _ assms(5)])
     (auto simp: quiet_def unpack_account_live)

lemma keeps_account_put:
  assumes "ledger_with E L w" "env_ok E" "unpack PodAccount (data_of w a) = Inr st"
    "w' = store PodAccount a (put_extension PodAccount V v st) w" "ext_type V \<noteq> TransferFeeAmount"
  shows "ledger_with E L w'"
  by (rule keeps_quiet [OF assms(1-3) quiet_put [OF assms(5)] assms(4)])

text \<open>A new extension in the room that is left.  Only the well-formed buffer guarantees that the others stay.\<close>

lemma init_quiet:
  assumes "init_and_assign E V v st = Inr st'" "ext_type V \<noteq> TransferFeeAmount" "tlv_wf account_type.Account (tlv_data st)"
  shows "quiet E st st'" "tlv_wf account_type.Account (tlv_data st')"
proof -
  from assms(1) obtain st1 where i: "init_extension_with PodAccount V (ext_default V) False st = Inr st1"
    and st': "st' = put_extension PodAccount V v st1"
    by (auto simp: init_and_assign_def init_extension_def success_simps)
  from init_keeps [OF i] assms(3) obtain es where es: "represents account_type.Account es (tlv_data st1)"
    and o: "\<And>x. ext_type TransferFeeAmountExt \<noteq> ext_type V \<Longrightarrow>
       get_extension E PodAccount TransferFeeAmountExt st1 = Inr x \<longleftrightarrow>
       get_extension E PodAccount TransferFeeAmountExt st = Inr x" by (metis PodAccount_simps(3))
  have w1: "tlv_wf account_type.Account (tlv_data st1)" using es by (auto simp: tlv_wf_def)
  then show "tlv_wf account_type.Account (tlv_data st')"
    using tlv_wf_put [of PodAccount st1 V v] by (simp add: st')
  have "withheld E st1 = withheld E st" unfolding withheld_def using o assms(2) by (intro case_result_cong) auto
  moreover have "base st1 = base st" using init_extension_base [OF i] by simp
  moreover have "live st1 = live st" by (rule live_init [OF i])
  ultimately have "quiet E st st1" using w1 by (simp add: quiet_def evolves_def holdings_def)
  then show "quiet E st st'" unfolding st' by (rule quiet_trans [OF _ quiet_put [OF assms(2)]])
qed

section \<open>Configuration\<close>

lemma keeps_initialize_mint_ct [keeps]:
  assumes "ledger_with E L w" "env_ok E"
    "process_initialize_mint_ct E accounts a b c w = Inr w' \<or>
     process_initialize_confidential_transfer_fee_config E accounts a c w = Inr w'"
  shows "ledger_with E L w'"
  using assms(3)
  by (auto simp: process_initialize_mint_ct_def process_initialize_confidential_transfer_fee_config_def success_simps
      elim: keeps_init_uninitialized [OF _ assms(1,2)])

lemma keeps_update_mint [keeps]:
  assumes "ledger_with E L w" "env_ok E" "process_update_mint E accounts b c w = Inr w'"
  shows "ledger_with E L w'"
proof -
  from assms(3) obtain m mt v where u: "unpack (PodMint E) (data_of w m) = Inr mt"
    and w': "w' = store (PodMint E) m (put_extension (PodMint E) (ConfidentialTransferMintExt E) v mt) w"
    by (auto simp: process_update_mint_def success_simps)
  show ?thesis by (rule keeps_put [OF assms(1,2) u _ w']) simp
qed

lemma keeps_set_harvest_to_mint [keeps]:
  assumes "ledger_with E L w" "env_ok E" "set_harvest_to_mint E p accounts enable w = Inr w'"
  shows "ledger_with E L w'"
proof -
  from assms(3) obtain m mt v where u: "unpack (PodMint E) (data_of w m) = Inr mt"
    and w': "w' = store (PodMint E) m (put_extension (PodMint E) (ConfidentialTransferFeeConfigExt E) v mt) w"
    by (auto simp: set_harvest_to_mint_def success_simps)
  show ?thesis by (rule keeps_put [OF assms(1,2) u _ w']) simp
qed

lemma keeps_configure_account [keeps]:
  assumes "ledger_with E L w" "env_ok E" "process_configure_account E Z p accounts d n offset w = Inr w'"
  shows "ledger_with E L w'"
proof -
  from assms(3) obtain a st st1 st2 mt v where u: "unpack PodAccount (data_of w a) = Inr st" "owner_of w a = token_2022_id"
    and i: "init_and_assign E (ConfidentialTransferAccountExt E) v st = Inr st1"
    and i2: "(if isOk (get_extension E (PodMint E) TransferFeeConfigExt mt)
            then init_and_assign E (ConfidentialTransferFeeAmountExt E) (zeroed_ciphertext E) st1
            else Inr st1) = Inr st2"
    and w': "w' = store PodAccount a st2 w"
    by (auto simp: process_configure_account_def success_simps)
  have t: "tlv_wf account_type.Account (tlv_data st)" using data_ok_accountD(1) [OF ledger_data [OF assms(1) u(2)] u(1)] .
  note q = init_quiet [OF i _ t, simplified]
  have "quiet E st1 st2" using i2 init_quiet(1) [OF _ _ q(2), of E "ConfidentialTransferFeeAmountExt E"] by (auto split: if_splits)
  with q(1) have "quiet E st st2" by (rule quiet_trans)
  then show ?thesis by (rule keeps_quiet [OF assms(1,2) u(1) _ w'])
qed

lemma keeps_approve_account [keeps]:
  assumes "ledger_with E L w" "env_ok E" "process_approve_account E accounts w = Inr w'"
  shows "ledger_with E L w'"
proof -
  from assms(3) obtain a st v where u: "unpack PodAccount (data_of w a) = Inr st"
    and w': "w' = store PodAccount a (put_extension PodAccount (ConfidentialTransferAccountExt E) v st) w"
    by (auto simp: process_approve_account_def success_simps split: if_splits)
  show ?thesis by (rule keeps_account_put [OF assms(1,2) u w']) simp
qed

lemma keeps_empty_account [keeps]:
  assumes "ledger_with E L w" "env_ok E" "process_empty_account E Z p accounts offset w = Inr w'"
  shows "ledger_with E L w'"
proof -
  from assms(3) obtain a st v where u: "unpack PodAccount (data_of w a) = Inr st"
    and w': "w' = store PodAccount a (put_extension PodAccount (ConfidentialTransferAccountExt E) v st) w"
    by (auto simp: process_empty_account_def success_simps Let_def split: if_splits)
  show ?thesis by (rule keeps_account_put [OF assms(1,2) u w']) simp
qed

lemma keeps_update_confidential [keeps]:
  assumes "ledger_with E L w" "env_ok E" "process_update_confidential E p accounts f w = Inr w'"
  shows "ledger_with E L w'"
proof -
  from assms(3) obtain a st v where u: "unpack PodAccount (data_of w a) = Inr st"
    and w': "w' = store PodAccount a (put_extension PodAccount (ConfidentialTransferAccountExt E) v st) w"
    by (auto simp: process_update_confidential_def success_simps)
  show ?thesis by (rule keeps_account_put [OF assms(1,2) u w']) simp
qed

section \<open>Deposits and withdrawals\<close>

text \<open>An account is rewritten with another amount and other ciphertexts.\<close>

lemma ledger_convert:
  assumes "ledger_with E L w" "env_ok E" "unpack PodAccount (data_of w a) = Inr st" "owner_of w a = token_2022_id"
    "w' = store PodAccount a (put_extension PodAccount (ConfidentialTransferAccountExt E) v
       (st\<lparr>base := (base st)\<lparr>amount := n\<rparr>\<rparr>)) w"
    "int (unat (amount (base st))) - int (unat n) = d"
  shows "ledger_with E (plus_at (mint (base st)) d L) w'"
proof -
  let ?st = "put_extension PodAccount (ConfidentialTransferAccountExt E) v (st\<lparr>base := (base st)\<lparr>amount := n\<rparr>\<rparr>)"
  have e: "evolves st ?st" by (rule evolves_trans [OF evolves_base evolves_put]) simp_all
  have "live ?st" using assms(3) by (simp add: unpack_account_live)
  then have u: "unpack PodAccount (data_of w' a) = Inr ?st" by (simp add: assms(5) frame)
  have h: "int (holdings E st) - int (holdings E ?st) = d"
    using assms(6) by (simp add: holdings_def withheld_def)
  show ?thesis
    by (rule ledger_account [OF assms(1) _ env_okD(1) [OF assms(2)] _ assms(3) u e])
       (use h assms(4) in \<open>auto simp: assms(5) frame changes_only_store plus_at_def\<close>)
qed

lemma keeps_deposit:
  assumes "ledger_with E L w" "env_ok E" "process_deposit E Z p (a # m # rest) amt dec w = Inr w'"
  shows "ledger_with E (plus_at (key m) (int (unat amt)) L) w'"
proof -
  from assms(3) obtain auth more st x v where o: "open_for_conversion E p a m auth more dec w = Inr st"
    and x: "checked_sub (amount (base st)) amt = Some x"
    and w': "w' = store PodAccount a (put_extension PodAccount (ConfidentialTransferAccountExt E) v
       (st\<lparr>base := (base st)\<lparr>amount := x\<rparr>\<rparr>)) w"
    by (auto simp: process_deposit_def success_simps Let_def)
  note c = open_for_conversion_Inr [OF o]
  have "unat (amount (base st)) = unat x + unat amt" using x by (simp add: checked_sub_Some)
  then have "int (unat (amount (base st))) - int (unat x) = int (unat amt)" by linarith
  from ledger_convert [OF assms(1,2) c(1,2) w' this] show ?thesis by (simp only: c(4))
qed

lemma keeps_withdraw:
  assumes "ledger_with E L w" "env_ok E" "process_withdraw E Z p (a # m # rest) amt dec d offset w = Inr w'"
  shows "ledger_with E (plus_at (key m) (- int (unat amt)) L) w'"
proof -
  from assms(3) obtain auth more st x v where o: "open_for_conversion E p a m auth more dec w = Inr st"
    and x: "checked_add (amount (base st)) amt = Some x"
    and w': "w' = store PodAccount a (put_extension PodAccount (ConfidentialTransferAccountExt E) v
       (st\<lparr>base := (base st)\<lparr>amount := x\<rparr>\<rparr>)) w"
    unfolding process_withdraw_def by (auto simp: success_simps Let_def split: if_splits)
  note c = open_for_conversion_Inr [OF o]
  have "unat x = unat (amount (base st)) + unat amt" using x by (simp add: checked_add_Some)
  then have "int (unat (amount (base st))) - int (unat x) = - int (unat amt)" by linarith
  from ledger_convert [OF assms(1,2) c(1,2) w' this] show ?thesis by (simp only: c(4))
qed

section \<open>Transfers\<close>

lemma changes_only_trans_none: "changes_only {} w w1 \<Longrightarrow> changes_only {} w1 w2 \<Longrightarrow> pod_bool_ok E \<Longrightarrow> ledger_with E L w \<Longrightarrow> ledger_with E L w2"
  by (rule ledger_step [where ks = "{}" and w = w1 and f = L]) (auto intro: ledger_step [where ks = "{}" and w = w and f = L])

lemma keeps_close_context_states:
  "close_context_states Z mk as d auth w = Inr w' \<Longrightarrow> zk_ok Z \<Longrightarrow> env_ok E \<Longrightarrow> ledger_with E L w \<Longrightarrow> ledger_with E L w'"
proof (induction as arbitrary: w)
  case (Cons a as)
  from Cons.prems(1) obtain w1 where "close_context_state Z (key a) (key auth) (key d) [a, d, auth] w = Inr w1"
    and r: "close_context_states Z mk as d auth w1 = Inr w'" by (auto simp: success_simps split: if_splits)
  with Cons.prems(2) have "changes_only {} w w1" by (auto simp: zk_ok_def)
  from keeps_elsewhere [OF Cons.prems(4) this Cons.prems(3)] show ?case by (rule Cons.IH [OF r Cons.prems(2,3)])
qed simp

lemma keeps_close_split_contexts:
  assumes "close_split_contexts Z mk close infos it w = Inr (it', w')" "zk_ok Z" "env_ok E" "ledger_with E L w"
  shows "ledger_with E L w'"
  using assms(1,4) keeps_close_context_states [OF _ assms(2-4)]
  by (auto simp: close_split_contexts_def success_simps split: if_splits)

lemma keeps_verify_transfer_proof:
  assumes "verify_transfer_proof E Z mk it offset split no_op close handles w = Inr (c, it', w')"
    "zk_ok Z" "env_ok E" "ledger_with E L w"
  shows "ledger_with E L w'"
  using assms(1,4) keeps_close_split_contexts [OF _ assms(2-4)]
  unfolding verify_transfer_proof_def by (auto simp: success_simps split: if_splits)

lemma keeps_verify_transfer_with_fee_proof:
  assumes "verify_transfer_with_fee_proof E Z mk it offset split no_op close handles params w = Inr (c, it', w')"
    "zk_ok Z" "env_ok E" "ledger_with E L w"
  shows "ledger_with E L w'"
  using assms(1,4) keeps_close_split_contexts [OF _ assms(2-4)]
  unfolding verify_transfer_with_fee_proof_def by (auto simp: success_simps Let_def split: if_splits)

lemma keeps_process_source:
  assumes "process_source E Z p a m auth rest proof d w = Inr w'" "env_ok E" "ledger_with E L w"
  shows "ledger_with E L w'"
proof -
  from assms(1) obtain st v where u: "unpack PodAccount (data_of w a) = Inr st"
    and w': "w' = store PodAccount a (put_extension PodAccount (ConfidentialTransferAccountExt E) v st) w"
    by (auto simp: process_source_def success_simps)
  show ?thesis by (rule keeps_account_put [OF assms(3,2) u w']) simp
qed

lemma open_destination_unpack: "open_destination E b m w = Inr (st, s) \<Longrightarrow> unpack PodAccount (data_of w b) = Inr st"
  by (auto simp: open_destination_def success_simps)

lemma keeps_process_destination:
  assumes "process_destination_for_transfer E Z b m proof w = Inr w'" "env_ok E" "ledger_with E L w"
  shows "ledger_with E L w'"
proof -
  from assms(1) obtain st s v where o: "open_destination E b m w = Inr (st, s)"
    and w': "w' = store PodAccount b (put_extension PodAccount (ConfidentialTransferAccountExt E) v st) w"
    by (auto simp: process_destination_for_transfer_def success_simps)
  show ?thesis by (rule keeps_account_put [OF assms(3,2) open_destination_unpack [OF o] w']) simp
qed

lemma credit_with_fee_quiet: "credit_with_fee E Z c self s st = Inr st' \<Longrightarrow> quiet E st st'"
  by (auto simp: credit_with_fee_def withhold_confidential_fee_def success_simps
      intro: quiet_put quiet_trans [OF quiet_put quiet_put] split: if_splits)

lemma keeps_process_destination_with_fee:
  assumes "process_destination_for_transfer_with_fee E Z b m proof self w = Inr w'" "env_ok E" "ledger_with E L w"
  shows "ledger_with E L w'"
proof -
  from assms(1) obtain st s st' where o: "open_destination E b m w = Inr (st, s)"
    and st': "(case proof of None \<Rightarrow> Inr st | Some c \<Rightarrow> credit_with_fee E Z c self s st) = Inr st'"
    and w': "w' = store PodAccount b st' w"
    unfolding process_destination_for_transfer_with_fee_def by (auto simp: success_simps)
  from st' have "quiet E st st'" by (auto intro: credit_with_fee_quiet split: option.split_asm)
  then show ?thesis by (rule keeps_quiet [OF assms(3,2) open_destination_unpack [OF o] _ w'])
qed

lemma keeps_transfer_parts:
  assumes "zk_ok Z" "env_ok E" "ledger_with E L w"
  shows "transfer_without_fee E Z p a m b it c d offset split no_op close handles w = Inr (auth, rest, w') \<Longrightarrow> ledger_with E L w'"
    "transfer_with_fee E Z p a m b it mt c config d offset split no_op close handles w = Inr (auth, rest, w') \<Longrightarrow> ledger_with E L w'"
  by (auto simp: transfer_without_fee_def transfer_with_fee_def process_source_for_transfer_def
      process_source_for_transfer_with_fee_def success_simps
      dest!: keeps_verify_transfer_proof [OF _ assms] keeps_verify_transfer_with_fee_proof [OF _ assms]
        keeps_process_source [OF _ assms(2)] keeps_process_destination [OF _ assms(2)]
        keeps_process_destination_with_fee [OF _ assms(2)])

lemma keeps_flag:
  assumes "set_transferring_account E a w = Inr w' \<or> unset_transferring E a w = Inr w'" "env_ok E" "ledger_with E L w"
  shows "ledger_with E L w'"
proof -
  from assms(1) obtain st v where u: "unpack PodAccount (data_of w a) = Inr st"
    and w': "w' = store PodAccount a (put_extension PodAccount TransferHookAccountExt v st) w"
    by (auto simp: set_transferring_account_def set_transferring_def unset_transferring_def success_simps)
  show ?thesis by (rule keeps_account_put [OF assms(3,2) u w']) simp
qed

lemma keeps_confidential_hook:
  assumes "run_confidential_hook E h a m b auth rest w = Inr w'" "env_ok E" "ledger_with E L w"
  shows "ledger_with E L w'"
proof -
  from assms(1) obtain w1 w2 w3 w4 where s: "set_transferring_account E a w = Inr w1" "set_transferring_account E b w1 = Inr w2"
    and i: "invoke_execute E h [a, m, b, auth] rest (- 1) w2 = Inr w3"
    and r: "unset_transferring E a w3 = Inr w4" "unset_transferring E b w4 = Inr w'"
    by (auto simp: run_confidential_hook_def success_simps)
  have "changes_only {} w2 w3" using env_okD(2) [OF assms(2)] i unfolding cpi_preserves_def changes_only_def by blast
  with keeps_flag [OF _ assms(2) keeps_flag [OF _ assms(2,3)]] s
  have "ledger_with E L w3" by (blast intro: keeps_elsewhere [OF _ _ assms(2)])
  with r show ?thesis by (blast intro: keeps_flag [OF _ assms(2)])
qed

lemma keeps_transfer_ct [keeps]:
  assumes "ledger_with E L w" "env_ok E" "zk_ok Z"
    "process_transfer_ct E Z p accounts d offset split no_op close handles w = Inr w'"
  shows "ledger_with E L w'"
proof -
  from assms(4) obtain a m b it mt c auth rest w1 where
    t: "transfer_by_kind E Z p a m b it mt c d offset split no_op close handles w = Inr (auth, rest, w1)"
    and h: "w' = w1 \<or> (\<exists>h. run_confidential_hook E h a m b auth rest w1 = Inr w')"
    unfolding process_transfer_ct_def by (auto simp: success_simps split: option.split_asm) blast
  from t have "ledger_with E L w1" using keeps_transfer_parts [OF assms(3,2,1)]
    by (auto simp: transfer_by_kind_def split: sum.split_asm)
  with h show ?thesis by (blast intro: keeps_confidential_hook [OF _ assms(2)])
qed

section \<open>Confidential fees\<close>

lemma open_fee_mint_unpack:
  "open_fee_mint E p m auth ss w = Inr mt \<Longrightarrow> unpack (PodMint E) (data_of w m) = Inr mt"
  by (auto simp: open_fee_mint_def success_simps)

lemma open_fee_destination_unpack:
  "open_fee_destination E b m w = Inr dst \<Longrightarrow> unpack PodAccount (data_of w b) = Inr dst \<and> key b \<noteq> key m"
  by (auto simp: open_fee_destination_def success_simps split: if_splits)

lemma keeps_withdraw_from_mint_ct [keeps]:
  assumes "ledger_with E L w" "env_ok E" "process_withdraw_withheld_tokens_from_mint_ct E Z p accounts d offset w = Inr w'"
  shows "ledger_with E L w'"
proof -
  from assms(3) obtain b m auth rest mt dst v f where om: "open_fee_mint E p m auth rest w = Inr mt"
    and ob: "open_fee_destination E b m w = Inr dst"
    and w': "w' = store PodAccount b (put_extension PodAccount (ConfidentialTransferAccountExt E) v dst)
      (store (PodMint E) m (put_extension (PodMint E) (ConfidentialTransferFeeConfigExt E) f mt) w)"
    by (auto simp: process_withdraw_withheld_tokens_from_mint_ct_def success_simps)
  note u = open_fee_destination_unpack [OF ob]
  have "ledger_with E L (store (PodMint E) m (put_extension (PodMint E) (ConfidentialTransferFeeConfigExt E) f mt) w)"
    by (rule keeps_put [OF assms(1,2) open_fee_mint_unpack [OF om] _ refl]) simp
  then show ?thesis using u by (intro keeps_account_put [OF _ assms(2) _ w']) (simp_all add: frame)
qed

lemma harvest_from_account_ct_keeps:
  assumes "harvest_from_account_ct E mk a w = Inr (n, w')" "env_ok E" "ledger_with E L w"
  shows "ledger_with E L w'" "key b \<noteq> key a \<Longrightarrow> data_of w' b = data_of w b"
proof -
  from assms(1) obtain st v where u: "unpack PodAccount (data_of w a) = Inr st"
    and w': "w' = store PodAccount a (put_extension PodAccount (ConfidentialTransferFeeAmountExt E) v st) w"
    by (auto simp: harvest_from_account_ct_def success_simps)
  show "ledger_with E L w'" by (rule keeps_account_put [OF assms(3,2) u w']) simp
  show "key b \<noteq> key a \<Longrightarrow> data_of w' b = data_of w b" by (simp add: w' frame)
qed

lemma harvest_to_mint_ct_keeps:
  assumes "harvest_to_mint_ct E Z (key m) as (f, w) = Inr (f', w')" "env_ok E" "ledger_with E L w"
  shows "ledger_with E L w' \<and> data_of w' m = data_of w m"
  using assms(1,3)
proof (induction as arbitrary: f w)
  case (Cons a as)
  from Cons.prems(1) have k: "key m \<noteq> key a" by (auto split: if_splits)
  show ?case
  proof (cases "harvest_from_account_ct E (key m) a w")
    case (Inl e)
    with Cons.prems k show ?thesis by (intro Cons.IH) simp_all
  next
    case (Inr r)
    obtain n w1 where r: "r = (n, w1)" by (cases r)
    note h = harvest_from_account_ct_keeps [OF Inr [unfolded r] assms(2) Cons.prems(2)]
    from Cons.prems(1) Inr k obtain f1 where "harvest_to_mint_ct E Z (key m) as (f1, w1) = Inr (f', w')"
      by (auto simp: r success_simps)
    from Cons.IH [OF this h(1)] h(2) [OF k] show ?thesis by simp
  qed
qed simp

lemma keeps_harvest_to_mint_ct [keeps]:
  assumes "ledger_with E L w" "env_ok E" "process_harvest_withheld_tokens_to_mint_ct E Z accounts w = Inr w'"
  shows "ledger_with E L w'"
proof -
  from assms(3) obtain m as mt f f' w1 where u: "unpack (PodMint E) (data_of w m) = Inr mt"
    and h: "harvest_to_mint_ct E Z (key m) as (f, w) = Inr (f', w1)"
    and w': "w' = store (PodMint E) m (put_extension (PodMint E) (ConfidentialTransferFeeConfigExt E) f' mt) w1"
    by (auto simp: process_harvest_withheld_tokens_to_mint_ct_def success_simps)
  note k = harvest_to_mint_ct_keeps [OF h assms(2,1)]
  show ?thesis by (rule keeps_put [OF _ assms(2) _ _ w']) (use k u in simp_all)
qed

lemma aggregate_withheld_keeps:
  assumes "aggregate_withheld E Z mk (key b) as (c, dst, w) = Inr (c', dst', w')" "env_ok E" "ledger_with E L w"
  shows "ledger_with E L w' \<and> data_of w' b = data_of w b \<and> quiet E dst dst'"
  using assms(1,3)
proof (induction as arbitrary: c dst w)
  case (Cons a as)
  show ?case
  proof (cases "key a = key b")
    case True
    let ?z = "put_extension PodAccount (ConfidentialTransferFeeAmountExt E) (zeroed_ciphertext E) dst"
    from Cons.prems(1) True obtain c1 where h: "aggregate_withheld E Z mk (key b) as (c1, ?z, w) = Inr (c', dst', w')"
      by (auto simp: success_simps)
    have "quiet E dst ?z" by (rule quiet_put) simp
    with Cons.IH [OF h Cons.prems(2)] show ?thesis by (auto intro: quiet_trans)
  next
    case no: False
    show ?thesis
    proof (cases "harvest_from_account_ct E mk a w")
      case (Inl e)
      with Cons.prems no show ?thesis by (intro Cons.IH) (auto split: if_splits)
    next
      case (Inr r)
      obtain n w1 where r: "r = (n, w1)" by (cases r)
      note h = harvest_from_account_ct_keeps [OF Inr [unfolded r] assms(2) Cons.prems(2)]
      from Cons.prems(1) Inr no obtain c1 where "aggregate_withheld E Z mk (key b) as (c1, dst, w1) = Inr (c', dst', w')"
        by (auto simp: r success_simps split: if_splits)
      from Cons.IH [OF this h(1)] h(2) [OF no [symmetric]] show ?thesis by simp
    qed
  qed
qed simp

lemma keeps_withdraw_from_accounts_ct [keeps]:
  assumes "ledger_with E L w" "env_ok E"
    "process_withdraw_withheld_tokens_from_accounts_ct E Z p accounts n d offset w = Inr w'"
  shows "ledger_with E L w'"
proof -
  from assms(3) obtain b m as dst dst' c c' w1 v where ob: "open_fee_destination E b m w = Inr dst"
    and h: "aggregate_withheld E Z (key m) (key b) as (c, dst, w) = Inr (c', dst', w1)"
    and w': "w' = store PodAccount b (put_extension PodAccount (ConfidentialTransferAccountExt E) v dst') w1"
    unfolding process_withdraw_withheld_tokens_from_accounts_ct_def by (auto simp: success_simps Let_def)
  note k = aggregate_withheld_keeps [OF h assms(2,1)]
  have "quiet E dst (put_extension PodAccount (ConfidentialTransferAccountExt E) v dst')"
    using k by (auto intro: quiet_trans [OF _ quiet_put [of "ConfidentialTransferAccountExt E", simplified]])
  then show ?thesis using k open_fee_destination_unpack [OF ob]
    by (intro keeps_quiet [OF _ assms(2) _ _ w']) simp_all
qed

section \<open>The instructions\<close>

text \<open>The tokens that an instruction takes out of the accounts of a mint, as its second account names it: the amount
  of a deposit, or minus that of a withdrawal.\<close>

definition net_confidential :: "env \<Rightarrow> account_info list \<Rightarrow> bytes \<Rightarrow> pubkey \<Rightarrow> int" where
  "net_confidential E accounts input = (case accounts of
       _ # m # _ \<Rightarrow>
         (case decode_instruction_type confidential_transfer_instruction_try_from input of
            Inr CtDeposit \<Rightarrow> plus_at (key m) (int (unat (fst (deposit_data (drop 1 input))))) (\<lambda>_. 0)
          | Inr CtWithdraw \<Rightarrow> plus_at (key m) (- int (unat (fst (withdraw_data E (drop 1 input))))) (\<lambda>_. 0)
          | _ \<Rightarrow> (\<lambda>_. 0))
     | _ \<Rightarrow> (\<lambda>_. 0))"

definition net_deposit :: "env \<Rightarrow> account_info list \<Rightarrow> bytes \<Rightarrow> pubkey \<Rightarrow> int" where
  "net_deposit E accounts input = (case decode_instruction_type pod_token_instruction_try_from input of
       Inr pod_token_instruction.ConfidentialTransferExtension \<Rightarrow> net_confidential E accounts (drop 1 input)
     | _ \<Rightarrow> (\<lambda>_. 0))"

lemma bindE_InrE: "bindE m f = Inr y \<Longrightarrow> (\<And>x. m = Inr x \<Longrightarrow> f x = Inr y \<Longrightarrow> P) \<Longrightarrow> P"
  by (auto simp: bindE_Inr)

lemma decode_instruction_data_drop:
  "decode_instruction_data n f input = Inr x \<Longrightarrow> x = f (drop 1 input)"
  by (cases input) (auto simp: decode_instruction_data_def split: if_splits)

lemma plus_at_L: "(\<lambda>M. L M + plus_at k d (\<lambda>_. 0) M) = plus_at k d L"
  by (simp add: plus_at_def fun_eq_iff)

text \<open>Deposits and withdrawals have a mint.\<close>

lemma deposit_accounts:
  "process_deposit E Z p accounts amt dec w = Inr w' \<Longrightarrow> \<exists>a m rest. accounts = a # m # rest"
  "process_withdraw E Z p accounts amt dec d offset w = Inr w' \<Longrightarrow> \<exists>a m rest. accounts = a # m # rest"
  by (auto simp: process_deposit_def process_withdraw_def success_simps)

lemma keeps_confidential_deposit:
  assumes "ledger_with E L w" "env_ok E" "process_deposit E Z p accounts amt dec w = Inr w'"
    "decode_instruction_type confidential_transfer_instruction_try_from input = Inr CtDeposit"
    "decode_instruction_data 9 deposit_data input = Inr (amt, dec)"
  shows "ledger_with E (\<lambda>M. L M + net_confidential E accounts input M) w'"
proof -
  obtain a m rest where a: "accounts = a # m # rest" using deposit_accounts(1) [OF assms(3)] by blast
  have "deposit_data (drop 1 input) = (amt, dec)" using decode_instruction_data_drop [OF assms(5)] by simp
  then have n: "net_confidential E accounts input = plus_at (key m) (int (unat amt)) (\<lambda>_. 0)"
    by (simp only: net_confidential_def a assms(4)) simp
  from keeps_deposit [OF assms(1,2) assms(3) [unfolded a]] show ?thesis by (simp only: n plus_at_L)
qed

lemma keeps_confidential_withdraw:
  assumes "ledger_with E L w" "env_ok E" "process_withdraw E Z p accounts amt dec d offset w = Inr w'"
    "decode_instruction_type confidential_transfer_instruction_try_from input = Inr CtWithdraw"
    "decode_instruction_data n (withdraw_data E) input = Inr (amt, dec, d, offset)"
  shows "ledger_with E (\<lambda>M. L M + net_confidential E accounts input M) w'"
proof -
  obtain a m rest where a: "accounts = a # m # rest" using deposit_accounts(2) [OF assms(3)] by blast
  have "withdraw_data E (drop 1 input) = (amt, dec, d, offset)" using decode_instruction_data_drop [OF assms(5)] by simp
  then have n: "net_confidential E accounts input = plus_at (key m) (- int (unat amt)) (\<lambda>_. 0)"
    by (simp only: net_confidential_def a assms(4)) simp
  from keeps_withdraw [OF assms(1,2) assms(3) [unfolded a]] show ?thesis by (simp only: n plus_at_L)
qed

lemma net_confidential_none:
  assumes "decode_instruction_type confidential_transfer_instruction_try_from input = Inr t" "t \<noteq> CtDeposit" "t \<noteq> CtWithdraw"
  shows "net_confidential E accounts input = (\<lambda>_. 0)"
  using assms by (cases t) (simp_all add: net_confidential_def split: list.split)

lemma keeps_confidential_transfer_extension:
  assumes "ledger_with E L w" "env_ok E" "zk_ok Z"
    "confidential_transfer_process_instruction E Z p accounts input w = Inr w'"
  shows "ledger_with E (\<lambda>M. L M + net_confidential E accounts input M) w'"
proof -
  note k = keeps_initialize_mint_ct [OF assms(1,2)] keeps_update_mint [OF assms(1,2)] keeps_configure_account [OF assms(1,2)]
    keeps_approve_account [OF assms(1,2)] keeps_empty_account [OF assms(1,2)] keeps_transfer_ct [OF assms(1-3)]
    keeps_update_confidential [OF assms(1,2)]
  from assms(4) obtain t where t: "decode_instruction_type confidential_transfer_instruction_try_from input = Inr t"
    by (auto simp: confidential_transfer_process_instruction_def elim!: bindE_InrE)
  show ?thesis
  proof (cases "t = CtDeposit \<or> t = CtWithdraw")
    case True
    then show ?thesis using assms(4) t
      by (auto simp: confidential_transfer_process_instruction_def elim!: bindE_InrE
          intro: keeps_confidential_deposit [OF assms(1,2)] keeps_confidential_withdraw [OF assms(1,2)])
  next
    case False
    have "ledger_with E L w'" using assms(4) t False
      by (cases t) (auto simp: confidential_transfer_process_instruction_def process_apply_pending_balance_def
          process_allow_confidential_credits_def process_allow_non_confidential_credits_def elim!: bindE_InrE intro: k)
    with False show ?thesis by (simp add: net_confidential_none [OF t])
  qed
qed

lemma keeps_confidential_fee_extension [keeps]:
  assumes "ledger_with E L w" "env_ok E"
    "confidential_transfer_fee_process_instruction E Z p accounts input w = Inr w'"
  shows "ledger_with E L w'"
  using assms(3)
  by (auto simp: confidential_transfer_fee_process_instruction_def process_enable_harvest_to_mint_def
      process_disable_harvest_to_mint_def elim!: bindE_InrE split: confidential_transfer_fee_instruction.split_asm
      intro: keeps_initialize_mint_ct [OF assms(1,2)] keeps_withdraw_from_mint_ct [OF assms(1,2)]
        keeps_withdraw_from_accounts_ct [OF assms(1,2)] keeps_harvest_to_mint_ct [OF assms(1,2)]
        keeps_set_harvest_to_mint [OF assms(1,2)])

end
