(* ===== verification/Interface_Ledger.thy ===== *)
theory Interface_Ledger
  imports Token_Interfaces Ledger_Flows
begin

text \<open>
  The instructions of the metadata and group interfaces keep the ledger: they write one or two mints and leave the
  supply and the withheld fees of them alone.
\<close>

section \<open>Writing an extension of a mint\<close>

lemma realloc_set_data: "realloc_account E a n w = Inr w' \<Longrightarrow> realloc_ok E \<Longrightarrow> \<exists>d. w' = set_data a d w"
  unfolding realloc_ok_def by blast

lemma set_data_own: "\<exists>d. w' = set_data a d w \<Longrightarrow> w' = set_data a (data_of w' a) w"
  by (auto simp: frame)

lemma alloc_set_data:
  assumes "alloc_and_serialize E S V v ow a w = Inr w'" "realloc_ok E"
  shows "w' = set_data a (data_of w' a) w"
proof (rule set_data_own)
  from assms(1) show "\<exists>d. w' = set_data a d w"
    by (auto simp: alloc_and_serialize_def Let_def success_simps store_def dest!: realloc_set_data [OF _ assms(2)] split: if_split_asm)
qed

lemma alloc_variable_set_data:
  assumes "alloc_and_serialize_variable_len_extension E S V v ow a w = Inr w'" "realloc_ok E"
  shows "w' = set_data a (data_of w' a) w"
proof (rule set_data_own)
  from assms(1) show "\<exists>d. w' = set_data a d w"
    by (auto simp: alloc_and_serialize_variable_len_extension_def Let_def success_simps store_def
        dest!: realloc_set_data [OF _ assms(2)] split: if_split_asm)
qed

lemma other_extensions_withheld:
  "other_extensions t mt mt' \<Longrightarrow> t \<noteq> extension_type.TransferFeeConfig \<Longrightarrow> mint_withheld E mt' = mint_withheld E mt"
  unfolding mint_withheld_def
  by (rule case_result_cong) (auto simp: get_extension_def other_extensions_def success_simps)

lemma keeps_mint_extension:
  assumes "ledger_with E L w" "env_ok E" "runtime_ok w w'" "w' = set_data a (data_of w' a) w"
    "owner_of w a = token_2022_id \<Longrightarrow> \<exists>mt mt'. unpack (PodMint E) (data_of w a) = Inr mt \<and> unpack (PodMint E) (data_of w' a) = Inr mt' \<and>
       base mt' = base mt \<and> other_extensions t mt mt' \<and> tlv_wf account_type.Mint (tlv_data mt')"
    "t \<noteq> extension_type.TransferFeeConfig"
  shows "ledger_with E L w'"
proof (cases "owner_of w a = token_2022_id")
  case True
  from assms(5) [OF this] obtain mt mt' where m: "unpack (PodMint E) (data_of w a) = Inr mt"
    "unpack (PodMint E) (data_of w' a) = Inr mt'" "base mt' = base mt" "other_extensions t mt mt'"
    "tlv_wf account_type.Mint (tlv_data mt')" by blast
  show ?thesis
    by (rule ledger_mint [OF assms(1) changes_only_set_data [OF assms(4)] env_okD(1) [OF assms(2)] _ m(1,2)])
       (use m other_extensions_withheld [OF m(4) assms(6)] in \<open>simp_all, subst assms(4), simp add: frame\<close>)
next
  case False
  then have "data_of w' a = data_of w a" using assms(3) by (simp add: runtime_ok_def owner_of_def data_of_def)
  then have "w' = set_data a (data_of w a) w" using assms(4) by simp
  then show ?thesis by (intro keeps_same_data [OF assms(1)]) (simp add: frame data_of_def)
qed

lemma keeps_metadata_written:
  assumes "ledger_with E L w" "env_ok E" "runtime_ok w w'" "interfaces_ok E I"
    "alloc_and_serialize_variable_len_extension E (PodMint E) (TokenMetadataExt I) m overwrite a w = Inr w'"
    "unpack (PodMint E) (data_of w a) = Inr mt" "tlv_data mt \<noteq> []"
  shows "ledger_with E L w'"
proof (rule keeps_mint_extension [OF assms(1-3) alloc_variable_set_data [OF assms(5) env_okD(3) [OF assms(2)]], of TokenMetadata])
  assume "owner_of w a = token_2022_id"
  from data_ok_mintD [OF ledger_data [OF assms(1) this] assms(6)]
  have "tlv_wf account_type.Mint (tlv_data mt)" .
  from metadata_written [OF assms(5,6) this assms(7,4) env_okD(3) [OF assms(2)]] assms(6)
  show "\<exists>mt mt'. unpack (PodMint E) (data_of w a) = Inr mt \<and> unpack (PodMint E) (data_of w' a) = Inr mt' \<and>
      base mt' = base mt \<and> other_extensions TokenMetadata mt mt' \<and> tlv_wf account_type.Mint (tlv_data mt')" by blast
qed simp

lemma keeps_struct_written:
  assumes "ledger_with E L w" "env_ok E" "runtime_ok w w'"
    "alloc_and_serialize E (PodMint E) V v overwrite a w = Inr w'" "V = bytes_extension t n" "length v = n"
    "unpack (PodMint E) (data_of w a) = Inr mt" "tlv_data mt \<noteq> []" "t \<noteq> extension_type.TransferFeeConfig"
  shows "ledger_with E L w'"
proof (rule keeps_mint_extension [OF assms(1-3) alloc_set_data [OF assms(4) env_okD(3) [OF assms(2)]] _ assms(9)])
  assume "owner_of w a = token_2022_id"
  from data_ok_mintD [OF ledger_data [OF assms(1) this] assms(7)]
  have "tlv_wf account_type.Mint (tlv_data mt)" .
  from group_struct_written [OF assms(4-7) this assms(8) env_okD(3) [OF assms(2)]] assms(7)
  show "\<exists>mt mt'. unpack (PodMint E) (data_of w a) = Inr mt \<and> unpack (PodMint E) (data_of w' a) = Inr mt' \<and>
      base mt' = base mt \<and> other_extensions t mt mt' \<and> tlv_wf account_type.Mint (tlv_data mt')" by blast
qed

section \<open>The handlers\<close>

lemma keeps_initialize_metadata:
  assumes "ledger_with E L w" "env_ok E" "runtime_ok w w'" "interfaces_ok E I"
    "process_initialize_metadata E I accounts n s u w = Inr w'"
  shows "ledger_with E L w'"
proof -
  from assms(5) obtain a b m auth v where k: "key a = key m"
    and c: "check_mint_authority E MetadataPointerExt (incorrect_metadata_mint_authority I) m auth w = Inr ()"
    and w': "alloc_and_serialize_variable_len_extension E (PodMint E) (TokenMetadataExt I) v False a w = Inr w'"
    by (auto simp: process_initialize_metadata_def success_simps)
  have d: "data_of w m = data_of w a" using k by (simp add: data_of_def)
  from c obtain mt x where "unpack (PodMint E) (data_of w a) = Inr mt" "get_extension E (PodMint E) MetadataPointerExt mt = Inr x"
    unfolding d [symmetric] by (rule check_mint_authority_Inr)
  then show ?thesis by (intro keeps_metadata_written [OF assms(1-4) w'] extended_if_found(1))
qed

lemma keeps_update_metadata:
  assumes "ledger_with E L w" "env_ok E" "runtime_ok w w'" "interfaces_ok E I" "update_metadata E I f accounts w = Inr w'"
  shows "ledger_with E L w'"
proof -
  from assms(5) obtain a mt m m' where "unpack (PodMint E) (data_of w a) = Inr mt"
    "get_variable_len_extension (PodMint E) (TokenMetadataExt I) mt = Inr m"
    and w': "alloc_and_serialize_variable_len_extension E (PodMint E) (TokenMetadataExt I) m' True a w = Inr w'"
    by (auto simp: update_metadata_def success_simps)
  then show ?thesis
    by (intro keeps_metadata_written [OF assms(1-4) w'])
       (auto simp: get_variable_len_extension_def success_simps dest: extended_if_found(2))
qed

lemma keeps_return_data: "ledger_with E L w \<Longrightarrow> ledger_with E L (w\<lparr>return_data := d\<rparr>)"
  by (rule keeps_same_data) simp_all

lemma keeps_token_metadata:
  assumes "ledger_with E L w" "env_ok E" "runtime_ok w w'" "interfaces_ok E I"
    "token_metadata_process_instruction E I p accounts i w = Inr w'"
  shows "ledger_with E L w'"
proof (cases "metadata_effect I i")
  case (Some f)
  from assms(5) [unfolded metadata_effect_runs [OF this]] show ?thesis by (rule keeps_update_metadata [OF assms(1-4)])
next
  case None
  then consider n s u where "i = metadata_instruction.Initialize n s u" | j k where "i = Emit j k" by (cases i) auto
  then show ?thesis
  proof cases
    case 1
    with assms(5) show ?thesis
      by (intro keeps_initialize_metadata [OF assms(1-4)]) (simp add: token_metadata_process_instruction_def)
  next
    case 2
    with assms(5) have "w' = w \<or> (\<exists>r. w' = w\<lparr>return_data := r\<rparr>)"
      by (auto simp: token_metadata_process_instruction_def process_emit_def success_simps split: option.split_asm)
    with assms(1) show ?thesis by (auto intro: keeps_return_data)
  qed
qed

lemma keeps_group_put:
  assumes "ledger_with E L w" "env_ok E" "unpack (PodMint E) (data_of w m) = Inr mt"
  shows "ledger_with E L (store (PodMint E) m (put_extension (PodMint E) (TokenGroupExt E) g mt) w)"
  by (rule keeps_put [OF assms _ refl]) simp

lemma keeps_update_group:
  assumes "ledger_with E L w" "env_ok E" "update_group E I f accounts w = Inr w'"
  shows "ledger_with E L w'"
  using assms(3) by (auto simp: update_group_def success_simps intro: keeps_group_put [OF assms(1,2)])

lemma keeps_initialize_group:
  assumes "ledger_with E L w" "env_ok E" "runtime_ok w w'" "interfaces_ok E I"
    "process_initialize_group E I accounts k n w = Inr w'"
  shows "ledger_with E L w'"
proof -
  from assms(5) obtain a m auth where k: "key a = key m"
    and c: "check_mint_authority E GroupPointerExt (incorrect_group_mint_authority I) m auth w = Inr ()"
    and w': "alloc_and_serialize E (PodMint E) (TokenGroupExt E) (group_new I (key m) k n) False a w = Inr w'"
    by (auto simp: process_initialize_group_def success_simps)
  have d: "data_of w m = data_of w a" using k by (simp add: data_of_def)
  from c obtain mt x where mt: "unpack (PodMint E) (data_of w a) = Inr mt" "get_extension E (PodMint E) GroupPointerExt mt = Inr x"
    unfolding d [symmetric] by (rule check_mint_authority_Inr)
  show ?thesis
    by (rule keeps_struct_written [OF assms(1-3) w' TokenGroupExt_def _ mt(1) extended_if_found(1) [OF mt(2)]])
       (simp_all add: interfaces_okD(2) [OF assms(4)])
qed

lemma keeps_initialize_member:
  assumes "ledger_with E L w" "env_ok E" "runtime_ok w w'" "interfaces_ok E I"
    "process_initialize_member E I accounts w = Inr w'"
  shows "ledger_with E L w'"
proof -
  from assms(5) obtain a m auth g gauth gt gb' n where k: "key a = key m" "key a \<noteq> key g"
    and c: "check_mint_authority E GroupMemberPointerExt (incorrect_group_mint_authority I) m auth w = Inr ()"
    and gt: "unpack (PodMint E) (data_of w g) = Inr gt"
    and w': "alloc_and_serialize E (PodMint E) (TokenGroupMemberExt E) (member_new I (key m) (key g) n) False a
       (store (PodMint E) g (put_extension (PodMint E) (TokenGroupExt E) gb' gt) w) = Inr w'"
    by (auto simp: process_initialize_member_def success_simps)
  let ?w = "store (PodMint E) g (put_extension (PodMint E) (TokenGroupExt E) gb' gt) w"
  have d: "data_of w m = data_of w a" using k by (simp add: data_of_def)
  from c obtain mt x where mt: "unpack (PodMint E) (data_of w a) = Inr mt" "owner_of w m = token_2022_id"
    "get_extension E (PodMint E) GroupMemberPointerExt mt = Inr x"
    unfolding d [symmetric] by (rule check_mint_authority_Inr)
  have r: "runtime_ok ?w w'"
    using alloc_set_data [OF w' env_okD(3) [OF assms(2)]] mt(2) k(1) assms(3) unfolding runtime_ok_def
    by (metis cells_set_data owner_of_def acct.select_convs acct.update_convs owner_of_set(1) store_def)
  show ?thesis
    by (rule keeps_struct_written [OF keeps_group_put [OF assms(1,2) gt] assms(2) r w' TokenGroupMemberExt_def _ _
          extended_if_found(1) [OF mt(3)]])
       (use mt(1) k in \<open>simp_all add: interfaces_okD(6) [OF assms(4)] frame\<close>)
qed

lemma keeps_token_group:
  assumes "ledger_with E L w" "env_ok E" "runtime_ok w w'" "interfaces_ok E I"
    "token_group_process_instruction E I accounts i w = Inr w'"
  shows "ledger_with E L w'"
  using assms(5)
  by (cases i)
     (auto simp: token_group_process_instruction_def process_update_group_max_size_def process_update_group_authority_def
       intro: keeps_initialize_group [OF assms(1-4)] keeps_update_group [OF assms(1,2)] keeps_initialize_member [OF assms(1-4)])

end
