(* ===== verification/Conservation.thy ===== *)
theory Conservation
  imports Dispatch Confidential_Ledger Interface_Ledger
begin

text \<open>
  The whole program over time: a step relation of instructions and of everything else that happens on
  the chain, and the conservation of tokens in every reachable world.
\<close>

section \<open>Every instruction keeps the ledger\<close>

lemma keeps_queries [keeps]:
  assumes "ledger_with E L w"
    "process_get_account_data_size E accounts ts w = Inr w' \<or> process_amount_to_ui_amount E f accounts n w = Inr w' \<or>
     process_ui_amount_to_amount E g accounts s w = Inr w'"
  shows "ledger_with E L w'"
  using assms
  by (auto simp: process_get_account_data_size_def process_amount_to_ui_amount_def process_ui_amount_to_amount_def
      success_simps intro: keeps_return_data split: if_splits)

lemma keeps_initialize [keeps]:
  assumes "ledger_with E L w" "env_ok E"
    "process_initialize_mint E accounts d k c w = Inr w' \<or> process_initialize_mint2 E accounts d k c w = Inr w' \<or>
     process_initialize_account E accounts w = Inr w' \<or> process_initialize_account2 E accounts k w = Inr w' \<or>
     process_initialize_account3 E accounts k w = Inr w' \<or> process_initialize_multisig E accounts d w = Inr w' \<or>
     process_initialize_multisig2 E accounts d w = Inr w'"
  shows "ledger_with E L w'"
  using assms(3)
  unfolding process_initialize_mint_def process_initialize_mint2_def process_initialize_account_def
    process_initialize_account2_def process_initialize_account3_def process_initialize_multisig_def
    process_initialize_multisig2_def
  by (elim disjE) (rule keeps_initialize_mint [OF assms(1,2)] keeps_initialize_account [OF assms(1,2)]
    keeps_initialize_multisig [OF assms(1,2)], assumption)+

text \<open>The extensions whose instructions are modelled.\<close>

lemma keeps_extensions [keeps]:
  assumes "ledger_with E L w" "env_ok E"
    "memo_transfer_process_instruction E p accounts input w = Inr w' \<or>
     cpi_guard_process_instruction E p accounts input w = Inr w' \<or>
     default_account_state_process_instruction E p accounts input w = Inr w' \<or>
     interest_bearing_mint_process_instruction E p accounts input w = Inr w' \<or>
     transfer_hook_process_instruction E p accounts input w = Inr w' \<or>
     metadata_pointer_process_instruction E p accounts input w = Inr w' \<or>
     group_pointer_process_instruction E p accounts input w = Inr w' \<or>
     group_member_pointer_process_instruction E p accounts input w = Inr w'"
  shows "ledger_with E L w'"
  using assms(3)
  by (elim disjE)
     (auto simp: memo_transfer_process_instruction_def cpi_guard_process_instruction_def
       default_account_state_process_instruction_def interest_bearing_mint_process_instruction_def
       transfer_hook_process_instruction_def metadata_pointer_process_instruction_def
       group_pointer_process_instruction_def group_member_pointer_process_instruction_def
       elim!: bindE_InrE
       split: switch_instruction.split_asm setup_instruction.split_asm
       intro: keeps_toggle_required_memo_transfers [OF assms(1,2)] keeps_toggle_cpi_guard [OF assms(1,2)]
         keeps_initialize_extensions [OF assms(1,2)] keeps_update_default_account_state [OF assms(1,2)]
         keeps_interest_bearing_update_rate [OF assms(1,2)] keeps_pointer_updates [OF assms(1,2)])

lemma keeps_transfer_fee_extension [keeps]:
  assumes "ledger_with E L w" "env_ok E" "transfer_fee_process_instruction E p accounts input w = Inr w'" "runtime_ok w w'"
  shows "ledger_with E L w'"
  using assms(3)
  by (auto simp: transfer_fee_process_instruction_def elim!: bindE_InrE split: transfer_fee_instruction.split_asm
      intro: keeps_initialize_transfer_fee_config [OF assms(1,2)] keeps_transfer [OF assms(1,2)]
        keeps_withdraw_withheld_from_mint [OF assms(1,2) _ assms(4)]
        keeps_withdraw_withheld_from_accounts [OF assms(1,2) _ assms(4)]
        keeps_harvest_to_mint [OF assms(1,2) _ assms(4)] keeps_set_transfer_fee [OF assms(1,2)])

lemma keeps_process_pod_instruction:
  assumes "ledger_with E L w" "env_ok E" "process_pod_instruction E F p accounts input t w = Inr w'" "runtime_ok w w'"
    "\<And>M. 0 \<le> L M" "t \<noteq> pod_token_instruction.ConfidentialTransferExtension"
  shows "ledger_with E L w'"
proof -
  note k = keeps_initialize [OF assms(1,2)] keeps_initialize_extensions [OF assms(1,2)]
    keeps_initialize_immutable_owner [OF assms(1,2)] keeps_transfer [OF assms(1,2)] keeps_approve [OF assms(1,2)]
    keeps_revoke [OF assms(1,2)] keeps_set_authority [OF assms(1,2)] keeps_mint_to [OF assms(1,2)]
    keeps_burn [OF assms(1,2)] keeps_close_account [OF assms(1,2) _ assms(5)] keeps_toggle_freeze [OF assms(1,2)]
    keeps_sync_native [OF assms(1,2)] keeps_queries [OF assms(1)] keeps_reallocate [OF assms(1,2)]
    keeps_create_native_mint [OF assms(1,2)] keeps_withdraw_excess_lamports [OF assms(1)]
    keeps_extensions [OF assms(1,2)] keeps_transfer_fee_extension [OF assms(1,2) _ assms(4)]
    keeps_confidential_fee_extension [OF assms(1,2)]
  from assms(3,6) show ?thesis
    by (cases t) (auto simp: process_pod_instruction_def bindE_Inr intro: k split: if_splits)
qed

lemma keeps_process:
  assumes "ledger_with E L w" "env_ok E" "zk_ok (zk_sdk F)" "process E F p accounts input w = Inr w'" "runtime_ok w w'"
    "interfaces_ok E (interfaces F)" "\<And>M. 0 \<le> L M"
  shows "ledger_with E (\<lambda>M. L M + net_deposit E accounts input M) w'"
proof (cases "decode_instruction_type pod_token_instruction_try_from input")
  case (Inl e)
  then have n: "net_deposit E accounts input = (\<lambda>_. 0)" by (simp add: net_deposit_def)
  show ?thesis
  proof (cases "metadata_instruction_unpack (interfaces F) input")
    case (Some i)
    with assms(4) Inl have "token_metadata_process_instruction E (interfaces F) p accounts i w = Inr w'" by (simp add: process_def)
    from keeps_token_metadata [OF assms(1,2,5,6) this] show ?thesis by (simp add: n)
  next
    case None
    with assms(4) Inl obtain i where "token_group_process_instruction E (interfaces F) accounts i w = Inr w'"
      by (auto simp: process_def split: option.splits)
    from keeps_token_group [OF assms(1,2,5,6) this] show ?thesis by (simp add: n)
  qed
next
  case (Inr t)
  with assms(4) have p: "process_pod_instruction E F p accounts input t w = Inr w'" by (simp add: process_def)
  show ?thesis
  proof (cases "t = pod_token_instruction.ConfidentialTransferExtension")
    case True
    with p have "confidential_transfer_process_instruction E (zk_sdk F) p accounts (drop 1 input) w = Inr w'"
      by (simp add: process_pod_instruction_def)
    from keeps_confidential_transfer_extension [OF assms(1-3) this] show ?thesis by (simp add: net_deposit_def Inr True)
  next
    case False
    then have "net_deposit E accounts input = (\<lambda>_. 0)"
      by (cases t) (simp_all add: net_deposit_def Inr)
    with keeps_process_pod_instruction [OF assms(1,2) p assms(5,7) False] show ?thesis by simp
  qed
qed

section \<open>What the ledger depends on\<close>

text \<open>Of the environment only the meaning of a \<open>PodBool\<close>: the clock, the rent and the programs
  called may differ from one instruction to the next.\<close>

lemma get_extension_env: "get_extension E S V st = Inr x \<longleftrightarrow> get_extension E' S V st = Inr x"
  by (auto simp: get_extension_def success_simps)

lemma holdings_env: "withheld E st = withheld E' st" "holdings E st = holdings E' st" "mint_withheld E mt = mint_withheld E' mt"
  if "PodMint E = PodMint E'"
proof -
  show "withheld E st = withheld E' st" unfolding withheld_def by (rule case_result_cong [OF get_extension_env])
  then show "holdings E st = holdings E' st" by (simp add: holdings_def)
  show "mint_withheld E mt = mint_withheld E' mt"
    unfolding mint_withheld_def that by (rule case_result_cong [OF get_extension_env])
qed

lemma ledger_env:
  assumes "pod_bool E = pod_bool E'"
  shows "account_tokens E = account_tokens E'" "supply_at E = supply_at E'" "withheld_at E = withheld_at E'"
    "ledger_with E L w \<longleftrightarrow> ledger_with E' L w"
proof -
  have m: "PodMint E = PodMint E'" using assms by (simp add: PodMint_def pod_mint_is_initialized_def fun_eq_iff)
  note h = holdings_env [OF m]
  show t: "account_tokens E = account_tokens E'" "supply_at E = supply_at E'" "withheld_at E = withheld_at E'"
    by (intro ext, auto simp: account_tokens_def supply_at_def withheld_at_def m h split: sum.splits)+
  have d: "data_ok E d \<longleftrightarrow> data_ok E' d" for d by (simp add: data_ok_def m h)
  show "ledger_with E L w \<longleftrightarrow> ledger_with E' L w"
    unfolding ledger_with_def balance_def cell_balance_def t d by (rule refl)
qed

section \<open>The program over time\<close>

text \<open>A step of the chain, as this program sees it: one of its instructions, in an environment that keeps its
  contracts, or anything else, which leaves its accounts alone; an account that is handed over to the
  program is all zeros.  An instruction that fails changes nothing.  The last argument counts, per mint, the tokens
  that went into confidential balances and did not come back.  How much may come back is decided by the proofs
  that the zero-knowledge program checks, so that no withdrawal returns more than was deposited is an assumption on
  them.\<close>

type_synonym counted = "pubkey \<Rightarrow> int"

inductive token_step :: "foreign \<Rightarrow> (u8 \<Rightarrow> bool) \<Rightarrow> world \<Rightarrow> counted \<Rightarrow> world \<Rightarrow> counted \<Rightarrow> bool" for F pb where
  instruction: "env_ok E \<Longrightarrow> pod_bool E = pb \<Longrightarrow> interfaces_ok E (interfaces F) \<Longrightarrow>
    process E F token_2022_id accounts input w = Inr w' \<Longrightarrow> runtime_ok w w' \<Longrightarrow>
    c' = (\<lambda>M. c M + net_deposit E accounts input M) \<Longrightarrow> (\<And>M. 0 \<le> c' M) \<Longrightarrow> token_step F pb w c w' c'"
| elsewhere: "changes_only {} w w' \<Longrightarrow> token_step F pb w c w' c"

inductive reachable :: "foreign \<Rightarrow> (u8 \<Rightarrow> bool) \<Rightarrow> world \<Rightarrow> counted \<Rightarrow> bool" for F pb where
  start: "(\<And>k. acct_owner (cells w k) = token_2022_id \<Longrightarrow> list_all (\<lambda>b. b = 0) (acct_data (cells w k))) \<Longrightarrow>
    reachable F pb w (\<lambda>_. 0)"
| step: "reachable F pb w c \<Longrightarrow> token_step F pb w c w' c' \<Longrightarrow> reachable F pb w' c'"

lemma ledger_start:
  assumes "\<And>k. acct_owner (cells w k) = token_2022_id \<Longrightarrow> list_all (\<lambda>b. b = 0) (acct_data (cells w k))" "pod_bool_ok E"
  shows "ledger_with E (\<lambda>_. 0) w"
proof -
  have "cell_balance E M k (cells w k) = 0" for M k
    using assms by (cases "acct_owner (cells w k) = token_2022_id") (simp_all add: cell_balance_zeros cell_balance_foreign)
  with assms show ?thesis by (simp add: ledger_with_def balance_def data_ok_zeros)
qed

lemma ledger_elsewhere:
  assumes "ledger_with E L w" "changes_only {} w w'" "pod_bool_ok E"
  shows "ledger_with E L w'"
  by (rule ledger_step [OF assms]) simp_all

lemma reachable_ledger:
  assumes "reachable F (pod_bool E) w c" "pod_bool_ok E" "zk_ok (zk_sdk F)"
  shows "ledger_with E c w \<and> (\<forall>M. 0 \<le> c M)"
  using assms(1)
proof (induction w c rule: reachable.induct)
  case (start w)
  then show ?case using assms(2) by (simp add: ledger_start)
next
  case (step w c w' c')
  from step.hyps(2) show ?case
  proof cases
    case (instruction E' input accounts)
    note i = instruction
    have "ledger_with E' c w" using step.IH by (simp only: ledger_env(4) [OF i(2)])
    from keeps_process [OF this i(1) assms(3) i(4,5,3)] step.IH have "ledger_with E' c' w'" by (simp add: i(6))
    then have "ledger_with E c' w'" by (simp only: ledger_env(4) [OF i(2)])
    with i(7) show ?thesis by blast
  next
    case elsewhere
    then show ?thesis using step.IH assms(2) ledger_elsewhere by blast
  qed
qed

lemma balance_sum:
  "balance E M w = supply_at E (cells w M) - withheld_at E (cells w M) - (\<Sum>k\<in>UNIV. account_tokens E M (cells w k))"
proof -
  have "(\<Sum>k\<in>UNIV. if k = M then supply_at E (cells w k) - withheld_at E (cells w k) else 0) =
      supply_at E (cells w M) - withheld_at E (cells w M)" by (subst sum.delta) simp_all
  then show ?thesis by (simp add: balance_def cell_balance_def sum_subtractf)
qed

lemma ledger_supply:
  assumes "ledger_with E c w" "M \<noteq> native_mint_id"
  shows "supply_at E (cells w M) =
    withheld_at E (cells w M) + (\<Sum>k\<in>UNIV. account_tokens E M (cells w k)) + c M"
  using assms balance_sum [of E M w] by (simp add: ledger_with_def)

text \<open>C1. Conservation of tokens: after any sequence of instructions and of anything else that may happen on
  the chain, the supply recorded in a mint is exactly what all token accounts of the mint hold, fees
  withheld on them included, plus the withheld fees that were collected in the mint, plus what was deposited into
  confidential balances and not withdrawn from them.  (The tokens of the native mint are lamports.)\<close>

theorem conservation:
  assumes "reachable F (pod_bool E) w c" "pod_bool_ok E" "zk_ok (zk_sdk F)" "M \<noteq> native_mint_id"
  shows "supply_at E (cells w M) =
    withheld_at E (cells w M) + (\<Sum>k\<in>UNIV. account_tokens E M (cells w k)) + c M"
  by (rule ledger_supply [OF conjunct1 [OF reachable_ledger [OF assms(1-3)]] assms(4)])

lemma ledger_holding:
  assumes "ledger_with E c w \<and> (\<forall>M. 0 \<le> c M)" "M \<noteq> native_mint_id"
  shows "withheld_at E (cells w M) + (\<Sum>k\<in>ks. account_tokens E M (cells w k)) + c M \<le> supply_at E (cells w M)"
proof -
  have "(\<Sum>k\<in>ks. account_tokens E M (cells w k)) \<le> (\<Sum>k\<in>UNIV. account_tokens E M (cells w k))"
    by (rule sum_mono2) (simp_all add: account_tokens_nonneg)
  with ledger_supply [OF conjunct1 [OF assms(1)] assms(2)] show ?thesis by linarith
qed


section \<open>A run of the program\<close>

lemma nat_le_0: "nat_le k 0 = replicate k 0"
  by (induction k) auto

lemma base58_value_mod4: "base58_value (s @ [a, b]) mod 4 = (58 * index_of a base58_alphabet + index_of b base58_alphabet) mod 4"
proof -
  have "base58_value (s @ [a, b]) =
      4 * (841 * base58_value s) + (58 * index_of a base58_alphabet + index_of b base58_alphabet)"
    by (simp add: base58_value_def)
  then show ?thesis by (simp only: mod_mult_self4)
qed

lemma nat_le_32: "nat_le 32 n = of_nat (n mod 256) # nat_le 31 (n div 256)"
proof -
  have "nat_le (Suc 31) n = of_nat (n mod 256) # nat_le 31 (n div 256)" by (rule nat_le.simps)
  then show ?thesis by simp
qed

lemma last_byte: "last (word_le (le_word (rev (nat_le 32 n)) :: pubkey)) = (of_nat (n mod 256) :: u8)"
proof -
  have "word_le (le_word (rev (nat_le 32 n)) :: pubkey) = rev (nat_le 32 n)" by (rule word_le_le_word) simp
  then show ?thesis by (simp add: nat_le_32)
qed

lemma last_byte_small: "unat (k :: pubkey) < 256 \<Longrightarrow> last (word_le k) = 0"
proof -
  assume "unat k < 256"
  then have "word_le k = of_nat (unat k) # replicate 31 0" by (simp add: word_le_def nat_le_32 nat_le_0)
  then show ?thesis by simp
qed

text \<open>The native mint is none of the small keys of the examples.\<close>

lemma native_mint_id_small: "unat k < 256 \<Longrightarrow> native_mint_id \<noteq> k"
proof
  assume k: "unat k < 256" "native_mint_id = k"
  define n where "n = base58_value ''9pan9bMn5HatX4EJdBwg9VgCa7Uz5HL8N1m5D3NdXejP''"
  have "base58_value (''9pan9bMn5HatX4EJdBwg9VgCa7Uz5HL8N1m5D3NdXe'' @ [CHR ''j'', CHR ''P'']) mod 4 = 2"
    unfolding base58_value_mod4 by (simp add: base58_alphabet_def)
  then have m: "n mod 4 = 2" by (simp add: n_def)
  have "last (word_le native_mint_id) = (of_nat (n mod 256) :: u8)"
    unfolding native_mint_id_def pubkey_of_base58_def n_def by (rule last_byte)
  then have z: "(of_nat (n mod 256) :: u8) = 0" using last_byte_small [OF k(1)] k(2) by simp
  have "unat (of_nat (n mod 256) :: u8) = n mod 256" by (simp add: unat_of_nat take_bit_nat_def)
  then have "n mod 256 = 0" using z by simp
  then have "n mod 4 = 0" by presburger
  with m show False by simp
qed
lemma init_account_type_bare [simp]: "init_account_type S (bare b) = Inr (bare b)"
  by (simp add: init_account_type_def get_first_extension_type_def bare_def)

text \<open>Key 9 becomes a mint, 7 and 8 accounts of it, and 105 tokens are minted to 7.\<close>

definition coin :: "u64 \<Rightarrow> pod_mint" where
  "coin n = \<lparr>mint_authority = pod_some 20, mint_supply = n, decimals = 6, is_initialized = 1, freeze_authority = pod_none\<rparr>"

definition run0 :: "pubkey \<Rightarrow> bytes" where
  "run0 = (\<lambda>_. pod_account_bytes zero_account)(9 := pod_mint_bytes zero_mint)"

definition run1 :: "pubkey \<Rightarrow> bytes" where
  "run1 = run0(9 := pod_mint_bytes (coin 0))"

definition run2 :: "pubkey \<Rightarrow> bytes" where
  "run2 = run1(7 := pod_account_bytes (holder 30 0))"

definition run3 :: "pubkey \<Rightarrow> bytes" where
  "run3 = run2(8 := pod_account_bytes (holder 31 0))"

definition run4 :: "pubkey \<Rightarrow> bytes" where
  "run4 = run3(7 := pod_account_bytes (holder 30 105), 9 := pod_mint_bytes (coin 105))"

lemmas runs = run0_def run1_def run2_def run3_def run4_def

lemma set_data_ledger [simp]: "set_data a d (ledger f) = ledger (f(key a := d))"
  by (simp add: ledger_def set_data_def fun_eq_iff)

lemma bare_update [simp]: "(bare b)\<lparr>base := c\<rparr> = bare c"
  by (simp add: bare_def)

lemma coin_simps [simp]:
  "mint_supply (coin n) = n" "decimals (coin n) = 6" "pod_match_some (mint_authority (coin n)) = Some 20"
  "(coin n)\<lparr>mint_supply := m\<rparr> = coin m" "(holder p n)\<lparr>amount := m\<rparr> = holder p m"
  "zero_mint\<lparr>mint_authority := pod_some 20, decimals := 6, is_initialized := 1, freeze_authority := pod_none\<rparr> = coin 0"
  by (simp_all add: coin_def zero_mint_def holder_def pod_match_some_def pod_some_def)

lemma unpack_run [simp]:
  "unpack_uninitialized (PodMint sample_env) (pod_mint_bytes zero_mint) = Inr (bare zero_mint)"
  "unpack (PodMint sample_env) (pod_mint_bytes (coin n)) = Inr (bare (coin n))"
  using pod_mint.unpack_bare(1) [of sample_env zero_mint] pod_mint.unpack_bare(2) [of sample_env "coin n"]
  by (simp_all add: pod_mint_is_initialized_def zero_mint_def coin_def PodMint_SIZE_OF_def Multisig_LEN_def)

lemma store_ledger [simp]: "store S a st (ledger f) = ledger (f(key a := state_bytes S st))"
  by (simp add: store_def)

lemma run_mint:
  "process_initialize_mint2 sample_env [\<lparr>key = 9, is_signer = False\<rparr>] 6 20 pod_none (ledger run0) = Inr (ledger run1)"
  by (simp add: process_initialize_mint2_def process_initialize_mint_with_def get_rent_def sample_env_rent
      try_calculate_account_len_def Mint_LEN_def check_for_invalid_mint_extension_combinations_def
      check_default_account_state_def Let_def runs)

lemma run_account:
  assumes "f k = pod_account_bytes zero_account" "f 9 = pod_mint_bytes (coin n)" "k \<noteq> 9" "9 \<noteq> native_mint_id"
  shows "process_initialize_account3 sample_env [\<lparr>key = k, is_signer = False\<rparr>, \<lparr>key = 9, is_signer = False\<rparr>] p (ledger f) =
    Inr (ledger (f(k := pod_account_bytes (holder p 0))))"
proof -
  have "new_account_base 9 p account_state.Initialized
      \<lparr>is_exempt = (\<lambda>l n. of_nat n \<le> l), minimum_balance = of_nat\<rparr> 1000 165 = Inr (holder p 0)"
    using assms(4) by (simp add: new_account_base_def holder_def Let_def)
  then show ?thesis using assms
    by (auto simp: process_initialize_account3_def process_initialize_account_with_def get_rent_def sample_env_rent unpack_mint_def
        get_required_account_extensions_from_unpacked_mint_def get_required_init_account_extensions_def
        check_program_account_def try_calculate_account_len_def Account_LEN_def starting_state_def Let_def)
qed

lemma run_mint_to:
  "process_mint_to sample_env token_2022_id
     [\<lparr>key = 9, is_signer = False\<rparr>, \<lparr>key = 7, is_signer = False\<rparr>, \<lparr>key = 20, is_signer = True\<rparr>] 105 None (ledger run3) =
   Inr (ledger run4)"
  by (simp add: process_mint_to_def checked_add_def check_program_account_def validate_signer PodMultisig_SIZE_OF_def runs)

lemma sample_foreign_zk [simp]: "zk_ok (zk_sdk sample_foreign)"
  by (simp add: sample_foreign_def)

lemma sample_foreign_interfaces: "interfaces_ok sample_env (interfaces sample_foreign)"
  by (simp add: sample_foreign_def)

lemma env_ok_sample [simp]: "env_ok sample_env"
  by (simp add: env_ok_def)

lemma runtime_ok_ledger [simp]: "runtime_ok (ledger f) w"
  by (simp add: runtime_ok_def ledger_def)

lemma run_pack:
  assumes "i = token_instruction.InitializeMint2 d k f \<or> i = token_instruction.InitializeAccount3 k \<or> i = token_instruction.MintTo n"
  shows "net_deposit E accounts (pack i) = (\<lambda>_. 0)"
  using assms by (elim disjE; simp add: net_deposit_def)+

lemma reachable_run:
  assumes "reachable F (pod_bool sample_env) (ledger f) (\<lambda>_. 0)" "run_instruction sample_env F token_2022_id accounts [] i (ledger f) = Inr w'"
    "interfaces_ok sample_env (interfaces F)" "net_deposit sample_env accounts (pack i) = (\<lambda>_. 0)" "\<And>s. i \<noteq> token_instruction.UiAmountToAmount s"
  shows "reachable F (pod_bool sample_env) w' (\<lambda>_. 0)"
proof -
  have "process sample_env F token_2022_id accounts (pack i) (ledger f) = Inr w'"
    using process_packed [of i "[]" sample_env F] assms(2,5) by simp
  then have "token_step F (pod_bool sample_env) (ledger f) (\<lambda>_. 0) w' (\<lambda>_. 0)"
    by (rule token_step.instruction [OF env_ok_sample refl assms(3) _ runtime_ok_ledger]) (simp_all add: assms(4))
  with assms(1) show ?thesis by (rule reachable.step)
qed

lemma nine_not_native [simp]: "(9 :: pubkey) \<noteq> native_mint_id" "native_mint_id \<noteq> 9"
  using native_mint_id_small [of 9] by auto

lemma zeros_word_le [simp]: "list_all (\<lambda>b. b = 0) (word_le 0)"
  by (simp add: word_le_def nat_le_0 list_all_length)

lemma zeros_run0: "list_all (\<lambda>b. b = 0) (run0 k)"
  by (simp add: run0_def zero_account_def zero_mint_def pod_account_bytes_def pod_mint_bytes_def
      coption_key_bytes_def coption_u64_bytes_def pod_none_def NONE_tag_def)

lemma reachable_run4:
  assumes "interfaces_ok sample_env (interfaces F)"
  shows "reachable F (pod_bool sample_env) (ledger run4) (\<lambda>_. 0)"
proof -
  note i = reachable_run [OF _ _ assms]
  have "reachable F (pod_bool sample_env) (ledger run0) (\<lambda>_. 0)"
    by (rule reachable.start) (simp add: zeros_run0 ledger_def)
  then have "reachable F (pod_bool sample_env) (ledger run1) (\<lambda>_. 0)"
    by (rule i [where i = "token_instruction.InitializeMint2 6 20 None"
        and accounts = "[\<lparr>key = 9, is_signer = False\<rparr>]"])
      (simp_all add: run_instruction_def run_mint run_pack pod_of_option_def del: pack.simps)
  then have "reachable F (pod_bool sample_env) (ledger run2) (\<lambda>_. 0)"
    by (rule i [where i = "token_instruction.InitializeAccount3 30"
        and accounts = "[\<lparr>key = 7, is_signer = False\<rparr>, \<lparr>key = 9, is_signer = False\<rparr>]"])
      (simp_all add: run_instruction_def run_account run_pack runs del: pack.simps)
  then have "reachable F (pod_bool sample_env) (ledger run3) (\<lambda>_. 0)"
    by (rule i [where i = "token_instruction.InitializeAccount3 31"
        and accounts = "[\<lparr>key = 8, is_signer = False\<rparr>, \<lparr>key = 9, is_signer = False\<rparr>]"])
      (simp_all add: run_instruction_def run_account run_pack runs del: pack.simps)
  then show ?thesis
    by (rule i [where i = "token_instruction.MintTo 105"
        and accounts = "[\<lparr>key = 9, is_signer = False\<rparr>, \<lparr>key = 7, is_signer = False\<rparr>, \<lparr>key = 20, is_signer = True\<rparr>]"])
      (simp_all add: run_instruction_def run_mint_to run_pack del: pack.simps)
qed


lemma run4_simps:
  "supply_at sample_env (cells (ledger run4) 9) = 105" "withheld_at sample_env (cells (ledger run4) 9) = 0"
proof -
  have "unpack (PodMint sample_env) (run4 9) = Inr (bare (coin 105))" by (simp add: runs)
  then show "supply_at sample_env (cells (ledger run4) 9) = 105" "withheld_at sample_env (cells (ledger run4) 9) = 0"
    by (simp_all add: supply_at_def withheld_at_def ledger_def mint_withheld_def)
qed

lemma run4_holder: "account_tokens sample_env 9 (cells (ledger run4) 7) = 105"
  by (simp add: account_tokens_def ledger_def runs holdings_def withheld_def)

theorem conservation_witness:
  "(\<Sum>k\<in>UNIV. account_tokens sample_env 9 (cells (ledger run4) k)) = 105"
  using conservation [OF reachable_run4 [OF sample_foreign_interfaces] sample_env_ok sample_foreign_zk nine_not_native(1)] by (simp add: run4_simps)


end
