(* ===== verification/Confidential_Sample.thy ===== *)
theory Confidential_Sample
  imports Confidential_Balance
begin

text \<open>
  A ledger with confidential accounts, on which the theorems about confidential handlers are run.
\<close>

section \<open>A sample ledger\<close>

lemma sample_env_lens [simp]:
  "elgamal_pubkey_len sample_env = 32" "elgamal_ciphertext_len sample_env = 64" "ae_ciphertext_len sample_env = 36"
  "zk_token_proof_program_id sample_env = 3"
  by (simp_all add: sample_env_def)

lemma sample_ciphertext_simps [simp]:
  "length (sample_ciphertext n) = 64" "sample_plaintext (sample_ciphertext n) = n" "ct sample_env (sample_ciphertext n)"
  "sample_plaintext (take 32 (sample_ciphertext n @ d) @ e) = n" "sample_plaintext (take 32 (sample_ciphertext n @ d)) = n"
  by (simp_all add: sample_ciphertext_def sample_plaintext_def ct_def)

lemma sample_zeroed [simp]: "sample_plaintext (zeroed_ciphertext sample_env) = 0"
  by (simp add: sample_plaintext_def zeroed_ciphertext_def le_word_def numeral_eq_Suc)

lemma sample_additive [simp]: "additive sample_env sample_zk sample_plaintext"
  by (simp add: additive_def sample_zk_def Let_def)

text \<open>Key 9 is a mint with confidential transfers, with or without fees, keys 7, 8 and 11 are accounts of it, and key 12 is a
  context account of the proof program.\<close>

definition secret :: "u64 \<Rightarrow> u64 \<Rightarrow> u64 \<Rightarrow> confidential_transfer_account" where
  "secret n lo hi = \<lparr>approved = 1, elgamal_pubkey = replicate 32 0, pending_balance_lo = sample_ciphertext lo,
     pending_balance_hi = sample_ciphertext hi, available_balance = sample_ciphertext n,
     decryptable_available_balance = replicate 36 0, allow_confidential_credits = 1, allow_non_confidential_credits = 1,
     pending_balance_credit_counter = 0, maximum_pending_balance_credit_counter = 10,
     expected_pending_balance_credit_counter = 0, actual_pending_balance_credit_counter = 0\<rparr>"

definition secret_holder :: "pubkey \<Rightarrow> u64 \<Rightarrow> confidential_transfer_account \<Rightarrow> u64 \<Rightarrow> pod_account ext_state" where
  "secret_holder p n s f = \<lparr>base = holder p n, padding = [], account_type = [2],
     tlv_data = tlv_entry ConfidentialTransferAccount (ext_bytes (ConfidentialTransferAccountExt sample_env) s) @
       tlv_entry ConfidentialTransferFeeAmount (sample_ciphertext f)\<rparr>"

definition secret_mint_config :: confidential_transfer_mint where
  "secret_mint_config = \<lparr>ct_authority = 24, auto_approve_new_accounts = 1, auditor_elgamal_pubkey = replicate 32 0\<rparr>"

definition secret_fee_config :: "u64 \<Rightarrow> confidential_transfer_fee_config" where
  "secret_fee_config f = \<lparr>cf_authority = 25, withdraw_withheld_authority_elgamal_pubkey = replicate 32 0,
     harvest_to_mint_enabled = 1, cf_withheld_amount = sample_ciphertext f\<rparr>"

definition secret_mint :: "bool \<Rightarrow> pod_mint ext_state" where
  "secret_mint fees = \<lparr>base = live_mint, padding = replicate 83 0, account_type = [1],
     tlv_data = tlv_entry extension_type.ConfidentialTransferMint (ext_bytes (ConfidentialTransferMintExt sample_env) secret_mint_config) @
       (if fees then tlv_entry extension_type.TransferFeeConfig (ext_bytes TransferFeeConfigExt sample_config) @
          tlv_entry extension_type.ConfidentialTransferFeeConfig
            (ext_bytes (ConfidentialTransferFeeConfigExt sample_env) (secret_fee_config 2)) else [])\<rparr>"

definition secret_ledger :: "bool \<Rightarrow> bytes \<Rightarrow> world" where
  "secret_ledger fees context =
     \<lparr>cells = (\<lambda>k. \<lparr>lamports = 1000, acct_owner = (if k = 12 then 3 else token_2022_id),
        acct_data = (if k = 7 then state_bytes PodAccount (secret_holder 30 200000 (secret 100000 0 0) 4)
          else if k = 8 then state_bytes PodAccount (secret_holder 31 5 (secret 0 7 1) 6)
          else if k = 9 then state_bytes (PodMint sample_env) (secret_mint fees)
          else if k = 11 then state_bytes PodAccount (secret_holder 32 0 (secret 0 0 0) 0)
          else if k = 12 then context else [])\<rparr>), return_data = []\<rparr>"

lemma secret_simps [simp]: "ct_account sample_env (secret n lo hi)"
  by (simp add: ct_account_def secret_def)

lemma length_secret [simp]:
  "ct_account sample_env s \<Longrightarrow> length (ext_bytes (ConfidentialTransferAccountExt sample_env) s) = 295"
  by (simp add: ext_defs Let_def ct_account_def ct_def)

lemma get_extension_second:
  assumes "tlv_data st = tlv_entry t x @ tlv_entry (ext_type V) (ext_bytes V v) @ rest" "t \<noteq> ext_type V"
    "entry_ok (ACCOUNT_TYPE S) (t, x)"
    "get_account_type (ext_type V) = ACCOUNT_TYPE S" "ext_valid V v" "ext_len V < 2 ^ 16"
  shows "get_extension E S V st = Inr v"
  using assms by (simp add: get_extension_def ext_valid_def)

lemma secret_holder_simps [simp]:
  assumes "ct_account sample_env s"
  shows "get_extension E PodAccount (ConfidentialTransferAccountExt sample_env) (secret_holder p n s f) = Inr s"
    "get_extension E PodAccount (ConfidentialTransferFeeAmountExt sample_env) (secret_holder p n s f) = Inr (sample_ciphertext f)"
    "base (secret_holder p n s f) = holder p n" "live (secret_holder p n s f)"
proof -
  show "get_extension E PodAccount (ConfidentialTransferAccountExt sample_env) (secret_holder p n s f) = Inr s"
    by (rule get_extension_entry [OF _ _ ct_account_valid [OF assms],
          where rest = "tlv_entry ConfidentialTransferFeeAmount (sample_ciphertext f)"])
       (simp_all add: secret_holder_def ext_defs Let_def)
  show "get_extension E PodAccount (ConfidentialTransferFeeAmountExt sample_env) (secret_holder p n s f) = Inr (sample_ciphertext f)"
    by (rule get_extension_second [where rest = "[]" and t = ConfidentialTransferAccount
          and x = "ext_bytes (ConfidentialTransferAccountExt sample_env) s"])
       (use assms fee_valid [of sample_env "sample_ciphertext f"] in \<open>simp_all add: secret_holder_def\<close>,
        simp_all add: ext_defs Let_def)
  show "base (secret_holder p n s f) = holder p n" by (simp add: secret_holder_def)
  show "live (secret_holder p n s f)"
    using assms by (simp add: live_def shape_ok_def pod_account.length_state_bytes PodAccount_SIZE_OF_def
        BASE_ACCOUNT_LENGTH_def Account_LEN_def Multisig_LEN_def)
      (auto simp: secret_holder_def)
qed

lemma secret_mint_config_valid [simp]: "ext_valid (ConfidentialTransferMintExt sample_env) secret_mint_config"
  by (simp add: ext_valid_def ConfidentialTransferMintExt_def secret_mint_config_def slice_of_def)

lemma length_secret_mint [simp]: "length (tlv_data (secret_mint fees)) = (if fees then 69 + 112 + 133 else 69)"
  using secret_mint_config_valid transfer_fee_config.all_valid [of sample_config]
    fee_config_valid [of "secret_fee_config 2" sample_env]
  by (simp add: secret_mint_def ext_valid_def secret_fee_config_def) (simp add: ext_defs Let_def)

lemma secret_mint_bytes:
  "get_extension_bytes account_type.Mint extension_type.ConfidentialTransferMint (tlv_data (secret_mint fees)) =
     Inr (ext_bytes (ConfidentialTransferMintExt sample_env) secret_mint_config)"
  "get_extension_bytes account_type.Mint extension_type.TransferFeeConfig (tlv_data (secret_mint True)) =
     Inr (ext_bytes TransferFeeConfigExt sample_config)"
  "get_extension_bytes account_type.Mint extension_type.ConfidentialTransferFeeConfig (tlv_data (secret_mint True)) =
     Inr (ext_bytes (ConfidentialTransferFeeConfigExt sample_env) (secret_fee_config 2))"
  "t \<notin> {extension_type.ConfidentialTransferMint, extension_type.TransferFeeConfig, extension_type.ConfidentialTransferFeeConfig} \<Longrightarrow>
     \<not> isOk (get_extension_bytes account_type.Mint t (tlv_data (secret_mint fees)))"
  "\<not> isOk (get_extension_bytes account_type.Mint extension_type.TransferFeeConfig (tlv_data (secret_mint False)))"
proof -
  have l: "length (ext_bytes (ConfidentialTransferMintExt sample_env) secret_mint_config) = 65"
    "length (ext_bytes TransferFeeConfigExt sample_config) = 108"
    "length (ext_bytes (ConfidentialTransferFeeConfigExt sample_env) (secret_fee_config 2)) = 129"
    using secret_mint_config_valid transfer_fee_config.all_valid [of sample_config]
      fee_config_valid [of "secret_fee_config 2" sample_env]
    by (simp_all add: ext_valid_def secret_fee_config_def) (simp_all add: ext_defs Let_def)
  have skip: "get_extension_bytes account_type.Mint v (tlv_entry t x) = get_extension_bytes account_type.Mint v []"
    if "entry_ok account_type.Mint (t, x)" "t \<noteq> v" for v t x using get_bytes_skip [OF that, of "[]"] by simp
  have here: "get_extension_bytes account_type.Mint v (tlv_entry v x) = Inr x"
    if "get_account_type v = account_type.Mint" "length x < 2 ^ 16" for v x using get_bytes_here [OF that, of "[]"] by simp
  show "get_extension_bytes account_type.Mint extension_type.ConfidentialTransferMint (tlv_data (secret_mint fees)) =
     Inr (ext_bytes (ConfidentialTransferMintExt sample_env) secret_mint_config)" by (simp add: secret_mint_def l)
  show "get_extension_bytes account_type.Mint extension_type.TransferFeeConfig (tlv_data (secret_mint True)) =
     Inr (ext_bytes TransferFeeConfigExt sample_config)" by (simp add: secret_mint_def l)
  show "get_extension_bytes account_type.Mint extension_type.ConfidentialTransferFeeConfig (tlv_data (secret_mint True)) =
     Inr (ext_bytes (ConfidentialTransferFeeConfigExt sample_env) (secret_fee_config 2))"
    by (simp add: secret_mint_def l here)
  show "\<not> isOk (get_extension_bytes account_type.Mint extension_type.TransferFeeConfig (tlv_data (secret_mint False)))"
    by (simp add: secret_mint_def l skip)
  show "\<not> isOk (get_extension_bytes account_type.Mint t (tlv_data (secret_mint fees)))"
    if "t \<notin> {extension_type.ConfidentialTransferMint, extension_type.TransferFeeConfig, extension_type.ConfidentialTransferFeeConfig}"
    using that by (cases fees) (auto simp: secret_mint_def l skip)
qed

lemma get_extension_of_bytes:
  assumes "get_extension_bytes (ACCOUNT_TYPE S) (ext_type V) (tlv_data st) = Inr (ext_bytes V v)" "ext_valid V v"
  shows "get_extension E S V st = Inr v"
  using assms by (simp add: get_extension_def ext_valid_def)

lemma get_extension_none: "\<not> isOk (get_extension_bytes (ACCOUNT_TYPE S) (ext_type V) (tlv_data st)) \<Longrightarrow> \<not> isOk (get_extension E S V st)"
  by (auto simp: get_extension_def isOk_iff success_simps)

lemma secret_mint_simps [simp]:
  "get_extension E (PodMint F) (ConfidentialTransferMintExt sample_env) (secret_mint fees) = Inr secret_mint_config"
  "get_extension E (PodMint F) TransferFeeConfigExt (secret_mint True) = Inr sample_config"
  "\<not> isOk (get_extension E (PodMint F) TransferFeeConfigExt (secret_mint False))"
  "get_extension E (PodMint F) (ConfidentialTransferFeeConfigExt sample_env) (secret_mint True) = Inr (secret_fee_config 2)"
  "\<not> isOk (get_extension E (PodMint F) NonTransferableExt (secret_mint fees))"
  "get_hook_program_id E (secret_mint fees) = None"
  "base (secret_mint fees) = live_mint"
proof -
  have t: "ACCOUNT_TYPE (PodMint F) = account_type.Mint" "ext_type TransferFeeConfigExt = extension_type.TransferFeeConfig"
    "ext_type (ConfidentialTransferMintExt sample_env) = extension_type.ConfidentialTransferMint"
    "ext_type (ConfidentialTransferFeeConfigExt sample_env) = extension_type.ConfidentialTransferFeeConfig"
    "ext_type NonTransferableExt = extension_type.NonTransferable" "ext_type TransferHookExt = extension_type.TransferHook" for F
    by (simp_all add: PodMint_def ext_defs Let_def)
  show "get_extension E (PodMint F) (ConfidentialTransferMintExt sample_env) (secret_mint fees) = Inr secret_mint_config"
    by (rule get_extension_of_bytes) (simp_all add: t secret_mint_bytes)
  show "get_extension E (PodMint F) TransferFeeConfigExt (secret_mint True) = Inr sample_config"
    by (rule get_extension_of_bytes) (simp_all add: t secret_mint_bytes transfer_fee_config.all_valid)
  show "\<not> isOk (get_extension E (PodMint F) TransferFeeConfigExt (secret_mint False))"
    by (rule get_extension_none) (simp add: t secret_mint_bytes)
  show "get_extension E (PodMint F) (ConfidentialTransferFeeConfigExt sample_env) (secret_mint True) = Inr (secret_fee_config 2)"
    by (rule get_extension_of_bytes [OF _ fee_config_valid]) (simp_all add: t secret_mint_bytes, simp_all add: secret_fee_config_def)
  show "\<not> isOk (get_extension E (PodMint F) NonTransferableExt (secret_mint fees))"
    by (rule get_extension_none) (simp add: t secret_mint_bytes)
  have "\<not> isOk (get_extension E (PodMint E) TransferHookExt (secret_mint fees))"
    by (rule get_extension_none) (simp add: t secret_mint_bytes)
  then show "get_hook_program_id E (secret_mint fees) = None" by (auto simp: get_hook_program_id_def split: sum.splits)
  show "base (secret_mint fees) = live_mint" by (simp add: secret_mint_def)
qed

lemma unpack_secret_mint [simp]:
  "unpack (PodMint sample_env) (state_bytes (PodMint sample_env) (secret_mint fees)) = Inr (secret_mint fees)"
proof -
  have "live_mint_state sample_env (secret_mint fees)"
    by (simp add: live_mint_state_def shape_ok_def pod_mint.length_state_bytes pod_mint_is_initialized_def
        PodMint_SIZE_OF_def BASE_ACCOUNT_LENGTH_def Account_LEN_def Multisig_LEN_def)
       (auto simp: secret_mint_def live_mint_def)
  then show ?thesis by simp
qed

lemma secret_ledger_simps [simp]:
  "data_of (secret_ledger fees c) \<lparr>key = 7, is_signer = b\<rparr> = state_bytes PodAccount (secret_holder 30 200000 (secret 100000 0 0) 4)"
  "data_of (secret_ledger fees c) \<lparr>key = 8, is_signer = b\<rparr> = state_bytes PodAccount (secret_holder 31 5 (secret 0 7 1) 6)"
  "data_of (secret_ledger fees c) \<lparr>key = 9, is_signer = b\<rparr> = state_bytes (PodMint sample_env) (secret_mint fees)"
  "data_of (secret_ledger fees c) \<lparr>key = 11, is_signer = b\<rparr> = state_bytes PodAccount (secret_holder 32 0 (secret 0 0 0) 0)"
  "data_of (secret_ledger fees c) \<lparr>key = 12, is_signer = b\<rparr> = c"
  "data_of (secret_ledger fees c) \<lparr>key = 30, is_signer = b\<rparr> = []" "data_of (secret_ledger fees c) \<lparr>key = 31, is_signer = b\<rparr> = []"
  "data_of (secret_ledger fees c) \<lparr>key = 32, is_signer = b\<rparr> = []" "data_of (secret_ledger fees c) \<lparr>key = 23, is_signer = b\<rparr> = []"
  "owner_of (secret_ledger fees c) a = (if key a = 12 then 3 else token_2022_id)"
  by (simp_all add: secret_ledger_def data_of_def owner_of_def)

lemma secret_holder_unpack [simp]:
  "ct_account sample_env s \<Longrightarrow> unpack PodAccount (state_bytes PodAccount (secret_holder p n s f)) = Inr (secret_holder p n s f)"
  by (simp add: unpack_account_live)

lemmas sample_run = validate_signer PodMultisig_SIZE_OF_def check_program_account_def confidential_account_approved_def

lemma secret_fields [simp]:
  "approved (secret n lo hi) = 1" "elgamal_pubkey (secret n lo hi) = replicate 32 0"
  "pending_balance_lo (secret n lo hi) = sample_ciphertext lo" "pending_balance_hi (secret n lo hi) = sample_ciphertext hi"
  "available_balance (secret n lo hi) = sample_ciphertext n"
  "allow_confidential_credits (secret n lo hi) = 1" "pending_balance_credit_counter (secret n lo hi) = 0"
  "maximum_pending_balance_credit_counter (secret n lo hi) = 10"
  by (simp_all add: secret_def)

lemma sample_zk_simps [simp]:
  "ct_add_to sample_zk a n = Some (sample_ciphertext (sample_plaintext a + n))"
  "ct_subtract_from sample_zk a n = Some (sample_ciphertext (sample_plaintext a - n))"
  "ct_add sample_zk a b = Some (sample_ciphertext (sample_plaintext a + sample_plaintext b))"
  "ct_subtract sample_zk a b = Some (sample_ciphertext (sample_plaintext a - sample_plaintext b))"
  "ct_add_with_lo_hi sample_zk a lo hi = Some (sample_ciphertext (sample_plaintext a + sample_plaintext lo + 65536 * sample_plaintext hi))"
  "ct_subtract_with_lo_hi sample_zk a lo hi = Some (sample_ciphertext (sample_plaintext a - sample_plaintext lo - 65536 * sample_plaintext hi))"
  "elgamal_equals sample_zk a b = (a = b)"
  by (simp_all add: sample_zk_def Let_def)

lemma valid_as_destination_secret [simp]: "valid_as_destination sample_env (secret n lo hi) = Inr ()"
  by (simp add: valid_as_destination_def confidential_account_approved_def checked_add_def)

lemma holder_checks [simp]: "\<not> pod_account_is_frozen (holder p n)" "\<not> pod_account_is_native (holder p n)"
  "mint (holder p n) = 9" "owner (holder p n) = p" "amount (holder p n) = n"
  by (simp_all add: holder_def pod_account_is_frozen_def pod_account_is_native_def)

lemma confidential_at_unique:
  "confidential_at E w a b s \<Longrightarrow> confidential_at E w a b' s' \<Longrightarrow> b' = b \<and> s' = s"
  by (auto simp: confidential_at_def)

lemma confidential_at_secret:
  "confidential_at sample_env (secret_ledger fees c) \<lparr>key = 7, is_signer = False\<rparr> (holder 30 200000) (secret 100000 0 0)"
  "confidential_at sample_env (secret_ledger fees c) \<lparr>key = 8, is_signer = False\<rparr> (holder 31 5) (secret 0 7 1)"
  "confidential_at sample_env (secret_ledger fees c) \<lparr>key = 11, is_signer = False\<rparr> (holder 32 0) (secret 0 0 0)"
  by (simp_all add: confidential_at_def)

lemma secret_values [simp]:
  "pending_value sample_plaintext (secret n lo hi) = lo + 65536 * hi"
  "confidential_value sample_plaintext (secret n lo hi) = n + (lo + 65536 * hi)"
  by (simp_all add: value_defs)

lemmas unique_secret = confidential_at_unique [OF confidential_at_secret(1)] confidential_at_unique [OF confidential_at_secret(2)]
  confidential_at_unique [OF confidential_at_secret(3)]

lemma proof_at_context:
  "c \<noteq> [] \<Longrightarrow> verify_proof_at sample_env Z r t \<lparr>key = 12, is_signer = b\<rparr> 0 (secret_ledger fees c) =
     bindE (ok_or (pod_size_error sample_env) (read_state r c)) (\<lambda>s.
       if state_proof_type s \<noteq> proof_type_u8 Z t then Inl (Prog InvalidInstructionData) else Inr (proof_context s))"
  by (simp add: verify_proof_at_def verify_context_state_def check_zk_token_proof_program_account_def)

lemma sample_proofs:
  "verify_proof_at sample_env sample_zk (withdraw_proof sample_zk) Withdraw \<lparr>key = 12, is_signer = b\<rparr> 0 (secret_ledger fees (3 # c)) =
     Inr \<lparr>wd_pubkey = replicate 32 0, wd_final_ciphertext = c\<rparr>"
  "verify_proof_at sample_env sample_zk (zero_balance sample_zk) ZeroBalance \<lparr>key = 12, is_signer = b\<rparr> 0 (secret_ledger fees (0 # c)) =
     Inr \<lparr>zb_pubkey = replicate 32 0, zb_ciphertext = c\<rparr>"
  by (simp_all add: proof_at_context sample_zk_def sample_reader_def Let_def)

lemma sample_transfer_proofs:
  "verify_proof_at sample_env sample_zk (transfer_proof sample_zk) Transfer \<lparr>key = 12, is_signer = b\<rparr> 0 (secret_ledger fees (0 # c)) =
     Inr \<lparr>ciphertext_lo = sample_ciphertext 5 @ sample_ciphertext 0, ciphertext_hi = sample_ciphertext 1 @ sample_ciphertext 0,
       transfer_pubkeys = \<lparr>tp_source = replicate 32 0, tp_destination = replicate 32 0, tp_auditor = replicate 32 0\<rparr>,
       new_source_ciphertext = c\<rparr>"
  "verify_proof_at sample_env sample_zk (transfer_with_fee_proof sample_zk) TransferWithFee \<lparr>key = 12, is_signer = b\<rparr> 0
     (secret_ledger fees (0 # c)) =
     Inr (\<lparr>wf_ciphertext_lo = sample_ciphertext 5 @ sample_ciphertext 0, wf_ciphertext_hi = sample_ciphertext 1 @ sample_ciphertext 0,
       transfer_with_fee_pubkeys = \<lparr>tp_source = replicate 32 0, tp_destination = replicate 32 0, tp_auditor = replicate 32 0,
         tp_withdraw_withheld_authority = replicate 32 0\<rparr>,
       wf_new_source_ciphertext = c, fee_ciphertext_lo = sample_ciphertext 3 @ replicate 32 0,
       fee_ciphertext_hi = sample_ciphertext 0 @ replicate 32 0\<rparr>, \<lparr>fee_rate_basis_points = 200, fp_maximum_fee = 500\<rparr>)"
  by (simp_all add: proof_at_context sample_zk_def sample_reader_def Let_def)

lemma sample_parts [simp]:
  "sample_plaintext (transfer_amount_source_ciphertext (sample_ciphertext n @ d)) = n"
  "sample_plaintext (transfer_amount_destination_ciphertext (sample_ciphertext n @ d)) = n"
  "sample_plaintext (fee_amount_destination_ciphertext (sample_ciphertext n @ d)) = n"
  "sample_plaintext (fee_amount_withdraw_withheld_authority_ciphertext (sample_ciphertext n @ d)) = n"
  by (simp_all add: transfer_amount_source_ciphertext_def transfer_amount_destination_ciphertext_def
      fee_amount_destination_ciphertext_def fee_amount_withdraw_withheld_authority_ciphertext_def
      sample_ciphertext_def sample_plaintext_def)

lemma secret_holder_memo [simp]: "\<not> memo_required sample_env (secret_holder p n (secret a lo hi) f)"
proof -
  let ?s = "secret a lo hi"
  have "length (ext_bytes (ConfidentialTransferAccountExt sample_env) ?s) = 295" by simp
  then have "\<not> isOk (get_extension_bytes account_type.Account MemoTransfer (tlv_data (secret_holder p n ?s f)))"
    using get_bytes_skip [of account_type.Account ConfidentialTransferFeeAmount "sample_ciphertext f" MemoTransfer "[]"]
    by (simp add: secret_holder_def)
  then have "\<not> isOk (get_extension sample_env PodAccount MemoTransferExt (secret_holder p n ?s f))"
    by (intro get_extension_none) (simp add: ext_defs PodAccount_def)
  then show ?thesis by (auto simp: memo_required_def split: sum.splits)
qed

end
