(* ===== verification/Confidential_Value.thy ===== *)
theory Confidential_Value
  imports Confidential_Sample
begin

text \<open>
  What the confidential handlers do to the value of the accounts: deposits, withdrawals, transfers with and without fees.
\<close>

section \<open>Deposit, withdrawal, and applying what is pending\<close>

text \<open>What both conversions have checked.\<close>

definition convertible :: "env \<Rightarrow> pubkey \<Rightarrow> account_info \<Rightarrow> account_info \<Rightarrow> account_info list \<Rightarrow> world \<Rightarrow> pod_account \<Rightarrow> bool" where
  "convertible E p m auth rest w b \<longleftrightarrow>
     pod_account_is_initialized b \<and> mint b = key m \<and> \<not> pod_account_is_frozen b \<and> \<not> pod_account_is_native b \<and>
     consents p (owner b) auth rest w"

lemma open_convertible:
  assumes "open_for_conversion E p a m auth rest dec w = Inr st"
  shows "unpack PodAccount (data_of w a) = Inr st" "convertible E p m auth rest w (base st)"
  using open_for_conversion_Inr [OF assms]
  by (auto simp: convertible_def unpack_account_live live_def dest: validate_owner_consents)

lemma process_deposit_Inr:
  assumes "process_deposit E Z p (a # m # auth # rest) amt dec w = Inr w'"
  obtains st x s lo hi plo phi s' where "open_for_conversion E p a m auth rest dec w = Inr st"
    "unat (amount (base st)) = unat amt + unat x" "get_extension E PodAccount (ConfidentialTransferAccountExt E) st = Inr s"
    "valid_as_destination E s = Inr ()" "verify_and_split_deposit_amount amt = Inr (lo, hi)"
    "add_unless_zero Z (pending_balance_lo s) lo = Inr plo" "add_unless_zero Z (pending_balance_hi s) hi = Inr phi"
    "increment_pending_balance_credit_counter (s\<lparr>pending_balance_lo := plo, pending_balance_hi := phi\<rparr>) = Inr s'"
    "w' = store PodAccount a (put_extension PodAccount (ConfidentialTransferAccountExt E) s'
       (st\<lparr>base := (base st)\<lparr>amount := x\<rparr>\<rparr>)) w"
  using assms by (auto simp: process_deposit_def Let_def success_simps checked_sub_Some)


lemma process_withdraw_Inr:
  assumes "process_withdraw E Z p (a # m # c # auth # rest) amt dec d offset w = Inr w'"
  obtains pr st x s b where "verify_proof_at E Z (withdraw_proof Z) Withdraw c offset w = Inr pr"
    "open_for_conversion E p a m auth rest dec w = Inr st" "unat x = unat (amount (base st)) + unat amt"
    "get_extension E PodAccount (ConfidentialTransferAccountExt E) st = Inr s" "pod_bool E (approved s)"
    "elgamal_pubkey s = wd_pubkey pr" "b = wd_final_ciphertext pr"
    "(if amt > 0 then ok_or (Token CiphertextArithmeticFailed) (ct_subtract_from Z (available_balance s) amt)
      else Inr (available_balance s)) = Inr b"
    "w' = store PodAccount a (put_extension PodAccount (ConfidentialTransferAccountExt E)
       (s\<lparr>available_balance := b, decryptable_available_balance := d\<rparr>) (st\<lparr>base := (base st)\<lparr>amount := x\<rparr>\<rparr>)) w"
  using assms
  by (auto simp: process_withdraw_def verify_withdraw_proof_def verify_next_proof_def Let_def success_simps checked_add_Some
      confidential_account_approved_def)

text \<open>C8. A withdrawal moves tokens from the available confidential balance to the amount of the account: the
  encrypted value falls by exactly what the amount gains, what is pending stays, and the new ciphertext is the very one
  that the proof, for the key of the account, certifies to encrypt a balance that is not negative.\<close>

theorem withdraw_correct:
  fixes D :: "bytes \<Rightarrow> 'p::comm_ring_1"
  assumes "process_withdraw E Z p (a # m # c # auth # rest) amt dec d offset w = Inr w'" "additive E Z D"
    "length d = ae_ciphertext_len E"
  shows "\<exists>b s s' pr. confidential_at E w a b s \<and> convertible E p m auth rest w b \<and> pod_bool E (approved s) \<and>
    verify_proof_at E Z (withdraw_proof Z) Withdraw c offset w = Inr pr \<and>
    confidential_at E w' a (b\<lparr>amount := amount b + amt\<rparr>) s' \<and>
    unat (amount b + amt) = unat (amount b) + unat amt \<and>
    confidential_value D s' = confidential_value D s - of_nat (unat amt) \<and>
    pending_value D s' = pending_value D s \<and>
    elgamal_pubkey s = wd_pubkey pr \<and> available_balance s' = wd_final_ciphertext pr \<and>
    decryptable_available_balance s' = d \<and> changes_only {key a} w w'"
proof -
  from assms(1) obtain pr st x s b where v: "verify_proof_at E Z (withdraw_proof Z) Withdraw c offset w = Inr pr"
    and o: "open_for_conversion E p a m auth rest dec w = Inr st" and x: "unat x = unat (amount (base st)) + unat amt"
    and s: "get_extension E PodAccount (ConfidentialTransferAccountExt E) st = Inr s" and ap: "pod_bool E (approved s)"
    and k: "elgamal_pubkey s = wd_pubkey pr" "b = wd_final_ciphertext pr"
    and b: "(if amt > 0 then ok_or (Token CiphertextArithmeticFailed) (ct_subtract_from Z (available_balance s) amt)
      else Inr (available_balance s)) = Inr b"
    and w': "w' = store PodAccount a (put_extension PodAccount (ConfidentialTransferAccountExt E)
       (s\<lparr>available_balance := b, decryptable_available_balance := d\<rparr>) (st\<lparr>base := (base st)\<lparr>amount := x\<rparr>\<rparr>)) w"
    by (rule process_withdraw_Inr)
  note c = open_convertible [OF o] get_ct_account [OF s]
  have "ct E b \<and> D b = D (available_balance s) - of_nat (unat amt)"
    using b additiveD(5) [OF assms(2), of "available_balance s" amt b] c(3)
    by (auto simp: ct_account_def word_gt_0 success_simps split: if_splits)
  then have l: "ct E b" and val: "D b = D (available_balance s) - of_nat (unat amt)" by simp_all
  have y: "x = amount (base st) + amt"
    using x unsigned_less [of x, where ?'a = nat] by (simp add: word_unat_eq_iff unat_plus_if')
  let ?s = "s\<lparr>available_balance := b, decryptable_available_balance := d\<rparr>"
  have "ct_account E ?s" using c(3) l assms(3) by (simp add: ct_account_def)
  note w = stored_account [OF c(1) s this w']
  show ?thesis
    by (rule exI [of _ "base st"], rule exI [of _ s], rule exI [of _ ?s], rule exI [of _ pr])
       (use w c(2) v ap val k x y in \<open>simp add: value_defs pod_account_is_initialized_def\<close>)
qed

text \<open>The handlers that rewrite the confidential state of an account with its owner's consent.\<close>

lemma process_update_confidential_Inr:
  assumes "process_update_confidential E p (a # auth # rest) f w = Inr w'"
  obtains st s s' where "unpack PodAccount (data_of w a) = Inr st" "consents p (owner (base st)) auth rest w"
    "get_extension E PodAccount (ConfidentialTransferAccountExt E) st = Inr s" "f s = Inr s'"
    "w' = store PodAccount a (put_extension PodAccount (ConfidentialTransferAccountExt E) s' st) w"
  using assms by (auto simp: process_update_confidential_def success_simps dest: validate_owner_consents)

text \<open>C11. Applying the pending balance, with the consent of the owner: the value of the account does not change,
  all of it is available afterwards, nothing is pending, and the number of credits that were applied is recorded next to
  the number the client expected.\<close>

theorem apply_pending_balance_correct:
  fixes D :: "bytes \<Rightarrow> 'p::comm_ring_1"
  assumes "process_apply_pending_balance E Z p (a # auth # rest) expected d w = Inr w'" "additive E Z D"
    "length d = ae_ciphertext_len E"
  shows "\<exists>b s s'. confidential_at E w a b s \<and> consents p (owner b) auth rest w \<and> confidential_at E w' a b s' \<and>
    confidential_value D s' = confidential_value D s \<and> D (available_balance s') = confidential_value D s \<and>
    pending_value D s' = 0 \<and> pending_balance_credit_counter s' = 0 \<and>
    actual_pending_balance_credit_counter s' = pending_balance_credit_counter s \<and>
    expected_pending_balance_credit_counter s' = expected \<and> decryptable_available_balance s' = d \<and>
    changes_only {key a} w w'"
proof -
  from assms(1) obtain st s s' where u: "unpack PodAccount (data_of w a) = Inr st" "consents p (owner (base st)) auth rest w"
    and s: "get_extension E PodAccount (ConfidentialTransferAccountExt E) st = Inr s"
    and f: "apply_pending_balance E Z expected d s = Inr s'"
    and w': "w' = store PodAccount a (put_extension PodAccount (ConfidentialTransferAccountExt E) s' st) w"
    unfolding process_apply_pending_balance_def by (rule process_update_confidential_Inr)
  from f obtain b where b: "ct_add_with_lo_hi Z (available_balance s) (pending_balance_lo s) (pending_balance_hi s) = Some b"
    and s': "s' = s\<lparr>available_balance := b, actual_pending_balance_credit_counter := pending_balance_credit_counter s,
      expected_pending_balance_credit_counter := expected, decryptable_available_balance := d,
      pending_balance_credit_counter := 0, pending_balance_lo := zeroed_ciphertext E, pending_balance_hi := zeroed_ciphertext E\<rparr>"
    by (auto simp: apply_pending_balance_def success_simps)
  note b' = additiveD(6) [OF assms(2) b] additiveD(1) [OF assms(2)]
  have "ct_account E s'" using get_ct_account [OF s] b' assms(3) by (simp add: s' ct_account_def)
  note w = stored_same_base [OF u(1) s this w']
  show ?thesis
    by (rule exI [of _ "base st"], rule exI [of _ s], rule exI [of _ s'])
       (use w u(2) b' in \<open>simp add: s' value_defs\<close>)
qed

section \<open>Transfers\<close>

text \<open>The amount of a transfer, and its fee, as two grouped ciphertexts; \<open>part\<close> selects the one for a key.\<close>

definition lo_hi :: "(bytes \<Rightarrow> 'p::comm_ring_1) \<Rightarrow> (bytes \<Rightarrow> bytes) \<Rightarrow> bytes \<Rightarrow> bytes \<Rightarrow> 'p" where
  "lo_hi D part lo hi = D (part lo) + 65536 * D (part hi)"

definition moving :: "account_info \<Rightarrow> pod_account \<Rightarrow> bool" where
  "moving m b \<longleftrightarrow> mint b = key m \<and> \<not> pod_account_is_frozen b"

lemma debit_source_Inr:
  assumes "debit_source Z (Some (k, lo, hi, new)) d s = Inr s'" "additive E Z D"
  shows "elgamal_pubkey s = k" "s' = s\<lparr>available_balance := new, decryptable_available_balance := d\<rparr>" "ct E new"
    "D new = D (available_balance s) - lo_hi D transfer_amount_source_ciphertext lo hi"
  using assms additiveD(7) [OF assms(2), of "available_balance s" "transfer_amount_source_ciphertext lo"
      "transfer_amount_source_ciphertext hi"]
  by (auto simp: debit_source_def lo_hi_def success_simps)

lemma process_source_correct:
  assumes "process_source E Z p a m auth rest (Some (k, lo, hi, new)) d w = Inr w'" "additive E Z D"
    "length d = ae_ciphertext_len E"
  shows "\<exists>b s s'. confidential_at E w a b s \<and> confidential_at E w' a b s' \<and> moving m b \<and> consents p (owner b) auth rest w \<and>
    pod_bool E (approved s) \<and> elgamal_pubkey s = k \<and> available_balance s' = new \<and> decryptable_available_balance s' = d \<and>
    pending_value D s' = pending_value D s \<and>
    confidential_value D s' = confidential_value D s - lo_hi D transfer_amount_source_ciphertext lo hi \<and>
    owner_of w a = token_2022_id \<and> changes_only {key a} w w' \<and> (\<forall>b. key b \<noteq> key a \<longrightarrow> data_of w' b = data_of w b) \<and>
    (\<forall>b. owner_of w' b = owner_of w b)"
proof -
  from assms(1) obtain st s s' where u: "unpack PodAccount (data_of w a) = Inr st" "owner_of w a = token_2022_id"
    and v: "validate_owner E p (owner (base st)) auth (length (data_of w auth)) rest w = Inr ()" and mv: "moving m (base st)"
    and s: "get_extension E PodAccount (ConfidentialTransferAccountExt E) st = Inr s" and ap: "pod_bool E (approved s)"
    and x: "debit_source Z (Some (k, lo, hi, new)) d s = Inr s'"
    and w': "w' = store PodAccount a (put_extension PodAccount (ConfidentialTransferAccountExt E) s' st) w"
    by (auto simp: process_source_def success_simps confidential_account_approved_def moving_def)
  note x = debit_source_Inr [OF x assms(2)]
  have "ct_account E s'" using get_ct_account [OF s] x assms(3) by (simp add: ct_account_def)
  note w = stored_same_base [OF u(1) s this w']
  show ?thesis
    by (rule exI [of _ "base st"], rule exI [of _ s], rule exI [of _ s'])
       (use w u v mv ap x validate_owner_consents [OF v] in \<open>simp add: value_defs w' frame\<close>)
qed

lemma credit_destination_Inr:
  assumes "credit_destination Z k lo hi s = Inr s'" "additive E Z D"
  obtains plo phi n where "elgamal_pubkey s = k" "ct E plo" "ct E phi"
    "s' = s\<lparr>pending_balance_lo := plo, pending_balance_hi := phi, pending_balance_credit_counter := n\<rparr>"
    "unat n = unat (pending_balance_credit_counter s) + 1"
    "D plo + 65536 * D phi = pending_value D s + lo_hi D transfer_amount_destination_ciphertext lo hi"
proof -
  from assms(1) obtain plo phi where k: "elgamal_pubkey s = k"
    and lo: "ct_add Z (pending_balance_lo s) (transfer_amount_destination_ciphertext lo) = Some plo"
    and hi: "ct_add Z (pending_balance_hi s) (transfer_amount_destination_ciphertext hi) = Some phi"
    and i: "increment_pending_balance_credit_counter (s\<lparr>pending_balance_lo := plo, pending_balance_hi := phi\<rparr>) = Inr s'"
    by (auto simp: credit_destination_def Let_def success_simps)
  note add = additiveD(2) [OF assms(2) lo] additiveD(2) [OF assms(2) hi]
  from i obtain n where n: "s' = s\<lparr>pending_balance_lo := plo, pending_balance_hi := phi, pending_balance_credit_counter := n\<rparr>"
    "unat n = unat (pending_balance_credit_counter s) + 1" by (rule increment_Inr) simp
  have v: "D plo + 65536 * D phi = pending_value D s + lo_hi D transfer_amount_destination_ciphertext lo hi"
    by (simp add: add [THEN conjunct2] pending_value_def lo_hi_def algebra_simps)
  show thesis by (rule that [OF k conjunct1 [OF add(1)] conjunct1 [OF add(2)] n v])
qed

lemma open_destination_Inr:
  assumes "open_destination E b m w = Inr (st, s)"
  shows "unpack PodAccount (data_of w b) = Inr st" "owner_of w b = token_2022_id" "moving m (base st)"
    "get_extension E PodAccount (ConfidentialTransferAccountExt E) st = Inr s" "valid_as_destination E s = Inr ()"
    "memo_required E st \<Longrightarrow> check_previous_sibling_instruction_is_memo E = Inr ()"
  using assms by (auto simp: open_destination_def success_simps moving_def split: if_splits)

text \<open>The credits of an account whose pending balance grew by \<open>x\<close>.\<close>

definition credited :: "env \<Rightarrow> (bytes \<Rightarrow> 'p::comm_ring_1) \<Rightarrow> 'p \<Rightarrow> confidential_transfer_account \<Rightarrow> confidential_transfer_account \<Rightarrow> bool" where
  "credited E D x s s' \<longleftrightarrow> pod_bool E (approved s) \<and> pod_bool E (allow_confidential_credits s) \<and>
     confidential_value D s' = confidential_value D s + x \<and> available_balance s' = available_balance s \<and>
     decryptable_available_balance s' = decryptable_available_balance s \<and>
     unat (pending_balance_credit_counter s') = unat (pending_balance_credit_counter s) + 1 \<and>
     pending_balance_credit_counter s' \<le> maximum_pending_balance_credit_counter s"

lemma process_destination_correct:
  assumes "process_destination_for_transfer E Z b m (Some pr) w = Inr w'" "additive E Z D"
  shows "\<exists>ba s s'. confidential_at E w b ba s \<and> confidential_at E w' b ba s' \<and> moving m ba \<and>
    elgamal_pubkey s = tp_destination (transfer_pubkeys pr) \<and>
    credited E D (lo_hi D transfer_amount_destination_ciphertext (ciphertext_lo pr) (ciphertext_hi pr)) s s' \<and>
    changes_only {key b} w w' \<and> (\<forall>a. key a \<noteq> key b \<longrightarrow> data_of w' a = data_of w a)"
proof -
  from assms(1) obtain st s s' where o: "open_destination E b m w = Inr (st, s)"
    and c: "credit_destination Z (tp_destination (transfer_pubkeys pr)) (ciphertext_lo pr) (ciphertext_hi pr) s = Inr s'"
    and w': "w' = store PodAccount b (put_extension PodAccount (ConfidentialTransferAccountExt E) s' st) w"
    by (auto simp: process_destination_for_transfer_def success_simps)
  note o = open_destination_Inr [OF o]
  from c assms(2) obtain plo phi n where k: "elgamal_pubkey s = tp_destination (transfer_pubkeys pr)" "ct E plo" "ct E phi"
    and s': "s' = s\<lparr>pending_balance_lo := plo, pending_balance_hi := phi, pending_balance_credit_counter := n\<rparr>"
    and n: "unat n = unat (pending_balance_credit_counter s) + 1"
    and v: "D plo + 65536 * D phi = pending_value D s +
      lo_hi D transfer_amount_destination_ciphertext (ciphertext_lo pr) (ciphertext_hi pr)" by (rule credit_destination_Inr)
  have "ct_account E s'" using get_ct_account [OF o(4)] k by (simp add: ct_account_def s')
  note w = stored_same_base [OF o(1,4) this w']
  have "credited E D (lo_hi D transfer_amount_destination_ciphertext (ciphertext_lo pr) (ciphertext_hi pr)) s s'"
    using valid_as_destination_Inr [OF o(5)] n v
    by (simp add: credited_def s' confidential_value_def pending_value_def word_le_nat_alt add.assoc)
  with w o(3) k show ?thesis
    by - (rule exI [of _ "base st"], rule exI [of _ s], rule exI [of _ s'], simp add: w' frame)
qed

lemma confidential_at_frame:
  "data_of w' a = data_of w a \<Longrightarrow> confidential_at E w' a b s = confidential_at E w a b s"
  by (simp add: confidential_at_def)

lemma changes_only_two:
  assumes "changes_only {a} w w1" "changes_only {b} w1 w2"
  shows "changes_only {a, b} w w2"
  using assms unfolding changes_only_def by (metis insert_iff singletonD)

lemma process_transfer_ct_Inr:
  assumes "process_transfer_ct E Z p (a # m # b # it) d offset split no_op close handles w = Inr w'"
    "unpack (PodMint E) (data_of w m) = Inr mt" "\<not> isOk (get_extension E (PodMint E) TransferFeeConfigExt mt)"
    "get_hook_program_id E mt = None"
    "verify_transfer_proof E Z (key m) it offset split no_op close handles w = Inr (Some pr, auth # rest, w1)"
  obtains c w2 where "get_extension E (PodMint E) (ConfidentialTransferMintExt E) mt = Inr c"
    "\<not> isOk (get_extension E (PodMint E) NonTransferableExt mt)"
    "elgamal_equals Z (auditor_elgamal_pubkey c) (tp_auditor (transfer_pubkeys pr))"
    "process_source_for_transfer E Z p a m auth rest (Some pr) d w1 = Inr w2"
    "process_destination_for_transfer E Z b m (Some pr) w2 = Inr w'"
  using assms
  by (auto simp: process_transfer_ct_def transfer_by_kind_def transfer_without_fee_def flush_close_accounts_def check_auditor_def
      success_simps not_isOk_iff)

text \<open>C9. A confidential transfer between two accounts of a mint without fees and hooks: the source loses the
  encrypted amount from its available balance and ends with the very ciphertext that the proof certifies, the destination
  gains the amount in its pending balance, and no plain amount changes.  The owner of the source consented, neither
  account is frozen, both belong to the mint, the proof is for the keys of the two accounts and of the auditor of the
  mint.  (The proof certifies that the source's and the destination's encryption of the amount have the same
  value.)\<close>

theorem confidential_transfer_correct:
  fixes Ds Dd :: "bytes \<Rightarrow> 'p::comm_ring_1"
  assumes "process_transfer_ct E Z p (a # m # b # it) d offset split no_op close handles w = Inr w'"
    "unpack (PodMint E) (data_of w m) = Inr mt" "\<not> isOk (get_extension E (PodMint E) TransferFeeConfigExt mt)"
    "get_hook_program_id E mt = None"
    "verify_transfer_proof E Z (key m) it offset split no_op close handles w = Inr (Some pr, auth # rest, w1)"
    "key a \<noteq> key b" "additive E Z Ds" "additive E Z Dd" "length d = ae_ciphertext_len E"
  shows "\<exists>ba sa sa' bb sb sb' c.
    confidential_at E w1 a ba sa \<and> confidential_at E w' a ba sa' \<and>
    confidential_at E w1 b bb sb \<and> confidential_at E w' b bb sb' \<and>
    moving m ba \<and> moving m bb \<and> consents p (owner ba) auth rest w1 \<and>
    elgamal_pubkey sa = tp_source (transfer_pubkeys pr) \<and> elgamal_pubkey sb = tp_destination (transfer_pubkeys pr) \<and>
    get_extension E (PodMint E) (ConfidentialTransferMintExt E) mt = Inr c \<and>
    elgamal_equals Z (auditor_elgamal_pubkey c) (tp_auditor (transfer_pubkeys pr)) \<and>
    available_balance sa' = new_source_ciphertext pr \<and> pending_value Ds sa' = pending_value Ds sa \<and>
    confidential_value Ds sa' =
      confidential_value Ds sa - lo_hi Ds transfer_amount_source_ciphertext (ciphertext_lo pr) (ciphertext_hi pr) \<and>
    credited E Dd (lo_hi Dd transfer_amount_destination_ciphertext (ciphertext_lo pr) (ciphertext_hi pr)) sb sb' \<and>
    changes_only {key a, key b} w1 w'"
proof -
  from assms(1-5) obtain c w2 where c: "get_extension E (PodMint E) (ConfidentialTransferMintExt E) mt = Inr c"
    and au: "elgamal_equals Z (auditor_elgamal_pubkey c) (tp_auditor (transfer_pubkeys pr))"
    and s: "process_source E Z p a m auth rest (Some (tp_source (transfer_pubkeys pr), ciphertext_lo pr, ciphertext_hi pr,
      new_source_ciphertext pr)) d w1 = Inr w2"
    and t: "process_destination_for_transfer E Z b m (Some pr) w2 = Inr w'"
    by (rule process_transfer_ct_Inr) (simp add: process_source_for_transfer_def)
  from process_source_correct [OF s assms(7,9)] obtain ba sa sa' where
    A: "confidential_at E w1 a ba sa" "confidential_at E w2 a ba sa'" "moving m ba" "consents p (owner ba) auth rest w1"
      "elgamal_pubkey sa = tp_source (transfer_pubkeys pr)" "available_balance sa' = new_source_ciphertext pr"
      "pending_value Ds sa' = pending_value Ds sa" "changes_only {key a} w1 w2"
      "\<And>b. key b \<noteq> key a \<Longrightarrow> data_of w2 b = data_of w1 b"
    and V: "confidential_value Ds sa' =
      confidential_value Ds sa - lo_hi Ds transfer_amount_source_ciphertext (ciphertext_lo pr) (ciphertext_hi pr)" by blast
  from process_destination_correct [OF t assms(8)] obtain bb sb sb' where
    B: "confidential_at E w2 b bb sb" "confidential_at E w' b bb sb'" "moving m bb"
      "elgamal_pubkey sb = tp_destination (transfer_pubkeys pr)"
      "credited E Dd (lo_hi Dd transfer_amount_destination_ciphertext (ciphertext_lo pr) (ciphertext_hi pr)) sb sb'"
      "changes_only {key b} w2 w'" "\<And>a. key a \<noteq> key b \<Longrightarrow> data_of w' a = data_of w2 a" by blast
  have "confidential_at E w' a ba sa'" using A(2) by (simp only: confidential_at_frame [OF B(7) [OF assms(6)]])
  moreover have "confidential_at E w1 b bb sb" using B(1) by (simp only: confidential_at_frame [OF A(9) [OF assms(6) [symmetric]]])
  ultimately show ?thesis
    using A(1,3-7) V B(2-5) c au changes_only_two [OF A(8) B(6)] by blast
qed

text \<open>With a fee.\<close>

lemma subtract_fee_Inr:
  assumes "subtract_fee Z lo hi s = Inr s'" "additive E Z D"
  obtains plo phi where "ct E plo" "ct E phi" "s' = s\<lparr>pending_balance_lo := plo, pending_balance_hi := phi\<rparr>"
    "D plo + 65536 * D phi = pending_value D s - lo_hi D fee_amount_destination_ciphertext lo hi"
proof -
  from assms(1) obtain plo phi where
    lo: "ct_subtract Z (pending_balance_lo s) (fee_amount_destination_ciphertext lo) = Some plo"
    and hi: "ct_subtract Z (pending_balance_hi s) (fee_amount_destination_ciphertext hi) = Some phi"
    and s': "s' = s\<lparr>pending_balance_lo := plo, pending_balance_hi := phi\<rparr>"
    by (auto simp: subtract_fee_def Let_def success_simps)
  note sub = additiveD(3) [OF assms(2) lo] additiveD(3) [OF assms(2) hi]
  have "D plo + 65536 * D phi = pending_value D s - lo_hi D fee_amount_destination_ciphertext lo hi"
    by (simp add: sub [THEN conjunct2] pending_value_def lo_hi_def algebra_simps)
  from that [OF conjunct1 [OF sub(1)] conjunct1 [OF sub(2)] s' this] show thesis .
qed

text \<open>The fee withheld on an account.\<close>

definition withheld_ct_at :: "env \<Rightarrow> world \<Rightarrow> account_info \<Rightarrow> bytes \<Rightarrow> bool" where
  "withheld_ct_at E w a n \<longleftrightarrow> (\<exists>st. unpack PodAccount (data_of w a) = Inr st \<and>
     get_extension E PodAccount (ConfidentialTransferFeeAmountExt E) st = Inr n)"

lemma confidential_ext_types [simp]:
  "ext_type (ConfidentialTransferAccountExt E) \<noteq> ext_type (ConfidentialTransferFeeAmountExt E)"
  "ext_type (ConfidentialTransferFeeAmountExt E) \<noteq> ext_type (ConfidentialTransferAccountExt E)"
  by (simp_all add: ext_defs Let_def)

lemma withhold_confidential_fee_Inr:
  assumes "withhold_confidential_fee E Z lo hi st = Inr st'" "additive E Z D"
  obtains n n' where "get_extension E PodAccount (ConfidentialTransferFeeAmountExt E) st = Inr n"
    "st' = put_extension PodAccount (ConfidentialTransferFeeAmountExt E) n' st"
    "get_extension E PodAccount (ConfidentialTransferFeeAmountExt E) st' = Inr n'"
    "D n' = D n + lo_hi D fee_amount_withdraw_withheld_authority_ciphertext lo hi"
proof -
  from assms(1) obtain n n' where n: "get_extension E PodAccount (ConfidentialTransferFeeAmountExt E) st = Inr n"
    and a: "ct_add_with_lo_hi Z n (fee_amount_withdraw_withheld_authority_ciphertext lo)
      (fee_amount_withdraw_withheld_authority_ciphertext hi) = Some n'"
    and st': "st' = put_extension PodAccount (ConfidentialTransferFeeAmountExt E) n' st"
    by (auto simp: withhold_confidential_fee_def success_simps)
  note a = additiveD(6) [OF assms(2) a]
  have "get_extension E PodAccount (ConfidentialTransferFeeAmountExt E) st' = Inr n'"
    unfolding st' by (rule account_confidential_fee.get_put_extension [OF n fee_valid [OF conjunct1 [OF a]]])
  with n st' a show thesis by (intro that) (auto simp: lo_hi_def)
qed

lemma credit_with_fee_Inr:
  assumes "credit_with_fee E Z pr False s st = Inr st'" "additive E Z D" "additive E Z Dw" "ct_account E s"
    "get_extension E PodAccount (ConfidentialTransferAccountExt E) st = Inr s" "valid_as_destination E s = Inr ()"
  obtains s' n n' where "elgamal_pubkey s = tp_destination (transfer_with_fee_pubkeys pr)"
    "get_extension E PodAccount (ConfidentialTransferAccountExt E) st' = Inr s'"
    "credited E D (lo_hi D transfer_amount_destination_ciphertext (wf_ciphertext_lo pr) (wf_ciphertext_hi pr) -
       lo_hi D fee_amount_destination_ciphertext (fee_ciphertext_lo pr) (fee_ciphertext_hi pr)) s s'"
    "get_extension E PodAccount (ConfidentialTransferFeeAmountExt E) st = Inr n"
    "get_extension E PodAccount (ConfidentialTransferFeeAmountExt E) st' = Inr n'"
    "Dw n' = Dw n + lo_hi Dw fee_amount_withdraw_withheld_authority_ciphertext (fee_ciphertext_lo pr) (fee_ciphertext_hi pr)"
    "base st' = base st" "shape_ok PodAccount st' = shape_ok PodAccount st"
proof -
  let ?V = "ConfidentialTransferAccountExt E" and ?F = "ConfidentialTransferFeeAmountExt E"
  from assms(1) obtain s1 s2 where
    c: "credit_destination Z (tp_destination (transfer_with_fee_pubkeys pr)) (wf_ciphertext_lo pr) (wf_ciphertext_hi pr) s = Inr s1"
    and f: "subtract_fee Z (fee_ciphertext_lo pr) (fee_ciphertext_hi pr) s1 = Inr s2"
    and h: "withhold_confidential_fee E Z (fee_ciphertext_lo pr) (fee_ciphertext_hi pr) (put_extension PodAccount ?V s2 st) = Inr st'"
    by (auto simp: credit_with_fee_def success_simps)
  from c assms(2) obtain plo phi k where 1: "elgamal_pubkey s = tp_destination (transfer_with_fee_pubkeys pr)" "ct E plo" "ct E phi"
    "s1 = s\<lparr>pending_balance_lo := plo, pending_balance_hi := phi, pending_balance_credit_counter := k\<rparr>"
    "unat k = unat (pending_balance_credit_counter s) + 1"
    "D plo + 65536 * D phi = pending_value D s +
       lo_hi D transfer_amount_destination_ciphertext (wf_ciphertext_lo pr) (wf_ciphertext_hi pr)"
    by (rule credit_destination_Inr)
  from f assms(2) obtain qlo qhi where 2: "ct E qlo" "ct E qhi" "s2 = s1\<lparr>pending_balance_lo := qlo, pending_balance_hi := qhi\<rparr>"
    "D qlo + 65536 * D qhi = pending_value D s1 - lo_hi D fee_amount_destination_ciphertext (fee_ciphertext_lo pr) (fee_ciphertext_hi pr)"
    by (rule subtract_fee_Inr)
  from h assms(3) obtain n n' where 3: "get_extension E PodAccount ?F (put_extension PodAccount ?V s2 st) = Inr n"
    "st' = put_extension PodAccount ?F n' (put_extension PodAccount ?V s2 st)" "get_extension E PodAccount ?F st' = Inr n'"
    "Dw n' = Dw n + lo_hi Dw fee_amount_withdraw_withheld_authority_ciphertext (fee_ciphertext_lo pr) (fee_ciphertext_hi pr)"
    by (rule withhold_confidential_fee_Inr)
  have n: "get_extension E PodAccount ?F st = Inr n" using 3(1) by (simp add: pod_account.get_put_extension_other)
  have "ct_account E s2" using assms(4) 1(4) 2 by (simp add: ct_account_def)
  then have s2: "get_extension E PodAccount ?V st' = Inr s2"
    using get_put_ct_account [OF assms(5)] by (simp add: 3(2) pod_account.get_put_extension_other)
  have "pending_value D s1 = pending_value D s + lo_hi D transfer_amount_destination_ciphertext (wf_ciphertext_lo pr) (wf_ciphertext_hi pr)"
    using 1(6) by (simp add: 1(4) pending_value_def)
  then have "pending_value D s2 = pending_value D s + (lo_hi D transfer_amount_destination_ciphertext (wf_ciphertext_lo pr)
    (wf_ciphertext_hi pr) - lo_hi D fee_amount_destination_ciphertext (fee_ciphertext_lo pr) (fee_ciphertext_hi pr))"
    using 2(4) by (simp add: 2(3) pending_value_def)
  then have cr: "credited E D (lo_hi D transfer_amount_destination_ciphertext (wf_ciphertext_lo pr) (wf_ciphertext_hi pr) -
       lo_hi D fee_amount_destination_ciphertext (fee_ciphertext_lo pr) (fee_ciphertext_hi pr)) s s2"
    using valid_as_destination_Inr [OF assms(6)] 1(5)
    by (simp add: credited_def confidential_value_def word_le_nat_alt add.assoc 2(3) 1(4))
  show thesis by (rule that [OF 1(1) s2 cr n 3(3,4)]) (simp_all add: 3(2))
qed

lemma process_destination_with_fee_correct:
  assumes "process_destination_for_transfer_with_fee E Z b m (Some pr) False w = Inr w'" "additive E Z D" "additive E Z Dw"
  shows "\<exists>ba s s' n n'. confidential_at E w b ba s \<and> confidential_at E w' b ba s' \<and> moving m ba \<and>
    elgamal_pubkey s = tp_destination (transfer_with_fee_pubkeys pr) \<and>
    credited E D (lo_hi D transfer_amount_destination_ciphertext (wf_ciphertext_lo pr) (wf_ciphertext_hi pr) -
       lo_hi D fee_amount_destination_ciphertext (fee_ciphertext_lo pr) (fee_ciphertext_hi pr)) s s' \<and>
    withheld_ct_at E w b n \<and> withheld_ct_at E w' b n' \<and>
    Dw n' = Dw n + lo_hi Dw fee_amount_withdraw_withheld_authority_ciphertext (fee_ciphertext_lo pr) (fee_ciphertext_hi pr) \<and>
    changes_only {key b} w w' \<and> (\<forall>a. key a \<noteq> key b \<longrightarrow> data_of w' a = data_of w a)"
proof -
  from assms(1) obtain st s st' where o: "open_destination E b m w = Inr (st, s)"
    and c: "credit_with_fee E Z pr False s st = Inr st'" and w': "w' = store PodAccount b st' w"
    by (auto simp: process_destination_for_transfer_with_fee_def success_simps)
  note o = open_destination_Inr [OF o]
  from c assms(2,3) get_ct_account [OF o(4)] o(4,5) obtain s' n n' where k: "elgamal_pubkey s = tp_destination (transfer_with_fee_pubkeys pr)"
    and s': "get_extension E PodAccount (ConfidentialTransferAccountExt E) st' = Inr s'"
    and cr: "credited E D (lo_hi D transfer_amount_destination_ciphertext (wf_ciphertext_lo pr) (wf_ciphertext_hi pr) -
       lo_hi D fee_amount_destination_ciphertext (fee_ciphertext_lo pr) (fee_ciphertext_hi pr)) s s'"
    and n: "get_extension E PodAccount (ConfidentialTransferFeeAmountExt E) st = Inr n"
    and n': "get_extension E PodAccount (ConfidentialTransferFeeAmountExt E) st' = Inr n'"
    and d: "Dw n' = Dw n + lo_hi Dw fee_amount_withdraw_withheld_authority_ciphertext (fee_ciphertext_lo pr) (fee_ciphertext_hi pr)"
    and b: "base st' = base st" "shape_ok PodAccount st' = shape_ok PodAccount st"
    by (rule credit_with_fee_Inr)
  have "live st'" using o(1) b by (simp add: live_def unpack_account_live)
  then have u: "unpack PodAccount (data_of w' b) = Inr st'" by (simp add: w' frame)
  have "confidential_at E w b (base st) s" "confidential_at E w' b (base st) s'"
    using confidential_atI [OF o(1,4)] confidential_atI [OF u s'] b(1) by simp_all
  moreover have "withheld_ct_at E w b n" "withheld_ct_at E w' b n'" using o(1) n u n' by (auto simp: withheld_ct_at_def)
  ultimately show ?thesis using o(3) k cr d
    by - (rule exI [of _ "base st"], rule exI [of _ s], rule exI [of _ s'], rule exI [of _ n], rule exI [of _ n'],
      simp add: w' frame changes_only_store)
qed

lemma process_transfer_ct_with_fee_Inr:
  assumes "process_transfer_ct E Z p (a # m # b # it) d offset split no_op close handles w = Inr w'"
    "unpack (PodMint E) (data_of w m) = Inr mt" "get_extension E (PodMint E) TransferFeeConfigExt mt = Inr config"
    "get_hook_program_id E mt = None" "clock_get E = Inr now"
    "verify_transfer_with_fee_proof E Z (key m) it offset split no_op close handles (get_epoch_fee config (epoch now)) w =
       Inr (Some pr, auth # rest, w1)"
  obtains c f w2 where "get_extension E (PodMint E) (ConfidentialTransferMintExt E) mt = Inr c"
    "elgamal_equals Z (auditor_elgamal_pubkey c) (tp_auditor (transfer_with_fee_pubkeys pr))"
    "get_extension E (PodMint E) (ConfidentialTransferFeeConfigExt E) mt = Inr f"
    "tp_withdraw_withheld_authority (transfer_with_fee_pubkeys pr) = withdraw_withheld_authority_elgamal_pubkey f"
    "process_source E Z p a m auth rest (Some (tp_source (transfer_with_fee_pubkeys pr), wf_ciphertext_lo pr,
       wf_ciphertext_hi pr, wf_new_source_ciphertext pr)) d w1 = Inr w2"
    "process_destination_for_transfer_with_fee E Z b m (Some pr) (key a = key b) w2 = Inr w'"
  using assms
  by (auto simp: process_transfer_ct_def transfer_by_kind_def transfer_with_fee_def flush_close_accounts_def check_auditor_def
      check_withdraw_withheld_authority_def process_source_for_transfer_with_fee_def success_simps)

text \<open>C10. With a fee: the source loses the amount, the destination gains the amount less the fee, and the fee is
  added to what is withheld on the destination, encrypted for the withdraw authority of the mint.  The fee was proved
  with the parameters of the mint in the current epoch.\<close>

theorem confidential_transfer_with_fee_correct:
  fixes Ds Dd Dw :: "bytes \<Rightarrow> 'p::comm_ring_1"
  assumes "process_transfer_ct E Z p (a # m # b # it) d offset split no_op close handles w = Inr w'"
    "unpack (PodMint E) (data_of w m) = Inr mt" "get_extension E (PodMint E) TransferFeeConfigExt mt = Inr config"
    "get_hook_program_id E mt = None" "clock_get E = Inr now"
    "verify_transfer_with_fee_proof E Z (key m) it offset split no_op close handles (get_epoch_fee config (epoch now)) w =
       Inr (Some pr, auth # rest, w1)"
    "key a \<noteq> key b" "additive E Z Ds" "additive E Z Dd" "additive E Z Dw" "length d = ae_ciphertext_len E"
  shows "\<exists>ba sa sa' bb sb sb' n n' f.
    confidential_at E w1 a ba sa \<and> confidential_at E w' a ba sa' \<and>
    confidential_at E w1 b bb sb \<and> confidential_at E w' b bb sb' \<and>
    withheld_ct_at E w1 b n \<and> withheld_ct_at E w' b n' \<and>
    moving m ba \<and> moving m bb \<and> consents p (owner ba) auth rest w1 \<and>
    elgamal_pubkey sa = tp_source (transfer_with_fee_pubkeys pr) \<and>
    elgamal_pubkey sb = tp_destination (transfer_with_fee_pubkeys pr) \<and>
    get_extension E (PodMint E) (ConfidentialTransferFeeConfigExt E) mt = Inr f \<and>
    withdraw_withheld_authority_elgamal_pubkey f = tp_withdraw_withheld_authority (transfer_with_fee_pubkeys pr) \<and>
    available_balance sa' = wf_new_source_ciphertext pr \<and>
    confidential_value Ds sa' =
      confidential_value Ds sa - lo_hi Ds transfer_amount_source_ciphertext (wf_ciphertext_lo pr) (wf_ciphertext_hi pr) \<and>
    credited E Dd (lo_hi Dd transfer_amount_destination_ciphertext (wf_ciphertext_lo pr) (wf_ciphertext_hi pr) -
      lo_hi Dd fee_amount_destination_ciphertext (fee_ciphertext_lo pr) (fee_ciphertext_hi pr)) sb sb' \<and>
    Dw n' = Dw n + lo_hi Dw fee_amount_withdraw_withheld_authority_ciphertext (fee_ciphertext_lo pr) (fee_ciphertext_hi pr) \<and>
    changes_only {key a, key b} w1 w'"
proof -
  from assms(1-6) obtain f w2 where f: "get_extension E (PodMint E) (ConfidentialTransferFeeConfigExt E) mt = Inr f"
      "withdraw_withheld_authority_elgamal_pubkey f = tp_withdraw_withheld_authority (transfer_with_fee_pubkeys pr)"
    and s: "process_source E Z p a m auth rest (Some (tp_source (transfer_with_fee_pubkeys pr), wf_ciphertext_lo pr,
      wf_ciphertext_hi pr, wf_new_source_ciphertext pr)) d w1 = Inr w2"
    and t: "process_destination_for_transfer_with_fee E Z b m (Some pr) False w2 = Inr w'"
    by (rule process_transfer_ct_with_fee_Inr) (simp add: assms(7))
  from process_source_correct [OF s assms(8,11)] obtain ba sa sa' where
    A: "confidential_at E w1 a ba sa" "confidential_at E w2 a ba sa'" "moving m ba" "consents p (owner ba) auth rest w1"
      "elgamal_pubkey sa = tp_source (transfer_with_fee_pubkeys pr)" "available_balance sa' = wf_new_source_ciphertext pr"
      "changes_only {key a} w1 w2" "\<And>b. key b \<noteq> key a \<Longrightarrow> data_of w2 b = data_of w1 b"
    and V: "confidential_value Ds sa' =
      confidential_value Ds sa - lo_hi Ds transfer_amount_source_ciphertext (wf_ciphertext_lo pr) (wf_ciphertext_hi pr)" by blast
  from process_destination_with_fee_correct [OF t assms(9,10)] obtain bb sb sb' n n' where
    B: "confidential_at E w2 b bb sb" "confidential_at E w' b bb sb'" "moving m bb"
      "elgamal_pubkey sb = tp_destination (transfer_with_fee_pubkeys pr)"
      "credited E Dd (lo_hi Dd transfer_amount_destination_ciphertext (wf_ciphertext_lo pr) (wf_ciphertext_hi pr) -
         lo_hi Dd fee_amount_destination_ciphertext (fee_ciphertext_lo pr) (fee_ciphertext_hi pr)) sb sb'"
      "withheld_ct_at E w2 b n" "withheld_ct_at E w' b n'" "changes_only {key b} w2 w'"
      "\<And>a. key a \<noteq> key b \<Longrightarrow> data_of w' a = data_of w2 a"
    and W: "Dw n' = Dw n + lo_hi Dw fee_amount_withdraw_withheld_authority_ciphertext (fee_ciphertext_lo pr) (fee_ciphertext_hi pr)"
    by blast
  note fa = B(9) [OF assms(7)] and fb = A(8) [OF assms(7) [symmetric]]
  have "confidential_at E w' a ba sa'" "confidential_at E w1 b bb sb" "withheld_ct_at E w1 b n"
    using A(2) B(1,6) by (simp_all only: confidential_at_def withheld_ct_at_def fa fb)
  then show ?thesis
    using A(1,3-6) V B(2-5,7) W f changes_only_two [OF A(7) B(8)] by blast
qed

section \<open>Emptying an account\<close>

text \<open>An account is emptied only with the consent of its owner and a proof, for the key of the account and for
  its very ciphertext, that the available balance is zero; nothing may be pending.  Afterwards the confidential state no
  longer stands in the way of closing the account, and nothing else changed.\<close>

theorem empty_account_correct:
  assumes "process_empty_account E Z p (a # c # auth # rest) offset w = Inr w'"
  shows "\<exists>b s s' pr. confidential_at E w a b s \<and> consents p (owner b) auth rest w \<and>
    verify_proof_at E Z (zero_balance Z) ZeroBalance c offset w = Inr pr \<and>
    zb_pubkey pr = elgamal_pubkey s \<and> zb_ciphertext pr = available_balance s \<and>
    is_zeroed (pending_balance_lo s) \<and> is_zeroed (pending_balance_hi s) \<and>
    confidential_at E w' a b s' \<and> s' = s\<lparr>available_balance := zeroed_ciphertext E\<rparr> \<and>
    confidential_account_closable s' = Inr () \<and> changes_only {key a} w w'"
proof -
  from assms obtain st s pr where v: "verify_proof_at E Z (zero_balance Z) ZeroBalance c offset w = Inr pr"
    and u: "unpack PodAccount (data_of w a) = Inr st" "validate_owner E p (owner (base st)) auth (length (data_of w auth)) rest w = Inr ()"
    and s: "get_extension E PodAccount (ConfidentialTransferAccountExt E) st = Inr s"
    and k: "zb_pubkey pr = elgamal_pubkey s" "zb_ciphertext pr = available_balance s"
    and cl: "confidential_account_closable (s\<lparr>available_balance := zeroed_ciphertext E\<rparr>) = Inr ()"
    and w': "w' = store PodAccount a (put_extension PodAccount (ConfidentialTransferAccountExt E)
       (s\<lparr>available_balance := zeroed_ciphertext E\<rparr>) st) w"
    by (auto simp: process_empty_account_def verify_empty_account_proof_def verify_next_proof_def success_simps Let_def)
  have "ct_account E (s\<lparr>available_balance := zeroed_ciphertext E\<rparr>)" using get_ct_account [OF s] by (simp add: ct_account_def)
  note w = stored_same_base [OF u(1) s this w']
  have "is_zeroed (pending_balance_lo s)" "is_zeroed (pending_balance_hi s)"
    using cl by (simp_all add: confidential_account_closable_def success_simps split: if_splits)
  with w k cl v validate_owner_consents [OF u(2)] show ?thesis
    by - (rule exI [of _ "base st"], rule exI [of _ s],
      rule exI [of _ "s\<lparr>available_balance := zeroed_ciphertext E\<rparr>"], rule exI [of _ pr], simp)
qed

section \<open>On the sample ledger\<close>


theorem withdraw_correct_witness:
  "\<exists>w' b s'. process_withdraw sample_env sample_zk token_2022_id
     [\<lparr>key = 7, is_signer = False\<rparr>, \<lparr>key = 9, is_signer = False\<rparr>, \<lparr>key = 12, is_signer = False\<rparr>, \<lparr>key = 30, is_signer = True\<rparr>]
     60000 6 (replicate 36 1) 0 (secret_ledger False (3 # sample_ciphertext 40000)) = Inr w' \<and>
     confidential_at sample_env w' \<lparr>key = 7, is_signer = False\<rparr> b s' \<and> amount b = 260000 \<and>
     confidential_value sample_plaintext s' = 40000"
proof -
  have "isOk (process_withdraw sample_env sample_zk token_2022_id
     [\<lparr>key = 7, is_signer = False\<rparr>, \<lparr>key = 9, is_signer = False\<rparr>, \<lparr>key = 12, is_signer = False\<rparr>, \<lparr>key = 30, is_signer = True\<rparr>]
     60000 6 (replicate 36 1) 0 (secret_ledger False (3 # sample_ciphertext 40000)))"
    by (simp add: process_withdraw_def open_for_conversion_def sample_run checked_add_def verify_withdraw_proof_def
        verify_next_proof_def sample_proofs live_mint_def Let_def)
  then obtain w' where t: "process_withdraw sample_env sample_zk token_2022_id
     [\<lparr>key = 7, is_signer = False\<rparr>, \<lparr>key = 9, is_signer = False\<rparr>, \<lparr>key = 12, is_signer = False\<rparr>, \<lparr>key = 30, is_signer = True\<rparr>]
     60000 6 (replicate 36 1) 0 (secret_ledger False (3 # sample_ciphertext 40000)) = Inr w'" by (auto simp: isOk_iff)
  have "length (replicate 36 (1 :: u8)) = ae_ciphertext_len sample_env" by simp
  from withdraw_correct [OF t sample_additive this] t show ?thesis by (fastforce dest: unique_secret)
qed

theorem apply_pending_balance_correct_witness:
  "\<exists>w' b s'. process_apply_pending_balance sample_env sample_zk token_2022_id
     [\<lparr>key = 8, is_signer = False\<rparr>, \<lparr>key = 31, is_signer = True\<rparr>] 2 (replicate 36 1) (secret_ledger False []) = Inr w' \<and>
     confidential_at sample_env w' \<lparr>key = 8, is_signer = False\<rparr> b s' \<and>
     sample_plaintext (available_balance s') = 65543 \<and> expected_pending_balance_credit_counter s' = 2"
proof -
  have "isOk (process_apply_pending_balance sample_env sample_zk token_2022_id
     [\<lparr>key = 8, is_signer = False\<rparr>, \<lparr>key = 31, is_signer = True\<rparr>] 2 (replicate 36 1) (secret_ledger False []))"
    by (simp add: process_apply_pending_balance_def process_update_confidential_def sample_run apply_pending_balance_def)
  then obtain w' where t: "process_apply_pending_balance sample_env sample_zk token_2022_id
     [\<lparr>key = 8, is_signer = False\<rparr>, \<lparr>key = 31, is_signer = True\<rparr>] 2 (replicate 36 1) (secret_ledger False []) = Inr w'"
    by (auto simp: isOk_iff)
  have "length (replicate 36 (1 :: u8)) = ae_ciphertext_len sample_env" by simp
  from apply_pending_balance_correct [OF t sample_additive this] t show ?thesis by (fastforce dest: unique_secret)
qed

theorem confidential_transfer_correct_witness:
  "\<exists>w' b s'. process_transfer_ct sample_env sample_zk token_2022_id
     [\<lparr>key = 7, is_signer = False\<rparr>, \<lparr>key = 9, is_signer = False\<rparr>, \<lparr>key = 8, is_signer = False\<rparr>,
      \<lparr>key = 12, is_signer = False\<rparr>, \<lparr>key = 30, is_signer = True\<rparr>]
     (replicate 36 1) 0 False False False \<lparr>handle_lo = [], handle_hi = []\<rparr> (secret_ledger False (0 # sample_ciphertext 34459)) = Inr w' \<and>
     confidential_at sample_env w' \<lparr>key = 8, is_signer = False\<rparr> b s' \<and> amount b = 5 \<and>
     confidential_value sample_plaintext s' = 131084"
proof -
  have v: "verify_transfer_proof sample_env sample_zk 9 [\<lparr>key = 12, is_signer = False\<rparr>, \<lparr>key = 30, is_signer = True\<rparr>]
      0 False False False \<lparr>handle_lo = [], handle_hi = []\<rparr> (secret_ledger False (0 # sample_ciphertext 34459)) =
    Inr (Some \<lparr>ciphertext_lo = sample_ciphertext 5 @ sample_ciphertext 0, ciphertext_hi = sample_ciphertext 1 @ sample_ciphertext 0,
       transfer_pubkeys = \<lparr>tp_source = replicate 32 0, tp_destination = replicate 32 0, tp_auditor = replicate 32 0\<rparr>,
       new_source_ciphertext = sample_ciphertext 34459\<rparr>, [\<lparr>key = 30, is_signer = True\<rparr>], (secret_ledger False (0 # sample_ciphertext 34459)))"
    by (simp add: verify_transfer_proof_def sample_transfer_proofs)
  have n: "\<not> isOk (get_extension sample_env (PodMint sample_env) TransferFeeConfigExt (secret_mint False))" by simp
  then obtain e where "get_extension sample_env (PodMint sample_env) TransferFeeConfigExt (secret_mint False) = Inl e"
    by (cases "get_extension sample_env (PodMint sample_env) TransferFeeConfigExt (secret_mint False)") simp_all
  then have "isOk (process_transfer_ct sample_env sample_zk token_2022_id
     [\<lparr>key = 7, is_signer = False\<rparr>, \<lparr>key = 9, is_signer = False\<rparr>, \<lparr>key = 8, is_signer = False\<rparr>,
      \<lparr>key = 12, is_signer = False\<rparr>, \<lparr>key = 30, is_signer = True\<rparr>]
     (replicate 36 1) 0 False False False \<lparr>handle_lo = [], handle_hi = []\<rparr> (secret_ledger False (0 # sample_ciphertext 34459)))"
    by (simp add: process_transfer_ct_def transfer_by_kind_def transfer_without_fee_def v flush_close_accounts_def
        check_auditor_def process_source_for_transfer_def process_source_def sample_run debit_source_def
        process_destination_for_transfer_def open_destination_def credit_destination_def frame
        increment_pending_balance_credit_counter_def checked_add_def secret_mint_config_def Let_def)
  then obtain w' where t: "process_transfer_ct sample_env sample_zk token_2022_id
     [\<lparr>key = 7, is_signer = False\<rparr>, \<lparr>key = 9, is_signer = False\<rparr>, \<lparr>key = 8, is_signer = False\<rparr>,
      \<lparr>key = 12, is_signer = False\<rparr>, \<lparr>key = 30, is_signer = True\<rparr>]
     (replicate 36 1) 0 False False False \<lparr>handle_lo = [], handle_hi = []\<rparr> (secret_ledger False (0 # sample_ciphertext 34459)) = Inr w'" by (auto simp: isOk_iff)
  have u: "unpack (PodMint sample_env) (data_of (secret_ledger False (0 # sample_ciphertext 34459)) \<lparr>key = 9, is_signer = False\<rparr>) = Inr (secret_mint False)" by simp
  have v: "verify_transfer_proof sample_env sample_zk (key \<lparr>key = 9, is_signer = False\<rparr>)
      [\<lparr>key = 12, is_signer = False\<rparr>, \<lparr>key = 30, is_signer = True\<rparr>] 0 False False False \<lparr>handle_lo = [], handle_hi = []\<rparr> (secret_ledger False (0 # sample_ciphertext 34459)) =
    Inr (Some \<lparr>ciphertext_lo = sample_ciphertext 5 @ sample_ciphertext 0, ciphertext_hi = sample_ciphertext 1 @ sample_ciphertext 0,
       transfer_pubkeys = \<lparr>tp_source = replicate 32 0, tp_destination = replicate 32 0, tp_auditor = replicate 32 0\<rparr>,
       new_source_ciphertext = sample_ciphertext 34459\<rparr>, [\<lparr>key = 30, is_signer = True\<rparr>], (secret_ledger False (0 # sample_ciphertext 34459)))"
    by (simp add: v)
  have "length (replicate 36 (1 :: u8)) = ae_ciphertext_len sample_env"
    "key \<lparr>key = 7, is_signer = False\<rparr> \<noteq> key \<lparr>key = 8, is_signer = False\<rparr>" by simp_all
  from confidential_transfer_correct [OF t u n _ v this(2) sample_additive sample_additive this(1)] t show ?thesis
    by (fastforce simp: credited_def lo_hi_def dest: unique_secret)
qed

lemma withheld_secret:
  "withheld_ct_at sample_env (secret_ledger fees c) \<lparr>key = 8, is_signer = False\<rparr> n \<Longrightarrow> n = sample_ciphertext 6"
  by (auto simp: withheld_ct_at_def)

lemma is_zeroed_nat_le: "is_zeroed (nat_le k 0)"
  by (induction k) (simp_all add: is_zeroed_def)

lemma zeroed_samples: "is_zeroed (sample_ciphertext 0)" "is_zeroed (zeroed_ciphertext sample_env)"
  using is_zeroed_nat_le [of 8]
  by (simp_all add: is_zeroed_def sample_ciphertext_def zeroed_ciphertext_def word_le_def list_all_iff)

theorem confidential_transfer_with_fee_correct_witness:
  "\<exists>w' b s' n'. process_transfer_ct sample_env sample_zk token_2022_id
     [\<lparr>key = 7, is_signer = False\<rparr>, \<lparr>key = 9, is_signer = False\<rparr>, \<lparr>key = 8, is_signer = False\<rparr>,
      \<lparr>key = 12, is_signer = False\<rparr>, \<lparr>key = 30, is_signer = True\<rparr>]
     (replicate 36 1) 0 False False False \<lparr>handle_lo = [], handle_hi = []\<rparr> (secret_ledger True (0 # sample_ciphertext 34459)) = Inr w' \<and>
     confidential_at sample_env w' \<lparr>key = 8, is_signer = False\<rparr> b s' \<and> amount b = 5 \<and>
     confidential_value sample_plaintext s' = 131081 \<and>
     withheld_ct_at sample_env w' \<lparr>key = 8, is_signer = False\<rparr> n' \<and> sample_plaintext n' = 9"
proof -
  let ?params = "get_epoch_fee sample_config (epoch \<lparr>epoch = 5, unix_timestamp = 1000\<rparr>)"
  have now: "clock_get sample_env = Inr \<lparr>epoch = 5, unix_timestamp = 1000\<rparr>" by (simp add: sample_env_def)
  have v: "verify_transfer_with_fee_proof sample_env sample_zk (key \<lparr>key = 9, is_signer = False\<rparr>)
      [\<lparr>key = 12, is_signer = False\<rparr>, \<lparr>key = 30, is_signer = True\<rparr>] 0 False False False \<lparr>handle_lo = [], handle_hi = []\<rparr> ?params (secret_ledger True (0 # sample_ciphertext 34459)) =
    Inr (Some \<lparr>wf_ciphertext_lo = sample_ciphertext 5 @ sample_ciphertext 0, wf_ciphertext_hi = sample_ciphertext 1 @ sample_ciphertext 0,
       transfer_with_fee_pubkeys = \<lparr>tp_source = replicate 32 0, tp_destination = replicate 32 0, tp_auditor = replicate 32 0,
         tp_withdraw_withheld_authority = replicate 32 0\<rparr>,
       wf_new_source_ciphertext = sample_ciphertext 34459, fee_ciphertext_lo = sample_ciphertext 3 @ replicate 32 0,
       fee_ciphertext_hi = sample_ciphertext 0 @ replicate 32 0\<rparr>, [\<lparr>key = 30, is_signer = True\<rparr>], (secret_ledger True (0 # sample_ciphertext 34459)))"
    by (simp add: verify_transfer_with_fee_proof_def sample_transfer_proofs check_fee_parameters_def sample_config_def
        get_epoch_fee_def)
  have v': "verify_transfer_with_fee_proof sample_env sample_zk 9
      [\<lparr>key = 12, is_signer = False\<rparr>, \<lparr>key = 30, is_signer = True\<rparr>] 0 False False False \<lparr>handle_lo = [], handle_hi = []\<rparr> (get_epoch_fee sample_config 5) (secret_ledger True (0 # sample_ciphertext 34459)) =
    Inr (Some \<lparr>wf_ciphertext_lo = sample_ciphertext 5 @ sample_ciphertext 0, wf_ciphertext_hi = sample_ciphertext 1 @ sample_ciphertext 0,
       transfer_with_fee_pubkeys = \<lparr>tp_source = replicate 32 0, tp_destination = replicate 32 0, tp_auditor = replicate 32 0,
         tp_withdraw_withheld_authority = replicate 32 0\<rparr>,
       wf_new_source_ciphertext = sample_ciphertext 34459, fee_ciphertext_lo = sample_ciphertext 3 @ replicate 32 0,
       fee_ciphertext_hi = sample_ciphertext 0 @ replicate 32 0\<rparr>, [\<lparr>key = 30, is_signer = True\<rparr>], (secret_ledger True (0 # sample_ciphertext 34459)))"
    using v by simp
  have "isOk (process_transfer_ct sample_env sample_zk token_2022_id
     [\<lparr>key = 7, is_signer = False\<rparr>, \<lparr>key = 9, is_signer = False\<rparr>, \<lparr>key = 8, is_signer = False\<rparr>,
      \<lparr>key = 12, is_signer = False\<rparr>, \<lparr>key = 30, is_signer = True\<rparr>]
     (replicate 36 1) 0 False False False \<lparr>handle_lo = [], handle_hi = []\<rparr> (secret_ledger True (0 # sample_ciphertext 34459)))"
    by (simp add: process_transfer_ct_def transfer_by_kind_def transfer_with_fee_def v' now flush_close_accounts_def
        check_auditor_def check_withdraw_withheld_authority_def process_source_for_transfer_with_fee_def process_source_def
        sample_run debit_source_def process_destination_for_transfer_with_fee_def open_destination_def
        credit_with_fee_def subtract_fee_def withhold_confidential_fee_def credit_destination_def frame
        increment_pending_balance_credit_counter_def checked_add_def secret_mint_config_def secret_fee_config_def Let_def
        pod_account.get_put_extension_other)
  then obtain w' where t: "process_transfer_ct sample_env sample_zk token_2022_id
     [\<lparr>key = 7, is_signer = False\<rparr>, \<lparr>key = 9, is_signer = False\<rparr>, \<lparr>key = 8, is_signer = False\<rparr>,
      \<lparr>key = 12, is_signer = False\<rparr>, \<lparr>key = 30, is_signer = True\<rparr>]
     (replicate 36 1) 0 False False False \<lparr>handle_lo = [], handle_hi = []\<rparr> (secret_ledger True (0 # sample_ciphertext 34459)) = Inr w'" by (auto simp: isOk_iff)
  have u: "unpack (PodMint sample_env) (data_of (secret_ledger True (0 # sample_ciphertext 34459)) \<lparr>key = 9, is_signer = False\<rparr>) = Inr (secret_mint True)" by simp
  have f: "get_extension sample_env (PodMint sample_env) TransferFeeConfigExt (secret_mint True) = Inr sample_config" by simp
  have h: "get_hook_program_id sample_env (secret_mint True) = None" by simp
  have l: "length (replicate 36 (1 :: u8)) = ae_ciphertext_len sample_env"
    "key \<lparr>key = 7, is_signer = False\<rparr> \<noteq> key \<lparr>key = 8, is_signer = False\<rparr>" by simp_all
  from confidential_transfer_with_fee_correct [OF t u f h now v l(2) sample_additive sample_additive sample_additive l(1)] t
  show ?thesis by (fastforce simp: credited_def lo_hi_def dest: unique_secret withheld_secret)
qed

theorem empty_account_correct_witness:
  "\<exists>w' b s'. process_empty_account sample_env sample_zk token_2022_id
     [\<lparr>key = 11, is_signer = False\<rparr>, \<lparr>key = 12, is_signer = False\<rparr>, \<lparr>key = 32, is_signer = True\<rparr>] 0
     (secret_ledger False (0 # sample_ciphertext 0)) = Inr w' \<and>
     confidential_at sample_env w' \<lparr>key = 11, is_signer = False\<rparr> b s' \<and> confidential_account_closable s' = Inr ()"
proof -
  have "isOk (process_empty_account sample_env sample_zk token_2022_id
     [\<lparr>key = 11, is_signer = False\<rparr>, \<lparr>key = 12, is_signer = False\<rparr>, \<lparr>key = 32, is_signer = True\<rparr>] 0
     (secret_ledger False (0 # sample_ciphertext 0)))"
    by (simp add: process_empty_account_def verify_empty_account_proof_def verify_next_proof_def sample_proofs sample_run
        confidential_account_closable_def zeroed_samples)
  then obtain w' where t: "process_empty_account sample_env sample_zk token_2022_id
     [\<lparr>key = 11, is_signer = False\<rparr>, \<lparr>key = 12, is_signer = False\<rparr>, \<lparr>key = 32, is_signer = True\<rparr>] 0
     (secret_ledger False (0 # sample_ciphertext 0)) = Inr w'" by (auto simp: isOk_iff)
  from empty_account_correct [OF t] t show ?thesis by blast
qed

end
