(* ===== verification/Confidential_Fee_Value.thy ===== *)
theory Confidential_Fee_Value
  imports Confidential_Value
begin

text \<open>
  The value of confidential fees: what is withheld on the accounts of a mint is harvested to the mint and withdrawn from
  it without loss.
\<close>

section \<open>What is withheld on the accounts of a mint\<close>

definition withheld_value :: "env \<Rightarrow> (bytes \<Rightarrow> 'p::comm_ring_1) \<Rightarrow> pubkey \<Rightarrow> acct \<Rightarrow> 'p" where
  "withheld_value E D M c =
     (if acct_owner c \<noteq> token_2022_id then 0
      else case unpack PodAccount (acct_data c) of
        Inl _ \<Rightarrow> 0
      | Inr st \<Rightarrow> if mint (base st) \<noteq> M then 0
          else case get_extension E PodAccount (ConfidentialTransferFeeAmountExt E) st of Inl _ \<Rightarrow> 0 | Inr n \<Rightarrow> D n)"

definition total_withheld :: "env \<Rightarrow> (bytes \<Rightarrow> 'p::comm_ring_1) \<Rightarrow> pubkey \<Rightarrow> world \<Rightarrow> 'p" where
  "total_withheld E D M w = (\<Sum>k\<in>UNIV. withheld_value E D M (cells w k))"

lemma total_withheld_update:
  assumes "\<And>k. k \<noteq> j \<Longrightarrow> cells w' k = cells w k"
  shows "total_withheld E D M w' = total_withheld E D M w - withheld_value E D M (cells w j) + withheld_value E D M (cells w' j)"
proof -
  have "total_withheld E D M v = withheld_value E D M (cells v j) + (\<Sum>k\<in>UNIV - {j}. withheld_value E D M (cells v k))" for v
    by (simp add: total_withheld_def sum.remove [of UNIV j])
  moreover have "(\<Sum>k\<in>UNIV - {j}. withheld_value E D M (cells w' k)) = (\<Sum>k\<in>UNIV - {j}. withheld_value E D M (cells w k))"
    by (rule sum.cong) (simp_all add: assms)
  ultimately show ?thesis by simp
qed

lemma withheld_value_at:
  assumes "owner_of w a = token_2022_id" "unpack PodAccount (data_of w a) = Inr st" "mint (base st) = M"
    "get_extension E PodAccount (ConfidentialTransferFeeAmountExt E) st = Inr n"
  shows "withheld_value E D M (cells w (key a)) = D n"
  using assms by (simp add: withheld_value_def owner_of_def data_of_def)

text \<open>Harvesting one account: its withheld ciphertext is taken, an encryption of zero stays.\<close>

lemma harvest_from_account_ct_value:
  assumes "harvest_from_account_ct E M a w = Inr (n, w')" "additive E Z D"
  shows "total_withheld E D M w' + D n = total_withheld E D M w"
    "\<And>b. key b \<noteq> key a \<Longrightarrow> data_of w' b = data_of w b" "owner_of w' b = owner_of w b" "changes_only {key a} w w'"
proof -
  let ?F = "ConfidentialTransferFeeAmountExt E"
  from assms(1) obtain st where u: "unpack PodAccount (data_of w a) = Inr st" and m: "mint (base st) = M"
    and o: "owner_of w a = token_2022_id" and n: "get_extension E PodAccount ?F st = Inr n"
    and w': "w' = store PodAccount a (put_extension PodAccount ?F (zeroed_ciphertext E) st) w"
    by (auto simp: harvest_from_account_ct_def success_simps)
  let ?st = "put_extension PodAccount ?F (zeroed_ciphertext E) st"
  have "live ?st" using u by (simp add: unpack_account_live live_def)
  then have u': "unpack PodAccount (data_of w' a) = Inr ?st" by (simp add: w' frame)
  have g: "get_extension E PodAccount ?F ?st = Inr (zeroed_ciphertext E)"
    by (rule account_confidential_fee.get_put_extension [OF n fee_valid]) simp
  have ow: "owner_of w' a = token_2022_id" by (simp add: w' frame o)
  have "withheld_value E D M (cells w' (key a)) = D (zeroed_ciphertext E)"
    by (rule withheld_value_at [OF ow u' _ g]) (simp add: m)
  then have "withheld_value E D M (cells w' (key a)) = 0" by (simp only: additiveD(1) [OF assms(2)])
  moreover have "withheld_value E D M (cells w (key a)) = D n" by (rule withheld_value_at [OF o u m n])
  moreover have "total_withheld E D M w' = total_withheld E D M w - withheld_value E D M (cells w (key a)) +
      withheld_value E D M (cells w' (key a))" by (rule total_withheld_update) (simp add: w' frame)
  ultimately show "total_withheld E D M w' + D n = total_withheld E D M w" by simp
qed (use assms in \<open>auto simp: harvest_from_account_ct_def success_simps frame changes_only_store\<close>)

lemma harvest_to_mint_ct_value:
  assumes "harvest_to_mint_ct E Z M as (f, w) = Inr (f', w')" "additive E Z D" "ct E (cf_withheld_amount f)"
  shows "D (cf_withheld_amount f') + total_withheld E D M w' = D (cf_withheld_amount f) + total_withheld E D M w \<and>
    f' = f\<lparr>cf_withheld_amount := cf_withheld_amount f'\<rparr> \<and> ct E (cf_withheld_amount f') \<and>
    (\<forall>b. key b = M \<longrightarrow> data_of w' b = data_of w b \<and> owner_of w' b = owner_of w b)"
  using assms(1,3)
proof (induction as arbitrary: f w)
  case (Cons a as)
  have k: "key a \<noteq> M" using Cons.prems(1) by (simp split: if_splits)
  show ?case
  proof (cases "harvest_from_account_ct E M a w")
    case (Inl e)
    with Cons.prems k show ?thesis by (intro Cons.IH) simp_all
  next
    case (Inr r)
    obtain n w1 where r: "r = (n, w1)" by (cases r)
    note v = harvest_from_account_ct_value [OF Inr [unfolded r] assms(2)]
    from Cons.prems(1) Inr k obtain x where x: "ct_add Z (cf_withheld_amount f) n = Some x"
      and h: "harvest_to_mint_ct E Z M as (f\<lparr>cf_withheld_amount := x\<rparr>, w1) = Inr (f', w')"
      by (auto simp: r success_simps)
    note x = additiveD(2) [OF assms(2) x]
    have d: "data_of w1 b = data_of w b \<and> owner_of w1 b = owner_of w b" if "key b = M" for b
      using that k v(2) [of b] v(3) by simp
    from Cons.IH [OF h] x v(1) d show ?thesis by (auto simp: algebra_simps)
  qed
qed simp

section \<open>Harvesting to the mint\<close>

text \<open>The confidential fee configuration of the mint at \<open>m\<close>.\<close>

definition fee_config_at :: "env \<Rightarrow> world \<Rightarrow> account_info \<Rightarrow> pod_mint \<Rightarrow> confidential_transfer_fee_config \<Rightarrow> bool" where
  "fee_config_at E w m b f \<longleftrightarrow> (\<exists>mt. unpack (PodMint E) (data_of w m) = Inr mt \<and> base mt = b \<and>
     get_extension E (PodMint E) (ConfidentialTransferFeeConfigExt E) mt = Inr f)"

lemma get_fee_config:
  "get_extension E (PodMint E) (ConfidentialTransferFeeConfigExt E) mt = Inr f \<Longrightarrow>
   length (withdraw_withheld_authority_elgamal_pubkey f) = elgamal_pubkey_len E \<and> ct E (cf_withheld_amount f)"
  by (auto simp: get_extension_def success_simps ConfidentialTransferFeeConfigExt_def Let_def ct_def slice_of_def)

lemma stored_fee_config:
  assumes "unpack (PodMint E) (data_of w m) = Inr mt" "get_extension E (PodMint E) (ConfidentialTransferFeeConfigExt E) mt = Inr f"
    "length (withdraw_withheld_authority_elgamal_pubkey f') = elgamal_pubkey_len E" "ct E (cf_withheld_amount f')"
    "w' = store (PodMint E) m (put_extension (PodMint E) (ConfidentialTransferFeeConfigExt E) f' mt) w1"
  shows "fee_config_at E w m (base mt) f" "fee_config_at E w' m (base mt) f'"
proof -
  let ?mt = "put_extension (PodMint E) (ConfidentialTransferFeeConfigExt E) f' mt"
  have "unpack (PodMint E) (data_of w' m) = Inr ?mt"
    using assms(1) by (simp add: assms(5) frame unpack_mint_live)
  moreover have "get_extension E (PodMint E) (ConfidentialTransferFeeConfigExt E) ?mt = Inr f'"
    by (rule mint_confidential_fee.get_put_extension [OF assms(2) fee_config_valid [OF assms(3,4)]])
  ultimately show "fee_config_at E w' m (base mt) f'" by (simp add: fee_config_at_def)
  show "fee_config_at E w m (base mt) f" using assms(1,2) by (auto simp: fee_config_at_def)
qed

lemma withheld_value_mint:
  assumes "unpack (PodMint E) (acct_data c) = Inr mt"
  shows "withheld_value E D M c = 0"
  using mint_not_account [OF assms] by (auto simp: withheld_value_def split: sum.splits)

text \<open>C16. Harvesting confidential fees, when the mint allows it: no fee is lost or made up.  What the mint has
  collected and what is withheld on all accounts of the mint have the same total value before and after, and nothing else
  of the mint changes.\<close>

theorem harvest_conserves_fees:
  fixes D :: "bytes \<Rightarrow> 'p::comm_ring_1"
  assumes "process_harvest_withheld_tokens_to_mint_ct E Z (m # as) w = Inr w'" "additive E Z D"
  shows "\<exists>b f f'. fee_config_at E w m b f \<and> fee_config_at E w' m b f' \<and> pod_bool E (harvest_to_mint_enabled f) \<and>
    f' = f\<lparr>cf_withheld_amount := cf_withheld_amount f'\<rparr> \<and>
    D (cf_withheld_amount f') + total_withheld E D (key m) w' = D (cf_withheld_amount f) + total_withheld E D (key m) w"
proof -
  from assms(1) obtain mt f f' w1 where u: "unpack (PodMint E) (data_of w m) = Inr mt"
    and f: "get_extension E (PodMint E) (ConfidentialTransferFeeConfigExt E) mt = Inr f"
    and en: "pod_bool E (harvest_to_mint_enabled f)" and h: "harvest_to_mint_ct E Z (key m) as (f, w) = Inr (f', w1)"
    and w': "w' = store (PodMint E) m (put_extension (PodMint E) (ConfidentialTransferFeeConfigExt E) f' mt) w1"
    by (auto simp: process_harvest_withheld_tokens_to_mint_ct_def success_simps)
  note c = get_fee_config [OF f]
  note v = harvest_to_mint_ct_value [OF h assms(2) conjunct2 [OF c]]
  have "f' = f\<lparr>cf_withheld_amount := cf_withheld_amount f'\<rparr>" using v by blast
  then have "withdraw_withheld_authority_elgamal_pubkey f' = withdraw_withheld_authority_elgamal_pubkey f"
    by (metis confidential_transfer_fee_config.ext_inject confidential_transfer_fee_config.surjective
        confidential_transfer_fee_config.update_convs(4))
  then have l: "length (withdraw_withheld_authority_elgamal_pubkey f') = elgamal_pubkey_len E" "ct E (cf_withheld_amount f')"
    using c v by simp_all
  note s = stored_fee_config [OF u f l w']
  from s(2) obtain mt' where "unpack (PodMint E) (data_of w' m) = Inr mt'" by (auto simp: fee_config_at_def)
  moreover have "unpack (PodMint E) (data_of w1 m) = Inr mt" using u v by simp
  ultimately have "withheld_value E D (key m) (cells w1 (key m)) = 0" "withheld_value E D (key m) (cells w' (key m)) = 0"
    by (simp_all add: withheld_value_mint data_of_def)
  moreover have "total_withheld E D (key m) w' = total_withheld E D (key m) w1 -
      withheld_value E D (key m) (cells w1 (key m)) + withheld_value E D (key m) (cells w' (key m))"
    by (rule total_withheld_update) (simp add: w' frame)
  ultimately have "total_withheld E D (key m) w' = total_withheld E D (key m) w1" by simp
  with s en v show ?thesis by - (rule exI [of _ "base mt"], rule exI [of _ f], rule exI [of _ f'], simp)
qed

section \<open>Withdrawing\<close>

lemma open_fee_mint_Inr:
  assumes "open_fee_mint E p m auth ss w = Inr mt"
  obtains c k where "unpack (PodMint E) (data_of w m) = Inr mt" "get_extension E (PodMint E) TransferFeeConfigExt mt = Inr c"
    "option_of_non_zero (withdraw_withheld_authority c) = Some k" "consents p k auth ss w"
  using assms by (auto simp: open_fee_mint_def success_simps dest: validate_owner_consents)

lemma open_fee_destination_Inr:
  assumes "open_fee_destination E b m w = Inr dst"
  shows "unpack PodAccount (data_of w b) = Inr dst" "moving m (base dst)" "key b \<noteq> key m"
  using assms by (auto simp: open_fee_destination_def moving_def success_simps)

lemma credit_withheld_Inr:
  assumes "credit_withheld Z pr k n d s = Inr s'" "additive E Z D"
  shows "cc_source_pubkey pr = k" "cc_destination_pubkey pr = elgamal_pubkey s" "cc_source_ciphertext pr = n"
    "\<exists>c. ct E c \<and> s' = s\<lparr>available_balance := c, decryptable_available_balance := d\<rparr> \<and>
      D c = D (available_balance s) + D (cc_destination_ciphertext pr)"
  using assms additiveD(2) [OF assms(2)] by (auto simp: credit_withheld_def success_simps)

text \<open>Withdrawing the fees collected in the mint: with the consent of the withdraw authority and a proof that one
  ciphertext, for the key of the destination, has the value of the other, which is what the mint has collected, that
  value becomes available on the destination, and the mint has nothing left.\<close>

theorem withdraw_fees_from_mint_correct:
  fixes D :: "bytes \<Rightarrow> 'p::comm_ring_1"
  assumes "process_withdraw_withheld_tokens_from_mint_ct E Z p (m # b # c # auth # rest) d offset w = Inr w'"
    "additive E Z D" "length d = ae_ciphertext_len E"
  shows "\<exists>mb f f' ba s s' pr k. fee_config_at E w m mb f \<and> fee_config_at E w' m mb f' \<and>
    confidential_at E w b ba s \<and> confidential_at E w' b ba s' \<and> moving m ba \<and> consents p k auth rest w \<and>
    verify_ciphertext_ciphertext_equality_proof E Z c offset w = Inr pr \<and>
    cc_source_pubkey pr = withdraw_withheld_authority_elgamal_pubkey f \<and> cc_destination_pubkey pr = elgamal_pubkey s \<and>
    cc_source_ciphertext pr = cf_withheld_amount f \<and>
    f' = f\<lparr>cf_withheld_amount := zeroed_ciphertext E\<rparr> \<and>
    D (available_balance s') = D (available_balance s) + D (cc_destination_ciphertext pr) \<and>
    pending_value D s' = pending_value D s"
proof -
  from assms(1) obtain pr mt f dst s s1 where v: "verify_ciphertext_ciphertext_equality_proof E Z c offset w = Inr pr"
    and om: "open_fee_mint E p m auth rest w = Inr mt"
    and f: "get_extension E (PodMint E) (ConfidentialTransferFeeConfigExt E) mt = Inr f"
    and ob: "open_fee_destination E b m w = Inr dst"
    and s: "get_extension E PodAccount (ConfidentialTransferAccountExt E) dst = Inr s"
    and cr: "credit_withheld Z pr (withdraw_withheld_authority_elgamal_pubkey f) (cf_withheld_amount f) d s = Inr s1"
    and w': "w' = store PodAccount b (put_extension PodAccount (ConfidentialTransferAccountExt E) s1 dst)
      (store (PodMint E) m (put_extension (PodMint E) (ConfidentialTransferFeeConfigExt E)
        (f\<lparr>cf_withheld_amount := zeroed_ciphertext E\<rparr>) mt) w)"
    by (auto simp: process_withdraw_withheld_tokens_from_mint_ct_def success_simps)
  note dst = open_fee_destination_Inr [OF ob] and k = credit_withheld_Inr [OF cr assms(2)]
  from om obtain k where um: "unpack (PodMint E) (data_of w m) = Inr mt" and con: "consents p k auth rest w"
    by (rule open_fee_mint_Inr)
  from k(4) obtain e where e: "ct E e" "s1 = s\<lparr>available_balance := e, decryptable_available_balance := d\<rparr>"
    "D e = D (available_balance s) + D (cc_destination_ciphertext pr)" by blast
  let ?f = "f\<lparr>cf_withheld_amount := zeroed_ciphertext E\<rparr>"
  let ?w = "store (PodMint E) m (put_extension (PodMint E) (ConfidentialTransferFeeConfigExt E) ?f mt) w"
  have ub: "unpack PodAccount (data_of ?w b) = Inr dst" using dst by (simp add: frame)
  have "ct_account E s1" using get_ct_account [OF s] e assms(3) by (simp add: ct_account_def)
  note B = stored_same_base [OF ub s this w']
  have "confidential_at E w b (base dst) s" by (rule confidential_atI [OF dst(1) s])
  moreover have "length (withdraw_withheld_authority_elgamal_pubkey ?f) = elgamal_pubkey_len E" "ct E (cf_withheld_amount ?f)"
    using get_fee_config [OF f] by simp_all
  note M = stored_fee_config [OF um f this refl]
  have "fee_config_at E w' m (base mt) ?f" using M(2) dst(3) by (simp add: fee_config_at_def w' frame)
  ultimately show ?thesis using M(1) B(2) dst(2) con v k(1-3) e
    by - (rule exI [of _ "base mt"], rule exI [of _ f], rule exI [of _ ?f], rule exI [of _ "base dst"],
      rule exI [of _ s], rule exI [of _ s1], rule exI [of _ pr], rule exI [of _ k], simp add: pending_value_def)
qed

section \<open>Withdrawing from the accounts\<close>

text \<open>What is withheld in a state held in memory.\<close>

definition held_withheld :: "env \<Rightarrow> (bytes \<Rightarrow> 'p::comm_ring_1) \<Rightarrow> pod_account ext_state \<Rightarrow> 'p" where
  "held_withheld E D st =
     (case get_extension E PodAccount (ConfidentialTransferFeeAmountExt E) st of Inl _ \<Rightarrow> 0 | Inr n \<Rightarrow> D n)"

lemma withheld_value_held:
  assumes "owner_of w a = token_2022_id" "unpack PodAccount (data_of w a) = Inr st" "mint (base st) = M"
  shows "withheld_value E D M (cells w (key a)) = held_withheld E D st"
  using assms by (simp add: withheld_value_def held_withheld_def owner_of_def data_of_def)

lemma harvest_from_account_ct_elsewhere:
  assumes "harvest_from_account_ct E M a w = Inr (n, w')" "k \<noteq> key a"
  shows "withheld_value E D M (cells w' k) = withheld_value E D M (cells w k)" "acct_owner (cells w' k) = acct_owner (cells w k)"
  using assms by (auto simp: harvest_from_account_ct_def success_simps frame)

text \<open>The loop collects what is withheld on the accounts it empties, the destination included.\<close>

lemma aggregate_withheld_value:
  assumes "aggregate_withheld E Z M k as (n, dst, w) = Inr (n', dst', w')" "additive E Z D"
  shows "D n' + total_withheld E D M w' + held_withheld E D dst' = D n + total_withheld E D M w + held_withheld E D dst \<and>
    withheld_value E D M (cells w' k) = withheld_value E D M (cells w k) \<and> acct_owner (cells w' k) = acct_owner (cells w k) \<and>
    base dst' = base dst \<and> live dst' = live dst \<and>
    get_extension E PodAccount (ConfidentialTransferAccountExt E) dst' =
      get_extension E PodAccount (ConfidentialTransferAccountExt E) dst"
  using assms(1)
proof (induction as arbitrary: n dst w)
  case (Cons a as)
  let ?F = "ConfidentialTransferFeeAmountExt E"
  show ?case
  proof (cases "key a = k")
    case True
    with Cons.prems obtain h x where h: "get_extension E PodAccount ?F dst = Inr h" and x: "ct_add Z n h = Some x"
      and r: "aggregate_withheld E Z M k as (x, put_extension PodAccount ?F (zeroed_ciphertext E) dst, w) = Inr (n', dst', w')"
      by (auto simp: success_simps)
    let ?dst = "put_extension PodAccount ?F (zeroed_ciphertext E) dst"
    have "get_extension E PodAccount ?F ?dst = Inr (zeroed_ciphertext E)"
      by (rule account_confidential_fee.get_put_extension [OF h fee_valid]) simp
    then have "held_withheld E D ?dst = 0" "held_withheld E D dst = D h"
      using additiveD(1) [OF assms(2)] h by (simp_all add: held_withheld_def)
    moreover have "live ?dst = live dst" by (simp add: live_def)
    ultimately show ?thesis
      using Cons.IH [OF r] additiveD(2) [OF assms(2) x]
      by (simp add: pod_account.get_put_extension_other algebra_simps)
  next
    case k: False
    show ?thesis
    proof (cases "harvest_from_account_ct E M a w")
      case (Inl e)
      with Cons.prems k show ?thesis by (intro Cons.IH) (simp split: if_splits)
    next
      case (Inr r)
      obtain h w1 where r: "r = (h, w1)" by (cases r)
      from Cons.prems Inr k obtain x where x: "ct_add Z n h = Some x"
        and i: "aggregate_withheld E Z M k as (x, dst, w1) = Inr (n', dst', w')"
        by (auto simp: r success_simps split: if_splits)
      show ?thesis
        using Cons.IH [OF i] additiveD(2) [OF assms(2) x] harvest_from_account_ct_value(1) [OF Inr [unfolded r] assms(2)]
          harvest_from_account_ct_elsewhere(1) [OF Inr [unfolded r] k [symmetric], of D]
          harvest_from_account_ct_elsewhere(2) [OF Inr [unfolded r] k [symmetric]]
        by (simp add: algebra_simps)
    qed
  qed
qed simp

lemma process_withdraw_from_accounts_Inr:
  assumes "process_withdraw_withheld_tokens_from_accounts_ct E Z p (m # b # c # auth # rest) k d offset w = Inr w'"
  obtains pr mt f dst dst' total w1 s s1 where
    "verify_ciphertext_ciphertext_equality_proof E Z c offset w = Inr pr"
    "open_fee_mint E p m auth (take (length rest - unat k) rest) w = Inr mt"
    "open_fee_destination E b m w = Inr dst"
    "aggregate_withheld E Z (key m) (key b) (drop (length rest - unat k) rest) (zeroed_ciphertext E, dst, w) =
       Inr (total, dst', w1)"
    "get_extension E PodAccount (ConfidentialTransferAccountExt E) dst' = Inr s"
    "get_extension E (PodMint E) (ConfidentialTransferFeeConfigExt E) mt = Inr f"
    "credit_withheld Z pr (withdraw_withheld_authority_elgamal_pubkey f) total d s = Inr s1"
    "w' = store PodAccount b (put_extension PodAccount (ConfidentialTransferAccountExt E) s1 dst') w1"
  using assms by (auto simp: process_withdraw_withheld_tokens_from_accounts_ct_def success_simps Let_def)


section \<open>On the sample ledger\<close>

lemma fee_config_at_secret:
  "fee_config_at sample_env (secret_ledger True c) \<lparr>key = 9, is_signer = False\<rparr> live_mint (secret_fee_config 2)"
  by (simp add: fee_config_at_def)

lemma unique_fee_config:
  "fee_config_at sample_env (secret_ledger True c) \<lparr>key = 9, is_signer = False\<rparr> b f \<Longrightarrow> b = live_mint \<and> f = secret_fee_config 2"
  by (auto simp: fee_config_at_def)

lemma sample_equality:
  "verify_ciphertext_ciphertext_equality_proof sample_env sample_zk \<lparr>key = 12, is_signer = b\<rparr> 0 (secret_ledger fees (0 # c)) =
     Inr \<lparr>cc_source_pubkey = replicate 32 0, cc_destination_pubkey = replicate 32 0, cc_source_ciphertext = c,
       cc_destination_ciphertext = c\<rparr>"
  by (simp add: verify_ciphertext_ciphertext_equality_proof_def proof_at_context sample_zk_def sample_reader_def Let_def)

text \<open>Keys 7 and 8 have 4 and 6 withheld, key 9 has collected 2, and key 30 is not an account.\<close>

theorem harvest_conserves_fees_witness:
  "\<exists>w' f f'. process_harvest_withheld_tokens_to_mint_ct sample_env sample_zk
     [\<lparr>key = 9, is_signer = False\<rparr>, \<lparr>key = 7, is_signer = False\<rparr>, \<lparr>key = 30, is_signer = False\<rparr>,
      \<lparr>key = 8, is_signer = False\<rparr>] (secret_ledger True []) = Inr w' \<and>
     fee_config_at sample_env w' \<lparr>key = 9, is_signer = False\<rparr> live_mint f' \<and>
     sample_plaintext (cf_withheld_amount f') + total_withheld sample_env sample_plaintext 9 w' =
       2 + total_withheld sample_env sample_plaintext 9 (secret_ledger True [])"
proof -
  have "isOk (process_harvest_withheld_tokens_to_mint_ct sample_env sample_zk
     [\<lparr>key = 9, is_signer = False\<rparr>, \<lparr>key = 7, is_signer = False\<rparr>, \<lparr>key = 30, is_signer = False\<rparr>,
      \<lparr>key = 8, is_signer = False\<rparr>] (secret_ledger True []))"
    by (simp add: process_harvest_withheld_tokens_to_mint_ct_def harvest_from_account_ct_def sample_run frame
        secret_fee_config_def split: sum.splits)
  then obtain w' where t: "process_harvest_withheld_tokens_to_mint_ct sample_env sample_zk
     [\<lparr>key = 9, is_signer = False\<rparr>, \<lparr>key = 7, is_signer = False\<rparr>, \<lparr>key = 30, is_signer = False\<rparr>,
      \<lparr>key = 8, is_signer = False\<rparr>] (secret_ledger True []) = Inr w'" by (auto simp: isOk_iff)
  from harvest_conserves_fees [OF t sample_additive] t show ?thesis
    by (fastforce simp: secret_fee_config_def dest: unique_fee_config)
qed

theorem withdraw_fees_from_mint_correct_witness:
  "\<exists>w' b s' f'. process_withdraw_withheld_tokens_from_mint_ct sample_env sample_zk token_2022_id
     [\<lparr>key = 9, is_signer = False\<rparr>, \<lparr>key = 7, is_signer = False\<rparr>, \<lparr>key = 12, is_signer = False\<rparr>,
      \<lparr>key = 23, is_signer = True\<rparr>] (replicate 36 1) 0 (secret_ledger True (0 # sample_ciphertext 2)) = Inr w' \<and>
     confidential_at sample_env w' \<lparr>key = 7, is_signer = False\<rparr> b s' \<and> sample_plaintext (available_balance s') = 100002 \<and>
     fee_config_at sample_env w' \<lparr>key = 9, is_signer = False\<rparr> live_mint f' \<and> sample_plaintext (cf_withheld_amount f') = 0"
proof -
  have "isOk (process_withdraw_withheld_tokens_from_mint_ct sample_env sample_zk token_2022_id
     [\<lparr>key = 9, is_signer = False\<rparr>, \<lparr>key = 7, is_signer = False\<rparr>, \<lparr>key = 12, is_signer = False\<rparr>,
      \<lparr>key = 23, is_signer = True\<rparr>] (replicate 36 1) 0 (secret_ledger True (0 # sample_ciphertext 2)))"
    by (simp add: process_withdraw_withheld_tokens_from_mint_ct_def sample_equality open_fee_mint_def open_fee_destination_def
        credit_withheld_def sample_run sample_config_def secret_fee_config_def option_of_non_zero_def)
  then obtain w' where t: "process_withdraw_withheld_tokens_from_mint_ct sample_env sample_zk token_2022_id
     [\<lparr>key = 9, is_signer = False\<rparr>, \<lparr>key = 7, is_signer = False\<rparr>, \<lparr>key = 12, is_signer = False\<rparr>,
      \<lparr>key = 23, is_signer = True\<rparr>] (replicate 36 1) 0 (secret_ledger True (0 # sample_ciphertext 2)) = Inr w'" by (auto simp: isOk_iff)
  have l: "length (replicate 36 (1 :: u8)) = ae_ciphertext_len sample_env" by simp
  let ?w = "secret_ledger True (0 # sample_ciphertext 2)"
  from withdraw_fees_from_mint_correct [OF t sample_additive l] obtain mb f f' ba s s' pr where
    f: "fee_config_at sample_env ?w \<lparr>key = 9, is_signer = False\<rparr> mb f" and
    f': "fee_config_at sample_env w' \<lparr>key = 9, is_signer = False\<rparr> mb f'" and
    s: "confidential_at sample_env ?w \<lparr>key = 7, is_signer = False\<rparr> ba s" and
    s': "confidential_at sample_env w' \<lparr>key = 7, is_signer = False\<rparr> ba s'" and
    pr: "verify_ciphertext_ciphertext_equality_proof sample_env sample_zk \<lparr>key = 12, is_signer = False\<rparr> 0 ?w = Inr pr" and
    v: "f' = f\<lparr>cf_withheld_amount := zeroed_ciphertext sample_env\<rparr>"
      "sample_plaintext (available_balance s') =
         sample_plaintext (available_balance s) + sample_plaintext (cc_destination_ciphertext pr)" by blast
  have "mb = live_mint" using unique_fee_config [OF f] by simp
  moreover have "s = secret 100000 0 0" using unique_secret(1) [OF s] by simp
  moreover have "cc_destination_ciphertext pr = sample_ciphertext 2" using pr by (auto simp: sample_equality)
  ultimately have "fee_config_at sample_env w' \<lparr>key = 9, is_signer = False\<rparr> live_mint f'"
    "sample_plaintext (cf_withheld_amount f') = 0" "sample_plaintext (available_balance s') = 100002"
    using f' v by simp_all
  with t s' show ?thesis by blast
qed


end
