(* ===== verification/Confidential_Client.thy ===== *)
theory Confidential_Client
  imports Confidential_Value
begin

text \<open>
  The client side of confidential transfers: \<open>src/programs/src/extension/confidential_transfer/account_info.rs\<close>,
  \<open>extension/confidential_transfer_fee/account_info.rs\<close> and
  \<open>extension/confidential_transfer/split_proof_generation.rs\<close>.  A client reads the extension of its account,
  decrypts what it needs, makes the proofs of an instruction and computes the decryptable balance that the instruction
  will store.  Encryption, decryption and proof generation belong to the SDK; each draw of randomness is an argument.
\<close>

section \<open>The SDK on the client\<close>

text \<open>Keys, ciphertexts, openings and randomness are byte strings; a ciphertext of the SDK is represented by its
  encoding, so that converting bytes to one is a test.  A proof comes with the context that it proves.\<close>

record elgamal_keypair =
  kp_pubkey :: bytes
  kp_secret :: bytes

record 'c proof_data =
  context_data :: 'c
  proof_bytes :: bytes

record client_sdk =
  encodes_ciphertext :: "bytes \<Rightarrow> bool"
  encodes_ae_ciphertext :: "bytes \<Rightarrow> bool"
  default_pubkey :: bytes
  decrypt_u32 :: "bytes \<Rightarrow> bytes \<Rightarrow> u64 option"
  ae_decrypt :: "bytes \<Rightarrow> bytes \<Rightarrow> u64 option"
  ae_encrypt :: "bytes \<Rightarrow> u64 \<Rightarrow> bytes \<Rightarrow> bytes"
  new_opening :: "bytes \<Rightarrow> bytes"
  encrypt_with :: "bytes \<Rightarrow> u64 \<Rightarrow> bytes \<Rightarrow> bytes"
  pedersen_new :: "u64 \<Rightarrow> bytes \<Rightarrow> bytes \<times> bytes"
  decrypt_handle :: "bytes \<Rightarrow> bytes \<Rightarrow> bytes"
  transfer_amount_ciphertext_new :: "u64 \<Rightarrow> bytes \<Rightarrow> bytes \<Rightarrow> bytes \<Rightarrow> bytes \<Rightarrow> bytes \<times> bytes"
  grouped_encrypt_with :: "bytes list \<Rightarrow> u64 \<Rightarrow> bytes \<Rightarrow> bytes"
  zero_balance_data_new :: "elgamal_keypair \<Rightarrow> bytes \<Rightarrow> bytes \<Rightarrow> zero_balance_context proof_data option"
  withdraw_data_new :: "u64 \<Rightarrow> elgamal_keypair \<Rightarrow> u64 \<Rightarrow> bytes \<Rightarrow> bytes \<Rightarrow> withdraw_context proof_data option"
  transfer_data_new :: "u64 \<Rightarrow> u64 \<times> bytes \<Rightarrow> elgamal_keypair \<Rightarrow> bytes \<times> bytes \<Rightarrow> bytes \<Rightarrow>
    transfer_proof_context_info proof_data option"
  transfer_with_fee_data_new :: "u64 \<Rightarrow> u64 \<times> bytes \<Rightarrow> elgamal_keypair \<Rightarrow> bytes \<times> bytes \<Rightarrow> fee_parameters \<Rightarrow> bytes \<Rightarrow>
    bytes \<Rightarrow> (transfer_with_fee_proof_context_info \<times> fee_parameters) proof_data option"
  equality_data_new :: "elgamal_keypair \<Rightarrow> bytes \<Rightarrow> bytes \<Rightarrow> bytes \<Rightarrow> u64 \<Rightarrow> bytes \<Rightarrow> equality_context proof_data option"
  validity_data_new :: "bytes \<Rightarrow> bytes \<Rightarrow> bytes \<Rightarrow> bytes \<Rightarrow> u64 \<Rightarrow> u64 \<Rightarrow> bytes \<Rightarrow> bytes \<Rightarrow> bytes \<Rightarrow>
    validity_context proof_data option"
  range_data_new :: "bytes list \<Rightarrow> u64 list \<Rightarrow> nat list \<Rightarrow> bytes list \<Rightarrow> bytes \<Rightarrow> range_context proof_data option"
  ciphertexts_equality_data_new :: "elgamal_keypair \<Rightarrow> bytes \<Rightarrow> bytes \<Rightarrow> bytes \<Rightarrow> bytes \<Rightarrow> u64 \<Rightarrow> bytes \<Rightarrow>
    ciphertexts_equality_context proof_data option"

text \<open>\<open>try_into().map_err(|_| TokenError::MalformedCiphertext)\<close>, for both kinds of ciphertext.\<close>

definition parse_ciphertext :: "client_sdk \<Rightarrow> bytes \<Rightarrow> bytes result" where
  "parse_ciphertext S b = (if encodes_ciphertext S b then Inr b else Inl (Token MalformedCiphertext))"

definition parse_ae_ciphertext :: "client_sdk \<Rightarrow> bytes \<Rightarrow> bytes result" where
  "parse_ae_ciphertext S b = (if encodes_ae_ciphertext S b then Inr b else Inl (Token MalformedCiphertext))"

definition decrypted_pending_balance :: "client_sdk \<Rightarrow> bytes \<Rightarrow> bytes \<Rightarrow> u64 result" where
  "decrypted_pending_balance S secret_key b =
     bindE (parse_ciphertext S b) (\<lambda>c. ok_or (Token AccountDecryption) (decrypt_u32 S secret_key c))"

definition decrypted_available_balance :: "client_sdk \<Rightarrow> bytes \<Rightarrow> bytes \<Rightarrow> u64 result" where
  "decrypted_available_balance S aes_key b =
     bindE (parse_ae_ciphertext S b) (\<lambda>c. ok_or (Token AccountDecryption) (ae_decrypt S aes_key c))"

section \<open>Emptying an account\<close>

record empty_account_account_info =
  ea_available_balance :: bytes

definition empty_account_info :: "confidential_transfer_account \<Rightarrow> empty_account_account_info" where
  "empty_account_info s = \<lparr>ea_available_balance = available_balance s\<rparr>"

definition generate_zero_balance_proof ::
    "client_sdk \<Rightarrow> empty_account_account_info \<Rightarrow> elgamal_keypair \<Rightarrow> bytes \<Rightarrow> zero_balance_context proof_data result" where
  "generate_zero_balance_proof S i kp r =
     bindE (parse_ciphertext S (ea_available_balance i)) (\<lambda>c.
       ok_or (Token ProofGeneration) (zero_balance_data_new S kp c r))"

section \<open>Applying the pending balance\<close>

record apply_pending_balance_account_info =
  ap_pending_balance_credit_counter :: u64
  ap_pending_balance_lo :: bytes
  ap_pending_balance_hi :: bytes
  ap_decryptable_available_balance :: bytes

definition apply_pending_balance_info :: "confidential_transfer_account \<Rightarrow> apply_pending_balance_account_info" where
  "apply_pending_balance_info s =
     \<lparr>ap_pending_balance_credit_counter = pending_balance_credit_counter s, ap_pending_balance_lo = pending_balance_lo s,
      ap_pending_balance_hi = pending_balance_hi s, ap_decryptable_available_balance = decryptable_available_balance s\<rparr>"

definition decrypted_pending_balance_lo where
  "decrypted_pending_balance_lo S i secret_key = decrypted_pending_balance S secret_key (ap_pending_balance_lo i)"

definition decrypted_pending_balance_hi where
  "decrypted_pending_balance_hi S i secret_key = decrypted_pending_balance S secret_key (ap_pending_balance_hi i)"

text \<open>\<open>u64::checked_shl\<close> refuses a shift by the width or more; it does not refuse to drop bits.\<close>

definition checked_shl :: "u64 \<Rightarrow> nat \<Rightarrow> u64 option" where
  "checked_shl x n = (if n < 64 then Some (push_bit n x) else None)"

definition PENDING_BALANCE_LO_BIT_LENGTH :: nat where
  "PENDING_BALANCE_LO_BIT_LENGTH = 16"

definition combine_balances :: "u64 \<Rightarrow> u64 \<Rightarrow> u64 option" where
  "combine_balances balance_lo balance_hi =
     Option.bind (checked_shl balance_hi PENDING_BALANCE_LO_BIT_LENGTH) (\<lambda>h. checked_add h balance_lo)"

definition applied_decryptable_balance ::
    "client_sdk \<Rightarrow> apply_pending_balance_account_info \<Rightarrow> bytes \<Rightarrow> bytes \<Rightarrow> bytes \<Rightarrow> bytes result" where
  "applied_decryptable_balance S i secret_key aes_key r =
     bindE (decrypted_pending_balance_lo S i secret_key) (\<lambda>lo.
     bindE (decrypted_pending_balance_hi S i secret_key) (\<lambda>hi.
     bindE (ok_or (Token AccountDecryption) (combine_balances lo hi)) (\<lambda>pending.
     bindE (decrypted_available_balance S aes_key (ap_decryptable_available_balance i)) (\<lambda>current.
     bindE (ok_or Panic (checked_add current pending)) (\<lambda>new.
       Inr (ae_encrypt S aes_key new r))))))"

section \<open>Withdrawing\<close>

record withdraw_account_info =
  wa_available_balance :: bytes
  wa_decryptable_available_balance :: bytes

definition withdraw_info :: "confidential_transfer_account \<Rightarrow> withdraw_account_info" where
  "withdraw_info s = \<lparr>wa_available_balance = available_balance s,
     wa_decryptable_available_balance = decryptable_available_balance s\<rparr>"

definition generate_withdraw_proof ::
    "client_sdk \<Rightarrow> withdraw_account_info \<Rightarrow> u64 \<Rightarrow> elgamal_keypair \<Rightarrow> bytes \<Rightarrow> bytes \<Rightarrow> withdraw_context proof_data result" where
  "generate_withdraw_proof S i withdraw_amount kp aes_key r =
     bindE (parse_ciphertext S (wa_available_balance i)) (\<lambda>c.
     bindE (decrypted_available_balance S aes_key (wa_decryptable_available_balance i)) (\<lambda>current.
       ok_or (Token ProofGeneration) (withdraw_data_new S withdraw_amount kp current c r)))"

definition withdrawn_decryptable_balance :: "client_sdk \<Rightarrow> withdraw_account_info \<Rightarrow> u64 \<Rightarrow> bytes \<Rightarrow> bytes \<Rightarrow> bytes result" where
  "withdrawn_decryptable_balance S i withdraw_amount aes_key r =
     bindE (decrypted_available_balance S aes_key (wa_decryptable_available_balance i)) (\<lambda>current.
     bindE (ok_or (Token InsufficientFunds) (checked_sub current withdraw_amount)) (\<lambda>new.
       Inr (ae_encrypt S aes_key new r)))"

section \<open>Transferring\<close>

record transfer_account_info =
  ta_available_balance :: bytes
  ta_decryptable_available_balance :: bytes

definition transfer_info :: "confidential_transfer_account \<Rightarrow> transfer_account_info" where
  "transfer_info s = \<lparr>ta_available_balance = available_balance s,
     ta_decryptable_available_balance = decryptable_available_balance s\<rparr>"

definition auditor_or_default :: "client_sdk \<Rightarrow> bytes option \<Rightarrow> bytes" where
  "auditor_or_default S auditor = (case auditor of None \<Rightarrow> default_pubkey S | Some k \<Rightarrow> k)"

definition generate_transfer_proof_data ::
    "client_sdk \<Rightarrow> transfer_account_info \<Rightarrow> u64 \<Rightarrow> elgamal_keypair \<Rightarrow> bytes \<Rightarrow> bytes \<Rightarrow> bytes option \<Rightarrow> bytes \<Rightarrow>
     transfer_proof_context_info proof_data result" where
  "generate_transfer_proof_data S i transfer_amount kp aes_key destination_pubkey auditor r =
     bindE (parse_ciphertext S (ta_available_balance i)) (\<lambda>c.
     bindE (decrypted_available_balance S aes_key (ta_decryptable_available_balance i)) (\<lambda>current.
       ok_or (Token ProofGeneration)
         (transfer_data_new S transfer_amount (current, c) kp (destination_pubkey, auditor_or_default S auditor) r)))"

definition generate_transfer_with_fee_proof_data ::
    "client_sdk \<Rightarrow> transfer_account_info \<Rightarrow> u64 \<Rightarrow> elgamal_keypair \<Rightarrow> bytes \<Rightarrow> bytes \<Rightarrow> bytes option \<Rightarrow> bytes \<Rightarrow> u16 \<Rightarrow> u64 \<Rightarrow>
     bytes \<Rightarrow> (transfer_with_fee_proof_context_info \<times> fee_parameters) proof_data result" where
  "generate_transfer_with_fee_proof_data S i transfer_amount kp aes_key destination_pubkey auditor
       withdraw_withheld_authority_pubkey rate fee_cap r =
     bindE (parse_ciphertext S (ta_available_balance i)) (\<lambda>c.
     bindE (decrypted_available_balance S aes_key (ta_decryptable_available_balance i)) (\<lambda>current.
       ok_or (Token ProofGeneration)
         (transfer_with_fee_data_new S transfer_amount (current, c) kp (destination_pubkey, auditor_or_default S auditor)
            \<lparr>fee_rate_basis_points = rate, fp_maximum_fee = fee_cap\<rparr> withdraw_withheld_authority_pubkey r)))"

definition transferred_decryptable_balance :: "client_sdk \<Rightarrow> transfer_account_info \<Rightarrow> u64 \<Rightarrow> bytes \<Rightarrow> bytes \<Rightarrow> bytes result" where
  "transferred_decryptable_balance S i transfer_amount aes_key r =
     bindE (decrypted_available_balance S aes_key (ta_decryptable_available_balance i)) (\<lambda>current.
     bindE (ok_or (Token InsufficientFunds) (checked_sub current transfer_amount)) (\<lambda>new.
       Inr (ae_encrypt S aes_key new r)))"

text \<open>The split proofs of a transfer; \<open>r 0\<close>, \<open>r 1\<close>, \<dots> is the randomness of one call of the SDK after another.\<close>

definition transfer_split_proof_data ::
    "zk \<Rightarrow> client_sdk \<Rightarrow> bytes \<Rightarrow> bytes \<Rightarrow> u64 \<Rightarrow> elgamal_keypair \<Rightarrow> bytes \<Rightarrow> bytes \<Rightarrow> bytes option \<Rightarrow> (nat \<Rightarrow> bytes) \<Rightarrow>
     (equality_context proof_data \<times> validity_context proof_data \<times> range_context proof_data \<times> source_decrypt_handles) result" where
  "transfer_split_proof_data Z S current_available current_decryptable transfer_amount kp aes_key destination_pubkey auditor r =
     (let auditor_pubkey = auditor_or_default S auditor; failed = Token ProofGeneration in
      bindE (verify_and_split_deposit_amount transfer_amount) (\<lambda>(lo, hi).
      let (grouped_lo, opening_lo) =
            transfer_amount_ciphertext_new S lo (kp_pubkey kp) destination_pubkey auditor_pubkey (r 0);
          (grouped_hi, opening_hi) =
            transfer_amount_ciphertext_new S hi (kp_pubkey kp) destination_pubkey auditor_pubkey (r 1) in
      bindE (ok_or (Token AccountDecryption) (ae_decrypt S aes_key current_decryptable)) (\<lambda>current.
      bindE (ok_or (Token InsufficientFunds) (checked_sub current transfer_amount)) (\<lambda>new.
      let (new_commitment, new_opening) = pedersen_new S new (r 2) in
      bindE (ok_or (Token CiphertextArithmeticFailed)
        (ct_subtract_with_lo_hi Z current_available (transfer_amount_source_ciphertext grouped_lo)
           (transfer_amount_source_ciphertext grouped_hi))) (\<lambda>new_available.
      bindE (parse_ciphertext S new_available) (\<lambda>new_available.
      bindE (ok_or failed (equality_data_new S kp new_available new_commitment new_opening new (r 3))) (\<lambda>equality.
      let handles = \<lparr>handle_lo = decrypt_handle S (kp_pubkey kp) opening_lo,
                     handle_hi = decrypt_handle S (kp_pubkey kp) opening_hi\<rparr> in
      bindE (ok_or failed (validity_data_new S destination_pubkey auditor_pubkey
        (grouped_encrypt_with S [destination_pubkey, auditor_pubkey] lo opening_lo)
        (grouped_encrypt_with S [destination_pubkey, auditor_pubkey] hi opening_hi)
        lo hi opening_lo opening_hi (r 4))) (\<lambda>validity.
      let (padding_commitment, padding_opening) = pedersen_new S 0 (r 5) in
      bindE (ok_or failed (range_data_new S
        [new_commitment, take 32 grouped_lo, take 32 grouped_hi, padding_commitment]
        [new, lo, hi, 0] [64, 16, 32, 16]
        [new_opening, opening_lo, opening_hi, padding_opening] (r 6))) (\<lambda>rng.
        Inr (equality, validity, rng, handles))))))))))"

definition generate_split_transfer_proof_data where
  "generate_split_transfer_proof_data Z S i transfer_amount kp aes_key destination_pubkey auditor r =
     bindE (parse_ciphertext S (ta_available_balance i)) (\<lambda>c.
     bindE (parse_ae_ciphertext S (ta_decryptable_available_balance i)) (\<lambda>dec.
       transfer_split_proof_data Z S c dec transfer_amount kp aes_key destination_pubkey auditor r))"

section \<open>Withdrawing fees\<close>

record withheld_tokens_info =
  wt_withheld_amount :: bytes

definition withheld_info :: "bytes \<Rightarrow> withheld_tokens_info" where
  "withheld_info c = \<lparr>wt_withheld_amount = c\<rparr>"

text \<open>Here bytes that are no ciphertext are reported as a failed decryption.\<close>

definition generate_withheld_proof ::
    "client_sdk \<Rightarrow> withheld_tokens_info \<Rightarrow> elgamal_keypair \<Rightarrow> bytes \<Rightarrow> (nat \<Rightarrow> bytes) \<Rightarrow>
     ciphertexts_equality_context proof_data result" where
  "generate_withheld_proof S i authority_kp destination_pubkey r =
     bindE (if encodes_ciphertext S (wt_withheld_amount i) then Inr (wt_withheld_amount i)
            else Inl (Token AccountDecryption)) (\<lambda>c.
     bindE (ok_or (Token AccountDecryption) (decrypt_u32 S (kp_secret authority_kp) c)) (\<lambda>v.
     let destination_opening = new_opening S (r 0);
         destination_ciphertext = encrypt_with S destination_pubkey v destination_opening in
       ok_or (Token ProofGeneration)
         (ciphertexts_equality_data_new S authority_kp destination_pubkey c destination_ciphertext destination_opening v (r 1))))"

end
