(* ===== verification/Confidential_Proofs.thy ===== *)
theory Confidential_Proofs
  imports Confidential_Sample
begin

text \<open>
  Split proofs belong together: what \<open>verify_and_extract\<close> of \<open>ciphertext_extraction.rs\<close> has checked
  when it accepts, in terms of the points of the curve.
\<close>

section \<open>Points\<close>

text \<open>The contract of the curve arithmetic: \<open>V\<close> is a homomorphism from the group of points, such as the value of a
  commitment for a fixed blinding.\<close>

definition point_homomorphism :: "zk \<Rightarrow> (bytes \<Rightarrow> 'p::comm_ring_1) \<Rightarrow> bool" where
  "point_homomorphism Z V \<longleftrightarrow>
     (\<forall>n a c. multiply_ristretto Z (u64_to_scalar n) a = Some c \<longrightarrow> V c = of_nat (unat n) * V a) \<and>
     (\<forall>n a c. multiply_ristretto Z (u16_to_scalar n) a = Some c \<longrightarrow> V c = of_nat (unat n) * V a) \<and>
     (\<forall>a b c. add_ristretto Z a b = Some c \<longrightarrow> V c = V a + V b) \<and>
     (\<forall>a b c. subtract_ristretto Z a b = Some c \<longrightarrow> V c = V a - V b)"

lemma point_homomorphismD:
  assumes "point_homomorphism Z V"
  shows "multiply_ristretto Z (u64_to_scalar n) a = Some c \<Longrightarrow> V c = of_nat (unat n) * V a"
    "multiply_ristretto Z (u16_to_scalar m) a = Some c \<Longrightarrow> V c = of_nat (unat m) * V a"
    "add_ristretto Z a b = Some c \<Longrightarrow> V c = V a + V b"
    "subtract_ristretto Z a b = Some c \<Longrightarrow> V c = V a - V b"
  using assms unfolding point_homomorphism_def by blast+

lemma combine_lo_hi_value:
  assumes "combine_lo_hi_pedersen_points Z lo hi = Some c" "point_homomorphism Z V"
  shows "V c = V lo + 65536 * V hi"
  using assms(1) point_homomorphismD(1,3) [OF assms(2)]
  by (auto simp: combine_lo_hi_pedersen_points_def bind_eq_Some_conv)

lemma verify_delta_commitment_Inr:
  assumes "verify_delta_commitment Z lo hi fee delta bps = Inr ()" "point_homomorphism Z V"
  shows "V delta = 10000 * V fee - of_nat (unat bps) * (V lo + 65536 * V hi)"
proof -
  from assms(1) obtain a b c where a: "combine_lo_hi_pedersen_points Z lo hi = Some a"
    and b: "multiply_ristretto Z (u16_to_scalar bps) a = Some b" and c: "multiply_ristretto Z (u64_to_scalar 10000) fee = Some c"
    and d: "subtract_ristretto Z c b = Some delta"
    by (auto simp: verify_delta_commitment_def Let_def success_simps)
  note h = point_homomorphismD [OF assms(2)]
  show ?thesis
    using h(4) [OF d] h(2) [OF b] h(1) [OF c] combine_lo_hi_value [OF a assms(2)] by simp
qed

section \<open>Range proofs\<close>

lemma zip_all_equal_take: "length ys \<le> length xs \<Longrightarrow> zip_all_equal xs ys \<longleftrightarrow> take (length ys) xs = ys"
proof (induction ys arbitrary: xs)
  case (Cons y ys)
  then obtain x zs where "xs = x # zs" by (cases xs) auto
  with Cons show ?case by (simp add: zip_all_equal_def)
qed (simp add: zip_all_equal_def)

lemma check_range_proof_Inr:
  assumes "check_range_proof rp cs ls = Inr ()" "length cs = k" "k \<le> length (range_commitments rp)"
    "length ls = n" "n \<le> length (range_bit_lengths rp)"
  shows "take k (range_commitments rp) = cs" "take n (range_bit_lengths rp) = ls"
  using assms by (auto simp: check_range_proof_def zip_all_equal_take split: if_splits)

section \<open>Parts of the accepted ciphertexts\<close>

text \<open>Rearranged for the layout with three handles, a ciphertext keeps its commitment, the handle given for the source, and
  the handle of the destination.\<close>

lemma transfer_amount_parts:
  assumes "length h = 32" "96 \<le> length g"
  shows "transfer_amount_source_ciphertext (transfer_amount_encryption_from_decrypt_handle h g) = take 32 g @ h"
    "transfer_amount_destination_ciphertext (transfer_amount_encryption_from_decrypt_handle h g) = take 64 g"
proof -
  have 64: "take 64 g = take 32 g @ slice_of g 32 64" using take_add [of 32 32 g] by (simp add: slice_of_def)
  have s: "slice_of (h @ slice_of g 32 96) 0 32 = h" "slice_of (h @ slice_of g 32 96) 32 64 = slice_of g 32 64"
    using assms by (simp_all add: slice_of_def)
  have d: "slice_of (take 32 g @ x) 32 64 = slice_of x 0 32" "slice_of (take 32 g @ x) 64 96 = slice_of x 32 64" for x
    using assms by (simp_all add: slice_of_def)
  show "transfer_amount_source_ciphertext (transfer_amount_encryption_from_decrypt_handle h g) = take 32 g @ h"
    "transfer_amount_destination_ciphertext (transfer_amount_encryption_from_decrypt_handle h g) = take 64 g"
    using assms s d [of "h @ slice_of g 32 96"]
    by (simp_all add: transfer_amount_source_ciphertext_def transfer_amount_destination_ciphertext_def
        transfer_amount_encryption_from_decrypt_handle_def 64)
qed

section \<open>Without a fee\<close>

lemma split_proofs_accepted:
  assumes "verify_and_extract_transfer eq gv rp handles = Inr c" "3 \<le> length (range_commitments rp)"
    "4 \<le> length (range_bit_lengths rp)"
  shows "take 3 (range_commitments rp) = [eq_commitment eq, take 32 (grouped_ciphertext_lo gv), take 32 (grouped_ciphertext_hi gv)]"
    "take 4 (range_bit_lengths rp) = [64, 16, 32, 16]"
    "new_source_ciphertext c = eq_ciphertext eq" "tp_source (transfer_pubkeys c) = eq_pubkey eq"
    "tp_destination (transfer_pubkeys c) = gv_destination_pubkey gv" "tp_auditor (transfer_pubkeys c) = gv_auditor_pubkey gv"
proof -
  from assms(1) have r: "check_range_proof rp [eq_commitment eq, take 32 (grouped_ciphertext_lo gv), take 32 (grouped_ciphertext_hi gv)]
      [64, 16, 32, 16] = Inr ()"
    by (auto simp: verify_and_extract_transfer_def success_simps extract_commitment_from_grouped_ciphertext_def)
  show "take 3 (range_commitments rp) = [eq_commitment eq, take 32 (grouped_ciphertext_lo gv), take 32 (grouped_ciphertext_hi gv)]"
    "take 4 (range_bit_lengths rp) = [64, 16, 32, 16]"
    by (rule check_range_proof_Inr [OF r _ assms(2) _ assms(3)]; simp)+
qed (use assms(1) in \<open>auto simp: verify_and_extract_transfer_def success_simps\<close>)

section \<open>With a fee\<close>

lemma split_fee_proofs_Inr:
  assumes "verify_and_extract_transfer_with_fee Z eq gv fs fee_gv rp handles params = Inr c"
  obtains G complement where "maximum_fee params = max_fee fs" "gv_destination_pubkey gv = gv_destination_pubkey fee_gv"
    "multiply_ristretto Z (u64_to_scalar 10000) ristretto_generator = Some G"
    "subtract_ristretto Z G (claimed_commitment fs) = Some complement"
    "check_range_proof rp [eq_commitment eq, take 32 (grouped_ciphertext_lo gv), take 32 (grouped_ciphertext_hi gv),
       claimed_commitment fs, complement, take 32 (grouped_ciphertext_lo fee_gv), take 32 (grouped_ciphertext_hi fee_gv)]
       [64, 16, 32, 48, 48, 16, 32] = Inr ()"
    "combine_lo_hi_pedersen_points Z (take 32 (grouped_ciphertext_lo fee_gv)) (take 32 (grouped_ciphertext_hi fee_gv)) =
       Some (fee_commitment fs)"
    "verify_delta_commitment Z (take 32 (grouped_ciphertext_lo gv)) (take 32 (grouped_ciphertext_hi gv)) (fee_commitment fs)
       (delta_commitment fs) (transfer_fee_basis_points params) = Inr ()"
    "c = \<lparr>wf_ciphertext_lo = transfer_amount_encryption_from_decrypt_handle (handle_lo handles) (grouped_ciphertext_lo gv),
       wf_ciphertext_hi = transfer_amount_encryption_from_decrypt_handle (handle_hi handles) (grouped_ciphertext_hi gv),
       transfer_with_fee_pubkeys = \<lparr>tp_source = eq_pubkey eq, tp_destination = gv_destination_pubkey gv,
         tp_auditor = gv_auditor_pubkey gv, tp_withdraw_withheld_authority = gv_auditor_pubkey fee_gv\<rparr>,
       wf_new_source_ciphertext = eq_ciphertext eq,
       fee_ciphertext_lo = grouped_ciphertext_lo fee_gv, fee_ciphertext_hi = grouped_ciphertext_hi fee_gv\<rparr>"
  using assms
  by (auto simp: verify_and_extract_transfer_with_fee_def Let_def success_simps extract_commitment_from_grouped_ciphertext_def)

text \<open>C14. The split proofs of a transfer with a fee are accepted only if they speak of the same commitments and of
  the fee parameters of the mint: the parts of the fee add up to the fee of the sigma proof, its delta is the fee scaled by
  10000 less the amount scaled by the rate, the claimed delta and its complement to 10000 are both in the range proof next
  to the amount, the fee and the new balance, and what comes out has the keys and the balance that were proved.\<close>

theorem split_fee_proofs_consistent:
  fixes V :: "bytes \<Rightarrow> 'p::comm_ring_1"
  assumes "verify_and_extract_transfer_with_fee Z eq gv fs fee_gv rp handles params = Inr c" "point_homomorphism Z V"
    "7 \<le> length (range_commitments rp)" "7 \<le> length (range_bit_lengths rp)"
  shows "let lo = take 32 (grouped_ciphertext_lo gv); hi = take 32 (grouped_ciphertext_hi gv);
      fee_lo = take 32 (grouped_ciphertext_lo fee_gv); fee_hi = take 32 (grouped_ciphertext_hi fee_gv)
    in \<exists>complement. V (fee_commitment fs) = V fee_lo + 65536 * V fee_hi \<and>
    V (delta_commitment fs) =
      10000 * V (fee_commitment fs) - of_nat (unat (transfer_fee_basis_points params)) * (V lo + 65536 * V hi) \<and>
    V complement = 10000 * V ristretto_generator - V (claimed_commitment fs) \<and>
    take 7 (range_commitments rp) = [eq_commitment eq, lo, hi, claimed_commitment fs, complement, fee_lo, fee_hi] \<and>
    take 7 (range_bit_lengths rp) = [64, 16, 32, 48, 48, 16, 32] \<and>
    max_fee fs = maximum_fee params \<and> gv_destination_pubkey fee_gv = gv_destination_pubkey gv \<and>
    wf_new_source_ciphertext c = eq_ciphertext eq \<and>
    transfer_with_fee_pubkeys c = \<lparr>tp_source = eq_pubkey eq, tp_destination = gv_destination_pubkey gv,
      tp_auditor = gv_auditor_pubkey gv, tp_withdraw_withheld_authority = gv_auditor_pubkey fee_gv\<rparr>"
proof -
  let ?lo = "take 32 (grouped_ciphertext_lo gv)" and ?hi = "take 32 (grouped_ciphertext_hi gv)"
  let ?fee_lo = "take 32 (grouped_ciphertext_lo fee_gv)" and ?fee_hi = "take 32 (grouped_ciphertext_hi fee_gv)"
  from assms(1) obtain G complement where m: "maximum_fee params = max_fee fs" "gv_destination_pubkey gv = gv_destination_pubkey fee_gv"
    and G: "multiply_ristretto Z (u64_to_scalar 10000) ristretto_generator = Some G"
    and x: "subtract_ristretto Z G (claimed_commitment fs) = Some complement"
    and r: "check_range_proof rp [eq_commitment eq, ?lo, ?hi, claimed_commitment fs, complement, ?fee_lo, ?fee_hi]
       [64, 16, 32, 48, 48, 16, 32] = Inr ()"
    and f: "combine_lo_hi_pedersen_points Z ?fee_lo ?fee_hi = Some (fee_commitment fs)"
    and d: "verify_delta_commitment Z ?lo ?hi (fee_commitment fs) (delta_commitment fs) (transfer_fee_basis_points params) = Inr ()"
    and c: "wf_new_source_ciphertext c = eq_ciphertext eq"
      "transfer_with_fee_pubkeys c = \<lparr>tp_source = eq_pubkey eq, tp_destination = gv_destination_pubkey gv,
         tp_auditor = gv_auditor_pubkey gv, tp_withdraw_withheld_authority = gv_auditor_pubkey fee_gv\<rparr>"
    by (rule split_fee_proofs_Inr) simp
  note h = point_homomorphismD [OF assms(2)]
  have "V complement = 10000 * V ristretto_generator - V (claimed_commitment fs)"
    using h(4) [OF x] h(1) [OF G] by simp
  moreover have "take 7 (range_commitments rp) = [eq_commitment eq, ?lo, ?hi, claimed_commitment fs, complement, ?fee_lo, ?fee_hi]"
    "take 7 (range_bit_lengths rp) = [64, 16, 32, 48, 48, 16, 32]"
    by (rule check_range_proof_Inr [OF r _ assms(3) _ assms(4)]; simp)+
  moreover note combine_lo_hi_value [OF f assms(2)] verify_delta_commitment_Inr [OF d assms(2)]
  ultimately show ?thesis using m c by (simp only: Let_def) (rule exI [of _ complement], simp)
qed

text \<open>On the points of \<open>sample_zk\<close>: an amount of 1000 at a rate of 200 basis points is charged 20.\<close>

definition sample_point :: "u64 \<Rightarrow> bytes" where
  "sample_point n = word_le n @ replicate 24 0"

lemma sample_point_simps [simp]:
  "length (sample_point n) = 32" "sample_plaintext (sample_point n) = n" "take 32 (sample_point n @ r) = sample_point n"
  by (simp_all add: sample_point_def sample_plaintext_def)

lemma u64_to_scalar_point: "u64_to_scalar n = sample_point n"
  by (simp add: u64_to_scalar_def sample_point_def)

lemma le_nat_zeros: "le_nat (bs @ replicate k 0) = le_nat bs"
  by (induction bs) (simp_all, induction k, simp_all)

lemma sample_plaintext_u16 [simp]: "sample_plaintext (u16_to_scalar n) = of_nat (unat n)"
proof -
  have "le_nat (word_le n) = unat n" using unsigned_less [of n, where ?'a = nat] by (simp add: word_le_def le_nat_nat_le)
  moreover have "take 8 (u16_to_scalar n) = word_le n @ replicate 6 0" by (simp add: u16_to_scalar_def)
  ultimately show ?thesis by (simp add: sample_plaintext_def le_word_def le_nat_zeros)
qed

lemma sample_points [simp]:
  "multiply_ristretto sample_zk a b = Some (sample_point (sample_plaintext a * sample_plaintext b))"
  "add_ristretto sample_zk a b = Some (sample_point (sample_plaintext a + sample_plaintext b))"
  "subtract_ristretto sample_zk a b = Some (sample_point (sample_plaintext a - sample_plaintext b))"
  by (simp_all add: sample_zk_def Let_def sample_point_def)

lemma sample_homomorphism [simp]: "point_homomorphism sample_zk sample_plaintext"
  by (simp add: point_homomorphism_def u64_to_scalar_point)

theorem split_fee_proofs_consistent_witness:
  "\<exists>c. verify_and_extract_transfer_with_fee sample_zk
      \<lparr>eq_pubkey = replicate 32 1, eq_ciphertext = sample_ciphertext 7, eq_commitment = sample_point 7\<rparr>
      \<lparr>gv_destination_pubkey = replicate 32 2, gv_auditor_pubkey = replicate 32 3,
        grouped_ciphertext_lo = sample_point 1000 @ replicate 64 0, grouped_ciphertext_hi = sample_point 0 @ replicate 64 0\<rparr>
      \<lparr>fee_commitment = sample_point 20, delta_commitment = sample_point 0, claimed_commitment = sample_point 0, max_fee = 500\<rparr>
      \<lparr>gv_destination_pubkey = replicate 32 2, gv_auditor_pubkey = replicate 32 4,
        grouped_ciphertext_lo = sample_point 20 @ replicate 64 0, grouped_ciphertext_hi = sample_point 0 @ replicate 64 0\<rparr>
      \<lparr>range_commitments = [sample_point 7, sample_point 1000, sample_point 0, sample_point 0,
         sample_point (10000 * sample_plaintext ristretto_generator), sample_point 20, sample_point 0, replicate 32 0],
       range_bit_lengths = [64, 16, 32, 48, 48, 16, 32, 0]\<rparr>
      \<lparr>handle_lo = replicate 32 5, handle_hi = replicate 32 6\<rparr>
      \<lparr>fee_epoch = 0, maximum_fee = 500, transfer_fee_basis_points = 200\<rparr> = Inr c \<and>
    wf_new_source_ciphertext c = sample_ciphertext 7 \<and>
    tp_withdraw_withheld_authority (transfer_with_fee_pubkeys c) = replicate 32 4"
  (is "\<exists>c. verify_and_extract_transfer_with_fee sample_zk ?eq ?gv ?fs ?fee_gv ?rp ?handles ?params = Inr c \<and> _ \<and> _")
proof -
  have "isOk (verify_and_extract_transfer_with_fee sample_zk ?eq ?gv ?fs ?fee_gv ?rp ?handles ?params)"
    by (simp add: verify_and_extract_transfer_with_fee_def check_range_proof_def zip_all_equal_def
        extract_commitment_from_grouped_ciphertext_def combine_lo_hi_pedersen_points_def verify_delta_commitment_def
        u64_to_scalar_point Let_def)
  then obtain c where t: "verify_and_extract_transfer_with_fee sample_zk ?eq ?gv ?fs ?fee_gv ?rp ?handles ?params = Inr c"
    by (auto simp: isOk_iff)
  have "7 \<le> length (range_commitments ?rp)" "7 \<le> length (range_bit_lengths ?rp)" by simp_all
  from split_fee_proofs_consistent [OF t sample_homomorphism this] t show ?thesis by (auto simp: Let_def)
qed

end
