(* ===== verification/Client_Sync.thy ===== *)
theory Client_Sync
  imports Confidential_Client Confidential_Proofs
begin

text \<open>
  The client and the program agree: the decryptable balance that the client supplies decrypts to the value of the
  encrypted balance that the program computes, and the program accepts the split proofs that the client makes.
\<close>

section \<open>What a client relies on\<close>

text \<open>Decryption of small numbers with a secret key, for the plaintexts \<open>D\<close> of that key, and authenticated
  encryption with an AES key, the length of whose ciphertexts the program fixes.\<close>

definition decrypts :: "client_sdk \<Rightarrow> bytes \<Rightarrow> (bytes \<Rightarrow> 'p::comm_ring_1) \<Rightarrow> bool" where
  "decrypts S sk D \<longleftrightarrow> (\<forall>c v. decrypt_u32 S sk c = Some v \<longrightarrow> unat v < 2 ^ 32 \<and> D c = of_nat (unat v))"

definition ae_ok :: "env \<Rightarrow> client_sdk \<Rightarrow> bytes \<Rightarrow> bool" where
  "ae_ok E S k \<longleftrightarrow> (\<forall>v r. let c = ae_encrypt S k v r in
     length c = ae_ciphertext_len E \<and> encodes_ae_ciphertext S c \<and> ae_decrypt S k c = Some v)"

lemma decrypted_pending_balance_Inr:
  assumes "decrypted_pending_balance S sk c = Inr v" "decrypts S sk D"
  shows "unat v < 2 ^ 32" "D c = of_nat (unat v)"
  using assms by (auto simp: decrypted_pending_balance_def parse_ciphertext_def decrypts_def success_simps)

lemma decrypted_encrypted:
  "ae_ok E S k \<Longrightarrow> decrypted_available_balance S k (ae_encrypt S k v r) = Inr v"
  "ae_ok E S k \<Longrightarrow> length (ae_encrypt S k v r) = ae_ciphertext_len E"
  by (simp_all add: ae_ok_def Let_def decrypted_available_balance_def parse_ae_ciphertext_def)

text \<open>Two numbers of 32 bits are combined without loss, although \<open>checked_shl\<close> drops high bits.\<close>

lemma combine_balances_Some:
  assumes "combine_balances lo hi = Some x" "unat hi < 2 ^ 32"
  shows "unat x = unat lo + 65536 * unat hi"
proof -
  have "65536 * unat hi < 65536 * 2 ^ 32" using assms(2) by simp
  then have "unat (push_bit 16 hi) = 65536 * unat hi"
    by (simp add: push_bit_eq_mult unat_word_ariths)
  with assms(1) show ?thesis
    by (simp add: combine_balances_def checked_shl_def PENDING_BALANCE_LO_BIT_LENGTH_def checked_add_Some)
qed

section \<open>The decryptable balance\<close>

definition in_sync :: "client_sdk \<Rightarrow> bytes \<Rightarrow> (bytes \<Rightarrow> 'p::comm_ring_1) \<Rightarrow> confidential_transfer_account \<Rightarrow> bool" where
  "in_sync S k D s =
     (case decrypted_available_balance S k (decryptable_available_balance s) of
        Inl _ \<Rightarrow> False | Inr v \<Rightarrow> D (available_balance s) = of_nat (unat v))"

lemma in_sync_iff:
  "in_sync S k D s \<longleftrightarrow> (\<exists>v. decrypted_available_balance S k (decryptable_available_balance s) = Inr v \<and>
     D (available_balance s) = of_nat (unat v))"
  by (simp add: in_sync_def split: sum.splits)

lemma in_sync_encrypted:
  "ae_ok E S k \<Longrightarrow> decryptable_available_balance s = ae_encrypt S k v r \<Longrightarrow> D (available_balance s) = of_nat (unat v) \<Longrightarrow>
   in_sync S k D s"
  by (simp add: in_sync_iff decrypted_encrypted)

text \<open>A client that was in sync computes the value that the balance has when its whole pending part has been added.\<close>

lemma applied_decryptable_balance_Inr:
  assumes "applied_decryptable_balance S (apply_pending_balance_info s) sk k r = Inr d" "in_sync S k D s" "decrypts S sk D"
  obtains v where "d = ae_encrypt S k v r" "confidential_value D s = of_nat (unat v)"
proof -
  from assms(1) obtain lo hi x u v where
    lo: "decrypted_pending_balance S sk (pending_balance_lo s) = Inr lo"
    and hi: "decrypted_pending_balance S sk (pending_balance_hi s) = Inr hi" and x: "combine_balances lo hi = Some x"
    and u: "decrypted_available_balance S k (decryptable_available_balance s) = Inr u" and v: "checked_add u x = Some v"
    and d: "d = ae_encrypt S k v r"
    by (auto simp: applied_decryptable_balance_def apply_pending_balance_info_def decrypted_pending_balance_lo_def
        decrypted_pending_balance_hi_def success_simps)
  note l = decrypted_pending_balance_Inr [OF lo assms(3)] and h = decrypted_pending_balance_Inr [OF hi assms(3)]
  have "unat v = unat u + (unat lo + 65536 * unat hi)"
    using v combine_balances_Some [OF x h(1)] by (simp add: checked_add_Some)
  then have "confidential_value D s = of_nat (unat v)"
    using assms(2) u by (simp add: value_defs l(2) h(2) in_sync_iff)
  with d show thesis by (rule that)
qed

lemma spent_decryptable_balance_Inr:
  assumes "withdrawn_decryptable_balance S (withdraw_info s) n k r = Inr d \<or>
     transferred_decryptable_balance S (transfer_info s) n k r = Inr d" "in_sync S k D s"
  obtains v where "d = ae_encrypt S k v r" "D (available_balance s) - of_nat (unat n) = of_nat (unat v)"
proof -
  from assms(1) obtain u v where u: "decrypted_available_balance S k (decryptable_available_balance s) = Inr u"
    and v: "checked_sub u n = Some v" and d: "d = ae_encrypt S k v r"
    by (auto simp: withdrawn_decryptable_balance_def withdraw_info_def transferred_decryptable_balance_def transfer_info_def
        success_simps)
  from assms(2) u have "D (available_balance s) = of_nat (unat u)" by (auto simp: in_sync_iff)
  also have "unat u = unat n + unat v" using v by (simp add: checked_sub_Some)
  finally have "D (available_balance s) - of_nat (unat n) = of_nat (unat v)" by simp
  with d show thesis by (rule that)
qed

text \<open>Whoever has less than the amount gets no decryptable balance, but \<open>InsufficientFunds\<close>.\<close>

lemma spent_decryptable_balance:
  assumes "decrypted_available_balance S k (decryptable_available_balance s) = Inr u"
  shows "withdrawn_decryptable_balance S (withdraw_info s) n k r =
      (if n \<le> u then Inr (ae_encrypt S k (u - n) r) else Inl (Token InsufficientFunds))"
    "transferred_decryptable_balance S (transfer_info s) n k r =
      (if n \<le> u then Inr (ae_encrypt S k (u - n) r) else Inl (Token InsufficientFunds))"
  using assms
  by (simp_all add: withdrawn_decryptable_balance_def withdraw_info_def transferred_decryptable_balance_def transfer_info_def
      checked_sub_def)

text \<open>A pending balance whose high part has more than 32 bits, such as two of the largest deposits leave, is out of the
  reach of the client: only 32 bits are decrypted.\<close>

lemma large_pending_balance_not_applied:
  assumes "decrypts S sk D" "inj_on (of_nat :: nat \<Rightarrow> 'p::comm_ring_1) {..<2 ^ 64}"
    "D (pending_balance_hi s) = (of_nat n :: 'p)" "2 ^ 32 \<le> n" "n < 2 ^ 48"
    "decrypted_pending_balance S sk (pending_balance_lo s) = Inr lo" "encodes_ciphertext S (pending_balance_hi s)"
  shows "applied_decryptable_balance S (apply_pending_balance_info s) sk k r = Inl (Token AccountDecryption)"
proof -
  have "decrypt_u32 S sk (pending_balance_hi s) = None"
  proof (rule ccontr)
    assume "decrypt_u32 S sk (pending_balance_hi s) \<noteq> None"
    then obtain v where v: "decrypt_u32 S sk (pending_balance_hi s) = Some v" by blast
    with assms(1) have "unat v < 2 ^ 32" "D (pending_balance_hi s) = of_nat (unat v)" by (simp_all only: decrypts_def)
    moreover from this(2) have "unat v = n"
      by (intro inj_onD [OF assms(2)]) (use assms(3,5) unsigned_less [of v] in simp_all)
    ultimately show False using assms(4) by simp
  qed
  with assms(6,7) show ?thesis
    by (simp add: applied_decryptable_balance_def apply_pending_balance_info_def decrypted_pending_balance_lo_def
        decrypted_pending_balance_hi_def decrypted_pending_balance_def [of _ _ "pending_balance_hi s"] parse_ciphertext_def)
qed

section \<open>Credits\<close>

text \<open>What others do to an account: deposits, incoming transfers with and without fees, and whatever leaves its data alone.  In
  between the client's own view of the account may age.\<close>

definition one_credit :: "confidential_transfer_account \<Rightarrow> confidential_transfer_account \<Rightarrow> bool" where
  "one_credit s s' \<longleftrightarrow> available_balance s' = available_balance s \<and>
     decryptable_available_balance s' = decryptable_available_balance s \<and>
     unat (pending_balance_credit_counter s') = unat (pending_balance_credit_counter s) + 1"

lemma credited_one_credit: "credited E D x s s' \<Longrightarrow> one_credit s s'"
  by (simp add: credited_def one_credit_def)

lemma deposit_one_credit:
  assumes "process_deposit E Z p (a # m # auth # rest) amt dec w = Inr w'" "additive E Z D"
  shows "\<exists>b b' s s'. confidential_at E w a b s \<and> confidential_at E w' a b' s' \<and> one_credit s s'"
proof -
  from assms(1) obtain st x s lo hi plo phi s' where o: "open_for_conversion E p a m auth rest dec w = Inr st"
    and s: "get_extension E PodAccount (ConfidentialTransferAccountExt E) st = Inr s"
    and lo: "add_unless_zero Z (pending_balance_lo s) lo = Inr plo" and hi: "add_unless_zero Z (pending_balance_hi s) hi = Inr phi"
    and i: "increment_pending_balance_credit_counter (s\<lparr>pending_balance_lo := plo, pending_balance_hi := phi\<rparr>) = Inr s'"
    and w': "w' = store PodAccount a (put_extension PodAccount (ConfidentialTransferAccountExt E) s'
       (st\<lparr>base := (base st)\<lparr>amount := x\<rparr>\<rparr>)) w"
    by (rule process_deposit_Inr)
  from i obtain n where s': "s' = s\<lparr>pending_balance_lo := plo, pending_balance_hi := phi, pending_balance_credit_counter := n\<rparr>"
    and n: "unat n = unat (pending_balance_credit_counter s) + 1" by (rule increment_Inr) simp
  have "ct_account E s'"
    using get_ct_account [OF s] add_unless_zero_Inr(1) [OF lo assms(2)] add_unless_zero_Inr(1) [OF hi assms(2)]
    by (simp add: ct_account_def s')
  note w = stored_account [OF open_convertible(1) [OF o] s this w']
  have "one_credit s s'" by (simp add: one_credit_def s' n)
  with w show ?thesis by (auto simp: pod_account_is_initialized_def)
qed

inductive credit :: "env \<Rightarrow> zk \<Rightarrow> pubkey \<Rightarrow> account_info \<Rightarrow> world \<Rightarrow> world \<Rightarrow> bool" for E Z p a where
  deposit: "process_deposit E Z p (a # m # auth # rest) amt dec w = Inr w' \<Longrightarrow> credit E Z p a w w'"
| incoming: "process_destination_for_transfer E Z a m (Some pr) w = Inr w' \<Longrightarrow> credit E Z p a w w'"
| incoming_with_fee: "process_destination_for_transfer_with_fee E Z a m (Some pw) False w = Inr w' \<Longrightarrow> credit E Z p a w w'"
| elsewhere: "data_of w' a = data_of w a \<Longrightarrow> credit E Z p a w w'"

lemma credit_effectI:
  assumes "confidential_at E w a b s" "confidential_at E w a b1 s1" "confidential_at E w' a b' s'" "one_credit s1 s'"
  shows "\<exists>b' s'. confidential_at E w' a b' s' \<and> (s' = s \<or> one_credit s s')"
  using assms(3,4) confidential_at_unique [OF assms(1,2)] by blast

lemma credit_effect:
  assumes "credit E Z p a w w'" "additive E Z D" "confidential_at E w a b s"
  shows "\<exists>b' s'. confidential_at E w' a b' s' \<and> (s' = s \<or> one_credit s s')"
  using assms(1)
proof cases
  case deposit
  from deposit_one_credit [OF this assms(2)] show ?thesis by (elim exE conjE) (rule credit_effectI [OF assms(3)])
next
  case (incoming m pr)
  from process_destination_correct [OF this assms(2)] show ?thesis
    by (elim exE conjE) (rule credit_effectI [OF assms(3)], assumption, assumption, erule credited_one_credit)
next
  case (incoming_with_fee m pw)
  from process_destination_with_fee_correct [OF this assms(2,2)] show ?thesis
    by (elim exE conjE) (rule credit_effectI [OF assms(3)], assumption, assumption, erule credited_one_credit)
next
  case elsewhere
  then have "confidential_at E w' a b s" using assms(3) confidential_at_frame by blast
  then show ?thesis by blast
qed

text \<open>Any number of credits: what the owner can spend stays as it was, the counter never falls, and if it has not risen,
  there was no credit.\<close>

definition aged :: "confidential_transfer_account \<Rightarrow> confidential_transfer_account \<Rightarrow> bool" where
  "aged s s' \<longleftrightarrow> available_balance s' = available_balance s \<and>
     decryptable_available_balance s' = decryptable_available_balance s \<and>
     pending_balance_credit_counter s \<le> pending_balance_credit_counter s' \<and>
     (pending_balance_credit_counter s' = pending_balance_credit_counter s \<longrightarrow> s' = s)"

lemma aged_step: "aged s s1 \<Longrightarrow> s2 = s1 \<or> one_credit s1 s2 \<Longrightarrow> aged s s2"
  by (auto simp: aged_def one_credit_def word_le_nat_alt)

lemma credits_effect:
  assumes "(credit E Z p a)\<^sup>*\<^sup>* w w'" "additive E Z D" "confidential_at E w a b s"
  shows "\<exists>b' s'. confidential_at E w' a b' s' \<and> aged s s'"
  using assms(1)
proof induction
  case base
  then show ?case using assms(3) by (auto simp: aged_def)
next
  case (step u v)
  then obtain b1 s1 where "confidential_at E u a b1 s1" "aged s s1" by blast
  with credit_effect [OF step(2) assms(2)] show ?case by (blast intro: aged_step)
qed

lemma in_sync_cong:
  "available_balance s' = available_balance s \<Longrightarrow> decryptable_available_balance s' = decryptable_available_balance s \<Longrightarrow>
   in_sync S k D s' = in_sync S k D s"
  by (simp add: in_sync_iff)

lemma in_sync_aged: "aged s s' \<Longrightarrow> in_sync S k D s' = in_sync S k D s"
  by (simp add: aged_def in_sync_iff)

section \<open>The steps of a client\<close>

text \<open>The client reads its account in \<open>w0\<close>, computes the decryptable balance from what it read, and its instruction
  runs in \<open>w\<close>, after any number of credits.  When it applies the pending balance, it has sent the counter that it
  read, and it trusts the outcome if the program recorded the same number.  A transfer runs on the source with the two parts
  of the encrypted amount that the proof speaks of.\<close>

inductive client_step ::
    "env \<Rightarrow> zk \<Rightarrow> client_sdk \<Rightarrow> pubkey \<Rightarrow> bytes \<Rightarrow> bytes \<Rightarrow> (bytes \<Rightarrow> 'p::comm_ring_1) \<Rightarrow> account_info \<Rightarrow> world \<Rightarrow> world \<Rightarrow> bool"
  for E Z S p sk k D a where
  others: "credit E Z p a w w' \<Longrightarrow> client_step E Z S p sk k D a w w'"
| apply_pending: "(credit E Z p a)\<^sup>*\<^sup>* w0 w \<Longrightarrow> confidential_at E w0 a b0 s0 \<Longrightarrow>
    applied_decryptable_balance S (apply_pending_balance_info s0) sk k r = Inr d \<Longrightarrow>
    process_apply_pending_balance E Z p (a # auth # rest)
      (ap_pending_balance_credit_counter (apply_pending_balance_info s0)) d w = Inr w' \<Longrightarrow>
    confidential_at E w' a b' s' \<Longrightarrow>
    expected_pending_balance_credit_counter s' = actual_pending_balance_credit_counter s' \<Longrightarrow>
    client_step E Z S p sk k D a w w'"
| withdrawal: "(credit E Z p a)\<^sup>*\<^sup>* w0 w \<Longrightarrow> confidential_at E w0 a b0 s0 \<Longrightarrow>
    withdrawn_decryptable_balance S (withdraw_info s0) amt k r = Inr d \<Longrightarrow>
    process_withdraw E Z p (a # m # c # auth # rest) amt dec d offset w = Inr w' \<Longrightarrow>
    client_step E Z S p sk k D a w w'"
| transfer_out: "(credit E Z p a)\<^sup>*\<^sup>* w0 w \<Longrightarrow> confidential_at E w0 a b0 s0 \<Longrightarrow>
    transferred_decryptable_balance S (transfer_info s0) amt k r = Inr d \<Longrightarrow>
    lo_hi D transfer_amount_source_ciphertext lo hi = of_nat (unat amt) \<Longrightarrow>
    process_source E Z p a m auth rest (Some (pk, lo, hi, new)) d w = Inr w' \<Longrightarrow>
    client_step E Z S p sk k D a w w'"

lemma apply_pending_effect:
  assumes "process_apply_pending_balance E Z p (a # auth # rest) expected d w = Inr w'" "additive E Z D"
    "length d = ae_ciphertext_len E" "confidential_at E w a b s"
  shows "\<exists>b' s'. confidential_at E w' a b' s' \<and> D (available_balance s') = confidential_value D s \<and>
    decryptable_available_balance s' = d \<and> expected_pending_balance_credit_counter s' = expected \<and>
    actual_pending_balance_credit_counter s' = pending_balance_credit_counter s"
proof -
  from assms(1) obtain st s1 s' where u: "unpack PodAccount (data_of w a) = Inr st"
    and s: "get_extension E PodAccount (ConfidentialTransferAccountExt E) st = Inr s1"
    and f: "apply_pending_balance E Z expected d s1 = Inr s'"
    and w': "w' = store PodAccount a (put_extension PodAccount (ConfidentialTransferAccountExt E) s' st) w"
    unfolding process_apply_pending_balance_def by (rule process_update_confidential_Inr)
  from f obtain c where "ct_add_with_lo_hi Z (available_balance s1) (pending_balance_lo s1) (pending_balance_hi s1) = Some c"
    and s': "s' = s1\<lparr>available_balance := c, actual_pending_balance_credit_counter := pending_balance_credit_counter s1,
      expected_pending_balance_credit_counter := expected, decryptable_available_balance := d,
      pending_balance_credit_counter := 0, pending_balance_lo := zeroed_ciphertext E, pending_balance_hi := zeroed_ciphertext E\<rparr>"
    by (auto simp: apply_pending_balance_def success_simps)
  then have c: "ct E c" "D c = confidential_value D s1"
    using additiveD(6) [OF assms(2)] by (simp_all add: value_defs)
  have "ct_account E s'" using get_ct_account [OF s] c(1) assms(3) by (simp add: s' ct_account_def)
  note w = stored_same_base [OF u s this w']
  have "s1 = s" using confidential_at_unique [OF w(1) assms(4)] by simp
  with w(2) c(2) show ?thesis
    by - (rule exI [of _ "base st"], rule exI [of _ s'], simp add: s')
qed

lemma withdraw_effect:
  assumes "process_withdraw E Z p (a # m # c # auth # rest) amt dec d offset w = Inr w'" "additive E Z D"
    "length d = ae_ciphertext_len E" "confidential_at E w a b s"
  shows "\<exists>b' s'. confidential_at E w' a b' s' \<and> D (available_balance s') = D (available_balance s) - of_nat (unat amt) \<and>
    decryptable_available_balance s' = d"
proof -
  from assms(1) obtain pr st x s1 c where o: "open_for_conversion E p a m auth rest dec w = Inr st"
    and s: "get_extension E PodAccount (ConfidentialTransferAccountExt E) st = Inr s1"
    and c: "(if amt > 0 then ok_or (Token CiphertextArithmeticFailed) (ct_subtract_from Z (available_balance s1) amt)
      else Inr (available_balance s1)) = Inr c"
    and w': "w' = store PodAccount a (put_extension PodAccount (ConfidentialTransferAccountExt E)
       (s1\<lparr>available_balance := c, decryptable_available_balance := d\<rparr>) (st\<lparr>base := (base st)\<lparr>amount := x\<rparr>\<rparr>)) w"
    by (rule process_withdraw_Inr)
  have v: "ct E c" "D c = D (available_balance s1) - of_nat (unat amt)"
    using c additiveD(5) [OF assms(2), of "available_balance s1" amt c] get_ct_account [OF s]
    by (auto simp: ct_account_def word_gt_0 success_simps split: if_splits)
  let ?s = "s1\<lparr>available_balance := c, decryptable_available_balance := d\<rparr>"
  have "ct_account E ?s" using get_ct_account [OF s] v(1) assms(3) by (simp add: ct_account_def)
  note w = stored_account [OF open_convertible(1) [OF o] s this w']
  have "s1 = s" using confidential_at_unique [OF w(1) assms(4)] by (simp add: pod_account_is_initialized_def)
  with w(2) v(2) show ?thesis
    by - (rule exI [of _ "(base st)\<lparr>amount := x\<rparr>"], rule exI [of _ ?s], simp add: pod_account_is_initialized_def)
qed

lemma transfer_out_effect:
  assumes "process_source E Z p a m auth rest (Some (pk, lo, hi, new)) d w = Inr w'" "additive E Z D"
    "length d = ae_ciphertext_len E" "confidential_at E w a b s"
  shows "\<exists>b' s'. confidential_at E w' a b' s' \<and>
    D (available_balance s') = D (available_balance s) - lo_hi D transfer_amount_source_ciphertext lo hi \<and>
    decryptable_available_balance s' = d"
proof -
  from process_source_correct [OF assms(1-3)] obtain b1 s1 s' where
    c: "confidential_at E w a b1 s1" "confidential_at E w' a b1 s'" "decryptable_available_balance s' = d"
      "pending_value D s' = pending_value D s1"
      "confidential_value D s' = confidential_value D s1 - lo_hi D transfer_amount_source_ciphertext lo hi" by blast
  have "s1 = s" using confidential_at_unique [OF assms(4) c(1)] by simp
  with c(4,5) have "D (available_balance s') = D (available_balance s) - lo_hi D transfer_amount_source_ciphertext lo hi"
    by (simp add: confidential_value_def algebra_simps)
  with c(2,3) show ?thesis by blast
qed

lemma in_sync_result:
  assumes "\<exists>b' s'. confidential_at E w' a b' s' \<and> D (available_balance s') = x \<and> decryptable_available_balance s' = d"
    "x = of_nat (unat v)" "d = ae_encrypt S k v r" "ae_ok E S k"
  shows "\<exists>b' s'. confidential_at E w' a b' s' \<and> in_sync S k D s'"
  using assms by (metis in_sync_encrypted)

lemma client_step_in_sync:
  assumes "client_step E Z S p sk k D a w w'" "additive E Z D" "decrypts S sk D" "ae_ok E S k"
    "confidential_at E w a b s" "in_sync S k D s"
  shows "\<exists>b' s'. confidential_at E w' a b' s' \<and> in_sync S k D s'"
  using assms(1)
proof cases
  case others
  from credit_effect [OF this assms(2,5)] obtain b' s' where s': "confidential_at E w' a b' s'" "s' = s \<or> one_credit s s'"
    by blast
  then have "in_sync S k D s' = in_sync S k D s" by (auto simp: one_credit_def in_sync_iff)
  with s' assms(6) show ?thesis by blast
next
  case (apply_pending w0 b0 s0 r d auth rest b' s')
  from credits_effect [OF apply_pending(1) assms(2) apply_pending(2)] have g: "aged s0 s"
    using assms(5) by (blast dest: confidential_at_unique)
  with assms(6) have "in_sync S k D s0" by (simp add: in_sync_aged)
  from applied_decryptable_balance_Inr [OF apply_pending(3) this assms(3)] obtain v where
    v: "d = ae_encrypt S k v r" "confidential_value D s0 = of_nat (unat v)" by blast
  have "length d = ae_ciphertext_len E" using v(1) assms(4) by (simp add: decrypted_encrypted)
  from apply_pending_effect [OF apply_pending(4) assms(2) this assms(5)] apply_pending(5) have
    e: "D (available_balance s') = confidential_value D s" "decryptable_available_balance s' = d"
      "expected_pending_balance_credit_counter s' = pending_balance_credit_counter s0"
      "actual_pending_balance_credit_counter s' = pending_balance_credit_counter s"
    by (auto simp: apply_pending_balance_info_def dest: confidential_at_unique)
  with g apply_pending(6) have "s = s0" by (simp add: aged_def)
  with e v have "in_sync S k D s'" by (intro in_sync_encrypted [OF assms(4)]) simp_all
  with apply_pending(5) show ?thesis by blast
next
  case (withdrawal w0 b0 s0 amt r d m c auth rest dec offset)
  from credits_effect [OF withdrawal(1) assms(2) withdrawal(2)] have g: "aged s0 s"
    using assms(5) by (blast dest: confidential_at_unique)
  with assms(6) have i: "in_sync S k D s0" by (simp add: in_sync_aged)
  obtain v where
    v: "d = ae_encrypt S k v r" "D (available_balance s0) - of_nat (unat amt) = of_nat (unat v)"
    by (rule spent_decryptable_balance_Inr [OF disjI1 [OF withdrawal(3)] i])
  have "length d = ae_ciphertext_len E" using v(1) assms(4) by (simp add: decrypted_encrypted)
  note e = withdraw_effect [OF withdrawal(4) assms(2) this assms(5)]
  show ?thesis by (rule in_sync_result [OF e _ v(1) assms(4)]) (use v(2) g in \<open>simp only: aged_def\<close>)
next
  case (transfer_out w0 b0 s0 amt r d lo hi m auth rest pk new)
  from credits_effect [OF transfer_out(1) assms(2) transfer_out(2)] have g: "aged s0 s"
    using assms(5) by (blast dest: confidential_at_unique)
  with assms(6) have i: "in_sync S k D s0" by (simp add: in_sync_aged)
  obtain v where
    v: "d = ae_encrypt S k v r" "D (available_balance s0) - of_nat (unat amt) = of_nat (unat v)"
    by (rule spent_decryptable_balance_Inr [OF disjI2 [OF transfer_out(3)] i])
  have "length d = ae_ciphertext_len E" using v(1) assms(4) by (simp add: decrypted_encrypted)
  note e = transfer_out_effect [OF transfer_out(5) assms(2) this assms(5)]
  show ?thesis by (rule in_sync_result [OF e _ v(1) assms(4)]) (use v(2) g transfer_out(4) in \<open>simp only: aged_def\<close>)
qed

section \<open>Split proofs\<close>

text \<open>The proofs have the contexts that the client asked for; a range proof pads its lists.  The grouped ciphertext of a transfer
  is the one that the program puts together from the source's handle and the ciphertext for destination and auditor.\<close>

definition proofs_ok :: "client_sdk \<Rightarrow> bool" where
  "proofs_ok S \<longleftrightarrow>
     (\<forall>v a b c r g q. transfer_amount_ciphertext_new S v a b c r = (g, q) \<longrightarrow>
        length (decrypt_handle S a q) = 32 \<and> length (grouped_encrypt_with S [b, c] v q) = 96 \<and>
        g = transfer_amount_encryption_from_decrypt_handle (decrypt_handle S a q) (grouped_encrypt_with S [b, c] v q)) \<and>
     (\<forall>kp c com q v r d. equality_data_new S kp c com q v r = Some d \<longrightarrow>
        context_data d = \<lparr>eq_pubkey = kp_pubkey kp, eq_ciphertext = c, eq_commitment = com\<rparr>) \<and>
     (\<forall>b c glo ghi lo hi olo ohi r d. validity_data_new S b c glo ghi lo hi olo ohi r = Some d \<longrightarrow>
        context_data d = \<lparr>gv_destination_pubkey = b, gv_auditor_pubkey = c, grouped_ciphertext_lo = glo,
          grouped_ciphertext_hi = ghi\<rparr>) \<and>
     (\<forall>coms vs ls os r d. range_data_new S coms vs ls os r = Some d \<longrightarrow>
        take (length coms) (range_commitments (context_data d)) = coms \<and>
        take (length ls) (range_bit_lengths (context_data d)) = map of_nat ls)"

text \<open>A key opens the parts of amounts that were encrypted for it as the source, or as the destination.\<close>

definition opens_source :: "client_sdk \<Rightarrow> bytes \<Rightarrow> (bytes \<Rightarrow> 'p::comm_ring_1) \<Rightarrow> bool" where
  "opens_source S pk D \<longleftrightarrow> (\<forall>v b c r.
     D (transfer_amount_source_ciphertext (fst (transfer_amount_ciphertext_new S v pk b c r))) = of_nat (unat v))"

definition opens_destination :: "client_sdk \<Rightarrow> bytes \<Rightarrow> (bytes \<Rightarrow> 'p::comm_ring_1) \<Rightarrow> bool" where
  "opens_destination S pk D \<longleftrightarrow> (\<forall>v a c r.
     D (transfer_amount_destination_ciphertext (fst (transfer_amount_ciphertext_new S v a pk c r))) = of_nat (unat v))"

lemma proofs_okD:
  assumes "proofs_ok S"
  shows "transfer_amount_ciphertext_new S v a b c r = (g, q) \<Longrightarrow> length (grouped_encrypt_with S [b, c] v q) = 96 \<and>
      g = transfer_amount_encryption_from_decrypt_handle (decrypt_handle S a q) (grouped_encrypt_with S [b, c] v q)"
    "equality_data_new S kp cip com q v r = Some eq \<Longrightarrow>
      context_data eq = \<lparr>eq_pubkey = kp_pubkey kp, eq_ciphertext = cip, eq_commitment = com\<rparr>"
    "validity_data_new S b c glo ghi lo hi olo ohi r = Some gv \<Longrightarrow> context_data gv =
      \<lparr>gv_destination_pubkey = b, gv_auditor_pubkey = c, grouped_ciphertext_lo = glo, grouped_ciphertext_hi = ghi\<rparr>"
    "range_data_new S coms vs ls os r = Some rp \<Longrightarrow> take (length coms) (range_commitments (context_data rp)) = coms"
    "range_data_new S coms vs ls os r = Some rp \<Longrightarrow> take (length ls) (range_bit_lengths (context_data rp)) = map of_nat ls"
proof -
  note p = assms [unfolded proofs_ok_def]
  note q1 = conjunct1 [OF p, rule_format] and q = conjunct2 [OF p]
  note q2 = conjunct1 [OF q, rule_format] and q3 = conjunct1 [OF conjunct2 [OF q], rule_format]
    and q4 = conjunct2 [OF conjunct2 [OF q], rule_format]
  show "transfer_amount_ciphertext_new S v a b c r = (g, q) \<Longrightarrow> length (grouped_encrypt_with S [b, c] v q) = 96 \<and>
      g = transfer_amount_encryption_from_decrypt_handle (decrypt_handle S a q) (grouped_encrypt_with S [b, c] v q)"
    by (drule q1) (erule conjunct2)
  show "equality_data_new S kp cip com q v r = Some eq \<Longrightarrow>
      context_data eq = \<lparr>eq_pubkey = kp_pubkey kp, eq_ciphertext = cip, eq_commitment = com\<rparr>" by (rule q2)
  show "validity_data_new S b c glo ghi lo hi olo ohi r = Some gv \<Longrightarrow> context_data gv =
      \<lparr>gv_destination_pubkey = b, gv_auditor_pubkey = c, grouped_ciphertext_lo = glo, grouped_ciphertext_hi = ghi\<rparr>" by (rule q3)
  show "range_data_new S coms vs ls os r = Some rp \<Longrightarrow> take (length coms) (range_commitments (context_data rp)) = coms"
    "range_data_new S coms vs ls os r = Some rp \<Longrightarrow> take (length ls) (range_bit_lengths (context_data rp)) = map of_nat ls"
    using q4 by simp_all
qed

lemma take_grouped:
  "length g = 96 \<Longrightarrow> take 32 (transfer_amount_encryption_from_decrypt_handle h g) = extract_commitment_from_grouped_ciphertext g"
  by (simp add: transfer_amount_encryption_from_decrypt_handle_def extract_commitment_from_grouped_ciphertext_def)

lemma zip_all_equal_prefix: "take n xs = ys @ zs \<Longrightarrow> zip_all_equal xs ys"
proof (induction ys arbitrary: n xs)
  case (Cons y ys)
  then obtain k ws where "n = Suc k" "xs = y # ws" "take k ws = ys @ zs"
    by (cases n; cases xs) auto
  with Cons.IH show ?case by (simp add: zip_all_equal_def)
qed (simp add: zip_all_equal_def)

lemma transfer_split_proof_data_Inr:
  assumes "transfer_split_proof_data Z S cur dec amt kp k dpk auditor r = Inr (eq, gv, rp, handles)" "proofs_ok S"
  obtains lo hi glo ghi olo ohi new u com com' where "verify_and_split_deposit_amount amt = Inr (lo, hi)"
    "transfer_amount_ciphertext_new S lo (kp_pubkey kp) dpk (auditor_or_default S auditor) (r 0) = (glo, olo)"
    "transfer_amount_ciphertext_new S hi (kp_pubkey kp) dpk (auditor_or_default S auditor) (r 1) = (ghi, ohi)"
    "ae_decrypt S k dec = Some u" "amt \<le> u"
    "ct_subtract_with_lo_hi Z cur (transfer_amount_source_ciphertext glo) (transfer_amount_source_ciphertext ghi) = Some new"
    "context_data eq = \<lparr>eq_pubkey = kp_pubkey kp, eq_ciphertext = new, eq_commitment = com\<rparr>"
    "handles = \<lparr>handle_lo = decrypt_handle S (kp_pubkey kp) olo, handle_hi = decrypt_handle S (kp_pubkey kp) ohi\<rparr>"
    "context_data gv = \<lparr>gv_destination_pubkey = dpk, gv_auditor_pubkey = auditor_or_default S auditor,
       grouped_ciphertext_lo = grouped_encrypt_with S [dpk, auditor_or_default S auditor] lo olo,
       grouped_ciphertext_hi = grouped_encrypt_with S [dpk, auditor_or_default S auditor] hi ohi\<rparr>"
    "take 4 (range_commitments (context_data rp)) = [com, take 32 glo, take 32 ghi, com']"
    "take 4 (range_bit_lengths (context_data rp)) = [64, 16, 32, 16]"
proof -
  let ?aud = "auditor_or_default S auditor"
  from assms(1) obtain lo hi where sp: "verify_and_split_deposit_amount amt = Inr (lo, hi)"
    by (auto simp: transfer_split_proof_data_def Let_def success_simps)
  obtain glo olo where glo: "transfer_amount_ciphertext_new S lo (kp_pubkey kp) dpk ?aud (r 0) = (glo, olo)" by fastforce
  obtain ghi ohi where ghi: "transfer_amount_ciphertext_new S hi (kp_pubkey kp) dpk ?aud (r 1) = (ghi, ohi)" by fastforce
  obtain com' qp where pad: "pedersen_new S 0 (r 5) = (com', qp)" by fastforce
  from assms(1) obtain u where u: "ae_decrypt S k dec = Some u" "amt \<le> u"
    by (auto simp: transfer_split_proof_data_def Let_def success_simps sp glo ghi checked_sub_def simp del: One_nat_def split: if_splits)
  obtain com qn where com: "pedersen_new S (u - amt) (r 2) = (com, qn)" by fastforce
  from assms(1) obtain new where
    new: "ct_subtract_with_lo_hi Z cur (transfer_amount_source_ciphertext glo) (transfer_amount_source_ciphertext ghi) = Some new"
    and eq: "equality_data_new S kp new com qn (u - amt) (r 3) = Some eq"
    and gv: "validity_data_new S dpk ?aud (grouped_encrypt_with S [dpk, ?aud] lo olo)
      (grouped_encrypt_with S [dpk, ?aud] hi ohi) lo hi olo ohi (r 4) = Some gv"
    and rp: "range_data_new S [com, take 32 glo, take 32 ghi, com'] [u - amt, lo, hi, 0] [64, 16, 32, 16]
      [qn, olo, ohi, qp] (r 6) = Some rp"
    and h: "handles = \<lparr>handle_lo = decrypt_handle S (kp_pubkey kp) olo, handle_hi = decrypt_handle S (kp_pubkey kp) ohi\<rparr>"
    using u by (auto simp: transfer_split_proof_data_def Let_def success_simps sp glo ghi com pad checked_sub_def parse_ciphertext_def
      simp del: One_nat_def)
  note p = proofs_okD [OF assms(2)]
  show thesis
    by (rule that [OF sp glo ghi u new p(2) [OF eq] h p(3) [OF gv], of com'])
       (use p(4,5) [OF rp] in \<open>simp_all add: numeral_eq_Suc\<close>)
qed

text \<open>C13. Whatever split proofs the client makes, the program takes them together as the context of one transfer, for the
  keys of source, destination and auditor; both parties read the amount in it, and the debit of the source goes through
  with exactly the ciphertext of the proof.  They are made only for an amount of at most 48 bits that the balance covers.\<close>

theorem client_split_proofs_accepted:
  fixes Ds Dd :: "bytes \<Rightarrow> 'p::comm_ring_1"
  assumes "transfer_split_proof_data Z S (available_balance s) dec amt kp k dpk auditor r = Inr (eq, gv, rp, handles)"
    "proofs_ok S" "opens_source S (kp_pubkey kp) Ds" "opens_destination S dpk Dd" "elgamal_pubkey s = kp_pubkey kp"
  shows "\<exists>pr u. verify_and_extract_transfer (context_data eq) (context_data gv) (context_data rp) handles = Inr pr \<and>
    transfer_pubkeys pr = \<lparr>tp_source = kp_pubkey kp, tp_destination = dpk, tp_auditor = auditor_or_default S auditor\<rparr> \<and>
    lo_hi Ds transfer_amount_source_ciphertext (ciphertext_lo pr) (ciphertext_hi pr) = of_nat (unat amt) \<and>
    lo_hi Dd transfer_amount_destination_ciphertext (ciphertext_lo pr) (ciphertext_hi pr) = of_nat (unat amt) \<and>
    unat amt < 2 ^ 48 \<and> ae_decrypt S k dec = Some u \<and> amt \<le> u \<and>
    debit_source Z (Some (tp_source (transfer_pubkeys pr), ciphertext_lo pr, ciphertext_hi pr, new_source_ciphertext pr)) d s =
      Inr (s\<lparr>available_balance := new_source_ciphertext pr, decryptable_available_balance := d\<rparr>)"
proof -
  let ?aud = "auditor_or_default S auditor"
  from assms(1,2) obtain lo hi glo ghi olo ohi new u com com' where sp: "verify_and_split_deposit_amount amt = Inr (lo, hi)"
    and glo: "transfer_amount_ciphertext_new S lo (kp_pubkey kp) dpk ?aud (r 0) = (glo, olo)"
    and ghi: "transfer_amount_ciphertext_new S hi (kp_pubkey kp) dpk ?aud (r 1) = (ghi, ohi)"
    and u: "ae_decrypt S k dec = Some u" "amt \<le> u"
    and new: "ct_subtract_with_lo_hi Z (available_balance s) (transfer_amount_source_ciphertext glo)
      (transfer_amount_source_ciphertext ghi) = Some new"
    and cs: "context_data eq = \<lparr>eq_pubkey = kp_pubkey kp, eq_ciphertext = new, eq_commitment = com\<rparr>"
      "handles = \<lparr>handle_lo = decrypt_handle S (kp_pubkey kp) olo, handle_hi = decrypt_handle S (kp_pubkey kp) ohi\<rparr>"
      "context_data gv = \<lparr>gv_destination_pubkey = dpk, gv_auditor_pubkey = ?aud,
         grouped_ciphertext_lo = grouped_encrypt_with S [dpk, ?aud] lo olo,
         grouped_ciphertext_hi = grouped_encrypt_with S [dpk, ?aud] hi ohi\<rparr>"
    and rp: "take 4 (range_commitments (context_data rp)) = [com, take 32 glo, take 32 ghi, com']"
      "take 4 (range_bit_lengths (context_data rp)) = [64, 16, 32, 16]"
    by (rule transfer_split_proof_data_Inr)
  note g = proofs_okD(1) [OF assms(2) glo] proofs_okD(1) [OF assms(2) ghi]
  let ?pr = "\<lparr>ciphertext_lo = glo, ciphertext_hi = ghi,
    transfer_pubkeys = \<lparr>tp_source = kp_pubkey kp, tp_destination = dpk, tp_auditor = ?aud\<rparr>, new_source_ciphertext = new\<rparr>"
  have com: "take 32 glo = extract_commitment_from_grouped_ciphertext (grouped_encrypt_with S [dpk, ?aud] lo olo)"
    "take 32 ghi = extract_commitment_from_grouped_ciphertext (grouped_encrypt_with S [dpk, ?aud] hi ohi)"
    using g take_grouped by metis+
  have "zip_all_equal (range_commitments (context_data rp)) [com, take 32 glo, take 32 ghi]"
    by (rule zip_all_equal_prefix [of 4 _ _ "[com']"]) (simp add: rp)
  moreover have "zip_all_equal (range_bit_lengths (context_data rp)) [64, 16, 32, 16]"
    by (rule zip_all_equal_prefix [of 4 _ _ "[]"]) (simp add: rp)
  ultimately have v: "verify_and_extract_transfer (context_data eq) (context_data gv) (context_data rp) handles = Inr ?pr"
    using g by (simp add: verify_and_extract_transfer_def check_range_proof_def cs com [symmetric])
  note spl = verify_and_split_deposit_amount_Inr [OF sp]
  have val: "of_nat (unat lo) + 65536 * of_nat (unat hi) = (of_nat (unat amt) :: 'p)"
    by (simp only: spl(1) [symmetric] of_nat_add of_nat_mult of_nat_numeral)
  have "Ds (transfer_amount_source_ciphertext glo) = of_nat (unat lo)" "Ds (transfer_amount_source_ciphertext ghi) = of_nat (unat hi)"
    "Dd (transfer_amount_destination_ciphertext glo) = of_nat (unat lo)"
    "Dd (transfer_amount_destination_ciphertext ghi) = of_nat (unat hi)"
    using assms(3,4) glo ghi unfolding opens_source_def opens_destination_def by (metis fst_conv)+
  with v val spl(4) u new assms(5) show ?thesis
    by - (rule exI [of _ ?pr], rule exI [of _ u], simp add: lo_hi_def debit_source_def del: of_nat_unat)
qed


section \<open>The decryptable balance stays in step\<close>


section \<open>A concrete run\<close>

text \<open>An SDK in which a ciphertext starts with its plaintext, as in the sample arithmetic.\<close>

definition sample_sdk :: client_sdk where
  "sample_sdk =
     \<lparr>encodes_ciphertext = (\<lambda>b. length b = 64), encodes_ae_ciphertext = (\<lambda>b. length b = 36),
      default_pubkey = replicate 32 0,
      decrypt_u32 = (\<lambda>_ c. if sample_plaintext c < 4294967296 then Some (sample_plaintext c) else None),
      ae_decrypt = (\<lambda>_ c. Some (sample_plaintext c)), ae_encrypt = (\<lambda>_ v _. word_le v @ replicate 28 0),
      new_opening = (\<lambda>r. r), encrypt_with = (\<lambda>_ v _. sample_ciphertext v),
      pedersen_new = (\<lambda>v r. (word_le v @ replicate 24 0, r)), decrypt_handle = (\<lambda>_ _. replicate 32 0),
      transfer_amount_ciphertext_new = (\<lambda>v _ _ _ r. (word_le v @ replicate 120 0, r)),
      grouped_encrypt_with = (\<lambda>_ v _. word_le v @ replicate 88 0),
      zero_balance_data_new = (\<lambda>kp c r. Some \<lparr>context_data = \<lparr>zb_pubkey = kp_pubkey kp, zb_ciphertext = c\<rparr>, proof_bytes = r\<rparr>),
      withdraw_data_new = (\<lambda>n kp v c r. None), transfer_data_new = (\<lambda>_ _ _ _ _. None),
      transfer_with_fee_data_new = (\<lambda>_ _ _ _ _ _ _. None),
      equality_data_new = (\<lambda>kp c com _ _ r.
        Some \<lparr>context_data = \<lparr>eq_pubkey = kp_pubkey kp, eq_ciphertext = c, eq_commitment = com\<rparr>, proof_bytes = r\<rparr>),
      validity_data_new = (\<lambda>b c glo ghi _ _ _ _ r.
        Some \<lparr>context_data = \<lparr>gv_destination_pubkey = b, gv_auditor_pubkey = c, grouped_ciphertext_lo = glo,
          grouped_ciphertext_hi = ghi\<rparr>, proof_bytes = r\<rparr>),
      range_data_new = (\<lambda>coms _ ls _ r.
        Some \<lparr>context_data = \<lparr>range_commitments = coms, range_bit_lengths = map of_nat ls\<rparr>, proof_bytes = r\<rparr>),
      ciphertexts_equality_data_new = (\<lambda>_ _ _ _ _ _ _. None)\<rparr>"

lemma sample_plaintext_append [simp]: "sample_plaintext (word_le v @ d) = v"
  by (simp add: sample_plaintext_def)

lemma sample_plaintext_zeros [simp]: "sample_plaintext (replicate 36 0) = 0"
  by (simp add: sample_plaintext_def le_word_def numeral_eq_Suc)

lemma sample_sdk_ok:
  "decrypts sample_sdk sk sample_plaintext" "ae_ok sample_env sample_sdk k" "proofs_ok sample_sdk"
  "opens_source sample_sdk pk sample_plaintext" "opens_destination sample_sdk pk sample_plaintext"
      apply (simp add: decrypts_def sample_sdk_def word_less_nat_alt)
     apply (simp add: ae_ok_def sample_sdk_def)
    apply (simp add: proofs_ok_def sample_sdk_def transfer_amount_encryption_from_decrypt_handle_def slice_of_def
      flip: replicate_add)
   apply (simp add: opens_source_def sample_sdk_def transfer_amount_source_ciphertext_def)
  apply (simp add: opens_destination_def sample_sdk_def transfer_amount_destination_ciphertext_def)
  done

theorem client_split_proofs_accepted_witness:
  "\<exists>eq gv rp handles pr. transfer_split_proof_data sample_zk sample_sdk (available_balance (secret 100000 0 0))
     (word_le (100000 :: u64) @ replicate 28 0) 65541 \<lparr>kp_pubkey = replicate 32 0, kp_secret = []\<rparr> [] (replicate 32 1) None (\<lambda>_. []) =
       Inr (eq, gv, rp, handles) \<and>
     verify_and_extract_transfer (context_data eq) (context_data gv) (context_data rp) handles = Inr pr \<and>
     lo_hi sample_plaintext transfer_amount_source_ciphertext (ciphertext_lo pr) (ciphertext_hi pr) = 65541"
proof -
  have "isOk (transfer_split_proof_data sample_zk sample_sdk (available_balance (secret 100000 0 0))
     (word_le (100000 :: u64) @ replicate 28 0) 65541 \<lparr>kp_pubkey = replicate 32 0, kp_secret = []\<rparr> [] (replicate 32 1) None (\<lambda>_. []))"
    by (simp add: transfer_split_proof_data_def sample_sdk_def verify_and_split_deposit_amount_def
        MAXIMUM_DEPOSIT_TRANSFER_AMOUNT_def checked_sub_def sample_zk_def parse_ciphertext_def Let_def)
  then obtain eq gv rp handles where
    t: "transfer_split_proof_data sample_zk sample_sdk (available_balance (secret 100000 0 0))
     (word_le (100000 :: u64) @ replicate 28 0) 65541 \<lparr>kp_pubkey = replicate 32 0, kp_secret = []\<rparr> [] (replicate 32 1) None (\<lambda>_. []) =
       Inr (eq, gv, rp, handles)" by (auto simp: isOk_iff)
  have "elgamal_pubkey (secret 100000 0 0) = kp_pubkey \<lparr>kp_pubkey = replicate 32 0, kp_secret = []\<rparr>" by (simp add: secret_def)
  from client_split_proofs_accepted [OF t sample_sdk_ok(3-5) this] t show ?thesis by fastforce
qed


end
