(* ===== verification/Tlv_Loop.thy ===== *)
theory Tlv_Loop
  imports Tlv
begin

text \<open>
  The \<open>while\<close> loops of \<open>extension/mod.rs\<close> as loops: their bodies as steps on the loop variables, run with a
  bounded number of iterations, and the bound under which they return.
\<close>

section \<open>Loops that return\<close>

datatype ('s, 'r) control = Continue 's | Return 'r

text \<open>\<open>None\<close> when the loop has not returned after that many iterations.\<close>

fun run_loop :: "nat \<Rightarrow> ('s \<Rightarrow> ('s, 'r) control) \<Rightarrow> 's \<Rightarrow> 'r option" where
  "run_loop 0 body s = None"
| "run_loop (Suc n) body s = (case body s of Return r \<Rightarrow> Some r | Continue s' \<Rightarrow> run_loop n body s')"

definition return_on_error :: "'a result \<Rightarrow> ('a \<Rightarrow> ('s, 'r result) control) \<Rightarrow> ('s, 'r result) control" where
  "return_on_error x k = (case x of Inl e \<Rightarrow> Return (Inl e) | Inr a \<Rightarrow> k a)"

lemma return_on_error_simps [simp]:
  "return_on_error (Inl e) k = Return (Inl e)" "return_on_error (Inr a) k = k a"
  by (simp_all add: return_on_error_def)

section \<open>The walk over the entries\<close>

text \<open>The loop of \<open>get_extension_indices\<close>; the variable is \<open>start_index\<close>.\<close>

definition extension_indices_body ::
    "extension_type \<Rightarrow> bool \<Rightarrow> bytes \<Rightarrow> nat \<Rightarrow> (nat, tlv_indices result) control" where
  "extension_indices_body v init d start_index =
     (if start_index < length d then
        (let ix = get_tlv_indices start_index in
         if length d < value_start ix then Return (Inl (Prog InvalidAccountData))
         else return_on_error (type_at d ix) (\<lambda>t.
           if t = v then Return (Inr ix)
           else if t = Uninitialized then
             (if init then Return (Inr ix) else Return (Inl (Token ExtensionNotFound)))
           else if get_account_type v \<noteq> get_account_type t then
             Return (Inl (Token ExtensionTypeMismatch))
           else Continue (value_start ix + length_at d ix)))
      else Return (Inl (Prog InvalidAccountData)))"

text \<open>The loop of \<open>get_tlv_data_info\<close>; the variables are \<open>extension_types\<close> and \<open>start_index\<close>.\<close>

definition tlv_data_info_body ::
    "bytes \<Rightarrow> extension_type list \<times> nat \<Rightarrow> (extension_type list \<times> nat, tlv_data_info result) control" where
  "tlv_data_info_body d = (\<lambda>(types, start_index).
     if start_index < length d then
       (let ix = get_tlv_indices start_index in
        if length d < length_start ix then Return (Inr \<lparr>info_types = types, used_len = type_start ix\<rparr>)
        else return_on_error (type_at d ix) (\<lambda>t.
          if t = Uninitialized then Return (Inr \<lparr>info_types = types, used_len = type_start ix\<rparr>)
          else if length d < value_start ix then Return (Inl (Prog InvalidAccountData))
          else (let value_end = value_start ix + length_at d ix in
                if value_end > length d then Return (Inl (Prog InvalidAccountData))
                else Continue (types @ [t], value_end))))
     else Return (Inr \<lparr>info_types = types, used_len = start_index\<rparr>))"

section \<open>Termination\<close>

text \<open>An iteration that continues has passed a type and a length, four bytes.\<close>

lemma run_extension_indices:
  assumes "length d < i + 4 * n" "0 < n"
  shows "run_loop n (extension_indices_body v init d) i = Some (get_extension_indices_from v init d i)"
  using assms
proof (induction n arbitrary: i)
  case (Suc n)
  show ?case
  proof (cases "type_at d (get_tlv_indices i)")
    case (Inl e)
    then show ?thesis
      by (subst get_extension_indices_from.simps) (simp add: extension_indices_body_def Let_def bindE_def)
  next
    case (Inr t)
    let ?i = "value_start (get_tlv_indices i) + length_at d (get_tlv_indices i)"
    have "run_loop n (extension_indices_body v init d) ?i = Some (get_extension_indices_from v init d ?i)"
      if "\<not> length d < value_start (get_tlv_indices i)"
      using Suc.prems that by (intro Suc.IH) (auto simp: get_tlv_indices_def)
    with Inr show ?thesis
      by (subst get_extension_indices_from.simps) (simp add: extension_indices_body_def Let_def bindE_def)
  qed
qed simp

lemma run_tlv_data_info:
  assumes "length d < i + 4 * n" "0 < n"
  shows "run_loop n (tlv_data_info_body d) (types, i) = Some (get_tlv_data_info_from d types i)"
  using assms
proof (induction n arbitrary: types i)
  case (Suc n)
  show ?case
  proof (cases "type_at d (get_tlv_indices i)")
    case (Inl e)
    then show ?thesis
      by (subst get_tlv_data_info_from.simps) (simp add: tlv_data_info_body_def Let_def bindE_def)
  next
    case (Inr t)
    let ?i = "value_start (get_tlv_indices i) + length_at d (get_tlv_indices i)"
    have "run_loop n (tlv_data_info_body d) (types @ [t], ?i) = Some (get_tlv_data_info_from d (types @ [t]) ?i)"
      if "?i \<le> length d"
      using Suc.prems that by (intro Suc.IH) (auto simp: get_tlv_indices_def)
    with Inr show ?thesis
      by (subst get_tlv_data_info_from.simps) (simp add: tlv_data_info_body_def Let_def bindE_def)
  qed
qed simp

text \<open>C28. The two loops over a TLV buffer return for every buffer, malformed ones included, after at most one iteration for
  every four bytes and one more, and their results are the ones of the recursive definitions that the rest of the
  library uses.\<close>

theorem tlv_loops_return:
  "run_loop (length d div 4 + 1) (extension_indices_body v init d) 0 = Some (get_extension_indices v d init) \<and>
   run_loop (length d div 4 + 1) (tlv_data_info_body d) ([], 0) = Some (get_tlv_data_info d)"
proof -
  have "length d < 0 + 4 * (length d div 4 + 1)" by presburger
  then show ?thesis
    using run_extension_indices [of d 0 "length d div 4 + 1" v init] run_tlv_data_info [of d 0 "length d div 4 + 1" "[]"]
    by (simp add: get_extension_indices_def get_tlv_data_info_def)
qed

end
