(* ===== verification/Builders.thy ===== *)
theory Builders
  imports Dispatch
begin

text \<open>
  What clients build: the functions of \<open>src/programs/src/instruction.rs\<close> that make an instruction, and what the
  program does when it is given one.
\<close>

section \<open>Instructions\<close>

text \<open>\<open>AccountMeta\<close> and \<open>Instruction\<close> of the SDK.\<close>

record account_meta =
  meta_key :: pubkey
  meta_signer :: bool
  meta_writable :: bool

definition meta_new :: "pubkey \<Rightarrow> bool \<Rightarrow> account_meta" where
  "meta_new k s = \<lparr>meta_key = k, meta_signer = s, meta_writable = True\<rparr>"

definition meta_readonly :: "pubkey \<Rightarrow> bool \<Rightarrow> account_meta" where
  "meta_readonly k s = \<lparr>meta_key = k, meta_signer = s, meta_writable = False\<rparr>"

record instruction =
  i_program :: pubkey
  i_accounts :: "account_meta list"
  i_data :: bytes

text \<open>The keys of the sysvars that instructions name.\<close>

record sysvars =
  rent_sysvar :: pubkey
  instructions_sysvar :: pubkey

text \<open>Every builder checks the program first and packs one instruction.\<close>

definition instruction_for :: "unit result \<Rightarrow> pubkey \<Rightarrow> account_meta list \<Rightarrow> bytes \<Rightarrow> instruction result" where
  "instruction_for check program_id accounts d =
     bindE check (\<lambda>_. Inr \<lparr>i_program = program_id, i_accounts = accounts, i_data = d\<rparr>)"

text \<open>An authority that signs itself or through the listed members of a multisignature account.\<close>

definition authority_metas :: "pubkey \<Rightarrow> pubkey list \<Rightarrow> account_meta list" where
  "authority_metas authority_pubkey signer_pubkeys =
     meta_readonly authority_pubkey (signer_pubkeys = []) # map (\<lambda>k. meta_readonly k True) signer_pubkeys"

section \<open>Initialisation\<close>

definition initialize_mint ::
    "env \<Rightarrow> sysvars \<Rightarrow> pubkey \<Rightarrow> pubkey \<Rightarrow> pubkey \<Rightarrow> pubkey option \<Rightarrow> u8 \<Rightarrow> instruction result" where
  "initialize_mint E V token_program_id mint_pubkey mint_authority_pubkey freeze_authority_pubkey dec =
     instruction_for (check_spl_token_program_account E token_program_id) token_program_id
       [meta_new mint_pubkey False, meta_readonly (rent_sysvar V) False]
       (pack (token_instruction.InitializeMint dec mint_authority_pubkey freeze_authority_pubkey))"

definition initialize_mint2 :: "env \<Rightarrow> pubkey \<Rightarrow> pubkey \<Rightarrow> pubkey \<Rightarrow> pubkey option \<Rightarrow> u8 \<Rightarrow> instruction result" where
  "initialize_mint2 E token_program_id mint_pubkey mint_authority_pubkey freeze_authority_pubkey dec =
     instruction_for (check_spl_token_program_account E token_program_id) token_program_id
       [meta_new mint_pubkey False]
       (pack (token_instruction.InitializeMint2 dec mint_authority_pubkey freeze_authority_pubkey))"

definition initialize_account :: "env \<Rightarrow> sysvars \<Rightarrow> pubkey \<Rightarrow> pubkey \<Rightarrow> pubkey \<Rightarrow> pubkey \<Rightarrow> instruction result" where
  "initialize_account E V token_program_id account_pubkey mint_pubkey owner_pubkey =
     instruction_for (check_spl_token_program_account E token_program_id) token_program_id
       [meta_new account_pubkey False, meta_readonly mint_pubkey False, meta_readonly owner_pubkey False,
        meta_readonly (rent_sysvar V) False]
       (pack token_instruction.InitializeAccount)"

definition initialize_account2 :: "env \<Rightarrow> sysvars \<Rightarrow> pubkey \<Rightarrow> pubkey \<Rightarrow> pubkey \<Rightarrow> pubkey \<Rightarrow> instruction result" where
  "initialize_account2 E V token_program_id account_pubkey mint_pubkey owner_pubkey =
     instruction_for (check_spl_token_program_account E token_program_id) token_program_id
       [meta_new account_pubkey False, meta_readonly mint_pubkey False, meta_readonly (rent_sysvar V) False]
       (pack (token_instruction.InitializeAccount2 owner_pubkey))"

definition initialize_account3 :: "env \<Rightarrow> pubkey \<Rightarrow> pubkey \<Rightarrow> pubkey \<Rightarrow> pubkey \<Rightarrow> instruction result" where
  "initialize_account3 E token_program_id account_pubkey mint_pubkey owner_pubkey =
     instruction_for (check_spl_token_program_account E token_program_id) token_program_id
       [meta_new account_pubkey False, meta_readonly mint_pubkey False]
       (pack (token_instruction.InitializeAccount3 owner_pubkey))"

definition multisig_request :: "pubkey list \<Rightarrow> u8 \<Rightarrow> unit result" where
  "multisig_request signer_pubkeys m =
     (if \<not> is_valid_signer_index (unat m) \<or> \<not> is_valid_signer_index (length signer_pubkeys)
         \<or> length signer_pubkeys < unat m then Inl (Prog MissingRequiredSignature) else Inr ())"

definition initialize_multisig :: "env \<Rightarrow> sysvars \<Rightarrow> pubkey \<Rightarrow> pubkey \<Rightarrow> pubkey list \<Rightarrow> u8 \<Rightarrow> instruction result" where
  "initialize_multisig E V token_program_id multisig_pubkey signer_pubkeys m =
     bindE (check_spl_token_program_account E token_program_id) (\<lambda>_.
       instruction_for (multisig_request signer_pubkeys m) token_program_id
         (meta_new multisig_pubkey False # meta_readonly (rent_sysvar V) False #
          map (\<lambda>k. meta_readonly k False) signer_pubkeys)
         (pack (token_instruction.InitializeMultisig m)))"

definition initialize_multisig2 :: "env \<Rightarrow> pubkey \<Rightarrow> pubkey \<Rightarrow> pubkey list \<Rightarrow> u8 \<Rightarrow> instruction result" where
  "initialize_multisig2 E token_program_id multisig_pubkey signer_pubkeys m =
     bindE (check_spl_token_program_account E token_program_id) (\<lambda>_.
       instruction_for (multisig_request signer_pubkeys m) token_program_id
         (meta_new multisig_pubkey False # map (\<lambda>k. meta_readonly k False) signer_pubkeys)
         (pack (token_instruction.InitializeMultisig2 m)))"

definition initialize_mint_close_authority :: "pubkey \<Rightarrow> pubkey \<Rightarrow> pubkey option \<Rightarrow> instruction result" where
  "initialize_mint_close_authority token_program_id mint_pubkey new_authority =
     instruction_for (check_program_account token_program_id) token_program_id [meta_new mint_pubkey False]
       (pack (token_instruction.InitializeMintCloseAuthority new_authority))"

definition initialize_immutable_owner :: "env \<Rightarrow> pubkey \<Rightarrow> pubkey \<Rightarrow> instruction result" where
  "initialize_immutable_owner E token_program_id token_account =
     instruction_for (check_spl_token_program_account E token_program_id) token_program_id [meta_new token_account False]
       (pack token_instruction.InitializeImmutableOwner)"

definition initialize_non_transferable_mint :: "pubkey \<Rightarrow> pubkey \<Rightarrow> instruction result" where
  "initialize_non_transferable_mint token_program_id mint_pubkey =
     instruction_for (check_program_account token_program_id) token_program_id [meta_new mint_pubkey False]
       (pack token_instruction.InitializeNonTransferableMint)"

definition initialize_permanent_delegate :: "pubkey \<Rightarrow> pubkey \<Rightarrow> pubkey \<Rightarrow> instruction result" where
  "initialize_permanent_delegate token_program_id mint_pubkey new_delegate =
     instruction_for (check_program_account token_program_id) token_program_id [meta_new mint_pubkey False]
       (pack (token_instruction.InitializePermanentDelegate new_delegate))"

definition create_native_mint :: "env \<Rightarrow> pubkey \<Rightarrow> pubkey \<Rightarrow> instruction result" where
  "create_native_mint E token_program_id payer =
     instruction_for (check_program_account token_program_id) token_program_id
       [meta_new payer True, meta_new native_mint_id False, meta_readonly (system_program_id E) False]
       (pack token_instruction.CreateNativeMint)"

section \<open>Transfers, allowances and authorities\<close>

definition transfer ::
    "env \<Rightarrow> pubkey \<Rightarrow> pubkey \<Rightarrow> pubkey \<Rightarrow> pubkey \<Rightarrow> pubkey list \<Rightarrow> u64 \<Rightarrow> instruction result" where
  "transfer E token_program_id source_pubkey destination_pubkey authority_pubkey signer_pubkeys amt =
     instruction_for (check_spl_token_program_account E token_program_id) token_program_id
       (meta_new source_pubkey False # meta_new destination_pubkey False # authority_metas authority_pubkey signer_pubkeys)
       (pack (token_instruction.Transfer amt))"

definition transfer_checked ::
    "env \<Rightarrow> pubkey \<Rightarrow> pubkey \<Rightarrow> pubkey \<Rightarrow> pubkey \<Rightarrow> pubkey \<Rightarrow> pubkey list \<Rightarrow> u64 \<Rightarrow> u8 \<Rightarrow> instruction result" where
  "transfer_checked E token_program_id source_pubkey mint_pubkey destination_pubkey authority_pubkey signer_pubkeys amt dec =
     instruction_for (check_spl_token_program_account E token_program_id) token_program_id
       (meta_new source_pubkey False # meta_readonly mint_pubkey False # meta_new destination_pubkey False #
        authority_metas authority_pubkey signer_pubkeys)
       (pack (token_instruction.TransferChecked amt dec))"

definition approve ::
    "env \<Rightarrow> pubkey \<Rightarrow> pubkey \<Rightarrow> pubkey \<Rightarrow> pubkey \<Rightarrow> pubkey list \<Rightarrow> u64 \<Rightarrow> instruction result" where
  "approve E token_program_id source_pubkey delegate_pubkey owner_pubkey signer_pubkeys amt =
     instruction_for (check_spl_token_program_account E token_program_id) token_program_id
       (meta_new source_pubkey False # meta_readonly delegate_pubkey False # authority_metas owner_pubkey signer_pubkeys)
       (pack (token_instruction.Approve amt))"

definition approve_checked ::
    "env \<Rightarrow> pubkey \<Rightarrow> pubkey \<Rightarrow> pubkey \<Rightarrow> pubkey \<Rightarrow> pubkey \<Rightarrow> pubkey list \<Rightarrow> u64 \<Rightarrow> u8 \<Rightarrow> instruction result" where
  "approve_checked E token_program_id source_pubkey mint_pubkey delegate_pubkey owner_pubkey signer_pubkeys amt dec =
     instruction_for (check_spl_token_program_account E token_program_id) token_program_id
       (meta_new source_pubkey False # meta_readonly mint_pubkey False # meta_readonly delegate_pubkey False #
        authority_metas owner_pubkey signer_pubkeys)
       (pack (token_instruction.ApproveChecked amt dec))"

definition revoke :: "env \<Rightarrow> pubkey \<Rightarrow> pubkey \<Rightarrow> pubkey \<Rightarrow> pubkey list \<Rightarrow> instruction result" where
  "revoke E token_program_id source_pubkey owner_pubkey signer_pubkeys =
     instruction_for (check_spl_token_program_account E token_program_id) token_program_id
       (meta_new source_pubkey False # authority_metas owner_pubkey signer_pubkeys)
       (pack token_instruction.Revoke)"

definition set_authority ::
    "env \<Rightarrow> pubkey \<Rightarrow> pubkey \<Rightarrow> pubkey option \<Rightarrow> authority_type \<Rightarrow> pubkey \<Rightarrow> pubkey list \<Rightarrow> instruction result" where
  "set_authority E token_program_id owned_pubkey new_authority_pubkey ty owner_pubkey signer_pubkeys =
     instruction_for (check_spl_token_program_account E token_program_id) token_program_id
       (meta_new owned_pubkey False # authority_metas owner_pubkey signer_pubkeys)
       (pack (token_instruction.SetAuthority ty new_authority_pubkey))"

section \<open>Supply and lifecycle\<close>

definition mint_to ::
    "env \<Rightarrow> pubkey \<Rightarrow> pubkey \<Rightarrow> pubkey \<Rightarrow> pubkey \<Rightarrow> pubkey list \<Rightarrow> u64 \<Rightarrow> instruction result" where
  "mint_to E token_program_id mint_pubkey account_pubkey owner_pubkey signer_pubkeys amt =
     instruction_for (check_spl_token_program_account E token_program_id) token_program_id
       (meta_new mint_pubkey False # meta_new account_pubkey False # authority_metas owner_pubkey signer_pubkeys)
       (pack (token_instruction.MintTo amt))"

definition mint_to_checked ::
    "env \<Rightarrow> pubkey \<Rightarrow> pubkey \<Rightarrow> pubkey \<Rightarrow> pubkey \<Rightarrow> pubkey list \<Rightarrow> u64 \<Rightarrow> u8 \<Rightarrow> instruction result" where
  "mint_to_checked E token_program_id mint_pubkey account_pubkey owner_pubkey signer_pubkeys amt dec =
     instruction_for (check_spl_token_program_account E token_program_id) token_program_id
       (meta_new mint_pubkey False # meta_new account_pubkey False # authority_metas owner_pubkey signer_pubkeys)
       (pack (token_instruction.MintToChecked amt dec))"

definition burn ::
    "env \<Rightarrow> pubkey \<Rightarrow> pubkey \<Rightarrow> pubkey \<Rightarrow> pubkey \<Rightarrow> pubkey list \<Rightarrow> u64 \<Rightarrow> instruction result" where
  "burn E token_program_id account_pubkey mint_pubkey authority_pubkey signer_pubkeys amt =
     instruction_for (check_spl_token_program_account E token_program_id) token_program_id
       (meta_new account_pubkey False # meta_new mint_pubkey False # authority_metas authority_pubkey signer_pubkeys)
       (pack (token_instruction.Burn amt))"

definition burn_checked ::
    "env \<Rightarrow> pubkey \<Rightarrow> pubkey \<Rightarrow> pubkey \<Rightarrow> pubkey \<Rightarrow> pubkey list \<Rightarrow> u64 \<Rightarrow> u8 \<Rightarrow> instruction result" where
  "burn_checked E token_program_id account_pubkey mint_pubkey authority_pubkey signer_pubkeys amt dec =
     instruction_for (check_spl_token_program_account E token_program_id) token_program_id
       (meta_new account_pubkey False # meta_new mint_pubkey False # authority_metas authority_pubkey signer_pubkeys)
       (pack (token_instruction.BurnChecked amt dec))"

definition close_account :: "env \<Rightarrow> pubkey \<Rightarrow> pubkey \<Rightarrow> pubkey \<Rightarrow> pubkey \<Rightarrow> pubkey list \<Rightarrow> instruction result" where
  "close_account E token_program_id account_pubkey destination_pubkey owner_pubkey signer_pubkeys =
     instruction_for (check_spl_token_program_account E token_program_id) token_program_id
       (meta_new account_pubkey False # meta_new destination_pubkey False # authority_metas owner_pubkey signer_pubkeys)
       (pack token_instruction.CloseAccount)"

definition freeze_account :: "env \<Rightarrow> pubkey \<Rightarrow> pubkey \<Rightarrow> pubkey \<Rightarrow> pubkey \<Rightarrow> pubkey list \<Rightarrow> instruction result" where
  "freeze_account E token_program_id account_pubkey mint_pubkey owner_pubkey signer_pubkeys =
     instruction_for (check_spl_token_program_account E token_program_id) token_program_id
       (meta_new account_pubkey False # meta_readonly mint_pubkey False # authority_metas owner_pubkey signer_pubkeys)
       (pack token_instruction.FreezeAccount)"

definition thaw_account :: "env \<Rightarrow> pubkey \<Rightarrow> pubkey \<Rightarrow> pubkey \<Rightarrow> pubkey \<Rightarrow> pubkey list \<Rightarrow> instruction result" where
  "thaw_account E token_program_id account_pubkey mint_pubkey owner_pubkey signer_pubkeys =
     instruction_for (check_spl_token_program_account E token_program_id) token_program_id
       (meta_new account_pubkey False # meta_readonly mint_pubkey False # authority_metas owner_pubkey signer_pubkeys)
       (pack token_instruction.ThawAccount)"

definition sync_native :: "env \<Rightarrow> pubkey \<Rightarrow> pubkey \<Rightarrow> instruction result" where
  "sync_native E token_program_id account_pubkey =
     instruction_for (check_spl_token_program_account E token_program_id) token_program_id [meta_new account_pubkey False]
       (pack token_instruction.SyncNative)"

definition reallocate ::
    "env \<Rightarrow> pubkey \<Rightarrow> pubkey \<Rightarrow> pubkey \<Rightarrow> pubkey \<Rightarrow> pubkey list \<Rightarrow> extension_type list \<Rightarrow> instruction result" where
  "reallocate E token_program_id account_pubkey payer owner_pubkey signer_pubkeys types =
     instruction_for (check_program_account token_program_id) token_program_id
       (meta_new account_pubkey False # meta_new payer True # meta_readonly (system_program_id E) False #
        authority_metas owner_pubkey signer_pubkeys)
       (pack (token_instruction.Reallocate types))"

definition withdraw_excess_lamports :: "pubkey \<Rightarrow> pubkey \<Rightarrow> pubkey \<Rightarrow> pubkey \<Rightarrow> pubkey list \<Rightarrow> instruction result" where
  "withdraw_excess_lamports token_program_id source_account destination_account authority_pubkey signer_pubkeys =
     instruction_for (check_program_account token_program_id) token_program_id
       (meta_new source_account False # meta_new destination_account False # authority_metas authority_pubkey signer_pubkeys)
       (pack token_instruction.WithdrawExcessLamports)"

section \<open>Queries\<close>

definition get_account_data_size :: "env \<Rightarrow> pubkey \<Rightarrow> pubkey \<Rightarrow> extension_type list \<Rightarrow> instruction result" where
  "get_account_data_size E token_program_id mint_pubkey types =
     instruction_for (check_spl_token_program_account E token_program_id) token_program_id [meta_readonly mint_pubkey False]
       (pack (token_instruction.GetAccountDataSize types))"

definition amount_to_ui_amount :: "env \<Rightarrow> pubkey \<Rightarrow> pubkey \<Rightarrow> u64 \<Rightarrow> instruction result" where
  "amount_to_ui_amount E token_program_id mint_pubkey amt =
     instruction_for (check_spl_token_program_account E token_program_id) token_program_id [meta_readonly mint_pubkey False]
       (pack (token_instruction.AmountToUiAmount amt))"

definition ui_amount_to_amount :: "env \<Rightarrow> pubkey \<Rightarrow> pubkey \<Rightarrow> bytes \<Rightarrow> instruction result" where
  "ui_amount_to_amount E token_program_id mint_pubkey ui_amount =
     instruction_for (check_spl_token_program_account E token_program_id) token_program_id [meta_readonly mint_pubkey False]
       (pack (token_instruction.UiAmountToAmount ui_amount))"

section \<open>What the program does with them\<close>

text \<open>The runtime passes the accounts that an instruction names, each with whether its key signed the transaction; a
  transaction is only run when every account that is named as a signer did.\<close>

definition info_of :: "(pubkey \<Rightarrow> bool) \<Rightarrow> pubkey \<Rightarrow> account_info" where
  "info_of has_signed k = \<lparr>key = k, is_signer = has_signed k\<rparr>"

definition execute :: "env \<Rightarrow> foreign \<Rightarrow> (pubkey \<Rightarrow> bool) \<Rightarrow> instruction \<Rightarrow> world \<Rightarrow> world result" where
  "execute E F has_signed ins =
     process E F (i_program ins) (map (\<lambda>m. info_of has_signed (meta_key m)) (i_accounts ins)) (i_data ins)"

definition signatures_present :: "(pubkey \<Rightarrow> bool) \<Rightarrow> instruction \<Rightarrow> bool" where
  "signatures_present has_signed ins \<longleftrightarrow> (\<forall>m\<in>set (i_accounts ins). meta_signer m \<longrightarrow> has_signed (meta_key m))"

text \<open>A request asks for a handler: it can be built, and what is built makes the program run the handler on the
  accounts with the given keys.\<close>

definition asks_for ::
    "env \<Rightarrow> foreign \<Rightarrow> (pubkey \<Rightarrow> bool) \<Rightarrow> instruction result \<Rightarrow> pubkey list \<Rightarrow>
     (account_info list \<Rightarrow> world \<Rightarrow> world result) \<Rightarrow> bool" where
  "asks_for E F has_signed request ks handler \<longleftrightarrow>
     (\<exists>ins. request = Inr ins \<and> (\<forall>w. execute E F has_signed ins w = handler (map (info_of has_signed) ks) w))"

lemma check_spl_token_2022 [simp]: "check_spl_token_program_account E token_2022_id = Inr ()"
  by (simp add: check_spl_token_program_account_def)

lemma authority_metas_keys [simp]: "map (f \<circ> meta_key) (authority_metas k ks) = f k # map f ks"
  "map (\<lambda>m. f (meta_key m)) (authority_metas k ks) = f k # map f ks"
  by (simp_all add: authority_metas_def meta_readonly_def comp_def)

lemma meta_simps [simp]:
  "meta_key (meta_new k s) = k" "meta_key (meta_readonly k s) = k" "meta_signer (meta_new k s) = s" "meta_signer (meta_readonly k s) = s"
  by (simp_all add: meta_new_def meta_readonly_def)

lemma asks_for_packed:
  assumes "check = Inr ()" "\<And>s. i = UiAmountToAmount s \<Longrightarrow> valid_utf8 s"
    "map (\<lambda>m. info_of has_signed (meta_key m)) ms = map (info_of has_signed) ks"
    "\<And>as w. handler as w = run_instruction E F token_2022_id as [] i w"
  shows "asks_for E F has_signed (instruction_for check token_2022_id ms (pack i)) ks handler"
  using process_packed [OF assms(2) disjI2 [OF refl], of i E F token_2022_id "map (info_of has_signed) ks"] assms(1,3,4)
  by (simp add: asks_for_def instruction_for_def execute_def)

lemmas builder_defs = initialize_mint_def initialize_mint2_def initialize_account_def initialize_account2_def
  initialize_account3_def initialize_multisig_def initialize_multisig2_def initialize_mint_close_authority_def
  initialize_immutable_owner_def initialize_non_transferable_mint_def initialize_permanent_delegate_def
  create_native_mint_def transfer_def transfer_checked_def approve_def approve_checked_def revoke_def set_authority_def
  mint_to_def mint_to_checked_def burn_def burn_checked_def close_account_def freeze_account_def thaw_account_def
  sync_native_def reallocate_def withdraw_excess_lamports_def get_account_data_size_def amount_to_ui_amount_def
  ui_amount_to_amount_def


section \<open>Authorities of clients\<close>

text \<open>A client is in control of an authority: it names no other signer and signs as the authority itself, or the
  authority is a multisignature account of the program and enough of its members are named.\<close>

definition controls :: "world \<Rightarrow> pubkey \<Rightarrow> pubkey list \<Rightarrow> bool" where
  "controls w k signer_pubkeys \<longleftrightarrow>
     (let d = acct_data (cells w k); ks = multisig_keys d in
      if acct_owner (cells w k) = token_2022_id \<and> length d = PodMultisig_SIZE_OF
      then unat (multisig_n (pod_multisig_of_bytes d)) \<le> MAX_SIGNERS \<and>
        unat (multisig_m (pod_multisig_of_bytes d)) \<le> card {i. i < length ks \<and> ks ! i \<in> set signer_pubkeys}
      else signer_pubkeys = [])"

lemma info_of_simps [simp]:
  "key (info_of f k) = k" "is_signer (info_of f k) = f k" "data_of w (info_of f k) = acct_data (cells w k)"
  "owner_of w (info_of f k) = acct_owner (cells w k)"
  by (simp_all add: info_of_def data_of_def owner_of_def)

lemma authority_validated:
  assumes "controls w k ss" "ss = [] \<longrightarrow> has_signed k" "\<forall>s\<in>set ss. has_signed s"
  shows "validate_owner E token_2022_id k (info_of has_signed k) (length (data_of w (info_of has_signed k)))
    (map (info_of has_signed) ss) w = Inr ()"
proof (cases "acct_owner (cells w k) = token_2022_id \<and> length (acct_data (cells w k)) = PodMultisig_SIZE_OF")
  case True
  let ?ks = "multisig_keys (acct_data (cells w k))"
  have "signed_positions ?ks (map (info_of has_signed) ss) = {i. i < length ?ks \<and> ?ks ! i \<in> set ss}"
    using assms(3) by (auto simp: signed_positions_def)
  then have "consents token_2022_id k (info_of has_signed k) (map (info_of has_signed) ss) w"
    using assms(1) True by (simp add: consents_def controls_def Let_def)
  then show ?thesis
    by (rule consents_validated) (use assms True in \<open>auto simp: controls_def Let_def no_unsigned_match_def\<close>)
next
  case False
  then show ?thesis using assms(1,2) by (auto simp: controls_def Let_def validate_owner_def)
qed

lemma signatures_of_authority:
  assumes "signatures_present has_signed ins" "i_accounts ins = ms @ authority_metas k ss"
  shows "ss = [] \<longrightarrow> has_signed k" "\<forall>s\<in>set ss. has_signed s"
  using assms by (simp_all add: signatures_present_def authority_metas_def ball_Un)


text \<open>Key 30, which owns the account 7, is a two-of-three multisignature account, and two of its members sign.\<close>

definition shared_ledger :: world where
  "shared_ledger = ledger (\<lambda>k. if k = 7 then pod_account_bytes (holder 30 100)
     else if k = 8 then pod_account_bytes (holder 31 5) else if k = 30 then pod_multisig_bytes two_of_three else [])"


end
