(* ===== verification/Extension_Builders.thy ===== *)
theory Extension_Builders
  imports Builders
begin

text \<open>
  What clients build for the extensions: the functions of \<open>src/programs/src/extension/*/instruction.rs\<close>, those of
  confidential transfers excepted.
\<close>

section \<open>Encoding\<close>

definition switch_instruction_into :: "switch_instruction \<Rightarrow> u8" where
  "switch_instruction_into t = (case t of Enable \<Rightarrow> 0 | Disable \<Rightarrow> 1)"

definition setup_instruction_into :: "setup_instruction \<Rightarrow> u8" where
  "setup_instruction_into t = (case t of setup_instruction.Initialize \<Rightarrow> 0 | Update \<Rightarrow> 1)"

text \<open>The prefix of the extension, the type of the instruction and the bytes of its data.\<close>

definition encode_instruction :: "pubkey \<Rightarrow> account_meta list \<Rightarrow> token_instruction \<Rightarrow> u8 \<Rightarrow> bytes \<Rightarrow> instruction" where
  "encode_instruction token_program_id metas prefix ty d =
     \<lparr>i_program = token_program_id, i_accounts = metas, i_data = pack prefix @ ty # d\<rparr>"

section \<open>Switches of an account\<close>

definition enable_required_transfer_memos :: "pubkey \<Rightarrow> pubkey \<Rightarrow> pubkey \<Rightarrow> pubkey list \<Rightarrow> instruction result" where
  "enable_required_transfer_memos token_program_id account owner_pubkey signer_pubkeys =
     bindE (check_program_account token_program_id) (\<lambda>_.
       Inr (encode_instruction token_program_id (meta_new account False # authority_metas owner_pubkey signer_pubkeys)
         token_instruction.MemoTransferExtension (switch_instruction_into Enable) []))"

definition disable_required_transfer_memos :: "pubkey \<Rightarrow> pubkey \<Rightarrow> pubkey \<Rightarrow> pubkey list \<Rightarrow> instruction result" where
  "disable_required_transfer_memos token_program_id account owner_pubkey signer_pubkeys =
     bindE (check_program_account token_program_id) (\<lambda>_.
       Inr (encode_instruction token_program_id (meta_new account False # authority_metas owner_pubkey signer_pubkeys)
         token_instruction.MemoTransferExtension (switch_instruction_into Disable) []))"

definition enable_cpi_guard :: "pubkey \<Rightarrow> pubkey \<Rightarrow> pubkey \<Rightarrow> pubkey list \<Rightarrow> instruction result" where
  "enable_cpi_guard token_program_id account owner_pubkey signer_pubkeys =
     bindE (check_program_account token_program_id) (\<lambda>_.
       Inr (encode_instruction token_program_id (meta_new account False # authority_metas owner_pubkey signer_pubkeys)
         token_instruction.CpiGuardExtension (switch_instruction_into Enable) []))"

definition disable_cpi_guard :: "pubkey \<Rightarrow> pubkey \<Rightarrow> pubkey \<Rightarrow> pubkey list \<Rightarrow> instruction result" where
  "disable_cpi_guard token_program_id account owner_pubkey signer_pubkeys =
     bindE (check_program_account token_program_id) (\<lambda>_.
       Inr (encode_instruction token_program_id (meta_new account False # authority_metas owner_pubkey signer_pubkeys)
         token_instruction.CpiGuardExtension (switch_instruction_into Disable) []))"

section \<open>Default account state\<close>

definition encode_default_account_state ::
    "pubkey \<Rightarrow> account_meta list \<Rightarrow> setup_instruction \<Rightarrow> account_state \<Rightarrow> instruction" where
  "encode_default_account_state token_program_id metas ty st =
     \<lparr>i_program = token_program_id, i_accounts = metas,
      i_data = pack token_instruction.DefaultAccountStateExtension @ [setup_instruction_into ty, account_state_u8 st]\<rparr>"

definition initialize_default_account_state :: "pubkey \<Rightarrow> pubkey \<Rightarrow> account_state \<Rightarrow> instruction result" where
  "initialize_default_account_state token_program_id mint_pubkey st =
     bindE (check_program_account token_program_id) (\<lambda>_.
       Inr (encode_default_account_state token_program_id [meta_new mint_pubkey False] setup_instruction.Initialize st))"

definition update_default_account_state ::
    "pubkey \<Rightarrow> pubkey \<Rightarrow> pubkey \<Rightarrow> pubkey list \<Rightarrow> account_state \<Rightarrow> instruction result" where
  "update_default_account_state token_program_id mint_pubkey freeze_pubkey signer_pubkeys st =
     bindE (check_program_account token_program_id) (\<lambda>_.
       Inr (encode_default_account_state token_program_id (meta_new mint_pubkey False # authority_metas freeze_pubkey signer_pubkeys)
         Update st))"

section \<open>Interest-bearing mints\<close>

definition interest_bearing_instruction_initialize ::
    "env \<Rightarrow> pubkey \<Rightarrow> pubkey \<Rightarrow> pubkey option \<Rightarrow> u16 \<Rightarrow> instruction result" where
  "interest_bearing_instruction_initialize E token_program_id mint_pubkey rate_pubkey rate =
     bindE (check_program_account token_program_id) (\<lambda>_.
     bindE (optional_non_zero_pubkey E rate_pubkey) (\<lambda>k.
       Inr (encode_instruction token_program_id [meta_new mint_pubkey False] token_instruction.InterestBearingMintExtension
         (setup_instruction_into setup_instruction.Initialize) (word_le k @ word_le rate))))"

definition interest_bearing_instruction_update_rate ::
    "pubkey \<Rightarrow> pubkey \<Rightarrow> pubkey \<Rightarrow> pubkey list \<Rightarrow> u16 \<Rightarrow> instruction result" where
  "interest_bearing_instruction_update_rate token_program_id mint_pubkey rate_pubkey signer_pubkeys rate =
     bindE (check_program_account token_program_id) (\<lambda>_.
       Inr (encode_instruction token_program_id (meta_new mint_pubkey False # authority_metas rate_pubkey signer_pubkeys)
         token_instruction.InterestBearingMintExtension (setup_instruction_into Update) (word_le rate)))"

section \<open>Pointers and transfer hooks\<close>

definition metadata_pointer_instruction_initialize ::
    "env \<Rightarrow> pubkey \<Rightarrow> pubkey \<Rightarrow> pubkey option \<Rightarrow> pubkey option \<Rightarrow> instruction result" where
  "metadata_pointer_instruction_initialize E token_program_id mint_pubkey authority_pubkey metadata_address =
     bindE (check_program_account token_program_id) (\<lambda>_.
     bindE (optional_non_zero_pubkey E authority_pubkey) (\<lambda>k.
     bindE (optional_non_zero_pubkey E metadata_address) (\<lambda>a.
       Inr (encode_instruction token_program_id [meta_new mint_pubkey False] token_instruction.MetadataPointerExtension
         (setup_instruction_into setup_instruction.Initialize) (word_le k @ word_le a)))))"

definition metadata_pointer_instruction_update ::
    "env \<Rightarrow> pubkey \<Rightarrow> pubkey \<Rightarrow> pubkey \<Rightarrow> pubkey list \<Rightarrow> pubkey option \<Rightarrow> instruction result" where
  "metadata_pointer_instruction_update E token_program_id mint_pubkey authority_pubkey signer_pubkeys metadata_address =
     bindE (check_program_account token_program_id) (\<lambda>_.
     bindE (optional_non_zero_pubkey E metadata_address) (\<lambda>a.
       Inr (encode_instruction token_program_id (meta_new mint_pubkey False # authority_metas authority_pubkey signer_pubkeys)
         token_instruction.MetadataPointerExtension (setup_instruction_into Update) (word_le a))))"

definition group_pointer_instruction_initialize ::
    "env \<Rightarrow> pubkey \<Rightarrow> pubkey \<Rightarrow> pubkey option \<Rightarrow> pubkey option \<Rightarrow> instruction result" where
  "group_pointer_instruction_initialize E token_program_id mint_pubkey authority_pubkey group_address =
     bindE (check_program_account token_program_id) (\<lambda>_.
     bindE (optional_non_zero_pubkey E authority_pubkey) (\<lambda>k.
     bindE (optional_non_zero_pubkey E group_address) (\<lambda>a.
       Inr (encode_instruction token_program_id [meta_new mint_pubkey False] token_instruction.GroupPointerExtension
         (setup_instruction_into setup_instruction.Initialize) (word_le k @ word_le a)))))"

definition group_pointer_instruction_update ::
    "env \<Rightarrow> pubkey \<Rightarrow> pubkey \<Rightarrow> pubkey \<Rightarrow> pubkey list \<Rightarrow> pubkey option \<Rightarrow> instruction result" where
  "group_pointer_instruction_update E token_program_id mint_pubkey authority_pubkey signer_pubkeys group_address =
     bindE (check_program_account token_program_id) (\<lambda>_.
     bindE (optional_non_zero_pubkey E group_address) (\<lambda>a.
       Inr (encode_instruction token_program_id (meta_new mint_pubkey False # authority_metas authority_pubkey signer_pubkeys)
         token_instruction.GroupPointerExtension (setup_instruction_into Update) (word_le a))))"

definition group_member_pointer_instruction_initialize ::
    "env \<Rightarrow> pubkey \<Rightarrow> pubkey \<Rightarrow> pubkey option \<Rightarrow> pubkey option \<Rightarrow> instruction result" where
  "group_member_pointer_instruction_initialize E token_program_id mint_pubkey authority_pubkey member_address =
     bindE (check_program_account token_program_id) (\<lambda>_.
     bindE (optional_non_zero_pubkey E authority_pubkey) (\<lambda>k.
     bindE (optional_non_zero_pubkey E member_address) (\<lambda>a.
       Inr (encode_instruction token_program_id [meta_new mint_pubkey False] token_instruction.GroupMemberPointerExtension
         (setup_instruction_into setup_instruction.Initialize) (word_le k @ word_le a)))))"

definition group_member_pointer_instruction_update ::
    "env \<Rightarrow> pubkey \<Rightarrow> pubkey \<Rightarrow> pubkey \<Rightarrow> pubkey list \<Rightarrow> pubkey option \<Rightarrow> instruction result" where
  "group_member_pointer_instruction_update E token_program_id mint_pubkey authority_pubkey signer_pubkeys member_address =
     bindE (check_program_account token_program_id) (\<lambda>_.
     bindE (optional_non_zero_pubkey E member_address) (\<lambda>a.
       Inr (encode_instruction token_program_id (meta_new mint_pubkey False # authority_metas authority_pubkey signer_pubkeys)
         token_instruction.GroupMemberPointerExtension (setup_instruction_into Update) (word_le a))))"

definition transfer_hook_instruction_initialize ::
    "env \<Rightarrow> pubkey \<Rightarrow> pubkey \<Rightarrow> pubkey option \<Rightarrow> pubkey option \<Rightarrow> instruction result" where
  "transfer_hook_instruction_initialize E token_program_id mint_pubkey authority_pubkey hook_program =
     bindE (check_program_account token_program_id) (\<lambda>_.
     bindE (optional_non_zero_pubkey E authority_pubkey) (\<lambda>k.
     bindE (optional_non_zero_pubkey E hook_program) (\<lambda>a.
       Inr (encode_instruction token_program_id [meta_new mint_pubkey False] token_instruction.TransferHookExtension
         (setup_instruction_into setup_instruction.Initialize) (word_le k @ word_le a)))))"

definition transfer_hook_instruction_update ::
    "env \<Rightarrow> pubkey \<Rightarrow> pubkey \<Rightarrow> pubkey \<Rightarrow> pubkey list \<Rightarrow> pubkey option \<Rightarrow> instruction result" where
  "transfer_hook_instruction_update E token_program_id mint_pubkey authority_pubkey signer_pubkeys hook_program =
     bindE (check_program_account token_program_id) (\<lambda>_.
     bindE (optional_non_zero_pubkey E hook_program) (\<lambda>a.
       Inr (encode_instruction token_program_id (meta_new mint_pubkey False # authority_metas authority_pubkey signer_pubkeys)
         token_instruction.TransferHookExtension (setup_instruction_into Update) (word_le a))))"

section \<open>Transfer fees\<close>

definition encode_instruction_data :: "transfer_fee_instruction \<Rightarrow> bytes" where
  "encode_instruction_data i = pack token_instruction.TransferFeeExtension @ pack_transfer_fee_instruction i"

definition initialize_transfer_fee_config ::
    "pubkey \<Rightarrow> pubkey \<Rightarrow> pubkey option \<Rightarrow> pubkey option \<Rightarrow> u16 \<Rightarrow> u64 \<Rightarrow> instruction result" where
  "initialize_transfer_fee_config token_program_id mint_pubkey config_pubkey withdraw_pubkey bps maximum =
     instruction_for (check_program_account token_program_id) token_program_id [meta_new mint_pubkey False]
       (encode_instruction_data (InitializeTransferFeeConfig config_pubkey withdraw_pubkey bps maximum))"

definition transfer_checked_with_fee ::
    "pubkey \<Rightarrow> pubkey \<Rightarrow> pubkey \<Rightarrow> pubkey \<Rightarrow> pubkey \<Rightarrow> pubkey list \<Rightarrow> u64 \<Rightarrow> u8 \<Rightarrow> u64 \<Rightarrow> instruction result" where
  "transfer_checked_with_fee token_program_id source mint_pubkey destination authority_pubkey signer_pubkeys amt dec fee =
     instruction_for (check_program_account token_program_id) token_program_id
       (meta_new source False # meta_readonly mint_pubkey False # meta_new destination False #
        authority_metas authority_pubkey signer_pubkeys)
       (encode_instruction_data (TransferCheckedWithFee amt dec fee))"

definition withdraw_withheld_tokens_from_mint :: "pubkey \<Rightarrow> pubkey \<Rightarrow> pubkey \<Rightarrow> pubkey \<Rightarrow> pubkey list \<Rightarrow> instruction result" where
  "withdraw_withheld_tokens_from_mint token_program_id mint_pubkey destination authority_pubkey signer_pubkeys =
     instruction_for (check_program_account token_program_id) token_program_id
       (meta_new mint_pubkey False # meta_new destination False # authority_metas authority_pubkey signer_pubkeys)
       (encode_instruction_data WithdrawWithheldTokensFromMint)"

definition withdraw_withheld_tokens_from_accounts ::
    "pubkey \<Rightarrow> pubkey \<Rightarrow> pubkey \<Rightarrow> pubkey \<Rightarrow> pubkey list \<Rightarrow> pubkey list \<Rightarrow> instruction result" where
  "withdraw_withheld_tokens_from_accounts token_program_id mint_pubkey destination authority_pubkey signer_pubkeys sources =
     bindE (check_program_account token_program_id) (\<lambda>_.
       instruction_for (if 255 < length sources then Inl (Prog InvalidInstructionData) else Inr ()) token_program_id
         (meta_readonly mint_pubkey False # meta_new destination False # authority_metas authority_pubkey signer_pubkeys @
          map (\<lambda>s. meta_new s False) sources)
         (encode_instruction_data (WithdrawWithheldTokensFromAccounts (of_nat (length sources)))))"

definition harvest_withheld_tokens_to_mint :: "pubkey \<Rightarrow> pubkey \<Rightarrow> pubkey list \<Rightarrow> instruction result" where
  "harvest_withheld_tokens_to_mint token_program_id mint_pubkey sources =
     instruction_for (check_program_account token_program_id) token_program_id
       (meta_new mint_pubkey False # map (\<lambda>s. meta_new s False) sources)
       (encode_instruction_data HarvestWithheldTokensToMint)"

definition set_transfer_fee :: "pubkey \<Rightarrow> pubkey \<Rightarrow> pubkey \<Rightarrow> pubkey list \<Rightarrow> u16 \<Rightarrow> u64 \<Rightarrow> instruction result" where
  "set_transfer_fee token_program_id mint_pubkey authority_pubkey signer_pubkeys bps maximum =
     instruction_for (check_program_account token_program_id) token_program_id
       (meta_new mint_pubkey False # authority_metas authority_pubkey signer_pubkeys)
       (encode_instruction_data (SetTransferFee bps maximum))"

section \<open>What the program does with them\<close>

lemma check_token_2022: "check_program_account token_2022_id = Inr ()"
  by simp

lemma option_of_non_zero_try [simp]: "optional_non_zero_pubkey E (option_of_non_zero k) = Inr k"
  by (simp add: optional_non_zero_pubkey_def option_of_non_zero_def)

lemma instruction_types_into [simp]:
  "switch_instruction_try_from (switch_instruction_into t) = Some t"
  "setup_instruction_try_from (setup_instruction_into u) = Some u"
  by (cases t; simp add: switch_instruction_into_def switch_instruction_try_from_def)
     (cases u; simp add: setup_instruction_into_def setup_instruction_try_from_def)

lemma asks_for_prefixed:
  assumes "is_prefix i" "map (\<lambda>m. info_of f (meta_key m)) ms = map (info_of f) ks"
    "\<And>as w. handler as w = run_instruction E F token_2022_id as rest i w"
  shows "asks_for E F f (Inr \<lparr>i_program = token_2022_id, i_accounts = ms, i_data = pack i @ rest\<rparr>) ks handler"
proof -
  have "process E F token_2022_id as (pack i @ rest) w = run_instruction E F token_2022_id as rest i w" for as w
    by (rule process_packed) (use assms(1) in \<open>auto simp: is_prefix_def\<close>)
  with assms(2,3) show ?thesis by (simp add: asks_for_def execute_def)
qed

lemma run_prefixed:
  "run_instruction E F p as rest token_instruction.MemoTransferExtension = memo_transfer_process_instruction E p as rest"
  "run_instruction E F p as rest token_instruction.CpiGuardExtension = cpi_guard_process_instruction E p as rest"
  "run_instruction E F p as rest token_instruction.DefaultAccountStateExtension = default_account_state_process_instruction E p as rest"
  "run_instruction E F p as rest token_instruction.InterestBearingMintExtension = interest_bearing_mint_process_instruction E p as rest"
  "run_instruction E F p as rest token_instruction.MetadataPointerExtension = metadata_pointer_process_instruction E p as rest"
  "run_instruction E F p as rest token_instruction.GroupPointerExtension = group_pointer_process_instruction E p as rest"
  "run_instruction E F p as rest token_instruction.GroupMemberPointerExtension = group_member_pointer_process_instruction E p as rest"
  "run_instruction E F p as rest token_instruction.TransferHookExtension = transfer_hook_process_instruction E p as rest"
  "run_instruction E F p as rest token_instruction.TransferFeeExtension = transfer_fee_process_instruction E p as rest"
  by (simp_all add: run_instruction_def fun_eq_iff)

lemma unpack_packed_fee: "unpack_transfer_fee_instruction (pack_transfer_fee_instruction i) = Inr i"
  using unpack_transfer_fee_pack [of i "[]"] by simp

lemmas prefixed_defs = memo_transfer_process_instruction_def cpi_guard_process_instruction_def
  default_account_state_process_instruction_def decode_default_account_state_def interest_bearing_mint_process_instruction_def
  metadata_pointer_process_instruction_def group_pointer_process_instruction_def group_member_pointer_process_instruction_def
  transfer_hook_process_instruction_def transfer_fee_process_instruction_def two_keys_def is_prefix_def

lemmas extension_builder_defs = enable_required_transfer_memos_def disable_required_transfer_memos_def enable_cpi_guard_def
  disable_cpi_guard_def initialize_default_account_state_def update_default_account_state_def
  interest_bearing_instruction_initialize_def interest_bearing_instruction_update_rate_def
  metadata_pointer_instruction_initialize_def metadata_pointer_instruction_update_def
  group_pointer_instruction_initialize_def group_pointer_instruction_update_def
  group_member_pointer_instruction_initialize_def group_member_pointer_instruction_update_def
  transfer_hook_instruction_initialize_def transfer_hook_instruction_update_def
  initialize_transfer_fee_config_def transfer_checked_with_fee_def withdraw_withheld_tokens_from_mint_def
  withdraw_withheld_tokens_from_accounts_def harvest_withheld_tokens_to_mint_def set_transfer_fee_def

text \<open>What clients build for the extensions makes the program run the handler that was meant, with the arguments and
  the accounts that were given; an optional key that is absent arrives as the zero key.\<close>

theorem built_extension_instructions_run:
  "let A = asks_for E F has_signed; P = token_2022_id; opt = option_of_non_zero in
     A (enable_required_transfer_memos P a k ss) (a # k # ss) (\<lambda>as. process_toggle_required_memo_transfers E P as True) \<and>
     A (disable_required_transfer_memos P a k ss) (a # k # ss) (\<lambda>as. process_toggle_required_memo_transfers E P as False) \<and>
     A (enable_cpi_guard P a k ss) (a # k # ss) (\<lambda>as. process_toggle_cpi_guard E P as True) \<and>
     A (disable_cpi_guard P a k ss) (a # k # ss) (\<lambda>as. process_toggle_cpi_guard E P as False) \<and>
     A (initialize_default_account_state P a st) ([a]) (\<lambda>as. process_initialize_default_account_state E as st) \<and>
     A (update_default_account_state P a k ss st) (a # k # ss) (\<lambda>as. process_update_default_account_state E P as st) \<and>
     A (interest_bearing_instruction_initialize E P a (opt c) rate) ([a]) (\<lambda>as. interest_bearing_initialize E as c rate) \<and>
     A (interest_bearing_instruction_update_rate P a k ss rate) (a # k # ss) (\<lambda>as. interest_bearing_update_rate E P as rate) \<and>
     A (metadata_pointer_instruction_initialize E P a (opt c) (opt t)) ([a]) (\<lambda>as. metadata_pointer_initialize E as c t) \<and>
     A (metadata_pointer_instruction_update E P a k ss (opt t)) (a # k # ss) (\<lambda>as. metadata_pointer_update E P as t) \<and>
     A (group_pointer_instruction_initialize E P a (opt c) (opt t)) ([a]) (\<lambda>as. group_pointer_initialize E as c t) \<and>
     A (group_pointer_instruction_update E P a k ss (opt t)) (a # k # ss) (\<lambda>as. group_pointer_update E P as t) \<and>
     A (group_member_pointer_instruction_initialize E P a (opt c) (opt t)) ([a]) (\<lambda>as. group_member_pointer_initialize E as c t) \<and>
     A (group_member_pointer_instruction_update E P a k ss (opt t)) (a # k # ss) (\<lambda>as. group_member_pointer_update E P as t) \<and>
     A (transfer_hook_instruction_initialize E P a (opt c) (opt t)) ([a]) (\<lambda>as. transfer_hook_initialize E P as c t) \<and>
     A (transfer_hook_instruction_update E P a k ss (opt t)) (a # k # ss) (\<lambda>as. transfer_hook_update E P as t) \<and>
     A (initialize_transfer_fee_config P a c' t' bps m) ([a]) (\<lambda>as. process_initialize_transfer_fee_config E as c' t' bps m) \<and>
     A (transfer_checked_with_fee P a b d k ss n dec fee) (a # b # d # k # ss) (\<lambda>as. process_transfer E P as n (Some dec) (Some fee)) \<and>
     A (withdraw_withheld_tokens_from_mint P a b k ss) (a # b # k # ss) (\<lambda>as. process_withdraw_withheld_tokens_from_mint E P as) \<and>
     A (harvest_withheld_tokens_to_mint P a bs) (a # bs) (\<lambda>as. process_harvest_withheld_tokens_to_mint E as) \<and>
     A (set_transfer_fee P a k ss bps m) (a # k # ss) (\<lambda>as. process_set_transfer_fee E P as bps m)"
  unfolding Let_def extension_builder_defs instruction_for_def encode_instruction_def encode_default_account_state_def
    encode_instruction_data_def
  by (intro conjI; simp only: check_token_2022 bindE_simps option_of_non_zero_try; rule asks_for_prefixed;
      simp add: run_prefixed prefixed_defs slice_of_def check_token_2022 unpack_packed_fee
        del: pack_transfer_fee_instruction.simps)

text \<open>The sources of a withdrawal follow the signers, at most 255 of them.\<close>

lemma built_withdrawal_from_accounts_runs:
  "length sources \<le> 255 \<Longrightarrow>
   asks_for E F has_signed (withdraw_withheld_tokens_from_accounts token_2022_id a b k ss sources) (a # b # k # ss @ sources)
     (\<lambda>as. process_withdraw_withheld_tokens_from_accounts E token_2022_id as (of_nat (length sources)))"
  unfolding withdraw_withheld_tokens_from_accounts_def instruction_for_def encode_instruction_data_def
  by (simp only: check_token_2022 bindE_simps linorder_not_le [symmetric] simp_thms if_False; rule asks_for_prefixed;
      simp add: run_prefixed prefixed_defs check_token_2022 unpack_packed_fee comp_def
        del: pack_transfer_fee_instruction.simps)

end
