(* ===== verification/Confidential_Builders.thy ===== *)
theory Confidential_Builders
  imports Extension_Builders
begin

text \<open>
  What clients build for confidential transfers and their fees: the functions of
  \<open>src/programs/src/extension/confidential_transfer/instruction.rs\<close> and
  \<open>src/programs/src/extension/confidential_transfer_fee/instruction.rs\<close>.
\<close>

section \<open>Proofs and keys\<close>

text \<open>\<open>ProofLocation\<close> of \<open>proof.rs\<close>; an offset is the byte of an \<open>i8\<close>.\<close>

datatype 'd proof_location =
    InstructionOffset u8 'd
  | ContextStateAccount pubkey

definition proof_meta :: "sysvars \<Rightarrow> 'd proof_location \<Rightarrow> account_meta" where
  "proof_meta V proof_data_location = (case proof_data_location of
       InstructionOffset _ _ \<Rightarrow> meta_readonly (instructions_sysvar V) False
     | ContextStateAccount context_state_account \<Rightarrow> meta_readonly context_state_account False)"

definition proof_offset :: "'d proof_location \<Rightarrow> u8" where
  "proof_offset proof_data_location = (case proof_data_location of
       InstructionOffset proof_instruction_offset _ \<Rightarrow> proof_instruction_offset
     | ContextStateAccount _ \<Rightarrow> 0)"

text \<open>The constructors that append the proof instruction, which the SDK makes, right after their own.\<close>

definition with_proof ::
    "('d \<Rightarrow> instruction) \<Rightarrow> 'd proof_location \<Rightarrow> instruction result \<Rightarrow> instruction list result" where
  "with_proof verify proof_data_location inner =
     bindE inner (\<lambda>i. case proof_data_location of
       InstructionOffset proof_instruction_offset proof_data \<Rightarrow>
         if sint proof_instruction_offset \<noteq> 1 then Inl (Token InvalidProofInstructionOffset)
         else Inr [i, verify proof_data]
     | ContextStateAccount _ \<Rightarrow> Inr [i])"

text \<open>\<open>Option<ElGamalPubkey>.try_into()?\<close> for an \<open>OptionalNonZeroElGamalPubkey\<close>.\<close>

definition optional_non_zero_elgamal :: "env \<Rightarrow> bytes option \<Rightarrow> bytes result" where
  "optional_non_zero_elgamal E k = (case k of
     None \<Rightarrow> Inr (replicate (elgamal_pubkey_len E) 0) | Some b \<Rightarrow> if is_zeroed b then Inl (zero_key_error E) else Inr b)"

definition confidential_transfer_instruction_into :: "confidential_transfer_instruction \<Rightarrow> u8" where
  "confidential_transfer_instruction_into t = of_nat (index_of t confidential_transfer_instructions)"

definition confidential_transfer_fee_instruction_into :: "confidential_transfer_fee_instruction \<Rightarrow> u8" where
  "confidential_transfer_fee_instruction_into t = of_nat (index_of t confidential_transfer_fee_instructions)"

text \<open>An instruction of either extension for this program.\<close>

definition confidential_request ::
    "pubkey \<Rightarrow> account_meta list \<Rightarrow> confidential_transfer_instruction \<Rightarrow> bytes \<Rightarrow> instruction result" where
  "confidential_request token_program_id metas t d =
     bindE (check_program_account token_program_id) (\<lambda>_.
       Inr (encode_instruction token_program_id metas token_instruction.ConfidentialTransferExtension
         (confidential_transfer_instruction_into t) d))"

definition confidential_fee_request ::
    "pubkey \<Rightarrow> account_meta list \<Rightarrow> confidential_transfer_fee_instruction \<Rightarrow> bytes \<Rightarrow> instruction result" where
  "confidential_fee_request token_program_id metas t d =
     bindE (check_program_account token_program_id) (\<lambda>_.
       Inr (encode_instruction token_program_id metas token_instruction.ConfidentialTransferFeeExtension
         (confidential_transfer_fee_instruction_into t) d))"

section \<open>Mints and accounts\<close>

definition ct_initialize_mint ::
    "env \<Rightarrow> pubkey \<Rightarrow> pubkey \<Rightarrow> pubkey option \<Rightarrow> bool \<Rightarrow> bytes option \<Rightarrow> instruction result" where
  "ct_initialize_mint E token_program_id mint_pubkey authority_pubkey auto_approve auditor =
     bindE (check_program_account token_program_id) (\<lambda>_.
     bindE (optional_non_zero_pubkey E authority_pubkey) (\<lambda>k.
     bindE (optional_non_zero_elgamal E auditor) (\<lambda>aud.
       confidential_request token_program_id [meta_new mint_pubkey False] CtInitializeMint
         (word_le k @ [pod_of_bool E auto_approve] @ aud))))"

definition ct_update_mint ::
    "env \<Rightarrow> pubkey \<Rightarrow> pubkey \<Rightarrow> pubkey \<Rightarrow> pubkey list \<Rightarrow> bool \<Rightarrow> bytes option \<Rightarrow> instruction result" where
  "ct_update_mint E token_program_id mint_pubkey authority_pubkey multisig_signers auto_approve auditor =
     bindE (check_program_account token_program_id) (\<lambda>_.
     bindE (optional_non_zero_elgamal E auditor) (\<lambda>aud.
       confidential_request token_program_id (meta_new mint_pubkey False # authority_metas authority_pubkey multisig_signers)
         CtUpdateMint ([pod_of_bool E auto_approve] @ aud)))"

definition inner_configure_account ::
    "sysvars \<Rightarrow> pubkey \<Rightarrow> pubkey \<Rightarrow> pubkey \<Rightarrow> bytes \<Rightarrow> u64 \<Rightarrow> pubkey \<Rightarrow> pubkey list \<Rightarrow> 'd proof_location \<Rightarrow> instruction result" where
  "inner_configure_account V token_program_id token_account mint_pubkey decryptable_zero_balance maximum authority_pubkey
       multisig_signers proof_data_location =
     confidential_request token_program_id
       (meta_new token_account False # meta_readonly mint_pubkey False # proof_meta V proof_data_location #
        authority_metas authority_pubkey multisig_signers)
       CtConfigureAccount (decryptable_zero_balance @ word_le maximum @ [proof_offset proof_data_location])"

definition configure_account ::
    "('d \<Rightarrow> instruction) \<Rightarrow> sysvars \<Rightarrow> pubkey \<Rightarrow> pubkey \<Rightarrow> pubkey \<Rightarrow> bytes \<Rightarrow> u64 \<Rightarrow> pubkey \<Rightarrow> pubkey list \<Rightarrow>
     'd proof_location \<Rightarrow> instruction list result" where
  "configure_account verify_pubkey_validity V token_program_id token_account mint_pubkey decryptable_zero_balance maximum
       authority_pubkey multisig_signers proof_data_location =
     with_proof verify_pubkey_validity proof_data_location
       (inner_configure_account V token_program_id token_account mint_pubkey decryptable_zero_balance maximum
         authority_pubkey multisig_signers proof_data_location)"

definition ct_approve_account :: "pubkey \<Rightarrow> pubkey \<Rightarrow> pubkey \<Rightarrow> pubkey \<Rightarrow> pubkey list \<Rightarrow> instruction result" where
  "ct_approve_account token_program_id account_to_approve mint_pubkey authority_pubkey multisig_signers =
     confidential_request token_program_id
       (meta_new account_to_approve False # meta_readonly mint_pubkey False # authority_metas authority_pubkey multisig_signers)
       CtApproveAccount []"

definition inner_empty_account ::
    "sysvars \<Rightarrow> pubkey \<Rightarrow> pubkey \<Rightarrow> pubkey \<Rightarrow> pubkey list \<Rightarrow> 'd proof_location \<Rightarrow> instruction result" where
  "inner_empty_account V token_program_id token_account authority_pubkey multisig_signers proof_data_location =
     confidential_request token_program_id
       (meta_new token_account False # proof_meta V proof_data_location # authority_metas authority_pubkey multisig_signers)
       CtEmptyAccount [proof_offset proof_data_location]"

definition empty_account ::
    "('d \<Rightarrow> instruction) \<Rightarrow> sysvars \<Rightarrow> pubkey \<Rightarrow> pubkey \<Rightarrow> pubkey \<Rightarrow> pubkey list \<Rightarrow> 'd proof_location \<Rightarrow>
     instruction list result" where
  "empty_account verify_zero_balance V token_program_id token_account authority_pubkey multisig_signers proof_data_location =
     with_proof verify_zero_balance proof_data_location
       (inner_empty_account V token_program_id token_account authority_pubkey multisig_signers proof_data_location)"

section \<open>Deposits and withdrawals\<close>

definition ct_deposit :: "pubkey \<Rightarrow> pubkey \<Rightarrow> pubkey \<Rightarrow> u64 \<Rightarrow> u8 \<Rightarrow> pubkey \<Rightarrow> pubkey list \<Rightarrow> instruction result" where
  "ct_deposit token_program_id token_account mint_pubkey amt dec authority_pubkey multisig_signers =
     confidential_request token_program_id
       (meta_new token_account False # meta_readonly mint_pubkey False # authority_metas authority_pubkey multisig_signers)
       CtDeposit (word_le amt @ [dec])"

definition inner_withdraw ::
    "sysvars \<Rightarrow> pubkey \<Rightarrow> pubkey \<Rightarrow> pubkey \<Rightarrow> u64 \<Rightarrow> u8 \<Rightarrow> bytes \<Rightarrow> pubkey \<Rightarrow> pubkey list \<Rightarrow> 'd proof_location \<Rightarrow>
     instruction result" where
  "inner_withdraw V token_program_id token_account mint_pubkey amt dec new_decryptable authority_pubkey multisig_signers
       proof_data_location =
     confidential_request token_program_id
       (meta_new token_account False # meta_readonly mint_pubkey False # proof_meta V proof_data_location #
        authority_metas authority_pubkey multisig_signers)
       CtWithdraw (word_le amt @ [dec] @ new_decryptable @ [proof_offset proof_data_location])"

definition withdraw ::
    "('d \<Rightarrow> instruction) \<Rightarrow> sysvars \<Rightarrow> pubkey \<Rightarrow> pubkey \<Rightarrow> pubkey \<Rightarrow> u64 \<Rightarrow> u8 \<Rightarrow> bytes \<Rightarrow> pubkey \<Rightarrow> pubkey list \<Rightarrow>
     'd proof_location \<Rightarrow> instruction list result" where
  "withdraw verify_withdraw V token_program_id token_account mint_pubkey amt dec new_decryptable authority_pubkey
       multisig_signers proof_data_location =
     with_proof verify_withdraw proof_data_location
       (inner_withdraw V token_program_id token_account mint_pubkey amt dec new_decryptable authority_pubkey
         multisig_signers proof_data_location)"

definition inner_apply_pending_balance ::
    "pubkey \<Rightarrow> pubkey \<Rightarrow> u64 \<Rightarrow> bytes \<Rightarrow> pubkey \<Rightarrow> pubkey list \<Rightarrow> instruction result" where
  "inner_apply_pending_balance token_program_id token_account expected new_decryptable authority_pubkey multisig_signers =
     confidential_request token_program_id (meta_new token_account False # authority_metas authority_pubkey multisig_signers)
       CtApplyPendingBalance (word_le expected @ new_decryptable)"

definition ct_apply_pending_balance ::
    "pubkey \<Rightarrow> pubkey \<Rightarrow> u64 \<Rightarrow> bytes \<Rightarrow> pubkey \<Rightarrow> pubkey list \<Rightarrow> instruction result" where
  "ct_apply_pending_balance = inner_apply_pending_balance"

definition enable_or_disable_balance_credits ::
    "confidential_transfer_instruction \<Rightarrow> pubkey \<Rightarrow> pubkey \<Rightarrow> pubkey \<Rightarrow> pubkey list \<Rightarrow> instruction result" where
  "enable_or_disable_balance_credits t token_program_id token_account authority_pubkey multisig_signers =
     confidential_request token_program_id (meta_new token_account False # authority_metas authority_pubkey multisig_signers) t []"

definition enable_confidential_credits :: "pubkey \<Rightarrow> pubkey \<Rightarrow> pubkey \<Rightarrow> pubkey list \<Rightarrow> instruction result" where
  "enable_confidential_credits = enable_or_disable_balance_credits CtEnableConfidentialCredits"

definition disable_confidential_credits :: "pubkey \<Rightarrow> pubkey \<Rightarrow> pubkey \<Rightarrow> pubkey list \<Rightarrow> instruction result" where
  "disable_confidential_credits = enable_or_disable_balance_credits CtDisableConfidentialCredits"

definition enable_non_confidential_credits :: "pubkey \<Rightarrow> pubkey \<Rightarrow> pubkey \<Rightarrow> pubkey list \<Rightarrow> instruction result" where
  "enable_non_confidential_credits = enable_or_disable_balance_credits CtEnableNonConfidentialCredits"

definition disable_non_confidential_credits :: "pubkey \<Rightarrow> pubkey \<Rightarrow> pubkey \<Rightarrow> pubkey list \<Rightarrow> instruction result" where
  "disable_non_confidential_credits = enable_or_disable_balance_credits CtDisableNonConfidentialCredits"

section \<open>Transfers\<close>

definition inner_transfer ::
    "sysvars \<Rightarrow> pubkey \<Rightarrow> pubkey \<Rightarrow> pubkey \<Rightarrow> pubkey \<Rightarrow> bytes \<Rightarrow> pubkey \<Rightarrow> pubkey list \<Rightarrow> 'd proof_location \<Rightarrow>
     instruction result" where
  "inner_transfer V token_program_id source mint_pubkey destination new_decryptable authority_pubkey multisig_signers
       proof_data_location =
     confidential_request token_program_id
       (meta_new source False # meta_readonly mint_pubkey False # meta_new destination False #
        proof_meta V proof_data_location # authority_metas authority_pubkey multisig_signers)
       CtTransfer (new_decryptable @ [proof_offset proof_data_location])"

definition ct_transfer ::
    "('d \<Rightarrow> instruction) \<Rightarrow> sysvars \<Rightarrow> pubkey \<Rightarrow> pubkey \<Rightarrow> pubkey \<Rightarrow> pubkey \<Rightarrow> bytes \<Rightarrow> pubkey \<Rightarrow> pubkey list \<Rightarrow>
     'd proof_location \<Rightarrow> instruction list result" where
  "ct_transfer verify_transfer V token_program_id source mint_pubkey destination new_decryptable authority_pubkey
       multisig_signers proof_data_location =
     with_proof verify_transfer proof_data_location
       (inner_transfer V token_program_id source mint_pubkey destination new_decryptable authority_pubkey
         multisig_signers proof_data_location)"

text \<open>The same text again, for the proof data of a transfer with a fee.\<close>

definition inner_transfer_with_fee ::
    "sysvars \<Rightarrow> pubkey \<Rightarrow> pubkey \<Rightarrow> pubkey \<Rightarrow> pubkey \<Rightarrow> bytes \<Rightarrow> pubkey \<Rightarrow> pubkey list \<Rightarrow> 'd proof_location \<Rightarrow>
     instruction result" where
  "inner_transfer_with_fee V token_program_id source mint_pubkey destination new_decryptable authority_pubkey
       multisig_signers proof_data_location =
     confidential_request token_program_id
       (meta_new source False # meta_readonly mint_pubkey False # meta_new destination False #
        proof_meta V proof_data_location # authority_metas authority_pubkey multisig_signers)
       CtTransfer (new_decryptable @ [proof_offset proof_data_location])"

text \<open>The source passes the destination where the inner constructor takes the mint, and the mint as the destination.\<close>

definition ct_transfer_with_fee ::
    "('d \<Rightarrow> instruction) \<Rightarrow> sysvars \<Rightarrow> pubkey \<Rightarrow> pubkey \<Rightarrow> pubkey \<Rightarrow> pubkey \<Rightarrow> bytes \<Rightarrow> pubkey \<Rightarrow> pubkey list \<Rightarrow>
     'd proof_location \<Rightarrow> instruction list result" where
  "ct_transfer_with_fee verify_transfer_with_fee V token_program_id source mint_pubkey destination new_decryptable
       authority_pubkey multisig_signers proof_data_location =
     with_proof verify_transfer_with_fee proof_data_location
       (inner_transfer_with_fee V token_program_id source destination mint_pubkey new_decryptable authority_pubkey
         multisig_signers proof_data_location)"

section \<open>Split proofs\<close>

record close_split_accounts =
  cs_lamport_destination :: pubkey
  cs_zk_token_proof_program :: pubkey

record transfer_split_accounts =
  ts_equality_proof :: pubkey
  ts_ciphertext_validity_proof :: pubkey
  ts_range_proof :: pubkey
  ts_authority :: pubkey
  ts_no_op_on_uninitialized :: bool
  ts_close_accounts :: "close_split_accounts option"

record transfer_with_fee_split_accounts =
  fs_equality_proof :: pubkey
  fs_transfer_amount_ciphertext_validity_proof :: pubkey
  fs_fee_sigma_proof :: pubkey
  fs_fee_ciphertext_validity_proof :: pubkey
  fs_range_proof :: pubkey
  fs_authority :: pubkey
  fs_no_op_on_uninitialized :: bool
  fs_close_accounts :: "close_split_accounts option"

text \<open>The accounts of the proofs, the closing accounts if they are given, and the authority of the source; context
  accounts that will be closed are writable.\<close>

definition split_proof_metas ::
    "pubkey list \<Rightarrow> pubkey \<Rightarrow> close_split_accounts option \<Rightarrow> pubkey \<Rightarrow> account_meta list" where
  "split_proof_metas contexts context_authority closing source_authority = (case closing of
       Some c \<Rightarrow> map (\<lambda>k. meta_new k False) contexts @
         [meta_new (cs_lamport_destination c) False, meta_readonly context_authority True,
          meta_readonly (cs_zk_token_proof_program c) False, meta_readonly source_authority True]
     | None \<Rightarrow> map (\<lambda>k. meta_readonly k False) contexts @ [meta_readonly source_authority True])"

definition transfer_with_split_proofs ::
    "env \<Rightarrow> pubkey \<Rightarrow> pubkey \<Rightarrow> pubkey \<Rightarrow> pubkey \<Rightarrow> bytes \<Rightarrow> pubkey \<Rightarrow> transfer_split_accounts \<Rightarrow> source_decrypt_handles \<Rightarrow>
     instruction result" where
  "transfer_with_split_proofs E token_program_id source mint_pubkey destination new_decryptable source_authority
       context_accounts handles =
     confidential_request token_program_id
       ([meta_new source False, meta_readonly mint_pubkey False, meta_new destination False] @
        split_proof_metas [ts_equality_proof context_accounts, ts_ciphertext_validity_proof context_accounts,
            ts_range_proof context_accounts]
          (ts_authority context_accounts) (ts_close_accounts context_accounts) source_authority)
       CtTransferWithSplitProofs
       (new_decryptable @ [pod_of_bool E (ts_no_op_on_uninitialized context_accounts),
          pod_of_bool E (ts_close_accounts context_accounts \<noteq> None)] @ handle_lo handles @ handle_hi handles)"

definition transfer_with_fee_and_split_proofs ::
    "env \<Rightarrow> pubkey \<Rightarrow> pubkey \<Rightarrow> pubkey \<Rightarrow> pubkey \<Rightarrow> bytes \<Rightarrow> pubkey \<Rightarrow> transfer_with_fee_split_accounts \<Rightarrow>
     source_decrypt_handles \<Rightarrow> instruction result" where
  "transfer_with_fee_and_split_proofs E token_program_id source mint_pubkey destination new_decryptable source_authority
       context_accounts handles =
     confidential_request token_program_id
       ([meta_new source False, meta_readonly mint_pubkey False, meta_new destination False] @
        split_proof_metas [fs_equality_proof context_accounts, fs_transfer_amount_ciphertext_validity_proof context_accounts,
            fs_fee_sigma_proof context_accounts, fs_fee_ciphertext_validity_proof context_accounts,
            fs_range_proof context_accounts]
          (fs_authority context_accounts) (fs_close_accounts context_accounts) source_authority)
       CtTransferWithSplitProofs
       (new_decryptable @ [pod_of_bool E (fs_no_op_on_uninitialized context_accounts),
          pod_of_bool E (fs_close_accounts context_accounts \<noteq> None)] @ handle_lo handles @ handle_hi handles)"

section \<open>Fees\<close>

definition initialize_confidential_transfer_fee_config ::
    "env \<Rightarrow> pubkey \<Rightarrow> pubkey \<Rightarrow> pubkey option \<Rightarrow> bytes \<Rightarrow> instruction result" where
  "initialize_confidential_transfer_fee_config E token_program_id mint_pubkey authority_pubkey withdraw_elgamal_pubkey =
     bindE (check_program_account token_program_id) (\<lambda>_.
     bindE (optional_non_zero_pubkey E authority_pubkey) (\<lambda>k.
       confidential_fee_request token_program_id [meta_new mint_pubkey False] CfInitialize
         (word_le k @ withdraw_elgamal_pubkey)))"

definition cf_inner_withdraw_from_mint ::
    "sysvars \<Rightarrow> pubkey \<Rightarrow> pubkey \<Rightarrow> pubkey \<Rightarrow> bytes \<Rightarrow> pubkey \<Rightarrow> pubkey list \<Rightarrow> 'd proof_location \<Rightarrow> instruction result" where
  "cf_inner_withdraw_from_mint V token_program_id mint_pubkey destination new_decryptable authority_pubkey multisig_signers
       proof_data_location =
     confidential_fee_request token_program_id
       (meta_new mint_pubkey False # meta_new destination False # proof_meta V proof_data_location #
        authority_metas authority_pubkey multisig_signers)
       CfWithdrawFromMint (proof_offset proof_data_location # new_decryptable)"

definition cf_withdraw_from_mint ::
    "('d \<Rightarrow> instruction) \<Rightarrow> sysvars \<Rightarrow> pubkey \<Rightarrow> pubkey \<Rightarrow> pubkey \<Rightarrow> bytes \<Rightarrow> pubkey \<Rightarrow> pubkey list \<Rightarrow> 'd proof_location \<Rightarrow>
     instruction list result" where
  "cf_withdraw_from_mint verify V token_program_id mint_pubkey destination new_decryptable authority_pubkey
       multisig_signers proof_data_location =
     with_proof verify proof_data_location
       (cf_inner_withdraw_from_mint V token_program_id mint_pubkey destination new_decryptable authority_pubkey
         multisig_signers proof_data_location)"

definition cf_inner_withdraw_from_accounts ::
    "sysvars \<Rightarrow> pubkey \<Rightarrow> pubkey \<Rightarrow> pubkey \<Rightarrow> bytes \<Rightarrow> pubkey \<Rightarrow> pubkey list \<Rightarrow> pubkey list \<Rightarrow> 'd proof_location \<Rightarrow>
     instruction result" where
  "cf_inner_withdraw_from_accounts V token_program_id mint_pubkey destination new_decryptable authority_pubkey
       multisig_signers sources proof_data_location =
     bindE (check_program_account token_program_id) (\<lambda>_.
       if 255 < length sources then Inl (Prog InvalidInstructionData)
       else confidential_fee_request token_program_id
         (meta_new mint_pubkey False # meta_new destination False # proof_meta V proof_data_location #
          authority_metas authority_pubkey multisig_signers @ map (\<lambda>s. meta_new s False) sources)
         CfWithdrawFromAccounts (of_nat (length sources) # proof_offset proof_data_location # new_decryptable))"

definition cf_withdraw_from_accounts ::
    "('d \<Rightarrow> instruction) \<Rightarrow> sysvars \<Rightarrow> pubkey \<Rightarrow> pubkey \<Rightarrow> pubkey \<Rightarrow> bytes \<Rightarrow> pubkey \<Rightarrow> pubkey list \<Rightarrow> pubkey list \<Rightarrow>
     'd proof_location \<Rightarrow> instruction list result" where
  "cf_withdraw_from_accounts verify V token_program_id mint_pubkey destination new_decryptable authority_pubkey
       multisig_signers sources proof_data_location =
     with_proof verify proof_data_location
       (cf_inner_withdraw_from_accounts V token_program_id mint_pubkey destination new_decryptable authority_pubkey
         multisig_signers sources proof_data_location)"

definition cf_harvest_withheld_tokens_to_mint :: "pubkey \<Rightarrow> pubkey \<Rightarrow> pubkey list \<Rightarrow> instruction result" where
  "cf_harvest_withheld_tokens_to_mint token_program_id mint_pubkey sources =
     confidential_fee_request token_program_id (meta_new mint_pubkey False # map (\<lambda>s. meta_new s False) sources)
       CfHarvestToMint []"

definition enable_harvest_to_mint :: "pubkey \<Rightarrow> pubkey \<Rightarrow> pubkey \<Rightarrow> pubkey list \<Rightarrow> instruction result" where
  "enable_harvest_to_mint token_program_id mint_pubkey authority_pubkey multisig_signers =
     confidential_fee_request token_program_id (meta_new mint_pubkey False # authority_metas authority_pubkey multisig_signers)
       CfEnableHarvest []"

definition disable_harvest_to_mint :: "pubkey \<Rightarrow> pubkey \<Rightarrow> pubkey \<Rightarrow> pubkey list \<Rightarrow> instruction result" where
  "disable_harvest_to_mint token_program_id mint_pubkey authority_pubkey multisig_signers =
     confidential_fee_request token_program_id (meta_new mint_pubkey False # authority_metas authority_pubkey multisig_signers)
       CfDisableHarvest []"

section \<open>What the program does with them\<close>

text \<open>The key of the account that holds the proof, the keys of the closing accounts, an optional ElGamal key, and the
  decryption handles that are not used.\<close>

definition proof_key :: "sysvars \<Rightarrow> 'd proof_location \<Rightarrow> pubkey" where
  "proof_key V proof_data_location = (case proof_data_location of
     InstructionOffset _ _ \<Rightarrow> instructions_sysvar V | ContextStateAccount k \<Rightarrow> k)"

definition closing_keys :: "pubkey \<Rightarrow> close_split_accounts option \<Rightarrow> pubkey list" where
  "closing_keys context_authority closing = (case closing of None \<Rightarrow> []
     | Some c \<Rightarrow> [cs_lamport_destination c, context_authority, cs_zk_token_proof_program c])"

definition optional_elgamal :: "bytes \<Rightarrow> bytes option" where
  "optional_elgamal b = (if is_zeroed b then None else Some b)"

definition no_handles :: source_decrypt_handles where
  "no_handles = \<lparr>handle_lo = replicate 32 0, handle_hi = replicate 32 0\<rparr>"

lemma optional_elgamal_try:
  "length b = elgamal_pubkey_len E \<Longrightarrow> optional_non_zero_elgamal E (optional_elgamal b) = Inr b"
  by (auto simp: optional_non_zero_elgamal_def optional_elgamal_def is_zeroed_def list_all_iff intro: replicate_eqI [symmetric])

lemma proof_meta_key [simp]: "meta_key (proof_meta V loc) = proof_key V loc"
  by (cases loc) (simp_all add: proof_meta_def proof_key_def)

lemma split_metas_keys [simp]:
  "map (\<lambda>m. f (meta_key m)) (split_proof_metas ks x c k) = map f (ks @ closing_keys x c @ [k])"
  by (cases c) (simp_all add: split_proof_metas_def closing_keys_def comp_def)

lemma confidential_types_into [simp]:
  "confidential_transfer_instruction_try_from (confidential_transfer_instruction_into t) = Some t"
  "confidential_transfer_fee_instruction_try_from (confidential_transfer_fee_instruction_into u) = Some u"
  by (cases t; simp add: confidential_transfer_instruction_into_def confidential_transfer_instruction_try_from_def
        confidential_transfer_instructions_def)
     (cases u; simp add: confidential_transfer_fee_instruction_into_def confidential_transfer_fee_instruction_try_from_def
        confidential_transfer_fee_instructions_def)

lemma run_confidential:
  "run_instruction E F p as rest token_instruction.ConfidentialTransferExtension =
     confidential_transfer_process_instruction E (zk_sdk F) p as rest"
  "run_instruction E F p as rest token_instruction.ConfidentialTransferFeeExtension =
     confidential_transfer_fee_process_instruction E (zk_sdk F) p as rest"
  by (simp_all add: run_instruction_def fun_eq_iff)

lemmas confidential_builder_defs = ct_initialize_mint_def ct_update_mint_def inner_configure_account_def
  ct_approve_account_def inner_empty_account_def ct_deposit_def inner_withdraw_def inner_transfer_def
  inner_transfer_with_fee_def ct_apply_pending_balance_def inner_apply_pending_balance_def
  enable_confidential_credits_def disable_confidential_credits_def enable_non_confidential_credits_def
  disable_non_confidential_credits_def enable_or_disable_balance_credits_def transfer_with_split_proofs_def
  transfer_with_fee_and_split_proofs_def

lemmas confidential_fee_builder_defs = initialize_confidential_transfer_fee_config_def cf_inner_withdraw_from_mint_def
  cf_inner_withdraw_from_accounts_def cf_harvest_withheld_tokens_to_mint_def enable_harvest_to_mint_def
  disable_harvest_to_mint_def

lemmas confidential_layouts = initialize_mint_ct_data_def update_mint_data_def configure_account_data_def deposit_data_def
  withdraw_data_def transfer_data_def apply_pending_balance_data_def split_proofs_data_def initialize_fee_config_data_def
  withdraw_from_mint_data_def withdraw_from_accounts_data_def i8_at_def

lemma pod_bool_back: "pod_bool_ok E \<Longrightarrow> pod_bool E (pod_of_bool E b) = b"
  by (cases b) (simp_all add: pod_bool_ok_def)

lemma handles_eta: "\<lparr>handle_lo = handle_lo h, handle_hi = handle_hi h\<rparr> = h"
  by (cases h) simp

lemmas run_confidential_request = run_confidential confidential_transfer_process_instruction_def check_token_2022
  is_prefix_def confidential_layouts le_word_u8 no_handles_def pod_bool_back handles_eta

lemma inner_transfer_with_fee_runs:
  assumes "length new = ae_ciphertext_len E"
  shows "asks_for E F has_signed (inner_transfer_with_fee V token_2022_id a b d new k ss loc)
    (a # b # d # proof_key V loc # k # ss)
    (\<lambda>as. process_transfer_ct E (zk_sdk F) token_2022_id as new (sint (proof_offset loc)) False False False no_handles)"
  unfolding inner_transfer_with_fee_def confidential_request_def encode_instruction_def
  by (simp only: check_token_2022 bindE_simps; rule asks_for_prefixed;
      simp add: run_confidential_request slice_of_def assms)


text \<open>The same for the fees; a withdrawal names at most 255 sources.\<close>

lemma built_confidential_fee_instructions_run:
  assumes "length new = ae_ciphertext_len E" "length elg = elgamal_pubkey_len E" "length bs \<le> 255"
  shows "let A = asks_for E F has_signed; P = token_2022_id; Z = zk_sdk F; opt = option_of_non_zero in
     A (initialize_confidential_transfer_fee_config E P a (opt c) elg) ([a])
       (\<lambda>as. process_initialize_confidential_transfer_fee_config E as c elg) \<and>
     A (cf_inner_withdraw_from_mint V P a b new k ss loc) (a # b # proof_key V loc # k # ss)
       (\<lambda>as. process_withdraw_withheld_tokens_from_mint_ct E Z P as new (sint (proof_offset loc))) \<and>
     A (cf_inner_withdraw_from_accounts V P a b new k ss bs loc) (a # b # proof_key V loc # k # ss @ bs)
       (\<lambda>as. process_withdraw_withheld_tokens_from_accounts_ct E Z P as (of_nat (length bs)) new (sint (proof_offset loc))) \<and>
     A (cf_harvest_withheld_tokens_to_mint P a bs) (a # bs)
       (\<lambda>as. process_harvest_withheld_tokens_to_mint_ct E Z as) \<and>
     A (enable_harvest_to_mint P a k ss) (a # k # ss)
       (\<lambda>as. process_enable_harvest_to_mint E P as) \<and>
     A (disable_harvest_to_mint P a k ss) (a # k # ss)
       (\<lambda>as. process_disable_harvest_to_mint E P as)"
proof -
  have n: "\<not> 255 < length bs" using assms(3) by simp
  show ?thesis
    unfolding Let_def confidential_fee_builder_defs confidential_fee_request_def encode_instruction_def
    by (intro conjI; simp only: check_token_2022 bindE_simps option_of_non_zero_try n if_False;
        rule asks_for_prefixed;
        simp add: run_confidential confidential_transfer_fee_process_instruction_def check_token_2022 is_prefix_def
          confidential_layouts slice_of_def assms le_word_u8 comp_def)
qed

section \<open>Transfers with a fee\<close>

lemma with_proof_Inr:
  "with_proof verify loc inner = Inr (i # others) \<longleftrightarrow> inner = Inr i \<and>
     (case loc of InstructionOffset n d \<Rightarrow> sint n = 1 \<and> others = [verify d] | ContextStateAccount _ \<Rightarrow> others = [])"
  by (auto simp: with_proof_def success_simps split: proof_location.splits if_splits)

lemma no_mint_no_transfer:
  assumes "unpack PodAccount (data_of w m) = Inr st"
  shows "\<not> isOk (process_transfer_ct E Z p (a # m # rest) new n split no_op closing h w)"
proof -
  have "\<not> isOk (unpack (PodMint E) (data_of w m))" using assms by (auto simp: isOk_iff dest: mint_is_no_account)
  then show ?thesis by (auto simp: process_transfer_ct_def isOk_iff success_simps)
qed

text \<open>C36. What \<open>transfer_with_fee\<close> builds never succeeds: it hands the destination and the mint to
  \<open>inner_transfer_with_fee\<close> in the wrong order, so the program is given the destination where it expects the mint,
  and refuses it whenever the destination is a token account at all.\<close>

theorem built_transfer_with_fee_fails:
  assumes "ct_transfer_with_fee verify V token_2022_id a m b new k ss loc = Inr (ins # others)"
    "length new = ae_ciphertext_len E" "unpack PodAccount (acct_data (cells w b)) = Inr st"
  shows "\<not> isOk (execute E F has_signed ins w)"
proof -
  from assms(1) have i: "inner_transfer_with_fee V token_2022_id a b m new k ss loc = Inr ins"
    by (simp add: ct_transfer_with_fee_def with_proof_Inr)
  have "asks_for E F has_signed (inner_transfer_with_fee V token_2022_id a b m new k ss loc) (a # b # m # proof_key V loc # k # ss)
      (\<lambda>as. process_transfer_ct E (zk_sdk F) token_2022_id as new (sint (proof_offset loc)) False False False no_handles)"
    by (rule inner_transfer_with_fee_runs [OF assms(2)])
  with i have "execute E F has_signed ins w = process_transfer_ct E (zk_sdk F) token_2022_id
      (info_of has_signed a # info_of has_signed b # map (info_of has_signed) (m # proof_key V loc # k # ss)) new
      (sint (proof_offset loc)) False False False no_handles w" by (auto simp: asks_for_def)
  with no_mint_no_transfer [of w "info_of has_signed b"] assms(3) show ?thesis by simp
qed

theorem built_transfer_with_fee_fails_witness:
  "\<exists>ins. ct_transfer_with_fee (\<lambda>i. i) \<lparr>rent_sysvar = 50, instructions_sysvar = 51\<rparr> token_2022_id 7 9 8 (replicate 36 0) 30 []
       (ContextStateAccount 12) = Inr [ins] \<and>
     \<not> isOk (execute sample_env sample_foreign (\<lambda>k. k = 30) ins two_holders)"
proof -
  obtain ins where i: "ct_transfer_with_fee (\<lambda>i. i) \<lparr>rent_sysvar = 50, instructions_sysvar = 51\<rparr> token_2022_id 7 9 8
      (replicate 36 0) 30 [] (ContextStateAccount 12) = Inr [ins]"
    by (simp add: ct_transfer_with_fee_def with_proof_def inner_transfer_with_fee_def confidential_request_def check_token_2022)
  moreover have "\<not> isOk (execute sample_env sample_foreign (\<lambda>k. k = 30) ins two_holders)"
    by (rule built_transfer_with_fee_fails [OF i]) (simp_all add: sample_env_def two_holders_def ledger_def)
  ultimately show ?thesis by blast
qed


end
