(* ===== verification/Interest.thy ===== *)
theory Interest
  imports Complex_Main Dispatch Ui_Amount
begin

text \<open>
  The amounts of interest-bearing mints: \<open>src/programs/src/extension/interest_bearing_mint/mod.rs\<close>.  The code
  computes in \<open>f64\<close>; here a record holds the operations on floating-point numbers that it uses, and the
  properties are those of the formulas, over the real numbers.
\<close>

section \<open>Floating-point numbers\<close>

text \<open>Casts from integers, literals, arithmetic, \<open>exp\<close>, \<open>powi\<close>, \<open>to_string\<close>, \<open>parse\<close>, the
  comparison, \<open>is_nan\<close>, and \<open>round\<close> followed by the cast to \<open>u64\<close>.\<close>

record 'f float64 =
  f_of_int :: "int \<Rightarrow> 'f"
  f_literal :: "rat \<Rightarrow> 'f"
  f_mul :: "'f \<Rightarrow> 'f \<Rightarrow> 'f"
  f_div :: "'f \<Rightarrow> 'f \<Rightarrow> 'f"
  f_exp :: "'f \<Rightarrow> 'f"
  f_powi :: "'f \<Rightarrow> nat \<Rightarrow> 'f"
  f_to_string :: "'f \<Rightarrow> bytes"
  f_parse :: "bytes \<Rightarrow> 'f option"
  f_less :: "'f \<Rightarrow> 'f \<Rightarrow> bool"
  f_is_nan :: "'f \<Rightarrow> bool"
  f_round_u64 :: "'f \<Rightarrow> u64"

definition F64_ONE_IN_BASIS_POINTS :: "'f float64 \<Rightarrow> 'f" where
  "F64_ONE_IN_BASIS_POINTS R = f_literal R 10000"

definition SECONDS_PER_YEAR :: "'f float64 \<Rightarrow> 'f" where
  "SECONDS_PER_YEAR R = f_mul R (f_mul R (f_mul R (f_literal R 60) (f_literal R 60)) (f_literal R 24)) (f_literal R (36524 / 100))"

text \<open>\<open>i64::checked_sub\<close>, of words in two's complement.\<close>

definition i64_checked_sub :: "u64 \<Rightarrow> u64 \<Rightarrow> int option" where
  "i64_checked_sub a b = (let d = sint a - sint b in if - (2 ^ 63) \<le> d \<and> d < 2 ^ 63 then Some d else None)"

section \<open>Interest\<close>

definition pre_update_timespan :: "interest_bearing_config \<Rightarrow> int option" where
  "pre_update_timespan c = i64_checked_sub (last_update_timestamp c) (initialization_timestamp c)"

definition pre_update_exp :: "'f float64 \<Rightarrow> interest_bearing_config \<Rightarrow> 'f option" where
  "pre_update_exp R c =
     Option.bind (pre_update_timespan c) (\<lambda>t.
     Option.bind (i128 (sint (pre_update_average_rate c) * t)) (\<lambda>n.
       Some (f_exp R (f_div R (f_div R (f_of_int R n) (SECONDS_PER_YEAR R)) (F64_ONE_IN_BASIS_POINTS R)))))"

definition post_update_timespan :: "interest_bearing_config \<Rightarrow> u64 \<Rightarrow> int option" where
  "post_update_timespan c timestamp = i64_checked_sub timestamp (last_update_timestamp c)"

definition post_update_exp :: "'f float64 \<Rightarrow> interest_bearing_config \<Rightarrow> u64 \<Rightarrow> 'f option" where
  "post_update_exp R c timestamp =
     Option.bind (post_update_timespan c timestamp) (\<lambda>t.
     Option.bind (i128 (sint (current_rate c) * t)) (\<lambda>n.
       Some (f_exp R (f_div R (f_div R (f_of_int R n) (SECONDS_PER_YEAR R)) (F64_ONE_IN_BASIS_POINTS R)))))"

definition total_scale :: "'f float64 \<Rightarrow> interest_bearing_config \<Rightarrow> u8 \<Rightarrow> u64 \<Rightarrow> 'f option" where
  "total_scale R c dec timestamp =
     Option.bind (pre_update_exp R c) (\<lambda>a.
     Option.bind (post_update_exp R c timestamp) (\<lambda>b.
       Some (f_div R (f_mul R a b) (f_powi R (f_literal R 10) (unat dec)))))"

definition interest_amount_to_ui_amount :: "'f float64 \<Rightarrow> interest_bearing_config \<Rightarrow> u64 \<Rightarrow> u8 \<Rightarrow> u64 \<Rightarrow> bytes option" where
  "interest_amount_to_ui_amount R c amt dec timestamp =
     Option.bind (total_scale R c dec timestamp) (\<lambda>scale. Some (f_to_string R (f_mul R (f_of_int R (uint amt)) scale)))"

definition interest_try_ui_amount_into_amount ::
    "'f float64 \<Rightarrow> interest_bearing_config \<Rightarrow> bytes \<Rightarrow> u8 \<Rightarrow> u64 \<Rightarrow> u64 result" where
  "interest_try_ui_amount_into_amount R c ui_amount dec timestamp =
     bindE (ok_or (Prog InvalidArgument) (f_parse R ui_amount)) (\<lambda>scaled.
     bindE (ok_or (Prog InvalidArgument) (total_scale R c dec timestamp)) (\<lambda>scale.
     let amt = f_div R scaled scale in
     if f_less R (f_of_int R (2 ^ 64 - 1)) amt \<or> f_less R amt (f_of_int R 0) \<or> f_is_nan R amt
     then Inl (Prog InvalidArgument) else Inr (f_round_u64 R amt)))"

text \<open>The conversions that the dispatcher runs for interest-bearing mints.\<close>

definition with_interest :: "'f float64 \<Rightarrow> foreign \<Rightarrow> foreign" where
  "with_interest R F = F\<lparr>interest_to_ui := interest_amount_to_ui_amount R, interest_from_ui := interest_try_ui_amount_into_amount R\<rparr>"

section \<open>The formulas over the reals\<close>

text \<open>The real numbers, with any way to print and parse them.\<close>

definition real_float :: "(real \<Rightarrow> bytes) \<Rightarrow> (bytes \<Rightarrow> real option) \<Rightarrow> real float64" where
  "real_float to_string parse =
     \<lparr>f_of_int = of_int, f_literal = of_rat, f_mul = (*), f_div = (/), f_exp = exp, f_powi = (\<lambda>x n. x ^ n),
      f_to_string = to_string, f_parse = parse, f_less = (<), f_is_nan = (\<lambda>_. False),
      f_round_u64 = (\<lambda>x. word_of_int \<lfloor>x + 1 / 2\<rfloor>)\<rparr>"

lemma real_float_simps [simp]:
  "f_of_int (real_float ts ps) = of_int" "f_literal (real_float ts ps) = of_rat" "f_mul (real_float ts ps) = (*)"
  "f_div (real_float ts ps) = (/)" "f_exp (real_float ts ps) = exp" "f_powi (real_float ts ps) = (\<lambda>x n. x ^ n)"
  "f_to_string (real_float ts ps) = ts" "f_parse (real_float ts ps) = ps" "f_less (real_float ts ps) = (<)"
  "f_is_nan (real_float ts ps) x \<longleftrightarrow> False" "f_round_u64 (real_float ts ps) = (\<lambda>x. word_of_int \<lfloor>x + 1 / 2\<rfloor>)"
  by (simp_all add: real_float_def)

definition year_bps :: real where
  "year_bps = 31556736 * 10000"

lemma year_bps_pos [simp]: "0 < year_bps" "\<bar>year_bps\<bar> = year_bps"
  by (simp_all add: year_bps_def)

lemma real_constants:
  "SECONDS_PER_YEAR (real_float ts ps) = 31556736" "F64_ONE_IN_BASIS_POINTS (real_float ts ps) = 10000"
  by (simp_all add: SECONDS_PER_YEAR_def F64_ONE_IN_BASIS_POINTS_def of_rat_divide)

text \<open>The exponent that has accrued, in basis-point seconds.\<close>

definition accrued :: "interest_bearing_config \<Rightarrow> u64 \<Rightarrow> int" where
  "accrued c timestamp =
     sint (pre_update_average_rate c) * (sint (last_update_timestamp c) - sint (initialization_timestamp c)) +
     sint (current_rate c) * (sint timestamp - sint (last_update_timestamp c))"

text \<open>With timestamps that do not run backwards from a time that is not negative nothing overflows.\<close>

definition in_order :: "interest_bearing_config \<Rightarrow> u64 \<Rightarrow> bool" where
  "in_order c timestamp \<longleftrightarrow> 0 \<le> sint (initialization_timestamp c) \<and>
     sint (initialization_timestamp c) \<le> sint (last_update_timestamp c) \<and> sint (last_update_timestamp c) \<le> sint timestamp"

lemma rate_time_fits:
  assumes "0 \<le> t" "t < 2 ^ 63"
  shows "i128 (sint (r :: u16) * t) = Some (sint r * t)"
proof -
  have "\<bar>sint r\<bar> \<le> 2 ^ 15" using sint_u16 [of r] by auto
  moreover have "\<bar>t\<bar> \<le> 2 ^ 64" using assms by simp
  ultimately have "\<bar>sint r * t\<bar> \<le> 2 ^ 79" by (rule rate_times_time)
  then show ?thesis by (intro i128_Some) simp
qed

lemma total_scale_real:
  assumes "in_order c timestamp"
  shows "total_scale (real_float ts ps) c dec timestamp = Some (exp (of_int (accrued c timestamp) / year_bps) / 10 ^ unat dec)"
proof -
  let ?t1 = "sint (last_update_timestamp c) - sint (initialization_timestamp c)"
    and ?t2 = "sint timestamp - sint (last_update_timestamp c)"
  have t: "0 \<le> ?t1" "?t1 < 2 ^ 63" "0 \<le> ?t2" "?t2 < 2 ^ 63"
    using assms sint_u64 [of "last_update_timestamp c"] sint_u64 [of timestamp] by (auto simp: in_order_def)
  have p: "pre_update_timespan c = Some ?t1" "post_update_timespan c timestamp = Some ?t2"
    using t by (simp_all add: pre_update_timespan_def post_update_timespan_def i64_checked_sub_def Let_def)
  have "exp (a / 31556736 / 10000) * exp (b / 31556736 / 10000) = exp ((a + b) / year_bps)" for a b :: real
    by (simp add: year_bps_def add_divide_distrib flip: exp_add)
  then show ?thesis
    using rate_time_fits [OF t(1,2)] rate_time_fits [OF t(3,4)]
    by (simp add: total_scale_def pre_update_exp_def post_update_exp_def p real_constants accrued_def)
qed

text \<open>Over the reals the two conversions are inverse, for whatever interest has accrued.\<close>

lemma interest_roundtrip:
  assumes "\<And>x. ps (ts x) = Some x" "in_order c timestamp"
    "interest_amount_to_ui_amount (real_float ts ps) c n dec timestamp = Some s"
  shows "interest_try_ui_amount_into_amount (real_float ts ps) c s dec timestamp = Inr n"
proof -
  define scale where "scale = exp (of_int (accrued c timestamp) / year_bps) / 10 ^ unat dec"
  have pos: "0 < scale" by (simp add: scale_def)
  have total: "total_scale (real_float ts ps) c dec timestamp = Some scale"
    by (simp add: total_scale_real [OF assms(2)] scale_def)
  have s: "s = ts (of_int (uint n) * scale)"
    using assms(3) by (simp add: interest_amount_to_ui_amount_def total)
  have "uint n \<le> 18446744073709551615" using uint_lt2p [of n] by simp
  then have "real_of_int (uint n) \<le> of_int 18446744073709551615" by (simp only: of_int_le_iff)
  then have n: "real_of_int (uint n) \<le> 18446744073709551615" by simp
  have n0: "0 \<le> real_of_int (uint n)" by (simp only: of_int_0_le_iff uint_ge_0)
  have "\<lfloor>real_of_int (uint n) + 1 / 2\<rfloor> = uint n" by linarith
  with n n0 pos show ?thesis
    by (simp add: interest_try_ui_amount_into_amount_def total s assms(1) not_less Let_def)
qed

section \<open>Changing the rate\<close>

lemma sdiv_near:
  assumes "0 < (d :: int)"
  shows "\<bar>(s sdiv d) * d - s\<bar> < d"
proof (cases "0 \<le> s")
  case True
  then have "s sdiv d = s div d" using assms by (cases "s = 0") (simp_all add: signed_divide_int_def sgn_if)
  moreover have "s div d * d = s - s mod d" by (simp add: minus_mod_eq_div_mult)
  ultimately show ?thesis using assms by (simp add: pos_mod_bound)
next
  case False
  then have "s sdiv d = - ((- s) div d)" using assms by (simp add: signed_divide_int_def sgn_if)
  moreover have "(- s) div d * d = - s - (- s) mod d" by (simp add: minus_mod_eq_div_mult)
  ultimately show ?thesis using assms by (simp add: pos_mod_bound)
qed

lemma accrued_after_update:
  assumes "in_order c now" "time_weighted_average_rate c now = Some avg"
    "c' = c\<lparr>pre_update_average_rate := avg, last_update_timestamp := now, current_rate := rate\<rparr>"
  shows "in_order c' now" "\<bar>accrued c' now - accrued c now\<bar> \<le> sint now - sint (initialization_timestamp c)"
proof -
  let ?T = "sint now - sint (initialization_timestamp c)"
  show "in_order c' now" using assms(1,3) by (auto simp: in_order_def)
  have o: "sint (initialization_timestamp c) \<le> sint (last_update_timestamp c)" "sint (last_update_timestamp c) \<le> sint now"
    using assms(1) by (auto simp: in_order_def)
  have "accrued c' now = sint avg * ?T" by (simp add: accrued_def assms(3))
  moreover from average_rate_spec [OF o] assms(2) have "?T \<noteq> 0 \<Longrightarrow> sint avg = accrued c now sdiv ?T"
    by (auto simp: accrued_def)
  moreover have "?T = 0 \<Longrightarrow> accrued c now = 0" using o by (simp add: accrued_def)
  moreover have "?T \<noteq> 0 \<Longrightarrow> 0 < ?T" using o by simp
  ultimately show "\<bar>accrued c' now - accrued c now\<bar> \<le> ?T"
    using sdiv_near [of ?T "accrued c now"] by (cases "?T = 0") auto
qed

interpretation mint_interest: extension_of_state "PodMint E" InterestBearingConfigExt for E
  by unfold_locales

lemma update_rate_Inr:
  assumes "interest_bearing_update_rate E p (m # auth # rest) rate w = Inr w'" "clock_get E = Inr ck"
    "unpack (PodMint E) (data_of w m) = Inr mt" "get_extension E (PodMint E) InterestBearingConfigExt mt = Inr c"
  obtains avg where "time_weighted_average_rate c (unix_timestamp ck) = Some avg"
    "consents p (rate_authority c) auth rest w"
    "w' = store (PodMint E) m (put_extension (PodMint E) InterestBearingConfigExt
       (c\<lparr>pre_update_average_rate := avg, last_update_timestamp := unix_timestamp ck, current_rate := rate\<rparr>) mt) w"
  using assms
  by (auto simp: interest_bearing_update_rate_def success_simps option_of_non_zero_def dest: validate_owner_consents
      split: if_splits)


text \<open>A mint that has paid 5\% for 100 seconds and 1\% for 300, of which the rate becomes 2\%.\<close>

definition interest_mint :: "pod_mint ext_state" where
  "interest_mint = \<lparr>base = live_mint, padding = replicate 83 0, account_type = [1],
     tlv_data = tlv_entry InterestBearingConfig (ext_bytes InterestBearingConfigExt sample_rates)\<rparr>"

lemma interest_mint_simps [simp]:
  "get_extension E (PodMint E) InterestBearingConfigExt interest_mint = Inr sample_rates"
  "unpack (PodMint sample_env) (state_bytes (PodMint sample_env) interest_mint) = Inr interest_mint"
  "base interest_mint = live_mint"
proof -
  have l: "length (ext_bytes InterestBearingConfigExt sample_rates) = 52"
    using interest_bearing_config.all_valid [of sample_rates] by (simp add: ext_valid_def) (simp add: ext_defs Let_def)
  show "get_extension E (PodMint E) InterestBearingConfigExt interest_mint = Inr sample_rates"
    by (rule get_extension_entry [where rest = "[]"])
       (simp_all add: interest_mint_def interest_bearing_config.all_valid, simp_all add: ext_defs)
  have "live_mint_state sample_env interest_mint"
    by (simp add: live_mint_state_def shape_ok_def pod_mint.length_state_bytes pod_mint_is_initialized_def
        PodMint_SIZE_OF_def BASE_ACCOUNT_LENGTH_def Account_LEN_def Multisig_LEN_def)
       (auto simp: interest_mint_def live_mint_def l)
  then show "unpack (PodMint sample_env) (state_bytes (PodMint sample_env) interest_mint) = Inr interest_mint" by simp
  show "base interest_mint = live_mint" by (simp add: interest_mint_def)
qed


end
