(* ===== verification/Packed_State.thy ===== *)
theory Packed_State
  imports Reallocate
begin

text \<open>
  The other readings of an account in \<open>src/programs/src/extension/mod.rs\<close>: \<open>StateWithExtensions\<close>,
  \<open>StateWithExtensionsOwned\<close> and \<open>StateWithExtensionsMut\<close> over the packed \<open>Mint\<close> and
  \<open>Account\<close>, which clients and \<open>Reallocate\<close> use, and the immutable \<open>PodStateWithExtensions\<close>.
  All of them see the same base and the same extensions.
\<close>

section \<open>Packed base states\<close>

text \<open>\<open>Pack\<close>, \<open>IsInitialized\<close> and \<open>BaseState\<close> of a packed base; its length and its account
  type are those of the zero-copy base.\<close>

record ('p, 's) packed =
  pk_layout :: "'s base_state"
  pk_unpack_from_slice :: "bytes \<Rightarrow> 'p result"
  pk_pack_into_slice :: "'p \<Rightarrow> bytes \<Rightarrow> bytes result"
  pk_is_initialized :: "'p \<Rightarrow> bool"

definition PackedMint :: "env \<Rightarrow> (packed_mint, pod_mint) packed" where
  "PackedMint E = \<lparr>pk_layout = PodMint E, pk_unpack_from_slice = mint_unpack_from_slice,
     pk_pack_into_slice = mint_pack_into_slice, pk_is_initialized = m_is_initialized\<rparr>"

definition PackedAccount :: "(packed_account, pod_account) packed" where
  "PackedAccount = \<lparr>pk_layout = PodAccount, pk_unpack_from_slice = account_unpack_from_slice,
     pk_pack_into_slice = account_pack_into_slice, pk_is_initialized = account_is_initialized\<rparr>"

text \<open>\<open>Pack::unpack_unchecked\<close> and \<open>Pack::unpack\<close> of the SDK.\<close>

definition pack_unpack_unchecked :: "('p, 's) packed \<Rightarrow> bytes \<Rightarrow> 'p result" where
  "pack_unpack_unchecked K input =
     (if length input \<noteq> size_of (pk_layout K) then Inl (Prog InvalidAccountData) else pk_unpack_from_slice K input)"

definition pack_unpack :: "('p, 's) packed \<Rightarrow> bytes \<Rightarrow> 'p result" where
  "pack_unpack K input =
     bindE (pack_unpack_unchecked K input) (\<lambda>b.
       if pk_is_initialized K b then Inr b else Inl (Prog UninitializedAccount))"

section \<open>Immutable views\<close>

record 'b view =
  view_base :: 'b
  view_tlv :: bytes

text \<open>\<open>StateWithExtensions::unpack\<close>.\<close>

definition view_unpack :: "('p, 's) packed \<Rightarrow> bytes \<Rightarrow> 'p view result" where
  "view_unpack K input =
     (let S = pk_layout K in
      bindE (check_min_len_and_not_multisig input (size_of S)) (\<lambda>_.
      let base_data = take (size_of S) input; rest = drop (size_of S) input in
      bindE (pack_unpack K base_data) (\<lambda>b.
      bindE (unpack_tlv_data S rest) (\<lambda>tlv. Inr \<lparr>view_base = b, view_tlv = tlv\<rparr>))))"

text \<open>\<open>StateWithExtensionsOwned::unpack\<close>, which splits an owned buffer.\<close>

definition owned_unpack :: "('p, 's) packed \<Rightarrow> bytes \<Rightarrow> 'p view result" where
  "owned_unpack K input =
     (let S = pk_layout K in
      bindE (check_min_len_and_not_multisig input (size_of S)) (\<lambda>_.
      let rest = drop (size_of S) input; input = take (size_of S) input in
      bindE (pack_unpack K input) (\<lambda>b.
      bindE (type_and_tlv_indices S rest) (\<lambda>ix. case ix of
        Some (account_type_index, tlv_start_index) \<Rightarrow>
          bindE (ok_or (Prog InvalidAccountData) (account_type_try_from (rest ! account_type_index))) (\<lambda>t.
          bindE (check_account_type S t) (\<lambda>_.
            Inr \<lparr>view_base = b, view_tlv = drop tlv_start_index rest\<rparr>))
      | None \<Rightarrow> Inr \<lparr>view_base = b, view_tlv = []\<rparr>))))"

text \<open>\<open>PodStateWithExtensions::unpack\<close>.\<close>

definition pod_view_unpack :: "'s base_state \<Rightarrow> bytes \<Rightarrow> 's view result" where
  "pod_view_unpack S input =
     bindE (check_min_len_and_not_multisig input (size_of S)) (\<lambda>_.
     let base_data = take (size_of S) input; rest = drop (size_of S) input; b = base_of_bytes S base_data in
     if \<not> base_is_initialized S b then Inl (Prog UninitializedAccount)
     else bindE (unpack_tlv_data S rest) (\<lambda>tlv. Inr \<lparr>view_base = b, view_tlv = tlv\<rparr>))"

section \<open>The mutable view\<close>

text \<open>The parts that \<open>StateWithExtensionsMut\<close> borrows from the buffer, and the padding between them.\<close>

record 'p packed_mut =
  pm_base :: 'p
  pm_base_data :: bytes
  pm_padding :: bytes
  pm_account_type :: bytes
  pm_tlv :: bytes

definition mut_unpack :: "('p, 's) packed \<Rightarrow> bytes \<Rightarrow> 'p packed_mut result" where
  "mut_unpack K input =
     (let S = pk_layout K in
      bindE (check_min_len_and_not_multisig input (size_of S)) (\<lambda>_.
      let base_data = take (size_of S) input; rest = drop (size_of S) input in
      bindE (pack_unpack K base_data) (\<lambda>b.
      bindE (unpack_type_and_tlv_data_with_check S rest (check_account_type S)) (\<lambda>(pad, ty, tlv).
        Inr \<lparr>pm_base = b, pm_base_data = base_data, pm_padding = pad, pm_account_type = ty, pm_tlv = tlv\<rparr>))))"

definition mut_unpack_uninitialized :: "('p, 's) packed \<Rightarrow> bytes \<Rightarrow> 'p packed_mut result" where
  "mut_unpack_uninitialized K input =
     (let S = pk_layout K in
      bindE (check_min_len_and_not_multisig input (size_of S)) (\<lambda>_.
      let base_data = take (size_of S) input; rest = drop (size_of S) input in
      bindE (pack_unpack_unchecked K base_data) (\<lambda>b.
      if pk_is_initialized K b then Inl (Token AlreadyInUse)
      else bindE (unpack_type_and_tlv_data_with_check S rest check_uninitialized_type) (\<lambda>(pad, ty, tlv).
      bindE (get_first_extension_type tlv) (\<lambda>first. case first of
        None \<Rightarrow> Inr \<lparr>pm_base = b, pm_base_data = base_data, pm_padding = pad, pm_account_type = ty, pm_tlv = tlv\<rparr>
      | Some t \<Rightarrow> if get_account_type t \<noteq> ACCOUNT_TYPE S then Inl (Token ExtensionBaseMismatch)
          else Inr \<lparr>pm_base = b, pm_base_data = base_data, pm_padding = pad, pm_account_type = ty, pm_tlv = tlv\<rparr>)))))"

definition pack_base :: "('p, 's) packed \<Rightarrow> 'p packed_mut \<Rightarrow> 'p packed_mut result" where
  "pack_base K st =
     bindE (pk_pack_into_slice K (pm_base st) (pm_base_data st)) (\<lambda>d. Inr (st\<lparr>pm_base_data := d\<rparr>))"

text \<open>The buffer.\<close>

definition mut_bytes :: "'p packed_mut \<Rightarrow> bytes" where
  "mut_bytes st = pm_base_data st @ pm_padding st @ pm_account_type st @ pm_tlv st"

section \<open>The contract of a packed base\<close>

locale packed_laws =
  fixes K :: "('p, 's) packed"
  assumes size_le: "size_of (pk_layout K) \<le> BASE_ACCOUNT_LENGTH"
    and unpack_pack: "pk_pack_into_slice K b dst = Inr d \<Longrightarrow> pk_unpack_from_slice K d = Inr b"
    and pack_unpack_slice: "pk_unpack_from_slice K d = Inr b \<Longrightarrow> pk_pack_into_slice K b d = Inr d"
    and length_pack: "pk_pack_into_slice K b dst = Inr d \<Longrightarrow> length d = length dst"
begin

lemma mut_unpack_Inr:
  assumes "mut_unpack K d = Inr st"
  shows "mut_bytes st = d" "pk_unpack_from_slice K (pm_base_data st) = Inr (pm_base st)" "pk_is_initialized K (pm_base st)"
    "length (pm_base_data st) = size_of (pk_layout K)" "length d \<noteq> Multisig_LEN"
    "unpack_type_and_tlv_data_with_check (pk_layout K) (pm_padding st @ pm_account_type st @ pm_tlv st)
       (check_account_type (pk_layout K)) = Inr (pm_padding st, pm_account_type st, pm_tlv st)"
proof -
  let ?S = "pk_layout K"
  from assms obtain pad ty tlv b where c: "check_min_len_and_not_multisig d (size_of ?S) = Inr ()"
    and b: "pack_unpack K (take (size_of ?S) d) = Inr b"
    and t: "unpack_type_and_tlv_data_with_check ?S (drop (size_of ?S) d) (check_account_type ?S) = Inr (pad, ty, tlv)"
    and st: "st = \<lparr>pm_base = b, pm_base_data = take (size_of ?S) d, pm_padding = pad, pm_account_type = ty, pm_tlv = tlv\<rparr>"
    by (auto simp: mut_unpack_def Let_def success_simps)
  have r: "drop (size_of ?S) d = pad @ ty @ tlv" using unpack_rest_Inr [OF t] by blast
  then show "mut_bytes st = d" by (simp add: mut_bytes_def st flip: r)
  show "unpack_type_and_tlv_data_with_check ?S (pm_padding st @ pm_account_type st @ pm_tlv st) (check_account_type ?S) =
      Inr (pm_padding st, pm_account_type st, pm_tlv st)" using t by (simp add: st flip: r)
  show "length (pm_base_data st) = size_of ?S" "pk_unpack_from_slice K (pm_base_data st) = Inr (pm_base st)"
    "pk_is_initialized K (pm_base st)" "length d \<noteq> Multisig_LEN"
    using b c by (auto simp: st pack_unpack_def pack_unpack_unchecked_def check_min_len_and_not_multisig_def success_simps
        split: if_splits)
qed

text \<open>Writing back what was read changes no byte.\<close>

lemma write_back: "mut_unpack K d = Inr st \<Longrightarrow> pack_base K st = Inr st"
  by (simp add: pack_base_def pack_unpack_slice [OF mut_unpack_Inr(2)])

text \<open>An initialized base that was written is read again, with the extensions as they were.\<close>

lemma write_read:
  assumes "mut_unpack K d = Inr st" "pk_is_initialized K b" "pack_base K (st\<lparr>pm_base := b\<rparr>) = Inr st'"
  shows "mut_unpack K (mut_bytes st') = Inr st'" "pm_base st' = b" "pm_tlv st' = pm_tlv st" "length (mut_bytes st') = length d"
proof -
  let ?S = "pk_layout K"
  note u = mut_unpack_Inr [OF assms(1)]
  from assms(3) obtain h where h: "pk_pack_into_slice K b (pm_base_data st) = Inr h"
    and st': "st' = st\<lparr>pm_base := b, pm_base_data := h\<rparr>" by (auto simp: pack_base_def success_simps)
  have l: "length h = size_of ?S" using length_pack [OF h] u(4) by simp
  show "pm_base st' = b" "pm_tlv st' = pm_tlv st" by (simp_all add: st')
  have m: "mut_bytes st' = h @ pm_padding st @ pm_account_type st @ pm_tlv st" by (simp add: mut_bytes_def st')
  then show len: "length (mut_bytes st') = length d" using l u(4) by (simp add: mut_bytes_def flip: u(1))
  have "pack_unpack K h = Inr b" using unpack_pack [OF h] l assms(2) by (simp add: pack_unpack_def pack_unpack_unchecked_def)
  moreover have "check_min_len_and_not_multisig (mut_bytes st') (size_of ?S) = Inr ()"
    using u(5) len l by (simp add: check_min_len_and_not_multisig_def m)
  ultimately show "mut_unpack K (mut_bytes st') = Inr st'"
    using u(6) l by (simp add: mut_unpack_def Let_def m) (simp add: st')
qed

end

lemma length_pack_into_slice:
  "mint_pack_into_slice m dst = Inr d \<Longrightarrow> length d = length dst"
  "account_pack_into_slice a dst = Inr d \<Longrightarrow> length d = length dst"
proof -
  assume "mint_pack_into_slice m dst = Inr d"
  then have "82 \<le> length dst" "d = pack_coption_key (m_mint_authority m) (slice_of dst 0 36) @ word_le (m_supply m) @
    word_le (m_decimals m) @ word_le (bool_u8 (m_is_initialized m)) @
    pack_coption_key (m_freeze_authority m) (slice_of dst 46 82) @ drop 82 dst"
    by (simp_all add: mint_pack_into_slice_def Mint_LEN_def split: if_splits)
  then show "length d = length dst" by simp
next
  assume "account_pack_into_slice a dst = Inr d"
  then have "165 \<le> length dst" "d = word_le (a_mint a) @ word_le (a_owner a) @ word_le (a_amount a) @
    pack_coption_key (a_delegate a) (slice_of dst 72 108) @ word_le (account_state_u8 (a_state a)) @
    pack_coption_u64 (a_is_native a) (slice_of dst 109 121) @ word_le (a_delegated_amount a) @
    pack_coption_key (a_close_authority a) (slice_of dst 129 165) @ drop 165 dst"
    by (simp_all add: account_pack_into_slice_def Account_LEN_def split: if_splits)
  then show "length d = length dst" by simp
qed

lemma packed_fields [simp]:
  "pk_layout (PackedMint E) = PodMint E" "pk_unpack_from_slice (PackedMint E) = mint_unpack_from_slice"
  "pk_pack_into_slice (PackedMint E) = mint_pack_into_slice" "pk_is_initialized (PackedMint E) = m_is_initialized"
  "pk_layout PackedAccount = PodAccount" "pk_unpack_from_slice PackedAccount = account_unpack_from_slice"
  "pk_pack_into_slice PackedAccount = account_pack_into_slice" "pk_is_initialized PackedAccount = account_is_initialized"
  by (simp_all add: PackedMint_def PackedAccount_def)

interpretation packed_mint: packed_laws "PackedMint E" for E
  by (unfold_locales; unfold packed_fields)
    (rule pod_mint.size_bound, erule mint_unpack_pack, erule mint_pack_unpack, erule length_pack_into_slice(1))

interpretation packed_account: packed_laws PackedAccount
  by (unfold_locales; unfold packed_fields)
    (rule pod_account.size_bound, erule account_unpack_pack, erule account_pack_unpack, erule length_pack_into_slice(2))

section \<open>All readings agree\<close>

lemma bindE_assoc: "bindE (bindE m f) g = bindE m (\<lambda>x. bindE (f x) g)"
  by (cases m) simp_all

lemma unpack_tlv_data_alt:
  "unpack_tlv_data S rest = bindE (unpack_type_and_tlv_data_with_check S rest (check_account_type S)) (\<lambda>(_, _, tlv). Inr tlv)"
  unfolding unpack_tlv_data_def unpack_type_and_tlv_data_with_check_def bindE_assoc
  by (rule bindE_cong [OF refl]) (simp add: bindE_assoc split: option.splits)

lemma owned_is_view: "owned_unpack K input = view_unpack K input"
  unfolding owned_unpack_def view_unpack_def unpack_tlv_data_def Let_def bindE_assoc
  by (rule bindE_cong [OF refl])+ (simp add: bindE_assoc split: option.splits)

lemma view_of_mut:
  "view_unpack K input = bindE (mut_unpack K input) (\<lambda>st. Inr \<lparr>view_base = pm_base st, view_tlv = pm_tlv st\<rparr>)"
  unfolding view_unpack_def mut_unpack_def unpack_tlv_data_alt Let_def bindE_assoc
  by (rule bindE_cong [OF refl])+ (simp add: split: prod.splits)

lemma pod_view_of_unpack:
  "pod_view_unpack S input = bindE (unpack S input) (\<lambda>st. Inr \<lparr>view_base = base st, view_tlv = tlv_data st\<rparr>)"
  unfolding pod_view_unpack_def unpack_def unpack_tlv_data_alt Let_def bindE_assoc
  by (rule bindE_cong [OF refl]) (simp add: bindE_assoc case_prod_beta)

lemma unpack_packed_view:
  "unpack_packed input = bindE (view_unpack PackedAccount input) (\<lambda>v. Inr (view_base v, view_tlv v))"
  unfolding unpack_packed_def view_unpack_def pack_unpack_def pack_unpack_unchecked_def account_unpack_def Let_def bindE_assoc
  by (simp add: PackedAccount_def PodAccount_def PodAccount_SIZE_OF_def Account_LEN_def bindE_assoc)

text \<open>A packed base shows the fields of a zero-copy base.\<close>

definition shows_mint :: "env \<Rightarrow> packed_mint \<Rightarrow> pod_mint \<Rightarrow> bool" where
  "shows_mint E m p \<longleftrightarrow> pod_match_some (mint_authority p) = m_mint_authority m \<and> mint_supply p = m_supply m \<and>
     decimals p = m_decimals m \<and> pod_bool E (is_initialized p) = m_is_initialized m \<and>
     pod_match_some (freeze_authority p) = m_freeze_authority m"

definition shows_account :: "packed_account \<Rightarrow> pod_account \<Rightarrow> bool" where
  "shows_account a p \<longleftrightarrow> mint p = a_mint a \<and> owner p = a_owner a \<and> amount p = a_amount a \<and>
     pod_match_some (delegate p) = a_delegate a \<and> state p = account_state_u8 (a_state a) \<and>
     pod_match_some (is_native p) = a_is_native a \<and> delegated_amount p = a_delegated_amount a \<and>
     pod_match_some (close_authority p) = a_close_authority a"

lemma unpack_bool_agrees: "unpack_bool b = Inr x \<Longrightarrow> pod_bool_ok E \<Longrightarrow> pod_bool E (le_word b) = x"
  by (auto simp: unpack_bool_def pod_bool_ok_def le_word_u8 split: if_splits)

lemma mint_agrees:
  assumes "mint_unpack_from_slice d = Inr m" "pod_bool_ok E"
  shows "shows_mint E m (pod_mint_of_bytes d)"
proof -
  from assms(1) obtain ma init fa where l: "82 \<le> length d" and k: "unpack_coption_key (slice_of d 0 36) = Inr ma"
      "unpack_bool (slice_of d 45 46) = Inr init" "unpack_coption_key (slice_of d 46 82) = Inr fa"
    and m: "m = \<lparr>m_mint_authority = ma, m_supply = le_word (slice_of d 36 44), m_decimals = le_word (slice_of d 44 45),
      m_is_initialized = init, m_freeze_authority = fa\<rparr>"
    unfolding mint_unpack_from_slice_def success_simps Mint_LEN_def by fastforce
  from l have "length (slice_of d 0 36) = 36" "length (slice_of d 46 82) = 36" by simp_all
  with k m show ?thesis
    using coption_key_agrees unpack_bool_agrees [OF _ assms(2)] by (simp add: shows_mint_def pod_mint_of_bytes_def)
qed

lemma view_unpack_pod:
  assumes "view_unpack K d = Inr v"
    "\<And>b h. pk_unpack_from_slice K h = Inr b \<Longrightarrow> base_is_initialized (pk_layout K) (base_of_bytes (pk_layout K) h) = pk_is_initialized K b"
  shows "\<exists>h. pk_unpack_from_slice K h = Inr (view_base v) \<and>
    pod_view_unpack (pk_layout K) d = Inr \<lparr>view_base = base_of_bytes (pk_layout K) h, view_tlv = view_tlv v\<rparr>"
proof -
  let ?S = "pk_layout K" and ?h = "take (size_of (pk_layout K)) d"
  from assms(1) obtain b tlv where c: "check_min_len_and_not_multisig d (size_of ?S) = Inr ()"
    and b: "pk_unpack_from_slice K ?h = Inr b" "pk_is_initialized K b"
    and t: "unpack_tlv_data ?S (drop (size_of ?S) d) = Inr tlv" and v: "v = \<lparr>view_base = b, view_tlv = tlv\<rparr>"
    by (auto simp: view_unpack_def Let_def success_simps pack_unpack_def pack_unpack_unchecked_def)
  have "base_is_initialized ?S (base_of_bytes ?S ?h)" using assms(2) [OF b(1)] b(2) by simp
  with c b(1) t show ?thesis by (intro exI [of _ ?h]) (simp add: pod_view_unpack_def Let_def v)
qed



end
