(* ===== verification/On_Chain.thy ===== *)
theory On_Chain
  imports Builders Packed_State
begin

text \<open>
  The entry point (\<open>src/programs/src/entrypoint.rs\<close>), the helper with which another program makes this one transfer
  (\<open>src/programs/src/onchain.rs\<close>) and its counterpart for clients (\<open>src/programs/src/offchain.rs\<close>).
\<close>

section \<open>The entry point\<close>

text \<open>\<open>process_instruction\<close> returns what \<open>Processor::process\<close> returns; the printing of an error is left out.\<close>

definition entry_point :: "env \<Rightarrow> foreign \<Rightarrow> pubkey \<Rightarrow> account_info list \<Rightarrow> bytes \<Rightarrow> world \<Rightarrow> world result" where
  "entry_point E F program_id accounts d w =
     (case process E F program_id accounts d w of Inl e \<Rightarrow> Inl e | Inr w' \<Rightarrow> Inr w')"

section \<open>The hook of a mint\<close>

text \<open>\<open>transfer_hook::get_program_id\<close> on the immutable view of a packed mint.\<close>

definition view_hook_program_id :: "env \<Rightarrow> packed_mint view \<Rightarrow> pubkey option" where
  "view_hook_program_id E v =
     (case bindE (get_extension_bytes account_type.Mint (ext_type TransferHookExt) (view_tlv v)) (\<lambda>b.
             if length b = ext_len TransferHookExt then Inr (ext_of_bytes TransferHookExt b) else Inl (pod_size_error E)) of
        Inl _ \<Rightarrow> None | Inr h \<Rightarrow> option_of_non_zero (address h))"

section \<open>The call from another program\<close>

text \<open>What the helper calls: \<open>add_extra_accounts_for_execute_cpi\<close> of the transfer hook interface, which extends
  the instruction and the accounts, and \<open>invoke_signed\<close> of the SDK.\<close>

record cpi_helpers =
  add_extra_accounts :: "instruction \<Rightarrow> account_info list \<Rightarrow> pubkey \<Rightarrow> account_info \<Rightarrow> account_info \<Rightarrow> account_info \<Rightarrow>
    account_info \<Rightarrow> u64 \<Rightarrow> account_info list \<Rightarrow> world \<Rightarrow> (instruction \<times> account_info list) result"
  invoke_signed :: "instruction \<Rightarrow> account_info list \<Rightarrow> bytes list list \<Rightarrow> world \<Rightarrow> world result"

definition invoke_transfer_checked ::
    "env \<Rightarrow> cpi_helpers \<Rightarrow> pubkey \<Rightarrow> account_info \<Rightarrow> account_info \<Rightarrow> account_info \<Rightarrow> account_info \<Rightarrow> account_info list \<Rightarrow>
     u64 \<Rightarrow> u8 \<Rightarrow> bytes list list \<Rightarrow> world \<Rightarrow> world result" where
  "invoke_transfer_checked E H token_program_id source_info mint_info destination_info authority_info additional_accounts
       amt dec seeds w =
     bindE (transfer_checked E token_program_id (key source_info) (key mint_info) (key destination_info) (key authority_info)
              [] amt dec) (\<lambda>cpi_instruction.
     let cpi_account_infos = [source_info, mint_info, destination_info, authority_info];
         signing = filter is_signer additional_accounts;
         cpi_account_infos = cpi_account_infos @ signing;
         cpi_instruction = cpi_instruction\<lparr>i_accounts :=
           i_accounts cpi_instruction @ map (\<lambda>ai. meta_readonly (key ai) (is_signer ai)) signing\<rparr> in
     bindE (view_unpack (PackedMint E) (data_of w mint_info)) (\<lambda>mt.
     bindE (case view_hook_program_id E mt of
              None \<Rightarrow> Inr (cpi_instruction, cpi_account_infos)
            | Some hook \<Rightarrow> add_extra_accounts H cpi_instruction cpi_account_infos hook source_info mint_info destination_info
                authority_info amt additional_accounts w) (\<lambda>(cpi_instruction, cpi_account_infos).
     invoke_signed H cpi_instruction cpi_account_infos seeds w)))"

section \<open>The request of a client\<close>

text \<open>The errors that the callback of the client and this crate raise, one \<open>Box<dyn Error>\<close> in the source.\<close>

datatype 'e fetch_error = Fetch 'e | Program error

definition of_program :: "'a result \<Rightarrow> 'e fetch_error + 'a" where
  "of_program r = (case r of Inl e \<Rightarrow> Inl (Program e) | Inr x \<Rightarrow> Inr x)"

text \<open>\<open>fetch\<close> is \<open>fetch_account_data_fn\<close>, awaited; \<open>add_metas\<close> is
  \<open>add_extra_account_metas_for_execute\<close> of the transfer hook interface, to which it is handed on.\<close>

definition add_extra_account_metas ::
    "env \<Rightarrow> (instruction \<Rightarrow> pubkey \<Rightarrow> pubkey \<Rightarrow> pubkey \<Rightarrow> pubkey \<Rightarrow> pubkey \<Rightarrow> u64 \<Rightarrow> (pubkey \<Rightarrow> 'e fetch_error + bytes option) \<Rightarrow>
       'e fetch_error + instruction) \<Rightarrow>
     instruction \<Rightarrow> pubkey \<Rightarrow> pubkey \<Rightarrow> pubkey \<Rightarrow> pubkey \<Rightarrow> u64 \<Rightarrow> (pubkey \<Rightarrow> 'e fetch_error + bytes option) \<Rightarrow>
     'e fetch_error + instruction" where
  "add_extra_account_metas E add_metas ins source_pubkey mint_pubkey destination_pubkey authority_pubkey amt fetch =
     bindE (fetch mint_pubkey) (\<lambda>d.
     bindE (of_program (ok_or (Prog InvalidAccountData) d)) (\<lambda>mint_data.
     bindE (of_program (view_unpack (PackedMint E) mint_data)) (\<lambda>mt.
     case view_hook_program_id E mt of
       Some hook \<Rightarrow> add_metas ins hook source_pubkey mint_pubkey destination_pubkey authority_pubkey amt fetch
     | None \<Rightarrow> Inr ins)))"

definition create_transfer_checked_instruction_with_extra_metas ::
    "env \<Rightarrow> (instruction \<Rightarrow> pubkey \<Rightarrow> pubkey \<Rightarrow> pubkey \<Rightarrow> pubkey \<Rightarrow> pubkey \<Rightarrow> u64 \<Rightarrow> (pubkey \<Rightarrow> 'e fetch_error + bytes option) \<Rightarrow>
       'e fetch_error + instruction) \<Rightarrow>
     pubkey \<Rightarrow> pubkey \<Rightarrow> pubkey \<Rightarrow> pubkey \<Rightarrow> pubkey \<Rightarrow> pubkey list \<Rightarrow> u64 \<Rightarrow> u8 \<Rightarrow> (pubkey \<Rightarrow> 'e fetch_error + bytes option) \<Rightarrow>
     'e fetch_error + instruction" where
  "create_transfer_checked_instruction_with_extra_metas E add_metas token_program_id source_pubkey mint_pubkey destination_pubkey
       authority_pubkey signer_pubkeys amt dec fetch =
     bindE (of_program (transfer_checked E token_program_id source_pubkey mint_pubkey destination_pubkey authority_pubkey
              signer_pubkeys amt dec)) (\<lambda>ins.
     add_extra_account_metas E add_metas ins source_pubkey mint_pubkey destination_pubkey authority_pubkey amt fetch)"

section \<open>What they make the program do\<close>

text \<open>The documented contract of \<open>invoke_signed\<close> towards this program: every account that the instruction names as a
  signer must have been passed as one or be derived from the seeds; then the program runs, and takes as signers
  those that the instruction names.  \<open>derives seeds k\<close> says that the caller derives \<open>k\<close> from its seeds.\<close>

definition may_sign :: "(bytes list list \<Rightarrow> pubkey \<Rightarrow> bool) \<Rightarrow> bytes list list \<Rightarrow> account_info list \<Rightarrow> pubkey \<Rightarrow> bool" where
  "may_sign derives seeds infos k \<longleftrightarrow> derives seeds k \<or> (\<exists>ai\<in>set infos. key ai = k \<and> is_signer ai)"

definition named_signer :: "instruction \<Rightarrow> pubkey \<Rightarrow> bool" where
  "named_signer ins k \<longleftrightarrow> (\<exists>m\<in>set (i_accounts ins). meta_key m = k \<and> meta_signer m)"

definition cpi_contract :: "env \<Rightarrow> foreign \<Rightarrow> (bytes list list \<Rightarrow> pubkey \<Rightarrow> bool) \<Rightarrow> cpi_helpers \<Rightarrow> bool" where
  "cpi_contract E F derives H \<longleftrightarrow>
     (\<forall>ins infos seeds w. i_program ins = token_2022_id \<longrightarrow>
        (if signatures_present (may_sign derives seeds infos) ins
         then invoke_signed H ins infos seeds w =
           entry_point E F (i_program ins) (map (\<lambda>m. info_of (named_signer ins) (meta_key m)) (i_accounts ins)) (i_data ins) w
         else \<exists>e. invoke_signed H ins infos seeds w = Inl e))"

lemma entry_point_is_process: "entry_point E F p accounts d w = process E F p accounts d w"
  by (simp add: entry_point_def split: sum.splits)

lemma contract_runs:
  assumes "cpi_contract E F derives H" "i_program ins = token_2022_id" "signatures_present (may_sign derives seeds infos) ins"
  shows "invoke_signed H ins infos seeds w = execute E F (named_signer ins) ins w"
  using assms by (simp add: cpi_contract_def entry_point_is_process execute_def)

lemma contract_refuses:
  assumes "cpi_contract E F derives H" "i_program ins = token_2022_id" "\<not> signatures_present (may_sign derives seeds infos) ins"
  shows "\<exists>e. invoke_signed H ins infos seeds w = Inl e"
  using assms by (simp add: cpi_contract_def)

text \<open>The request that the helper of a calling program makes when the mint has no hook.\<close>

definition cpi_request :: "pubkey \<Rightarrow> pubkey \<Rightarrow> pubkey \<Rightarrow> pubkey \<Rightarrow> account_info list \<Rightarrow> u64 \<Rightarrow> u8 \<Rightarrow> instruction" where
  "cpi_request a b c k xs n d = \<lparr>i_program = token_2022_id,
     i_accounts = [meta_new a False, meta_readonly b False, meta_new c False] @ authority_metas k [] @
       map (\<lambda>ai. meta_readonly (key ai) (is_signer ai)) xs,
     i_data = pack (token_instruction.TransferChecked n d)\<rparr>"

lemma named_by_request:
  "\<forall>ai\<in>set xs. is_signer ai \<Longrightarrow> named_signer (cpi_request a b c k xs n d) = (\<lambda>x. x = k \<or> x \<in> key ` set xs)"
  by (rule ext) (auto simp: named_signer_def cpi_request_def authority_metas_def)

lemma request_signatures:
  assumes "\<forall>ai\<in>set xs. is_signer ai \<and> ai \<in> set infos"
  shows "signatures_present (may_sign derives seeds infos) (cpi_request a b c k xs n d) \<longleftrightarrow> may_sign derives seeds infos k"
  using assms by (auto simp: signatures_present_def cpi_request_def authority_metas_def may_sign_def)

lemma invoked_without_hook:
  assumes "view_unpack (PackedMint E) (data_of w b) = Inr mt" "view_hook_program_id E mt = None"
  shows "invoke_transfer_checked E H token_2022_id a b c k extra n d seeds w =
    invoke_signed H (cpi_request (key a) (key b) (key c) (key k) (filter is_signer extra) n d)
      ([a, b, c, k] @ filter is_signer extra) seeds w"
  using assms by (simp add: invoke_transfer_checked_def transfer_checked_def instruction_for_def Let_def cpi_request_def)

lemma run_request:
  assumes "\<forall>ai\<in>set xs. is_signer ai"
  shows "execute E F (named_signer (cpi_request a b c k xs n d)) (cpi_request a b c k xs n d) w =
    process_transfer E token_2022_id (map (info_of (\<lambda>x. x = k \<or> x \<in> key ` set xs)) (a # b # c # k # map key xs))
      n (Some d) None w"
  unfolding named_by_request [OF assms]
  using process_packed [of "token_instruction.TransferChecked n d" "[]" E F token_2022_id _ w]
  by (simp add: execute_def cpi_request_def authority_metas_def run_instruction_def comp_def del: pack.simps)

lemma on_chain_signatures:
  "signatures_present (may_sign derives seeds ([a, b, c, k] @ filter is_signer extra))
     (cpi_request x y z (key k) (filter is_signer extra) n d) \<longleftrightarrow>
   is_signer k \<or> derives seeds (key k) \<or> (\<exists>ai\<in>set ([a, b, c] @ extra). key ai = key k \<and> is_signer ai)"
  by (subst request_signatures) (auto simp: may_sign_def)

lemma on_chain_runs:
  assumes "cpi_contract E F derives H" "view_unpack (PackedMint E) (data_of w b) = Inr mt" "view_hook_program_id E mt = None"
    "is_signer k \<or> derives seeds (key k) \<or> (\<exists>ai\<in>set ([a, b, c] @ extra). key ai = key k \<and> is_signer ai)"
  shows "invoke_transfer_checked E H token_2022_id a b c k extra n d seeds w =
    process_transfer E token_2022_id
      (map (info_of (\<lambda>x. x = key k \<or> x \<in> key ` set (filter is_signer extra)))
        (map key ([a, b, c, k] @ filter is_signer extra))) n (Some d) None w"
proof -
  let ?ss = "filter is_signer extra"
  let ?r = "cpi_request (key a) (key b) (key c) (key k) ?ss n d"
  have "invoke_transfer_checked E H token_2022_id a b c k extra n d seeds w = execute E F (named_signer ?r) ?r w"
    unfolding invoked_without_hook [OF assms(2,3)]
    by (rule contract_runs [OF assms(1)]) (simp add: cpi_request_def, use assms(4) on_chain_signatures in blast)
  also have "\<dots> = process_transfer E token_2022_id
      (map (info_of (\<lambda>x. x = key k \<or> x \<in> key ` set ?ss)) (key a # key b # key c # key k # map key ?ss)) n (Some d) None w"
    by (rule run_request) simp
  finally show ?thesis by simp
qed

lemma on_chain_refused:
  assumes "cpi_contract E F derives H" "view_unpack (PackedMint E) (data_of w b) = Inr mt" "view_hook_program_id E mt = None"
    "\<not> (is_signer k \<or> derives seeds (key k) \<or> (\<exists>ai\<in>set ([a, b, c] @ extra). key ai = key k \<and> is_signer ai))"
  shows "\<exists>e. invoke_transfer_checked E H token_2022_id a b c k extra n d seeds w = Inl e"
  unfolding invoked_without_hook [OF assms(2,3)]
  by (rule contract_refuses [OF assms(1)]) (simp add: cpi_request_def, use assms(4) on_chain_signatures in blast)


text \<open>An ordinary mint, and a runtime for concrete calls that derives no signers.\<close>

lemma live_mint_view:
  "view_unpack (PackedMint E) (pod_mint_bytes live_mint) = Inr \<lparr>view_base = \<lparr>m_mint_authority = Some 20, m_supply = 1000,
     m_decimals = 6, m_is_initialized = True, m_freeze_authority = Some 21\<rparr>, view_tlv = []\<rparr>" (is "_ = Inr ?v")
proof -
  have z: "word_le (1 :: u32) = [1, 0, 0, 0]" "word_le (1 :: u8) = [1]"
    using word_le_le_word [of "[1, 0, 0, 0]", where 'a = 32] by (simp_all add: le_word_def word_le_u8)
  have k: "unpack_coption_key (coption_key_bytes (pod_some x)) = Inr (Some x)" for x
  proof -
    have "slice_of (coption_key_bytes (pod_some x)) 0 4 = [1, 0, 0, 0]" "slice_of (coption_key_bytes (pod_some x)) 4 36 = word_le x"
      by (simp_all add: coption_key_bytes_def pod_some_def SOME_tag_def flip: z(1))
    then show ?thesis by (simp add: unpack_coption_key_def Let_def)
  qed
  have u: "unpack_bool (word_le (1 :: u8)) = Inr True" by (simp add: unpack_bool_def z(2))
  have "mint_unpack_from_slice (pod_mint_bytes live_mint) = Inr (view_base ?v)"
    by (simp add: mint_unpack_from_slice_def Mint_LEN_def pod_mint_bytes_def live_mint_def k u)
  then show ?thesis
    by (simp add: view_unpack_def pack_unpack_def pack_unpack_unchecked_def unpack_tlv_data_def
        type_and_tlv_indices_def check_min_len_and_not_multisig_def Multisig_LEN_def PodMint_def PodMint_SIZE_OF_def)
qed

lemma no_hook_without_extensions: "view_hook_program_id E \<lparr>view_base = b, view_tlv = []\<rparr> = None"
  by (simp add: view_hook_program_id_def get_extension_bytes_def extension_range_def
      get_extension_indices_def get_extension_indices_from.simps [of _ False "[]"])

definition sample_cpi :: cpi_helpers where
  "sample_cpi = \<lparr>add_extra_accounts = (\<lambda>ins infos _ _ _ _ _ _ _ _. Inr (ins, infos)),
     invoke_signed = (\<lambda>ins infos seeds w.
       if signatures_present (may_sign (\<lambda>_ _. False) seeds infos) ins
       then entry_point sample_env sample_foreign (i_program ins)
         (map (\<lambda>m. info_of (named_signer ins) (meta_key m)) (i_accounts ins)) (i_data ins) w
       else Inl (Prog MissingRequiredSignature))\<rparr>"

lemma sample_cpi_ok: "cpi_contract sample_env sample_foreign (\<lambda>_ _. False) sample_cpi"
  by (simp add: cpi_contract_def sample_cpi_def)


text \<open>Two members of a two-of-three multisignature account may move its tokens: \<open>validate_owner\<close> accepts them.  Through
  the helper they cannot, because it asks for the signature of the multisignature account itself.\<close>

definition treasury :: world where
  "treasury = ledger (\<lambda>k. if k = 7 then pod_account_bytes (holder 30 100) else if k = 8 then pod_account_bytes (holder 31 5)
     else if k = 9 then pod_mint_bytes live_mint else if k = 30 then pod_multisig_bytes two_of_three else [])"

lemma members_accepted:
  "validate_owner sample_env token_2022_id 30 \<lparr>key = 30, is_signer = False\<rparr> (length (pod_multisig_bytes two_of_three))
     [\<lparr>key = 11, is_signer = True\<rparr>, \<lparr>key = 13, is_signer = True\<rparr>] treasury = Inr ()"
proof -
  have "{i. i < Suc (Suc (Suc 0)) \<and> ([11, 12, 13 :: pubkey] ! i = 11 \<or> [11, 12, 13 :: pubkey] ! i = 13)} = {0, 2}"
    by (auto simp: less_Suc_eq numeral_eq_Suc)
  then have "controls treasury 30 [11, 13]"
    by (simp add: controls_def treasury_def ledger_def Let_def multisig_keys_def MAX_SIGNERS_def PodMultisig_SIZE_OF_def)
  from authority_validated [OF this, of "\<lambda>k. k \<in> {11, 13}" sample_env] show ?thesis
    by (simp add: info_of_def treasury_def)
qed

lemma members_refused_on_chain:
  "\<exists>e. invoke_transfer_checked sample_env sample_cpi token_2022_id \<lparr>key = 7, is_signer = False\<rparr> \<lparr>key = 9, is_signer = False\<rparr>
     \<lparr>key = 8, is_signer = False\<rparr> \<lparr>key = 30, is_signer = False\<rparr>
     [\<lparr>key = 11, is_signer = True\<rparr>, \<lparr>key = 13, is_signer = True\<rparr>] 40 6 [] treasury = Inl e"
proof -
  have "view_unpack (PackedMint sample_env) (data_of treasury \<lparr>key = 9, is_signer = False\<rparr>) = Inr \<lparr>view_base =
    \<lparr>m_mint_authority = Some 20, m_supply = 1000, m_decimals = 6, m_is_initialized = True, m_freeze_authority = Some 21\<rparr>,
    view_tlv = []\<rparr>" by (simp add: treasury_def live_mint_view)
  from on_chain_refused [OF sample_cpi_ok this no_hook_without_extensions] show ?thesis by simp
qed

text \<open>What a client builds off-chain is the checked transfer with what the hook of the mint asks for behind it.\<close>

lemma off_chain_request:
  assumes "create_transfer_checked_instruction_with_extra_metas E add_metas token_2022_id a b c k ss n d fetch = Inr ins"
    "\<And>i i' h. add_metas i h a b c k n fetch = Inr i' \<Longrightarrow> \<exists>ms. i' = i\<lparr>i_accounts := i_accounts i @ ms\<rparr>"
  obtains ms where "i_accounts ins = [meta_new a False, meta_readonly b False, meta_new c False] @ authority_metas k ss @ ms"
    "\<And>w. execute E F has_signed ins w = process_transfer E token_2022_id
       (map (info_of has_signed) (a # b # c # k # ss @ map meta_key ms)) n (Some d) None w"
proof -
  let ?r = "\<lparr>i_program = token_2022_id, i_accounts = [meta_new a False, meta_readonly b False, meta_new c False] @ authority_metas k ss,
    i_data = pack (token_instruction.TransferChecked n d)\<rparr>"
  have "transfer_checked E token_2022_id a b c k ss n d = Inr ?r" by (simp add: transfer_checked_def instruction_for_def)
  with assms(1) have "ins = ?r \<or> (\<exists>h. add_metas ?r h a b c k n fetch = Inr ins)"
    by (auto simp: create_transfer_checked_instruction_with_extra_metas_def add_extra_account_metas_def of_program_def success_simps
        split: option.splits sum.splits)
  then obtain ms where ms: "ins = ?r\<lparr>i_accounts := i_accounts ?r @ ms\<rparr>"
  proof
    assume "ins = ?r"
    then show ?thesis using that [of "[]"] by simp
  next
    assume "\<exists>h. add_metas ?r h a b c k n fetch = Inr ins"
    then show ?thesis using assms(2) that by blast
  qed
  show ?thesis
  proof (rule that [of ms])
    show "i_accounts ins = [meta_new a False, meta_readonly b False, meta_new c False] @ authority_metas k ss @ ms"
      by (simp add: ms)
    show "execute E F has_signed ins w = process_transfer E token_2022_id
       (map (info_of has_signed) (a # b # c # k # ss @ map meta_key ms)) n (Some d) None w" for w
      using process_packed [of "token_instruction.TransferChecked n d" "[]" E F token_2022_id _ w]
      by (simp add: execute_def ms run_instruction_def comp_def del: pack.simps)
  qed
qed

end
