(* ===== verification/Serde.thy ===== *)
theory Serde
  imports Prelude
begin

text \<open>
  The helpers of \<open>src/programs/src/serialization.rs\<close>, which write keys and ciphertexts of instructions as strings of
  a self-describing format and read them back.  The format (serde's \<open>Serializer\<close> and \<open>Deserializer\<close>), base64
  and the texts of the SDK's types are parameters.
\<close>

section \<open>Formats\<close>

datatype serde_error = Invalid_Value string | Custom | Invalid_Type

text \<open>What a deserializer finds where an option is expected: the method of the visitor that it calls.\<close>

datatype 'j visit = Visit_None | Visit_Some 'j | Visit_Str string

record 'j data_format =
  serialize_none :: "serde_error + 'j"
  serialize_some :: "string \<Rightarrow> serde_error + 'j"
  serialize_str :: "string \<Rightarrow> serde_error + 'j"
  deserialize_option :: "'j \<Rightarrow> serde_error + 'j visit"
  deserialize_str :: "'j \<Rightarrow> serde_error + string"

record base64 =
  encode64 :: "bytes \<Rightarrow> string"
  decode64 :: "string \<Rightarrow> bytes option"

definition base64_to_bytes :: "base64 \<Rightarrow> nat \<Rightarrow> string \<Rightarrow> serde_error + bytes" where
  "base64_to_bytes B N v =
     bindE (ok_or Custom (decode64 B v)) (\<lambda>b. if length b \<noteq> N then Inl Custom else Inr (take N b))"

section \<open>Optional values with a text\<close>

definition coption_serialize :: "'j data_format \<Rightarrow> ('t \<Rightarrow> string) \<Rightarrow> 't option \<Rightarrow> serde_error + 'j" where
  "coption_serialize J to_string x = (case x of Some v \<Rightarrow> serialize_some J (to_string v) | None \<Rightarrow> serialize_none J)"

definition coption_visit_str :: "(string \<Rightarrow> 't option) \<Rightarrow> string \<Rightarrow> serde_error + 't option" where
  "coption_visit_str from_str v = (case from_str v of Some r \<Rightarrow> Inr (Some r) | None \<Rightarrow> Inl (Invalid_Value v))"

definition coption_visit_some :: "'j data_format \<Rightarrow> (string \<Rightarrow> 't option) \<Rightarrow> 'j \<Rightarrow> serde_error + 't option" where
  "coption_visit_some J from_str d = bindE (deserialize_str J d) (coption_visit_str from_str)"

definition coption_deserialize :: "'j data_format \<Rightarrow> (string \<Rightarrow> 't option) \<Rightarrow> 'j \<Rightarrow> serde_error + 't option" where
  "coption_deserialize J from_str d =
     bindE (deserialize_option J d) (\<lambda>seen. case seen of
       Visit_None \<Rightarrow> Inr None
     | Visit_Some e \<Rightarrow> coption_visit_some J from_str e
     | Visit_Str v \<Rightarrow> coption_visit_str from_str v)"

section \<open>Ciphertexts, keys and handles\<close>

definition SERDE_AE_CIPHERTEXT_LEN :: nat where "SERDE_AE_CIPHERTEXT_LEN = 36"
definition SERDE_ELGAMAL_PUBKEY_LEN :: nat where "SERDE_ELGAMAL_PUBKEY_LEN = 32"
definition SERDE_DECRYPT_HANDLE_LEN :: nat where "SERDE_DECRYPT_HANDLE_LEN = 32"

definition aeciphertext_serialize :: "'j data_format \<Rightarrow> (bytes \<Rightarrow> string) \<Rightarrow> bytes \<Rightarrow> serde_error + 'j" where
  "aeciphertext_serialize J to_string x = serialize_str J (to_string x)"

definition aeciphertext_deserialize :: "'j data_format \<Rightarrow> base64 \<Rightarrow> 'j \<Rightarrow> serde_error + bytes" where
  "aeciphertext_deserialize J B d = bindE (deserialize_str J d) (base64_to_bytes B SERDE_AE_CIPHERTEXT_LEN)"

definition elgamalpubkey_serialize :: "'j data_format \<Rightarrow> (bytes \<Rightarrow> string) \<Rightarrow> bytes \<Rightarrow> serde_error + 'j" where
  "elgamalpubkey_serialize J to_string x = serialize_str J (to_string x)"

definition elgamalpubkey_deserialize :: "'j data_format \<Rightarrow> base64 \<Rightarrow> 'j \<Rightarrow> serde_error + bytes" where
  "elgamalpubkey_deserialize J B d = bindE (deserialize_str J d) (base64_to_bytes B SERDE_ELGAMAL_PUBKEY_LEN)"

definition decrypthandle_serialize :: "'j data_format \<Rightarrow> base64 \<Rightarrow> bytes \<Rightarrow> serde_error + 'j" where
  "decrypthandle_serialize J B x = serialize_str J (encode64 B x)"

definition decrypthandle_deserialize :: "'j data_format \<Rightarrow> base64 \<Rightarrow> 'j \<Rightarrow> serde_error + bytes" where
  "decrypthandle_deserialize J B d = bindE (deserialize_str J d) (base64_to_bytes B SERDE_DECRYPT_HANDLE_LEN)"

section \<open>Round trips\<close>

text \<open>The documented contracts: a format gives back what was written, base64 decodes what it encoded.\<close>

definition format_ok :: "'j data_format \<Rightarrow> bool" where
  "format_ok J \<longleftrightarrow> (\<forall>j. serialize_none J = Inr j \<longrightarrow> deserialize_option J j = Inr Visit_None) \<and>
     (\<forall>s j. serialize_some J s = Inr j \<longrightarrow> (\<exists>d. deserialize_option J j = Inr (Visit_Some d) \<and> deserialize_str J d = Inr s)) \<and>
     (\<forall>s j. serialize_str J s = Inr j \<longrightarrow> deserialize_str J j = Inr s)"

definition base64_ok :: "base64 \<Rightarrow> bool" where
  "base64_ok B \<longleftrightarrow> (\<forall>b. decode64 B (encode64 B b) = Some b)"

lemma format_reads:
  assumes "format_ok J"
  shows "serialize_none J = Inr j \<Longrightarrow> deserialize_option J j = Inr Visit_None"
    "serialize_some J s = Inr j \<Longrightarrow> \<exists>d. deserialize_option J j = Inr (Visit_Some d) \<and> deserialize_str J d = Inr s"
    "serialize_str J s = Inr j \<Longrightarrow> deserialize_str J j = Inr s"
  using assms unfolding format_ok_def by blast+

lemma base64_to_bytes_iff: "base64_to_bytes B N v = Inr b \<longleftrightarrow> decode64 B v = Some b \<and> length b = N"
  by (auto simp: base64_to_bytes_def ok_or_def split: option.splits)

lemma base64_to_bytes_encoded: "base64_ok B \<Longrightarrow> base64_to_bytes B (length b) (encode64 B b) = Inr b"
  by (simp add: base64_to_bytes_iff base64_ok_def)

lemma coption_roundtrip:
  assumes "format_ok J" "\<And>v. from_str (to_string v) = Some v" "coption_serialize J to_string x = Inr j"
  shows "coption_deserialize J from_str j = Inr x"
proof (cases x)
  case None
  with assms(3) format_reads(1) [OF assms(1)] show ?thesis by (simp add: coption_serialize_def coption_deserialize_def)
next
  case (Some v)
  with assms(3) obtain d where "deserialize_option J j = Inr (Visit_Some d)" "deserialize_str J d = Inr (to_string v)"
    using format_reads(2) [OF assms(1)] by (auto simp: coption_serialize_def)
  then show ?thesis by (simp add: coption_deserialize_def coption_visit_some_def coption_visit_str_def assms(2) Some)
qed

text \<open>A ciphertext, key or handle of the right length survives when the SDK prints it in base64; nothing else is read.\<close>

lemma sdk_values_roundtrip:
  assumes "format_ok J" "base64_ok B"
  shows "aeciphertext_serialize J (encode64 B) x = Inr j \<Longrightarrow> length x = 36 \<Longrightarrow> aeciphertext_deserialize J B j = Inr x"
    "elgamalpubkey_serialize J (encode64 B) x = Inr j \<Longrightarrow> length x = 32 \<Longrightarrow> elgamalpubkey_deserialize J B j = Inr x"
    "decrypthandle_serialize J B x = Inr j \<Longrightarrow> length x = 32 \<Longrightarrow> decrypthandle_deserialize J B j = Inr x"
  using format_reads(3) [OF assms(1)] base64_to_bytes_encoded [OF assms(2), of x]
  by (simp_all add: aeciphertext_serialize_def aeciphertext_deserialize_def elgamalpubkey_serialize_def
      elgamalpubkey_deserialize_def decrypthandle_serialize_def decrypthandle_deserialize_def
      SERDE_AE_CIPHERTEXT_LEN_def SERDE_ELGAMAL_PUBKEY_LEN_def SERDE_DECRYPT_HANDLE_LEN_def)

lemma sdk_values_length:
  "aeciphertext_deserialize J B j = Inr x \<Longrightarrow> length x = 36"
  "elgamalpubkey_deserialize J B j = Inr x \<Longrightarrow> length x = 32"
  "decrypthandle_deserialize J B j = Inr x \<Longrightarrow> length x = 32"
  by (auto simp: aeciphertext_deserialize_def elgamalpubkey_deserialize_def decrypthandle_deserialize_def success_simps
      base64_to_bytes_iff SERDE_AE_CIPHERTEXT_LEN_def SERDE_ELGAMAL_PUBKEY_LEN_def SERDE_DECRYPT_HANDLE_LEN_def)

text \<open>A format for concrete runs, in which null and strings are all there is, and a plain encoding.\<close>

datatype json = Null | Str string

definition json_format :: "json data_format" where
  "json_format = \<lparr>serialize_none = Inr Null, serialize_some = Inr \<circ> Str, serialize_str = Inr \<circ> Str,
     deserialize_option = (\<lambda>j. case j of Null \<Rightarrow> Inr Visit_None | Str s \<Rightarrow> Inr (Visit_Some (Str s))),
     deserialize_str = (\<lambda>j. case j of Null \<Rightarrow> Inl Invalid_Type | Str s \<Rightarrow> Inr s)\<rparr>"

lemma json_format_ok: "format_ok json_format"
  by (simp add: format_ok_def json_format_def)

definition byte_text :: base64 where
  "byte_text = \<lparr>encode64 = map (\<lambda>b. char_of (unat b)), decode64 = (\<lambda>s. Some (map (\<lambda>c. word_of_nat (of_char c)) s))\<rparr>"

lemma byte_text_ok: "base64_ok byte_text"
proof -
  have "unat b < 2 ^ LENGTH(8)" for b :: u8 by (rule unsigned_less)
  then have "unat b mod 256 = unat b" for b :: u8 by simp
  then show ?thesis by (simp add: base64_ok_def byte_text_def comp_def)
qed

lemma serde_sample:
  "coption_deserialize json_format (\<lambda>s. if s = ''1'' then Some (1 :: nat) else None) (Str ''1'') = Inr (Some 1)"
  "coption_deserialize json_format (\<lambda>s. if s = ''1'' then Some (1 :: nat) else None) (Str ''x'') = Inl (Invalid_Value ''x'')"
  "decrypthandle_deserialize json_format byte_text (Str ''abc'') = Inl Custom"
  by (simp_all add: coption_deserialize_def coption_visit_some_def coption_visit_str_def json_format_def
      decrypthandle_deserialize_def byte_text_def base64_to_bytes_def SERDE_DECRYPT_HANDLE_LEN_def)

end
