(* ===== verification/Spec2Isabelle.thy ===== *)
theory Spec2Isabelle
  imports Conservation Confidential_Fee_Value Client_Sync Tlv_Loop Confidential_Builders Interest
    On_Chain Serde
begin

text \<open>
  A verification library for the Token-2022 program, \<open>src/programs/src\<close>.

  The program keeps no state of its own: it is called with a list of accounts and a byte string, reads and
  rewrites the bytes of the accounts it owns, and returns success or an error.  An account holds a mint, a
  token account or a multisig; a mint or a token account may be followed by extensions, a buffer of
  type-length-value entries.  An instruction that fails is rolled back by the runtime.  The model follows
  that structure.

  \<^bold>\<open>The world\<close> (theory Runtime).  A \<open>world\<close> maps each key to its lamports, owner and bytes;
  a handler takes a world and returns \<open>Inr\<close> a new one or \<open>Inl\<close> an error.  Two accounts
  of an instruction with the same key are the same cell, so aliasing is modelled; bytes are the bytes of the
  source, so every property about a field is a property about the encoding.  A record \<open>env\<close> holds what
  the program calls and this repository does not contain: sysvars, \<open>AccountInfo::realloc\<close>, the system
  program, the programs of transfer hooks, the \<open>PodBool\<close> of the pod library and the zero-knowledge
  structs.  The hypotheses \<open>pod_bool_ok\<close>, \<open>realloc_ok\<close>, \<open>system_contract\<close> and
  \<open>cpi_preserves\<close> state their documented behaviour; \<open>sample_env\<close> satisfies all of them and
  is what the witnesses run on.

  \<^bold>\<open>Data.\<close>
  Errors: \<open>error.rs\<close>.
  Pod, State: the records of \<open>pod.rs\<close> and \<open>state.rs\<close> with their byte layouts.
  Extension\_Types: \<open>ExtensionType\<close>, \<open>AccountType\<close> and the length computations of
  \<open>extension/mod.rs\<close>.
  Tlv: the walk over the entries of a buffer and its lookup, allocation and reallocation, on bytes.
  Packed\_State: the other readings of an account, over packed and zero-copy bases, which all agree; their contract is the
  locale \<open>packed_laws\<close>.
  Tlv\_Map: a buffer refines a finite map from extension types to values.
  Extension\_State: \<open>PodStateWithExtensions\<close> over either base.  A record of operations stands for the trait of
  the base and one for the trait of an extension; the locales \<open>base_state_laws\<close>,
  \<open>extension_laws\<close>, \<open>total_extension\<close> and \<open>extension_of_state\<close> are the contracts,
  interpreted on both bases and on every extension (Extensions).
  Transfer\_Fee: the arithmetic of \<open>TransferFeeConfig\<close> on 64- and 128-bit words.

  \<^bold>\<open>Handlers\<close>, one definition per handler and per part of it that the source repeats.
  Signers: \<open>Processor::validate_owner\<close>, multisignatures included.
  Processor\_Base, Initialize, Token\_Transfer, Authority, Supply, Lifecycle: \<open>processor.rs\<close>.
  Fee\_Processor, Extension\_Processors, Reallocate: the processors under \<open>extension/\<close>.
  Variable\_Len: writing an extension of variable length, which moves the entries behind it and grows or shrinks
  the account; Token\_Interfaces: token metadata and token groups, \<open>extension/token_metadata\<close> and
  \<open>extension/token_group\<close>, over a record \<open>token_interfaces\<close> of what the interface crates
  define (their structs, encodings and errors) with the contract \<open>interfaces_ok\<close>.
  Ui\_Amount: the decimal strings of \<open>lib.rs\<close> and the two instructions that use them.
  Interest: the amounts of interest-bearing mints over a record of floating-point operations; their properties are those
  of the formulas, over the real numbers.

  \<^bold>\<open>Confidential transfers\<close>, \<open>extension/confidential_transfer\<close> and
  \<open>extension/confidential_transfer_fee\<close>.  Ciphertexts, points and proofs are byte strings; a record
  \<open>zk\<close> holds the functions of the SDK that the program calls: how contexts are read, the arithmetic on
  ciphertexts and points, the closing of context accounts.
  Zk: \<open>verify_proof.rs\<close> and \<open>ciphertext_extraction.rs\<close>: where the context of a proof comes
  from, the parts of grouped ciphertexts, and whether split proofs belong together.
  Confidential, Confidential\_Fee: the two processors.  Confidential\_Dispatch: their instructions, the layouts of
  their data, and the dispatch.
  Confidential\_Balance: the value of a confidential balance for an arbitrary decryption function under which the
  arithmetic of the SDK is the arithmetic of plaintexts (\<open>additive\<close>).  Confidential\_Value and
  Confidential\_Fee\_Value show what the handlers do to that value, Confidential\_Proofs what is established when
  split proofs are accepted (for every homomorphism of the group of points, \<open>point_homomorphism\<close>).
  Confidential\_Sample: the ledger their witnesses run on, with the concrete SDK \<open>sample_zk\<close>.

  \<^bold>\<open>Wire format and dispatch.\<close>
  Instruction: \<open>TokenInstruction\<close> and \<open>TransferFeeInstruction\<close>, packing and unpacking.
  Pod\_Instruction: the decoders that the program itself uses.
  Dispatch: \<open>Processor::process\<close> and the \<open>process_instruction\<close> of the extensions.

  \<^bold>\<open>Clients.\<close>
  Builders: the functions of \<open>instruction.rs\<close> that make an instruction; Extension\_Builders and
  Confidential\_Builders: those of the extensions.  \<open>execute\<close> runs the dispatcher on what was built, with
  the accounts the runtime passes for it; a request \<open>asks_for\<close> a handler when it can be built and makes the
  program run that handler on the accounts and arguments that were given.  A transfer is followed from the
  request of a client to its success, for single and for multisignature owners.  One builder is wrong: the confidential
  \<open>transfer_with_fee\<close> swaps the mint and the destination, and what it builds always fails.
  On\_Chain: the entry point, the helper of \<open>onchain.rs\<close> with which another program makes this one transfer, over the
  contract \<open>cpi_contract\<close> of \<open>invoke_signed\<close>, and the one of \<open>offchain.rs\<close>.  The helper serves
  single authorities; one that is a multisignature account is refused unless that account signs itself.
  Confidential\_Client: what an owner of confidential tokens computes, \<open>account_info.rs\<close> of both confidential
  extensions and \<open>split_proof_generation.rs\<close>, over a record of the functions of the SDK that encrypt, decrypt and prove.
  Client\_Sync puts client and program together: the balance that the client keeps for itself stays the one that the
  program keeps encrypted, and the program takes the split proofs of the client as one transfer.
  Serde: the helpers of \<open>serialization.rs\<close>, which read back what they write.

  \<^bold>\<open>The ledger.\<close>
  Ledger defines the balance of a mint: its supply minus the withheld fees in it minus what its accounts hold.
  Ledger\_Steps, Ledger\_Updates and Ledger\_Flows show for one handler after the other that the balance of
  every mint stays zero; Confidential\_Ledger does the same for the confidential handlers, of which a deposit takes
  tokens out of the plain amounts and a withdrawal brings them back, and Interface\_Ledger for the interfaces.
  Conservation puts them together: a step relation for everything that can happen on the chain, the reachable
  worlds, and the conservation of tokens in them: the supply of a mint is what is withheld in it, what its accounts
  hold, and the net confidential deposits of the run.

  \<^bold>\<open>What is shown.\<close>
  Per handler: what a success means (which fields change and how, and that nothing else does), who must have
  consented, and, for transfers, that an entitled owner succeeds.  Consent is the abstract notion
  \<open>consents\<close> of Signers, which \<open>validate_owner\<close> is equivalent to.  For data: layouts and
  round trips, the separation of mints from token accounts, TLV buffers as maps.  For arithmetic: fees rounded
  up and capped, the inverse fee least, rates averaged without overflow.  For the wire: the two decoders agree
  with each other, with the encoder and with the builders of clients.  For the whole: conservation.

  \<^bold>\<open>Machine arithmetic.\<close> Words keep the width of the source; \<open>checked_add\<close> and its
  relatives return an option, and a plain \<open>+\<close> that cannot overflow is proved not to.  A slice
  out of range, an unwrapped \<open>None\<close> and the other panics are errors of their own.  All loops are structural
  or have a termination proof (the TLV walk decreases the length of the rest), so no fuel is used; Tlv\_Loop shows that
  the walk as a \<open>while\<close> loop returns the same within one iteration for every four bytes and one more.

  \<^bold>\<open>Not modelled.\<close>
  The rounding of floating-point numbers: the operations of \<open>f64\<close> are parameters.
  The proofs and the cryptography themselves; that a proof which verifies is true is not stated anywhere, only what
  the program makes of its context.  Encryption, decryption and the generation of proofs for clients are parameters.
  The derived serde traits of the structs, the expectation texts of the visitors, log messages, the printing of errors, compute
  budgets and the tests, which are a large part of the source files.
\<close>

end
